(* ===== verification/Prelude.thy ===== *)
theory Prelude
  imports Main "HOL-Library.Word" "HOL-Library.While_Combinator"
begin

text \<open>
  Shared vocabulary of the development: the machine integers of the C code, the computation
  type in which every handler is written (a state transformer that can stop early, where
  stopping early stands for undefined behaviour, a CPU trap, a reset or a loop that never
  ends), its weakest-precondition rules, little-endian encoding of integers, and the
  reading and overwriting of byte buffers.
\<close>

unbundle bit_operations_syntax

type_synonym u8 = "8 word"
type_synonym u16 = "16 word"
type_synonym u32 = "32 word"
type_synonym u64 = "64 word"

named_theorems run_simps "evaluation of computations"
named_theorems wp_simps "weakest preconditions of computations"
named_theorems buf_simps "reading and overwriting buffers"


section \<open>Computations\<close>

text \<open>
  \<open>Done a s\<close> is a normal return with value \<open>a\<close>. \<open>Stop e s\<close> is the end of the run: the
  reason \<open>e\<close> and the state reached when it happened. Nothing that follows is executed.
\<close>

datatype ('e, 'a, 's) outcome = Done 'a 's | Stop 'e 's

type_synonym ('s, 'e, 'a) comp = "'s \<Rightarrow> ('e, 'a, 's) outcome"

definition ret :: "'a \<Rightarrow> ('s, 'e, 'a) comp" where
  "ret x = (\<lambda>s. Done x s)"

definition stop :: "'e \<Rightarrow> ('s, 'e, 'a) comp" where
  "stop e = (\<lambda>s. Stop e s)"

definition bind :: "('s, 'e, 'a) comp \<Rightarrow> ('a \<Rightarrow> ('s, 'e, 'b) comp) \<Rightarrow> ('s, 'e, 'b) comp" where
  "bind m f = (\<lambda>s. case m s of Done a t \<Rightarrow> f a t | Stop e t \<Rightarrow> Stop e t)"

definition gets :: "('s \<Rightarrow> 'a) \<Rightarrow> ('s, 'e, 'a) comp" where
  "gets f = (\<lambda>s. Done (f s) s)"

definition modify :: "('s \<Rightarrow> 's) \<Rightarrow> ('s, 'e, unit) comp" where
  "modify f = (\<lambda>s. Done () (f s))"

definition require :: "'e \<Rightarrow> bool \<Rightarrow> ('s, 'e, unit) comp" where
  "require e b = (\<lambda>s. if b then Done () s else Stop e s)"

definition from_option :: "'e \<Rightarrow> 'a option \<Rightarrow> ('s, 'e, 'a) comp" where
  "from_option e x = (\<lambda>s. case x of Some a \<Rightarrow> Done a s | None \<Rightarrow> Stop e s)"

text \<open>A C loop \<open>for (i = 0; i < n; i++) body(i)\<close> whose body cannot change \<open>i\<close>.\<close>

fun for_each :: "'i list \<Rightarrow> ('i \<Rightarrow> ('s, 'e, unit) comp) \<Rightarrow> ('s, 'e, unit) comp" where
  "for_each [] body = ret ()"
| "for_each (i # is) body = bind (body i) (\<lambda>_. for_each is body)"

lemma ret_run [run_simps]: "ret x s = Done x s"
  by (simp add: ret_def)

lemma stop_run [run_simps]: "stop e s = Stop e s"
  by (simp add: stop_def)

lemma gets_run [run_simps]: "gets f s = Done (f s) s"
  by (simp add: gets_def)

lemma modify_run [run_simps]: "modify f s = Done () (f s)"
  by (simp add: modify_def)

lemma require_run [run_simps]: "require e b s = (if b then Done () s else Stop e s)"
  by (simp add: require_def)

lemma from_option_run [run_simps]:
  "from_option e (Some a) s = Done a s" "from_option e None s = Stop e s"
  by (simp_all add: from_option_def)

lemma bind_run [run_simps]:
  "bind m f s = (case m s of Done a t \<Rightarrow> f a t | Stop e t \<Rightarrow> Stop e t)"
  by (simp add: bind_def)

lemma bind_Done_iff:
  "bind m f s = Done b u \<longleftrightarrow> (\<exists>a t. m s = Done a t \<and> f a t = Done b u)"
  by (simp add: bind_def split: outcome.splits)

lemma bind_assoc: "bind (bind m f) g = bind m (\<lambda>a. bind (f a) g)"
  by (auto simp: bind_def fun_eq_iff split: outcome.splits)

lemma bind_ret_left: "bind (ret x) f = f x"
  by (simp add: bind_def ret_def)

lemma bind_ret_right [simp]: "bind m ret = m"
  by (auto simp: bind_def ret_def fun_eq_iff split: outcome.splits)

lemma for_each_append:
  "for_each (xs @ ys) body = bind (for_each xs body) (\<lambda>_. for_each ys body)"
  by (induction xs) (simp_all add: bind_ret_left bind_assoc)


subsection \<open>Weakest preconditions\<close>

text \<open>
  \<open>wp m Q E s\<close>: from \<open>s\<close>, either \<open>m\<close> returns normally and \<open>Q\<close> holds of the value and the
  new state, or it stops and \<open>E\<close> holds of the reason and the state. With \<open>E\<close> false this is
  total correctness: the code returns and has no undefined behaviour.
\<close>

definition wp :: "('s, 'e, 'a) comp \<Rightarrow> ('a \<Rightarrow> 's \<Rightarrow> bool) \<Rightarrow> ('e \<Rightarrow> 's \<Rightarrow> bool) \<Rightarrow> 's \<Rightarrow> bool" where
  "wp m Q E s = (case m s of Done a t \<Rightarrow> Q a t | Stop e t \<Rightarrow> E e t)"

lemma wp_ret [wp_simps]: "wp (ret x) Q E s = Q x s"
  by (simp add: wp_def ret_def)

lemma wp_stop [wp_simps]: "wp (stop e) Q E s = E e s"
  by (simp add: wp_def stop_def)

lemma wp_gets [wp_simps]: "wp (gets f) Q E s = Q (f s) s"
  by (simp add: wp_def gets_def)

lemma wp_modify [wp_simps]: "wp (modify f) Q E s = Q () (f s)"
  by (simp add: wp_def modify_def)

lemma wp_require [wp_simps]:
  "wp (require e b) Q E s = ((b \<longrightarrow> Q () s) \<and> (\<not> b \<longrightarrow> E e s))"
  by (simp add: wp_def require_def)

lemma wp_from_option [wp_simps]:
  "wp (from_option e x) Q E s = (case x of Some a \<Rightarrow> Q a s | None \<Rightarrow> E e s)"
  by (simp add: wp_def from_option_def split: option.splits)

lemma wp_bind [wp_simps]: "wp (bind m f) Q E s = wp m (\<lambda>a. wp (f a) Q E) E s"
  by (simp add: wp_def bind_def split: outcome.splits)

lemma wp_if [wp_simps]:
  "wp (if b then m else n) Q E s = ((b \<longrightarrow> wp m Q E s) \<and> (\<not> b \<longrightarrow> wp n Q E s))"
  by simp

lemma wp_mono:
  assumes "wp m Q E s"
    and "\<And>a t. Q a t \<Longrightarrow> Q' a t" and "\<And>e t. E e t \<Longrightarrow> E' e t"
  shows "wp m Q' E' s"
  using assms by (auto simp: wp_def split: outcome.splits)

lemma wp_Done: "m s = Done a t \<Longrightarrow> wp m Q E s = Q a t"
  by (simp add: wp_def)

lemma wp_step: "m s = Done a t \<Longrightarrow> Q a t \<Longrightarrow> wp m Q E s"
  by (simp add: wp_def)

lemma wp_Stop: "m s = Stop e t \<Longrightarrow> wp m Q E s = E e t"
  by (simp add: wp_def)

lemma wp_DoneD: "wp m Q E s \<Longrightarrow> m s = Done a t \<Longrightarrow> Q a t"
  by (simp add: wp_def)

lemma wp_StopD: "wp m Q E s \<Longrightarrow> m s = Stop e t \<Longrightarrow> E e t"
  by (simp add: wp_def)

lemma wp_total_returns: "wp m Q (\<lambda>_ _. False) s \<Longrightarrow> \<exists>a t. m s = Done a t \<and> Q a t"
  by (auto simp: wp_def split: outcome.splits)

lemma wp_total_stops: "wp m (\<lambda>_ _. False) E s \<Longrightarrow> \<exists>e t. m s = Stop e t \<and> E e t"
  by (auto simp: wp_def split: outcome.splits)

text \<open>The loop rule: an invariant of the body is an invariant of the loop.\<close>

lemma wp_for_each_inv:
  assumes "I s" and "\<And>i t. i \<in> set is \<Longrightarrow> I t \<Longrightarrow> wp (body i) (\<lambda>_. I) E t"
  shows "wp (for_each is body) (\<lambda>_. I) E s"
  using assms
proof (induction "is" arbitrary: s)
  case Nil
  then show ?case by (simp add: wp_simps)
next
  case (Cons i "is")
  have "wp (body i) (\<lambda>_. I) E s" using Cons.prems by simp
  then show ?case
    unfolding for_each.simps wp_bind
    by (rule wp_mono) (use Cons in auto)
qed

text \<open>A loop over \<open>0 ..< n\<close> with an invariant that mentions the index.\<close>

lemma wp_for_each_upt:
  assumes "I 0 s" and step: "\<And>i t. i < n \<Longrightarrow> I i t \<Longrightarrow> wp (body i) (\<lambda>_. I (Suc i)) E t"
  shows "wp (for_each [0 ..< n] body) (\<lambda>_. I n) E s"
  using step
proof (induction n)
  case 0
  then show ?case using assms(1) by (simp add: wp_simps)
next
  case (Suc n)
  have "wp (for_each [0 ..< n] body) (\<lambda>_. I n) E s" using Suc by simp
  then have "wp (for_each [0 ..< n] body) (\<lambda>_. wp (body n) (\<lambda>_. I (Suc n)) E) E s"
    by (rule wp_mono) (use Suc.prems in auto)
  then show ?case by (simp add: for_each_append wp_bind)
qed


section \<open>Words and natural numbers\<close>

lemma unat_of_nat_small: "n < 2 ^ LENGTH('a::len) \<Longrightarrow> unat (of_nat n :: 'a word) = n"
  by (simp add: unat_of_nat)

lemma unat_of_nat_u64 [simp]: "n < 18446744073709551616 \<Longrightarrow> unat (of_nat n :: u64) = n"
  by (simp add: unat_of_nat)

lemma unat_of_nat_u32 [simp]: "n < 4294967296 \<Longrightarrow> unat (of_nat n :: u32) = n"
  by (simp add: unat_of_nat)

lemma ucast_of_nat_u32 [simp]: "(ucast (of_nat n :: u64) :: u32) = of_nat n"
  by (simp add: unsigned_of_nat word_of_nat_eq_iff)

lemma u32_bound [simp]: "unat (x :: u32) < 4294967296"
proof -
  have "unat x < 2 ^ LENGTH(32)" by (rule unsigned_less)
  then show ?thesis by (simp del: unsigned_less)
qed

lemma u64_bound [simp]: "unat (x :: u64) < 18446744073709551616"
proof -
  have "unat x < 2 ^ LENGTH(64)" by (rule unsigned_less)
  then show ?thesis by (simp del: unsigned_less)
qed


lemma unat_ucast_u64 [simp]: "unat (ucast (x :: u32) :: u64) = unat x"
  using order.strict_trans [OF u32_bound [of x], of 18446744073709551616]
  by (simp add: unsigned_ucast_eq take_bit_nat_eq_self_iff)


section \<open>Little-endian integers\<close>

primrec le_bytes :: "nat \<Rightarrow> 'a::len word \<Rightarrow> u8 list" where
  "le_bytes 0 x = []"
| "le_bytes (Suc n) x = ucast x # le_bytes n (drop_bit 8 x)"

primrec le_word :: "u8 list \<Rightarrow> 'a::len word" where
  "le_word [] = 0"
| "le_word (b # bs) = ucast b OR push_bit 8 (le_word bs)"

lemma length_le_bytes [simp]: "length (le_bytes n x) = n"
  by (induction n arbitrary: x) auto

lemma le_word_le_bytes_take: "le_word (le_bytes n x) = take_bit (8 * n) x"
proof (induction n arbitrary: x)
  case 0
  then show ?case by simp
next
  case (Suc n)
  show ?case
    by (rule bit_word_eqI) (auto simp: Suc bit_simps)
qed

lemma le_word_le_bytes:
  fixes x :: "'a::len word"
  assumes "LENGTH('a) \<le> 8 * n"
  shows "le_word (le_bytes n x) = x"
  unfolding le_word_le_bytes_take
  using assms by (simp add: take_bit_word_eq_self)

lemma le_bytes_le_word:
  assumes "8 * length bs \<le> LENGTH('a::len)"
  shows "le_bytes (length bs) (le_word bs :: 'a word) = bs"
  using assms
proof (induction bs)
  case Nil
  then show ?case by simp
next
  case (Cons b bs)
  let ?w = "le_word bs :: 'a word"
  have len: "8 * length bs + 8 \<le> LENGTH('a)" using Cons.prems by simp
  have lo: "ucast (ucast b OR push_bit 8 ?w :: 'a word) = b"
    using len by (intro bit_word_eqI) (auto simp: bit_simps)
  have small: "take_bit (8 * length bs) ?w = ?w"
    by (metis Cons.IH add_leD1 le_word_le_bytes_take len)
  have hi: "drop_bit 8 (ucast b OR push_bit 8 ?w :: 'a word) = ?w"
  proof (rule bit_word_eqI)
    fix n assume n: "n < LENGTH('a)"
    have *: "bit ?w n \<Longrightarrow> n < 8 * length bs"
      by (metis small bit_take_bit_iff)
    show "bit (drop_bit 8 (ucast b OR push_bit 8 ?w :: 'a word)) n = bit ?w n"
      using n len * by (auto simp: bit_simps dest: bit_imp_le_length)
  qed
  show ?case
    by (simp only: length_Cons le_bytes.simps le_word.simps lo hi) (use Cons.IH len in simp)
qed

text \<open>The laws of a fixed-width codec, and what a client of one relies on.\<close>

locale codec =
  fixes enc :: "'a \<Rightarrow> u8 list" and dec :: "u8 list \<Rightarrow> 'a" and width :: nat
  assumes enc_width: "length (enc x) = width"
    and dec_enc: "dec (enc x) = x"
begin

lemma enc_inject: "enc x = enc y \<longleftrightarrow> x = y"
  by (metis dec_enc)

lemma dec_prefix: "dec (take width (enc x @ rest)) = x"
  by (simp add: enc_width dec_enc)

lemma enc_concat_split:
  assumes "enc x @ xs = enc y @ ys"
  shows "x = y \<and> xs = ys"
proof -
  have "enc x = enc y \<and> xs = ys"
    using assms by (simp add: append_eq_append_conv enc_width)
  then show ?thesis by (simp add: enc_inject)
qed

lemma drop_enc_concat: "drop (width * length xs) (concat (map enc (xs @ ys))) = concat (map enc ys)"
proof -
  have "length (concat (map enc xs)) = width * length xs"
    by (induction xs) (simp_all add: enc_width)
  then show ?thesis by simp
qed

end

interpretation u16c: codec "le_bytes 2 :: u16 \<Rightarrow> u8 list" le_word 2
  by unfold_locales (simp_all add: le_word_le_bytes)

interpretation u32c: codec "le_bytes 4 :: u32 \<Rightarrow> u8 list" le_word 4
  by unfold_locales (simp_all add: le_word_le_bytes)

interpretation u64c: codec "le_bytes 8 :: u64 \<Rightarrow> u8 list" le_word 8
  by unfold_locales (simp_all add: le_word_le_bytes)


section \<open>Buffers\<close>

text \<open>
  An object of the C program (an array, an allocated block) is the list of its elements.
  \<open>slice\<close> reads \<open>n\<close> elements at an offset, \<open>overwrite\<close> replaces the elements from an offset
  on; the callers check the bounds.
\<close>

definition slice :: "nat \<Rightarrow> nat \<Rightarrow> 'a list \<Rightarrow> 'a list" where
  "slice off n b = take n (drop off b)"

definition overwrite :: "nat \<Rightarrow> 'a list \<Rightarrow> 'a list \<Rightarrow> 'a list" where
  "overwrite off xs b = take off b @ xs @ drop (off + length xs) b"

lemma length_slice [simp]: "off + n \<le> length b \<Longrightarrow> length (slice off n b) = n"
  by (simp add: slice_def)

lemma length_overwrite [simp]:
  "off + length xs \<le> length b \<Longrightarrow> length (overwrite off xs b) = length b"
  by (simp add: overwrite_def)

lemma slice_overwrite_same [buf_simps]:
  "off + length xs \<le> length b \<Longrightarrow> n = length xs \<Longrightarrow> slice off n (overwrite off xs b) = xs"
  by (simp add: slice_def overwrite_def)

lemma slice_overwrite_other:
  assumes "off' + n \<le> off \<or> off + length xs \<le> off'" and "off + length xs \<le> length b"
  shows "slice off' n (overwrite off xs b) = slice off' n b"
  using assms(1)
proof
  assume le: "off' + n \<le> off"
  have "drop off' (overwrite off xs b) = take (off - off') (drop off' b) @ xs @ drop (off + length xs) b"
    using le assms(2) by (simp add: overwrite_def drop_take)
  moreover have "n \<le> off - off'" "off - off' \<le> length b - off'" using le assms(2) by simp_all
  ultimately show ?thesis by (simp add: slice_def min_absorb1)
next
  assume "off + length xs \<le> off'"
  then show ?thesis using assms(2) by (simp add: slice_def overwrite_def)
qed

lemma nth_overwrite:
  "off + length xs \<le> length b \<Longrightarrow> i < length b \<Longrightarrow>
   overwrite off xs b ! i = (if off \<le> i \<and> i < off + length xs then xs ! (i - off) else b ! i)"
  by (auto simp: overwrite_def nth_append min_def)

lemma slice_slice: "off2 + n2 \<le> n \<Longrightarrow> slice off2 n2 (slice off n b) = slice (off + off2) n2 b"
  by (simp add: slice_def drop_take add.commute)

lemma nth_slice: "i < n \<Longrightarrow> off + n \<le> length b \<Longrightarrow> slice off n b ! i = b ! (off + i)"
  by (simp add: slice_def)

lemma slice_take: "off + n \<le> m \<Longrightarrow> slice off n (take m b) = slice off n b"
  by (simp add: slice_def drop_take)

lemma take_overwrite_0 [buf_simps]:
  "n = length xs \<Longrightarrow> take n (overwrite 0 xs b) = xs"
  by (simp add: overwrite_def)

lemma overwrite_ascending [buf_simps]:
  assumes "off2 = off + length xs" and "off + length xs + length ys \<le> length b"
  shows "overwrite off2 ys (overwrite off xs b) = overwrite off (xs @ ys) b"
  using assms by (simp add: overwrite_def ac_simps)

lemma overwrite_descending [buf_simps]:
  assumes "off2 = off + length xs" and "off + length xs + length ys \<le> length b"
  shows "overwrite off xs (overwrite off2 ys b) = overwrite off (xs @ ys) b"
  using assms by (simp add: overwrite_def min_def ac_simps)

lemma overwrite_again [buf_simps]:
  assumes "length xs = length ys" and "off + length ys \<le> length b"
  shows "overwrite off xs (overwrite off ys b) = overwrite off xs b"
  using assms by (cases ys) (auto simp: overwrite_def min_def)

lemma overwrite_inside:
  assumes "off + length xs \<le> length ys" and "length ys \<le> length b"
  shows "overwrite off xs (overwrite 0 ys b) = overwrite 0 (overwrite off xs ys) b"
  using assms by (simp add: overwrite_def)

lemma overwrite_Nil [simp]: "overwrite off [] b = b"
  by (simp add: overwrite_def)

lemma slice_0 [simp]: "slice 0 n b = take n b"
  by (simp add: slice_def)

end
