(* ===== verification/Machine.thy ===== *)
theory Machine
  imports Prelude
begin

text \<open>
  The data of the program (the structures of \<^verbatim>\<open>handlers/cores.h\<close>, \<^verbatim>\<open>handlers/ucode.h\<close>,
  \<^verbatim>\<open>handlers/ucode_execute.h\<close>, \<^verbatim>\<open>asr/*.h\<close>, \<^verbatim>\<open>system/fault_handling.h\<close>), its global state,
  and the platform it runs on. The platform is everything that is not under \<^verbatim>\<open>src/\<close>: the UEFI
  boot services and protocols, the CPU, and the machine code that clients send. It is a record
  of functions over an unknown world \<open>'w\<close> and a parameter of every definition that uses it.
\<close>

section \<open>Status codes\<close>

type_synonym efi_status = u64

text \<open>The values of the UEFI specification; errors have the most significant bit set.\<close>

abbreviation EFI_SUCCESS :: efi_status where "EFI_SUCCESS \<equiv> 0"
abbreviation EFI_INVALID_PARAMETER :: efi_status where "EFI_INVALID_PARAMETER \<equiv> 0x8000000000000002"
abbreviation EFI_NOT_READY :: efi_status where "EFI_NOT_READY \<equiv> 0x8000000000000006"
abbreviation EFI_TIMEOUT :: efi_status where "EFI_TIMEOUT \<equiv> 0x8000000000000012"
abbreviation EFI_ABORTED :: efi_status where "EFI_ABORTED \<equiv> 0x8000000000000015"

definition EFI_ERROR :: "efi_status \<Rightarrow> bool" where
  "EFI_ERROR st = bit st 63"

lemma EFI_ERROR_simps [simp]:
  "\<not> EFI_ERROR EFI_SUCCESS" "EFI_ERROR EFI_INVALID_PARAMETER" "EFI_ERROR EFI_NOT_READY"
  "EFI_ERROR EFI_TIMEOUT" "EFI_ERROR EFI_ABORTED"
  by (simp_all add: EFI_ERROR_def)


section \<open>Structures\<close>

record CoreFaultInfo =
  fault_occured :: u64
  fault_number :: u64
  error_code :: u64
  old_rip :: u64
  rax_value :: u64
  rbx_value :: u64
  rcx_value :: u64
  rdx_value :: u64
  rsi_value :: u64
  rdi_value :: u64
  rsp_value :: u64
  rbp_value :: u64
  r8_value :: u64
  r9_value :: u64
  r10_value :: u64
  r11_value :: u64
  r12_value :: u64
  r13_value :: u64
  r14_value :: u64
  r15_value :: u64
  rflags_value :: u64
  cr0_value :: u64
  cr2_value :: u64
  cr3_fault_value :: u64
  cr4_value :: u64
  cs_value :: u64
  original_rsp :: u64

text \<open>The packed structure in memory: 27 quadwords in declaration order, 216 bytes.\<close>

definition fault_info_words :: "CoreFaultInfo \<Rightarrow> u64 list" where
  "fault_info_words f =
     [fault_occured f, fault_number f, error_code f, old_rip f,
      rax_value f, rbx_value f, rcx_value f, rdx_value f, rsi_value f, rdi_value f,
      rsp_value f, rbp_value f, r8_value f, r9_value f, r10_value f, r11_value f,
      r12_value f, r13_value f, r14_value f, r15_value f, rflags_value f,
      cr0_value f, cr2_value f, cr3_fault_value f, cr4_value f, cs_value f, original_rsp f]"

abbreviation CoreFaultInfo_size :: nat where "CoreFaultInfo_size \<equiv> 216"

definition fault_info_bytes :: "CoreFaultInfo \<Rightarrow> u8 list" where
  "fault_info_bytes f = concat (map (le_bytes 8) (fault_info_words f))"

lemma length_fault_info_bytes [simp]: "length (fault_info_bytes f) = CoreFaultInfo_size"
  by (simp add: fault_info_bytes_def fault_info_words_def)

definition zero_fault_info :: CoreFaultInfo where
  "zero_fault_info =
     \<lparr>fault_occured = 0, fault_number = 0, error_code = 0, old_rip = 0,
      rax_value = 0, rbx_value = 0, rcx_value = 0, rdx_value = 0, rsi_value = 0, rdi_value = 0,
      rsp_value = 0, rbp_value = 0, r8_value = 0, r9_value = 0, r10_value = 0, r11_value = 0,
      r12_value = 0, r13_value = 0, r14_value = 0, r15_value = 0, rflags_value = 0,
      cr0_value = 0, cr2_value = 0, cr3_fault_value = 0, cr4_value = 0, cs_value = 0,
      original_rsp = 0\<rparr>"

text \<open>
  What the CPU gives to a fault handler: the vector, the registers at the fault (as fields of a
  \<open>CoreFaultInfo\<close>), and the quadwords it pushed, top of the stack first. The CPU pushes an error
  code, if the vector has one, and then RIP, CS, RFLAGS and RSP.
\<close>

record fault_frame =
  fault_vector :: nat
  fault_regs :: CoreFaultInfo
  fault_stack :: "u64 list"

lemma zero_fault_info_occured [simp]: "fault_occured zero_fault_info = 0"
  by (simp add: zero_fault_info_def)

record IDT_ENTRY =
  OffsetLow :: u16
  SegmentSelector :: u16
  Ist :: u8
  Attributes :: u8
  OffsetMid :: u16
  OffsetHigh :: u32
  Reserved :: u32

abbreviation CODE_SEGMENT :: u16 where "CODE_SEGMENT \<equiv> 0x38"

text \<open>Both quadwords of an IBS event; the bit fields of the first are in theory \<open>Ibs\<close>.\<close>

record IBSEvent =
  q1 :: u64
  q2 :: u64

record IBSControl =
  ibs_event_buffer :: "IBSEvent list option"
  current_position :: u64
  ibs_filter :: u64

record DSMEvent =
  data0 :: u64
  data1 :: u64

record DSM_file_header =
  version_info :: u64
  header_mask :: u64
  header_sel :: u64
  header_types :: u64
  idx_info :: u64
  num_items :: u64

record DSMControl =
  file_header :: DSM_file_header
  dsm_event_buffer :: "DSMEvent list option"
  orig :: u64

text \<open>The additional supervisor routines that machine code can call by number.\<close>

datatype ASRFunction =
    ASR_NULL
  | Get_ucode_slot_addr | Get_machine_slot_addr
  | Clear_ibs | Set_ibs_offset | Start_ibs | Start_with_ibs_offset
  | Clear_start_with_ibs_offset | Store_ibs_entry | Clear_ibs_results
  | Clear_ibs_results_reset_filter | Copy_ibs_entries
  | Prepare_dsm | Prepare_dsm_capture | Store_dsm_capture
  | Get_start_stop_stub_asm_address | Start_dsm_capture | Stop_dsm_capture

record ASREntry =
  asr_number :: u64
  asr_ptr :: ASRFunction

text \<open>The functions the code puts into a core's job slots.\<close>

datatype CoreFunction =
    NULL_function
  | Read_msr
  | Prepare_ucode_update
  | Apply_ucode_execute_machine_code_simple
  | Apply_ucode_execute_machine_code_restore
  | Execute_machine_code

text \<open>
  The argument of a job function is a pointer; the only non-null one the code passes is the
  address of a local array of a handler. \<open>Some n\<close> is the \<open>n\<close>-th such array.
\<close>

record CoreFunctionCall =
  func :: CoreFunction
  arg :: "nat option"

definition null_call :: CoreFunctionCall where
  "null_call = \<lparr>func = NULL_function, arg = None\<rparr>"

abbreviation CORE_FUNCTION_SLOTS :: nat where "CORE_FUNCTION_SLOTS \<equiv> 3"
abbreviation RESULT_BUFFER_SIZE :: nat where "RESULT_BUFFER_SIZE \<equiv> 1024"
abbreviation MACHINE_CODE_SCRATCH_SPACE_SIZE :: nat where "MACHINE_CODE_SCRATCH_SPACE_SIZE \<equiv> 4096"
abbreviation MAX_CORE_COUNT :: u64 where "MAX_CORE_COUNT \<equiv> 128"

text \<open>
  The per-core control structure. Objects that only this structure points to (result buffer,
  scratch space, fault information, IDT, IBS and DSM control) are held in it, \<open>None\<close> being the
  null pointer; the slot addresses are addresses, since other structures point to those blocks.
\<close>

record CoreContext =
  result_buffer :: "u8 list option"
  result_buffer_len :: u64
  scratch_space :: "u8 list option"
  scratch_space_len :: u64
  current_machine_code_slot_address :: u64
  current_microcode_slot_address :: u64
  core_id :: u64
  ret_gpf_value :: u64
  ret_rdtsc_value :: u64
  fault_info :: "CoreFaultInfo option"
  core_functions :: "CoreFunctionCall list"
  heartbeat :: u64
  current_microcode_len :: u64
  idt_base :: "IDT_ENTRY list option"
  idt_limit :: u64
  cr3_value :: u64
  ctx_asr_registry :: "ASREntry list option"
  ibs_control :: "IBSControl option"
  dsm_control :: "DSMControl option"
  present :: u64
  started :: u64
  ready :: u64
  job_queued :: u64
  lock :: u64

definition zero_context :: CoreContext where
  "zero_context =
     \<lparr>result_buffer = None, result_buffer_len = 0, scratch_space = None, scratch_space_len = 0,
      current_machine_code_slot_address = 0, current_microcode_slot_address = 0,
      core_id = 0, ret_gpf_value = 0, ret_rdtsc_value = 0, fault_info = None,
      core_functions = replicate CORE_FUNCTION_SLOTS null_call, heartbeat = 0,
      current_microcode_len = 0, idt_base = None, idt_limit = 0, cr3_value = 0,
      ctx_asr_registry = None, ibs_control = None, dsm_control = None,
      present = 0, started = 0, ready = 0, job_queued = 0, lock = 0\<rparr>"

record UcodeContainer =
  ucode :: u64
  ucode_length :: u64

record MachineCodeContainer =
  machine_code :: u64
  machine_code_length :: u64

abbreviation UCODE_SLOTS :: nat where "UCODE_SLOTS \<equiv> 10"
abbreviation UCODE_SIZE :: nat where "UCODE_SIZE \<equiv> 4 * 4096"
abbreviation MACHINE_CODE_SLOTS :: nat where "MACHINE_CODE_SLOTS \<equiv> 10"
abbreviation MACHINE_CODE_SIZE :: nat where "MACHINE_CODE_SIZE \<equiv> 1 * 1024 * 1024"

text \<open>\<^verbatim>\<open>ROUND_UP\<close> of \<^verbatim>\<open>AngryUEFI.h\<close>, for a power of two.\<close>

definition ROUND_UP :: "u64 \<Rightarrow> u64 \<Rightarrow> u64" where
  "ROUND_UP x align = (x + (align - 1)) AND NOT (align - 1)"


section \<open>Global state\<close>

abbreviation RESPONSE_PAYLOAD_SIZE :: nat where "RESPONSE_PAYLOAD_SIZE \<equiv> 1400"
abbreviation RESPONSE_BUFFER_SIZE :: nat where "RESPONSE_BUFFER_SIZE \<equiv> 1400 + 12"
abbreviation HEADER_SIZE :: u64 where "HEADER_SIZE \<equiv> 12"
abbreviation RECEIVE_BUFFER_SIZE :: nat where "RECEIVE_BUFFER_SIZE \<equiv> 1*1024*1024+12"
abbreviation FORMAT_BUFFER_SIZE :: nat where "FORMAT_BUFFER_SIZE \<equiv> 128"

text \<open>Allocated blocks by base address. A pointer into a block is its base and an offset.\<close>

type_synonym heap = "u64 \<rightharpoonup> u8 list"

text \<open>What an application processor is doing.\<close>

datatype ap_phase = ApOff | ApEntry | ApLoop | ApJob | ApHung

text \<open>
  \<open>sent\<close> is the sequence of messages whose transmission completed, \<open>open_events\<close> the number of
  UEFI events created and not closed, \<open>frames\<close> the live local arrays that jobs may point to.
\<close>

record 'w state =
  world :: 'w
  payload_buffer :: "u8 list"
  response_buffer :: "u8 list"
  receive_buffer :: "u8 list"
  format_buffer :: "u16 list"
  sent :: "u8 list list"
  open_events :: nat
  heap :: heap
  ucodes :: "UcodeContainer list"
  machine_codes :: "MachineCodeContainer list"
  original_ucode :: u64
  core_contexts :: "CoreContext list"
  ap_phases :: "ap_phase list"
  frames :: "nat \<rightharpoonup> u32 list"
  next_frame :: nat

text \<open>Why a run ends: the first five are undefined behaviour of the C code.\<close>

datatype stop_reason =
    OutOfBounds
  | NullDeref
  | WildPointer
  | DeadFrame
  | SignedOverflow
  | Hang
  | Reset bool
  | Trap fault_frame
  | LockedUp

type_synonym ('w, 'a) prog = "('w state, stop_reason, 'a) comp"

definition undefined_behaviour :: "stop_reason \<Rightarrow> bool" where
  "undefined_behaviour r \<longleftrightarrow> r \<in> {OutOfBounds, NullDeref, WildPointer, DeadFrame, SignedOverflow}"


section \<open>Platform\<close>

text \<open>How a piece of machine code ends.\<close>

datatype code_end = Returned | Faulted fault_frame | NeverReturned

text \<open>
  The fields ending in \<open>_fw\<close> are firmware services, those ending in \<open>_hw\<close> the CPU.
  \<open>rdmsr_hw\<close> gives \<open>None\<close> and \<open>wrmsr_hw\<close> gives \<open>True\<close> when the instruction raises a general
  protection fault, with \<open>gp_frame_hw\<close> what the CPU gives to the fault handler then.
  \<open>apic_read_hw\<close> and \<open>apic_write_hw\<close> are accesses to the memory-mapped registers of the local APIC.
  \<open>sprint_fw\<close> is the text produced for a format string. \<open>code_hw\<close> is the effect of running the
  bytes at an address on a core. The first argument of the fields for registers is the core. \<open>ap_steps_fw\<close> is the sequence of cores whose application
  processors make a step while the boot core stalls once. \<open>original_ucode_s_addr\<close> is the address
  at which the linker places the read-only variable \<^verbatim>\<open>original_ucode_s\<close> of \<^verbatim>\<open>stubs.s\<close>,
  \<open>write_fenced_fprem_asm_addr\<close> and \<open>gpf_handler_addr\<close> those of the routines of these names. \<open>sidt_hw\<close> gives
  limit and base of the interrupt table of the boot core, \<open>lidt_hw\<close> loads them. \<open>alloc_pool_fw\<close> says whether a pool
  allocation for an object succeeds that only one pointer leads to, \<open>alloc_block_fw\<close> gives address and contents of a pool block
  whose address matters, or 0. \<open>iretq_segments_hw\<close> says which selectors of code and stack segments \<^verbatim>\<open>iretq\<close> accepts. The
  fields at the end are given by the assembler and the linker: where each fault handler starts in the assembled block,
  the bytes of this block, and the addresses of \<^verbatim>\<open>core_main_loop_stub_recovery\<close> and of the array \<^verbatim>\<open>core_contexts\<close>.
\<close>

record 'w platform =
  create_event_fw :: "'w \<Rightarrow> efi_status \<times> 'w"
  transmit_fw :: "u8 list \<Rightarrow> 'w \<Rightarrow> efi_status \<times> 'w"
  tx_poll_fw :: "'w \<Rightarrow> efi_status \<times> 'w"
  receive_fw :: "u64 \<Rightarrow> 'w \<Rightarrow> efi_status \<times> 'w"
  rx_poll_fw :: "'w \<Rightarrow> efi_status \<times> 'w"
  rx_data_fw :: "'w \<Rightarrow> u8 list"
  alloc_pages_fw :: "nat \<Rightarrow> heap \<Rightarrow> 'w \<Rightarrow> u64 \<times> u8 list \<times> 'w"
  alloc_pool_fw :: "nat \<Rightarrow> 'w \<Rightarrow> bool \<times> 'w"
  alloc_block_fw :: "nat \<Rightarrow> heap \<Rightarrow> 'w \<Rightarrow> u64 \<times> u8 list \<times> 'w"
  processors_fw :: "'w \<Rightarrow> efi_status \<times> u64"
  startup_ap_fw :: "u64 \<Rightarrow> 'w \<Rightarrow> efi_status \<times> 'w"
  sprint_fw :: "string \<Rightarrow> u64 list \<Rightarrow> u16 list"
  rdmsr_hw :: "u64 \<Rightarrow> u32 \<Rightarrow> 'w \<Rightarrow> u64 option \<times> 'w"
  wrmsr_hw :: "u64 \<Rightarrow> u32 \<Rightarrow> u64 \<Rightarrow> 'w \<Rightarrow> bool \<times> 'w"
  gp_frame_hw :: "'w \<Rightarrow> fault_frame"
  iretq_segments_hw :: "u16 \<Rightarrow> u16 \<Rightarrow> bool"
  rdtsc_hw :: "'w \<Rightarrow> u64 \<times> 'w"
  cpuid_eax_hw :: "u32 \<Rightarrow> u32"
  cpuid_ecx_hw :: "u32 \<Rightarrow> u32"
  cr3_hw :: "u64 \<Rightarrow> 'w \<Rightarrow> u64"
  set_cr3_hw :: "u64 \<Rightarrow> u64 \<Rightarrow> 'w \<Rightarrow> 'w"
  cr4_hw :: "u64 \<Rightarrow> 'w \<Rightarrow> u64"
  set_cr4_hw :: "u64 \<Rightarrow> u64 \<Rightarrow> 'w \<Rightarrow> 'w"
  set_idtr_hw :: "u64 \<Rightarrow> IDT_ENTRY list option \<Rightarrow> u16 \<Rightarrow> 'w \<Rightarrow> 'w"
  sidt_hw :: "'w \<Rightarrow> u16 \<times> u64"
  lidt_hw :: "u16 \<Rightarrow> u64 \<Rightarrow> 'w \<Rightarrow> 'w"
  apic_read_hw :: "u64 \<Rightarrow> 'w \<Rightarrow> u32 \<times> 'w"
  apic_write_hw :: "u64 \<Rightarrow> u32 \<Rightarrow> 'w \<Rightarrow> 'w"
  fptan_write_hw :: "u64 \<Rightarrow> u64 \<Rightarrow> u64 \<Rightarrow> 'w \<Rightarrow> 'w"
  fpatan_read_hw :: "u64 \<Rightarrow> u64 \<Rightarrow> u64 \<Rightarrow> 'w \<Rightarrow> u64 \<times> 'w"
  fprem_write_hw :: "u64 \<Rightarrow> u64 \<Rightarrow> u64 \<Rightarrow> 'w \<Rightarrow> 'w"
  code_hw :: "nat \<Rightarrow> u64 \<Rightarrow> 'w state \<Rightarrow> code_end \<times> 'w state"
  ap_steps_fw :: "'w \<Rightarrow> u64 list \<times> 'w"
  original_ucode_s_addr :: u64
  write_fenced_fprem_asm_addr :: u64
  gpf_handler_addr :: u64
  proto_fault_handlers_offset :: "nat \<Rightarrow> u64"
  fallback_handler_offset :: u64
  fault_stub_code :: "u8 list"
  recovery_stub_addr :: u64
  core_contexts_addr :: u64

text \<open>A call that reads and changes only the world.\<close>

definition on_world :: "('w \<Rightarrow> 'a \<times> 'w) \<Rightarrow> ('w, 'a) prog" where
  "on_world f = (\<lambda>s. case f (world s) of (a, w) \<Rightarrow> Done a (s\<lparr>world := w\<rparr>))"

lemma on_world_run [run_simps]:
  "on_world f s = Done (fst (f (world s))) (s\<lparr>world := snd (f (world s))\<rparr>)"
  by (simp add: on_world_def split: prod.splits)

lemma wp_on_world [wp_simps]:
  "wp (on_world f) Q E s = Q (fst (f (world s))) (s\<lparr>world := snd (f (world s))\<rparr>)"
  by (simp add: wp_def on_world_run)


section \<open>Memory\<close>

text \<open>Reading an integer or bytes from an object, and writing to the payload buffer.\<close>

definition load_bytes :: "u8 list \<Rightarrow> nat \<Rightarrow> nat \<Rightarrow> ('w, u8 list) prog" where
  "load_bytes b off n =
     bind (require OutOfBounds (off + n \<le> length b)) (\<lambda>_. ret (slice off n b))"

definition load_u32 :: "u8 list \<Rightarrow> nat \<Rightarrow> ('w, u32) prog" where
  "load_u32 b off = bind (load_bytes b off 4) (\<lambda>bs. ret (le_word bs))"

definition load_u64 :: "u8 list \<Rightarrow> nat \<Rightarrow> ('w, u64) prog" where
  "load_u64 b off = bind (load_bytes b off 8) (\<lambda>bs. ret (le_word bs))"

definition write_payload :: "nat \<Rightarrow> u8 list \<Rightarrow> ('w, unit) prog" where
  "write_payload off bs =
     bind (gets payload_buffer) (\<lambda>b.
     bind (require OutOfBounds (off + length bs \<le> length b)) (\<lambda>_.
     modify (\<lambda>s. s\<lparr>payload_buffer := overwrite off bs b\<rparr>)))"

definition block :: "u64 \<Rightarrow> ('w, u8 list) prog" where
  "block a =
     bind (require NullDeref (a \<noteq> 0)) (\<lambda>_.
     bind (gets heap) (\<lambda>h. from_option WildPointer (h a)))"

definition heap_read :: "u64 \<Rightarrow> nat \<Rightarrow> nat \<Rightarrow> ('w, u8 list) prog" where
  "heap_read a off n = bind (block a) (\<lambda>b. load_bytes b off n)"

definition heap_write :: "u64 \<Rightarrow> nat \<Rightarrow> u8 list \<Rightarrow> ('w, unit) prog" where
  "heap_write a off bs =
     bind (block a) (\<lambda>b.
     bind (require OutOfBounds (off + length bs \<le> length b)) (\<lambda>_.
     modify (\<lambda>s. s\<lparr>heap := (heap s)(a \<mapsto> overwrite off bs b)\<rparr>)))"

text \<open>\<^verbatim>\<open>AllocatePages(n)\<close>: a block of \<open>n\<close> pages with unknown contents, or the null pointer.\<close>

definition AllocatePages :: "'w platform \<Rightarrow> nat \<Rightarrow> ('w, u64) prog" where
  "AllocatePages P n = (\<lambda>s.
     case alloc_pages_fw P n (heap s) (world s) of
       (a, contents, w) \<Rightarrow>
         if a = 0 then Done 0 (s\<lparr>world := w\<rparr>)
         else Done a (s\<lparr>world := w, heap := (heap s)(a \<mapsto> contents)\<rparr>))"

text \<open>
  What the UEFI specification says of a page allocation that succeeds: a fresh block of that many
  pages, aligned to a page; physical addresses have at most 52 bits.
\<close>

definition alloc_pages_documented :: "'w platform \<Rightarrow> bool" where
  "alloc_pages_documented P \<longleftrightarrow>
     (\<forall>n h w a c w'. alloc_pages_fw P n h w = (a, c, w') \<longrightarrow> a \<noteq> 0 \<longrightarrow>
        h a = None \<and> length c = n * 4096 \<and> take_bit 12 a = 0 \<and> take_bit 52 a = a)"

text \<open>
  There is memory for \<open>k\<close> more allocations of at most 256 pages each, in any world, when the blocks of \<open>h\<close> are in use.
\<close>

definition memory_left :: "'w platform \<Rightarrow> nat \<Rightarrow> heap \<Rightarrow> bool" where
  "memory_left P k h \<longleftrightarrow>
     (\<forall>n h' w. dom h \<subseteq> dom h' \<longrightarrow> card (dom h' - dom h) < k \<longrightarrow> n \<le> 256 \<longrightarrow> fst (alloc_pages_fw P n h' w) \<noteq> 0)"

lemma memory_leftD:
  assumes "memory_left P k h" "dom h' - dom h \<subseteq> A" "dom h \<subseteq> dom h'" "finite A" "card A < k" "n \<le> 256"
  shows "fst (alloc_pages_fw P n h' w) \<noteq> 0"
proof -
  have "card (dom h' - dom h) < k" using card_mono [OF assms(4,2)] assms(5) by simp
  then show ?thesis using assms(1,3,6) unfolding memory_left_def by blast
qed

lemma memory_left_now: "memory_left P k h \<Longrightarrow> 0 < k \<Longrightarrow> n \<le> 256 \<Longrightarrow> fst (alloc_pages_fw P n h w) \<noteq> 0"
  by (rule memory_leftD [where A = "{}"]) auto

text \<open>\<^verbatim>\<open>AllocatePool(n)\<close>, where the address of the block matters, and what is documented of it.\<close>

definition AllocatePool :: "'w platform \<Rightarrow> nat \<Rightarrow> ('w, u64) prog" where
  "AllocatePool P n = (\<lambda>s.
     case alloc_block_fw P n (heap s) (world s) of
       (a, contents, w) \<Rightarrow>
         if a = 0 then Done 0 (s\<lparr>world := w\<rparr>)
         else Done a (s\<lparr>world := w, heap := (heap s)(a \<mapsto> contents)\<rparr>))"

definition alloc_pool_documented :: "'w platform \<Rightarrow> bool" where
  "alloc_pool_documented P \<longleftrightarrow>
     (\<forall>n h w a c w'. alloc_block_fw P n h w = (a, c, w') \<longrightarrow> a \<noteq> 0 \<longrightarrow> h a = None \<and> length c = n)"

text \<open>The address of the context of a core: a packed structure of 280 bytes.\<close>

definition context_address :: "'w platform \<Rightarrow> u64 \<Rightarrow> u64" where
  "context_address P core = core_contexts_addr P + 280 * core"

lemma wp_load_bytes [wp_simps]:
  "wp (load_bytes b off n) Q E s =
     ((off + n \<le> length b \<longrightarrow> Q (slice off n b) s) \<and> (\<not> off + n \<le> length b \<longrightarrow> E OutOfBounds s))"
  by (simp add: load_bytes_def wp_simps)

lemma wp_load_u32 [wp_simps]:
  "wp (load_u32 b off) Q E s =
     ((off + 4 \<le> length b \<longrightarrow> Q (le_word (slice off 4 b)) s) \<and>
      (\<not> off + 4 \<le> length b \<longrightarrow> E OutOfBounds s))"
  by (simp add: load_u32_def wp_simps)

lemma wp_load_u64 [wp_simps]:
  "wp (load_u64 b off) Q E s =
     ((off + 8 \<le> length b \<longrightarrow> Q (le_word (slice off 8 b)) s) \<and>
      (\<not> off + 8 \<le> length b \<longrightarrow> E OutOfBounds s))"
  by (simp add: load_u64_def wp_simps)

lemma wp_write_payload [wp_simps]:
  "wp (write_payload off bs) Q E s =
     ((off + length bs \<le> length (payload_buffer s) \<longrightarrow>
         Q () (s\<lparr>payload_buffer := overwrite off bs (payload_buffer s)\<rparr>)) \<and>
      (\<not> off + length bs \<le> length (payload_buffer s) \<longrightarrow> E OutOfBounds s))"
  by (simp add: write_payload_def wp_simps)

lemma wp_block [wp_simps]:
  "wp (block a) Q E s =
     (if a = 0 then E NullDeref s
      else case heap s a of Some b \<Rightarrow> Q b s | None \<Rightarrow> E WildPointer s)"
  by (simp add: block_def wp_simps)

lemma wp_heap_read [wp_simps]:
  "wp (heap_read a off n) Q E s =
     (if a = 0 then E NullDeref s
      else case heap s a of
        Some b \<Rightarrow> if off + n \<le> length b then Q (slice off n b) s else E OutOfBounds s
      | None \<Rightarrow> E WildPointer s)"
  by (simp add: heap_read_def wp_simps split: option.splits)

lemma wp_heap_write [wp_simps]:
  "wp (heap_write a off bs) Q E s =
     (if a = 0 then E NullDeref s
      else case heap s a of
        Some b \<Rightarrow>
          if off + length bs \<le> length b
          then Q () (s\<lparr>heap := (heap s)(a \<mapsto> overwrite off bs b)\<rparr>) else E OutOfBounds s
      | None \<Rightarrow> E WildPointer s)"
  by (simp add: heap_write_def wp_simps split: option.splits)

text \<open>The same operations as equations, for evaluation.\<close>

lemma load_bytes_run [run_simps]:
  "load_bytes b off n s =
     (if off + n \<le> length b then Done (slice off n b) s else Stop OutOfBounds s)"
  by (simp add: load_bytes_def run_simps)

lemma load_u32_run [run_simps]:
  "load_u32 b off s =
     (if off + 4 \<le> length b then Done (le_word (slice off 4 b)) s else Stop OutOfBounds s)"
  by (simp add: load_u32_def run_simps)

lemma load_u64_run [run_simps]:
  "load_u64 b off s =
     (if off + 8 \<le> length b then Done (le_word (slice off 8 b)) s else Stop OutOfBounds s)"
  by (simp add: load_u64_def run_simps)

lemma write_payload_run [run_simps]:
  "write_payload off bs s =
     (if off + length bs \<le> length (payload_buffer s)
      then Done () (s\<lparr>payload_buffer := overwrite off bs (payload_buffer s)\<rparr>)
      else Stop OutOfBounds s)"
  by (simp add: write_payload_def run_simps)

lemma heap_read_run [run_simps]:
  "heap_read a off n s =
     (if a = 0 then Stop NullDeref s
      else case heap s a of
        Some b \<Rightarrow> if off + n \<le> length b then Done (slice off n b) s else Stop OutOfBounds s
      | None \<Rightarrow> Stop WildPointer s)"
  by (simp add: heap_read_def block_def run_simps split: option.splits)

lemma heap_write_run [run_simps]:
  "heap_write a off bs s =
     (if a = 0 then Stop NullDeref s
      else case heap s a of
        Some b \<Rightarrow>
          if off + length bs \<le> length b
          then Done () (s\<lparr>heap := (heap s)(a \<mapsto> overwrite off bs b)\<rparr>) else Stop OutOfBounds s
      | None \<Rightarrow> Stop WildPointer s)"
  by (simp add: heap_write_def block_def run_simps split: option.splits)


section \<open>Core contexts\<close>

definition get_context :: "u64 \<Rightarrow> ('w, CoreContext) prog" where
  "get_context i =
     bind (gets core_contexts) (\<lambda>cs.
     bind (require OutOfBounds (unat i < length cs)) (\<lambda>_. ret (cs ! unat i)))"

definition update_context :: "u64 \<Rightarrow> (CoreContext \<Rightarrow> CoreContext) \<Rightarrow> ('w, unit) prog" where
  "update_context i f =
     bind (get_context i) (\<lambda>c.
     modify (\<lambda>s. s\<lparr>core_contexts := (core_contexts s)[unat i := f c]\<rparr>))"

lemma wp_get_context [wp_simps]:
  "wp (get_context i) Q E s =
     ((unat i < length (core_contexts s) \<longrightarrow> Q (core_contexts s ! unat i) s) \<and>
      (\<not> unat i < length (core_contexts s) \<longrightarrow> E OutOfBounds s))"
  by (simp add: get_context_def wp_simps)

lemma wp_update_context [wp_simps]:
  "wp (update_context i f) Q E s =
     ((unat i < length (core_contexts s) \<longrightarrow>
         Q () (s\<lparr>core_contexts := (core_contexts s)[unat i := f (core_contexts s ! unat i)]\<rparr>)) \<and>
      (\<not> unat i < length (core_contexts s) \<longrightarrow> E OutOfBounds s))"
  by (simp add: update_context_def wp_simps)

lemma get_context_run [run_simps]:
  "get_context i s =
     (if unat i < length (core_contexts s) then Done (core_contexts s ! unat i) s
      else Stop OutOfBounds s)"
  by (simp add: get_context_def run_simps)

lemma update_context_run [run_simps]:
  "update_context i f s =
     (if unat i < length (core_contexts s)
      then Done () (s\<lparr>core_contexts := (core_contexts s)[unat i := f (core_contexts s ! unat i)]\<rparr>)
      else Stop OutOfBounds s)"
  by (simp add: update_context_def run_simps)


text \<open>Only the context of one core may have changed.\<close>

definition others_kept :: "u64 \<Rightarrow> 'w state \<Rightarrow> 'w state \<Rightarrow> bool" where
  "others_kept core s t \<longleftrightarrow> length (core_contexts t) = length (core_contexts s) \<and>
     (\<forall>i. i \<noteq> unat core \<longrightarrow> core_contexts t ! i = core_contexts s ! i)"

lemma others_kept_trans: "others_kept core s t \<Longrightarrow> others_kept core t u \<Longrightarrow> others_kept core s u"
  by (simp add: others_kept_def)

lemma others_kept_world: "others_kept core s (s\<lparr>world := w\<rparr>)"
  by (simp add: others_kept_def)


section \<open>Formatted output\<close>

text \<open>
  \<^verbatim>\<open>FormatPrint\<close> of \<^verbatim>\<open>AngryUEFI.h\<close>: \<^verbatim>\<open>UnicodeSPrint\<close> truncates the text to the buffer and ends
  it with a null character; the console output is not modelled, and the format strings are
  given without their line ends. \<^verbatim>\<open>FormatPrintDebug\<close> and
  \<^verbatim>\<open>PrintDebug\<close> expand to nothing, since \<^verbatim>\<open>ANGRYUEFI_DEBUG\<close> is not defined in the sources.
\<close>

definition FormatPrint :: "'w platform \<Rightarrow> string \<Rightarrow> u64 list \<Rightarrow> ('w, unit) prog" where
  "FormatPrint P fmt args =
     modify (\<lambda>s. s\<lparr>format_buffer :=
        overwrite 0 (take (FORMAT_BUFFER_SIZE - 1) (sprint_fw P fmt args) @ [0]) (format_buffer s)\<rparr>)"

lemma wp_FormatPrint [wp_simps]:
  "wp (FormatPrint P fmt args) Q E s =
     Q () (s\<lparr>format_buffer :=
        overwrite 0 (take (FORMAT_BUFFER_SIZE - 1) (sprint_fw P fmt args) @ [0]) (format_buffer s)\<rparr>)"
  by (simp add: FormatPrint_def wp_simps)

lemma FormatPrint_run [run_simps]:
  "FormatPrint P fmt args s =
     Done () (s\<lparr>format_buffer :=
        overwrite 0 (take (FORMAT_BUFFER_SIZE - 1) (sprint_fw P fmt args) @ [0]) (format_buffer s)\<rparr>)"
  by (simp add: FormatPrint_def run_simps)


section \<open>Well-formed states\<close>

text \<open>The global arrays have the sizes they are declared with and the format buffer is a string.\<close>

definition buffers_ok :: "'w state \<Rightarrow> bool" where
  "buffers_ok s \<longleftrightarrow>
     length (payload_buffer s) = RESPONSE_PAYLOAD_SIZE \<and>
     length (response_buffer s) = RESPONSE_BUFFER_SIZE \<and>
     length (format_buffer s) = FORMAT_BUFFER_SIZE \<and> 0 \<in> set (format_buffer s)"

definition arrays_ok :: "'w state \<Rightarrow> bool" where
  "arrays_ok s \<longleftrightarrow>
     length (ucodes s) = UCODE_SLOTS \<and> length (machine_codes s) = MACHINE_CODE_SLOTS \<and>
     length (core_contexts s) = 128 \<and> length (ap_phases s) = 128"

lemma buffers_ok_lengths:
  "buffers_ok s \<Longrightarrow> length (payload_buffer s) = RESPONSE_PAYLOAD_SIZE"
  "buffers_ok s \<Longrightarrow> length (response_buffer s) = RESPONSE_BUFFER_SIZE"
  "buffers_ok s \<Longrightarrow> length (format_buffer s) = FORMAT_BUFFER_SIZE"
  by (simp_all add: buffers_ok_def)

lemma arrays_ok_lengths:
  "arrays_ok s \<Longrightarrow> length (ucodes s) = UCODE_SLOTS"
  "arrays_ok s \<Longrightarrow> length (machine_codes s) = MACHINE_CODE_SLOTS"
  "arrays_ok s \<Longrightarrow> length (core_contexts s) = 128"
  "arrays_ok s \<Longrightarrow> length (ap_phases s) = 128"
  by (simp_all add: arrays_ok_def)

end
