(* ===== verification/Protocol.thy ===== *)
theory Protocol
  imports Machine
begin

text \<open>
  \<^verbatim>\<open>Protocol.h\<close>, \<^verbatim>\<open>Protocol.c\<close> (but for \<^verbatim>\<open>handle_message\<close>, which is in theory \<open>Dispatch\<close>) and
  \<^verbatim>\<open>send_message\<close> of \<^verbatim>\<open>AngryUEFI.c\<close>: the frame that every response is packed into, its
  transmission, and status responses.
\<close>

section \<open>Message types\<close>

abbreviation MSG_PING :: u32 where "MSG_PING \<equiv> 0x1"
abbreviation MSG_MULTIPING :: u32 where "MSG_MULTIPING \<equiv> 0x2"
abbreviation MSG_GETMSGSIZE :: u32 where "MSG_GETMSGSIZE \<equiv> 0x3"
abbreviation MSG_GETPAGINGINFO :: u32 where "MSG_GETPAGINGINFO \<equiv> 0x11"
abbreviation MSG_REBOOT :: u32 where "MSG_REBOOT \<equiv> 0x21"
abbreviation MSG_SENDUCODE :: u32 where "MSG_SENDUCODE \<equiv> 0x101"
abbreviation MSG_FLIPBITS :: u32 where "MSG_FLIPBITS \<equiv> 0x121"
abbreviation MSG_APPLYUCODE :: u32 where "MSG_APPLYUCODE \<equiv> 0x141"
abbreviation MSG_APPLYUCODEEXCUTETEST :: u32 where "MSG_APPLYUCODEEXCUTETEST \<equiv> 0x151"
abbreviation MSG_GETLASTTESTRESULT :: u32 where "MSG_GETLASTTESTRESULT \<equiv> 0x152"
abbreviation MSG_EXECUTEMACHINECODE :: u32 where "MSG_EXECUTEMACHINECODE \<equiv> 0x153"
abbreviation MSG_READMSR :: u32 where "MSG_READMSR \<equiv> 0x201"
abbreviation MSG_READMSRONCORE :: u32 where "MSG_READMSRONCORE \<equiv> 0x202"
abbreviation MSG_GETCORECOUNT :: u32 where "MSG_GETCORECOUNT \<equiv> 0x211"
abbreviation MSG_STARTCORE :: u32 where "MSG_STARTCORE \<equiv> 0x212"
abbreviation MSG_GETCORESTATUS :: u32 where "MSG_GETCORESTATUS \<equiv> 0x213"
abbreviation MSG_SENDMACHINECODE :: u32 where "MSG_SENDMACHINECODE \<equiv> 0x301"
abbreviation MSG_GETIBSBUFFER :: u32 where "MSG_GETIBSBUFFER \<equiv> 0x401"
abbreviation MSG_GETDSMBUFFER :: u32 where "MSG_GETDSMBUFFER \<equiv> 0x501"

abbreviation MSG_STATUS :: u32 where "MSG_STATUS \<equiv> 0x80000000"
abbreviation MSG_PONG :: u32 where "MSG_PONG \<equiv> 0x80000001"
abbreviation MSG_MSGSIZE :: u32 where "MSG_MSGSIZE \<equiv> 0x80000003"
abbreviation MSG_PAGINGINFO :: u32 where "MSG_PAGINGINFO \<equiv> 0x80000011"
abbreviation MSG_UCODERESPONSE :: u32 where "MSG_UCODERESPONSE \<equiv> 0x80000141"
abbreviation MSG_UCODEEXECUTETESTRESPONSE :: u32 where "MSG_UCODEEXECUTETESTRESPONSE \<equiv> 0x80000151"
abbreviation MSG_MSRRESPONSE :: u32 where "MSG_MSRRESPONSE \<equiv> 0x80000201"
abbreviation MSG_CORECOUNTRESPONSE :: u32 where "MSG_CORECOUNTRESPONSE \<equiv> 0x80000211"
abbreviation MSG_CORESTATUSRESPONSE :: u32 where "MSG_CORESTATUSRESPONSE \<equiv> 0x80000213"
abbreviation MSG_IBSBUFFER :: u32 where "MSG_IBSBUFFER \<equiv> 0x80000401"
abbreviation MSG_DSMBUFFER :: u32 where "MSG_DSMBUFFER \<equiv> 0x80000501"

record MetaData =
  Major :: u8
  Minor :: u8
  Control :: u8
  MetaReserved :: u8

definition metadata_bytes :: "MetaData \<Rightarrow> u8 list" where
  "metadata_bytes m = [Major m, Minor m, Control m, MetaReserved m]"

definition metadata_of :: "u8 list \<Rightarrow> MetaData" where
  "metadata_of b = \<lparr>Major = b ! 0, Minor = b ! 1, Control = b ! 2, MetaReserved = b ! 3\<rparr>"

lemma length_metadata_bytes [simp]: "length (metadata_bytes m) = 4"
  by (simp add: metadata_bytes_def)

interpretation metac: codec metadata_bytes metadata_of 4
  by unfold_locales (simp_all add: metadata_bytes_def metadata_of_def)


section \<open>Sending\<close>

definition CreateEvent :: "'w platform \<Rightarrow> ('w, efi_status) prog" where
  "CreateEvent P =
     bind (on_world (create_event_fw P)) (\<lambda>st.
     bind (if EFI_ERROR st then ret () else modify (\<lambda>s. s\<lparr>open_events := Suc (open_events s)\<rparr>)) (\<lambda>_.
     ret st))"

definition CloseEvent :: "('w, unit) prog" where
  "CloseEvent = modify (\<lambda>s. s\<lparr>open_events := open_events s - 1\<rparr>)"

text \<open>
  The busy wait for a completion token: the status is stored as not ready before the request
  and looked at until it changes. \<open>poll\<close> is one look, with the stall before the next one.
\<close>

definition token_loop :: "('w \<Rightarrow> efi_status \<times> 'w) \<Rightarrow> 'w \<Rightarrow> (efi_status \<times> 'w) option" where
  "token_loop poll w = while_option (\<lambda>(st, _). st = EFI_NOT_READY) (\<lambda>(_, w). poll w) (EFI_NOT_READY, w)"

definition wait_token :: "('w \<Rightarrow> efi_status \<times> 'w) \<Rightarrow> ('w, efi_status) prog" where
  "wait_token poll = (\<lambda>s.
     case token_loop poll (world s) of
       Some (st, w) \<Rightarrow> Done st (s\<lparr>world := w\<rparr>)
     | None \<Rightarrow> Stop Hang s)"

definition send_message :: "'w platform \<Rightarrow> u8 list \<Rightarrow> u64 \<Rightarrow> ('w, efi_status) prog" where
  "send_message P message message_size =
     bind (CreateEvent P) (\<lambda>Status.
     if EFI_ERROR Status then ret Status else
     bind (load_bytes message 0 (unat message_size)) (\<lambda>fragment.
     bind (on_world (transmit_fw P fragment)) (\<lambda>Status.
     if EFI_ERROR Status then bind CloseEvent (\<lambda>_. ret Status) else
     bind (wait_token (tx_poll_fw P)) (\<lambda>Status.
     if EFI_ERROR Status then bind CloseEvent (\<lambda>_. ret Status) else
     bind (modify (\<lambda>s. s\<lparr>sent := sent s @ [fragment]\<rparr>)) (\<lambda>_.
     ret EFI_SUCCESS)))))"

text \<open>The documented service of a working network: every step of a transmission succeeds.\<close>

definition network_reliable :: "'w platform \<Rightarrow> bool" where
  "network_reliable P \<longleftrightarrow>
     (\<forall>w. \<not> EFI_ERROR (fst (create_event_fw P w))) \<and>
     (\<forall>d w. \<not> EFI_ERROR (fst (transmit_fw P d w))) \<and>
     (\<forall>w. \<exists>st w'. token_loop (tx_poll_fw P) w = Some (st, w') \<and> \<not> EFI_ERROR st)"

lemma token_loop_exits:
  assumes "token_loop poll w = Some (st, w')"
  shows "st \<noteq> EFI_NOT_READY"
  using while_option_stop [OF assms [unfolded token_loop_def]] by simp

text \<open>With a reliable network \<open>send_message\<close> delivers exactly the bytes it was given.\<close>

lemma wp_send_message:
  assumes "network_reliable P" and "unat n \<le> length msg"
    and "\<And>w. Q EFI_SUCCESS (s\<lparr>open_events := Suc (open_events s), world := w,
                sent := sent s @ [take (unat n) msg]\<rparr>)"
  shows "wp (send_message P msg n) Q E s"
proof -
  let ?w1 = "snd (create_event_fw P (world s))"
  let ?w2 = "snd (transmit_fw P (take (unat n) msg) ?w1)"
  obtain st w3 where loop: "token_loop (tx_poll_fw P) ?w2 = Some (st, w3)" "\<not> EFI_ERROR st"
    using assms(1) unfolding network_reliable_def by blast
  show ?thesis
    using assms loop
    by (simp add: send_message_def CreateEvent_def network_reliable_def wp_simps wait_token_def
        wp_def run_simps)
qed

text \<open>
  Without any assumption: the message is delivered, or an error is returned and nothing was
  delivered, or the code waits forever.
\<close>

lemma wp_send_message_any:
  assumes "unat n \<le> length msg"
    and "\<And>w. Q EFI_SUCCESS (s\<lparr>open_events := Suc (open_events s), world := w,
                sent := sent s @ [take (unat n) msg]\<rparr>)"
    and "\<And>w st. EFI_ERROR st \<Longrightarrow> Q st (s\<lparr>world := w\<rparr>)"
    and "\<And>w. E Hang (s\<lparr>open_events := Suc (open_events s), world := w\<rparr>)"
  shows "wp (send_message P msg n) Q E s"
  using assms
  by (auto simp: send_message_def CreateEvent_def CloseEvent_def wp_def wait_token_def run_simps
      split: option.splits prod.splits)


section \<open>Frames\<close>

definition write_response :: "nat \<Rightarrow> u8 list \<Rightarrow> ('w, unit) prog" where
  "write_response off bs =
     bind (gets response_buffer) (\<lambda>b.
     bind (require OutOfBounds (off + length bs \<le> length b)) (\<lambda>_.
     modify (\<lambda>s. s\<lparr>response_buffer := overwrite off bs b\<rparr>)))"

lemma wp_write_response [wp_simps]:
  "wp (write_response off bs) Q E s =
     ((off + length bs \<le> length (response_buffer s) \<longrightarrow>
         Q () (s\<lparr>response_buffer := overwrite off bs (response_buffer s)\<rparr>)) \<and>
      (\<not> off + length bs \<le> length (response_buffer s) \<longrightarrow> E OutOfBounds s))"
  by (simp add: write_response_def wp_simps)

lemma write_response_run [run_simps]:
  "write_response off bs s =
     (if off + length bs \<le> length (response_buffer s)
      then Done () (s\<lparr>response_buffer := overwrite off bs (response_buffer s)\<rparr>)
      else Stop OutOfBounds s)"
  by (simp add: write_response_def run_simps)

text \<open>
  \<^verbatim>\<open>construct_message\<close>: all callers pass the response buffer as destination; \<open>payload\<close> is the
  object the payload pointer points to, and reading past its end is undefined.
\<close>

definition construct_message ::
  "u64 \<Rightarrow> u32 \<Rightarrow> u8 list \<Rightarrow> u64 \<Rightarrow> bool \<Rightarrow> ('w, efi_status) prog" where
  "construct_message buffer_capacity message_type payload payload_length last_message =
     (if buffer_capacity < payload_length + 12 then ret EFI_INVALID_PARAMETER else
      bind (write_response 0 (le_bytes 4 (ucast (payload_length + 8) :: u32))) (\<lambda>_.
      bind (write_response 4 (metadata_bytes
        \<lparr>Major = 1, Minor = 0, Control = (if last_message then 0 else 1), MetaReserved = 0\<rparr>)) (\<lambda>_.
      bind (write_response 8 (le_bytes 4 message_type)) (\<lambda>_.
      bind (load_bytes payload 0 (unat payload_length)) (\<lambda>bs.
      bind (write_response 12 bs) (\<lambda>_.
      ret EFI_SUCCESS))))))"

text \<open>The specification of a frame: length, metadata, type, payload.\<close>

definition frame :: "u32 \<Rightarrow> u8 list \<Rightarrow> bool \<Rightarrow> u8 list" where
  "frame message_type payload last_message =
     le_bytes 4 (of_nat (length payload + 8) :: u32) @
     metadata_bytes \<lparr>Major = 1, Minor = 0, Control = (if last_message then 0 else 1), MetaReserved = 0\<rparr> @
     le_bytes 4 message_type @ payload"

text \<open>How a peer reads a frame back: type, whether more messages follow, payload.\<close>

definition parse_frame :: "u8 list \<Rightarrow> (u32 \<times> bool \<times> u8 list) option" where
  "parse_frame b =
     (if length b < 12 \<or> length b \<noteq> unat (le_word (slice 0 4 b) :: u32) + 4 then None
      else let m = metadata_of (slice 4 4 b) in
        if Major m = 1 \<and> Minor m = 0
        then Some (le_word (slice 8 4 b), Control m = 0, drop 12 b) else None)"

lemma length_frame [simp]: "length (frame ty p l) = length p + 12"
  by (simp add: frame_def)

lemma parse_frame_frame:
  assumes "length p < 2 ^ 32 - 8"
  shows "parse_frame (frame ty p l) = Some (ty, l, p)"
proof -
  have "unat (of_nat (length p + 8) :: u32) = length p + 8"
    using assms by (intro unat_of_nat_u32) simp
  then show ?thesis
    by (simp add: parse_frame_def frame_def slice_def u32c.dec_enc metac.dec_enc Let_def
        metadata_bytes_def metadata_of_def)
qed

lemma frame_inject:
  assumes p: "length p < 2 ^ 32 - 8" and p': "length p' < 2 ^ 32 - 8"
    and eq: "frame ty p l = frame ty' p' l'"
  shows "ty = ty' \<and> p = p' \<and> l = l'"
proof -
  have "Some (ty, l, p) = parse_frame (frame ty' p' l')"
    unfolding eq [symmetric] by (rule parse_frame_frame [OF p, symmetric])
  also have "\<dots> = Some (ty', l', p')" by (rule parse_frame_frame [OF p'])
  finally show ?thesis by (simp only: option.inject prod.inject simp_thms)
qed

lemma ucast_plus_8 [simp]: "(ucast ((of_nat m :: u64) + 8) :: u32) = of_nat m + 8"
proof -
  have "(of_nat m :: u64) + 8 = of_nat (m + 8)" by simp
  then have "(ucast ((of_nat m :: u64) + 8) :: u32) = of_nat (m + 8)"
    by (simp only: ucast_of_nat_u32)
  then show ?thesis by simp
qed

lemma construct_message_done:
  assumes "m \<le> length payload" and "m \<le> RESPONSE_PAYLOAD_SIZE"
    and "length (response_buffer s) = RESPONSE_BUFFER_SIZE"
  shows "construct_message (of_nat RESPONSE_BUFFER_SIZE) ty payload (of_nat m) l s =
    Done EFI_SUCCESS (s\<lparr>response_buffer := overwrite 0 (frame ty (take m payload) l) (response_buffer s)\<rparr>)"
proof -
  have m: "unat (of_nat m :: u64) = m"
    using assms(2) by simp
  have cap: "\<not> (of_nat RESPONSE_BUFFER_SIZE :: u64) < of_nat m + 12"
  proof -
    have "unat ((of_nat m :: u64) + 12) = m + 12"
      using assms(2) m by (simp add: unat_word_ariths)
    then show ?thesis using assms(2) by (simp add: word_less_nat_alt)
  qed
  show ?thesis
    unfolding construct_message_def
    using assms cap m
    by (simp add: run_simps frame_def buf_simps min.absorb2)
qed

lemma wp_construct_message:
  assumes "m \<le> length payload" and "m \<le> RESPONSE_PAYLOAD_SIZE"
    and "length (response_buffer s) = RESPONSE_BUFFER_SIZE"
  shows "wp (construct_message (of_nat RESPONSE_BUFFER_SIZE) ty payload (of_nat m) l) Q E s =
    Q EFI_SUCCESS (s\<lparr>response_buffer := overwrite 0 (frame ty (take m payload) l) (response_buffer s)\<rparr>)"
  by (simp only: wp_def construct_message_done [OF assms] outcome.case)

lemma construct_message_too_big:
  assumes "cap < n + 12"
  shows "construct_message cap ty payload n l s = Done EFI_INVALID_PARAMETER s"
  using assms by (simp add: construct_message_def run_simps)

end
