(* ===== verification/Responses.thy ===== *)
theory Responses
  imports Protocol
begin

text \<open>
  Responses: the construct-and-send idiom that ends almost every handler, status messages
  (\<^verbatim>\<open>send_status\<close> of \<^verbatim>\<open>Protocol.c\<close>) and rejected requests, with the rules the handlers
  are verified with. Two rules for each: one for a reliable network, which says what is sent, and
  one without assumptions, which says what cannot change.
\<close>

section \<open>Responses\<close>

text \<open>
  The state that sending a response may change: the I/O buffers, the world, the log of sent
  messages and the number of open events. Everything else is program data.
\<close>

definition io_only :: "'w state \<Rightarrow> 'w state \<Rightarrow> bool" where
  "io_only s t \<longleftrightarrow>
     receive_buffer t = receive_buffer s \<and> heap t = heap s \<and> ucodes t = ucodes s \<and>
     machine_codes t = machine_codes s \<and> original_ucode t = original_ucode s \<and>
     core_contexts t = core_contexts s \<and> ap_phases t = ap_phases s \<and>
     frames t = frames s \<and> next_frame t = next_frame s"

lemma io_only_refl [simp]: "io_only s s"
  by (simp add: io_only_def)

lemma io_only_trans: "io_only s t \<Longrightarrow> io_only t u \<Longrightarrow> io_only s u"
  by (simp add: io_only_def)

lemma io_only_arrays: "io_only s t \<Longrightarrow> arrays_ok t = arrays_ok s"
  by (simp add: io_only_def arrays_ok_def)

text \<open>
  The idiom that ends almost every handler: construct the message in the response buffer, give
  up with its status on an error, send it, give up on an error, report success. The handlers
  differ in whether they print the errors, which \<open>report\<close> stands for.
\<close>

definition respond ::
  "'w platform \<Rightarrow> (string \<Rightarrow> efi_status \<Rightarrow> ('w, unit) prog) \<Rightarrow> u32 \<Rightarrow> ('w state \<Rightarrow> u8 list) \<Rightarrow> u64 \<Rightarrow> u64 \<Rightarrow>
   bool \<Rightarrow> ('w, efi_status) prog" where
  "respond P report message_type payload payload_length message_size last_message =
     bind (gets payload) (\<lambda>data.
     bind (construct_message (of_nat RESPONSE_BUFFER_SIZE) message_type data payload_length last_message) (\<lambda>Status.
     if EFI_ERROR Status
     then bind (report ''Unable to construct message: %r.'' Status) (\<lambda>_. ret Status) else
     bind (gets response_buffer) (\<lambda>msg.
     bind (send_message P msg message_size) (\<lambda>Status.
     if EFI_ERROR Status
     then bind (report ''Unable to send message: %r.'' Status) (\<lambda>_. ret Status) else
     ret EFI_SUCCESS))))"

definition report_debug :: "string \<Rightarrow> efi_status \<Rightarrow> ('w, unit) prog" where
  "report_debug fmt st = ret ()"

definition report_print :: "'w platform \<Rightarrow> string \<Rightarrow> efi_status \<Rightarrow> ('w, unit) prog" where
  "report_print P fmt st = FormatPrint P fmt [st]"

text \<open>\<open>respond\<close> on a payload that fits, over a reliable network: one frame goes out.\<close>

lemma wp_respond:
  assumes net: "network_reliable P" and ok: "buffers_ok s"
    and m: "m \<le> length (payload s)" "m \<le> RESPONSE_PAYLOAD_SIZE" and n: "n = of_nat m" "sz = of_nat (m + 12)"
    and Q: "\<And>t. io_only s t \<Longrightarrow> buffers_ok t \<Longrightarrow> payload_buffer t = payload_buffer s \<Longrightarrow>
              format_buffer t = format_buffer s \<Longrightarrow> open_events t = Suc (open_events s) \<Longrightarrow>
              sent t = sent s @ [frame ty (take m (payload s)) l] \<Longrightarrow> Q EFI_SUCCESS t"
  shows "wp (respond P report ty payload n sz l) Q E s"
proof -
  let ?f = "frame ty (take m (payload s)) l"
  let ?s = "s\<lparr>response_buffer := overwrite 0 ?f (response_buffer s)\<rparr>"
  have len: "length ?f = m + 12" using m by simp
  have lr: "length (response_buffer s) = RESPONSE_BUFFER_SIZE" using ok by (simp add: buffers_ok_def)
  note cm = wp_construct_message [OF m lr, of ty l, folded n(1)]
  have sz: "unat sz = m + 12" using m by (simp add: n(2) del: of_nat_add)
  have tk: "take (unat sz) (response_buffer ?s) = ?f"
    using len by (simp add: sz buf_simps)
  have fit: "unat sz \<le> length (response_buffer ?s)"
    using m lr len by (simp add: sz)
  have ok2: "buffers_ok ?s"
    using ok lr len m by (simp add: buffers_ok_def)
  have send: "wp (send_message P (response_buffer ?s) sz)
      (\<lambda>a. wp (if EFI_ERROR a then bind (report ''Unable to send message: %r.'' a) (\<lambda>_. ret a)
               else ret EFI_SUCCESS) Q E) E ?s"
  proof (rule wp_send_message [OF net fit], unfold tk)
    fix w
    let ?t = "?s\<lparr>open_events := Suc (open_events ?s), world := w, sent := sent ?s @ [?f]\<rparr>"
    have "buffers_ok ?t" using ok2 by (simp only: buffers_ok_def) simp
    then have "Q EFI_SUCCESS ?t" by (intro Q) (simp_all add: io_only_def)
    then show "wp (if EFI_ERROR EFI_SUCCESS
        then bind (report ''Unable to send message: %r.'' EFI_SUCCESS) (\<lambda>_. ret EFI_SUCCESS)
        else ret EFI_SUCCESS) Q E ?t"
      by (simp only: EFI_ERROR_simps if_False wp_ret)
  qed
  show ?thesis
    by (simp only: respond_def wp_bind wp_gets cm EFI_ERROR_simps if_False) (rule send)
qed

text \<open>
  Without assumptions on the network: program data is unchanged, at most one frame goes out, and
  it went out exactly when the status is success.
\<close>

lemma wp_respond_any:
  assumes ok: "buffers_ok s"
    and m: "m \<le> length (payload s)" "m \<le> RESPONSE_PAYLOAD_SIZE" and n: "n = of_nat m" "sz = of_nat (m + 12)"
    and rep: "report = report_debug \<or> report = report_print P"
    and Q: "\<And>t. io_only s t \<Longrightarrow> buffers_ok t \<Longrightarrow> payload_buffer t = payload_buffer s \<Longrightarrow>
              sent t = sent s @ [frame ty (take m (payload s)) l] \<Longrightarrow> Q EFI_SUCCESS t"
    and Qe: "\<And>t st. io_only s t \<Longrightarrow> buffers_ok t \<Longrightarrow> payload_buffer t = payload_buffer s \<Longrightarrow>
               EFI_ERROR st \<Longrightarrow> sent t = sent s \<Longrightarrow> Q st t"
    and E: "\<And>t. io_only s t \<Longrightarrow> sent t = sent s \<Longrightarrow> E Hang t"
  shows "wp (respond P report ty payload n sz l) Q E s"
proof -
  let ?f = "frame ty (take m (payload s)) l"
  let ?s = "s\<lparr>response_buffer := overwrite 0 ?f (response_buffer s)\<rparr>"
  have len: "length ?f = m + 12" using m by simp
  have lr: "length (response_buffer s) = RESPONSE_BUFFER_SIZE" using ok by (simp add: buffers_ok_def)
  note cm = wp_construct_message [OF m lr, of ty l, folded n(1)]
  have sz: "unat sz = m + 12" using m by (simp add: n(2) del: of_nat_add)
  have tk: "take (unat sz) (response_buffer ?s) = ?f"
    using len by (simp add: sz buf_simps)
  have fit: "unat sz \<le> length (response_buffer ?s)"
    using m lr len by (simp add: sz)
  have fmt: "buffers_ok u \<Longrightarrow> buffers_ok (u\<lparr>format_buffer := overwrite 0 (take 127 x @ [0]) (format_buffer u)\<rparr>)"
    for u :: "'a state" and x
    by (simp add: buffers_ok_def) (simp add: overwrite_def)
  have ok2: "buffers_ok (?s\<lparr>world := w\<rparr>)" for w
    using ok lr len m by (simp add: buffers_ok_def)
  have send: "wp (send_message P (response_buffer ?s) sz)
      (\<lambda>a. wp (if EFI_ERROR a then bind (report ''Unable to send message: %r.'' a) (\<lambda>_. ret a)
               else ret EFI_SUCCESS) Q E) E ?s"
  proof (rule wp_send_message_any [OF fit])
    fix w st assume "EFI_ERROR st"
    then show "wp (if EFI_ERROR st then bind (report ''Unable to send message: %r.'' st) (\<lambda>_. ret st)
               else ret EFI_SUCCESS) Q E (?s\<lparr>world := w\<rparr>)"
      using rep fmt [OF ok2 [of w]]
      by (auto simp: wp_simps report_debug_def report_print_def io_only_def ok2 intro!: Qe)
  next
    fix w show "E Hang (?s\<lparr>open_events := Suc (open_events ?s), world := w\<rparr>)"
      by (rule E) (simp_all add: io_only_def)
  qed (use tk ok m lr in \<open>auto simp: wp_simps io_only_def buffers_ok_def intro!: Q\<close>)
  show ?thesis
    by (simp only: respond_def wp_bind wp_gets cm EFI_ERROR_simps if_False) (rule send)
qed

text \<open>
  The case of all handlers but one: the payload was written to the start of the payload buffer.
\<close>

lemma wp_respond_written:
  assumes net: "network_reliable P" and ok: "buffers_ok s"
    and p: "length p \<le> RESPONSE_PAYLOAD_SIZE" and n: "n = of_nat (length p)" "sz = of_nat (length p + 12)"
    and Q: "\<And>t. io_only s t \<Longrightarrow> buffers_ok t \<Longrightarrow>
              payload_buffer t = overwrite 0 p (payload_buffer s) \<Longrightarrow>
              sent t = sent s @ [frame ty p l] \<Longrightarrow> Q EFI_SUCCESS t"
  shows "wp (respond P report ty payload_buffer n sz l) Q E
    (s\<lparr>payload_buffer := overwrite 0 p (payload_buffer s)\<rparr>)"
proof -
  let ?s = "s\<lparr>payload_buffer := overwrite 0 p (payload_buffer s)\<rparr>"
  have ok2: "buffers_ok ?s" using ok p by (simp add: buffers_ok_def)
  have fit: "length p \<le> length (payload_buffer ?s)" using ok p by (simp add: buffers_ok_def)
  show ?thesis
  proof (rule wp_respond [where m = "length p" and payload = payload_buffer, OF net ok2 fit p n])
    fix t assume "io_only ?s t" "buffers_ok t" "payload_buffer t = payload_buffer ?s"
      "sent t = sent ?s @ [frame ty (take (length p) (payload_buffer ?s)) l]"
    then show "Q EFI_SUCCESS t" by (intro Q) (simp_all add: io_only_def buf_simps)
  qed
qed

lemma wp_respond_written_any:
  assumes ok: "buffers_ok s"
    and p: "length p \<le> RESPONSE_PAYLOAD_SIZE" and n: "n = of_nat (length p)" "sz = of_nat (length p + 12)"
    and rep: "report = report_debug \<or> report = report_print P"
    and Q: "\<And>t. io_only s t \<Longrightarrow> buffers_ok t \<Longrightarrow> sent t = sent s @ [frame ty p l] \<Longrightarrow> Q EFI_SUCCESS t"
    and Qe: "\<And>t st. io_only s t \<Longrightarrow> buffers_ok t \<Longrightarrow> EFI_ERROR st \<Longrightarrow> sent t = sent s \<Longrightarrow> Q st t"
    and E: "\<And>t. io_only s t \<Longrightarrow> sent t = sent s \<Longrightarrow> E Hang t"
  shows "wp (respond P report ty payload_buffer n sz l) Q E
    (s\<lparr>payload_buffer := overwrite 0 p (payload_buffer s)\<rparr>)"
proof -
  let ?s = "s\<lparr>payload_buffer := overwrite 0 p (payload_buffer s)\<rparr>"
  have ok2: "buffers_ok ?s" using ok p by (simp add: buffers_ok_def)
  have fit: "length p \<le> length (payload_buffer ?s)" using ok p by (simp add: buffers_ok_def)
  have io: "io_only s t" if "io_only ?s t" for t using that by (simp add: io_only_def)
  show ?thesis
    by (rule wp_respond_any [where m = "length p" and payload = payload_buffer, OF ok2 fit p n rep])
      (simp_all add: io Q Qe E buf_simps)
qed


section \<open>Status messages\<close>

text \<open>\<^verbatim>\<open>StrSize\<close>: the bytes of a null-terminated string of 16-bit characters, terminator included.\<close>

definition text_of :: "u16 list \<Rightarrow> u16 list" where
  "text_of msg = takeWhile (\<lambda>c. c \<noteq> 0) msg"

definition string_bytes :: "u16 list \<Rightarrow> u8 list" where
  "string_bytes msg = concat (map (le_bytes 2) (text_of msg @ [0]))"

definition StrSize :: "u16 list \<Rightarrow> u64" where
  "StrSize msg = of_nat (2 * (length (text_of msg) + 1))"

lemma length_string_bytes [simp]: "length (string_bytes msg) = 2 * (length (text_of msg) + 1)"
  by (simp add: string_bytes_def length_concat comp_def sum_list_triv)

lemma length_text_of: "length (text_of msg) \<le> length msg"
  by (simp add: text_of_def length_takeWhile_le)

text \<open>The string passed to \<^verbatim>\<open>send_status\<close> is the null pointer or the format buffer.\<close>

definition send_status :: "'w platform \<Rightarrow> u32 \<Rightarrow> u16 list option \<Rightarrow> ('w, efi_status) prog" where
  "send_status P status_code message =
     bind (case message of
         Some msg \<Rightarrow>
           bind (require OutOfBounds (0 \<in> set msg)) (\<lambda>_.
           bind (write_payload 8 (string_bytes msg)) (\<lambda>_.
           bind (write_payload 4 (le_bytes 4 (ucast (StrSize msg) :: u32))) (\<lambda>_.
           ret (8 + StrSize msg))))
       | None \<Rightarrow> bind (write_payload 4 (le_bytes 4 (0 :: u32))) (\<lambda>_. ret 8)) (\<lambda>response_size.
     bind (write_payload 0 (le_bytes 4 status_code)) (\<lambda>_.
     respond P report_debug MSG_STATUS payload_buffer response_size (response_size + HEADER_SIZE) True))"

definition status_payload :: "u32 \<Rightarrow> u16 list option \<Rightarrow> u8 list" where
  "status_payload code message =
     (case message of
        Some msg \<Rightarrow> le_bytes 4 code @ le_bytes 4 (of_nat (length (string_bytes msg)) :: u32) @ string_bytes msg
      | None \<Rightarrow> le_bytes 4 code @ le_bytes 4 (0 :: u32))"

definition status_frame :: "u32 \<Rightarrow> u16 list option \<Rightarrow> u8 list" where
  "status_frame code message = frame MSG_STATUS (status_payload code message) True"

definition short_string :: "u16 list option \<Rightarrow> bool" where
  "short_string message \<longleftrightarrow>
     (\<forall>msg. message = Some msg \<longrightarrow> 0 \<in> set msg \<and> length msg \<le> FORMAT_BUFFER_SIZE)"

lemma short_string_None [simp]: "short_string None"
  by (simp add: short_string_def)

lemma length_status_payload:
  assumes "short_string message"
  shows "length (status_payload code message) \<le> 8 + 2 * (FORMAT_BUFFER_SIZE + 1)"
proof (cases message)
  case None
  then show ?thesis by (simp add: status_payload_def)
next
  case (Some msg)
  then have "length (text_of msg) \<le> FORMAT_BUFFER_SIZE"
    using assms length_text_of [of msg] by (simp add: short_string_def)
  then show ?thesis by (simp add: status_payload_def Some)
qed

lemma send_status_prepare:
  assumes "buffers_ok s" and "short_string message"
  shows "wp (send_status P code message) Q E s =
    wp (respond P report_debug MSG_STATUS payload_buffer
          (of_nat (length (status_payload code message)))
          (of_nat (length (status_payload code message) + 12)) True) Q E
      (s\<lparr>payload_buffer := overwrite 0 (status_payload code message) (payload_buffer s)\<rparr>)"
proof (cases message)
  case None
  then show ?thesis
    using assms(1) by (simp add: buffers_ok_def send_status_def wp_simps status_payload_def buf_simps)
next
  case (Some msg)
  then have msg: "0 \<in> set msg" "length (text_of msg) \<le> 128"
    using assms(2) length_text_of [of msg] by (auto simp: short_string_def)
  have "8 + StrSize msg = of_nat (10 + 2 * length (text_of msg))"
    and "8 + StrSize msg + HEADER_SIZE = of_nat (22 + 2 * length (text_of msg))"
    and "(ucast (StrSize msg) :: u32) = of_nat (2 * (length (text_of msg) + 1))"
    unfolding StrSize_def by (simp, simp, simp only: ucast_of_nat_u32)
  then show ?thesis
    using assms(1) msg Some
    by (simp add: buffers_ok_def send_status_def wp_simps status_payload_def buf_simps
        del: of_nat_add of_nat_mult)
qed

lemma wp_send_status:
  assumes net: "network_reliable P" and ok: "buffers_ok s" and msg: "short_string message"
    and Q: "\<And>t. io_only s t \<Longrightarrow> buffers_ok t \<Longrightarrow> format_buffer t = format_buffer s \<Longrightarrow>
              sent t = sent s @ [status_frame code message] \<Longrightarrow> Q EFI_SUCCESS t"
  shows "wp (send_status P code message) Q E s"
proof -
  let ?p = "status_payload code message"
  let ?s = "s\<lparr>payload_buffer := overwrite 0 ?p (payload_buffer s)\<rparr>"
  have len: "length ?p \<le> RESPONSE_PAYLOAD_SIZE"
    using length_status_payload [OF msg, of code] by simp
  have io: "io_only s t" if "io_only ?s t" for t
    using that by (simp add: io_only_def)
  show ?thesis
    unfolding send_status_prepare [OF ok msg]
    by (rule wp_respond [OF net])
      (use ok len io in \<open>auto simp: buffers_ok_def buf_simps status_frame_def intro!: Q\<close>)
qed

lemma wp_send_status_any:
  assumes ok: "buffers_ok s" and msg: "short_string message"
    and Q: "\<And>t. io_only s t \<Longrightarrow> buffers_ok t \<Longrightarrow>
              sent t = sent s @ [status_frame code message] \<Longrightarrow> Q EFI_SUCCESS t"
    and Qe: "\<And>t st. io_only s t \<Longrightarrow> buffers_ok t \<Longrightarrow> EFI_ERROR st \<Longrightarrow> sent t = sent s \<Longrightarrow> Q st t"
    and E: "\<And>t. io_only s t \<Longrightarrow> sent t = sent s \<Longrightarrow> E Hang t"
  shows "wp (send_status P code message) Q E s"
proof -
  let ?p = "status_payload code message"
  let ?s = "s\<lparr>payload_buffer := overwrite 0 ?p (payload_buffer s)\<rparr>"
  have len: "length ?p \<le> RESPONSE_PAYLOAD_SIZE"
    using length_status_payload [OF msg, of code] by simp
  have io: "io_only s t" if "io_only ?s t" for t
    using that by (simp add: io_only_def)
  show ?thesis
    unfolding send_status_prepare [OF ok msg]
    by (rule wp_respond_any)
      (use ok len io in \<open>auto simp: buffers_ok_def buf_simps status_frame_def intro!: Q Qe E\<close>)
qed

text \<open>Sending a status with the text last written to the format buffer.\<close>

definition send_status_fmt :: "'w platform \<Rightarrow> u32 \<Rightarrow> ('w, efi_status) prog" where
  "send_status_fmt P status_code =
     bind (gets format_buffer) (\<lambda>msg. send_status P status_code (Some msg))"

text \<open>The idiom of a failed check: print the reason, send it as a status, return an error.\<close>

definition reject :: "'w platform \<Rightarrow> string \<Rightarrow> u64 list \<Rightarrow> u32 \<Rightarrow> efi_status \<Rightarrow> ('w, efi_status) prog" where
  "reject P fmt args status_code result =
     bind (FormatPrint P fmt args) (\<lambda>_.
     bind (send_status_fmt P status_code) (\<lambda>_.
     ret result))"

lemma buffers_ok_short [simp]: "buffers_ok s \<Longrightarrow> short_string (Some (format_buffer s))"
  by (simp add: buffers_ok_def short_string_def)

lemma buffers_ok_format:
  "buffers_ok s \<Longrightarrow> buffers_ok (s\<lparr>format_buffer := overwrite 0 (take 127 x @ [0]) (format_buffer s)\<rparr>)"
  by (simp add: buffers_ok_def) (simp add: overwrite_def)

text \<open>The text a failed check sends.\<close>

definition printed :: "'w platform \<Rightarrow> string \<Rightarrow> u64 list \<Rightarrow> u16 list" where
  "printed P fmt args = take 127 (sprint_fw P fmt args) @ [0]"

lemma status_frame_prefix:
  "0 \<in> set a \<Longrightarrow> status_frame code (Some (overwrite 0 a b)) = status_frame code (Some a)"
  by (simp add: status_frame_def status_payload_def string_bytes_def text_of_def overwrite_def
      takeWhile_append1)

lemma wp_reject:
  assumes net: "network_reliable P" and ok: "buffers_ok s"
    and Q: "\<And>t. io_only s t \<Longrightarrow> buffers_ok t \<Longrightarrow>
              sent t = sent s @ [status_frame code (Some (printed P fmt args))] \<Longrightarrow> Q st t"
  shows "wp (reject P fmt args code st) Q E s"
  unfolding reject_def send_status_fmt_def
  by (simp add: wp_simps)
    (rule wp_send_status [OF net buffers_ok_format [OF ok]],
     insert ok, auto simp: wp_simps io_only_def status_frame_prefix printed_def
       buffers_ok_format [THEN buffers_ok_short, simplified] intro!: Q)

lemma wp_reject_any:
  assumes ok: "buffers_ok s"
    and Q: "\<And>t. io_only s t \<Longrightarrow> buffers_ok t \<Longrightarrow> Q st t"
    and E: "\<And>t. io_only s t \<Longrightarrow> E Hang t"
  shows "wp (reject P fmt args code st) Q E s"
  unfolding reject_def send_status_fmt_def
  by (simp add: wp_simps)
    (rule wp_send_status_any [OF buffers_ok_format [OF ok]],
     insert ok, auto simp: wp_simps io_only_def
       buffers_ok_format [THEN buffers_ok_short, simplified] intro!: Q E)

end
