(* ===== verification/Example_Platform.thy ===== *)
theory Example_Platform
  imports Responses
begin

text \<open>
  A concrete platform and an initial state, at which the theorems with hypotheses are applied in
  their witnesses: a network on which every transmission succeeds at the first look at the
  token, an allocator that hands out consecutive page-aligned blocks, a CPU whose model-specific
  registers read as zero, and machine code that returns at once. The world counts the calls.
\<close>

definition demo_pages :: "u64 list" where
  "demo_pages = map (\<lambda>i. push_bit 12 (of_nat i)) [1 ..< 65]"

definition demo_platform :: "nat platform" where
  "demo_platform =
     \<lparr>create_event_fw = (\<lambda>w. (EFI_SUCCESS, w)),
      transmit_fw = (\<lambda>d w. (EFI_SUCCESS, w)),
      tx_poll_fw = (\<lambda>w. (EFI_SUCCESS, w)),
      receive_fw = (\<lambda>n w. (EFI_SUCCESS, w)),
      rx_poll_fw = (\<lambda>w. (EFI_SUCCESS, w)),
      rx_data_fw = (\<lambda>w. []),
      alloc_pages_fw = (\<lambda>n h w.
        let a = push_bit 12 (of_nat (w + 1)) in
        if h a = None \<and> take_bit 52 a = a \<and> a \<noteq> 0 then (a, replicate (n * 4096) 0, w + 1) else
        case find (\<lambda>a. h a = None) demo_pages of
          Some a \<Rightarrow> (a, replicate (n * 4096) 0, w + 1) | None \<Rightarrow> (0, [], w)),
      alloc_pool_fw = (\<lambda>n w. (True, w)),
      alloc_block_fw = (\<lambda>n h w. if h 0x12345678900000 = None then (0x12345678900000, replicate n 0, w) else (0, [], w)),
      processors_fw = (\<lambda>w. (EFI_SUCCESS, 2)),
      startup_ap_fw = (\<lambda>i w. (EFI_SUCCESS, w)),
      sprint_fw = (\<lambda>fmt args. [0x41, 0x42]),
      rdmsr_hw = (\<lambda>i m w. (Some 0, w)),
      wrmsr_hw = (\<lambda>i m v w. (False, w)),
      gp_frame_hw = (\<lambda>w. \<lparr>fault_vector = 13, fault_regs = zero_fault_info, fault_stack = [0, 0x1000, 0x38, 2, 0x2000]\<rparr>),
      iretq_segments_hw = (\<lambda>cs ss. cs = CODE_SEGMENT \<and> ss = 0x30),
      rdtsc_hw = (\<lambda>w. (of_nat w, w + 1)),
      cpuid_eax_hw = (\<lambda>l. 0x00870F10),
      cpuid_ecx_hw = (\<lambda>l. 0x444D4163),
      cr3_hw = (\<lambda>i w. 0),
      set_cr3_hw = (\<lambda>i v w. w),
      cr4_hw = (\<lambda>i w. 0),
      set_cr4_hw = (\<lambda>i v w. w),
      set_idtr_hw = (\<lambda>i b l w. w),
      sidt_hw = (\<lambda>w. (0xFFF, 0x1E00000)),
      lidt_hw = (\<lambda>l b w. w),
      apic_read_hw = (\<lambda>a w. (0, w)),
      apic_write_hw = (\<lambda>a v w. w),
      fptan_write_hw = (\<lambda>a b f w. w),
      fpatan_read_hw = (\<lambda>a b f w. (0, w)),
      fprem_write_hw = (\<lambda>a b f w. w),
      code_hw = (\<lambda>i a s. (Returned, s)),
      ap_steps_fw = (\<lambda>w. ([1, 1], w)),
      original_ucode_s_addr = 0x1F00020,
      write_fenced_fprem_asm_addr = 0x1F00100,
      gpf_handler_addr = 0x1F00200,
      proto_fault_handlers_offset = (\<lambda>i. of_nat (0x100 + 0x100 * i)),
      fallback_handler_offset = 0x2000,
      fault_stub_code = replicate 0x2200 0x90,
      recovery_stub_addr = 0x1F00300,
      core_contexts_addr = 0x1F10000\<rparr>"

definition demo_state :: "nat state" where
  "demo_state =
     \<lparr>world = 0,
      payload_buffer = replicate RESPONSE_PAYLOAD_SIZE 0,
      response_buffer = replicate RESPONSE_BUFFER_SIZE 0,
      receive_buffer = replicate RECEIVE_BUFFER_SIZE 0,
      format_buffer = replicate FORMAT_BUFFER_SIZE 0,
      sent = [],
      open_events = 0,
      heap = (\<lambda>a. None),
      ucodes = replicate UCODE_SLOTS \<lparr>ucode = 0, ucode_length = 0\<rparr>,
      machine_codes = replicate MACHINE_CODE_SLOTS \<lparr>machine_code = 0, machine_code_length = 0\<rparr>,
      original_ucode = 0,
      core_contexts = replicate 128 zero_context,
      ap_phases = replicate 128 ApOff,
      frames = (\<lambda>n. None),
      next_frame = 0\<rparr>"

lemma demo_token_loop: "token_loop (tx_poll_fw demo_platform) w = Some (EFI_SUCCESS, w)"
  by (simp add: token_loop_def demo_platform_def while_option_unfold)

lemma demo_network_reliable [simp]: "network_reliable demo_platform"
  unfolding network_reliable_def demo_token_loop
  by (simp add: demo_platform_def)

lemma demo_buffers_ok [simp]: "buffers_ok demo_state"
  by (simp add: buffers_ok_def demo_state_def)

lemma demo_arrays_ok [simp]: "arrays_ok demo_state"
  by (simp add: arrays_ok_def demo_state_def)

lemma take_12_push_12 [simp]: "take_bit 12 (push_bit 12 (x :: u64)) = 0"
  by (rule bit_word_eqI) (auto simp: bit_simps)

lemma unat_page_number: "i < 65 \<Longrightarrow> unat (push_bit 12 (of_nat i) :: u64) = i * 4096"
proof -
  assume "i < 65"
  moreover have "(push_bit 12 (of_nat i) :: u64) = of_nat (i * 4096)" by (simp add: push_bit_eq_mult)
  ultimately show ?thesis by (simp add: unat_of_nat take_bit_nat_eq_self del: of_nat_mult)
qed

lemma distinct_demo_pages: "distinct demo_pages" "length demo_pages = 64"
proof -
  have "inj_on (\<lambda>i. push_bit 12 (of_nat i) :: u64) {1 ..< 65}"
    by (rule inj_on_inverseI [where g = "\<lambda>a. unat a div 4096"]) (simp add: unat_page_number)
  then show "distinct demo_pages" "length demo_pages = 64"
    unfolding demo_pages_def distinct_map set_upt by simp_all
qed

lemma demo_page:
  assumes "a \<in> set demo_pages"
  shows "a \<noteq> 0" "take_bit 12 a = 0" "take_bit 52 a = a"
proof -
  obtain i where i: "a = push_bit 12 (of_nat i)" "1 \<le> i" "i < 65"
    using assms unfolding demo_pages_def set_map set_upt by auto
  then have "unat a = i * 4096" using unat_page_number by simp
  then have a: "a \<noteq> 0" "unat a < 2 ^ 52" using i(2,3) by auto
  then have "unat (take_bit 52 a) = unat a" by (simp only: unsigned_take_bit_eq take_bit_nat_eq_self)
  then show "take_bit 52 a = a" by (simp only: word_unat_eq_iff)
  show "a \<noteq> 0" by (rule a(1))
  show "take_bit 12 a = 0" unfolding i(1) by (rule take_12_push_12)
qed

lemma demo_alloc_pages_documented [simp]: "alloc_pages_documented demo_platform"
proof -
  have "h a = None \<and> a \<noteq> 0 \<and> take_bit 12 a = 0 \<and> take_bit 52 a = a"
    if "find (\<lambda>a. h a = None) demo_pages = Some a" for h :: heap and a
    using that demo_page [of a] unfolding find_Some_iff by (metis nth_mem)
  then show ?thesis
    by (auto simp: alloc_pages_documented_def demo_platform_def Let_def split: if_splits option.splits)
qed

lemma demo_memory_left:
  assumes "card (dom h) + k \<le> 64"
  shows "memory_left demo_platform k h"
  unfolding memory_left_def
proof (intro allI impI)
  fix n and h' :: heap and w
  assume h': "dom h \<subseteq> dom h'" "card (dom h' - dom h) < k"
  have "card (dom h') = card (dom h) + card (dom h' - dom h)"
    using card_Un_disjoint [of "dom h" "dom h' - dom h"] h'(1) by (simp add: Un_absorb1)
  then have "card (dom h') < card (set demo_pages)"
    using h'(2) assms by (simp add: distinct_card distinct_demo_pages)
  then have "\<not> set demo_pages \<subseteq> dom h'" by (metis card_mono finite not_less)
  then obtain a where "find (\<lambda>a. h' a = None) demo_pages = Some a"
    by (cases "find (\<lambda>a. h' a = None) demo_pages") (auto simp: find_None_iff)
  moreover from this have "a \<noteq> 0" using demo_page(1) [of a] unfolding find_Some_iff by (metis nth_mem)
  ultimately show "fst (alloc_pages_fw demo_platform n h' w) \<noteq> 0"
    by (simp add: demo_platform_def Let_def)
qed

lemma demo_alloc_pool_documented [simp]: "alloc_pool_documented demo_platform"
  by (auto simp: alloc_pool_documented_def demo_platform_def split: if_splits)

end
