(* ===== verification/Events.thy ===== *)
theory Events
  imports Example_Platform
begin

text \<open>
  The streaming of recorded events to the client, which \<^verbatim>\<open>handle_ibs.c\<close> and \<^verbatim>\<open>handle_dsm.c\<close>
  share: the events are copied in groups of 64 behind a fixed header in the payload buffer, the
  count in the header is updated, and each group is sent as one message. The interface to the
  recorders is the locale \<open>event_source\<close>; theories \<open>Ibs\<close> and \<open>Dsm\<close> interpret it.
\<close>

section \<open>The loop\<close>

abbreviation MAX_EVENTS_PER_PACKET :: u64 where "MAX_EVENTS_PER_PACKET \<equiv> 64"

text \<open>
  \<open>copy\<close> is \<^verbatim>\<open>copy_ibs_entries\<close> or \<^verbatim>\<open>copy_dsm_entries\<close>; its target is a function that writes
  bytes at an offset. \<open>hdr\<close> is the size of the header and \<open>coff\<close> the offset of its count. The C
  loop has no bound: the fuel is the number of iterations allowed, and using it up stands for
  looping forever.
\<close>

primrec stream_loop ::
  "'w platform \<Rightarrow> u32 \<Rightarrow> nat \<Rightarrow> nat \<Rightarrow>
   ((nat \<Rightarrow> u8 list \<Rightarrow> ('w, unit) prog) \<Rightarrow> u64 \<Rightarrow> u64 \<Rightarrow> u64 \<Rightarrow> ('w, u64) prog) \<Rightarrow> u64 \<Rightarrow>
   nat \<Rightarrow> u64 \<Rightarrow> u64 \<Rightarrow> ('w, efi_status) prog" where
  "stream_loop P ty hdr coff copy core 0 start_index events_to_send = stop Hang"
| "stream_loop P ty hdr coff copy core (Suc fuel) start_index events_to_send =
     (if events_to_send = 0 then ret EFI_SUCCESS else
      bind (copy (\<lambda>off bs. write_payload (hdr + off) bs) core start_index
              (min MAX_EVENTS_PER_PACKET events_to_send)) (\<lambda>entries_copied.
      let events_to_send = (if entries_copied \<le> events_to_send then events_to_send - entries_copied else 0);
          start_index = start_index + entries_copied;
          response_size = of_nat hdr + entries_copied * 16 in
      bind (write_payload coff (le_bytes 8 entries_copied)) (\<lambda>_.
      bind (respond P report_debug ty payload_buffer response_size (response_size + HEADER_SIZE)
              (events_to_send = 0)) (\<lambda>status.
      if EFI_ERROR status then ret status else
      stream_loop P ty hdr coff copy core fuel start_index events_to_send))))"


section \<open>Specification\<close>

text \<open>The messages that carry a list of events: full groups of 64, then the rest, marked last.\<close>

function packets :: "('e list \<Rightarrow> bool \<Rightarrow> 'm) \<Rightarrow> 'e list \<Rightarrow> 'm list" where
  "packets mk es =
     (if length es \<le> 64 then [mk es True] else mk (take 64 es) False # packets mk (drop 64 es))"
  by pat_completeness auto
termination
  by (relation "measure (\<lambda>(mk, es). length es)") auto

declare packets.simps [simp del]

definition event_frame :: "u32 \<Rightarrow> u8 list \<Rightarrow> nat \<Rightarrow> ('e \<Rightarrow> u8 list) \<Rightarrow> 'e list \<Rightarrow> bool \<Rightarrow> u8 list" where
  "event_frame ty header coff bytes es l =
     frame ty (overwrite coff (le_bytes 8 (of_nat (length es) :: u64)) header @ concat (map bytes es)) l"

text \<open>The events of all packets, in order, are the events to send.\<close>

lemma packets_complete: "concat (packets (\<lambda>es l. es) es) = es"
proof (induction es rule: length_induct)
  case (1 es)
  then show ?case by (subst packets.simps) (auto simp: length_drop)
qed

lemma packets_last: "map snd (packets (\<lambda>es l. (es, l)) es) =
  replicate (length (packets (\<lambda>es l. es) es) - 1) False @ [True]"
proof (induction es rule: length_induct)
  case (1 es)
  show ?case
  proof (cases "length es \<le> 64")
    case False
    then have "map snd (packets (\<lambda>es l. (es, l)) (drop 64 es)) =
      replicate (length (packets (\<lambda>es l. es) (drop 64 es)) - 1) False @ [True]"
      by (intro 1 [THEN spec, THEN mp]) simp
    moreover have "packets (\<lambda>es l. es) (drop 64 es) \<noteq> []" by (subst packets.simps) simp
    then obtain k where "length (packets (\<lambda>es l. es) (drop 64 es)) = Suc k"
      by (cases "packets (\<lambda>es l. es) (drop 64 es)") auto
    ultimately show ?thesis using False by (subst (1 2) packets.simps) simp
  qed (simp add: packets.simps)
qed

lemma packets_small: "e \<in> set (packets (\<lambda>es l. es) es) \<Longrightarrow> length e \<le> 64"
proof (induction es rule: length_induct)
  case (1 es)
  then show ?case
    by (subst (asm) (2) packets.simps) (auto split: if_splits dest: spec [of _ "drop 64 es"])
qed


text \<open>Facts about the header and the body of an event message in the payload buffer.\<close>

lemma event_payload:
  assumes "length header = hdr" "coff + 8 \<le> hdr" "hdr + length body \<le> length b"
    and "take hdr b = overwrite coff c header" "length c = 8" "length c' = 8"
  shows "take (hdr + length body) (overwrite coff c' (overwrite hdr body b)) = overwrite coff c' header @ body"
proof -
  have c: "take hdr b = take coff header @ c @ drop (coff + 8) header"
    using assms by (simp add: overwrite_def)
  have b: "b = take hdr b @ drop hdr b" by simp
  have le: "coff \<le> hdr" using assms by simp
  have "take coff b = take coff (take hdr b)" using le by (simp add: min_def)
  also have "\<dots> = take coff header" unfolding c using assms le by simp
  finally have 1: "take coff b = take coff header" .
  have "drop (coff + 8) (take hdr b) = drop (coff + 8) header"
    unfolding c using assms by simp
  then have 2: "drop (coff + 8) (take hdr b) = drop (coff + 8) header" .
  show ?thesis
    using assms le 1 2 by (simp add: overwrite_def min_def)
qed

lemma event_header_again:
  assumes "length header = hdr" "coff + 8 \<le> hdr" "length c = 8" "length c' = 8"
    and "hdr + length body \<le> length b" "take hdr b = overwrite coff c header"
  shows "take hdr (overwrite coff c' (overwrite hdr body b)) = overwrite coff c' header"
proof -
  have "take hdr (overwrite coff c' (overwrite hdr body b)) =
    take hdr (take (hdr + length body) (overwrite coff c' (overwrite hdr body b)))"
    by simp
  also have "\<dots> = overwrite coff c' header"
    using assms by (subst event_payload [OF assms(1,2,5,6,3,4)]) simp
  finally show ?thesis .
qed

text \<open>The range of events that a copy operation with start index and count selects from \<open>total\<close>.\<close>

lemma copy_range:
  fixes start n total :: u64
  assumes "unat start < unat total" and "unat start + unat n < 2 ^ 64"
    and k: "k = min (unat n) (unat total - unat start)"
  shows "\<not> total \<le> start" and "unat (min (start + n) total) = unat start + k"
    and "min (start + n) total - start = of_nat k"
proof -
  show "\<not> total \<le> start" using assms(1) by (simp add: word_le_nat_alt)
  have sn: "unat (start + n) = unat start + unat n" using assms(2) by (simp add: unat_word_ariths)
  show e: "unat (min (start + n) total) = unat start + k"
    using assms(1) sn k by (auto simp: min_def word_le_nat_alt)
  have "(of_nat (unat (min (start + n) total)) :: u64) = of_nat (unat start + k)"
    using e by simp
  then show "min (start + n) total - start = of_nat k" by simp
qed

lemma packets_one:
  "length es \<le> 64 \<Longrightarrow> packets f es = [f es True]"
  by (subst packets.simps) simp

lemma packets_slice:
  assumes "a + k \<le> length es" "64 < k"
  shows "packets f (slice a k es) = f (slice a 64 es) False # packets f (slice (a + 64) (k - 64) es)"
  using assms by (subst packets.simps) (simp add: slice_def drop_take add.commute)

text \<open>The copy loop of both recorders, with the payload buffer as target.\<close>

lemma copy_loop_payload:
  fixes s :: "'w state"
  assumes w: "\<And>e. length (bytes e) = 16" and "a + n \<le> length buf"
    and "off + 16 * n \<le> length (payload_buffer s)"
  shows "for_each [a ..< a + n] (\<lambda>i. bind (from_option NullDeref (Some buf)) (\<lambda>buf.
      bind (require OutOfBounds (i < length buf)) (\<lambda>_.
      write_payload (off + 16 * (i - a)) (bytes (buf ! i))))) s =
    Done () (s\<lparr>payload_buffer := overwrite off (concat (map bytes (slice a n buf))) (payload_buffer s)\<rparr>)"
  using assms(2,3)
proof (induction n)
  case 0
  then show ?case by (simp add: run_simps slice_def)
next
  case (Suc n)
  let ?pre = "concat (map bytes (slice a n buf))"
  have len: "length (concat (map bytes es)) = 16 * length es" for es
    by (induction es) (simp_all add: w)
  have lp: "length ?pre = 16 * n" using Suc.prems len [of "slice a n buf"] by simp
  have "slice a (Suc n) buf = slice a n buf @ [buf ! (a + n)]"
    using Suc.prems by (simp add: slice_def take_Suc_conv_app_nth)
  then have sl: "concat (map bytes (slice a (Suc n) buf)) = ?pre @ bytes (buf ! (a + n))" by simp
  have up: "[a ..< a + Suc n] = [a ..< a + n] @ [a + n]" by simp
  define body :: "nat \<Rightarrow> ('w, unit) prog" where
    "body i = bind (from_option NullDeref (Some buf)) (\<lambda>buf.
      bind (require OutOfBounds (i < length buf)) (\<lambda>_.
      write_payload (off + 16 * (i - a)) (bytes (buf ! i))))" for i
  have "for_each [a ..< a + n] body s = Done () (s\<lparr>payload_buffer := overwrite off ?pre (payload_buffer s)\<rparr>)"
    using Suc unfolding body_def by simp
  then have "for_each [a ..< a + Suc n] body s =
      body (a + n) (s\<lparr>payload_buffer := overwrite off ?pre (payload_buffer s)\<rparr>)"
    unfolding up for_each_append by (simp add: bind_run ret_run split: outcome.splits)
  also have "\<dots> = Done () (s\<lparr>payload_buffer := overwrite off (concat (map bytes (slice a (Suc n) buf))) (payload_buffer s)\<rparr>)"
    unfolding sl using Suc.prems lp w by (simp add: body_def run_simps buf_simps)
  finally show ?case unfolding body_def .
qed


section \<open>Sources of events\<close>

text \<open>
  A recorder of a core: the number of stored events, their buffer, the encoding of an event and
  the copy operation. The law of \<open>copy\<close>: within the stored events, and when the target has room,
  it writes exactly the encodings of the requested events and returns their number.
\<close>

locale event_source =
  fixes count :: "CoreContext \<Rightarrow> u64 option"
    and stored :: "CoreContext \<Rightarrow> 'e list"
    and bytes :: "'e \<Rightarrow> u8 list"
    and copy :: "(nat \<Rightarrow> u8 list \<Rightarrow> ('w, unit) prog) \<Rightarrow> u64 \<Rightarrow> u64 \<Rightarrow> u64 \<Rightarrow> ('w, u64) prog"
  assumes bytes_width: "length (bytes e) = 16"
    and copy_exact: "\<lbrakk>unat core < length (core_contexts s); count (core_contexts s ! unat core) = Some n;
        unat n \<le> length (stored (core_contexts s ! unat core)); k \<noteq> 0; unat start + unat k \<le> unat n;
        off + 16 * unat k \<le> length (payload_buffer s)\<rbrakk> \<Longrightarrow>
      copy (\<lambda>o' bs. write_payload (off + o') bs) core start k s =
        Done k (s\<lparr>payload_buffer := overwrite off
          (concat (map bytes (slice (unat start) (unat k) (stored (core_contexts s ! unat core)))))
          (payload_buffer s)\<rparr>)"
begin

lemma length_encoded: "length (concat (map bytes es)) = 16 * length es"
  by (induction es) (simp_all add: bytes_width)


text \<open>One round: the next packet goes out and leaves the header ready for the round after it.\<close>

lemma wp_stream_round:
  assumes net: "network_reliable P"
    and hdr: "length header = hdr" "coff + 8 \<le> hdr" "hdr + 1024 \<le> RESPONSE_PAYLOAD_SIZE"
    and s: "buffers_ok s" "unat core < length (core_contexts s)"
      "count (core_contexts s ! unat core) = Some n"
      "unat n \<le> length (stored (core_contexts s ! unat core))"
    and k: "unat start + unat k \<le> unat n" "k \<noteq> 0"
    and c0: "take hdr (payload_buffer s) = overwrite coff c0 header" "length c0 = 8"
    and m: "m = min MAX_EVENTS_PER_PACKET k"
    and rest: "\<And>t. \<lbrakk>io_only s t; buffers_ok t;
        take hdr (payload_buffer t) = overwrite coff (le_bytes 8 m) header;
        sent t = sent s @ [event_frame ty header coff bytes
          (slice (unat start) (unat m) (stored (core_contexts s ! unat core))) (k - m = 0)]\<rbrakk> \<Longrightarrow>
      wp (stream_loop P ty hdr coff copy core fuel (start + m) (k - m)) Q E t"
  shows "wp (stream_loop P ty hdr coff copy core (Suc fuel) start k) Q E s"
proof -
  let ?es = "slice (unat start) (unat m) (stored (core_contexts s ! unat core))"
  have mk: "m \<le> k" by (simp add: m)
  have um: "m \<noteq> 0" "unat m \<le> 64" "unat m \<le> unat k" using k(2) by (auto simp: m min_def word_le_nat_alt)
  have pl: "length (payload_buffer s) = RESPONSE_PAYLOAD_SIZE" by (rule buffers_ok_lengths(1) [OF s(1)])
  have es: "length ?es = unat m" using s(4) k(1) um(3) by simp
  define body where "body = concat (map bytes ?es)"
  have lb: "length body = 16 * unat m" by (simp add: body_def length_encoded es)
  have "copy (\<lambda>off bs. write_payload (hdr + off) bs) core start m s =
      Done m (s\<lparr>payload_buffer := overwrite hdr body (payload_buffer s)\<rparr>)"
    unfolding body_def by (rule copy_exact) (use s k um hdr pl in auto)
  then have wcopy: "wp (copy (\<lambda>off bs. write_payload (hdr + off) bs) core start m) R E s =
      R m (s\<lparr>payload_buffer := overwrite hdr body (payload_buffer s)\<rparr>)" for R
    by (simp add: wp_def)
  let ?b = "overwrite coff (le_bytes 8 m) (overwrite hdr body (payload_buffer s))"
  let ?s = "s\<lparr>payload_buffer := ?b\<rparr>"
  have fits: "hdr + length body \<le> length (payload_buffer s)" using hdr pl lb um by simp
  have bl: "length ?b = RESPONSE_PAYLOAD_SIZE" using hdr pl lb um by simp
  have ok: "buffers_ok ?s" using s(1) bl by (simp add: buffers_ok_def)
  have size: "of_nat hdr + m * 16 = (of_nat (hdr + 16 * unat m) :: u64)"
    and size2: "of_nat hdr + m * 16 + HEADER_SIZE = (of_nat (hdr + 16 * unat m + 12) :: u64)"
    by (simp_all add: mult.commute)
  have fr: "frame ty (take (hdr + 16 * unat m) ?b) l = event_frame ty header coff bytes ?es l" for l
    using event_payload [OF hdr(1,2) fits c0, of "le_bytes 8 m"]
    unfolding event_frame_def es body_def by (simp add: length_encoded es)
  have again: "take hdr ?b = overwrite coff (le_bytes 8 m) header"
    by (rule event_header_again [OF hdr(1,2) c0(2) _ fits c0(1)]) simp
  have "wp (respond P report_debug ty payload_buffer (of_nat hdr + m * 16)
      (of_nat hdr + m * 16 + HEADER_SIZE) (k - m = 0))
    (\<lambda>status. wp (if EFI_ERROR status then ret status else
       stream_loop P ty hdr coff copy core fuel (start + m) (k - m)) Q E) E ?s"
  proof (rule wp_respond [where m = "hdr + 16 * unat m" and payload = payload_buffer,
        OF net ok _ _ size size2])
    fix t
    assume t: "io_only ?s t" "buffers_ok t" "payload_buffer t = payload_buffer ?s"
      "sent t = sent ?s @ [frame ty (take (hdr + 16 * unat m) (payload_buffer ?s)) (k - m = 0)]"
    have "wp (stream_loop P ty hdr coff copy core fuel (start + m) (k - m)) Q E t"
      by (rule rest) (use t again fr in \<open>simp_all add: io_only_def\<close>)
    then show "wp (if EFI_ERROR EFI_SUCCESS then ret EFI_SUCCESS else
       stream_loop P ty hdr coff copy core fuel (start + m) (k - m)) Q E t" by simp
  qed (use hdr um bl in simp_all)
  then show ?thesis
    using k(2) hdr pl lb um(2) mk
    by (simp add: m [symmetric] wp_bind wcopy wp_write_payload Let_def word_sub_le_iff cong: if_cong)
qed

text \<open>The client: streaming sends exactly the packets of the requested events and ends.\<close>

lemma wp_stream_loop:
  assumes net: "network_reliable P"
    and hdr: "length header = hdr" "coff + 8 \<le> hdr" "hdr + 1024 \<le> RESPONSE_PAYLOAD_SIZE"
    and "buffers_ok s" "unat core < length (core_contexts s)"
    and "count (core_contexts s ! unat core) = Some n"
    and "unat n \<le> length (stored (core_contexts s ! unat core))"
    and "unat start + unat k \<le> unat n" "k \<noteq> 0" "unat k < fuel"
    and "take hdr (payload_buffer s) = overwrite coff c0 header" "length c0 = 8"
  shows "wp (stream_loop P ty hdr coff copy core fuel start k)
    (\<lambda>st t. st = EFI_SUCCESS \<and> io_only s t \<and> buffers_ok t \<and>
       sent t = sent s @ packets (event_frame ty header coff bytes)
         (slice (unat start) (unat k) (stored (core_contexts s ! unat core))))
    (\<lambda>_ _. False) s"
  using assms(5-)
proof (induction fuel arbitrary: s start k c0)
  case 0
  then show ?case by simp
next
  case (Suc fuel)
  let ?es = "stored (core_contexts s ! unat core)"
  let ?f = "event_frame ty header coff bytes"
  define m where "m = min MAX_EVENTS_PER_PACKET k"
  have m: "unat m = min 64 (unat k)" "m \<le> k" "0 < unat m"
    using Suc.prems(6) by (auto simp: m_def min_def word_le_nat_alt unat_gt_0)
  have km: "unat (k - m) = unat k - unat m" by (rule unat_sub [OF m(2)])
  have "unat start + unat m < 18446744073709551616" using Suc.prems(5) m(1) u64_bound [of n] by linarith
  then have sm: "unat (start + m) = unat start + unat m" by (simp add: unat_word_ariths)
  show ?case
  proof (rule wp_stream_round [OF net hdr Suc.prems(1-6,8,9) m_def])
    fix t
    assume t: "io_only s t" "buffers_ok t" "take hdr (payload_buffer t) = overwrite coff (le_bytes 8 m) header"
      "sent t = sent s @ [?f (slice (unat start) (unat m) ?es) (k - m = 0)]"
    have cc: "core_contexts t = core_contexts s" using t(1) by (simp add: io_only_def)
    show "wp (stream_loop P ty hdr coff copy core fuel (start + m) (k - m))
      (\<lambda>st t. st = EFI_SUCCESS \<and> io_only s t \<and> buffers_ok t \<and>
        sent t = sent s @ packets ?f (slice (unat start) (unat k) ?es)) (\<lambda>_ _. False) t"
    proof (cases "k - m = 0")
      case True
      then have "k = m" by simp
      then have "packets ?f (slice (unat start) (unat k) ?es) = [?f (slice (unat start) (unat m) ?es) True]"
        using m Suc.prems(4,5) by (intro trans [OF packets_one]) simp_all
      moreover obtain f where "fuel = Suc f" using Suc.prems(7) m(3) \<open>k = m\<close> by (cases fuel) auto
      ultimately show ?thesis
        using t(1,2,4) True by (simp add: wp_simps)
    next
      case False
      then have "unat k \<noteq> unat m" by (simp add: word_unat_eq_iff [symmetric])
      then have big: "unat m = 64" "64 < unat k" using m(1) by auto
      have "wp (stream_loop P ty hdr coff copy core fuel (start + m) (k - m))
        (\<lambda>st u. st = EFI_SUCCESS \<and> io_only t u \<and> buffers_ok u \<and>
          sent u = sent t @ packets ?f (slice (unat (start + m)) (unat (k - m)) (stored (core_contexts t ! unat core))))
        (\<lambda>_ _. False) t"
        by (rule Suc.IH [OF t(2) _ _ _ _ False _ t(3)]) (use Suc.prems cc km sm big in simp_all)
      moreover have "sent t @ packets ?f (slice (unat (start + m)) (unat (k - m)) (stored (core_contexts t ! unat core))) =
          sent s @ packets ?f (slice (unat start) (unat k) ?es)"
        using packets_slice [OF _ big(2), of "unat start" ?es ?f] Suc.prems(4,5) False
        by (simp add: t(4) cc km sm big(1))
      ultimately show ?thesis
        by (simp only:) (erule wp_mono, simp_all add: io_only_trans [OF t(1)])
    qed
  qed
qed

text \<open>
  What both requests for events do once the header is in the buffer: one message without events
  when nothing is selected, and the packets of the selected events otherwise.
\<close>

lemma wp_stream_events:
  assumes net: "network_reliable P"
    and hdr: "length header = hdr" "coff + 8 \<le> hdr" "hdr + 1024 \<le> RESPONSE_PAYLOAD_SIZE" "hsize = of_nat hdr"
    and s: "buffers_ok s" "unat core < length (core_contexts s)"
      "count (core_contexts s ! unat core) = Some n"
      "unat n \<le> length (stored (core_contexts s ! unat core))"
    and c0: "header = overwrite coff c0 header" "length c0 = 8"
    and empty: "none \<Longrightarrow> es = [] \<and> c0 = le_bytes 8 (0 :: u64)"
    and some: "\<not> none \<Longrightarrow> k \<noteq> 0 \<and> unat start + unat k \<le> unat n \<and>
      es = slice (unat start) (unat k) (stored (core_contexts s ! unat core))"
  shows "wp (if none then respond P report_debug ty payload_buffer hsize (hsize + HEADER_SIZE) True
      else stream_loop P ty hdr coff copy core (Suc (unat k)) start k)
    (\<lambda>st t. st = EFI_SUCCESS \<and> sent t = sent s @ packets (event_frame ty header coff bytes) es \<and>
       io_only s t \<and> buffers_ok t) (\<lambda>_ _. False)
    (s\<lparr>payload_buffer := overwrite 0 header (payload_buffer s)\<rparr>)"
proof (cases none)
  case True
  have "es = []" "overwrite coff (le_bytes 8 (0 :: u64)) header = header"
    using empty [OF True] c0(1) by simp_all
  then have "packets (event_frame ty header coff bytes) es = [frame ty header True]"
    by (simp add: packets.simps event_frame_def)
  then show ?thesis
    using True hdr by (simp only: if_True) (rule wp_respond_written [OF net s(1)], auto)
next
  case False
  let ?s = "s\<lparr>payload_buffer := overwrite 0 header (payload_buffer s)\<rparr>"
  have pl: "length (payload_buffer s) = RESPONSE_PAYLOAD_SIZE" by (rule buffers_ok_lengths(1) [OF s(1)])
  have ok: "buffers_ok ?s" using s(1) pl hdr by (simp add: buffers_ok_def)
  have k: "k \<noteq> 0" "unat start + unat k \<le> unat n"
    and es: "es = slice (unat start) (unat k) (stored (core_contexts s ! unat core))"
    using some [OF False] by simp_all
  have header: "take hdr (payload_buffer ?s) = overwrite coff c0 header"
    unfolding c0(1) [symmetric] using hdr pl by (simp add: buf_simps)
  have "wp (stream_loop P ty hdr coff copy core (Suc (unat k)) start k)
    (\<lambda>st t. st = EFI_SUCCESS \<and> io_only ?s t \<and> buffers_ok t \<and>
       sent t = sent ?s @ packets (event_frame ty header coff bytes)
         (slice (unat start) (unat k) (stored (core_contexts ?s ! unat core)))) (\<lambda>_ _. False) ?s"
    by (rule wp_stream_loop [OF net hdr(1-3) ok _ _ _ k(2,1) _ header c0(2)]) (use s in simp_all)
  then show ?thesis
    using False by (simp only: if_False) (erule wp_mono, auto simp: es io_only_def)
qed

end

end
