(* ===== verification/Faults.thy ===== *)
theory Faults
  imports Example_Platform
begin

text \<open>
  \<^verbatim>\<open>system/fault_handling.c\<close> and \<^verbatim>\<open>system/fault_handling_stubs.s\<close>: the fault handlers that every
  application processor gets its own copy of, what they record, and the interrupt descriptor table
  that points to them.
\<close>

section \<open>Handlers\<close>

text \<open>\<^verbatim>\<open>store_registers\<close> and \<^verbatim>\<open>m_handler_inner\<close>: save the registers, mark the fault, set its number.\<close>

definition store_registers :: "CoreFaultInfo \<Rightarrow> CoreFaultInfo \<Rightarrow> CoreFaultInfo" where
  "store_registers r info = info
     \<lparr>rax_value := rax_value r, rbx_value := rbx_value r, rcx_value := rcx_value r,
      rdx_value := rdx_value r, rsi_value := rsi_value r, rdi_value := rdi_value r,
      rsp_value := rsp_value r, rbp_value := rbp_value r, r8_value := r8_value r,
      r9_value := r9_value r, r10_value := r10_value r, r11_value := r11_value r,
      r12_value := r12_value r, r13_value := r13_value r, r14_value := r14_value r,
      r15_value := r15_value r, cr0_value := cr0_value r, cr2_value := cr2_value r,
      cr3_fault_value := cr3_fault_value r, cr4_value := cr4_value r\<rparr>"

definition m_handler_inner :: "u64 \<Rightarrow> fault_frame \<Rightarrow> CoreFaultInfo \<Rightarrow> CoreFaultInfo" where
  "m_handler_inner handler_id f info =
     (store_registers (fault_regs f) info)\<lparr>fault_occured := 1, fault_number := handler_id\<rparr>"

text \<open>The word at an index of the interrupt stack.\<close>

definition stack_word :: "fault_frame \<Rightarrow> nat \<Rightarrow> u64" where
  "stack_word f i = (if i < length (fault_stack f) then fault_stack f ! i else 0)"

definition m_handler_no_error_code :: "u64 \<Rightarrow> fault_frame \<Rightarrow> CoreFaultInfo \<Rightarrow> CoreFaultInfo" where
  "m_handler_no_error_code handler_id f info = (m_handler_inner handler_id f info)
     \<lparr>old_rip := stack_word f 0, cs_value := stack_word f 1, rflags_value := stack_word f 2,
      original_rsp := stack_word f 3\<rparr>"

definition m_handler_with_error_code :: "u64 \<Rightarrow> fault_frame \<Rightarrow> CoreFaultInfo \<Rightarrow> CoreFaultInfo" where
  "m_handler_with_error_code handler_id f info = (m_handler_inner handler_id f info)
     \<lparr>error_code := stack_word f 0, old_rip := stack_word f 1, cs_value := stack_word f 2,
      rflags_value := stack_word f 3, original_rsp := stack_word f 4\<rparr>"

text \<open>
  Where a core goes on after a handler: in the recovery stub, in an endless loop, or two bytes after the fault. A handler
  leaves with \<^verbatim>\<open>iretq\<close>, which pops the instruction pointer that the handler has put there, and behind it the segment of the code,
  the flags, the stack pointer and its segment.
\<close>

datatype handler_exit = Recover | DummyLoop | SkipInstruction

text \<open>
  The handler of double faults is the only one that takes an error code but leaves it on the stack: it puts the address of
  \<^verbatim>\<open>dummy_loop\<close> in its place, and \<^verbatim>\<open>iretq\<close> takes the old instruction pointer for the code segment and the old stack pointer for
  the stack segment. When the processor accepts these selectors, the core is in \<^verbatim>\<open>dummy_loop\<close>. When it does not (it names no descriptor of a code or a
  stack segment), \<^verbatim>\<open>iretq\<close> is a general protection fault, after which \<^verbatim>\<open>proto_handler_13\<close> resumes two bytes later, which is the length of \<^verbatim>\<open>iretq\<close>:
  the core runs into \<^verbatim>\<open>proto_handler_9\<close> with 0xDEAD in \<^verbatim>\<open>rax\<close>, which puts the address of the recovery stub in the same place, and whose
  \<^verbatim>\<open>iretq\<close> faults in the same way. In \<^verbatim>\<open>proto_handler_10\<close>, which comes next, the stack is right: it takes the address of the
  stub for the error code and removes it, and recovers. What the handlers 8, 13 and 9 have recorded is
  overwritten by it (lemma \<open>error_code_handler_overwrites\<close>). The registers that it saves are those of the fault but for \<^verbatim>\<open>rax\<close>, \<^verbatim>\<open>rcx\<close>, in
  which handler 9 has left the flags, and \<^verbatim>\<open>rdi\<close>, in which it has left the context.
\<close>

definition proto_handler_8 :: "'w platform \<Rightarrow> u64 \<Rightarrow> fault_frame \<Rightarrow> CoreFaultInfo \<Rightarrow> CoreFaultInfo \<times> handler_exit" where
  "proto_handler_8 P core f info =
     (let recorded = m_handler_with_error_code 8 f info in
      if iretq_segments_hw P (ucast (stack_word f 1)) (ucast (stack_word f 4)) then (recorded, DummyLoop)
      else
        let regs = (fault_regs f)\<lparr>rax_value := 0xDEAD, rcx_value := stack_word f 3, rdi_value := context_address P core\<rparr>;
            f10 = f\<lparr>fault_regs := regs, fault_stack := recovery_stub_addr P # tl (fault_stack f)\<rparr> in
        (m_handler_with_error_code 10 f10 recorded, Recover))"

text \<open>The handlers 0 to 21; the fallback handler is numbered 22.\<close>

definition proto_handler :: "'w platform \<Rightarrow> u64 \<Rightarrow> nat \<Rightarrow> fault_frame \<Rightarrow> CoreFaultInfo \<Rightarrow> CoreFaultInfo \<times> handler_exit" where
  "proto_handler P core h f info =
     (if h = 0 then (m_handler_no_error_code 1 f info, Recover)
      else if h = 8 then proto_handler_8 P core f info
      else if h = 13 then (m_handler_with_error_code 13 f info, SkipInstruction)
      else if h \<in> {10, 11, 12, 14, 17, 21} then (m_handler_with_error_code (of_nat h) f info, Recover)
      else if h < 22 then (m_handler_no_error_code (of_nat h) f info, Recover)
      else (m_handler_no_error_code 0x100 f info, Recover))"

definition proto_fault_handlers_count :: nat where
  "proto_fault_handlers_count = 21"

text \<open>The handler that the table of a core names for a vector.\<close>

definition installed_handler :: "nat \<Rightarrow> nat" where
  "installed_handler v = (if v < proto_fault_handlers_count then v else 22)"


section \<open>Installing them\<close>

abbreviation highest_fault_handler :: nat where "highest_fault_handler \<equiv> 0xff"

definition idt_entry :: "u64 \<Rightarrow> IDT_ENTRY" where
  "idt_entry handler_address =
     \<lparr>OffsetLow = ucast (handler_address AND 0xFFFF), SegmentSelector = CODE_SEGMENT, Ist = 0,
      Attributes = 0x8E, OffsetMid = ucast (drop_bit 16 handler_address AND 0xFFFF),
      OffsetHigh = ucast (drop_bit 32 handler_address AND 0xFFFFFFFF), Reserved = 0\<rparr>"

definition handler_address :: "'w platform \<Rightarrow> u64 \<Rightarrow> nat \<Rightarrow> u64" where
  "handler_address P fault_handlers i =
     (if i < proto_fault_handlers_count then fault_handlers + proto_fault_handlers_offset P i
      else fault_handlers + fallback_handler_offset P)"

definition write_idt_entry :: "u64 \<Rightarrow> nat \<Rightarrow> IDT_ENTRY \<Rightarrow> ('w, unit) prog" where
  "write_idt_entry core i e =
     bind (get_context core) (\<lambda>c.
     bind (from_option NullDeref (idt_base c)) (\<lambda>idt.
     bind (require OutOfBounds (i < length idt)) (\<lambda>_.
     update_context core (\<lambda>c. c\<lparr>idt_base := Some (idt[i := e])\<rparr>))))"

definition zero_idt_entry :: IDT_ENTRY where
  "zero_idt_entry = \<lparr>OffsetLow = 0, SegmentSelector = 0, Ist = 0, Attributes = 0, OffsetMid = 0,
     OffsetHigh = 0, Reserved = 0\<rparr>"

definition init_fault_handlers_on_core :: "'w platform \<Rightarrow> u64 \<Rightarrow> ('w, unit) prog" where
  "init_fault_handlers_on_core P core =
     bind (on_world (alloc_pool_fw P CoreFaultInfo_size)) (\<lambda>ok.
     bind (update_context core (\<lambda>c. c\<lparr>fault_info := (if ok then Some zero_fault_info else None)\<rparr>)) (\<lambda>_.
     bind (AllocatePool P (length (fault_stub_code P))) (\<lambda>fault_handlers.
     bind (heap_write fault_handlers 0 (fault_stub_code P)) (\<lambda>_.
     bind (heap_write fault_handlers 0 (le_bytes 8 (context_address P core))) (\<lambda>_.
     bind (on_world (alloc_pool_fw P (16 * (highest_fault_handler + 1)))) (\<lambda>ok.
     bind (update_context core (\<lambda>c. c\<lparr>idt_base :=
       (if ok then Some (replicate (highest_fault_handler + 1) zero_idt_entry) else None)\<rparr>)) (\<lambda>_.
     bind (update_context core (\<lambda>c. c\<lparr>idt_limit := of_nat highest_fault_handler\<rparr>)) (\<lambda>_.
     for_each [0 ..< highest_fault_handler + 1]
       (\<lambda>i. write_idt_entry core i (idt_entry (handler_address P fault_handlers i)))))))))))"

definition write_idt_on_core :: "'w platform \<Rightarrow> u64 \<Rightarrow> ('w, unit) prog" where
  "write_idt_on_core P core =
     bind (get_context core) (\<lambda>c.
     on_world (\<lambda>w. ((), set_idtr_hw P core (idt_base c) (ucast (idt_limit c)) w)))"


text \<open>The vectors whose 16-byte entries lie within the limit of the table register.\<close>

definition within_limit :: "u64 \<Rightarrow> nat \<Rightarrow> bool" where
  "within_limit limit v \<longleftrightarrow> 16 * v + 15 \<le> unat limit"

text \<open>The vectors for which the CPU pushes an error code.\<close>

definition cpu_error_code :: "nat \<Rightarrow> bool" where
  "cpu_error_code v \<longleftrightarrow> v \<in> {8, 10, 11, 12, 13, 14, 17, 21, 29, 30}"

text \<open>
  What a processor with such a table gives to its handlers for a fault: when the entry of the vector is beyond the limit, the
  fault becomes a general protection fault whose error code names the vector (bit 1 is set for a vector, the others are eight times its number).
\<close>

definition delivered :: "fault_frame \<Rightarrow> fault_frame" where
  "delivered f =
     (let v = fault_vector f in
      if within_limit (of_nat highest_fault_handler) v then f
      else f\<lparr>fault_vector := 13, fault_stack := of_nat (8 * v + 2) #
             (if cpu_error_code v then tl (fault_stack f) else fault_stack f)\<rparr>)"


section \<open>Properties\<close>

text \<open>The address that the CPU reads from an entry.\<close>

definition entry_address :: "IDT_ENTRY \<Rightarrow> u64" where
  "entry_address e = ucast (OffsetLow e) OR push_bit 16 (ucast (OffsetMid e)) OR push_bit 32 (ucast (OffsetHigh e))"

lemma mask_16_32: "(x :: u64) AND 0xFFFF = take_bit 16 x" "x AND 0xFFFFFFFF = take_bit 32 x"
  by (simp_all add: take_bit_eq_mask mask_eq_exp_minus_1)

lemma entry_address_idt_entry: "entry_address (idt_entry a) = a"
proof (rule bit_word_eqI)
  fix n assume "n < LENGTH(64)"
  then show "bit (entry_address (idt_entry a)) n = bit a n"
    unfolding entry_address_def idt_entry_def mask_16_32
    by (cases "n < 32") (auto simp: bit_simps)
qed

definition cpu_stack :: "nat \<Rightarrow> u64 \<Rightarrow> u64 \<Rightarrow> u64 \<Rightarrow> u64 \<Rightarrow> u64 \<Rightarrow> u64 list" where
  "cpu_stack v err rip cs rflags rsp = (if cpu_error_code v then [err] else []) @ [rip, cs, rflags, rsp]"

lemma idt_loop:
  assumes "unat core < length (core_contexts s)" "idt_base (core_contexts s ! unat core) = Some idt"
    and "n \<le> length idt"
  shows "for_each [0 ..< n] (\<lambda>i. write_idt_entry core i (g i)) s = Done ()
    (s\<lparr>core_contexts := (core_contexts s)[unat core :=
       (core_contexts s ! unat core)\<lparr>idt_base := Some (map g [0 ..< n] @ drop n idt)\<rparr>]\<rparr>)"
  using assms(3)
proof (induction n)
  case 0
  then show ?case
    using assms(2) by (simp add: run_simps flip: assms(2))
next
  case (Suc n)
  have "(map g [0 ..< n] @ drop n idt)[n := g n] = map g [0 ..< Suc n] @ drop (Suc n) idt"
    using Suc.prems by (simp add: list_update_append Cons_nth_drop_Suc [symmetric])
  then have "write_idt_entry core n (g n) (s\<lparr>core_contexts := (core_contexts s)[unat core :=
       (core_contexts s ! unat core)\<lparr>idt_base := Some (map g [0 ..< n] @ drop n idt)\<rparr>]\<rparr>) =
    Done () (s\<lparr>core_contexts := (core_contexts s)[unat core :=
       (core_contexts s ! unat core)\<lparr>idt_base := Some (map g [0 ..< Suc n] @ drop (Suc n) idt)\<rparr>]\<rparr>)"
    using Suc.prems assms(1) by (simp add: write_idt_entry_def run_simps)
  moreover have "for_each [0 ..< n] (\<lambda>i. write_idt_entry core i (g i)) s =
    Done () (s\<lparr>core_contexts := (core_contexts s)[unat core :=
       (core_contexts s ! unat core)\<lparr>idt_base := Some (map g [0 ..< n] @ drop n idt)\<rparr>]\<rparr>)"
    using Suc by simp
  ultimately show ?case by (simp add: for_each_append bind_run)
qed

lemma error_code_handler_overwrites:
  "m_handler_with_error_code h f info = m_handler_with_error_code h f info'"
  by (cases info, cases info') (simp add: m_handler_with_error_code_def m_handler_inner_def store_registers_def)

text \<open>
  C24. When its allocations succeed, \<^verbatim>\<open>init_fault_handlers_on_core\<close> gives the core empty fault
  information, and its own copy of the handlers: a new block, which holds the assembled code but for the first eight bytes, and there the
  address of this core's context; all other memory is unchanged. The core also gets a table of 256 gates, whose addresses, put together
  from the three parts of the entries, are the installed handlers in this copy; the handler of vector 21 is never installed.
  The limit that is set, however, covers only the vectors 0 to 15, not 0 to 255.
\<close>

theorem init_fault_handlers_installs:
  assumes doc: "alloc_pool_documented P" and stub: "8 \<le> length (fault_stub_code P)"
    and len: "unat core < length (core_contexts s)"
    and info: "alloc_pool_fw P CoreFaultInfo_size (world s) = (True, w1)"
    and copy: "alloc_block_fw P (length (fault_stub_code P)) (heap s) w1 = (a, c0, w2)" "a \<noteq> 0"
    and table: "alloc_pool_fw P (16 * 256) w2 = (True, w3)"
  shows "\<exists>t c idt. init_fault_handlers_on_core P core s = Done () t \<and> others_kept core s t \<and>
    c = core_contexts t ! unat core \<and> fault_info c = Some zero_fault_info \<and>
    heap s a = None \<and> heap t = (heap s)(a \<mapsto> le_bytes 8 (context_address P core) @ drop 8 (fault_stub_code P)) \<and>
    idt_base c = Some idt \<and> length idt = 256 \<and>
    (\<forall>v < 256. entry_address (idt ! v) = a + (if installed_handler v = 22 then fallback_handler_offset P
         else proto_fault_handlers_offset P v) \<and>
       SegmentSelector (idt ! v) = CODE_SEGMENT \<and> Attributes (idt ! v) = 0x8E) \<and>
    installed_handler 21 = 22 \<and> (\<forall>v < 256. within_limit (idt_limit c) v \<longleftrightarrow> v < 16)"
proof -
  let ?g = "\<lambda>i. idt_entry (handler_address P a i)"
  let ?c = "(core_contexts s ! unat core)\<lparr>fault_info := Some zero_fault_info,
    idt_base := Some (map ?g [0 ..< 256]), idt_limit := 0xff\<rparr>"
  let ?h = "(heap s)(a \<mapsto> le_bytes 8 (context_address P core) @ drop 8 (fault_stub_code P))"
  have new: "heap s a = None" "length c0 = length (fault_stub_code P)"
    using doc copy unfolding alloc_pool_documented_def by blast+
  have "\<exists>t. init_fault_handlers_on_core P core s = Done () t \<and> others_kept core s t \<and>
      core_contexts t ! unat core = ?c \<and> heap t = ?h"
    using len info copy table new stub
    by (simp add: init_fault_handlers_on_core_def AllocatePool_def bind_run [of "AllocatePool P _"] run_simps idt_loop
        others_kept_def overwrite_def del: upt_rec_numeral for_each.simps)
  then obtain t where t: "init_fault_handlers_on_core P core s = Done () t" "others_kept core s t"
    "core_contexts t ! unat core = ?c" "heap t = ?h" by blast
  have gates: "\<forall>v < 256. entry_address (map ?g [0 ..< 256] ! v) = a +
        (if installed_handler v = 22 then fallback_handler_offset P else proto_fault_handlers_offset P v) \<and>
       SegmentSelector (map ?g [0 ..< 256] ! v) = CODE_SEGMENT \<and> Attributes (map ?g [0 ..< 256] ! v) = 0x8E"
    by (simp add: entry_address_idt_entry handler_address_def installed_handler_def
        proto_fault_handlers_count_def del: upt_rec_numeral) (simp add: idt_entry_def)
  have "\<forall>v < 256. within_limit 0xff v \<longleftrightarrow> v < 16" by (auto simp: within_limit_def)
  then show ?thesis
    using t gates new(1)
    by (intro exI [of _ t] exI [of _ ?c] exI [of _ "map ?g [0 ..< 256]"])
      (simp add: installed_handler_def proto_fault_handlers_count_def del: upt_rec_numeral)
qed

text \<open>
  C25. What is recorded of a fault. For the vectors 1 to 15, the installed handler records that a fault
  occurred, its number, the error code if the CPU pushes one, and the instruction pointer, code
  segment, flags and stack pointer from the places where the CPU puts them; vector 0 is
  recorded under the number 1. The handlers of the vectors from 16 on are never entered: the fault is recorded as a general protection
  fault whose error code names the vector, and the instruction is skipped. A double fault locks up the core, as the comment at its
  handler demands, only if the processor accepts the old instruction and stack pointers as segments; else the core recovers, and the fault is
  recorded under the number 10, with the address of the recovery stub as error code.
\<close>

theorem fault_recorded:
  fixes P :: "'w platform" and core :: u64 and info :: CoreFaultInfo
  assumes "fault_vector f < 256" and "fault_stack f = cpu_stack (fault_vector f) err rip cs rflags rsp"
  defines "v \<equiv> fault_vector f"
  defines "lost \<equiv> v = 8 \<and> \<not> iretq_segments_hw P (ucast rip) (ucast rsp)"
  defines "r \<equiv> proto_handler P core (installed_handler (fault_vector (delivered f))) (delivered f) info"
  shows "fault_occured (fst r) = 1 \<and>
    fault_number (fst r) = (if v = 0 then 1 else if lost then 10 else if v < 16 then of_nat v else 13) \<and>
    error_code (fst r) = (if lost then recovery_stub_addr P else if 16 \<le> v then of_nat (8 * v + 2)
      else if cpu_error_code v then err else error_code info) \<and>
    old_rip (fst r) = rip \<and> cs_value (fst r) = cs \<and> rflags_value (fst r) = rflags \<and> original_rsp (fst r) = rsp \<and>
    rax_value (fst r) = (if lost then 0xDEAD else rax_value (fault_regs f)) \<and> cr2_value (fst r) = cr2_value (fault_regs f) \<and>
    snd r = (if lost then Recover else if v = 8 then DummyLoop else if v = 13 \<or> 16 \<le> v then SkipInstruction else Recover)"
proof -
  note record_defs = proto_handler_def proto_handler_8_def installed_handler_def proto_fault_handlers_count_def delivered_def within_limit_def
    m_handler_no_error_code_def m_handler_with_error_code_def m_handler_inner_def store_registers_def stack_word_def Let_def
  show ?thesis
  proof (cases "v < 16")
    case True
    then have "v = 0 \<or> v = 8 \<or> v = 13 \<or> v \<in> {10, 11, 12, 14} \<or> v \<notin> {0, 8, 10, 11, 12, 13, 14, 17, 21, 29, 30}" by auto
    then show ?thesis
      using assms(2) True unfolding r_def lost_def v_def
      by (elim disjE) (auto simp: record_defs cpu_stack_def cpu_error_code_def)
  next
    case False
    then show ?thesis
      using assms(2) unfolding r_def lost_def v_def by (simp add: record_defs cpu_stack_def)
  qed
qed

lemma init_fault_handlers_installs_witness:
  "\<exists>t c idt. init_fault_handlers_on_core demo_platform 1 demo_state = Done () t \<and> others_kept 1 demo_state t \<and>
    c = core_contexts t ! unat (1 :: u64) \<and> fault_info c = Some zero_fault_info \<and>
    heap t 0x12345678900000 = Some (le_bytes 8 (context_address demo_platform 1) @ drop 8 (fault_stub_code demo_platform)) \<and>
    idt_base c = Some idt \<and> length idt = 256 \<and> installed_handler 21 = 22"
proof -
  have "alloc_pool_fw demo_platform n (world demo_state) = (True, 0)" for n by (simp add: demo_platform_def demo_state_def)
  moreover have "alloc_block_fw demo_platform n (heap demo_state) 0 = (0x12345678900000, replicate n 0, 0)" for n
    by (simp add: demo_platform_def demo_state_def)
  moreover have "alloc_pool_fw demo_platform n 0 = (True, 0)" for n by (simp add: demo_platform_def)
  moreover have "8 \<le> length (fault_stub_code demo_platform)" "unat (1 :: u64) < length (core_contexts demo_state)"
    by (simp_all add: demo_platform_def demo_state_def)
  ultimately obtain t c idt where
    "init_fault_handlers_on_core demo_platform 1 demo_state = Done () t" "others_kept 1 demo_state t"
    "c = core_contexts t ! unat (1 :: u64)" "fault_info c = Some zero_fault_info"
    "heap t = (heap demo_state)(0x12345678900000 \<mapsto> le_bytes 8 (context_address demo_platform 1) @ drop 8 (fault_stub_code demo_platform))"
    "idt_base c = Some idt" "length idt = 256" "installed_handler 21 = 22"
    using init_fault_handlers_installs [OF demo_alloc_pool_documented, of 1 demo_state 0 "0x12345678900000"] by fastforce
  then show ?thesis by (intro exI [of _ t] exI [of _ c] exI [of _ idt]) simp
qed

text \<open>A page fault, and a double fault at an address and with a stack that are no selectors.\<close>

lemma fault_recorded_witness:
  "fault_number (fst (proto_handler demo_platform 1 (installed_handler 14)
     \<lparr>fault_vector = 14, fault_regs = zero_fault_info, fault_stack = cpu_stack 14 2 0x1000 0x38 0x202 0x7000\<rparr>
     zero_fault_info)) = 14 \<and>
   fault_number (fst (proto_handler demo_platform 1 (installed_handler 8)
     \<lparr>fault_vector = 8, fault_regs = zero_fault_info, fault_stack = cpu_stack 8 0 0x1000 0x38 0x202 0x7000\<rparr>
     zero_fault_info)) = 10"
proof -
  let ?f = "\<lambda>v err. \<lparr>fault_vector = v, fault_regs = zero_fault_info, fault_stack = cpu_stack v err 0x1000 0x38 0x202 0x7000\<rparr>"
  have "delivered (?f v err) = ?f v err" if "v < 16" for v err
    using that by (simp add: delivered_def within_limit_def)
  then show ?thesis
    using fault_recorded [of "?f 14 2" 2 "0x1000" "0x38" "0x202" "0x7000" demo_platform 1 zero_fault_info]
      fault_recorded [of "?f 8 0" 0 "0x1000" "0x38" "0x202" "0x7000" demo_platform 1 zero_fault_info]
    by (simp add: demo_platform_def)
qed

end
