(* ===== verification/Stubs.thy ===== *)
theory Stubs
  imports Faults
begin

text \<open>
  \<^verbatim>\<open>stubs.s\<close>: the assembly routines that the C code calls. Each is the sequence of its
  instructions on the registers it uses; \<^verbatim>\<open>rdtscp\<close>, \<^verbatim>\<open>wrmsr\<close>, \<^verbatim>\<open>rdmsr\<close> and calls into machine
  code are the CPU's. A general protection fault of \<^verbatim>\<open>wrmsr\<close> or \<^verbatim>\<open>rdmsr\<close> is handled by skipping the
  two bytes of the instruction with 0xDEAD in the accumulator, on the boot core by \<^verbatim>\<open>gpf_handler\<close>
  and on the others by \<^verbatim>\<open>proto_handler_13\<close>, which also records the fault.
\<close>

section \<open>Simple stubs\<close>

definition test_stub :: "u64 \<Rightarrow> u64 \<Rightarrow> u64" where
  "test_stub a b = (a + b) XOR 0xdeadbeefdeadc0de"

definition get_tsc :: "'w platform \<Rightarrow> ('w, u64) prog" where
  "get_tsc P = on_world (rdtsc_hw P)"

definition call_cpuid :: "'w platform \<Rightarrow> u32 \<Rightarrow> u32" where
  "call_cpuid P leaf = cpuid_eax_hw P leaf"

definition call_cpuid_ecx :: "'w platform \<Rightarrow> u32 \<Rightarrow> u32" where
  "call_cpuid_ecx P leaf = cpuid_ecx_hw P leaf"

text \<open>What the handler of a general protection fault leaves behind on a core.\<close>

definition gp_handled :: "'w platform \<Rightarrow> u64 \<Rightarrow> ('w, unit) prog" where
  "gp_handled P core =
     (if core = 0 then ret () else
      bind (get_context core) (\<lambda>c.
      bind (from_option NullDeref (fault_info c)) (\<lambda>info.
      bind (gets world) (\<lambda>w.
      update_context core (\<lambda>c. c\<lparr>fault_info := Some (fst (proto_handler P core 13 (gp_frame_hw P w) info))\<rparr>)))))"

definition read_msr_stub :: "'w platform \<Rightarrow> u64 \<Rightarrow> u32 \<Rightarrow> ('w, u64) prog" where
  "read_msr_stub P core target_msr =
     bind (on_world (rdmsr_hw P core target_msr)) (\<lambda>v.
     case v of
       Some x \<Rightarrow> ret x
     | None \<Rightarrow> bind (gp_handled P core) (\<lambda>_. ret 0xDEAD))"

definition write_msr_stub :: "'w platform \<Rightarrow> u64 \<Rightarrow> u32 \<Rightarrow> u64 \<Rightarrow> ('w, u64) prog" where
  "write_msr_stub P core target_msr write_value =
     bind (on_world (wrmsr_hw P core target_msr write_value)) (\<lambda>gp.
     if gp
     then bind (gp_handled P core) (\<lambda>_. ret (0xDEAD OR push_bit 32 (drop_bit 32 write_value)))
     else ret write_value)"

text \<open>
  \<^verbatim>\<open>lock cmpxchg\<close> on the lock field of a context: the old value is compared and, if equal,
  replaced, in one step; the old value is returned.
\<close>

definition interlocked_compare_exchange_64 :: "u64 \<Rightarrow> u64 \<Rightarrow> u64 \<Rightarrow> ('w, u64) prog" where
  "interlocked_compare_exchange_64 core compare_value exchange_value =
     bind (get_context core) (\<lambda>c.
     if lock c = compare_value
     then bind (update_context core (\<lambda>c. c\<lparr>lock := exchange_value\<rparr>)) (\<lambda>_. ret compare_value)
     else ret (lock c))"


section \<open>Applying microcode\<close>

abbreviation ucode_patch_address :: u32 where "ucode_patch_address \<equiv> 0xc0010020"

record ucode_regs =
  rax :: u64
  rdx :: u64
  rdi :: u64
  r9 :: u64
  r10 :: u64
  r11 :: u64

definition low32 :: "u64 \<Rightarrow> u64" where
  "low32 x = take_bit 32 x"

text \<open>
  The macro \<^verbatim>\<open>m_apply_ucode\<close>, instruction by instruction. \<^verbatim>\<open>rdtscp\<close> gives the time stamp in
  \<^verbatim>\<open>edx:eax\<close>, which the code joins in \<^verbatim>\<open>rax\<close>; \<^verbatim>\<open>wrmsr\<close> takes its value from \<^verbatim>\<open>edx:eax\<close>.
\<close>

definition m_apply_ucode :: "'w platform \<Rightarrow> u64 \<Rightarrow> ucode_regs \<Rightarrow> ('w, ucode_regs) prog" where
  "m_apply_ucode P core regs =
     (let regs = regs\<lparr>r10 := ucast ucode_patch_address\<rparr> in
      bind (on_world (rdtsc_hw P)) (\<lambda>tsc.
      let regs = regs\<lparr>rdx := push_bit 32 (drop_bit 32 tsc), rax := tsc\<rparr>;
          regs = regs\<lparr>r11 := rax regs\<rparr>;
          regs = regs\<lparr>rax := low32 (rdi regs)\<rparr>;
          regs = regs\<lparr>rdx := drop_bit 32 (rdi regs)\<rparr> in
      bind (on_world (wrmsr_hw P core (ucast (r10 regs)) (low32 (rax regs) OR push_bit 32 (rdx regs)))) (\<lambda>gp.
      bind (if gp then gp_handled P core else ret ()) (\<lambda>_.
      let regs = (if gp then regs\<lparr>rax := 0xDEAD\<rparr> else regs);
          regs = regs\<lparr>r9 := rax regs\<rparr> in
      bind (on_world (rdtsc_hw P)) (\<lambda>tsc.
      let regs = regs\<lparr>rdx := push_bit 32 (drop_bit 32 tsc), rax := tsc\<rparr>;
          regs = regs\<lparr>rax := rax regs - r11 regs\<rparr> in
      ret regs)))))"

definition ucode_entry_regs :: "u64 \<Rightarrow> ucode_regs" where
  "ucode_entry_regs addr = \<lparr>rax = 0, rdx = 0, rdi = addr, r9 = 0, r10 = 0, r11 = 0\<rparr>"

text \<open>Both return the value of \<^verbatim>\<open>rax\<close> and the value stored through the second argument.\<close>

definition apply_ucode_simple :: "'w platform \<Rightarrow> u64 \<Rightarrow> ('w, u64 \<times> u64) prog" where
  "apply_ucode_simple P ucode_addr =
     bind (m_apply_ucode P 0 (ucode_entry_regs ucode_addr)) (\<lambda>regs. ret (rax regs, r9 regs))"

definition apply_ucode_restore :: "'w platform \<Rightarrow> u64 \<Rightarrow> ('w, u64 \<times> u64) prog" where
  "apply_ucode_restore P ucode_addr =
     bind (m_apply_ucode P 0 (ucode_entry_regs ucode_addr)) (\<lambda>regs.
     let interrupt_value = r9 regs;
         regs = regs\<lparr>r9 := rax regs\<rparr>;
         regs = regs\<lparr>rdi := original_ucode_s_addr P\<rparr> in
     bind (m_apply_ucode P 0 regs) (\<lambda>regs.
     let regs = regs\<lparr>rax := r9 regs\<rparr> in
     ret (rax regs, interrupt_value)))"

text \<open>
  A call of the machine code at an address. The handlers of a general protection fault resume the
  code two bytes after the faulting instruction, however often that happens; on an application
  processor they record the fault, and a core without fault information faults in its handler and
  is lost. Any other fault ends the call, and code that never returns keeps the core.
\<close>

fun general_protection :: "code_end \<Rightarrow> bool" where
  "general_protection (Faulted f) = (fault_vector f = 13)"
| "general_protection Returned = False"
| "general_protection NeverReturned = False"

text \<open>
  The faults of machine code on a core with an interrupt table of its own are delivered as this table allows; on the boot core, the
  table is that of the firmware.
\<close>

definition run_code :: "'w platform \<Rightarrow> u64 \<Rightarrow> u64 \<Rightarrow> 'w state \<Rightarrow> code_end \<times> 'w state" where
  "run_code P core addr s =
     (case code_hw P (unat core) addr s of
        (Faulted f, t) \<Rightarrow> (Faulted (if core = 0 then f else delivered f), t)
      | r \<Rightarrow> r)"

lemma snd_run_code [simp]: "snd (run_code P core addr s) = snd (code_hw P (unat core) addr s)"
  by (auto simp: run_code_def split: prod.splits code_end.splits)

fun resume_code :: "'w platform \<Rightarrow> u64 \<Rightarrow> code_end \<times> 'w state \<Rightarrow> code_end \<times> 'w state" where
  "resume_code P core (Faulted f, s) =
     (let resume = run_code P core (stack_word f 1 + 2) in
      if core = 0 then resume s
      else case fault_info (core_contexts s ! unat core) of
        None \<Rightarrow> (NeverReturned, s)
      | Some info \<Rightarrow> resume (s\<lparr>core_contexts := (core_contexts s)[unat core :=
          (core_contexts s ! unat core)\<lparr>fault_info := Some (fst (proto_handler P core 13 f info))\<rparr>]\<rparr>))"
| "resume_code P core (Returned, s) = (Returned, s)"
| "resume_code P core (NeverReturned, s) = (NeverReturned, s)"

definition call_machine_code :: "'w platform \<Rightarrow> u64 \<Rightarrow> u64 \<Rightarrow> ('w, unit) prog" where
  "call_machine_code P core addr = (\<lambda>s.
     case while_option (\<lambda>(r, _). general_protection r) (resume_code P core) (run_code P core addr s) of
       Some (Returned, t) \<Rightarrow> Done () t
     | Some (Faulted f, t) \<Rightarrow> Stop (Trap f) t
     | Some (NeverReturned, t) \<Rightarrow> Stop LockedUp t
     | None \<Rightarrow> Stop LockedUp s)"

definition apply_ucode_execute_machine_code :: "'w platform \<Rightarrow> bool \<Rightarrow> u64 \<Rightarrow> ('w, unit) prog" where
  "apply_ucode_execute_machine_code P restore core =
     bind (get_context core) (\<lambda>c.
     bind (m_apply_ucode P core (ucode_entry_regs (current_microcode_slot_address c))) (\<lambda>regs.
     bind (update_context core (\<lambda>c. c\<lparr>ret_gpf_value := r9 regs\<rparr>)) (\<lambda>_.
     bind (update_context core (\<lambda>c. c\<lparr>ret_rdtsc_value := rax regs\<rparr>)) (\<lambda>_.
     if take_bit 16 (r9 regs) = 0xdead then ret () else
     bind (get_context core) (\<lambda>c.
     bind (call_machine_code P core (current_machine_code_slot_address c)) (\<lambda>_.
     if restore
     then bind (m_apply_ucode P core (regs\<lparr>rdi := original_ucode_s_addr P\<rparr>)) (\<lambda>_. ret ())
     else ret ()))))))"

definition apply_ucode_execute_machine_code_simple :: "'w platform \<Rightarrow> u64 \<Rightarrow> ('w, unit) prog" where
  "apply_ucode_execute_machine_code_simple P = apply_ucode_execute_machine_code P False"

definition apply_ucode_execute_machine_code_restore :: "'w platform \<Rightarrow> u64 \<Rightarrow> ('w, unit) prog" where
  "apply_ucode_execute_machine_code_restore P = apply_ucode_execute_machine_code P True"

definition execute_machine_code :: "'w platform \<Rightarrow> u64 \<Rightarrow> ('w, unit) prog" where
  "execute_machine_code P core =
     bind (get_context core) (\<lambda>c. call_machine_code P core (current_machine_code_slot_address c))"


section \<open>Effects of register accesses\<close>

text \<open>
  An access to a model-specific register changes the world and, when it faults on an application
  processor, the fault information of the core that made it. It never has undefined behaviour on a
  core whose fault handlers were set up.
\<close>

definition msr_ready :: "u64 \<Rightarrow> 'w state \<Rightarrow> bool" where
  "msr_ready core s \<longleftrightarrow>
     unat core < length (core_contexts s) \<and> (core = 0 \<or> fault_info (core_contexts s ! unat core) \<noteq> None)"

definition msr_step :: "u64 \<Rightarrow> 'w state \<Rightarrow> 'w state \<Rightarrow> bool" where
  "msr_step core s t \<longleftrightarrow>
     (\<exists>w f. (f = None \<longrightarrow> fault_info (core_contexts s ! unat core) = None) \<and>
        t = s\<lparr>world := w, core_contexts := (core_contexts s)[unat core :=
              (core_contexts s ! unat core)\<lparr>fault_info := f\<rparr>]\<rparr>)"

lemma msr_step_world: "unat core < length (core_contexts s) \<Longrightarrow> msr_step core s (s\<lparr>world := w\<rparr>)"
  unfolding msr_step_def
  by (intro exI [of _ w] exI [of _ "fault_info (core_contexts s ! unat core)"]) simp

lemma msr_step_refl: "unat core < length (core_contexts s) \<Longrightarrow> msr_step core s s"
  using msr_step_world [of core s "world s"] by simp

lemma msr_step_trans:
  assumes "unat core < length (core_contexts s)" "msr_step core s t" "msr_step core t u"
  shows "msr_step core s u"
  using assms by (force simp: msr_step_def)

lemma msr_step_ready: "msr_step core s t \<Longrightarrow> msr_ready core s \<Longrightarrow> msr_ready core t"
  by (auto simp: msr_step_def msr_ready_def)

lemma msr_step_context:
  assumes "msr_step core s t" "unat core < length (core_contexts s)"
  shows "length (core_contexts t) = length (core_contexts s)"
    and "\<exists>f. core_contexts t ! unat core = (core_contexts s ! unat core)\<lparr>fault_info := f\<rparr>"
    and "i \<noteq> unat core \<Longrightarrow> core_contexts t ! i = core_contexts s ! i"
  using assms by (auto simp: msr_step_def)

lemma wp_gp_handled:
  assumes "msr_ready core s" and "\<And>t. msr_step core s t \<Longrightarrow> Q () t"
  shows "wp (gp_handled P core) Q E s"
proof (cases "core = 0")
  case True
  then show ?thesis
    using assms by (simp add: gp_handled_def wp_simps msr_ready_def msr_step_refl)
next
  case False
  have "msr_step core s (s\<lparr>core_contexts := (core_contexts s)[unat core :=
      (core_contexts s ! unat core)\<lparr>fault_info := Some f\<rparr>]\<rparr>)" for f
    unfolding msr_step_def by (intro exI [of _ "world s"] exI [of _ "Some f"]) simp
  then show ?thesis
    using assms False by (auto simp: gp_handled_def wp_simps msr_ready_def split: option.splits)
qed

lemma wp_read_msr_stub:
  assumes "msr_ready core s" and Q: "\<And>v t. msr_step core s t \<Longrightarrow> Q v t"
  shows "wp (read_msr_stub P core m) Q E s"
proof -
  let ?t = "s\<lparr>world := snd (rdmsr_hw P core m (world s))\<rparr>"
  have len: "unat core < length (core_contexts s)" using assms(1) by (simp add: msr_ready_def)
  have t: "msr_step core s ?t" by (rule msr_step_world [OF len])
  have "wp (gp_handled P core) (\<lambda>_. wp (ret r) Q E) E ?t" for r
    by (rule wp_gp_handled [OF msr_step_ready [OF t assms(1)]])
      (simp only: wp_ret, rule Q, rule msr_step_trans [OF len t])
  then show ?thesis
    using Q [OF t] by (auto simp: read_msr_stub_def wp_simps split: option.splits)
qed

lemma wp_write_msr_stub:
  assumes "msr_ready core s" and Q: "\<And>v t. msr_step core s t \<Longrightarrow> Q v t"
  shows "wp (write_msr_stub P core m x) Q E s"
proof -
  let ?t = "s\<lparr>world := snd (wrmsr_hw P core m x (world s))\<rparr>"
  have len: "unat core < length (core_contexts s)" using assms(1) by (simp add: msr_ready_def)
  have t: "msr_step core s ?t" by (rule msr_step_world [OF len])
  have "wp (gp_handled P core) (\<lambda>_. wp (ret r) Q E) E ?t" for r
    by (rule wp_gp_handled [OF msr_step_ready [OF t assms(1)]])
      (simp only: wp_ret, rule Q, rule msr_step_trans [OF len t])
  then show ?thesis
    using Q [OF t] by (auto simp: write_msr_stub_def wp_simps)
qed


section \<open>Applying microcode on the boot core\<close>

text \<open>The effect of one update, with the values of its three hardware accesses.\<close>

definition update_effect :: "'w platform \<Rightarrow> u64 \<Rightarrow> 'w \<Rightarrow> u64 \<times> bool \<times> 'w" where
  "update_effect P addr w =
     (let (tsc0, w) = rdtsc_hw P w; (gp, w) = wrmsr_hw P 0 ucode_patch_address addr w;
          (tsc1, w) = rdtsc_hw P w in (tsc1 - tsc0, gp, w))"

lemma join_halves: "low32 (low32 (x :: u64)) OR push_bit 32 (drop_bit 32 x) = x"
proof (rule bit_word_eqI)
  fix n assume "n < LENGTH(64)"
  then show "bit (low32 (low32 x) OR push_bit 32 (drop_bit 32 x)) n = bit x n"
    by (cases "n < 32") (auto simp: low32_def bit_simps)
qed

lemma ucast_patch_address [simp]: "(ucast (ucast ucode_patch_address :: u64) :: u32) = ucode_patch_address"
  by simp

lemma m_apply_ucode_boot:
  assumes "update_effect P (rdi regs) (world s) = (cycles, gp, w)"
  shows "\<exists>regs'. m_apply_ucode P 0 regs s = Done regs' (s\<lparr>world := w\<rparr>) \<and>
    rax regs' = cycles \<and> r9 regs' = (if gp then 0xDEAD else low32 (rdi regs))"
proof -
  obtain tsc0 w1 where 1: "rdtsc_hw P (world s) = (tsc0, w1)" by (cases "rdtsc_hw P (world s)")
  obtain gp' w2 where 2: "wrmsr_hw P 0 ucode_patch_address (rdi regs) w1 = (gp', w2)"
    by (cases "wrmsr_hw P 0 ucode_patch_address (rdi regs) w1")
  obtain tsc1 w3 where 3: "rdtsc_hw P w2 = (tsc1, w3)" by (cases "rdtsc_hw P w2")
  have eq: "cycles = tsc1 - tsc0" "gp = gp'" "w = w3"
    using assms 1 2 3 by (auto simp: update_effect_def)
  show ?thesis
    using 1 2 3 unfolding eq
    by (cases gp') (auto simp: m_apply_ucode_def Let_def run_simps join_halves gp_handled_def)
qed

lemma apply_ucode_run:
  assumes "update_effect P addr (world s) = (cycles, gp, w)"
    and "update_effect P (original_ucode_s_addr P) w = (cycles', gp', w')"
  shows "apply_ucode_simple P addr s =
      Done (cycles, if gp then 0xDEAD else low32 addr) (s\<lparr>world := w\<rparr>) \<and>
    apply_ucode_restore P addr s =
      Done (if gp' then 0xDEAD else low32 (original_ucode_s_addr P), if gp then 0xDEAD else low32 addr)
        (s\<lparr>world := w'\<rparr>)"
proof -
  obtain r1 where 1: "m_apply_ucode P 0 (ucode_entry_regs addr) s = Done r1 (s\<lparr>world := w\<rparr>)"
    "rax r1 = cycles" "r9 r1 = (if gp then 0xDEAD else low32 addr)"
    using m_apply_ucode_boot [of P "ucode_entry_regs addr" s cycles gp w] assms(1)
    by (auto simp: ucode_entry_regs_def)
  let ?r = "r1\<lparr>r9 := rax r1, rdi := original_ucode_s_addr P\<rparr>"
  obtain r2 where 2: "m_apply_ucode P 0 ?r (s\<lparr>world := w\<rparr>) = Done r2 (s\<lparr>world := w'\<rparr>)"
    "r9 r2 = (if gp' then 0xDEAD else low32 (original_ucode_s_addr P))"
    using m_apply_ucode_boot [of P ?r "s\<lparr>world := w\<rparr>" cycles' gp' w'] assms(2) by auto
  show ?thesis
    using 1 2 by (simp add: apply_ucode_simple_def apply_ucode_restore_def bind_run ret_run Let_def)
qed

text \<open>
  Applying an update on the boot core writes its address to the patch register and returns the
  cycles this took, with 0xDEAD or the low half of the address as the interrupt value. Applying it with
  restore does not: the second update overwrites the register in which the cycles were kept, so the
  routine returns the low half of the address of \<^verbatim>\<open>original_ucode_s\<close>, or 0xDEAD, whatever time the
  update took, and the address it restores from is that of the pointer, not of the microcode.
\<close>

theorem apply_ucode_results:
  assumes "update_effect P addr (world s) = (cycles, gp, w)"
    and "update_effect P (original_ucode_s_addr P) w = (cycles', gp', w')"
  shows "apply_ucode_simple P addr s =
      Done (cycles, if gp then 0xDEAD else low32 addr) (s\<lparr>world := w\<rparr>) \<and>
    apply_ucode_restore P addr s =
      Done (if gp' then 0xDEAD else low32 (original_ucode_s_addr P), if gp then 0xDEAD else low32 addr)
        (s\<lparr>world := w'\<rparr>)"
  by (rule apply_ucode_run [OF assms])

lemma apply_ucode_results_witness:
  "apply_ucode_simple demo_platform 0x5000 demo_state = Done (1, 0x5000) (demo_state\<lparr>world := 2\<rparr>) \<and>
   apply_ucode_restore demo_platform 0x5000 demo_state = Done (0x1F00020, 0x5000) (demo_state\<lparr>world := 4\<rparr>)"
proof -
  have "update_effect demo_platform 0x5000 (world demo_state) = (1, False, 2)"
    and "update_effect demo_platform (original_ucode_s_addr demo_platform) 2 = (1, False, 4)"
    by (simp_all add: update_effect_def demo_platform_def demo_state_def)
  from apply_ucode_results [OF this] show ?thesis
    by (simp add: low32_def demo_platform_def)
qed

end
