(* ===== verification/Bitfields.thy ===== *)
theory Bitfields
  imports Prelude
begin

text \<open>
  The bit fields of the C unions: \<open>get_field pos n\<close> reads the \<open>n\<close> bits from position \<open>pos\<close> on, and
  \<open>set_field pos n v\<close> stores the low \<open>n\<close> bits of \<open>v\<close> there. The compiler allocates the fields of a
  structure from the least significant bit on.
\<close>

definition get_field :: "nat \<Rightarrow> nat \<Rightarrow> 'a::len word \<Rightarrow> 'a word" where
  "get_field pos n x = take_bit n (drop_bit pos x)"

definition set_field :: "nat \<Rightarrow> nat \<Rightarrow> 'a::len word \<Rightarrow> 'a word \<Rightarrow> 'a word" where
  "set_field pos n v x = (x AND NOT (push_bit pos (mask n))) OR push_bit pos (take_bit n v)"

lemma bit_get_field: "bit (get_field pos n x) i \<longleftrightarrow> i < n \<and> bit x (pos + i)"
  by (auto simp: get_field_def bit_simps)

lemma bit_set_field:
  fixes x :: "'a::len word"
  assumes "i < LENGTH('a)"
  shows "bit (set_field pos n v x) i \<longleftrightarrow> (if pos \<le> i \<and> i < pos + n then bit v (i - pos) else bit x i)"
  using assms by (auto simp: set_field_def bit_simps)

lemma get_set_same [simp]:
  fixes x :: "'a::len word"
  assumes "pos + n \<le> LENGTH('a)"
  shows "get_field pos n (set_field pos n v x) = take_bit n v"
proof (rule bit_word_eqI)
  fix i assume "i < LENGTH('a)"
  show "bit (get_field pos n (set_field pos n v x)) i = bit (take_bit n v) i"
  proof (cases "i < n")
    case True
    then have "pos + i < LENGTH('a)" using assms by simp
    then show ?thesis using True by (simp add: bit_get_field bit_set_field bit_simps)
  qed (simp add: bit_get_field bit_simps)
qed

lemma get_set_other [simp]:
  fixes x :: "'a::len word"
  assumes "pos + n \<le> pos' \<or> pos' + n' \<le> pos"
  shows "get_field pos n (set_field pos' n' v x) = get_field pos n x"
proof (rule bit_word_eqI)
  fix i assume "i < LENGTH('a)"
  show "bit (get_field pos n (set_field pos' n' v x)) i = bit (get_field pos n x) i"
  proof (cases "i < n \<and> pos + i < LENGTH('a)")
    case True
    then show ?thesis using assms by (simp add: bit_get_field) (subst bit_set_field, auto)
  next
    case False
    then show ?thesis by (auto simp: bit_get_field dest: bit_imp_le_length)
  qed
qed

lemma set_field_again [simp]: "set_field pos n v (set_field pos n u x) = set_field pos n v x"
  by (rule bit_word_eqI) (simp add: bit_set_field)

lemma get_field_less: "n < LENGTH('a) \<Longrightarrow> unat (get_field pos n (x :: 'a::len word)) < 2 ^ n"
  by (simp add: get_field_def unsigned_take_bit_eq)

lemma get_field_take [simp]: "take_bit n (get_field pos n x) = get_field pos n x"
  by (simp add: get_field_def)

lemma get_field_0 [simp]: "get_field pos n 0 = 0"
  by (simp add: get_field_def)

lemma set_field_cong:
  "take_bit n u = take_bit n v \<Longrightarrow> set_field pos n u x = set_field pos n v x"
  by (simp add: set_field_def)

end
