(* ===== verification/Ibs.thy ===== *)
theory Ibs
  imports Events Stubs Bitfields
begin

text \<open>
  \<^verbatim>\<open>asr/ibs.h\<close> and \<^verbatim>\<open>asr/ibs.c\<close>: instruction based sampling. The per-core recorder is an
  \<open>IBSControl\<close>; the sampling hardware is reached through model-specific registers.
\<close>

section \<open>Registers and fields\<close>

abbreviation IBS_MSR_IBS_Execution_Control :: u32 where "IBS_MSR_IBS_Execution_Control \<equiv> 0xC0011033"
abbreviation IBS_MSR_OP_DATA :: u32 where "IBS_MSR_OP_DATA \<equiv> 0xC0011035"
abbreviation IBS_MSR_OP_DATA2 :: u32 where "IBS_MSR_OP_DATA2 \<equiv> 0xC0011036"
abbreviation IBS_MSR_OP_DATA3 :: u32 where "IBS_MSR_OP_DATA3 \<equiv> 0xC0011037"
abbreviation IBS_MSR_DC_Linear_Address :: u32 where "IBS_MSR_DC_Linear_Address \<equiv> 0xC0011038"
abbreviation IBS_MSR_DC_Physical_Address :: u32 where "IBS_MSR_DC_Physical_Address \<equiv> 0xC0011039"
abbreviation IBS_CPUID_LEAF :: u32 where "IBS_CPUID_LEAF \<equiv> 0x80000001"
abbreviation IA32_APIC_BASE_MSR :: u32 where "IA32_APIC_BASE_MSR \<equiv> 0x1B"
abbreviation AMD_VENDOR_CHECK :: u32 where "AMD_VENDOR_CHECK \<equiv> 0x444D4163"
abbreviation MAX_IBS_ENTRIES :: nat where "MAX_IBS_ENTRIES \<equiv> 262144"

abbreviation IBS_FILTER_ALL :: u64 where "IBS_FILTER_ALL \<equiv> 0"
abbreviation IBS_FILTER_ALU :: u64 where "IBS_FILTER_ALU \<equiv> 1"
abbreviation IBS_FILTER_LOAD :: u64 where "IBS_FILTER_LOAD \<equiv> 2"
abbreviation IBS_FILTER_STORE :: u64 where "IBS_FILTER_STORE \<equiv> 3"
abbreviation IBS_FILTER_LOAD_STORE :: u64 where "IBS_FILTER_LOAD_STORE \<equiv> 4"
abbreviation IBS_FILTER_UPDATE :: u64 where "IBS_FILTER_UPDATE \<equiv> 5"

text \<open>The bit fields of the first quadword of an \<open>IBSEvent\<close>: position and width.\<close>

definition phys :: "u64 \<Rightarrow> u64" where "phys = get_field 0 36"
definition microcode :: "u64 \<Rightarrow> u64" where "microcode = get_field 36 1"
definition data_source :: "u64 \<Rightarrow> u64" where "data_source = get_field 37 3"
definition access_size :: "u64 \<Rightarrow> u64" where "access_size = get_field 40 4"
definition is_prefetch :: "u64 \<Rightarrow> u64" where "is_prefetch = get_field 44 1"
definition phys_valid :: "u64 \<Rightarrow> u64" where "phys_valid = get_field 45 1"
definition linear_valid :: "u64 \<Rightarrow> u64" where "linear_valid = get_field 46 1"
definition uncachable :: "u64 \<Rightarrow> u64" where "uncachable = get_field 47 1"
definition is_store :: "u64 \<Rightarrow> u64" where "is_store = get_field 48 1"
definition is_load :: "u64 \<Rightarrow> u64" where "is_load = get_field 49 1"
definition is_valid :: "u64 \<Rightarrow> u64" where "is_valid = get_field 50 1"

lemmas event_field_defs = phys_def microcode_def data_source_def access_size_def is_prefetch_def
  phys_valid_def linear_valid_def uncachable_def is_store_def is_load_def is_valid_def

text \<open>The fields of \<open>IBS_OP_CTL\<close> that the code uses.\<close>

definition IbsOpMaxCntLow :: "u64 \<Rightarrow> u64" where "IbsOpMaxCntLow = get_field 0 16"
definition IbsOpEn :: "u64 \<Rightarrow> u64" where "IbsOpEn = get_field 17 1"
definition IbsOpVal :: "u64 \<Rightarrow> u64" where "IbsOpVal = get_field 18 1"
definition IbsOpCntCtl :: "u64 \<Rightarrow> u64" where "IbsOpCntCtl = get_field 19 1"
definition IbsOpMaxCntHigh :: "u64 \<Rightarrow> u64" where "IbsOpMaxCntHigh = get_field 20 7"
definition IbsOpCurCnt :: "u64 \<Rightarrow> u64" where "IbsOpCurCnt = get_field 32 27"

lemmas control_field_defs = IbsOpMaxCntLow_def IbsOpEn_def IbsOpVal_def IbsOpCntCtl_def
  IbsOpMaxCntHigh_def IbsOpCurCnt_def

definition ibs_event_bytes :: "IBSEvent \<Rightarrow> u8 list" where
  "ibs_event_bytes e = le_bytes 8 (q1 e) @ le_bytes 8 (q2 e)"


section \<open>Initialisation\<close>

definition is_ibs_supported :: "'w platform \<Rightarrow> bool" where
  "is_ibs_supported P =
     (if call_cpuid_ecx P 0 \<noteq> AMD_VENDOR_CHECK then False
      else call_cpuid_ecx P IBS_CPUID_LEAF AND push_bit 10 1 \<noteq> 0)"

text \<open>The control structure that \<^verbatim>\<open>context->ibs_control\<close> points to.\<close>

definition get_ibs_control :: "u64 \<Rightarrow> ('w, IBSControl) prog" where
  "get_ibs_control core = bind (get_context core) (\<lambda>c. from_option NullDeref (ibs_control c))"

definition update_ibs_control :: "u64 \<Rightarrow> (IBSControl \<Rightarrow> IBSControl) \<Rightarrow> ('w, unit) prog" where
  "update_ibs_control core f =
     bind (get_ibs_control core) (\<lambda>_.
     update_context core (\<lambda>c. c\<lparr>ibs_control := map_option f (ibs_control c)\<rparr>))"

definition zero_ibs_control :: IBSControl where
  "zero_ibs_control = \<lparr>ibs_event_buffer = None, current_position = 0, ibs_filter = 0\<rparr>"

definition init_ibs_for_context :: "'w platform \<Rightarrow> u64 \<Rightarrow> ('w, unit) prog" where
  "init_ibs_for_context P core =
     (if \<not> is_ibs_supported P then ret () else
      bind (on_world (alloc_pool_fw P 24)) (\<lambda>ok.
      bind (update_context core (\<lambda>c. c\<lparr>ibs_control := (if ok then Some zero_ibs_control else None)\<rparr>)) (\<lambda>_.
      bind (on_world (alloc_pool_fw P (MAX_IBS_ENTRIES * 16))) (\<lambda>ok.
      update_ibs_control core (\<lambda>ctl. ctl\<lparr>ibs_event_buffer :=
        (if ok then Some (replicate MAX_IBS_ENTRIES \<lparr>q1 = 0, q2 = 0\<rparr>) else None)\<rparr>)))))"

text \<open>A store to a bit field of the local vector table entry is a read and a write of the register.\<close>

definition lvt_store :: "'w platform \<Rightarrow> u64 \<Rightarrow> nat \<Rightarrow> nat \<Rightarrow> u32 \<Rightarrow> ('w, unit) prog" where
  "lvt_store P addr pos n v =
     bind (on_world (apic_read_hw P addr)) (\<lambda>x.
     on_world (\<lambda>w. ((), apic_write_hw P addr (set_field pos n v x) w)))"

definition init_ibs_on_core :: "'w platform \<Rightarrow> u64 \<Rightarrow> ('w, unit) prog" where
  "init_ibs_on_core P core =
     (if \<not> is_ibs_supported P then ret () else
      bind (read_msr_stub P core IBS_MSR_IBS_Execution_Control) (\<lambda>val.
      bind (write_msr_stub P core IBS_MSR_IBS_Execution_Control (set_field 19 1 1 (set_field 17 1 0 val))) (\<lambda>_.
      bind (read_msr_stub P core IA32_APIC_BASE_MSR) (\<lambda>APIC_base.
      let ibs_reg = APIC_base + 0x500 in
      bind (lvt_store P ibs_reg 0 8 0x2) (\<lambda>_.
      bind (lvt_store P ibs_reg 8 3 0b100) (\<lambda>_.
      bind (lvt_store P ibs_reg 16 1 1) (\<lambda>_.
      update_ibs_control core (\<lambda>ctl. ctl\<lparr>ibs_filter := IBS_FILTER_ALL\<rparr>))))))))"


section \<open>Controlling a sample\<close>

text \<open>The routines return the null pointer where the C code does.\<close>

definition start_ibs :: "'w platform \<Rightarrow> u64 \<Rightarrow> ('w, u64) prog" where
  "start_ibs P core =
     bind (read_msr_stub P core IBS_MSR_IBS_Execution_Control) (\<lambda>val.
     bind (write_msr_stub P core IBS_MSR_IBS_Execution_Control (set_field 19 1 1 (set_field 17 1 1 val))) (\<lambda>_.
     ret 0))"

definition offset_control :: "u64 \<Rightarrow> u64 \<Rightarrow> u64" where
  "offset_control ibs_offset val =
     (let max_count = push_bit 20 1;
          max_count = drop_bit 4 max_count;
          current_count = push_bit 20 1 - ibs_offset;
          val = set_field 32 27 current_count val;
          val = set_field 0 16 (max_count AND 0xFFFF) val in
      set_field 20 7 (drop_bit 16 max_count AND 0x7f) val)"

definition set_ibs_offset :: "'w platform \<Rightarrow> u64 \<Rightarrow> u64 \<Rightarrow> ('w, u64) prog" where
  "set_ibs_offset P core ibs_offset =
     bind (read_msr_stub P core IBS_MSR_IBS_Execution_Control) (\<lambda>val.
     bind (write_msr_stub P core IBS_MSR_IBS_Execution_Control (offset_control ibs_offset val)) (\<lambda>_.
     ret 0))"

definition start_with_ibs_offset :: "'w platform \<Rightarrow> u64 \<Rightarrow> u64 \<Rightarrow> ('w, u64) prog" where
  "start_with_ibs_offset P core ibs_offset =
     bind (set_ibs_offset P core ibs_offset) (\<lambda>_. bind (start_ibs P core) (\<lambda>_. ret 0))"

definition clear_ibs :: "'w platform \<Rightarrow> u64 \<Rightarrow> ('w, u64) prog" where
  "clear_ibs P core =
     bind (read_msr_stub P core IBS_MSR_IBS_Execution_Control) (\<lambda>val.
     bind (write_msr_stub P core IBS_MSR_IBS_Execution_Control (set_field 17 1 0 val)) (\<lambda>_.
     bind (read_msr_stub P core IBS_MSR_IBS_Execution_Control) (\<lambda>val.
     bind (write_msr_stub P core IBS_MSR_IBS_Execution_Control (set_field 18 1 0 (set_field 19 1 1 val))) (\<lambda>_.
     bind (write_msr_stub P core IBS_MSR_DC_Physical_Address 0) (\<lambda>_.
     bind (write_msr_stub P core IBS_MSR_DC_Linear_Address 0) (\<lambda>_.
     ret 0))))))"

definition clear_start_with_ibs_offset :: "'w platform \<Rightarrow> u64 \<Rightarrow> u64 \<Rightarrow> ('w, u64) prog" where
  "clear_start_with_ibs_offset P core ibs_offset =
     bind (clear_ibs P core) (\<lambda>_.
     bind (set_ibs_offset P core ibs_offset) (\<lambda>_.
     bind (start_ibs P core) (\<lambda>_. ret 0)))"


section \<open>The recorder\<close>

definition clear_ibs_results :: "u64 \<Rightarrow> ('w, u64) prog" where
  "clear_ibs_results core =
     bind (update_ibs_control core (\<lambda>ctl. ctl\<lparr>current_position := 0\<rparr>)) (\<lambda>_.
     ret (of_nat MAX_IBS_ENTRIES))"

definition clear_ibs_results_reset_filter :: "u64 \<Rightarrow> ('w, u64) prog" where
  "clear_ibs_results_reset_filter core =
     bind (update_ibs_control core (\<lambda>ctl. ctl\<lparr>ibs_filter := IBS_FILTER_ALL\<rparr>)) (\<lambda>_.
     clear_ibs_results core)"

definition should_store :: "u64 \<Rightarrow> IBSEvent \<Rightarrow> bool" where
  "should_store mode event =
     (if mode = IBS_FILTER_ALL then True
      else if mode = IBS_FILTER_ALU then is_load (q1 event) = 0 \<and> is_store (q1 event) = 0
      else if mode = IBS_FILTER_LOAD then is_load (q1 event) = 1 \<and> is_store (q1 event) = 0
      else if mode = IBS_FILTER_STORE then is_load (q1 event) = 0 \<and> is_store (q1 event) = 1
      else if mode = IBS_FILTER_LOAD_STORE then is_load (q1 event) = 1 \<or> is_store (q1 event) = 1
      else if mode = IBS_FILTER_UPDATE then is_load (q1 event) = 1 \<and> is_store (q1 event) = 1
      else True)"

definition fill_from_data3 :: "IBSEvent \<Rightarrow> u64 \<Rightarrow> IBSEvent" where
  "fill_from_data3 event data3 =
     (let q = q1 event;
          q = set_field 49 1 (get_field 0 1 data3) q;
          q = set_field 48 1 (get_field 1 1 data3) q;
          q = set_field 47 1 (get_field 14 1 data3) q;
          q = set_field 46 1 (get_field 17 1 data3) q;
          q = set_field 45 1 (get_field 18 1 data3) q;
          q = set_field 44 1 (get_field 21 1 data3) q;
          q = set_field 40 4 (get_field 22 4 data3) q in
      event\<lparr>q1 := q\<rparr>)"

definition fill_from_control :: "IBSEvent \<Rightarrow> u64 \<Rightarrow> IBSEvent" where
  "fill_from_control event control = event\<lparr>q1 := set_field 50 1 (get_field 18 1 control) (q1 event)\<rparr>"

text \<open>
  The two unions below declare their fields from the most significant bit on; the compiler
  allocates from the least significant bit, so these are the positions that are read.
\<close>

definition fill_from_data1 :: "IBSEvent \<Rightarrow> u64 \<Rightarrow> IBSEvent" where
  "fill_from_data1 event data = event\<lparr>q1 := set_field 36 1 (get_field 23 1 data) (q1 event)\<rparr>"

definition fill_from_data2 :: "IBSEvent \<Rightarrow> u64 \<Rightarrow> IBSEvent" where
  "fill_from_data2 event data = event\<lparr>q1 := set_field 37 3 (get_field 61 3 data) (q1 event)\<rparr>"

definition fill_addresses :: "IBSEvent \<Rightarrow> u64 \<Rightarrow> u64 \<Rightarrow> IBSEvent" where
  "fill_addresses event phys_addr lin_addr =
     (let event = event\<lparr>q1 := set_field 0 36 (drop_bit 12 phys_addr) (q1 event)\<rparr>;
          event = event\<lparr>q2 := lin_addr\<rparr> in
      if linear_valid (q1 event) = 0
      then event\<lparr>q2 := push_bit 12 (drop_bit 12 lin_addr) OR (phys_addr AND 0xfff)\<rparr>
      else event)"

definition write_event :: "u64 \<Rightarrow> IBSEvent \<Rightarrow> ('w, unit) prog" where
  "write_event core event =
     bind (get_ibs_control core) (\<lambda>ctl.
     bind (from_option NullDeref (ibs_event_buffer ctl)) (\<lambda>buf.
     bind (require OutOfBounds (unat (current_position ctl) < length buf)) (\<lambda>_.
     update_ibs_control core (\<lambda>ctl. ctl\<lparr>ibs_event_buffer := Some (buf[unat (current_position ctl) := event])\<rparr>))))"

text \<open>The part of \<^verbatim>\<open>store_ibs_entry\<close> that follows the filter.\<close>

definition finish_ibs_entry :: "'w platform \<Rightarrow> u64 \<Rightarrow> u64 \<Rightarrow> IBSEvent \<Rightarrow> ('w, u64) prog" where
  "finish_ibs_entry P core control event =
     (let event = fill_from_control event control in
      bind (read_msr_stub P core IBS_MSR_OP_DATA) (\<lambda>op_data.
      bind (read_msr_stub P core IBS_MSR_OP_DATA2) (\<lambda>op_data2.
      let event = fill_from_data2 (fill_from_data1 event op_data) op_data2 in
      bind (read_msr_stub P core IBS_MSR_DC_Physical_Address) (\<lambda>phys_addr.
      bind (read_msr_stub P core IBS_MSR_DC_Linear_Address) (\<lambda>lin_addr.
      bind (write_event core (fill_addresses event phys_addr lin_addr)) (\<lambda>_.
      bind (update_ibs_control core (\<lambda>ctl. ctl\<lparr>current_position := current_position ctl + 1\<rparr>)) (\<lambda>_.
      bind (get_ibs_control core) (\<lambda>ctl.
      ret (of_nat MAX_IBS_ENTRIES - current_position ctl)))))))))"

definition store_ibs_entry :: "'w platform \<Rightarrow> u64 \<Rightarrow> ('w, u64) prog" where
  "store_ibs_entry P core =
     (let event = \<lparr>q1 = 0, q2 = 0\<rparr> in
      bind (get_ibs_control core) (\<lambda>ctl.
      if of_nat MAX_IBS_ENTRIES \<le> current_position ctl then ret 0 else
      bind (read_msr_stub P core IBS_MSR_IBS_Execution_Control) (\<lambda>control.
      bind (read_msr_stub P core IBS_MSR_OP_DATA3) (\<lambda>op_data3.
      let event = fill_from_data3 event op_data3 in
      bind (get_ibs_control core) (\<lambda>ctl.
      if \<not> should_store (ibs_filter ctl) event then ret (of_nat MAX_IBS_ENTRIES - current_position ctl) else
      finish_ibs_entry P core control event)))))"

definition copy_ibs_entries ::
  "(nat \<Rightarrow> u8 list \<Rightarrow> ('w, unit) prog) \<Rightarrow> u64 \<Rightarrow> u64 \<Rightarrow> u64 \<Rightarrow> ('w, u64) prog" where
  "copy_ibs_entries target_buffer core start_index entry_count =
     bind (get_ibs_control core) (\<lambda>status.
     if current_position status \<le> start_index then ret 0 else
     let end_index = min (start_index + entry_count) (current_position status) in
     bind (for_each [unat start_index ..< unat end_index] (\<lambda>i.
       bind (from_option NullDeref (ibs_event_buffer status)) (\<lambda>buf.
       bind (require OutOfBounds (i < length buf)) (\<lambda>_.
       target_buffer (16 * (i - unat start_index)) (ibs_event_bytes (buf ! i)))))) (\<lambda>_.
     ret (end_index - start_index)))"

definition get_current_ibs_event_count :: "u64 \<Rightarrow> ('w, u64) prog" where
  "get_current_ibs_event_count core = bind (get_ibs_control core) (\<lambda>ctl. ret (current_position ctl))"

definition get_max_ibs_event_count :: "u64 \<Rightarrow> ('w, u64) prog" where
  "get_max_ibs_event_count core = ret (of_nat MAX_IBS_ENTRIES)"


section \<open>Events\<close>

text \<open>The event that is assembled from one set of register values.\<close>

definition sampled_event :: "u64 \<Rightarrow> u64 \<Rightarrow> u64 \<Rightarrow> u64 \<Rightarrow> u64 \<Rightarrow> u64 \<Rightarrow> IBSEvent" where
  "sampled_event control op_data op_data2 op_data3 phys_addr lin_addr =
     fill_addresses (fill_from_data2 (fill_from_data1 (fill_from_control
       (fill_from_data3 \<lparr>q1 = 0, q2 = 0\<rparr> op_data3) control) op_data) op_data2) phys_addr lin_addr"

lemmas fill_defs = fill_from_data3_def fill_from_control_def fill_from_data1_def
  fill_from_data2_def fill_addresses_def

lemma q1_sampled_event:
  "q1 (sampled_event control op_data op_data2 op_data3 phys_addr lin_addr) =
     set_field 0 36 (drop_bit 12 phys_addr) (q1 (fill_from_data2 (fill_from_data1 (fill_from_control
       (fill_from_data3 \<lparr>q1 = 0, q2 = 0\<rparr> op_data3) control) op_data) op_data2))"
  by (simp add: sampled_event_def fill_addresses_def Let_def)

text \<open>Loads and stores are known from the first register already.\<close>

lemma should_store_sampled:
  "should_store f (sampled_event control op_data op_data2 op_data3 phys_addr lin_addr) =
   should_store f (fill_from_data3 \<lparr>q1 = 0, q2 = 0\<rparr> op_data3)"
  by (simp add: should_store_def q1_sampled_event is_load_def is_store_def fill_defs Let_def)

text \<open>
  C16. Packing of an event: every field of the first quadword holds exactly the register bits it is
  filled from, whatever the other registers are (no two fields overlap), and the two address fields
  together determine the low 48 bits of the physical address whenever the linear address is marked
  invalid. The data source and the microcode flag come from bits 61 to 63 and bit 23 of
  their registers.
\<close>

theorem sampled_event_fields:
  fixes control op_data op_data2 op_data3 phys_addr lin_addr
  defines "e \<equiv> sampled_event control op_data op_data2 op_data3 phys_addr lin_addr"
  shows "phys (q1 e) = get_field 12 36 phys_addr \<and> microcode (q1 e) = get_field 23 1 op_data \<and>
    data_source (q1 e) = get_field 61 3 op_data2 \<and> access_size (q1 e) = get_field 22 4 op_data3 \<and>
    is_prefetch (q1 e) = get_field 21 1 op_data3 \<and> phys_valid (q1 e) = get_field 18 1 op_data3 \<and>
    linear_valid (q1 e) = get_field 17 1 op_data3 \<and> uncachable (q1 e) = get_field 14 1 op_data3 \<and>
    is_store (q1 e) = get_field 1 1 op_data3 \<and> is_load (q1 e) = get_field 0 1 op_data3 \<and>
    is_valid (q1 e) = get_field 18 1 control \<and>
    (if linear_valid (q1 e) = 0
     then push_bit 12 (phys (q1 e)) OR get_field 0 12 (q2 e) = take_bit 48 phys_addr
     else q2 e = lin_addr)"
proof -
  let ?e = "fill_from_data2 (fill_from_data1 (fill_from_control
       (fill_from_data3 \<lparr>q1 = 0, q2 = 0\<rparr> op_data3) control) op_data) op_data2"
  have lv: "linear_valid (q1 ?e) = get_field 17 1 op_data3"
    and lv2: "linear_valid (q1 e) = get_field 17 1 op_data3"
    by (simp_all add: e_def q1_sampled_event linear_valid_def fill_defs Let_def)
  have ph: "phys (q1 e) = get_field 12 36 phys_addr"
    by (simp add: e_def q1_sampled_event phys_def) (simp add: get_field_def)
  have q2: "q2 e = (if get_field 17 1 op_data3 = 0
      then push_bit 12 (drop_bit 12 lin_addr) OR (phys_addr AND 0xfff) else lin_addr)"
    using lv unfolding e_def sampled_event_def fill_addresses_def [of ?e]
    by (simp add: Let_def linear_valid_def)
  have mask: "(0xfff :: u64) = mask 12" by (simp add: mask_eq_exp_minus_1)
  have join: "push_bit 12 (get_field 12 36 phys_addr) OR
      get_field 0 12 (push_bit 12 (drop_bit 12 lin_addr) OR (phys_addr AND 0xfff)) = take_bit 48 phys_addr"
    unfolding mask by (rule bit_word_eqI) (auto simp: get_field_def bit_simps)
  have rest: "microcode (q1 e) = get_field 23 1 op_data \<and>
    data_source (q1 e) = get_field 61 3 op_data2 \<and> access_size (q1 e) = get_field 22 4 op_data3 \<and>
    is_prefetch (q1 e) = get_field 21 1 op_data3 \<and> phys_valid (q1 e) = get_field 18 1 op_data3 \<and>
    uncachable (q1 e) = get_field 14 1 op_data3 \<and>
    is_store (q1 e) = get_field 1 1 op_data3 \<and> is_load (q1 e) = get_field 0 1 op_data3 \<and>
    is_valid (q1 e) = get_field 18 1 control"
    by (simp add: e_def q1_sampled_event event_field_defs fill_defs Let_def)
  show ?thesis
    using ph lv2 rest join by (simp add: q2)
qed


section \<open>The sampling offset\<close>

text \<open>
  C17. \<^verbatim>\<open>set_ibs_offset\<close> reads the control register once and writes it once; for offsets up to
  \<open>2 ^ 20\<close> the hardware will sample after exactly that many micro-operations (maximum count minus
  current count), the maximum count being 16 times the two halves of its field; the enable, valid
  and count-control bits are kept.
\<close>

theorem set_ibs_offset_programs_counter:
  assumes "rdmsr_hw P core IBS_MSR_IBS_Execution_Control (world s) = (Some v, w1)"
    and "wrmsr_hw P core IBS_MSR_IBS_Execution_Control (offset_control ibs_offset v) w1 = (False, w2)"
    and off: "ibs_offset \<le> 2 ^ 20"
  shows "set_ibs_offset P core ibs_offset s = Done 0 (s\<lparr>world := w2\<rparr>) \<and>
    16 * (push_bit 16 (IbsOpMaxCntHigh (offset_control ibs_offset v)) + IbsOpMaxCntLow (offset_control ibs_offset v))
      - IbsOpCurCnt (offset_control ibs_offset v) = ibs_offset \<and>
    IbsOpEn (offset_control ibs_offset v) = IbsOpEn v \<and> IbsOpVal (offset_control ibs_offset v) = IbsOpVal v \<and>
    IbsOpCntCtl (offset_control ibs_offset v) = IbsOpCntCtl v"
proof -
  have small: "unat (0x100000 - ibs_offset) \<le> 0x100000"
    using off by (simp add: unat_sub word_le_nat_alt)
  have "take_bit 27 (0x100000 - ibs_offset) = 0x100000 - ibs_offset"
    unfolding word_unat_eq_iff unsigned_take_bit_eq
    by (rule take_bit_nat_eq_self) (use small in simp)
  then show ?thesis
    using assms(1,2)
    by (simp add: set_ibs_offset_def read_msr_stub_def write_msr_stub_def run_simps
        offset_control_def control_field_defs Let_def)
qed

lemma set_ibs_offset_programs_counter_witness:
  "rdmsr_hw demo_platform 0 IBS_MSR_IBS_Execution_Control (world demo_state) = (Some 0, 0) \<and>
   (300 :: u64) \<le> 2 ^ 20 \<and>
   set_ibs_offset demo_platform 0 300 demo_state = Done 0 (demo_state\<lparr>world := 0\<rparr>) \<and>
    16 * (push_bit 16 (IbsOpMaxCntHigh (offset_control 300 0)) + IbsOpMaxCntLow (offset_control 300 0))
      - IbsOpCurCnt (offset_control 300 0) = 300 \<and>
    IbsOpEn (offset_control 300 0) = IbsOpEn 0 \<and> IbsOpVal (offset_control 300 0) = IbsOpVal 0 \<and>
    IbsOpCntCtl (offset_control 300 0) = IbsOpCntCtl 0"
proof -
  have r: "rdmsr_hw demo_platform 0 IBS_MSR_IBS_Execution_Control (world demo_state) = (Some 0, 0)"
    by (simp add: demo_platform_def demo_state_def)
  have w: "wrmsr_hw demo_platform 0 IBS_MSR_IBS_Execution_Control (offset_control 300 0) 0 = (False, 0)"
    by (simp add: demo_platform_def)
  show ?thesis
    using r set_ibs_offset_programs_counter [OF r w] by simp
qed


section \<open>Recording\<close>

text \<open>
  A recorder is well formed when it has its buffer and its position is in range; abstractly it
  is the list of the events recorded so far.
\<close>

definition ibs_ok :: "IBSControl \<Rightarrow> bool" where
  "ibs_ok ctl \<longleftrightarrow>
     (\<exists>buf. ibs_event_buffer ctl = Some buf \<and> length buf = MAX_IBS_ENTRIES) \<and>
     unat (current_position ctl) \<le> MAX_IBS_ENTRIES"

definition recorded :: "IBSControl \<Rightarrow> IBSEvent list" where
  "recorded ctl = (case ibs_event_buffer ctl of
     Some buf \<Rightarrow> take (unat (current_position ctl)) buf | None \<Rightarrow> [])"

definition ibs_at :: "u64 \<Rightarrow> 'w state \<Rightarrow> IBSControl option" where
  "ibs_at core s = ibs_control (core_contexts s ! unat core)"

lemma length_recorded: "ibs_ok ctl \<Longrightarrow> length (recorded ctl) = unat (current_position ctl)"
  by (auto simp: ibs_ok_def recorded_def)

lemma wp_get_ibs_control:
  assumes "unat core < length (core_contexts s)" "ibs_at core s = Some ctl"
  shows "wp (get_ibs_control core) Q E s = Q ctl s"
  using assms by (simp add: get_ibs_control_def wp_simps ibs_at_def)

lemma wp_update_ibs_control:
  assumes len: "unat core < length (core_contexts s)" and ctl: "ibs_at core s = Some ctl"
    and Q: "\<And>t. ibs_at core t = Some (f ctl) \<Longrightarrow> others_kept core s t \<Longrightarrow>
              (msr_ready core s \<Longrightarrow> msr_ready core t) \<Longrightarrow> Q () t"
  shows "wp (update_ibs_control core f) Q E s"
  using len ctl
  by (simp add: update_ibs_control_def wp_bind wp_get_ibs_control [OF len ctl] wp_simps)
    (rule Q, simp_all add: ibs_at_def others_kept_def msr_ready_def)

lemma wp_read_msr_ibs:
  assumes r: "msr_ready core s" and ctl: "ibs_at core s = Some ctl"
    and Q: "\<And>v t. ibs_at core t = Some ctl \<Longrightarrow> others_kept core s t \<Longrightarrow> msr_ready core t \<Longrightarrow> Q v t"
  shows "wp (read_msr_stub P core m) Q E s"
proof (rule wp_read_msr_stub [OF r])
  fix v t assume t: "msr_step core s t"
  have len: "unat core < length (core_contexts s)" using r by (simp add: msr_ready_def)
  show "Q v t"
  proof (rule Q)
    show "ibs_at core t = Some ctl" using msr_step_context(2) [OF t len] ctl by (auto simp: ibs_at_def)
    show "others_kept core s t" using msr_step_context [OF t len] by (simp add: others_kept_def)
    show "msr_ready core t" by (rule msr_step_ready [OF t r])
  qed
qed

lemma wp_write_event:
  assumes r: "msr_ready core s" and ctl: "ibs_at core s = Some ctl" "ibs_ok ctl"
    and room: "unat (current_position ctl) < MAX_IBS_ENTRIES"
    and Q: "\<And>t ctl'. ibs_at core t = Some ctl' \<Longrightarrow> ibs_event_buffer ctl' =
         Some ((the (ibs_event_buffer ctl))[unat (current_position ctl) := e]) \<Longrightarrow>
         current_position ctl' = current_position ctl \<Longrightarrow> ibs_filter ctl' = ibs_filter ctl \<Longrightarrow>
         others_kept core s t \<Longrightarrow> msr_ready core t \<Longrightarrow> Q () t"
  shows "wp (write_event core e) Q E s"
proof -
  have len: "unat core < length (core_contexts s)" using r by (simp add: msr_ready_def)
  obtain buf where buf: "ibs_event_buffer ctl = Some buf" "length buf = MAX_IBS_ENTRIES"
    using ctl(2) by (auto simp: ibs_ok_def)
  show ?thesis
    using buf room
    by (simp add: write_event_def wp_bind wp_get_ibs_control [OF len ctl(1)] wp_from_option wp_require)
      (rule wp_update_ibs_control [OF len ctl(1)],
       rule Q [where ctl' = "ctl\<lparr>ibs_event_buffer := Some (buf[unat (current_position ctl) := e])\<rparr>"],
       auto simp: r)
qed

lemma ibs_room_left:
  "unat p \<le> MAX_IBS_ENTRIES \<Longrightarrow> unat (of_nat MAX_IBS_ENTRIES - p :: u64) = MAX_IBS_ENTRIES - unat p"
  by (subst unat_sub) (simp_all add: word_le_nat_alt)

definition store_outcome :: "u64 \<Rightarrow> 'w state \<Rightarrow> IBSControl \<Rightarrow> u64 \<Rightarrow> 'w state \<Rightarrow> bool" where
  "store_outcome core s ctl v t \<longleftrightarrow> (\<exists>ctl'. ibs_at core t = Some ctl' \<and> ibs_ok ctl' \<and>
    ibs_filter ctl' = ibs_filter ctl \<and> others_kept core s t \<and>
    unat v = MAX_IBS_ENTRIES - length (recorded ctl') \<and>
    (recorded ctl' = recorded ctl \<or>
     (\<exists>e. should_store (ibs_filter ctl) e \<and> recorded ctl' = recorded ctl @ [e])))"

lemma store_outcome_unchanged:
  "ibs_at core t = Some ctl \<Longrightarrow> ibs_ok ctl \<Longrightarrow> others_kept core s t \<Longrightarrow>
   store_outcome core s ctl (of_nat MAX_IBS_ENTRIES - current_position ctl) t"
  using ibs_room_left [of "current_position ctl"]
  by (simp add: store_outcome_def length_recorded) (simp add: ibs_ok_def)

lemma wp_finish_ibs_entry:
  assumes r: "msr_ready core t" and ctl: "ibs_at core t = Some ctl" "ibs_ok ctl"
    and room: "unat (current_position ctl) < MAX_IBS_ENTRIES"
    and f: "should_store (ibs_filter ctl) (fill_from_data3 \<lparr>q1 = 0, q2 = 0\<rparr> op_data3)"
    and kept: "others_kept core s t"
  shows "wp (finish_ibs_entry P core control (fill_from_data3 \<lparr>q1 = 0, q2 = 0\<rparr> op_data3))
    (store_outcome core s ctl) E t"
  unfolding finish_ibs_entry_def Let_def wp_bind
proof (rule wp_read_msr_ibs [OF r ctl(1)], rule wp_read_msr_ibs, assumption+,
    rule wp_read_msr_ibs, assumption+, rule wp_read_msr_ibs, assumption+,
    rule wp_write_event [OF _ _ ctl(2) room], assumption+)
  fix op_data t3 op_data2 t4 phys_addr t5 lin_addr t6 t7 and ctl7 :: IBSControl
  let ?e = "sampled_event control op_data op_data2 op_data3 phys_addr lin_addr"
  let ?c = "ctl7\<lparr>current_position := current_position ctl7 + 1\<rparr>"
  assume k: "others_kept core t t3" "others_kept core t3 t4" "others_kept core t4 t5"
      "others_kept core t5 t6" "others_kept core t6 t7"
    and at: "ibs_at core t7 = Some ctl7" and r7: "msr_ready core t7"
    and c: "ibs_event_buffer ctl7 = Some ((the (ibs_event_buffer ctl))[unat (current_position ctl) :=
         fill_addresses (fill_from_data2 (fill_from_data1 (fill_from_control
           (fill_from_data3 \<lparr>q1 = 0, q2 = 0\<rparr> op_data3) control) op_data) op_data2) phys_addr lin_addr])"
      "current_position ctl7 = current_position ctl" "ibs_filter ctl7 = ibs_filter ctl"
  obtain buf where buf: "ibs_event_buffer ctl = Some buf" "length buf = MAX_IBS_ENTRIES"
    using ctl(2) by (auto simp: ibs_ok_def)
  have pos: "unat (current_position ctl + 1) = Suc (unat (current_position ctl))"
    using room by (simp add: unat_word_ariths)
  have ok: "ibs_ok ?c" using buf c room pos by (simp add: ibs_ok_def)
  have rec: "recorded ?c = recorded ctl @ [?e]"
    using buf c room pos by (simp add: recorded_def sampled_event_def take_Suc_conv_app_nth)
  have left: "unat (of_nat MAX_IBS_ENTRIES - current_position ?c) = MAX_IBS_ENTRIES - length (recorded ?c)"
    using ok ibs_room_left [of "current_position ?c"] length_recorded [OF ok] by (simp add: ibs_ok_def)
  show "wp (update_ibs_control core (\<lambda>ctl. ctl\<lparr>current_position := current_position ctl + 1\<rparr>))
      (\<lambda>_. wp (get_ibs_control core) (\<lambda>c. wp (ret (of_nat MAX_IBS_ENTRIES - current_position c))
        (store_outcome core s ctl) E) E) E t7"
  proof (rule wp_update_ibs_control [OF _ at])
    show "unat core < length (core_contexts t7)" using r7 by (simp add: msr_ready_def)
    fix t8 assume t8: "ibs_at core t8 = Some ?c" "others_kept core t7 t8" "msr_ready core t7 \<Longrightarrow> msr_ready core t8"
    have "unat core < length (core_contexts t8)" using t8(3) [OF r7] by (simp add: msr_ready_def)
    moreover have "others_kept core s t8" using kept k t8(2) by (meson others_kept_trans)
    ultimately show "wp (get_ibs_control core) (\<lambda>c. wp (ret (of_nat MAX_IBS_ENTRIES - current_position c))
        (store_outcome core s ctl) E) E t8"
      using t8(1) ok rec left f c(3)
      by (simp only: wp_get_ibs_control wp_ret store_outcome_def) (auto simp: should_store_sampled)
  qed
qed

text \<open>
  C12. \<^verbatim>\<open>store_ibs_entry\<close> never leaves the buffer and keeps the recorder well formed: it either
  records nothing, or appends one event that passes the filter while there was room; it returns the
  room that is left. Registers that fault do not matter.
\<close>

theorem store_ibs_entry_appends:
  assumes r: "msr_ready core s" and ctl: "ibs_at core s = Some ctl" "ibs_ok ctl"
  shows "\<exists>v t ctl'. store_ibs_entry P core s = Done v t \<and> ibs_at core t = Some ctl' \<and> ibs_ok ctl' \<and>
    ibs_filter ctl' = ibs_filter ctl \<and> others_kept core s t \<and>
    unat v = MAX_IBS_ENTRIES - length (recorded ctl') \<and>
    (recorded ctl' = recorded ctl \<or>
     (\<exists>e. should_store (ibs_filter ctl) e \<and> recorded ctl' = recorded ctl @ [e]))"
proof -
  have len: "unat core < length (core_contexts s)" using r by (simp add: msr_ready_def)
  have le: "unat (current_position ctl) \<le> MAX_IBS_ENTRIES" using ctl(2) by (simp add: ibs_ok_def)
  have "wp (store_ibs_entry P core) (store_outcome core s ctl) (\<lambda>_ _. False) s"
  proof (cases "of_nat MAX_IBS_ENTRIES \<le> current_position ctl")
    case True
    then have "current_position ctl = of_nat MAX_IBS_ENTRIES"
      using le by (simp add: word_le_nat_alt word_unat_eq_iff)
    then show ?thesis
      using True store_outcome_unchanged [OF ctl, of s]
      by (simp add: store_ibs_entry_def Let_def wp_bind wp_get_ibs_control [OF len ctl(1)] wp_ret
          others_kept_def)
  next
    case False
    then have room: "unat (current_position ctl) < MAX_IBS_ENTRIES" by (simp add: word_le_nat_alt)
    show ?thesis
      unfolding store_ibs_entry_def Let_def wp_bind wp_get_ibs_control [OF len ctl(1)] if_not_P [OF False]
    proof (rule wp_read_msr_ibs [OF r ctl(1)], rule wp_read_msr_ibs, assumption+)
      fix control t1 op_data3 t2
      assume k: "others_kept core s t1" "others_kept core t1 t2"
        and t2: "ibs_at core t2 = Some ctl" "msr_ready core t2"
      have len2: "unat core < length (core_contexts t2)" using t2(2) by (simp add: msr_ready_def)
      have kept: "others_kept core s t2" using k by (rule others_kept_trans)
      show "wp (get_ibs_control core) (\<lambda>ctl'. wp (if \<not> should_store (ibs_filter ctl')
            (fill_from_data3 \<lparr>q1 = 0, q2 = 0\<rparr> op_data3)
          then ret (of_nat MAX_IBS_ENTRIES - current_position ctl')
          else finish_ibs_entry P core control (fill_from_data3 \<lparr>q1 = 0, q2 = 0\<rparr> op_data3))
          (store_outcome core s ctl) (\<lambda>_ _. False)) (\<lambda>_ _. False) t2"
        unfolding wp_get_ibs_control [OF len2 t2(1)] wp_if wp_ret
        using store_outcome_unchanged [OF t2(1) ctl(2) kept]
          wp_finish_ibs_entry [OF t2(2,1) ctl(2) room _ kept] by blast
    qed
  qed
  then show ?thesis unfolding store_outcome_def by (auto dest: wp_total_returns)
qed

text \<open>A core with an empty recorder, for the witnesses.\<close>

definition demo_ibs_control :: IBSControl where
  "demo_ibs_control = \<lparr>ibs_event_buffer = Some (replicate MAX_IBS_ENTRIES \<lparr>q1 = 0, q2 = 0\<rparr>),
     current_position = 2, ibs_filter = IBS_FILTER_LOAD\<rparr>"

definition demo_ibs_state :: "nat state" where
  "demo_ibs_state = demo_state\<lparr>core_contexts := (core_contexts demo_state)[0 :=
     zero_context\<lparr>present := 1, started := 1, ready := 1, ibs_control := Some demo_ibs_control\<rparr>]\<rparr>"

lemma demo_ibs_control_ok: "ibs_ok demo_ibs_control"
  by (simp add: ibs_ok_def demo_ibs_control_def)

lemma demo_ibs_at: "ibs_at 0 demo_ibs_state = Some demo_ibs_control"
  by (simp add: ibs_at_def demo_ibs_state_def demo_state_def)

lemma store_ibs_entry_appends_witness:
  "msr_ready 0 demo_ibs_state \<and>
   (\<exists>v t ctl'. store_ibs_entry demo_platform 0 demo_ibs_state = Done v t \<and> ibs_at 0 t = Some ctl' \<and> ibs_ok ctl' \<and>
    ibs_filter ctl' = ibs_filter demo_ibs_control \<and> others_kept 0 demo_ibs_state t \<and>
    unat v = MAX_IBS_ENTRIES - length (recorded ctl') \<and>
    (recorded ctl' = recorded demo_ibs_control \<or>
     (\<exists>e. should_store (ibs_filter demo_ibs_control) e \<and> recorded ctl' = recorded demo_ibs_control @ [e])))"
proof
  show r: "msr_ready 0 demo_ibs_state"
    by (simp add: msr_ready_def demo_ibs_state_def demo_state_def)
  show "\<exists>v t ctl'. store_ibs_entry demo_platform 0 demo_ibs_state = Done v t \<and> ibs_at 0 t = Some ctl' \<and> ibs_ok ctl' \<and>
    ibs_filter ctl' = ibs_filter demo_ibs_control \<and> others_kept 0 demo_ibs_state t \<and>
    unat v = MAX_IBS_ENTRIES - length (recorded ctl') \<and>
    (recorded ctl' = recorded demo_ibs_control \<or>
     (\<exists>e. should_store (ibs_filter demo_ibs_control) e \<and> recorded ctl' = recorded demo_ibs_control @ [e]))"
    by (rule store_ibs_entry_appends [OF r demo_ibs_at demo_ibs_control_ok])
qed

text \<open>Setting a recorder up, and starting a new capture.\<close>

lemma wp_init_ibs_for_context:
  assumes len: "unat core < length (core_contexts s)" and sup: "is_ibs_supported P"
    and alloc: "\<And>n w. fst (alloc_pool_fw P n w)"
  shows "wp (init_ibs_for_context P core)
    (\<lambda>_ t. \<exists>ctl. ibs_at core t = Some ctl \<and> ibs_ok ctl \<and> recorded ctl = [] \<and> ibs_filter ctl = IBS_FILTER_ALL)
    E s"
  using len sup alloc
  by (simp add: init_ibs_for_context_def wp_simps update_ibs_control_def get_ibs_control_def
      ibs_at_def ibs_ok_def recorded_def zero_ibs_control_def)

lemma clear_ibs_results_empties:
  assumes len: "unat core < length (core_contexts s)" and ctl: "ibs_at core s = Some ctl" "ibs_ok ctl"
  shows "wp (clear_ibs_results core) (\<lambda>v t. v = of_nat MAX_IBS_ENTRIES \<and> (\<exists>ctl'. ibs_at core t = Some ctl' \<and>
    ibs_ok ctl' \<and> recorded ctl' = [] \<and> ibs_filter ctl' = ibs_filter ctl)) E s"
  unfolding clear_ibs_results_def wp_bind
  by (rule wp_update_ibs_control [OF len ctl(1)])
    (use ctl(2) in \<open>auto simp: wp_ret ibs_ok_def recorded_def\<close>)


section \<open>Reading the recorder\<close>

definition ibs_count :: "CoreContext \<Rightarrow> u64 option" where
  "ibs_count c = map_option current_position (ibs_control c)"

definition ibs_stored :: "CoreContext \<Rightarrow> IBSEvent list" where
  "ibs_stored c = (case ibs_control c of Some ctl \<Rightarrow> recorded ctl | None \<Rightarrow> [])"

lemma length_ibs_event_bytes: "length (ibs_event_bytes e) = 16"
  by (simp add: ibs_event_bytes_def)

lemma copy_ibs_entries_spec:
  assumes len: "unat core < length (core_contexts s)" and ctl: "ibs_at core s = Some ctl"
    and lr: "length (recorded ctl) = unat (current_position ctl)"
    and k: "k = (if unat start < length (recorded ctl) then min (unat n) (length (recorded ctl) - unat start) else 0)"
    and no_wrap: "unat start + unat n < 2 ^ 64"
    and room: "off + 16 * k \<le> length (payload_buffer s)"
  shows "copy_ibs_entries (\<lambda>o' bs. write_payload (off + o') bs) core start n s =
    Done (of_nat k) (s\<lparr>payload_buffer := overwrite off
      (concat (map ibs_event_bytes (slice (unat start) k (recorded ctl)))) (payload_buffer s)\<rparr>)"
proof -
  have get: "get_ibs_control core s = Done ctl s"
    using len ctl by (simp add: get_ibs_control_def run_simps ibs_at_def)
  show ?thesis
  proof (cases "unat start < unat (current_position ctl)")
    case False
    then have "current_position ctl \<le> start" by (simp add: word_le_nat_alt)
    then show ?thesis using False k lr get by (simp add: copy_ibs_entries_def run_simps slice_def)
  next
    case True
    then obtain buf where buf: "ibs_event_buffer ctl = Some buf" "unat (current_position ctl) \<le> length buf"
      using lr by (auto simp: recorded_def min_def split: option.splits if_splits)
    have kk: "k = min (unat n) (unat (current_position ctl) - unat start)" using True k lr by simp
    note range = copy_range [OF True no_wrap kk]
    have sl: "slice (unat start) k (recorded ctl) = slice (unat start) k buf"
      using True kk buf by (simp add: recorded_def slice_def drop_take min_def)
    have loop: "for_each [unat start ..< unat start + k] (\<lambda>i.
       bind (from_option NullDeref (Some buf)) (\<lambda>buf.
       bind (require OutOfBounds (i < length buf)) (\<lambda>_.
       write_payload (off + 16 * (i - unat start)) (ibs_event_bytes (buf ! i))))) s =
      Done () (s\<lparr>payload_buffer := overwrite off (concat (map ibs_event_bytes (slice (unat start) k buf))) (payload_buffer s)\<rparr>)"
      by (rule copy_loop_payload [OF length_ibs_event_bytes]) (use True kk buf room in auto)
    show ?thesis
      unfolding copy_ibs_entries_def bind_run [of "get_ibs_control core"] get Let_def outcome.case
        if_not_P [OF range(1)] range(2,3) buf(1) sl bind_run [of "for_each _ _"] loop ret_run ..
  qed
qed

text \<open>
  C15. \<^verbatim>\<open>copy_ibs_entries\<close> copies from the start index on as many events as were asked for and are
  stored, one after the other, and returns their number; it returns 0 and writes nothing when the
  start index is past the stored events. It never reads or writes out of bounds, provided the
  target has room for the events it returns.
\<close>

theorem copy_ibs_entries_exact:
  assumes len: "unat core < length (core_contexts s)" and ctl: "ibs_at core s = Some ctl" "ibs_ok ctl"
    and k: "k = (if unat start < length (recorded ctl) then min (unat n) (length (recorded ctl) - unat start) else 0)"
    and no_wrap: "unat start + unat n < 2 ^ 64"
    and room: "off + 16 * k \<le> length (payload_buffer s)"
  shows "copy_ibs_entries (\<lambda>o' bs. write_payload (off + o') bs) core start n s =
    Done (of_nat k) (s\<lparr>payload_buffer := overwrite off
      (concat (map ibs_event_bytes (slice (unat start) k (recorded ctl)))) (payload_buffer s)\<rparr>)"
  by (rule copy_ibs_entries_spec [OF len ctl(1) length_recorded [OF ctl(2)] k no_wrap room])

lemma copy_ibs_entries_exact_witness:
  "(2 :: nat) = (if unat (0 :: u64) < length (recorded demo_ibs_control)
      then min (unat (5 :: u64)) (length (recorded demo_ibs_control) - unat (0 :: u64)) else 0) \<and>
   copy_ibs_entries (\<lambda>o' bs. write_payload (32 + o') bs) 0 0 5 demo_ibs_state =
    Done (of_nat 2) (demo_ibs_state\<lparr>payload_buffer := overwrite 32
      (concat (map ibs_event_bytes (slice (unat (0 :: u64)) 2 (recorded demo_ibs_control)))) (payload_buffer demo_ibs_state)\<rparr>)"
proof
  have l: "length (recorded demo_ibs_control) = 2"
    by (simp add: length_recorded [OF demo_ibs_control_ok]) (simp add: demo_ibs_control_def)
  show k: "(2 :: nat) = (if unat (0 :: u64) < length (recorded demo_ibs_control)
      then min (unat (5 :: u64)) (length (recorded demo_ibs_control) - unat (0 :: u64)) else 0)"
    unfolding l by simp
  show "copy_ibs_entries (\<lambda>o' bs. write_payload (32 + o') bs) 0 0 5 demo_ibs_state =
    Done (of_nat 2) (demo_ibs_state\<lparr>payload_buffer := overwrite 32
      (concat (map ibs_event_bytes (slice (unat (0 :: u64)) 2 (recorded demo_ibs_control)))) (payload_buffer demo_ibs_state)\<rparr>)"
    by (rule copy_ibs_entries_exact [OF _ demo_ibs_at demo_ibs_control_ok k])
      (simp_all add: demo_ibs_state_def demo_state_def)
qed

text \<open>The recorder is a source of events for the streaming loop.\<close>

interpretation ibs: event_source ibs_count ibs_stored ibs_event_bytes copy_ibs_entries
proof
  show "length (ibs_event_bytes e) = 16" for e by (rule length_ibs_event_bytes)
next
  fix core :: u64 and s :: "'a state" and n k start :: u64 and off :: nat
  assume len: "unat core < length (core_contexts s)"
    and n: "ibs_count (core_contexts s ! unat core) = Some n"
    and st: "unat n \<le> length (ibs_stored (core_contexts s ! unat core))"
    and k: "k \<noteq> 0" "unat start + unat k \<le> unat n"
    and room: "off + 16 * unat k \<le> length (payload_buffer s)"
  obtain ctl where ctl: "ibs_at core s = Some ctl" "current_position ctl = n"
    using n by (auto simp: ibs_count_def ibs_at_def)
  have stored: "ibs_stored (core_contexts s ! unat core) = recorded ctl"
    using ctl by (simp add: ibs_stored_def ibs_at_def)
  have lr: "length (recorded ctl) = unat (current_position ctl)"
    using st ctl(2) unfolding stored by (auto simp: recorded_def split: option.splits)
  have pos: "0 < unat k" using k(1) by (simp add: unat_gt_0)
  have wrap: "unat start + unat k < 2 ^ 64" by (rule le_less_trans [OF k(2)]) simp
  have "copy_ibs_entries (\<lambda>o' bs. write_payload (off + o') bs) core start k s =
    Done (of_nat (unat k)) (s\<lparr>payload_buffer := overwrite off
      (concat (map ibs_event_bytes (slice (unat start) (unat k) (recorded ctl)))) (payload_buffer s)\<rparr>)"
    by (rule copy_ibs_entries_spec [OF len ctl(1) lr _ wrap room]) (use k(2) pos ctl(2) lr in auto)
  then show "copy_ibs_entries (\<lambda>o' bs. write_payload (off + o') bs) core start k s =
        Done k (s\<lparr>payload_buffer := overwrite off
          (concat (map ibs_event_bytes (slice (unat start) (unat k) (ibs_stored (core_contexts s ! unat core)))))
          (payload_buffer s)\<rparr>)"
    unfolding stored by simp
qed

end
