(* ===== verification/Handle_Ibs.thy ===== *)
theory Handle_Ibs
  imports Ibs
begin

text \<open>
  \<^verbatim>\<open>handlers/handle_ibs.c\<close>: the check that a core can be addressed, and the message that reads
  the recorded samples of a core. Format strings are given without their line ends.
\<close>

section \<open>Operations\<close>

definition check_core_id :: "'w platform \<Rightarrow> u64 \<Rightarrow> ('w, efi_status) prog" where
  "check_core_id P core =
     (if MAX_CORE_COUNT \<le> core then
        reject P ''Core id %u is out of range, only max %u cores are supported.'' [core, MAX_CORE_COUNT]
          0x201 EFI_INVALID_PARAMETER
      else
        bind (get_context core) (\<lambda>context.
        if present context \<noteq> 1 then
          reject P ''Core id %u is not present on this CPU.'' [core] 0x202 EFI_INVALID_PARAMETER
        else if started context \<noteq> 1 then
          reject P ''Core id %u is not started.'' [core] 0x203 EFI_INVALID_PARAMETER
        else ret EFI_SUCCESS))"

definition handle_get_ibs_buffer :: "'w platform \<Rightarrow> u8 list \<Rightarrow> u64 \<Rightarrow> ('w, efi_status) prog" where
  "handle_get_ibs_buffer P payload payload_length =
     (if payload_length < 3 * 8 then
        reject P ''MSG_GETISBBUFFER is too short, need at least 24 Bytes, got %u.'' [payload_length]
          0x1 EFI_INVALID_PARAMETER
      else
        bind (load_u64 payload 0) (\<lambda>core.
        bind (load_u64 payload 8) (\<lambda>start_index.
        bind (load_u64 payload 16) (\<lambda>entry_count.
        bind (check_core_id P core) (\<lambda>status.
        if status \<noteq> EFI_SUCCESS then ret status else
        bind (get_context core) (\<lambda>context.
        if ibs_control context = None then
          bind (write_payload 0 (concat (map (le_bytes 8) [0 :: u64, 0, 0, 0]))) (\<lambda>_.
          respond P report_debug MSG_IBSBUFFER payload_buffer 32 (32 + HEADER_SIZE) True)
        else
          bind (get_current_ibs_event_count core) (\<lambda>stored_events.
          bind (get_max_ibs_event_count core) (\<lambda>max_events.
          bind (write_payload 0 (concat (map (le_bytes 8) [1, stored_events, max_events, 0]))) (\<lambda>_.
          let entry_count = (if entry_count = 0 then stored_events else entry_count);
              events_to_send = min entry_count (stored_events - start_index) in
          if stored_events \<le> start_index \<or> entry_count = 0 \<or> events_to_send = 0 then
            respond P report_debug MSG_IBSBUFFER payload_buffer 32 (32 + HEADER_SIZE) True
          else
            stream_loop P MSG_IBSBUFFER 32 24 copy_ibs_entries core (Suc (unat events_to_send))
              start_index events_to_send)))))))))"


section \<open>The check of a core\<close>

definition core_check :: "u64 \<Rightarrow> 'w state \<Rightarrow> u32 option" where
  "core_check core s =
     (if MAX_CORE_COUNT \<le> core then Some 0x201
      else if present (core_contexts s ! unat core) \<noteq> 1 then Some 0x202
      else if started (core_contexts s ! unat core) \<noteq> 1 then Some 0x203 else None)"

lemma core_in_range:
  "arrays_ok s \<Longrightarrow> \<not> MAX_CORE_COUNT \<le> core \<Longrightarrow> unat core < length (core_contexts s)"
  by (simp add: arrays_ok_def word_le_nat_alt)

lemma core_check_range: "core_check core s = None \<Longrightarrow> arrays_ok s \<Longrightarrow> unat core < length (core_contexts s)"
  by (auto simp: core_check_def split: if_splits intro: core_in_range)

lemma wp_check_core_id_ok:
  assumes "core_check core s = None" "arrays_ok s"
  shows "wp (check_core_id P core) Q E s = Q EFI_SUCCESS s"
  using assms core_check_range [OF assms]
  by (auto simp: check_core_id_def core_check_def wp_simps split: if_splits)

lemma wp_check_core_id_fails:
  assumes net: "network_reliable P" and ok: "buffers_ok s" "arrays_ok s" and bad: "core_check core s = Some code"
    and Q: "\<And>t msg. io_only s t \<Longrightarrow> buffers_ok t \<Longrightarrow> sent t = sent s @ [status_frame code (Some msg)] \<Longrightarrow>
              Q EFI_INVALID_PARAMETER t"
  shows "wp (check_core_id P core) Q E s"
  using bad core_in_range [OF ok(2), of core]
  by (auto simp: check_core_id_def core_check_def wp_bind wp_get_context split: if_splits
      intro!: wp_reject [OF net ok(1)] Q)

lemma wp_check_core_id_any:
  assumes ok: "buffers_ok s" "arrays_ok s"
    and Q: "\<And>t st. io_only s t \<Longrightarrow> buffers_ok t \<Longrightarrow> st \<noteq> EFI_SUCCESS \<Longrightarrow> Q st t"
    and Q0: "core_check core s = None \<Longrightarrow> Q EFI_SUCCESS s" and E: "\<And>t. io_only s t \<Longrightarrow> E Hang t"
  shows "wp (check_core_id P core) Q E s"
  using core_in_range [OF ok(2), of core] Q0
  by (auto simp: check_core_id_def core_check_def wp_bind wp_get_context wp_ret split: if_splits
      intro!: wp_reject_any [OF ok(1)] Q E)


section \<open>Reading the samples of a core\<close>

definition ibs_request :: "u64 \<Rightarrow> u64 \<Rightarrow> u64 \<Rightarrow> u8 list" where
  "ibs_request core start count = concat (map (le_bytes 8) [core, start, count])"

lemma ibs_request_fields [simp]:
  "take 8 (ibs_request a b c) = le_bytes 8 a"
  "slice 8 8 (ibs_request a b c @ r) = le_bytes 8 b"
  "slice 16 8 (ibs_request a b c @ r) = le_bytes 8 c"
  "length (ibs_request a b c) = 24"
  by (simp_all add: ibs_request_def slice_def)

definition ibs_header :: "u64 \<Rightarrow> u8 list" where
  "ibs_header stored = concat (map (le_bytes 8) [1, stored, of_nat MAX_IBS_ENTRIES, 0])"

lemma length_ibs_header [simp]: "length (ibs_header n) = 32"
  by (simp add: ibs_header_def)

lemma ibs_header_zero: "ibs_header n = overwrite 24 (le_bytes 8 (0 :: u64)) (ibs_header n)"
  by (simp add: ibs_header_def overwrite_def)

text \<open>
  C19. A request for the samples of a started core sends exactly the recorded events from the
  start index on, at most as many as asked for (all when the count is 0), in recording order, in
  messages of at most 64 events of which only the last is marked as last; when the selection is
  empty there is one message without events. No program data changes, and the loop ends.
\<close>

theorem handle_get_ibs_buffer_streams:
  fixes count :: u64
  assumes net: "network_reliable P" and ok: "buffers_ok s" "arrays_ok s" and core: "core_check core s = None"
    and ctl: "ibs_at core s = Some ctl" "ibs_ok ctl"
  defines "n \<equiv> length (recorded ctl)"
  defines "wanted \<equiv> if count = 0 then n else unat count"
  shows "\<exists>t. handle_get_ibs_buffer P (ibs_request core start count @ rest) 24 s = Done EFI_SUCCESS t \<and>
    sent t = sent s @ packets (event_frame MSG_IBSBUFFER (ibs_header (of_nat n)) 24 ibs_event_bytes)
      (slice (unat start) (min wanted (n - unat start)) (recorded ctl)) \<and>
    io_only s t \<and> buffers_ok t"
proof -
  let ?es = "slice (unat start) (min wanted (n - unat start)) (recorded ctl)"
  have len: "unat core < length (core_contexts s)" by (rule core_check_range [OF core ok(2)])
  define p where "p = current_position ctl"
  have np: "n = unat p" unfolding n_def p_def by (rule length_recorded [OF ctl(2)])
  have pl: "length (payload_buffer s) = RESPONSE_PAYLOAD_SIZE" by (rule buffers_ok_lengths(1) [OF ok(1)])
  have ctx: "ibs_control (core_contexts s ! unat core) = Some ctl" using ctl(1) by (simp add: ibs_at_def)
  then have st: "ibs_stored (core_contexts s ! unat core) = recorded ctl" by (simp add: ibs_stored_def)
  define want where "want = (if count = 0 then p else count)"
  define k where "k = min want (p - start)"
  have wn: "unat want = wanted" by (simp add: want_def wanted_def np)
  have uk: "unat k = min wanted (n - unat start)" if "\<not> p \<le> start"
    using that by (auto simp: k_def min_def word_le_nat_alt unat_sub wn np)
  have none: "min wanted (n - unat start) = 0" if "p \<le> start \<or> want = 0 \<or> k = 0"
    using that uk wn by (cases "p \<le> start") (auto simp: word_le_nat_alt np)
  have eq: "wp (handle_get_ibs_buffer P (ibs_request core start count @ rest) 24) Q E s =
      wp (if p \<le> start \<or> want = 0 \<or> k = 0 then
          respond P report_debug MSG_IBSBUFFER payload_buffer 32 (32 + HEADER_SIZE) True
        else stream_loop P MSG_IBSBUFFER 32 24 copy_ibs_entries core (Suc (unat k)) start k)
      Q E (s\<lparr>payload_buffer := overwrite 0 (ibs_header p) (payload_buffer s)\<rparr>)" for Q E
    using ctx len pl
    by (simp add: handle_get_ibs_buffer_def wp_simps u64c.dec_enc wp_check_core_id_ok [OF core ok(2)]
        get_current_ibs_event_count_def get_max_ibs_event_count_def wp_get_ibs_control [OF len ctl(1)]
        p_def [symmetric] ibs_header_def want_def [symmetric] k_def [symmetric] Let_def del: wp_if stream_loop.simps cong: if_cong)
  have "wp (handle_get_ibs_buffer P (ibs_request core start count @ rest) 24) (\<lambda>st t. st = EFI_SUCCESS \<and>
      sent t = sent s @ packets (event_frame MSG_IBSBUFFER (ibs_header p) 24 ibs_event_bytes) ?es \<and>
      io_only s t \<and> buffers_ok t) (\<lambda>_ _. False) s"
    unfolding eq
  proof (rule ibs.wp_stream_events [OF net _ _ _ _ ok(1) len _ _ ibs_header_zero])
    show "?es = [] \<and> le_bytes 8 (0 :: u64) = le_bytes 8 (0 :: u64)" if "p \<le> start \<or> want = 0 \<or> k = 0"
      using none [OF that] by (simp add: slice_def)
    show "k \<noteq> 0 \<and> unat start + unat k \<le> unat p \<and>
        ?es = slice (unat start) (unat k) (ibs_stored (core_contexts s ! unat core))"
      if "\<not> (p \<le> start \<or> want = 0 \<or> k = 0)"
      using that uk np by (auto simp: st word_le_nat_alt)
  qed (use ctx st np in \<open>simp_all add: ibs_count_def p_def [symmetric] n_def\<close>)
  then show ?thesis unfolding np by (auto dest: wp_total_returns)
qed

text \<open>The request of the witness asks for all samples of core 0, which holds two.\<close>

lemma demo_ibs_usable:
  "buffers_ok demo_ibs_state" "arrays_ok demo_ibs_state" "core_check 0 demo_ibs_state = None"
  by (simp_all add: demo_ibs_state_def demo_state_def buffers_ok_def arrays_ok_def core_check_def)

lemma handle_get_ibs_buffer_streams_witness:
  "length (recorded demo_ibs_control) = 2 \<and>
   (\<exists>t. handle_get_ibs_buffer demo_platform (ibs_request 0 0 0 @ []) 24 demo_ibs_state = Done EFI_SUCCESS t \<and>
    sent t = sent demo_ibs_state @ packets (event_frame MSG_IBSBUFFER
        (ibs_header (of_nat (length (recorded demo_ibs_control)))) 24 ibs_event_bytes)
      (slice (unat (0 :: u64)) (min (if (0 :: u64) = 0 then length (recorded demo_ibs_control) else unat (0 :: u64))
        (length (recorded demo_ibs_control) - unat (0 :: u64))) (recorded demo_ibs_control)) \<and>
    io_only demo_ibs_state t \<and> buffers_ok t)"
proof
  show "length (recorded demo_ibs_control) = 2"
    by (simp add: length_recorded [OF demo_ibs_control_ok]) (simp add: demo_ibs_control_def)
  show "\<exists>t. handle_get_ibs_buffer demo_platform (ibs_request 0 0 0 @ []) 24 demo_ibs_state = Done EFI_SUCCESS t \<and>
    sent t = sent demo_ibs_state @ packets (event_frame MSG_IBSBUFFER
        (ibs_header (of_nat (length (recorded demo_ibs_control)))) 24 ibs_event_bytes)
      (slice (unat (0 :: u64)) (min (if (0 :: u64) = 0 then length (recorded demo_ibs_control) else unat (0 :: u64))
        (length (recorded demo_ibs_control) - unat (0 :: u64))) (recorded demo_ibs_control)) \<and>
    io_only demo_ibs_state t \<and> buffers_ok t"
    by (rule handle_get_ibs_buffer_streams [OF demo_network_reliable demo_ibs_usable demo_ibs_at demo_ibs_control_ok])
qed

end
