(* ===== verification/Dsm.thy ===== *)
theory Dsm
  imports Events Stubs Bitfields
begin

text \<open>
  \<^verbatim>\<open>asr/dsm.c\<close>, \<^verbatim>\<open>asr/dsm.h\<close> and \<^verbatim>\<open>asr/dsm_stubs.s\<close>: the debug state machine recorder. The hardware is
  driven through three instructions whose microcode is hooked; they are the platform's
  \<open>fptan_write_hw\<close>, \<open>fpatan_read_hw\<close> and \<open>fprem_write_hw\<close>. The pauses and fences have no effect
  in the model.
\<close>

section \<open>Stubs\<close>

abbreviation MAXIMUM_DSM_ENTRIES :: nat where "MAXIMUM_DSM_ENTRIES \<equiv> 128"

definition enable_dsm_in_cr4_stub :: "'w platform \<Rightarrow> u64 \<Rightarrow> ('w, unit) prog" where
  "enable_dsm_in_cr4_stub P core = on_world (\<lambda>w. ((), set_cr4_hw P core (cr4_hw P core w OR 0x8) w))"

definition write_fenced_fptan :: "'w platform \<Rightarrow> u64 \<Rightarrow> u64 \<Rightarrow> u64 \<Rightarrow> ('w, unit) prog" where
  "write_fenced_fptan P arg1 arg2 flags = on_world (\<lambda>w. ((), fptan_write_hw P arg1 arg2 flags w))"

definition read_fenced_fpatan :: "'w platform \<Rightarrow> u64 \<Rightarrow> u64 \<Rightarrow> u64 \<Rightarrow> ('w, u64) prog" where
  "read_fenced_fpatan P arg1 arg2 flags = on_world (fpatan_read_hw P arg1 arg2 flags)"

definition write_fenced_fprem :: "'w platform \<Rightarrow> u64 \<Rightarrow> u64 \<Rightarrow> u64 \<Rightarrow> ('w, unit) prog" where
  "write_fenced_fprem P arg1 arg2 flags = on_world (\<lambda>w. ((), fprem_write_hw P arg1 arg2 flags w))"

text \<open>A sequence of writes \<open>write_fenced_fptan(a, b, 0)\<close>.\<close>

definition fptan_sequence :: "'w platform \<Rightarrow> (u64 \<times> u64) list \<Rightarrow> ('w, unit) prog" where
  "fptan_sequence P ws = for_each ws (\<lambda>(a, b). write_fenced_fptan P a b 0)"

text \<open>The control structure that \<^verbatim>\<open>context->dsm_control\<close> points to.\<close>

definition get_dsm_control :: "u64 \<Rightarrow> ('w, DSMControl) prog" where
  "get_dsm_control core = bind (get_context core) (\<lambda>c. from_option NullDeref (dsm_control c))"

definition update_dsm_control :: "u64 \<Rightarrow> (DSMControl \<Rightarrow> DSMControl) \<Rightarrow> ('w, unit) prog" where
  "update_dsm_control core f =
     bind (get_dsm_control core) (\<lambda>_.
     update_context core (\<lambda>c. c\<lparr>dsm_control := map_option f (dsm_control c)\<rparr>))"

definition update_file_header :: "u64 \<Rightarrow> (DSM_file_header \<Rightarrow> DSM_file_header) \<Rightarrow> ('w, unit) prog" where
  "update_file_header core f = update_dsm_control core (\<lambda>d. d\<lparr>file_header := f (file_header d)\<rparr>)"

definition write_dsm_event :: "u64 \<Rightarrow> nat \<Rightarrow> DSMEvent \<Rightarrow> ('w, unit) prog" where
  "write_dsm_event core i e =
     bind (get_dsm_control core) (\<lambda>d.
     bind (from_option NullDeref (dsm_event_buffer d)) (\<lambda>buf.
     bind (require OutOfBounds (i < length buf)) (\<lambda>_.
     update_dsm_control core (\<lambda>d. d\<lparr>dsm_event_buffer := Some (buf[i := e])\<rparr>))))"


section \<open>Operations\<close>

definition prepare_dsm :: "'w platform \<Rightarrow> u64 \<Rightarrow> ('w, u64) prog" where
  "prepare_dsm P core =
     bind (enable_dsm_in_cr4_stub P core) (\<lambda>_.
     bind (fptan_sequence P
       [(0x03d0, 0x80000000), (0x03d2, 0x1e), (0x03d0, 0x80001000), (0x03d2, 0xF24040000000001),
        (0x03d0, 0x80003000), (0x03d2, 0x110), (0x03d0, 0x80003000), (0x03d2, 0x100),
        (0x03d0, 0x80003000), (0x03d2, 0x110)]) (\<lambda>_.
     bind (read_fenced_fpatan P 0x22b 0 0) (\<lambda>val.
     bind (write_fenced_fptan P 0x22b (val AND NOT 0xFFFFFFFFFFFFFFFF) 0) (\<lambda>_.
     bind (read_fenced_fpatan P 0x22c 0 0) (\<lambda>val.
     bind (write_fenced_fptan P 0x22c (val AND NOT 0xFFFF) 0) (\<lambda>_.
     bind (fptan_sequence P
       [(0x248, 0x7017161211151413), (0x249, 0xde0aff01), (0x03d0, 0x80001032),
        (0x03d2, 0xfffffffffff0003f), (0x03d0, 0x0)]) (\<lambda>_.
     ret 0)))))))"

definition zero_file_header :: DSM_file_header where
  "zero_file_header = \<lparr>version_info = 0, header_mask = 0, header_sel = 0, header_types = 0,
     idx_info = 0, num_items = 0\<rparr>"

text \<open>One iteration of the loop that finds which counter group drives each of the eight lanes.\<close>

definition select_lane :: "u64 \<Rightarrow> u64 \<Rightarrow> u64 \<Rightarrow> u64 \<Rightarrow> nat \<Rightarrow> DSM_file_header \<Rightarrow> DSM_file_header" where
  "select_lane g1 c1 g2 c2 idx h =
     (if bit c2 0 \<and> bit c2 (idx + 8) then
        h\<lparr>header_types := header_types h OR push_bit (idx * 8) 0x01,
          header_sel := header_sel h OR (g2 AND push_bit (idx * 8) 0xFF)\<rparr>
      else if bit c1 0 \<and> bit c1 (idx + 8) then
        h\<lparr>header_types := header_types h OR push_bit (idx * 8) 0x02,
          header_sel := header_sel h OR (g1 AND push_bit (idx * 8) 0xFF)\<rparr>
      else h)"

definition prepare_dsm_capture :: "'w platform \<Rightarrow> u64 \<Rightarrow> ('w, u64) prog" where
  "prepare_dsm_capture P core =
     bind (update_file_header core (\<lambda>h. zero_file_header)) (\<lambda>_.
     bind (update_file_header core (\<lambda>h. h\<lparr>version_info := push_bit 32 48 OR 0x2\<rparr>)) (\<lambda>_.
     bind (write_fenced_fptan P 0x03d0 0x00001032 0) (\<lambda>_.
     bind (read_fenced_fpatan P 0x03d2 0 0) (\<lambda>m.
     bind (update_file_header core (\<lambda>h. h\<lparr>header_mask := m\<rparr>)) (\<lambda>_.
     bind (read_fenced_fpatan P 0x22b 0 0) (\<lambda>g1.
     bind (read_fenced_fpatan P 0x22c 0 0) (\<lambda>c1.
     bind (read_fenced_fpatan P 0x248 0 0) (\<lambda>g2.
     bind (read_fenced_fpatan P 0x249 0 0) (\<lambda>c2.
     bind (for_each [0 ..< 8] (\<lambda>idx. update_file_header core (select_lane g1 c1 g2 c2 idx))) (\<lambda>_.
     bind (for_each [0 ..< MAXIMUM_DSM_ENTRIES] (\<lambda>i. write_dsm_event core i \<lparr>data0 = 0, data1 = 0\<rparr>)) (\<lambda>_.
     bind (write_fenced_fptan P 0x03d0 0x00001000 0) (\<lambda>_.
     bind (read_fenced_fpatan P 0x03d2 0 0) (\<lambda>orig_value.
     bind (update_dsm_control core (\<lambda>d. d\<lparr>orig := orig_value\<rparr>)) (\<lambda>_.
     bind (fptan_sequence P
       [(0x03d0, 0x80001000), (0x03d2, orig_value AND NOT (push_bit 50 1)),
        (0x03d0, 0x80003000), (0x03d2, 0x110), (0x03d0, 0x80003000), (0x03d2, 0x100)]) (\<lambda>_.
     bind (for_each [0 ..< MAXIMUM_DSM_ENTRIES] (\<lambda>index. fptan_sequence P
       [(0x03d0, 0x80003001), (0x03d2, 0x80000000 OR of_nat index),
        (0x03d0, 0x80003003), (0x03d2, 0), (0x03d0, 0x80003002), (0x03d2, 0)])) (\<lambda>_.
     bind (fptan_sequence P
       [(0x03d0, 0x80003001), (0x03d2, 0x0), (0x03d0, 0x80003000), (0x03d2, 0x110),
        (0x03d0, 0x80003000), (0x03d2, 0x100)]) (\<lambda>_.
     bind (get_dsm_control core) (\<lambda>d. ret (orig d)))))))))))))))))))"

definition capture_entry :: "'w platform \<Rightarrow> u64 \<Rightarrow> u64 \<Rightarrow> nat \<Rightarrow> ('w, unit) prog" where
  "capture_entry P core index_offset index =
     bind (write_fenced_fptan P 0x03d0 0x80003001 0) (\<lambda>_.
     bind (write_fenced_fptan P 0x03d2 ((index_offset + of_nat index) AND 127) 0) (\<lambda>_.
     bind (write_fenced_fptan P 0x03d0 0x00003003 0) (\<lambda>_.
     bind (read_fenced_fpatan P 0x03d2 0 0) (\<lambda>d0.
     bind (write_fenced_fptan P 0x03d0 0x00003002 0) (\<lambda>_.
     bind (read_fenced_fpatan P 0x03d2 0 0) (\<lambda>d1.
     write_dsm_event core index \<lparr>data0 = d0, data1 = d1\<rparr>))))))"

definition store_dsm_capture :: "'w platform \<Rightarrow> u64 \<Rightarrow> ('w, u64) prog" where
  "store_dsm_capture P core =
     bind (write_fenced_fptan P 0x03d0 0x00003000 0) (\<lambda>_.
     bind (read_fenced_fpatan P 0x03d2 0 0) (\<lambda>index_offset.
     bind (update_file_header core (\<lambda>h. h\<lparr>idx_info := index_offset\<rparr>)) (\<lambda>_.
     let index_offset = drop_bit 48 index_offset AND 127 in
     bind (for_each [0 ..< MAXIMUM_DSM_ENTRIES] (capture_entry P core index_offset)) (\<lambda>_.
     bind (get_dsm_control core) (\<lambda>d.
     bind (fptan_sequence P [(0x03d0, 0x80001000), (0x03d2, orig d), (0x03d0, 0x00001000)]) (\<lambda>_.
     bind (update_file_header core (\<lambda>h. h\<lparr>num_items := of_nat MAXIMUM_DSM_ENTRIES\<rparr>)) (\<lambda>_.
     ret 0)))))))"

definition get_start_stop_stub_asm_address :: "'w platform \<Rightarrow> ('w, u64) prog" where
  "get_start_stop_stub_asm_address P = ret (write_fenced_fprem_asm_addr P)"

definition start_dsm_capture :: "'w platform \<Rightarrow> u64 \<Rightarrow> ('w, u64) prog" where
  "start_dsm_capture P core =
     bind (get_dsm_control core) (\<lambda>d.
     bind (write_fenced_fprem P 0x80001000 (orig d) 0) (\<lambda>_. ret 0))"

definition stop_dsm_capture :: "'w platform \<Rightarrow> u64 \<Rightarrow> ('w, u64) prog" where
  "stop_dsm_capture P core =
     bind (get_dsm_control core) (\<lambda>d.
     bind (write_fenced_fprem P 0x80001000 (orig d AND NOT (push_bit 50 1)) 0) (\<lambda>_. ret 0))"

text \<open>The events that the bytes of an allocated block denote; a page holds 256 of them.\<close>

fun dsm_events_of :: "u8 list \<Rightarrow> DSMEvent list" where
  "dsm_events_of b =
     (if length b < 16 then []
      else \<lparr>data0 = le_word (take 8 b), data1 = le_word (slice 8 8 b)\<rparr> # dsm_events_of (drop 16 b))"

declare dsm_events_of.simps [simp del]

definition init_dsm_for_context :: "'w platform \<Rightarrow> u64 \<Rightarrow> ('w, unit) prog" where
  "init_dsm_for_context P core =
     bind (on_world (alloc_pool_fw P 64)) (\<lambda>ok.
     bind (update_context core (\<lambda>c. c\<lparr>dsm_control := (if ok then Some
       \<lparr>file_header = zero_file_header, dsm_event_buffer = None, orig = 0\<rparr> else None)\<rparr>)) (\<lambda>_.
     let alloc_size = ROUND_UP (16 * of_nat MAXIMUM_DSM_ENTRIES) 4096 in
     bind (AllocatePages P (unat (alloc_size div 4096))) (\<lambda>a.
     bind (if a = 0 then ret [] else block a) (\<lambda>b.
     update_dsm_control core (\<lambda>d. d\<lparr>dsm_event_buffer := (if a = 0 then None else Some (dsm_events_of b))\<rparr>)))))"

definition init_dsm_on_core :: "u64 \<Rightarrow> ('w, unit) prog" where
  "init_dsm_on_core core = ret ()"

definition dsm_event_bytes :: "DSMEvent \<Rightarrow> u8 list" where
  "dsm_event_bytes e = le_bytes 8 (data0 e) @ le_bytes 8 (data1 e)"

definition copy_dsm_entries ::
  "(nat \<Rightarrow> u8 list \<Rightarrow> ('w, unit) prog) \<Rightarrow> u64 \<Rightarrow> u64 \<Rightarrow> u64 \<Rightarrow> ('w, u64) prog" where
  "copy_dsm_entries target_buffer core start_index entry_count =
     bind (get_dsm_control core) (\<lambda>status.
     if num_items (file_header status) \<le> start_index then ret 0 else
     let end_index = min (start_index + entry_count) (num_items (file_header status)) in
     bind (for_each [unat start_index ..< unat end_index] (\<lambda>i.
       bind (from_option NullDeref (dsm_event_buffer status)) (\<lambda>buf.
       bind (require OutOfBounds (i < length buf)) (\<lambda>_.
       target_buffer (16 * (i - unat start_index)) (dsm_event_bytes (buf ! i)))))) (\<lambda>_.
     ret (end_index - start_index)))"


section \<open>Reasoning rules\<close>

definition dsm_at :: "u64 \<Rightarrow> 'w state \<Rightarrow> DSMControl option" where
  "dsm_at core s = dsm_control (core_contexts s ! unat core)"

text \<open>A recorder is well formed when its buffer can hold a whole capture.\<close>

definition dsm_ok :: "DSMControl \<Rightarrow> bool" where
  "dsm_ok d \<longleftrightarrow> (\<exists>buf. dsm_event_buffer d = Some buf \<and> MAXIMUM_DSM_ENTRIES \<le> length buf)"

lemma wp_write_fenced_fptan [wp_simps]:
  "wp (write_fenced_fptan P a b f) Q E s = Q () (s\<lparr>world := fptan_write_hw P a b f (world s)\<rparr>)"
  by (simp add: write_fenced_fptan_def wp_simps)

lemma wp_read_fenced_fpatan [wp_simps]:
  "wp (read_fenced_fpatan P a b f) Q E s =
     Q (fst (fpatan_read_hw P a b f (world s))) (s\<lparr>world := snd (fpatan_read_hw P a b f (world s))\<rparr>)"
  by (simp add: read_fenced_fpatan_def wp_simps)

lemma wp_fptan_sequence:
  assumes "\<And>w. Q () (s\<lparr>world := w\<rparr>)"
  shows "wp (fptan_sequence P ws) Q E s"
proof -
  have "wp (for_each ws (\<lambda>(a, b). write_fenced_fptan P a b 0)) (\<lambda>_ t. \<exists>w. t = s\<lparr>world := w\<rparr>) E s"
    by (rule wp_for_each_inv) (auto simp: wp_simps intro: exI [of _ "world s"])
  then show ?thesis
    unfolding fptan_sequence_def by (rule wp_mono) (use assms in auto)
qed

lemma wp_fptan_loop:
  assumes "\<And>w. Q () (s\<lparr>world := w\<rparr>)"
  shows "wp (for_each is (\<lambda>i. fptan_sequence P (f i))) Q E s"
proof -
  have "wp (for_each is (\<lambda>i. fptan_sequence P (f i))) (\<lambda>_ t. \<exists>w. t = s\<lparr>world := w\<rparr>) E s"
    by (rule wp_for_each_inv) (auto intro!: wp_fptan_sequence intro: exI [of _ "world s"])
  then show ?thesis by (rule wp_mono) (use assms in auto)
qed

text \<open>The part of the state that the recorder's operations work on.\<close>

definition dsm_view :: "u64 \<Rightarrow> 'w state \<Rightarrow> 'w state \<Rightarrow> DSMControl \<Rightarrow> bool" where
  "dsm_view core s t d \<longleftrightarrow>
     dsm_at core t = Some d \<and> others_kept core s t \<and> unat core < length (core_contexts t)"

lemma dsm_view_world: "dsm_view core s t d \<Longrightarrow> dsm_view core s (t\<lparr>world := w\<rparr>) d"
  by (simp add: dsm_view_def dsm_at_def others_kept_def)

lemma wp_get_dsm_control:
  assumes "dsm_view core s t d"
  shows "wp (get_dsm_control core) Q E t = Q d t"
  using assms by (simp add: get_dsm_control_def wp_simps dsm_view_def dsm_at_def)

text \<open>Accesses to the hardware keep the view.\<close>

lemma dsm_write:
  assumes "dsm_view core s t d" "\<And>u. dsm_view core s u d \<Longrightarrow> Q () u"
  shows "wp (write_fenced_fptan P a b f) Q E t"
  unfolding wp_write_fenced_fptan by (intro assms(2) dsm_view_world assms(1))

lemma dsm_read:
  assumes "dsm_view core s t d" "\<And>x u. dsm_view core s u d \<Longrightarrow> Q x u"
  shows "wp (read_fenced_fpatan P a b f) Q E t"
  unfolding wp_read_fenced_fpatan by (intro assms(2) dsm_view_world assms(1))

lemma dsm_sequence:
  assumes "dsm_view core s t d" "\<And>u. dsm_view core s u d \<Longrightarrow> Q () u"
  shows "wp (fptan_sequence P ws) Q E t"
  by (intro wp_fptan_sequence assms(2) dsm_view_world assms(1))

lemma dsm_loop:
  assumes "dsm_view core s t d" "\<And>u. dsm_view core s u d \<Longrightarrow> Q () u"
  shows "wp (for_each is (\<lambda>i. fptan_sequence P (f i))) Q E t"
  by (intro wp_fptan_loop assms(2) dsm_view_world assms(1))

lemma wp_get_dsm_controlI:
  "dsm_view core s t d \<Longrightarrow> Q d t \<Longrightarrow> wp (get_dsm_control core) Q E t"
  by (simp add: wp_get_dsm_control)

lemma wp_update_dsm_control:
  assumes v: "dsm_view core s t d" and Q: "\<And>u. dsm_view core s u (f d) \<Longrightarrow> world u = world t \<Longrightarrow> Q () u"
  shows "wp (update_dsm_control core f) Q E t"
  unfolding update_dsm_control_def wp_bind wp_get_dsm_control [OF v] wp_update_context
  using v by (auto simp: dsm_view_def dsm_at_def others_kept_def intro!: Q)

lemma wp_update_file_header:
  assumes "dsm_view core s t d"
    and "\<And>u. dsm_view core s u (d\<lparr>file_header := f (file_header d)\<rparr>) \<Longrightarrow> world u = world t \<Longrightarrow> Q () u"
  shows "wp (update_file_header core f) Q E t"
  unfolding update_file_header_def by (rule wp_update_dsm_control [OF assms(1)]) (rule assms(2))

lemma wp_write_dsm_event:
  assumes v: "dsm_view core s t d" and buf: "dsm_event_buffer d = Some buf" "i < length buf"
    and Q: "\<And>u. dsm_view core s u (d\<lparr>dsm_event_buffer := Some (buf[i := e])\<rparr>) \<Longrightarrow> world u = world t \<Longrightarrow> Q () u"
  shows "wp (write_dsm_event core i e) Q E t"
  using buf unfolding write_dsm_event_def wp_bind wp_get_dsm_control [OF v]
  by (simp add: wp_simps) (rule wp_update_dsm_control [OF v], rule Q)


section \<open>Preparing a capture\<close>

text \<open>The header that a capture starts with: only the lane information depends on the hardware.\<close>

definition capture_header :: "u64 \<Rightarrow> u64 \<Rightarrow> u64 \<Rightarrow> u64 \<Rightarrow> u64 \<Rightarrow> DSM_file_header" where
  "capture_header m g1 c1 g2 c2 = fold (select_lane g1 c1 g2 c2) [0 ..< 8]
     (zero_file_header\<lparr>version_info := push_bit 32 48 OR 0x2, header_mask := m\<rparr>)"

lemma capture_header_alt:
  "fold (select_lane g1 c1 g2 c2) [0 ..< 8] (zero_file_header\<lparr>version_info := 206158430210, header_mask := m\<rparr>)
    = capture_header m g1 c1 g2 c2"
  by (simp add: capture_header_def del: upt_rec_numeral)

text \<open>What the header says of a lane: the counter group that drives it and its selector byte.\<close>

definition lane_type :: "u64 \<Rightarrow> u64 \<Rightarrow> nat \<Rightarrow> u64" where
  "lane_type c1 c2 i =
     (if bit c2 0 \<and> bit c2 (i + 8) then 1 else if bit c1 0 \<and> bit c1 (i + 8) then 2 else 0)"

definition lane_selector :: "u64 \<Rightarrow> u64 \<Rightarrow> u64 \<Rightarrow> u64 \<Rightarrow> nat \<Rightarrow> u64" where
  "lane_selector g1 c1 g2 c2 i =
     (if bit c2 0 \<and> bit c2 (i + 8) then get_field (8 * i) 8 g2
      else if bit c1 0 \<and> bit c1 (i + 8) then get_field (8 * i) 8 g1 else 0)"

lemma get_field_or: "get_field p n (x OR y) = get_field p n x OR get_field p n y"
  by (rule bit_word_eqI) (auto simp: bit_get_field bit_simps)

lemma get_field_lane:
  fixes x :: u64
  assumes "i < 8" "j < 8"
  shows "get_field (8 * i) 8 (push_bit (j * 8) (take_bit 8 x)) = (if i = j then take_bit 8 x else 0)"
proof (rule bit_word_eqI)
  fix n assume "n < LENGTH(64)"
  have "n < 8 \<Longrightarrow> j * 8 \<le> 8 * i + n \<and> 8 * i + n - j * 8 < 8 \<longleftrightarrow> i = j" by auto
  then show "bit (get_field (8 * i) 8 (push_bit (j * 8) (take_bit 8 x))) n =
      bit (if i = j then take_bit 8 x else 0) n"
    using assms by (auto simp: bit_get_field bit_simps)
qed

lemma get_field_masked_lane:
  fixes x :: u64
  assumes "i < 8" "j < 8"
  shows "get_field (8 * i) 8 (x AND push_bit (j * 8) 0xFF) = (if i = j then get_field (8 * i) 8 x else 0)"
proof -
  have "(0xFF :: u64) = take_bit 8 (- 1)" by (simp add: mask_eq_exp_minus_1)
  then have "get_field (8 * i) 8 (x AND push_bit (j * 8) 0xFF) =
    get_field (8 * i) 8 x AND get_field (8 * i) 8 (push_bit (j * 8) (take_bit 8 (- 1)))"
    by (simp only:) (rule bit_word_eqI, auto simp: bit_get_field bit_simps)
  also have "\<dots> = (if i = j then get_field (8 * i) 8 x else 0)"
    unfolding get_field_lane [OF assms]
    by (auto simp: bit_get_field bit_simps intro!: bit_word_eqI)
  finally show ?thesis .
qed

lemma get_field_lane_1_2:
  assumes "i < 8" "j < 8"
  shows "get_field (8 * i) 8 (push_bit (j * 8) (1 :: u64)) = (if i = j then 1 else 0)"
    and "get_field (8 * i) 8 (push_bit (j * 8) (2 :: u64)) = (if i = j then 2 else 0)"
  using get_field_lane [OF assms, of 1] get_field_lane [OF assms, of 2] by simp_all

lemma select_lane_types:
  assumes "i < 8" "k < 8"
  shows "get_field (8 * i) 8 (header_types (select_lane g1 c1 g2 c2 k h)) =
    get_field (8 * i) 8 (header_types h) OR (if i = k then lane_type c1 c2 i else 0)"
  by (simp add: select_lane_def get_field_or get_field_lane_1_2 assms lane_type_def del: push_bit_of_1)

lemma select_lane_sel:
  assumes "i < 8" "k < 8"
  shows "get_field (8 * i) 8 (header_sel (select_lane g1 c1 g2 c2 k h)) =
    get_field (8 * i) 8 (header_sel h) OR (if i = k then lane_selector g1 c1 g2 c2 i else 0)"
  by (simp add: select_lane_def get_field_or get_field_masked_lane assms lane_selector_def)

lemma select_lane_items: "num_items (select_lane g1 c1 g2 c2 k h) = num_items h" "header_mask (select_lane g1 c1 g2 c2 k h) = header_mask h"
  by (simp_all add: select_lane_def)

lemma select_lanes:
  fixes g1 c1 g2 c2 :: u64
  assumes "k \<le> 8" "i < 8" "header_types h = 0" "header_sel h = 0"
  defines "r \<equiv> fold (select_lane g1 c1 g2 c2) [0 ..< k] h"
  shows "get_field (8 * i) 8 (header_types r) = (if i < k then lane_type c1 c2 i else 0) \<and>
    get_field (8 * i) 8 (header_sel r) = (if i < k then lane_selector g1 c1 g2 c2 i else 0) \<and>
    num_items r = num_items h \<and> header_mask r = header_mask h"
  unfolding r_def using assms(1)
proof (induction k)
  case 0
  then show ?case using assms by simp
next
  case (Suc k)
  then have k: "k < 8" by simp
  then show ?case
    using Suc assms(2)
    by (simp add: select_lane_types [OF assms(2) k] select_lane_sel [OF assms(2) k] select_lane_items)
qed

text \<open>Clearing and filling of the event buffer.\<close>

lemma fold_select_lane_loop:
  assumes "dsm_view core s t d" "n \<le> 8"
    and Q: "\<And>u. dsm_view core s u (d\<lparr>file_header := fold (select_lane g1 c1 g2 c2) [0 ..< n] (file_header d)\<rparr>) \<Longrightarrow>
      world u = world t \<Longrightarrow> Q () u"
  shows "wp (for_each [0 ..< n] (\<lambda>idx. update_file_header core (select_lane g1 c1 g2 c2 idx))) Q E t"
proof -
  let ?I = "\<lambda>n u. dsm_view core s u (d\<lparr>file_header := fold (select_lane g1 c1 g2 c2) [0 ..< n] (file_header d)\<rparr>) \<and> world u = world t"
  have "wp (for_each [0 ..< n] (\<lambda>idx. update_file_header core (select_lane g1 c1 g2 c2 idx))) (\<lambda>_. ?I n) E t"
  proof (rule wp_for_each_upt [of ?I])
    fix i u assume u: "?I i u"
    show "wp (update_file_header core (select_lane g1 c1 g2 c2 i)) (\<lambda>_. ?I (Suc i)) E u"
      by (rule wp_update_file_header [OF u [THEN conjunct1]]) (use u in simp)
  qed (use assms in simp)
  then show ?thesis by (rule wp_mono) (use Q in auto)
qed

lemma clear_events_loop:
  assumes "dsm_view core s t d" "dsm_event_buffer d = Some buf" "n \<le> length buf"
    and Q: "\<And>u. dsm_view core s u (d\<lparr>dsm_event_buffer := Some (replicate n e @ drop n buf)\<rparr>) \<Longrightarrow> world u = world t \<Longrightarrow> Q () u"
  shows "wp (for_each [0 ..< n] (\<lambda>i. write_dsm_event core i e)) Q E t"
proof -
  let ?I = "\<lambda>n u. dsm_view core s u (d\<lparr>dsm_event_buffer := Some (replicate n e @ drop n buf)\<rparr>) \<and> world u = world t"
  have "wp (for_each [0 ..< n] (\<lambda>i. write_dsm_event core i e)) (\<lambda>_. ?I n) E t"
  proof (rule wp_for_each_upt [of ?I])
    show "?I 0 t" using assms(1,2) by (cases d) simp
    fix i u assume i: "i < n" and u: "?I i u"
    have e: "(replicate i e @ drop i buf)[i := e] = replicate (Suc i) e @ drop (Suc i) buf"
      using i assms(3) by (simp add: list_update_append replicate_append_same [symmetric]
          Cons_nth_drop_Suc [symmetric])
    show "wp (write_dsm_event core i e) (\<lambda>_. ?I (Suc i)) E u"
      by (rule wp_write_dsm_event [OF u [THEN conjunct1]]) (use i u assms(3) e in auto)
  qed
  then show ?thesis by (rule wp_mono) (use Q in auto)
qed

text \<open>The operations with the world that the hardware is in: what is read is what the hardware gives there.\<close>

definition dsm_seen :: "u64 \<Rightarrow> 'w state \<Rightarrow> 'w \<Rightarrow> 'w state \<Rightarrow> DSMControl \<Rightarrow> bool" where
  "dsm_seen core s w t d \<longleftrightarrow> dsm_view core s t d \<and> world t = w"

lemma seen_write:
  assumes "dsm_seen core s w t d" "\<And>u. dsm_seen core s (fptan_write_hw P a b f w) u d \<Longrightarrow> Q () u"
  shows "wp (write_fenced_fptan P a b f) Q E t"
  unfolding wp_write_fenced_fptan using assms by (simp add: dsm_seen_def dsm_view_world)

lemma seen_read:
  assumes "dsm_seen core s w t d" "fpatan_read_hw P a b f w = (x, w')" "\<And>u. dsm_seen core s w' u d \<Longrightarrow> Q x u"
  shows "wp (read_fenced_fpatan P a b f) Q E t"
  unfolding wp_read_fenced_fpatan using assms by (simp add: dsm_seen_def dsm_view_world)

lemma seen_file_header:
  assumes "dsm_seen core s w t d"
    and "\<And>u. dsm_seen core s w u (d\<lparr>file_header := f (file_header d)\<rparr>) \<Longrightarrow> Q () u"
  shows "wp (update_file_header core f) Q E t"
  using assms unfolding dsm_seen_def by (blast intro: wp_update_file_header)

lemma seen_select_lanes:
  assumes "dsm_seen core s w t d" "n \<le> 8"
    and "\<And>u. dsm_seen core s w u (d\<lparr>file_header := fold (select_lane g1 c1 g2 c2) [0 ..< n] (file_header d)\<rparr>) \<Longrightarrow> Q () u"
  shows "wp (for_each [0 ..< n] (\<lambda>idx. update_file_header core (select_lane g1 c1 g2 c2 idx))) Q E t"
  using assms unfolding dsm_seen_def by (blast intro: fold_select_lane_loop)

lemma seen_clear_events:
  assumes "dsm_seen core s w t d" "dsm_event_buffer d = Some buf" "n \<le> length buf"
    and "\<And>u. dsm_seen core s w u (d\<lparr>dsm_event_buffer := Some (replicate n e @ drop n buf)\<rparr>) \<Longrightarrow> Q () u"
  shows "wp (for_each [0 ..< n] (\<lambda>i. write_dsm_event core i e)) Q E t"
  using assms unfolding dsm_seen_def by (blast intro: clear_events_loop)

text \<open>
  C14. \<^verbatim>\<open>prepare_dsm_capture\<close> selects 0x1032 and reads the mask \<open>m\<close> of the capture, reads the selectors and the control word of
  the two counter groups (\<open>g1\<close>, \<open>c1\<close> from 0x22b and 0x22c, \<open>g2\<close>, \<open>c2\<close> from 0x248 and 0x249), and then selects 0x1000 and reads the
  control word \<open>v\<close> of the recorder, in this order. It stays inside the event buffer, clears exactly its first 128 entries,
  resets the item count, saves and returns \<open>v\<close>, and the header it builds has the mask \<open>m\<close> and
  names for every lane the counter group that drives it (the second group wins) with its selector byte.
\<close>

theorem prepare_dsm_capture_ready:
  fixes s :: "'w state"
  assumes len: "unat core < length (core_contexts s)" and d: "dsm_at core s = Some d"
    and buf: "dsm_event_buffer d = Some buf" "MAXIMUM_DSM_ENTRIES \<le> length buf"
    and mask: "fpatan_read_hw P 0x03d2 0 0 (fptan_write_hw P 0x03d0 0x1032 0 (world s)) = (m, w1)"
    and group_1: "fpatan_read_hw P 0x22b 0 0 w1 = (g1, w2)" "fpatan_read_hw P 0x22c 0 0 w2 = (c1, w3)"
    and group_2: "fpatan_read_hw P 0x248 0 0 w3 = (g2, w4)" "fpatan_read_hw P 0x249 0 0 w4 = (c2, w5)"
    and control: "fpatan_read_hw P 0x03d2 0 0 (fptan_write_hw P 0x03d0 0x1000 0 w5) = (v, w6)"
  shows "\<exists>t h. prepare_dsm_capture P core s = Done v t \<and> others_kept core s t \<and>
    dsm_at core t = Some \<lparr>file_header = h,
      dsm_event_buffer = Some (replicate MAXIMUM_DSM_ENTRIES \<lparr>data0 = 0, data1 = 0\<rparr> @ drop MAXIMUM_DSM_ENTRIES buf),
      orig = v\<rparr> \<and>
    header_mask h = m \<and> num_items h = 0 \<and>
    (\<forall>i. i < 8 \<longrightarrow> get_field (8 * i) 8 (header_types h) = lane_type c1 c2 i \<and>
      get_field (8 * i) 8 (header_sel h) = lane_selector g1 c1 g2 c2 i)"
proof -
  let ?b = "replicate MAXIMUM_DSM_ENTRIES \<lparr>data0 = 0, data1 = 0\<rparr> @ drop MAXIMUM_DSM_ENTRIES buf"
  let ?h = "capture_header m g1 c1 g2 c2"
  let ?Q = "\<lambda>r t. r = v \<and> (\<exists>d'. dsm_view core s t d' \<and> dsm_event_buffer d' = Some ?b \<and> orig d' = v \<and> file_header d' = ?h)"
  have start: "dsm_seen core s (world s) s d" using len d by (simp add: dsm_seen_def dsm_view_def others_kept_def)
  have "wp (prepare_dsm_capture P core) ?Q (\<lambda>_ _. False) s"
    unfolding prepare_dsm_capture_def wp_bind wp_ret
  proof (rule seen_file_header [OF start], rule seen_file_header, assumption, rule seen_write, assumption,
      rule seen_read [OF _ mask], assumption, rule seen_file_header, assumption,
      rule seen_read [OF _ group_1(1)], assumption, rule seen_read [OF _ group_1(2)], assumption,
      rule seen_read [OF _ group_2(1)], assumption, rule seen_read [OF _ group_2(2)], assumption,
      rule seen_select_lanes, assumption, simp,
      rule seen_clear_events [where buf = buf], assumption, simp add: buf, simp add: buf,
      rule seen_write, assumption, rule seen_read [OF _ control], assumption, unfold dsm_seen_def, erule conjE,
      rule wp_update_dsm_control, assumption,
      rule dsm_sequence, assumption, rule dsm_loop, assumption, rule dsm_sequence, assumption,
      rule wp_get_dsm_controlI, assumption, rule conjI [rotated], rule exI, rule conjI, assumption, goal_cases)
    case 1
    then show ?case by (simp add: capture_header_alt del: upt_rec_numeral)
  qed simp
  then obtain t d' where r: "prepare_dsm_capture P core s = Done v t"
    "dsm_view core s t d'" "dsm_event_buffer d' = Some ?b" "orig d' = v" "file_header d' = ?h"
    by (auto dest: wp_total_returns)
  then have view: "others_kept core s t" "dsm_at core t = Some \<lparr>file_header = ?h, dsm_event_buffer = Some ?b, orig = v\<rparr>"
    by (cases d', simp add: dsm_view_def)+
  have lanes: "get_field (8 * i) 8 (header_types ?h) = lane_type c1 c2 i \<and>
      get_field (8 * i) 8 (header_sel ?h) = lane_selector g1 c1 g2 c2 i \<and> num_items ?h = 0 \<and> header_mask ?h = m" if "i < 8" for i
    using that select_lanes [of 8 i "zero_file_header\<lparr>version_info := push_bit 32 48 OR 0x2, header_mask := m\<rparr>"]
    by (simp only: capture_header_def) (simp add: zero_file_header_def)
  have "num_items ?h = 0" "header_mask ?h = m" using lanes [of 0] by simp_all
  then show ?thesis
    using lanes by (intro exI [of _ t] exI [of _ ?h] conjI r(1) view) blast+
qed

text \<open>A core with an unused recorder, for the witnesses.\<close>

definition demo_dsm_state :: "nat state" where
  "demo_dsm_state = demo_state\<lparr>core_contexts := (core_contexts demo_state)[0 :=
     zero_context\<lparr>present := 1, started := 1, ready := 1, dsm_control := Some
       \<lparr>file_header = zero_file_header, dsm_event_buffer = Some (replicate 256 \<lparr>data0 = 7, data1 = 7\<rparr>), orig = 0\<rparr>\<rparr>]\<rparr>"

lemma demo_dsm_at: "dsm_at 0 demo_dsm_state = Some
  \<lparr>file_header = zero_file_header, dsm_event_buffer = Some (replicate 256 \<lparr>data0 = 7, data1 = 7\<rparr>), orig = 0\<rparr>"
  by (simp add: dsm_at_def demo_dsm_state_def demo_state_def)

lemma demo_dsm_length: "unat (0 :: u64) < length (core_contexts demo_dsm_state)"
  by (simp add: demo_dsm_state_def demo_state_def)

text \<open>Hardware whose counter groups drive some of the lanes.\<close>

definition lane_platform :: "nat platform" where
  "lane_platform = demo_platform
     \<lparr>fpatan_read_hw := (\<lambda>a b f w. (if a = 0x22b then 0x8877665544332211 else if a = 0x22c then 0x0F01
        else if a = 0x248 then 0x1817161514131211 else if a = 0x249 then 0x3C01 else 0xF24040000000001, w + 1))\<rparr>"

lemma prepare_dsm_capture_ready_witness:
  "\<exists>t h. prepare_dsm_capture lane_platform 0 demo_dsm_state = Done 0xF24040000000001 t \<and>
    others_kept 0 demo_dsm_state t \<and>
    dsm_at 0 t = Some \<lparr>file_header = h,
      dsm_event_buffer = Some (replicate MAXIMUM_DSM_ENTRIES \<lparr>data0 = 0, data1 = 0\<rparr> @
        drop MAXIMUM_DSM_ENTRIES (replicate 256 \<lparr>data0 = 7, data1 = 7\<rparr>)),
      orig = 0xF24040000000001\<rparr> \<and>
    header_mask h = 0xF24040000000001 \<and> num_items h = 0 \<and>
    (\<forall>i. i < 8 \<longrightarrow>
      get_field (8 * i) 8 (header_types h) = lane_type 0x0F01 0x3C01 i \<and>
      get_field (8 * i) 8 (header_sel h) = lane_selector 0x8877665544332211 0x0F01 0x1817161514131211 0x3C01 i)"
  by (rule prepare_dsm_capture_ready [OF demo_dsm_length demo_dsm_at, where ?w1.0 = 1 and ?w2.0 = 2 and ?w3.0 = 3 and ?w4.0 = 4
        and ?w5.0 = 5 and ?w6.0 = 6]) (simp_all add: lane_platform_def demo_platform_def demo_dsm_state_def demo_state_def)


section \<open>Storing a capture\<close>

text \<open>
  The trace memory as a ring of 128 entries: selecting an index and then each of the two halves
  reads the two words of that entry.
\<close>

definition select_half :: "'w platform \<Rightarrow> u64 \<Rightarrow> 'w \<Rightarrow> u64 \<times> 'w" where
  "select_half P half w = fpatan_read_hw P 0x03d2 0 0 (fptan_write_hw P 0x03d0 half 0 w)"

definition dsm_trace_documented :: "'w platform \<Rightarrow> DSMEvent list \<Rightarrow> bool" where
  "dsm_trace_documented P ring \<longleftrightarrow> length ring = MAXIMUM_DSM_ENTRIES \<and>
     (\<forall>w i. i < MAXIMUM_DSM_ENTRIES \<longrightarrow>
       (let w = fptan_write_hw P 0x03d2 (of_nat i) 0 (fptan_write_hw P 0x03d0 0x80003001 0 w);
            (d0, w) = select_half P 0x00003003 w;
            (d1, w) = select_half P 0x00003002 w in
        d0 = data0 (ring ! i) \<and> d1 = data1 (ring ! i)))"

lemma ring_index: "unat ((off + of_nat i) AND (127 :: u64)) = (unat off + i) mod 128"
proof -
  have and7: "x AND 127 = take_bit 7 x" for x :: u64
    by (simp add: take_bit_eq_mask mask_eq_exp_minus_1)
  have "unat ((off + of_nat i) AND (127 :: u64)) = unat (off + of_nat i :: u64) mod 128"
    unfolding and7 unsigned_take_bit_eq by (simp add: take_bit_eq_mod)
  also have "\<dots> = (unat off + i) mod 128"
    by (simp add: unat_word_ariths unsigned_of_nat take_bit_eq_mod mod_mod_cancel mod_add_right_eq)
  finally show ?thesis .
qed

lemma capture_entry_reads:
  assumes hw: "dsm_trace_documented P ring" and v: "dsm_view core s t d"
    and buf: "dsm_event_buffer d = Some buf" "i < length buf"
    and Q: "\<And>u. dsm_view core s u (d\<lparr>dsm_event_buffer := Some (buf[i := ring ! ((unat off + i) mod 128)])\<rparr>) \<Longrightarrow> Q () u"
  shows "wp (capture_entry P core off i) Q E t"
proof -
  let ?k = "(unat off + i) mod 128"
  have k: "(off + of_nat i) AND 127 = of_nat ?k"
    using ring_index [of off i] by (metis of_nat_unat ucast_id)
  let ?w = "fptan_write_hw P 0x03d2 (of_nat ?k) 0 (fptan_write_hw P 0x03d0 0x80003001 0 (world t))"
  obtain d0 w1 where 1: "select_half P 0x00003003 ?w = (d0, w1)" by (cases "select_half P 0x00003003 ?w")
  obtain d1 w2 where 2: "select_half P 0x00003002 w1 = (d1, w2)" by (cases "select_half P 0x00003002 w1")
  have "d0 = data0 (ring ! ?k) \<and> d1 = data1 (ring ! ?k)"
    using hw [unfolded dsm_trace_documented_def, THEN conjunct2, rule_format, of ?k "world t"] 1 2
    by (simp add: Let_def)
  then have e: "\<lparr>data0 = d0, data1 = d1\<rparr> = ring ! ?k" by simp
  have "wp (write_dsm_event core i (ring ! ?k)) Q E (t\<lparr>world := w2\<rparr>)"
    by (rule wp_write_dsm_event [OF dsm_view_world [OF v] buf]) (rule Q)
  then show ?thesis
    using 1 2 unfolding capture_entry_def wp_bind k
    by (simp add: wp_simps select_half_def e)
qed

lemma capture_loop_reads:
  assumes hw: "dsm_trace_documented P ring" and v: "dsm_view core s t d"
    and buf: "dsm_event_buffer d = Some buf" "n \<le> length buf"
    and Q: "\<And>u. dsm_view core s u (d\<lparr>dsm_event_buffer :=
        Some (map (\<lambda>i. ring ! ((unat off + i) mod 128)) [0 ..< n] @ drop n buf)\<rparr>) \<Longrightarrow> Q () u"
  shows "wp (for_each [0 ..< n] (capture_entry P core off)) Q E t"
proof -
  let ?e = "\<lambda>i. ring ! ((unat off + i) mod 128)"
  let ?I = "\<lambda>n u. dsm_view core s u (d\<lparr>dsm_event_buffer := Some (map ?e [0 ..< n] @ drop n buf)\<rparr>)"
  have "wp (for_each [0 ..< n] (capture_entry P core off)) (\<lambda>_. ?I n) E t"
  proof (rule wp_for_each_upt [of ?I])
    show "?I 0 t" using v buf(1) by (cases d) simp
    fix i u assume i: "i < n" and u: "?I i u"
    have "(map ?e [0 ..< i] @ drop i buf)[i := ?e i] = map ?e [0 ..< Suc i] @ drop (Suc i) buf"
      using i buf(2) by (simp add: list_update_append Cons_nth_drop_Suc [symmetric])
    then show "wp (capture_entry P core off i) (\<lambda>_. ?I (Suc i)) E u"
      by (intro capture_entry_reads [OF hw u]) (use i buf(2) in auto)
  qed
  then show ?thesis by (rule wp_mono) (use Q in auto)
qed

lemma rotated_ring:
  assumes "length ring = 128"
  shows "map (\<lambda>i. ring ! ((k + i) mod 128)) [0 ..< 128] = rotate k ring"
  by (rule nth_equalityI) (use assms in \<open>simp_all add: nth_rotate add.commute del: upt_rec_numeral\<close>)

text \<open>
  C13. \<^verbatim>\<open>store_dsm_capture\<close> brings the ring of the trace hardware into order: the first 128 entries of
  the buffer become the ring, rotated so that it starts at the index in bits 48
  to 54 of the word that the hardware reports at 0x3000, which is saved, the item count becomes 128, and the rest of the buffer and the other cores stay the same.
\<close>

theorem store_dsm_capture_rotates:
  assumes hw: "dsm_trace_documented P ring"
    and len: "unat core < length (core_contexts s)" and d: "dsm_at core s = Some d"
    and buf: "dsm_event_buffer d = Some buf" "MAXIMUM_DSM_ENTRIES \<le> length buf"
  shows "\<exists>t h. store_dsm_capture P core s = Done 0 t \<and> others_kept core s t \<and> num_items h = 128 \<and>
    idx_info h = fst (fpatan_read_hw P 0x03d2 0 0 (fptan_write_hw P 0x03d0 0x3000 0 (world s))) \<and>
    dsm_at core t = Some (d\<lparr>file_header := h, dsm_event_buffer :=
      Some (rotate (unat (get_field 48 7 (idx_info h))) ring @ drop MAXIMUM_DSM_ENTRIES buf)\<rparr>)"
proof -
  let ?read = "fpatan_read_hw P 0x03d2 0 0 (fptan_write_hw P 0x03d0 0x3000 0 (world s))"
  let ?x = "fst ?read"
  let ?Q = "\<lambda>v t. v = 0 \<and> (\<exists>h. num_items h = 128 \<and> idx_info h = ?x \<and> dsm_view core s t (d\<lparr>file_header := h, dsm_event_buffer :=
      Some (rotate (unat (get_field 48 7 (idx_info h))) ring @ drop MAXIMUM_DSM_ENTRIES buf)\<rparr>))"
  have v: "dsm_seen core s (world s) s d" using len d by (simp add: dsm_seen_def dsm_view_def others_kept_def)
  have ring: "length ring = 128" using hw by (simp add: dsm_trace_documented_def)
  have idx: "drop_bit 48 x AND 127 = get_field 48 7 x" for x :: u64
    by (simp add: get_field_def take_bit_eq_mask mask_eq_exp_minus_1)
  have "wp (store_dsm_capture P core) ?Q (\<lambda>_ _. False) s"
    unfolding store_dsm_capture_def wp_bind wp_ret Let_def
  proof (rule seen_write [OF v], rule seen_read [OF _ prod.collapse [symmetric]], assumption, unfold dsm_seen_def, erule conjE,
      rule wp_update_file_header, assumption,
      rule capture_loop_reads [OF hw, where buf = buf], assumption, simp add: buf, simp add: buf,
      rule wp_get_dsm_controlI, assumption, rule dsm_sequence, assumption,
      rule wp_update_file_header, assumption, rule conjI, rule refl, rule exI, intro conjI)
    fix u t
    let ?h = "(file_header d)\<lparr>idx_info := ?x, num_items := of_nat MAXIMUM_DSM_ENTRIES\<rparr>"
    assume t: "dsm_view core s t (d\<lparr>file_header := (file_header d)\<lparr>idx_info := ?x\<rparr>,
        dsm_event_buffer := Some (map (\<lambda>i. ring ! ((unat (drop_bit 48 ?x AND 127) + i) mod 128)) [0 ..< MAXIMUM_DSM_ENTRIES]
          @ drop MAXIMUM_DSM_ENTRIES buf)\<rparr>\<lparr>file_header := (file_header (d\<lparr>file_header := (file_header d)\<lparr>idx_info := ?x\<rparr>,
        dsm_event_buffer := Some (map (\<lambda>i. ring ! ((unat (drop_bit 48 ?x AND 127) + i) mod 128)) [0 ..< MAXIMUM_DSM_ENTRIES]
          @ drop MAXIMUM_DSM_ENTRIES buf)\<rparr>))\<lparr>num_items := of_nat MAXIMUM_DSM_ENTRIES\<rparr>\<rparr>)"
    show "num_items ?h = 128" "idx_info ?h = ?x" by simp_all
    show "dsm_view core s t (d\<lparr>file_header := ?h, dsm_event_buffer :=
      Some (rotate (unat (get_field 48 7 (idx_info ?h))) ring @ drop MAXIMUM_DSM_ENTRIES buf)\<rparr>)"
      using t unfolding rotated_ring [OF ring] idx by (cases d) simp
  qed
  then obtain t h where "store_dsm_capture P core s = Done 0 t" "num_items h = 128" "idx_info h = ?x"
    "dsm_view core s t (d\<lparr>file_header := h, dsm_event_buffer :=
      Some (rotate (unat (get_field 48 7 (idx_info h))) ring @ drop MAXIMUM_DSM_ENTRIES buf)\<rparr>)"
    by (auto dest: wp_total_returns)
  then show ?thesis unfolding dsm_view_def by blast
qed

text \<open>A platform with a trace memory: the world is the selected index, entry \<open>i\<close> holds \<open>i\<close> twice.\<close>

definition trace_platform :: "nat platform" where
  "trace_platform = demo_platform
     \<lparr>fptan_write_hw := (\<lambda>a b f w. if a = 0x03d2 then unat b else w),
      fpatan_read_hw := (\<lambda>a b f w. (of_nat w, w))\<rparr>"

definition trace_ring :: "DSMEvent list" where
  "trace_ring = map (\<lambda>i. \<lparr>data0 = of_nat i, data1 = of_nat i\<rparr>) [0 ..< 128]"

lemma trace_platform_documented: "dsm_trace_documented trace_platform trace_ring"
  by (simp add: dsm_trace_documented_def trace_platform_def trace_ring_def select_half_def
      del: upt_rec_numeral)

lemma store_dsm_capture_rotates_witness:
  "\<exists>t h. store_dsm_capture trace_platform 0 demo_dsm_state = Done 0 t \<and> others_kept 0 demo_dsm_state t \<and>
    num_items h = 128 \<and> idx_info h = fst (fpatan_read_hw trace_platform 0x03d2 0 0 (fptan_write_hw trace_platform 0x03d0 0x3000 0 (world demo_dsm_state))) \<and>
    dsm_at 0 t = Some (\<lparr>file_header = zero_file_header,
      dsm_event_buffer = Some (replicate 256 \<lparr>data0 = 7, data1 = 7\<rparr>), orig = 0\<rparr>\<lparr>file_header := h, dsm_event_buffer :=
      Some (rotate (unat (get_field 48 7 (idx_info h))) trace_ring @
        drop MAXIMUM_DSM_ENTRIES (replicate 256 \<lparr>data0 = 7, data1 = 7\<rparr>))\<rparr>)"
  by (rule store_dsm_capture_rotates [OF trace_platform_documented demo_dsm_length demo_dsm_at]) simp_all


section \<open>Reading the recorder\<close>

definition dsm_count :: "CoreContext \<Rightarrow> u64 option" where
  "dsm_count c = map_option (\<lambda>d. num_items (file_header d)) (dsm_control c)"

definition dsm_stored :: "CoreContext \<Rightarrow> DSMEvent list" where
  "dsm_stored c = (case dsm_control c of
     Some d \<Rightarrow> (case dsm_event_buffer d of Some buf \<Rightarrow> take (unat (num_items (file_header d))) buf | None \<Rightarrow> [])
   | None \<Rightarrow> [])"

lemma length_dsm_event_bytes: "length (dsm_event_bytes e) = 16"
  by (simp add: dsm_event_bytes_def)

lemma copy_dsm_entries_spec:
  assumes len: "unat core < length (core_contexts s)" and d: "dsm_at core s = Some d"
    and buf: "dsm_event_buffer d = Some buf" "unat (num_items (file_header d)) \<le> length buf"
    and k: "k = (if unat start < unat (num_items (file_header d))
                 then min (unat n) (unat (num_items (file_header d)) - unat start) else 0)"
    and no_wrap: "unat start + unat n < 2 ^ 64"
    and room: "off + 16 * k \<le> length (payload_buffer s)"
  shows "copy_dsm_entries (\<lambda>o' bs. write_payload (off + o') bs) core start n s =
    Done (of_nat k) (s\<lparr>payload_buffer := overwrite off
      (concat (map dsm_event_bytes (slice (unat start) k buf))) (payload_buffer s)\<rparr>)"
proof -
  have get: "get_dsm_control core s = Done d s"
    using len d by (simp add: get_dsm_control_def run_simps dsm_at_def)
  show ?thesis
  proof (cases "unat start < unat (num_items (file_header d))")
    case False
    then have "num_items (file_header d) \<le> start" by (simp add: word_le_nat_alt)
    then show ?thesis using False k get by (simp add: copy_dsm_entries_def run_simps slice_def)
  next
    case True
    have kk: "k = min (unat n) (unat (num_items (file_header d)) - unat start)" using True k by simp
    note range = copy_range [OF True no_wrap kk]
    have loop: "for_each [unat start ..< unat start + k] (\<lambda>i.
       bind (from_option NullDeref (Some buf)) (\<lambda>buf.
       bind (require OutOfBounds (i < length buf)) (\<lambda>_.
       write_payload (off + 16 * (i - unat start)) (dsm_event_bytes (buf ! i))))) s =
      Done () (s\<lparr>payload_buffer := overwrite off (concat (map dsm_event_bytes (slice (unat start) k buf))) (payload_buffer s)\<rparr>)"
      by (rule copy_loop_payload [OF length_dsm_event_bytes]) (use True kk buf room in auto)
    show ?thesis
      unfolding copy_dsm_entries_def bind_run [of "get_dsm_control core"] get Let_def outcome.case
        if_not_P [OF range(1)] range(2,3) buf(1) bind_run [of "for_each _ _"] loop ret_run ..
  qed
qed

text \<open>The recorder is a source of events for the streaming loop.\<close>

interpretation dsm: event_source dsm_count dsm_stored dsm_event_bytes copy_dsm_entries
proof
  show "length (dsm_event_bytes e) = 16" for e by (rule length_dsm_event_bytes)
next
  fix core :: u64 and s :: "'a state" and n k start :: u64 and off :: nat
  assume len: "unat core < length (core_contexts s)"
    and n: "dsm_count (core_contexts s ! unat core) = Some n"
    and st: "unat n \<le> length (dsm_stored (core_contexts s ! unat core))"
    and k: "k \<noteq> 0" "unat start + unat k \<le> unat n"
    and room: "off + 16 * unat k \<le> length (payload_buffer s)"
  obtain d where d: "dsm_at core s = Some d" "num_items (file_header d) = n"
    using n by (auto simp: dsm_count_def dsm_at_def)
  have pos: "0 < unat k" using k(1) by (simp add: unat_gt_0)
  obtain buf where buf: "dsm_event_buffer d = Some buf" "unat n \<le> length buf"
    using st d pos k(2) by (auto simp: dsm_stored_def dsm_at_def split: option.splits)
  have stored: "dsm_stored (core_contexts s ! unat core) = take (unat n) buf"
    using d buf by (simp add: dsm_stored_def dsm_at_def)
  have sl: "slice (unat start) (unat k) (take (unat n) buf) = slice (unat start) (unat k) buf"
    using k(2) by (simp add: slice_def drop_take min_def)
  have wrap: "unat start + unat k < 2 ^ 64" by (rule le_less_trans [OF k(2)]) simp
  have "copy_dsm_entries (\<lambda>o' bs. write_payload (off + o') bs) core start k s =
    Done (of_nat (unat k)) (s\<lparr>payload_buffer := overwrite off
      (concat (map dsm_event_bytes (slice (unat start) (unat k) buf))) (payload_buffer s)\<rparr>)"
    by (rule copy_dsm_entries_spec [OF len d(1) buf(1) _ _ wrap room]) (use k(2) pos d(2) buf(2) in auto)
  then show "copy_dsm_entries (\<lambda>o' bs. write_payload (off + o') bs) core start k s =
        Done k (s\<lparr>payload_buffer := overwrite off
          (concat (map dsm_event_bytes (slice (unat start) (unat k) (dsm_stored (core_contexts s ! unat core)))))
          (payload_buffer s)\<rparr>)"
    unfolding stored sl by simp
qed

text \<open>The buffer of a core that was set up holds 256 entries, twice what a capture needs.\<close>

lemma length_dsm_events_of: "length (dsm_events_of b) = length b div 16"
proof (induction b rule: dsm_events_of.induct)
  case (1 b)
  show ?case
  proof (cases "length b < 16")
    case False
    then have "length (dsm_events_of b) = Suc ((length b - 16) div 16)"
      using 1 by (simp add: dsm_events_of.simps [of b])
    also have "\<dots> = length b div 16" using False by (simp add: div_if [of "length b"])
    finally show ?thesis .
  qed (simp add: dsm_events_of.simps)
qed

lemma init_dsm_ready:
  assumes len: "unat core < length (core_contexts s)" and pool: "\<And>n w. fst (alloc_pool_fw P n w)"
    and pages: "alloc_pages_documented P" and left: "memory_left P 1 (heap s)"
  shows "wp (init_dsm_for_context P core) (\<lambda>_ t. \<exists>d. dsm_at core t = Some d \<and> dsm_ok d) E s"
proof -
  have size: "unat (ROUND_UP 2048 4096 div (4096 :: u64)) = Suc 0"
    by (simp add: ROUND_UP_def)
  let ?w = "snd (alloc_pool_fw P 64 (world s))"
  obtain a c w' where a: "alloc_pages_fw P 1 (heap s) ?w = (a, c, w')"
    by (cases "alloc_pages_fw P 1 (heap s) ?w") auto
  have c: "a \<noteq> 0" "length c = 4096"
    using a memory_left_now [OF left, of 1 ?w] pages unfolding alloc_pages_documented_def by fastforce+
  show ?thesis
    using len pool a c
    by (simp add: init_dsm_for_context_def wp_simps size AllocatePages_def wp_def run_simps Let_def
        update_dsm_control_def get_dsm_control_def block_def dsm_at_def dsm_ok_def length_dsm_events_of)
qed

end
