(* ===== verification/Asr.thy ===== *)
theory Asr
  imports Ibs Dsm
begin

text \<open>
  \<^verbatim>\<open>asr/asr.c\<close>, \<^verbatim>\<open>asr/asr_stubs.s\<close> and \<^verbatim>\<open>asr/sysinfo.c\<close>: the registry of supervisor routines that
  machine code calls by number through the gate of its context.
\<close>

section \<open>System information\<close>

definition get_ucode_slot_addr :: "u64 \<Rightarrow> ('w, u64) prog" where
  "get_ucode_slot_addr slot_number =
     (if of_nat UCODE_SLOTS \<le> slot_number then ret 0 else
      bind (gets ucodes) (\<lambda>us.
      bind (require OutOfBounds (unat slot_number < length us)) (\<lambda>_.
      ret (ucode (us ! unat slot_number)))))"

definition get_machine_slot_addr :: "u64 \<Rightarrow> ('w, u64) prog" where
  "get_machine_slot_addr slot_number =
     (if of_nat MACHINE_CODE_SLOTS \<le> slot_number then ret 0 else
      bind (gets machine_codes) (\<lambda>ms.
      bind (require OutOfBounds (unat slot_number < length ms)) (\<lambda>_.
      ret (machine_code (ms ! unat slot_number)))))"


section \<open>The registry\<close>

definition asr_registry :: "ASREntry list" where
  "asr_registry =
     [\<lparr>asr_number = 0x1001, asr_ptr = Get_ucode_slot_addr\<rparr>,
      \<lparr>asr_number = 0x1002, asr_ptr = Get_machine_slot_addr\<rparr>,
      \<lparr>asr_number = 0x10001, asr_ptr = Clear_ibs\<rparr>,
      \<lparr>asr_number = 0x10002, asr_ptr = Set_ibs_offset\<rparr>,
      \<lparr>asr_number = 0x10003, asr_ptr = Start_ibs\<rparr>,
      \<lparr>asr_number = 0x10004, asr_ptr = Start_with_ibs_offset\<rparr>,
      \<lparr>asr_number = 0x10005, asr_ptr = Clear_start_with_ibs_offset\<rparr>,
      \<lparr>asr_number = 0x10006, asr_ptr = Store_ibs_entry\<rparr>,
      \<lparr>asr_number = 0x10007, asr_ptr = Clear_ibs_results\<rparr>,
      \<lparr>asr_number = 0x10008, asr_ptr = Clear_ibs_results_reset_filter\<rparr>,
      \<lparr>asr_number = 0x10014, asr_ptr = Copy_ibs_entries\<rparr>,
      \<lparr>asr_number = 0x11001, asr_ptr = Prepare_dsm\<rparr>,
      \<lparr>asr_number = 0x11002, asr_ptr = Prepare_dsm_capture\<rparr>,
      \<lparr>asr_number = 0x11003, asr_ptr = Store_dsm_capture\<rparr>,
      \<lparr>asr_number = 0x11004, asr_ptr = Get_start_stop_stub_asm_address\<rparr>,
      \<lparr>asr_number = 0x11011, asr_ptr = Start_dsm_capture\<rparr>,
      \<lparr>asr_number = 0x11012, asr_ptr = Stop_dsm_capture\<rparr>,
      \<lparr>asr_number = 0, asr_ptr = ASR_NULL\<rparr>]"

definition get_default_asr_registry :: "ASREntry list" where
  "get_default_asr_registry = asr_registry"

text \<open>The linear search; \<open>None\<close> is a read past the end of a list without terminator.\<close>

fun scan_asr :: "ASREntry list \<Rightarrow> u64 \<Rightarrow> ASRFunction option" where
  "scan_asr [] asr_index = None"
| "scan_asr (current # rest) asr_index =
     (if asr_ptr current = ASR_NULL then Some ASR_NULL
      else if asr_number current = asr_index then Some (asr_ptr current)
      else scan_asr rest asr_index)"

definition get_asr_for_index :: "u64 \<Rightarrow> u64 \<Rightarrow> ('w, ASRFunction) prog" where
  "get_asr_for_index core asr_index =
     bind (get_context core) (\<lambda>context.
     bind (from_option NullDeref (ctx_asr_registry context)) (\<lambda>registry.
     from_option OutOfBounds (scan_asr registry asr_index)))"

text \<open>
  The routines behind the numbers. \<open>poke a off bs\<close> is a write of bytes through an address that the
  machine code passes; addresses of machine code are not resolved in the model.
\<close>

fun run_asr :: "'w platform \<Rightarrow> (u64 \<Rightarrow> nat \<Rightarrow> u8 list \<Rightarrow> ('w, unit) prog) \<Rightarrow> u64 \<Rightarrow> ASRFunction \<Rightarrow>
    u64 \<Rightarrow> u64 \<Rightarrow> u64 \<Rightarrow> ('w, u64) prog" where
  "run_asr P poke core ASR_NULL a1 a2 a3 = ret 0"
| "run_asr P poke core Get_ucode_slot_addr a1 a2 a3 = get_ucode_slot_addr a1"
| "run_asr P poke core Get_machine_slot_addr a1 a2 a3 = get_machine_slot_addr a1"
| "run_asr P poke core Clear_ibs a1 a2 a3 = clear_ibs P core"
| "run_asr P poke core Set_ibs_offset a1 a2 a3 = set_ibs_offset P core a1"
| "run_asr P poke core Start_ibs a1 a2 a3 = start_ibs P core"
| "run_asr P poke core Start_with_ibs_offset a1 a2 a3 = start_with_ibs_offset P core a1"
| "run_asr P poke core Clear_start_with_ibs_offset a1 a2 a3 = clear_start_with_ibs_offset P core a1"
| "run_asr P poke core Store_ibs_entry a1 a2 a3 = store_ibs_entry P core"
| "run_asr P poke core Clear_ibs_results a1 a2 a3 = clear_ibs_results core"
| "run_asr P poke core Clear_ibs_results_reset_filter a1 a2 a3 = clear_ibs_results_reset_filter core"
| "run_asr P poke core Copy_ibs_entries a1 a2 a3 = copy_ibs_entries (poke a1) core a2 a3"
| "run_asr P poke core Prepare_dsm a1 a2 a3 = prepare_dsm P core"
| "run_asr P poke core Prepare_dsm_capture a1 a2 a3 = prepare_dsm_capture P core"
| "run_asr P poke core Store_dsm_capture a1 a2 a3 = store_dsm_capture P core"
| "run_asr P poke core Get_start_stop_stub_asm_address a1 a2 a3 = get_start_stop_stub_asm_address P"
| "run_asr P poke core Start_dsm_capture a1 a2 a3 = start_dsm_capture P core"
| "run_asr P poke core Stop_dsm_capture a1 a2 a3 = stop_dsm_capture P core"

text \<open>The gate: look the number up, return the null pointer if it is unknown, else tail-call.\<close>

definition call_asr_for_index ::
  "'w platform \<Rightarrow> (u64 \<Rightarrow> nat \<Rightarrow> u8 list \<Rightarrow> ('w, unit) prog) \<Rightarrow> u64 \<Rightarrow> u64 \<Rightarrow> u64 \<Rightarrow> u64 \<Rightarrow> u64 \<Rightarrow> ('w, u64) prog" where
  "call_asr_for_index P poke core asr_index a1 a2 a3 =
     bind (get_asr_for_index core asr_index) (\<lambda>f.
     if f = ASR_NULL then ret 0 else run_asr P poke core f a1 a2 a3)"


section \<open>Properties\<close>

text \<open>The specification of a lookup: the first entry with the number, before the terminator.\<close>

definition registered :: "ASREntry list \<Rightarrow> u64 \<Rightarrow> ASRFunction" where
  "registered entries i = (case find (\<lambda>e. asr_number e = i) entries of
     Some e \<Rightarrow> asr_ptr e | None \<Rightarrow> ASR_NULL)"

lemma scan_asr_terminated:
  assumes "\<forall>e \<in> set es. asr_ptr e \<noteq> ASR_NULL" "asr_ptr z = ASR_NULL"
  shows "scan_asr (es @ [z]) i = Some (registered es i)"
  using assms by (induction es) (auto simp: registered_def)

text \<open>
  The gate on a context with the default registry finds exactly the routines of the table: the
  numbers of the table are strictly increasing, so that each number has one routine; every other
  number, in particular 0 and the three numbers 0x10011 to 0x10013 that \<^verbatim>\<open>ibs.h\<close> documents, gives the
  null pointer and changes nothing. The search ends at the zero entry.
\<close>

theorem asr_lookup_exact:
  assumes len: "unat core < length (core_contexts s)"
    and reg: "ctx_asr_registry (core_contexts s ! unat core) = Some get_default_asr_registry"
  shows "get_asr_for_index core i s = Done (registered (butlast asr_registry) i) s \<and>
    sorted_wrt (<) (map asr_number (butlast asr_registry)) \<and>
    (i \<notin> set (map asr_number (butlast asr_registry)) \<longrightarrow>
       call_asr_for_index P poke core i a1 a2 a3 s = Done 0 s) \<and>
    set [0, 0x10011, 0x10012, 0x10013] \<inter> set (map asr_number (butlast asr_registry)) = {}"
proof -
  have split: "asr_registry = butlast asr_registry @ [\<lparr>asr_number = 0, asr_ptr = ASR_NULL\<rparr>]"
    by (simp add: asr_registry_def)
  have "scan_asr asr_registry i = Some (registered (butlast asr_registry) i)"
    by (subst split, rule scan_asr_terminated) (simp_all add: asr_registry_def)
  then have find: "get_asr_for_index core i s = Done (registered (butlast asr_registry) i) s"
    using len reg by (simp add: get_asr_for_index_def run_simps get_default_asr_registry_def)
  have sorted: "sorted_wrt (<) (map asr_number (butlast asr_registry))"
    by (simp add: asr_registry_def)
  have gaps: "set [0, 0x10011, 0x10012, 0x10013] \<inter> set (map asr_number (butlast asr_registry)) = {}"
    by (simp add: asr_registry_def)
  have "i \<notin> set (map asr_number (butlast asr_registry)) \<Longrightarrow> registered (butlast asr_registry) i = ASR_NULL"
    by (force simp: registered_def find_Some_iff split: option.splits)
  then have "i \<notin> set (map asr_number (butlast asr_registry)) \<longrightarrow>
       call_asr_for_index P poke core i a1 a2 a3 s = Done 0 s"
    by (simp add: call_asr_for_index_def bind_run find ret_run)
  then show ?thesis using find sorted gaps by blast
qed

definition demo_asr_state :: "nat state" where
  "demo_asr_state = demo_state\<lparr>core_contexts := (core_contexts demo_state)[0 :=
     zero_context\<lparr>ctx_asr_registry := Some get_default_asr_registry\<rparr>]\<rparr>"

lemma asr_lookup_exact_witness:
  "get_asr_for_index 0 0x10006 demo_asr_state = Done Store_ibs_entry demo_asr_state \<and>
   call_asr_for_index demo_platform (\<lambda>a off bs. ret ()) 0 0x10011 0 0 0 demo_asr_state = Done 0 demo_asr_state"
proof -
  have len: "unat (0 :: u64) < length (core_contexts demo_asr_state)"
    and reg: "ctx_asr_registry (core_contexts demo_asr_state ! unat (0 :: u64)) = Some get_default_asr_registry"
    by (simp_all add: demo_asr_state_def demo_state_def)
  have "registered (butlast asr_registry) 0x10006 = Store_ibs_entry"
    by (simp add: registered_def asr_registry_def)
  then show ?thesis
    using asr_lookup_exact [OF len reg, of "0x10006" demo_platform "\<lambda>a off bs. ret ()" 0 0 0]
      asr_lookup_exact [OF len reg, of "0x10011" demo_platform "\<lambda>a off bs. ret ()" 0 0 0]
    by simp
qed

end
