(* ===== verification/Debug.thy ===== *)
theory Debug
  imports Example_Platform
begin

text \<open>
  \<^verbatim>\<open>handlers/debug.c\<close>: ping, multiple pings, the size of a message, and the reboot request.
  A handler takes the bytes from the payload pointer to the end of the receive buffer and the
  length the message claims for its payload.
\<close>

section \<open>Operations\<close>

definition handle_ping :: "'w platform \<Rightarrow> u8 list \<Rightarrow> u64 \<Rightarrow> ('w, efi_status) prog" where
  "handle_ping P payload payload_length =
     (if payload_length < 4 then ret EFI_INVALID_PARAMETER else
      bind (load_u32 payload 0) (\<lambda>ping_size.
      if ucast ping_size \<noteq> payload_length - 4 then ret EFI_INVALID_PARAMETER else
      bind (write_payload 0 (le_bytes 4 ping_size)) (\<lambda>_.
      bind (load_bytes payload 4 (unat ping_size)) (\<lambda>bs.
      bind (write_payload 4 bs) (\<lambda>_.
      respond P report_debug MSG_PONG payload_buffer
        (ucast (ping_size + 4)) (ucast (ping_size + 4 + 12)) True)))))"

text \<open>
  The loop of \<^verbatim>\<open>handle_multi_ping\<close>; its index is a signed 32-bit integer, compared as an
  unsigned one.
\<close>

function multi_ping_loop :: "'w platform \<Rightarrow> u32 \<Rightarrow> nat \<Rightarrow> nat \<Rightarrow> ('w, efi_status) prog" where
  "multi_ping_loop P ping_size i ping_count =
     (if i < ping_count then
        bind (respond P report_debug MSG_PONG payload_buffer
          (ucast (ping_size + 4)) (ucast (ping_size + 4 + 12)) False) (\<lambda>Status.
        if EFI_ERROR Status then ret Status else
        if i = 2147483647 then stop SignedOverflow else
        multi_ping_loop P ping_size (Suc i) ping_count)
      else ret EFI_SUCCESS)"
  by pat_completeness auto
termination
  by (relation "measure (\<lambda>(P, ping_size, i, ping_count). ping_count - i)") auto

declare multi_ping_loop.simps [simp del]

definition handle_multi_ping :: "'w platform \<Rightarrow> u8 list \<Rightarrow> u64 \<Rightarrow> ('w, efi_status) prog" where
  "handle_multi_ping P payload payload_length =
     (if payload_length < 8 then ret EFI_INVALID_PARAMETER else
      bind (load_u32 payload 0) (\<lambda>ping_count.
      bind (load_u32 payload 4) (\<lambda>ping_size.
      if ucast ping_size \<noteq> payload_length - 8 then ret EFI_INVALID_PARAMETER else
      bind (write_payload 0 (le_bytes 4 ping_size)) (\<lambda>_.
      bind (load_bytes payload 8 (unat ping_size)) (\<lambda>bs.
      bind (write_payload 4 bs) (\<lambda>_.
      bind (multi_ping_loop P ping_size 1 (unat ping_count)) (\<lambda>Status.
      if EFI_ERROR Status then ret Status else
      respond P report_debug MSG_PONG payload_buffer
        (ucast (ping_size + 4)) (ucast (ping_size + 4 + 12)) True)))))))"

definition handle_get_msg_size :: "'w platform \<Rightarrow> u8 list \<Rightarrow> u64 \<Rightarrow> ('w, efi_status) prog" where
  "handle_get_msg_size P payload payload_length =
     bind (write_payload 0 (le_bytes 4 (ucast (payload_length - 4) :: u32))) (\<lambda>_.
     respond P report_debug MSG_MSGSIZE payload_buffer 4 (4 + HEADER_SIZE) True)"

text \<open>
  \<^verbatim>\<open>ResetSystem\<close> does not return. The error text is printed with \<^verbatim>\<open>FormatPrintDebug\<close>, which
  expands to nothing, so the status carries whatever text was printed before.
\<close>

definition handle_reboot :: "'w platform \<Rightarrow> u8 list \<Rightarrow> u64 \<Rightarrow> ('w, efi_status) prog" where
  "handle_reboot P payload payload_length =
     (if payload_length < 4 then
        bind (send_status_fmt P 0x1) (\<lambda>_. ret EFI_INVALID_PARAMETER)
      else
        bind (load_u32 payload 0) (\<lambda>options.
        bind (send_status P 0x0 None) (\<lambda>_.
        stop (Reset (options AND 0x01 = 1)))))"


section \<open>Ping\<close>

text \<open>A ping request: the size of the data, then the data.\<close>

definition ping_payload :: "u8 list \<Rightarrow> u8 list" where
  "ping_payload d = le_bytes 4 (of_nat (length d) :: u32) @ d"

lemma length_ping_payload [simp]: "length (ping_payload d) = length d + 4"
  by (simp add: ping_payload_def)

lemma take_ping_size [simp]: "take 4 (ping_payload d) = le_bytes 4 (of_nat (length d) :: u32)"
  by (simp add: ping_payload_def)

lemma slice_ping_data [simp]: "n = length d \<Longrightarrow> slice 4 n (ping_payload d @ rest) = d"
  by (simp add: slice_def ping_payload_def)

lemma ping_size_matches:
  "length d < 2 ^ 32 - 16 \<Longrightarrow> (ucast (of_nat (length d) :: u32) :: u64) = of_nat (length d + 4) - 4"
  by (rule word_unat_eq_iff [THEN iffD2]) simp

lemma ping_length_ok: "n < 2 ^ 32 \<Longrightarrow> \<not> (of_nat (n + 4) :: u64) < 4"
  by (simp add: word_less_nat_alt del: of_nat_add)

lemma ping_sizes:
  assumes "n \<le> 1396"
  shows "(ucast ((of_nat n :: u32) + 4) :: u64) = of_nat (n + 4)"
    and "(ucast ((of_nat n :: u32) + 4 + 12) :: u64) = of_nat (n + 4 + 12)"
proof -
  have "(of_nat n :: u32) + 4 = of_nat (n + 4)" and "(of_nat n :: u32) + 4 + 12 = of_nat (n + 16)"
    by simp_all
  with assms show "(ucast ((of_nat n :: u32) + 4) :: u64) = of_nat (n + 4)"
    and "(ucast ((of_nat n :: u32) + 4 + 12) :: u64) = of_nat (n + 4 + 12)"
    by (simp_all only: word_unat_eq_iff unat_ucast_u64) (simp_all del: of_nat_add)
qed

lemma wp_handle_ping:
  assumes net: "network_reliable P" and ok: "buffers_ok s" and d: "length d \<le> 1396"
  shows "wp (handle_ping P (ping_payload d @ rest) (of_nat (length d + 4)))
    (\<lambda>st t. st = EFI_SUCCESS \<and> sent t = sent s @ [frame MSG_PONG (ping_payload d) True] \<and> io_only s t \<and> buffers_ok t)
    (\<lambda>_ _. False) s" (is "wp _ ?Q _ s")
proof -
  let ?s = "s\<lparr>payload_buffer := overwrite 0 (ping_payload d) (payload_buffer s)\<rparr>"
  have "wp (handle_ping P (ping_payload d @ rest) (of_nat (length d + 4))) ?Q (\<lambda>_ _. False) s
    = wp (respond P report_debug MSG_PONG payload_buffer (of_nat (length d + 4))
          (of_nat (length d + 4 + 12)) True) ?Q (\<lambda>_ _. False) ?s"
    using d buffers_ok_lengths(1) [OF ok] ping_length_ok [of "length d"] ping_size_matches [of d]
      ping_sizes [of "length d"]
    by (simp add: handle_ping_def wp_simps u32c.dec_enc buf_simps ping_payload_def [symmetric]
        del: of_nat_add)
  also have "\<dots>"
    by (rule wp_respond_written [OF net ok]) (use d in simp_all)
  finally show ?thesis .
qed

text \<open>
  A well-formed ping whose data fits into a response (1396 bytes) is answered with exactly one
  message, a PONG that carries the same size and the same data and is marked as the last one; no
  program data changes.
\<close>

theorem handle_ping_echo:
  assumes net: "network_reliable P" and ok: "buffers_ok s" and d: "length d \<le> 1396"
  shows "\<exists>t. handle_ping P (ping_payload d @ rest) (of_nat (length d + 4)) s = Done EFI_SUCCESS t \<and>
    sent t = sent s @ [frame MSG_PONG (ping_payload d) True] \<and> io_only s t \<and> buffers_ok t"
  using wp_total_returns [OF wp_handle_ping [OF assms]] by auto

lemma handle_ping_echo_witness:
  "length [1, 2, 3 :: u8] \<le> 1396 \<and>
   (\<exists>t. handle_ping demo_platform (ping_payload [1, 2, 3] @ []) (of_nat (length [1, 2, 3 :: u8] + 4)) demo_state =
        Done EFI_SUCCESS t \<and>
      sent t = sent demo_state @ [frame MSG_PONG (ping_payload [1, 2, 3]) True] \<and>
      io_only demo_state t \<and> buffers_ok t)"
proof
  show "length [1, 2, 3 :: u8] \<le> 1396" by simp
  then show "\<exists>t. handle_ping demo_platform (ping_payload [1, 2, 3] @ []) (of_nat (length [1, 2, 3 :: u8] + 4)) demo_state =
        Done EFI_SUCCESS t \<and>
      sent t = sent demo_state @ [frame MSG_PONG (ping_payload [1, 2, 3]) True] \<and>
      io_only demo_state t \<and> buffers_ok t"
    by (rule handle_ping_echo [OF demo_network_reliable demo_buffers_ok])
qed

text \<open>
  C18. A well-formed ping with more than 1396 bytes of data writes past the end of the payload
  buffer: the data is copied before the only check of its size, in \<^verbatim>\<open>construct_message\<close>. The
  receive buffer admits a megabyte.
\<close>

theorem handle_ping_overflow:
  assumes ok: "buffers_ok s" and d: "1396 < length d" "length d \<le> RECEIVE_BUFFER_SIZE"
  shows "\<exists>t. handle_ping P (ping_payload d @ rest) (of_nat (length d + 4)) s = Stop OutOfBounds t"
proof -
  have "wp (handle_ping P (ping_payload d @ rest) (of_nat (length d + 4))) (\<lambda>_ _. False)
      (\<lambda>e _. e = OutOfBounds) s"
    using d buffers_ok_lengths(1) [OF ok] ping_length_ok [of "length d"] ping_size_matches [of d]
    by (simp add: handle_ping_def wp_simps u32c.dec_enc buf_simps del: of_nat_add)
  then show ?thesis by (auto simp: wp_def split: outcome.splits)
qed

lemma handle_ping_overflow_witness:
  "length (replicate 1397 (0 :: u8)) = 1397 \<and>
   (\<exists>t. handle_ping demo_platform (ping_payload (replicate 1397 0) @ [])
      (of_nat (length (replicate 1397 (0 :: u8)) + 4)) demo_state = Stop OutOfBounds t)"
proof
  show "\<exists>t. handle_ping demo_platform (ping_payload (replicate 1397 0) @ [])
      (of_nat (length (replicate 1397 (0 :: u8)) + 4)) demo_state = Stop OutOfBounds t"
    by (rule handle_ping_overflow [OF demo_buffers_ok]) simp_all
qed simp

text \<open>A ping whose size field does not match its length is refused without any effect.\<close>

lemma handle_ping_refused:
  assumes "4 \<le> length payload" and "payload_length < 4 \<or>
      ucast (le_word (slice 0 4 payload) :: u32) \<noteq> payload_length - 4"
  shows "handle_ping P payload payload_length s = Done EFI_INVALID_PARAMETER s"
  using assms by (auto simp: handle_ping_def run_simps)


section \<open>Multiple pings\<close>

definition multi_ping_payload :: "u32 \<Rightarrow> u8 list \<Rightarrow> u8 list" where
  "multi_ping_payload count d = le_bytes 4 count @ ping_payload d"

lemma take_multi_ping_count [simp]: "take 4 (multi_ping_payload c d) = le_bytes 4 c"
  by (simp add: multi_ping_payload_def)

lemma slice_multi_ping_size [simp]:
  "slice 4 4 (multi_ping_payload c d @ rest) = le_bytes 4 (of_nat (length d) :: u32)"
  by (simp add: multi_ping_payload_def slice_def)

lemma slice_multi_ping_data [simp]: "n = length d \<Longrightarrow> slice 8 n (multi_ping_payload c d @ rest) = d"
  by (simp add: multi_ping_payload_def slice_def ping_payload_def)

lemma length_multi_ping_payload [simp]: "length (multi_ping_payload c d) = length d + 8"
  by (simp add: multi_ping_payload_def)

lemma multi_ping_size_matches:
  "length d < 2 ^ 32 - 16 \<Longrightarrow> (ucast (of_nat (length d) :: u32) :: u64) = of_nat (length d + 8) - 8"
  by (rule word_unat_eq_iff [THEN iffD2]) simp

lemma multi_ping_length_ok: "n < 2 ^ 32 \<Longrightarrow> \<not> (of_nat (n + 8) :: u64) < 8"
  by (simp add: word_less_nat_alt del: of_nat_add)

text \<open>The loop sends one message per iteration and leaves the payload where it is.\<close>

lemma wp_multi_ping_loop:
  assumes net: "network_reliable P" and d: "length d \<le> 1396"
    and "buffers_ok s" and "payload_buffer s = overwrite 0 (ping_payload d) b" and "length b = RESPONSE_PAYLOAD_SIZE"
    and "count \<le> 2147483647"
  shows "wp (multi_ping_loop P (of_nat (length d)) i count)
    (\<lambda>st t. st = EFI_SUCCESS \<and> io_only s t \<and> buffers_ok t \<and>
       payload_buffer t = payload_buffer s \<and>
       sent t = sent s @ replicate (count - i) (frame MSG_PONG (ping_payload d) False))
    (\<lambda>_ _. False) s"
  using assms(3-)
proof (induction "count - i" arbitrary: i s)
  case 0
  then show ?case by (simp add: multi_ping_loop.simps [of P _ i] wp_simps)
next
  case (Suc n)
  let ?Q = "\<lambda>i s st t. st = EFI_SUCCESS \<and> io_only s t \<and> buffers_ok t \<and>
       payload_buffer t = payload_buffer s \<and>
       sent t = sent s @ replicate (count - i) (frame MSG_PONG (ping_payload d) False)"
  have less: "i < count" "count - i = Suc n" "i \<noteq> 2147483647" using Suc.hyps(2) Suc.prems(4) by auto
  have same: "s\<lparr>payload_buffer := overwrite 0 (ping_payload d) (payload_buffer s)\<rparr> = s"
    using Suc.prems(2,3) d by (simp add: buf_simps)
  have step: "wp (respond P report_debug MSG_PONG payload_buffer (of_nat (length d + 4))
          (of_nat (length d + 4 + 12)) False)
      (\<lambda>st t. wp (if EFI_ERROR st then ret st else if i = 2147483647 then stop SignedOverflow
                  else multi_ping_loop P (of_nat (length d)) (Suc i) count) (?Q i s) (\<lambda>_ _. False) t)
      (\<lambda>_ _. False) (s\<lparr>payload_buffer := overwrite 0 (ping_payload d) (payload_buffer s)\<rparr>)"
  proof (rule wp_respond_written [OF net Suc.prems(1)])
    fix t
    assume t: "io_only s t" "buffers_ok t"
      "payload_buffer t = overwrite 0 (ping_payload d) (payload_buffer s)"
      "sent t = sent s @ [frame MSG_PONG (ping_payload d) False]"
    have pb: "payload_buffer t = overwrite 0 (ping_payload d) b"
      unfolding t(3) Suc.prems(2) using Suc.prems(3) d by (simp add: buf_simps)
    have "wp (multi_ping_loop P (of_nat (length d)) (Suc i) count) (?Q (Suc i) t) (\<lambda>_ _. False) t"
      by (rule Suc.hyps(1)) (use less t(2) pb Suc.prems in auto)
    then have "wp (multi_ping_loop P (of_nat (length d)) (Suc i) count) (?Q i s) (\<lambda>_ _. False) t"
    proof (rule wp_mono)
      fix a u assume u: "?Q (Suc i) t a u"
      moreover have "count - Suc i = n" using less by simp
      ultimately show "?Q i s a u"
        using t less pb Suc.prems(2) by (auto intro: io_only_trans)
    qed simp
    then show "wp (if EFI_ERROR EFI_SUCCESS then ret EFI_SUCCESS
        else if i = 2147483647 then stop SignedOverflow
        else multi_ping_loop P (of_nat (length d)) (Suc i) count) (?Q i s) (\<lambda>_ _. False) t"
      using less by simp
  qed (use d in simp_all)
  show ?case
    unfolding multi_ping_loop.simps [of P _ i]
    using less step ping_sizes [OF d] by (simp add: wp_bind same del: of_nat_add)
qed

text \<open>
  C11. A well-formed multiple ping with count \<open>n\<close> is answered with \<open>max 1 n\<close> copies of the PONG, of
  which exactly the last is marked as the last message; the count zero still gives one answer.
\<close>

theorem handle_multi_ping_count:
  assumes net: "network_reliable P" and ok: "buffers_ok s" and d: "length d \<le> 1396"
    and n: "unat n \<le> 2147483647"
  shows "\<exists>t. handle_multi_ping P (multi_ping_payload n d @ rest) (of_nat (length d + 8)) s = Done EFI_SUCCESS t \<and>
    sent t = sent s @ replicate (unat n - 1) (frame MSG_PONG (ping_payload d) False)
                    @ [frame MSG_PONG (ping_payload d) True] \<and> io_only s t \<and> buffers_ok t"
proof -
  let ?s = "s\<lparr>payload_buffer := overwrite 0 (ping_payload d) (payload_buffer s)\<rparr>"
  let ?Q = "\<lambda>st t. st = EFI_SUCCESS \<and>
    sent t = sent s @ replicate (unat n - 1) (frame MSG_PONG (ping_payload d) False)
                    @ [frame MSG_PONG (ping_payload d) True] \<and> io_only s t \<and> buffers_ok t"
  let ?last = "respond P report_debug MSG_PONG payload_buffer (of_nat (length d + 4))
          (of_nat (length d + 4 + 12)) True"
  have lp: "length (payload_buffer s) = RESPONSE_PAYLOAD_SIZE" by (rule buffers_ok_lengths(1) [OF ok])
  have ok2: "buffers_ok ?s" using ok d by (simp add: buffers_ok_def)
  have "wp (handle_multi_ping P (multi_ping_payload n d @ rest) (of_nat (length d + 8))) ?Q (\<lambda>_ _. False) s
    = wp (multi_ping_loop P (of_nat (length d)) 1 (unat n))
        (\<lambda>st. wp (if EFI_ERROR st then ret st else ?last) ?Q (\<lambda>_ _. False)) (\<lambda>_ _. False) ?s"
    using d lp multi_ping_length_ok [of "length d"] multi_ping_size_matches [of d]
      ping_sizes [of "length d"]
    by (simp add: handle_multi_ping_def wp_simps u32c.dec_enc buf_simps ping_payload_def [symmetric]
        del: of_nat_add cong: if_cong)
  also have "\<dots>"
  proof (rule wp_mono)
    show "wp (multi_ping_loop P (of_nat (length d)) 1 (unat n))
      (\<lambda>st t. st = EFI_SUCCESS \<and> io_only ?s t \<and> buffers_ok t \<and> payload_buffer t = payload_buffer ?s \<and>
         sent t = sent ?s @ replicate (unat n - 1) (frame MSG_PONG (ping_payload d) False))
      (\<lambda>_ _. False) ?s"
      by (rule wp_multi_ping_loop [OF net d ok2 _ lp n]) simp
  next
    fix st t
    assume t: "st = EFI_SUCCESS \<and> io_only ?s t \<and> buffers_ok t \<and> payload_buffer t = payload_buffer ?s \<and>
         sent t = sent ?s @ replicate (unat n - 1) (frame MSG_PONG (ping_payload d) False)"
    then have io: "io_only s t" by (simp add: io_only_def)
    have same: "t = t\<lparr>payload_buffer := overwrite 0 (ping_payload d) (payload_buffer t)\<rparr>"
      using t lp d by (simp add: buf_simps)
    have "wp ?last ?Q (\<lambda>_ _. False) (t\<lparr>payload_buffer := overwrite 0 (ping_payload d) (payload_buffer t)\<rparr>)"
      by (rule wp_respond_written [OF net]) (use t d io in \<open>auto intro: io_only_trans\<close>)
    then have "wp ?last ?Q (\<lambda>_ _. False) t" by (simp only: same [symmetric])
    then show "wp (if EFI_ERROR st then ret st else ?last) ?Q (\<lambda>_ _. False) t"
      unfolding t [THEN conjunct1] by (simp only: EFI_ERROR_simps if_False)
  qed simp
  finally show ?thesis by (auto dest: wp_total_returns)
qed

lemma handle_multi_ping_count_witness:
  "unat (3 :: u32) \<le> 2147483647 \<and>
   (\<exists>t. handle_multi_ping demo_platform (multi_ping_payload 3 [7] @ []) (of_nat (length [7 :: u8] + 8)) demo_state =
      Done EFI_SUCCESS t \<and>
    sent t = sent demo_state @ replicate (unat (3 :: u32) - 1) (frame MSG_PONG (ping_payload [7]) False)
                    @ [frame MSG_PONG (ping_payload [7]) True] \<and> io_only demo_state t \<and> buffers_ok t)"
proof
  show "unat (3 :: u32) \<le> 2147483647" by simp
  then show "\<exists>t. handle_multi_ping demo_platform (multi_ping_payload 3 [7] @ []) (of_nat (length [7 :: u8] + 8)) demo_state =
      Done EFI_SUCCESS t \<and>
    sent t = sent demo_state @ replicate (unat (3 :: u32) - 1) (frame MSG_PONG (ping_payload [7]) False)
                    @ [frame MSG_PONG (ping_payload [7]) True] \<and> io_only demo_state t \<and> buffers_ok t"
    by (intro handle_multi_ping_count [OF demo_network_reliable demo_buffers_ok]) simp_all
qed

end
