(* ===== verification/Handle_Dsm.thy ===== *)
theory Handle_Dsm
  imports Dsm Handle_Ibs
begin

text \<open>
  \<^verbatim>\<open>handlers/handle_dsm.c\<close>: the message that reads the recorded trace of a core. The file has its
  own copy of the check of a core, which is the same as that of theory \<open>Handle_Ibs\<close>.
\<close>

section \<open>Operations\<close>

definition check_core_id_dsm :: "'w platform \<Rightarrow> u64 \<Rightarrow> ('w, efi_status) prog" where
  "check_core_id_dsm P core =
     (if MAX_CORE_COUNT \<le> core then
        reject P ''Core id %u is out of range, only max %u cores are supported.'' [core, MAX_CORE_COUNT]
          0x201 EFI_INVALID_PARAMETER
      else
        bind (get_context core) (\<lambda>context.
        if present context \<noteq> 1 then
          reject P ''Core id %u is not present on this CPU.'' [core] 0x202 EFI_INVALID_PARAMETER
        else if started context \<noteq> 1 then
          reject P ''Core id %u is not started.'' [core] 0x203 EFI_INVALID_PARAMETER
        else ret EFI_SUCCESS))"

definition file_header_bytes :: "DSM_file_header \<Rightarrow> u8 list" where
  "file_header_bytes h = concat (map (le_bytes 8)
     [version_info h, header_mask h, header_sel h, header_types h, idx_info h, num_items h])"

definition handle_get_dsm_buffer :: "'w platform \<Rightarrow> u8 list \<Rightarrow> u64 \<Rightarrow> ('w, efi_status) prog" where
  "handle_get_dsm_buffer P payload payload_length =
     (if payload_length < 1 * 8 then
        reject P ''MSG_GETDSMBUFFER is too short, need at least 8 Bytes, got %u.'' [payload_length]
          0x1 EFI_INVALID_PARAMETER
      else
        bind (load_u64 payload 0) (\<lambda>core.
        bind (check_core_id_dsm P core) (\<lambda>status.
        if status \<noteq> EFI_SUCCESS then ret status else
        bind (get_context core) (\<lambda>context.
        case dsm_control context of
          None \<Rightarrow>
            bind (write_payload 0 (concat (map (le_bytes 8) [0 :: u64, 0]))) (\<lambda>_.
            respond P report_debug MSG_DSMBUFFER payload_buffer 16 (16 + HEADER_SIZE) True)
        | Some d \<Rightarrow>
            bind (write_payload 0 (concat (map (le_bytes 8) [1 :: u64, 48]))) (\<lambda>_.
            bind (write_payload 16 (file_header_bytes (file_header d))) (\<lambda>_.
            let events_to_send = num_items (file_header d) in
            if events_to_send = 0 then
              respond P report_debug MSG_DSMBUFFER payload_buffer 64 (64 + HEADER_SIZE) True
            else
              stream_loop P MSG_DSMBUFFER 64 56 copy_dsm_entries core (Suc (unat events_to_send))
                0 events_to_send))))))"


section \<open>Reading the trace of a core\<close>

lemma check_core_id_dsm_same: "check_core_id_dsm P core = check_core_id P core"
  by (simp only: check_core_id_dsm_def check_core_id_def)

definition dsm_header :: "DSM_file_header \<Rightarrow> u8 list" where
  "dsm_header h = concat (map (le_bytes 8) [1 :: u64, 48]) @ file_header_bytes h"

lemma length_file_header_bytes [simp]: "length (file_header_bytes h) = 48"
  by (simp add: file_header_bytes_def)

lemma length_dsm_header [simp]: "length (dsm_header h) = 64"
  by (simp add: dsm_header_def)

lemma dsm_header_items: "dsm_header h = overwrite 56 (le_bytes 8 (num_items h)) (dsm_header h)"
  by (simp add: dsm_header_def file_header_bytes_def overwrite_def)

text \<open>
  A request for the trace of a started core sends the header of the capture and exactly its
  recorded entries, in order, in messages of at most 64 entries whose headers carry their own item
  count, the last one marked as last; without entries there is one message with the header alone.
  No program data changes, and the loop ends.
\<close>

theorem handle_get_dsm_buffer_streams:
  assumes net: "network_reliable P" and ok: "buffers_ok s" "arrays_ok s" and core: "core_check core s = None"
    and d: "dsm_at core s = Some d" "dsm_event_buffer d = Some buf" "unat (num_items (file_header d)) \<le> length buf"
  shows "\<exists>t. handle_get_dsm_buffer P (le_bytes 8 core @ rest) 8 s = Done EFI_SUCCESS t \<and>
    sent t = sent s @ packets (event_frame MSG_DSMBUFFER (dsm_header (file_header d)) 56 dsm_event_bytes)
      (take (unat (num_items (file_header d))) buf) \<and>
    io_only s t \<and> buffers_ok t"
proof -
  define n where "n = num_items (file_header d)"
  let ?h = "dsm_header (file_header d)"
  have len: "unat core < length (core_contexts s)" by (rule core_check_range [OF core ok(2)])
  have pl: "length (payload_buffer s) = RESPONSE_PAYLOAD_SIZE" by (rule buffers_ok_lengths(1) [OF ok(1)])
  have ctx: "dsm_control (core_contexts s ! unat core) = Some d" using d(1) by (simp add: dsm_at_def)
  then have st: "dsm_stored (core_contexts s ! unat core) = take (unat n) buf"
    using d(2) by (simp add: dsm_stored_def n_def)
  have eq: "wp (handle_get_dsm_buffer P (le_bytes 8 core @ rest) 8) Q E s =
      wp (if n = 0 then respond P report_debug MSG_DSMBUFFER payload_buffer 64 (64 + HEADER_SIZE) True
        else stream_loop P MSG_DSMBUFFER 64 56 copy_dsm_entries core (Suc (unat n)) 0 n) Q E
      (s\<lparr>payload_buffer := overwrite 0 ?h (payload_buffer s)\<rparr>)" for Q E
    using ctx len pl
    by (simp add: handle_get_dsm_buffer_def wp_simps u64c.dec_enc check_core_id_dsm_same
        wp_check_core_id_ok [OF core ok(2)] n_def [symmetric] dsm_header_def Let_def buf_simps
        del: wp_if stream_loop.simps cong: if_cong)
  have "wp (handle_get_dsm_buffer P (le_bytes 8 core @ rest) 8) (\<lambda>st t. st = EFI_SUCCESS \<and>
      sent t = sent s @ packets (event_frame MSG_DSMBUFFER ?h 56 dsm_event_bytes) (take (unat n) buf) \<and>
      io_only s t \<and> buffers_ok t) (\<lambda>_ _. False) s"
    unfolding eq
    by (rule dsm.wp_stream_events [where n = n, OF net _ _ _ _ ok(1) len _ _ dsm_header_items])
      (use ctx st d(3) in \<open>auto simp: dsm_count_def n_def\<close>)
  then show ?thesis unfolding n_def by (auto dest: wp_total_returns)
qed

lemma handle_get_dsm_buffer_streams_witness:
  "\<exists>t. handle_get_dsm_buffer demo_platform (le_bytes 8 (0 :: u64) @ []) 8 demo_dsm_state = Done EFI_SUCCESS t \<and>
    sent t = sent demo_dsm_state @ packets (event_frame MSG_DSMBUFFER (dsm_header (file_header
        \<lparr>file_header = zero_file_header, dsm_event_buffer = Some (replicate 256 \<lparr>data0 = 7, data1 = 7\<rparr>), orig = 0\<rparr>))
        56 dsm_event_bytes)
      (take (unat (num_items (file_header
        \<lparr>file_header = zero_file_header, dsm_event_buffer = Some (replicate 256 \<lparr>data0 = 7, data1 = 7\<rparr>), orig = 0\<rparr>)))
        (replicate 256 \<lparr>data0 = 7, data1 = 7\<rparr>)) \<and>
    io_only demo_dsm_state t \<and> buffers_ok t"
  by (rule handle_get_dsm_buffer_streams [OF demo_network_reliable _ _ _ demo_dsm_at])
    (simp_all add: demo_dsm_state_def demo_state_def buffers_ok_def arrays_ok_def core_check_def zero_file_header_def)

end
