(* ===== verification/Jobs.thy ===== *)
theory Jobs
  imports Stubs
begin

text \<open>
  The functions that run as jobs of a core: \<^verbatim>\<open>read_msr\<close> of \<^verbatim>\<open>handlers/ucode.c\<close>,
  \<^verbatim>\<open>prepare_ucode_update\<close> of \<^verbatim>\<open>handlers/ucode_execute.c\<close> and the stubs for machine code, and
  \<^verbatim>\<open>call_core_functions\<close> of \<^verbatim>\<open>handlers/cores.c\<close>, which runs the slots of a core in order.
\<close>

section \<open>Local arrays of handlers\<close>

text \<open>A local array lives from its allocation to its release; a job may still hold its address later.\<close>

definition new_frame :: "u32 list \<Rightarrow> ('w, nat) prog" where
  "new_frame ws =
     bind (gets next_frame) (\<lambda>n.
     bind (modify (\<lambda>s. s\<lparr>frames := (frames s)(n \<mapsto> ws), next_frame := Suc n\<rparr>)) (\<lambda>_.
     ret n))"

definition drop_frame :: "nat \<Rightarrow> ('w, unit) prog" where
  "drop_frame n = modify (\<lambda>s. s\<lparr>frames := (frames s)(n := None)\<rparr>)"

definition read_frame :: "nat option \<Rightarrow> nat \<Rightarrow> ('w, u32) prog" where
  "read_frame p i =
     bind (from_option NullDeref p) (\<lambda>n.
     bind (gets frames) (\<lambda>fs.
     bind (from_option DeadFrame (fs n)) (\<lambda>ws.
     bind (require OutOfBounds (i < length ws)) (\<lambda>_.
     ret (ws ! i)))))"

definition write_frame :: "nat option \<Rightarrow> nat \<Rightarrow> u32 \<Rightarrow> ('w, unit) prog" where
  "write_frame p i v =
     bind (from_option NullDeref p) (\<lambda>n.
     bind (gets frames) (\<lambda>fs.
     bind (from_option DeadFrame (fs n)) (\<lambda>ws.
     bind (require OutOfBounds (i < length ws)) (\<lambda>_.
     modify (\<lambda>s. s\<lparr>frames := (frames s)(n \<mapsto> ws[i := v])\<rparr>)))))"


section \<open>Job functions\<close>

definition read_msr :: "'w platform \<Rightarrow> u64 \<Rightarrow> nat option \<Rightarrow> ('w, unit) prog" where
  "read_msr P core p =
     bind (read_frame p 0) (\<lambda>target_msr.
     bind (read_msr_stub P core target_msr) (\<lambda>result.
     bind (write_frame p 0 (ucast (result AND 0xFFFFFFFF))) (\<lambda>_.
     write_frame p 1 (ucast (drop_bit 32 result)))))"

text \<open>
  The loop that reads a whole update, eight bytes at a time, also past its length up to the next
  multiple of eight, and mixes the bytes into a value that nothing depends on.
\<close>

fun mix_bytes :: "u64 \<Rightarrow> nat \<Rightarrow> u8 list \<Rightarrow> u64" where
  "mix_bytes dummy j [] = dummy"
| "mix_bytes dummy j (b # bs) = mix_bytes (dummy XOR push_bit j (ucast b)) (Suc j) bs"

primrec iterate_words :: "u64 \<Rightarrow> nat \<Rightarrow> nat \<Rightarrow> u64 \<Rightarrow> ('w, u64) prog" where
  "iterate_words addr 0 i dummy = ret dummy"
| "iterate_words addr (Suc n) i dummy =
     bind (heap_read addr (8 * i) 8) (\<lambda>bs. iterate_words addr n (Suc i) (mix_bytes dummy 0 bs))"

definition iterate_ucode :: "u64 \<Rightarrow> u64 \<Rightarrow> ('w, u64) prog" where
  "iterate_ucode addr len = iterate_words addr ((unat len + 7) div 8) 0 0xdeadbeefdeadc0de"

definition prepare_ucode_update :: "u64 \<Rightarrow> ('w, unit) prog" where
  "prepare_ucode_update core =
     bind (get_context core) (\<lambda>c.
     bind (iterate_ucode (current_microcode_slot_address c) (current_microcode_len c)) (\<lambda>dummy.
     bind (from_option NullDeref (scratch_space c)) (\<lambda>b.
     bind (require OutOfBounds (8 \<le> length b)) (\<lambda>_.
     update_context core (\<lambda>c. c\<lparr>scratch_space := Some (overwrite 0 (le_bytes 8 dummy) b)\<rparr>)))))"

fun run_function :: "'w platform \<Rightarrow> u64 \<Rightarrow> CoreFunctionCall \<Rightarrow> ('w, unit) prog" where
  "run_function P core call = (case func call of
     NULL_function \<Rightarrow> ret ()
   | Read_msr \<Rightarrow> read_msr P core (arg call)
   | Prepare_ucode_update \<Rightarrow> prepare_ucode_update core
   | Apply_ucode_execute_machine_code_simple \<Rightarrow> apply_ucode_execute_machine_code_simple P core
   | Apply_ucode_execute_machine_code_restore \<Rightarrow> apply_ucode_execute_machine_code_restore P core
   | Execute_machine_code \<Rightarrow> execute_machine_code P core)"

definition call_core_functions :: "'w platform \<Rightarrow> u64 \<Rightarrow> ('w, unit) prog" where
  "call_core_functions P core =
     for_each [0 ..< CORE_FUNCTION_SLOTS] (\<lambda>i.
       bind (get_context core) (\<lambda>c.
       bind (require OutOfBounds (i < length (core_functions c))) (\<lambda>_.
       run_function P core (core_functions c ! i))))"


section \<open>Properties\<close>

lemma wp_read_frame:
  "frames s n = Some ws \<Longrightarrow> i < length ws \<Longrightarrow> wp (read_frame (Some n) i) Q E s = Q (ws ! i) s"
  by (simp add: read_frame_def wp_simps)

lemma wp_write_frame:
  "frames s n = Some ws \<Longrightarrow> i < length ws \<Longrightarrow>
   wp (write_frame (Some n) i v) Q E s = Q () (s\<lparr>frames := (frames s)(n \<mapsto> ws[i := v])\<rparr>)"
  by (simp add: write_frame_def wp_simps)

lemma dead_frame:
  "frames s n = None \<Longrightarrow> read_msr P core (Some n) s = Stop DeadFrame s"
  by (simp add: read_msr_def read_frame_def run_simps)

text \<open>Reading the whole of a block succeeds and changes nothing when the length, rounded up, fits.\<close>

lemma wp_iterate_words:
  assumes "heap s addr = Some b" "addr \<noteq> 0" "8 * (i + n) \<le> length b" and "\<And>v. Q v s"
  shows "wp (iterate_words addr n i d) Q E s"
  using assms(3)
proof (induction n arbitrary: i d)
  case 0
  then show ?case using assms(4) by (simp add: wp_ret)
next
  case (Suc n)
  then show ?case using assms(1,2) by (simp add: wp_bind wp_heap_read)
qed

lemma wp_iterate_ucode:
  assumes "heap s addr = Some b" "addr \<noteq> 0" "unat len + 7 \<le> length b" and "\<And>v. Q v s"
  shows "wp (iterate_ucode addr len) Q E s"
  unfolding iterate_ucode_def
  by (rule wp_iterate_words [OF assms(1,2)]) (use assms(3,4) in auto)

lemma iterate_words_overread:
  assumes "heap s addr = Some b" "addr \<noteq> 0" "length b < 8 * (i + n)" "0 < n"
  shows "iterate_words addr n i d s = Stop OutOfBounds s"
  using assms(3,4)
proof (induction n arbitrary: i d)
  case (Suc n)
  show ?case
  proof (cases "8 * i + 8 \<le> length b")
    case True
    then have "length b < 8 * (Suc i + n)" "0 < n" using Suc.prems by auto
    then show ?thesis using assms(1,2) Suc.IH True by (simp add: run_simps)
  qed (simp add: run_simps assms(1,2))
qed simp

end
