(* ===== verification/Paging.thy ===== *)
theory Paging
  imports Handle_Ibs Bitfields
begin

text \<open>
  \<^verbatim>\<open>system/paging.c\<close> with the structures of \<^verbatim>\<open>paging_structures.h\<close> and the routines of
  \<^verbatim>\<open>paging_stubs.s\<close>: walking the page tables of a core, sending a table or an entry to the client,
  and building the reduced tables that application processors run on. A page table is a block of the
  heap whose base is its physical address.
\<close>

section \<open>Entries\<close>

text \<open>The bit fields of the entries of all levels that the code uses.\<close>

definition entry_addr :: "u64 \<Rightarrow> u64" where
  "entry_addr e = get_field 12 40 e"

definition set_entry_addr :: "u64 \<Rightarrow> u64 \<Rightarrow> u64" where
  "set_entry_addr a e = set_field 12 40 a e"

definition clear_present :: "u64 \<Rightarrow> u64" where
  "clear_present e = set_field 0 1 0 e"

definition clear_ps :: "u64 \<Rightarrow> u64" where
  "clear_ps e = set_field 7 1 0 e"

definition get_full_address :: "u64 \<Rightarrow> u64" where
  "get_full_address addr = 0 OR push_bit 12 addr"

definition get_short_address :: "u64 \<Rightarrow> u64" where
  "get_short_address addr = drop_bit 12 addr"

text \<open>Reading and writing the entry \<open>i\<close> of the table at \<open>a\<close>.\<close>

definition load_entry :: "u64 \<Rightarrow> nat \<Rightarrow> ('w, u64) prog" where
  "load_entry a i = bind (heap_read a (8 * i) 8) (\<lambda>bs. ret (le_word bs))"

definition store_entry :: "u64 \<Rightarrow> nat \<Rightarrow> u64 \<Rightarrow> ('w, unit) prog" where
  "store_entry a i e = heap_write a (8 * i) (le_bytes 8 e)"

definition update_entry :: "u64 \<Rightarrow> nat \<Rightarrow> (u64 \<Rightarrow> u64) \<Rightarrow> ('w, unit) prog" where
  "update_entry a i f = bind (load_entry a i) (\<lambda>e. store_entry a i (f e))"


section \<open>Walking the tables\<close>

definition get_cr3 :: "'w platform \<Rightarrow> u64 \<Rightarrow> ('w, u64) prog" where
  "get_cr3 P core = gets (\<lambda>s. cr3_hw P core (world s))"

definition set_cr3 :: "'w platform \<Rightarrow> u64 \<Rightarrow> u64 \<Rightarrow> ('w, unit) prog" where
  "set_cr3 P core v = on_world (\<lambda>w. ((), set_cr3_hw P core v w))"

definition get_pml4 :: "u64 \<Rightarrow> u64" where
  "get_pml4 cr3 = cr3"

definition get_pdpt_at :: "u64 \<Rightarrow> u64 \<Rightarrow> ('w, u64) prog" where
  "get_pdpt_at cr3 pml4_index =
     (if 512 \<le> pml4_index then ret 0 else
      bind (load_entry (get_pml4 cr3) (unat pml4_index)) (\<lambda>pml4e.
      ret (get_full_address (entry_addr pml4e))))"

definition get_pd_at :: "u64 \<Rightarrow> u64 \<Rightarrow> u64 \<Rightarrow> ('w, u64) prog" where
  "get_pd_at cr3 pml4_index pdpt_index =
     bind (get_pdpt_at cr3 pml4_index) (\<lambda>pdpt.
     if pdpt = 0 \<or> 1024 \<le> pdpt_index then ret 0 else
     bind (load_entry pdpt (unat pdpt_index)) (\<lambda>pdpte.
     ret (get_full_address (entry_addr pdpte))))"

definition get_pt_at :: "u64 \<Rightarrow> u64 \<Rightarrow> u64 \<Rightarrow> u64 \<Rightarrow> ('w, u64) prog" where
  "get_pt_at cr3 pml4_index pdpt_index pt_index =
     bind (get_pd_at cr3 pml4_index pdpt_index) (\<lambda>pd.
     if pd = 0 \<or> 1024 \<le> pt_index then ret 0 else
     bind (load_entry pd (unat pt_index)) (\<lambda>pde.
     ret (get_full_address (entry_addr pde))))"

text \<open>\<^verbatim>\<open>get_entry\<close> is a stub in the sources.\<close>

definition get_entry :: "u64 \<Rightarrow> u64 \<Rightarrow> ('w, u64) prog" where
  "get_entry cr3 address = ret 0"


section \<open>Sending entries\<close>

abbreviation CURRENT_TABLE :: u64 where "CURRENT_TABLE \<equiv> 0xffff"
abbreviation PREVIOUS_ENTRY :: u64 where "PREVIOUS_ENTRY \<equiv> 0xfffe"
abbreviation MAX_ENTRIES_PER_PACKET :: nat where "MAX_ENTRIES_PER_PACKET \<equiv> 80"

text \<open>\<^verbatim>\<open>write_entry\<close> at a byte offset of the payload buffer; the bytes 3 to 7 of the slot are kept.\<close>

definition write_entry :: "nat \<Rightarrow> u64 \<Rightarrow> u16 \<Rightarrow> u8 \<Rightarrow> ('w, unit) prog" where
  "write_entry off entry position paging_level =
     bind (write_payload off (le_bytes 2 position)) (\<lambda>_.
     bind (write_payload (off + 2) [paging_level]) (\<lambda>_.
     write_payload (off + 8) (le_bytes 8 entry)))"

definition send_pageinfo_message :: "'w platform \<Rightarrow> u64 \<Rightarrow> bool \<Rightarrow> ('w, efi_status) prog" where
  "send_pageinfo_message P pageinfo_entries last_message =
     bind (write_payload 16 (le_bytes 8 pageinfo_entries)) (\<lambda>_.
     let payload_size = pageinfo_entries * 16 + 3 * 8 in
     respond P report_debug MSG_PAGINGINFO payload_buffer payload_size (payload_size + HEADER_SIZE) last_message)"

definition pageinfo_failed :: "'w platform \<Rightarrow> efi_status \<Rightarrow> ('w, efi_status) prog" where
  "pageinfo_failed P status = reject P ''Unable to send pageinfo message: %r'' [status] 0x101 status"

text \<open>
  The loop over the entries of a table: \<open>n\<close> entries left, \<open>i\<close> the index of the next one, \<open>pos\<close> the
  offset of the next free slot of the payload. It gives a status and the final offset.
\<close>

primrec send_entries :: "'w platform \<Rightarrow> u64 \<Rightarrow> u8 \<Rightarrow> nat \<Rightarrow> nat \<Rightarrow> nat \<Rightarrow> ('w, efi_status \<times> nat) prog" where
  "send_entries P base paging_level 0 i pos = ret (EFI_SUCCESS, pos)"
| "send_entries P base paging_level (Suc n) i pos =
     bind (if i mod MAX_ENTRIES_PER_PACKET = 0 \<and> i \<noteq> 0 then
             bind (send_pageinfo_message P (of_nat MAX_ENTRIES_PER_PACKET) False) (\<lambda>status.
             if status \<noteq> EFI_SUCCESS then bind (pageinfo_failed P status) (\<lambda>_. ret (status, 24))
             else ret (EFI_SUCCESS, 24))
           else ret (EFI_SUCCESS, pos)) (\<lambda>(status, pos).
     if status \<noteq> EFI_SUCCESS then ret (status, pos) else
     bind (load_entry base i) (\<lambda>e.
     bind (write_entry pos e (of_nat i) paging_level) (\<lambda>_.
     send_entries P base paging_level n (Suc i) (pos + 16))))"

text \<open>The message that ends a table: the entries left in the buffer, possibly none.\<close>

definition send_rest :: "'w platform \<Rightarrow> nat \<Rightarrow> ('w, efi_status) prog" where
  "send_rest P pos =
     bind (send_pageinfo_message P (of_nat ((pos - 24) div 8 div 2)) True) (\<lambda>status.
     if status \<noteq> EFI_SUCCESS then pageinfo_failed P status else ret EFI_SUCCESS)"

definition send_table :: "'w platform \<Rightarrow> u64 \<Rightarrow> nat \<Rightarrow> u8 \<Rightarrow> u64 \<Rightarrow> u64 \<Rightarrow> ('w, efi_status) prog" where
  "send_table P table_base table_length paging_level flags cr3 =
     bind (write_payload 0 (le_bytes 8 flags)) (\<lambda>_.
     bind (write_payload 8 (le_bytes 8 cr3)) (\<lambda>_.
     bind (send_entries P table_base paging_level table_length 0 24) (\<lambda>(status, pos).
     if status \<noteq> EFI_SUCCESS then ret status else send_rest P pos)))"

text \<open>\<open>table\<close> and \<open>i\<close> are the pointer to the entry.\<close>

definition send_entry :: "'w platform \<Rightarrow> u64 \<Rightarrow> nat \<Rightarrow> u16 \<Rightarrow> u8 \<Rightarrow> u64 \<Rightarrow> u64 \<Rightarrow> ('w, efi_status) prog" where
  "send_entry P table i position paging_level flags cr3 =
     bind (write_payload 0 (le_bytes 8 flags)) (\<lambda>_.
     bind (write_payload 8 (le_bytes 8 cr3)) (\<lambda>_.
     bind (load_entry table i) (\<lambda>e.
     bind (write_entry 24 e position paging_level) (\<lambda>_.
     bind (send_pageinfo_message P 1 True) (\<lambda>status.
     if status \<noteq> EFI_SUCCESS then pageinfo_failed P status else ret EFI_SUCCESS)))))"

text \<open>The part of the handler behind the checks of the request: four indices, from the top.\<close>

definition answer_paging_request ::
  "'w platform \<Rightarrow> u64 \<Rightarrow> u64 \<Rightarrow> u64 \<Rightarrow> u64 \<Rightarrow> u64 \<Rightarrow> ('w, efi_status) prog" where
  "answer_paging_request P cr3 pml4_index pdpt_index pd_index pt_index =
     (let flags = 0x1; pml4 = get_pml4 cr3 in
      if pml4_index = CURRENT_TABLE then send_table P pml4 512 4 flags cr3
      else if 512 \<le> pml4_index then
        reject P ''PML4 index %u is out of range, max 511.'' [pml4_index] 0x2 EFI_INVALID_PARAMETER
      else
      bind (get_pdpt_at cr3 pml4_index) (\<lambda>pdpt.
      if pdpt_index = CURRENT_TABLE then send_table P pdpt 1024 3 flags cr3
      else if pdpt_index = PREVIOUS_ENTRY then
        send_entry P pml4 (unat pml4_index) (ucast pml4_index) 4 flags cr3
      else if 1024 \<le> pdpt_index then
        reject P ''PDPT index %u is out of range, max 1023.'' [pdpt_index] 0x3 EFI_INVALID_PARAMETER
      else
      bind (get_pd_at cr3 pml4_index pdpt_index) (\<lambda>pd.
      if pd_index = CURRENT_TABLE then send_table P pd 1024 2 flags cr3
      else if pd_index = PREVIOUS_ENTRY then
        send_entry P pdpt (unat pdpt_index) (ucast pdpt_index) 3 flags cr3
      else if 1024 \<le> pd_index then
        reject P ''PD index %u is out of range, max 1023.'' [pd_index] 0x4 EFI_INVALID_PARAMETER
      else
      bind (get_pt_at cr3 pml4_index pdpt_index pd_index) (\<lambda>pt.
      if pt_index = CURRENT_TABLE then send_table P pt 1024 1 flags cr3
      else if pt_index = PREVIOUS_ENTRY then
        send_entry P pd (unat pd_index) (ucast pd_index) 2 flags cr3
      else if 1024 \<le> pt_index then
        reject P ''PT index %u is out of range, max 1023.'' [pt_index] 0x5 EFI_INVALID_PARAMETER
      else
        send_entry P pt (unat pt_index) (ucast pt_index) 1 flags cr3))))"

definition handle_get_paging_info :: "'w platform \<Rightarrow> u8 list \<Rightarrow> u64 \<Rightarrow> ('w, efi_status) prog" where
  "handle_get_paging_info P payload payload_length =
     (if payload_length < 40 then
        reject P ''MSG_GETPAGINGINFO is too short, need at least 40 Bytes, got %u.'' [payload_length]
          0x1 EFI_INVALID_PARAMETER
      else
        bind (load_u64 payload 0) (\<lambda>core.
        bind (load_u64 payload 8) (\<lambda>pml4_index.
        bind (load_u64 payload 16) (\<lambda>pdpt_index.
        bind (load_u64 payload 24) (\<lambda>pd_index.
        bind (load_u64 payload 32) (\<lambda>pt_index.
        bind (check_core_id P core) (\<lambda>status.
        if status \<noteq> EFI_SUCCESS then ret status else
        bind (get_context core) (\<lambda>context.
        answer_paging_request P (cr3_value context) pml4_index pdpt_index pd_index pt_index))))))))"


section \<open>Reduced tables\<close>

definition CopyPages :: "u64 \<Rightarrow> u64 \<Rightarrow> nat \<Rightarrow> ('w, unit) prog" where
  "CopyPages target source n = bind (heap_read source 0 n) (\<lambda>bs. heap_write target 0 bs)"

definition create_minimal_paging :: "'w platform \<Rightarrow> u64 \<Rightarrow> ('w, u64) prog" where
  "create_minimal_paging P base_cr3 =
     bind (AllocatePages P 1) (\<lambda>pml4_new.
     bind (CopyPages pml4_new (get_pml4 base_cr3) (512 * 8)) (\<lambda>_.
     bind (get_pdpt_at base_cr3 0) (\<lambda>pdpt.
     bind (AllocatePages P 2) (\<lambda>pdpt_new.
     bind (CopyPages pdpt_new pdpt (1024 * 8)) (\<lambda>_.
     bind (get_pd_at base_cr3 0 0) (\<lambda>pd.
     bind (AllocatePages P 2) (\<lambda>pd_new.
     bind (CopyPages pd_new pd (1024 * 8)) (\<lambda>_.
     bind (for_each [4 ..< 1024] (\<lambda>i.
       bind (update_entry pdpt_new i clear_present) (\<lambda>_. update_entry pdpt_new i clear_ps))) (\<lambda>_.
     bind (update_entry pml4_new 0 (set_entry_addr (get_short_address pdpt_new))) (\<lambda>_.
     bind (for_each [1 ..< 512] (\<lambda>i. update_entry pml4_new i clear_present)) (\<lambda>_.
     ret pml4_new)))))))))))"


section \<open>Tables as lists of entries\<close>

definition entry_at :: "u8 list \<Rightarrow> nat \<Rightarrow> u64" where
  "entry_at b i = le_word (slice (8 * i) 8 b)"

definition table_entry :: "heap \<Rightarrow> u64 \<Rightarrow> nat \<Rightarrow> u64 option" where
  "table_entry h a i =
     (case h a of Some b \<Rightarrow> if a \<noteq> 0 \<and> 8 * i + 8 \<le> length b then Some (entry_at b i) else None
      | None \<Rightarrow> None)"

lemma table_entry_block:
  "h a = Some b \<Longrightarrow> a \<noteq> 0 \<Longrightarrow> 8 * i + 8 \<le> length b \<Longrightarrow> table_entry h a i = Some (entry_at b i)"
  by (simp add: table_entry_def)

lemma table_entry_SomeD:
  "table_entry h a i = Some e \<Longrightarrow> a \<noteq> 0 \<and> (\<exists>b. h a = Some b \<and> 8 * i + 8 \<le> length b \<and> e = entry_at b i)"
  by (auto simp: table_entry_def split: option.splits if_splits)

lemma load_entry_done: "table_entry (heap s) a i = Some e \<Longrightarrow> load_entry a i s = Done e s"
  by (auto simp: load_entry_def run_simps entry_at_def dest!: table_entry_SomeD)

lemma wp_load_entry: "table_entry (heap s) a i = Some e \<Longrightarrow> wp (load_entry a i) Q E s = Q e s"
  by (simp add: wp_def load_entry_done)

lemma entry_at_overwrite:
  assumes "8 * i + 8 \<le> length b"
  shows "entry_at (overwrite (8 * i) (le_bytes 8 e) b) j = (if j = i then e else entry_at b j)"
proof (cases "j = i")
  case True
  then show ?thesis using assms by (simp add: entry_at_def slice_overwrite_same u64c.dec_enc)
next
  case False
  then have "8 * j + 8 \<le> 8 * i \<or> 8 * i + length (le_bytes 8 e) \<le> 8 * j" by auto
  then show ?thesis using False assms by (simp add: entry_at_def slice_overwrite_other)
qed

lemma update_entry_done:
  assumes "heap s a = Some b" "a \<noteq> 0" "8 * i + 8 \<le> length b"
  shows "update_entry a i f s =
    Done () (s\<lparr>heap := (heap s)(a \<mapsto> overwrite (8 * i) (le_bytes 8 (f (entry_at b i))) b)\<rparr>)"
  using assms by (simp add: update_entry_def load_entry_def store_entry_def run_simps entry_at_def)

text \<open>The walk that the CPU makes, on the entries alone: the tables from the top, then an entry.\<close>

definition next_table :: "u64 \<Rightarrow> u64" where
  "next_table e = push_bit 12 (get_field 12 40 e)"

fun walk :: "heap \<Rightarrow> u64 \<Rightarrow> u64 list \<Rightarrow> u64 option" where
  "walk h a [] = None"
| "walk h a [i] = table_entry h a (unat i)"
| "walk h a (i # j # is) = (case table_entry h a (unat i) of
      Some e \<Rightarrow> walk h (next_table e) (j # is) | None \<Rightarrow> None)"

lemma full_address [simp]: "get_full_address (entry_addr e) = next_table e"
  by (simp add: get_full_address_def entry_addr_def next_table_def)

lemma wp_get_pdpt_at:
  "i4 < 512 \<Longrightarrow> table_entry (heap s) cr3 (unat i4) = Some e \<Longrightarrow>
   wp (get_pdpt_at cr3 i4) Q E s = Q (next_table e) s"
  by (simp add: get_pdpt_at_def get_pml4_def wp_bind wp_load_entry wp_ret linorder_not_le [symmetric]
      del: not_le)

lemma wp_get_pd_at:
  "i4 < 512 \<Longrightarrow> i3 < 1024 \<Longrightarrow> table_entry (heap s) cr3 (unat i4) = Some e4 \<Longrightarrow>
   table_entry (heap s) (next_table e4) (unat i3) = Some e3 \<Longrightarrow>
   wp (get_pd_at cr3 i4 i3) Q E s = Q (next_table e3) s"
  by (auto simp: get_pd_at_def wp_bind wp_get_pdpt_at wp_load_entry wp_ret dest: table_entry_SomeD)

lemma wp_get_pt_at:
  "i4 < 512 \<Longrightarrow> i3 < 1024 \<Longrightarrow> i2 < 1024 \<Longrightarrow> table_entry (heap s) cr3 (unat i4) = Some e4 \<Longrightarrow>
   table_entry (heap s) (next_table e4) (unat i3) = Some e3 \<Longrightarrow>
   table_entry (heap s) (next_table e3) (unat i2) = Some e2 \<Longrightarrow>
   wp (get_pt_at cr3 i4 i3 i2) Q E s = Q (next_table e2) s"
  by (auto simp: get_pt_at_def wp_bind wp_get_pd_at wp_load_entry wp_ret dest: table_entry_SomeD)


section \<open>Messages with page entries\<close>

text \<open>How the client reads an entry: index, level, value. The bytes 3 to 7 of a slot mean nothing.\<close>

type_synonym page_entry = "u16 \<times> u8 \<times> u64"

definition read_entry :: "u8 list \<Rightarrow> page_entry" where
  "read_entry b = (le_word (take 2 b), b ! 2, le_word (slice 8 8 b))"

definition read_entries :: "nat \<Rightarrow> u8 list \<Rightarrow> page_entry list" where
  "read_entries n b = map (\<lambda>j. read_entry (slice (24 + 16 * j) 16 b)) [0 ..< n]"

text \<open>How it reads a message: whether it is the last, flags, CR3, count, entries.\<close>

definition page_message :: "u8 list \<Rightarrow> (bool \<times> u64 \<times> u64 \<times> u64 \<times> page_entry list) option" where
  "page_message f = (case parse_frame f of
     Some (ty, final, p) \<Rightarrow>
       if ty = MSG_PAGINGINFO \<and> 24 \<le> length p
       then Some (final, le_word (take 8 p), le_word (slice 8 8 p), le_word (slice 16 8 p),
                  read_entries ((length p - 24) div 16) p)
       else None
   | None \<Rightarrow> None)"

definition entry_written :: "nat \<Rightarrow> u64 \<Rightarrow> u16 \<Rightarrow> u8 \<Rightarrow> u8 list \<Rightarrow> u8 list" where
  "entry_written off e position l b =
     overwrite (off + 8) (le_bytes 8 e) (overwrite (off + 2) [l] (overwrite off (le_bytes 2 position) b))"

lemma length_entry_written [simp]: "off + 16 \<le> length b \<Longrightarrow> length (entry_written off e p l b) = length b"
  by (simp add: entry_written_def)

lemma wp_write_entry:
  "off + 16 \<le> length (payload_buffer s) \<Longrightarrow> wp (write_entry off e p l) Q E s =
     Q () (s\<lparr>payload_buffer := entry_written off e p l (payload_buffer s)\<rparr>)"
  by (simp add: write_entry_def wp_simps entry_written_def)

lemma read_entry_written:
  assumes "off + 16 \<le> length b"
  shows "read_entry (slice off 16 (entry_written off e p l b)) = (p, l, e)"
proof -
  let ?b = "entry_written off e p l b"
  have "slice off 2 ?b = le_bytes 2 p" and "slice (off + 8) 8 ?b = le_bytes 8 e" and "?b ! (off + 2) = l"
    using assms by (simp_all add: entry_written_def slice_overwrite_other slice_overwrite_same nth_overwrite)
  moreover have "take 2 (slice off 16 ?b) = slice off 2 ?b"
    using slice_slice [of 0 2 16 off ?b] by simp
  ultimately show ?thesis
    using assms by (simp add: read_entry_def slice_slice nth_slice u16c.dec_enc u64c.dec_enc)
qed

lemma slice_entry_written_other:
  "o' + n \<le> off \<Longrightarrow> off + 16 \<le> length b \<Longrightarrow> slice o' n (entry_written off e p l b) = slice o' n b"
  by (simp add: entry_written_def slice_overwrite_other)

lemma read_entries_written:
  assumes "24 + 16 * m + 16 \<le> length b"
  shows "read_entries (Suc m) (entry_written (24 + 16 * m) e p l b) = read_entries m b @ [(p, l, e)]"
  using assms by (simp add: read_entries_def read_entry_written slice_entry_written_other)

lemma read_entries_count: "24 \<le> length b \<Longrightarrow> length c = 8 \<Longrightarrow> read_entries n (overwrite 16 c b) = read_entries n b"
  by (simp add: read_entries_def slice_overwrite_other)

lemma read_entries_take: "24 + 16 * n \<le> m \<Longrightarrow> read_entries n (take m b) = read_entries n b"
  by (simp add: read_entries_def slice_take)

lemma page_message_frame:
  assumes "24 + 16 * n \<le> length b" "24 + 16 * n \<le> 1400"
    and "take 8 b = le_bytes 8 flags" "slice 8 8 b = le_bytes 8 cr3" "slice 16 8 b = le_bytes 8 count"
  shows "page_message (frame MSG_PAGINGINFO (take (24 + 16 * n) b) final) =
    Some (final, flags, cr3, count, read_entries n b)"
proof -
  have "length (take (24 + 16 * n) b) < 2 ^ 32 - 8" using assms(2) by simp
  then show ?thesis
    using assms
    by (simp add: page_message_def parse_frame_frame read_entries_take slice_take min_absorb2 u64c.dec_enc)
qed

text \<open>The header of the messages: flags and CR3, then the count.\<close>

definition page_header :: "u64 \<Rightarrow> u64 \<Rightarrow> u8 list \<Rightarrow> bool" where
  "page_header flags cr3 b \<longleftrightarrow> take 8 b = le_bytes 8 flags \<and> slice 8 8 b = le_bytes 8 cr3"

lemma page_header_keep:
  "page_header flags cr3 b \<Longrightarrow> 16 \<le> off \<Longrightarrow> off + length xs \<le> length b \<Longrightarrow> page_header flags cr3 (overwrite off xs b)"
  using slice_overwrite_other [of 0 8 off xs b] by (simp add: page_header_def slice_overwrite_other)

lemma page_header_written:
  "page_header flags cr3 b \<Longrightarrow> 16 \<le> off \<Longrightarrow> off + 16 \<le> length b \<Longrightarrow>
   page_header flags cr3 (entry_written off e p l b)"
  using slice_entry_written_other [of 0 8 off b e p l]
  by (simp add: page_header_def slice_entry_written_other)

lemma wp_send_pageinfo_message:
  assumes net: "network_reliable P" and ok: "buffers_ok s" and n: "n \<le> MAX_ENTRIES_PER_PACKET"
    and hdr: "page_header flags cr3 (payload_buffer s)"
    and Q: "\<And>t f. io_only s t \<Longrightarrow> buffers_ok t \<Longrightarrow> page_header flags cr3 (payload_buffer t) \<Longrightarrow>
      sent t = sent s @ [f] \<Longrightarrow>
      page_message f = Some (final, flags, cr3, of_nat n, read_entries n (payload_buffer s)) \<Longrightarrow> Q EFI_SUCCESS t"
  shows "wp (send_pageinfo_message P (of_nat n) final) Q E s"
proof -
  let ?b = "overwrite 16 (le_bytes 8 (of_nat n :: u64)) (payload_buffer s)"
  let ?s = "s\<lparr>payload_buffer := ?b\<rparr>"
  have lp: "length (payload_buffer s) = RESPONSE_PAYLOAD_SIZE" by (rule buffers_ok_lengths(1) [OF ok])
  have ok2: "buffers_ok ?s" using ok by (simp add: buffers_ok_def)
  have hdr2: "page_header flags cr3 ?b" using hdr lp by (simp add: page_header_keep)
  have size: "of_nat n * 16 + 3 * 8 = (of_nat (24 + 16 * n) :: u64)"
    and size2: "of_nat n * 16 + 3 * 8 + HEADER_SIZE = (of_nat (24 + 16 * n + 12) :: u64)"
    by (simp_all add: mult.commute)
  have count: "slice 16 8 ?b = le_bytes 8 (of_nat n :: u64)" using lp by (simp add: slice_overwrite_same)
  have fr: "page_message (frame MSG_PAGINGINFO (take (24 + 16 * n) ?b) final) =
      Some (final, flags, cr3, of_nat n, read_entries n (payload_buffer s))"
    using page_message_frame [of n ?b flags cr3 "of_nat n" final] hdr2 count n lp
    by (simp add: page_header_def read_entries_count)
  have "wp (respond P report_debug MSG_PAGINGINFO payload_buffer (of_nat n * 16 + 3 * 8)
      (of_nat n * 16 + 3 * 8 + HEADER_SIZE) final) Q E ?s"
  proof (rule wp_respond [where payload = payload_buffer, OF net ok2 _ _ size size2])
    fix t
    assume t: "io_only ?s t" "buffers_ok t" "payload_buffer t = payload_buffer ?s"
      "sent t = sent ?s @ [frame MSG_PAGINGINFO (take (24 + 16 * n) (payload_buffer ?s)) final]"
    show "Q EFI_SUCCESS t"
    proof (rule Q [where f = "frame MSG_PAGINGINFO (take (24 + 16 * n) ?b) final"])
      show "io_only s t" using t(1) by (simp add: io_only_def)
      show "page_header flags cr3 (payload_buffer t)" using t(3) hdr2 by simp
    qed (use t fr in simp_all)
  qed (use n lp in simp_all)
  then show ?thesis
    using lp by (simp add: send_pageinfo_message_def wp_bind wp_write_payload Let_def)
qed


section \<open>Sending a table\<close>

text \<open>The entries that are sent of a table, and how they are grouped.\<close>

definition table_entries :: "u8 \<Rightarrow> nat \<Rightarrow> u8 list \<Rightarrow> page_entry list" where
  "table_entries level n b = map (\<lambda>i. (of_nat i, level, entry_at b i)) [0 ..< n]"

function groups :: "nat \<Rightarrow> 'e list \<Rightarrow> (bool \<times> 'e list) list" where
  "groups m es = (if length es \<le> m \<or> m = 0 then [(True, es)] else (False, take m es) # groups m (drop m es))"
  by pat_completeness auto
termination by (relation "measure (\<lambda>(m, es). length es)") auto

declare groups.simps [simp del]

lemma groups_complete: "concat (map snd (groups m es)) = es"
  by (induction m es rule: groups.induct) (subst groups.simps, simp)

lemma groups_full:
  "length es = m \<Longrightarrow> 0 < m \<Longrightarrow> rest \<noteq> [] \<Longrightarrow> groups m (es @ rest) = (False, es) # groups m rest"
  by (subst groups.simps) simp

definition page_messages :: "u64 \<Rightarrow> u64 \<Rightarrow> page_entry list \<Rightarrow> (bool \<times> u64 \<times> u64 \<times> u64 \<times> page_entry list) list" where
  "page_messages flags cr3 es = map (\<lambda>(final, es). (final, flags, cr3, of_nat (length es), es)) (groups 80 es)"

text \<open>The frames sent since \<open>s\<close> are read as these messages.\<close>

definition sends :: "'w state \<Rightarrow> 'w state \<Rightarrow> (bool \<times> u64 \<times> u64 \<times> u64 \<times> page_entry list) list \<Rightarrow> bool" where
  "sends s t ms \<longleftrightarrow> (\<exists>fs. sent t = sent s @ fs \<and> map page_message fs = map Some ms)"

lemma sends_one: "sent t = sent s @ [f] \<Longrightarrow> page_message f = Some m \<Longrightarrow> sends s t [m]"
  by (auto simp: sends_def)

lemma sends_Cons: "sends s t [m] \<Longrightarrow> sends t u ms \<Longrightarrow> sends s u (m # ms)"
  unfolding sends_def by (elim exE conjE, rule exI, rule conjI) (auto simp: map_eq_append_conv)

text \<open>
  The loop with its final message, from a buffer in which the last \<open>length es\<close> entries wait: they
  and the remaining entries go out in groups of 80.
\<close>

definition table_rest :: "'w platform \<Rightarrow> u64 \<Rightarrow> u8 \<Rightarrow> nat \<Rightarrow> nat \<Rightarrow> nat \<Rightarrow> ('w, efi_status) prog" where
  "table_rest P base level n i pos =
     bind (send_entries P base level n i pos) (\<lambda>(status, pos).
     if status \<noteq> EFI_SUCCESS then ret status else send_rest P pos)"

lemma table_rest_0: "table_rest P base level 0 i pos = send_rest P pos"
  by (simp add: table_rest_def bind_ret_left)

lemma table_rest_Suc:
  assumes "\<not> (i mod 80 = 0 \<and> i \<noteq> 0)"
  shows "table_rest P base level (Suc n) i pos =
    bind (load_entry base i) (\<lambda>e. bind (write_entry pos e (of_nat i) level) (\<lambda>_.
      table_rest P base level n (Suc i) (pos + 16)))"
  using assms by (auto simp: table_rest_def bind_ret_left bind_assoc)

lemma table_rest_flush:
  assumes "i mod 80 = 0 \<and> i \<noteq> 0"
  shows "table_rest P base level (Suc n) i pos =
    bind (send_pageinfo_message P (of_nat MAX_ENTRIES_PER_PACKET) False) (\<lambda>status.
      if status \<noteq> EFI_SUCCESS then pageinfo_failed P status else
      bind (load_entry base i) (\<lambda>e. bind (write_entry 24 e (of_nat i) level) (\<lambda>_.
      table_rest P base level n (Suc i) 40)))"
  using assms
  by (auto simp: table_rest_def bind_ret_left bind_assoc fun_eq_iff bind_run ret_run pageinfo_failed_def
      reject_def split: outcome.splits)

lemma page_messages_full:
  "length es = 80 \<Longrightarrow> rest \<noteq> [] \<Longrightarrow>
   page_messages flags cr3 (es @ rest) = (False, flags, cr3, 80, es) # page_messages flags cr3 rest"
  by (simp add: page_messages_def groups_full)

lemma page_messages_small:
  "length es \<le> 80 \<Longrightarrow> page_messages flags cr3 es = [(True, flags, cr3, of_nat (length es), es)]"
  by (simp add: page_messages_def groups.simps)

lemma length_read_entries [simp]: "length (read_entries m b) = m"
  by (simp add: read_entries_def)

lemma entries_from: "map f [i ..< i + Suc n] = f i # map f [Suc i ..< Suc i + n]"
  by (simp add: upt_conv_Cons del: upt_Suc)

lemma wp_send_rest:
  assumes "network_reliable P" "buffers_ok s" "page_header flags cr3 (payload_buffer s)" "m \<le> 80"
  shows "wp (send_rest P (24 + 16 * m)) (\<lambda>st t. st = EFI_SUCCESS \<and> io_only s t \<and> buffers_ok t \<and>
    sends s t (page_messages flags cr3 (read_entries m (payload_buffer s)))) E s"
proof -
  have "(24 + 16 * m - 24) div 8 div 2 = m" by simp
  then show ?thesis
    unfolding send_rest_def wp_bind
    by (simp only:) (rule wp_send_pageinfo_message [OF assms(1,2,4,3)],
      simp add: wp_ret page_messages_small assms(4) sends_one)
qed

text \<open>
  What the loop owes from a state on: the messages of the waiting entries and of the remaining
  \<open>n\<close> entries of the table.
\<close>

definition rest_sent :: "u64 \<Rightarrow> u64 \<Rightarrow> u8 \<Rightarrow> u8 list \<Rightarrow> nat \<Rightarrow> nat \<Rightarrow> (u16 \<times> u8 \<times> u64) list \<Rightarrow>
    'w state \<Rightarrow> efi_status \<Rightarrow> 'w state \<Rightarrow> bool" where
  "rest_sent flags cr3 level b n i waiting s st t \<longleftrightarrow> st = EFI_SUCCESS \<and> io_only s t \<and> buffers_ok t \<and>
     sends s t (page_messages flags cr3 (waiting @ map (\<lambda>j. (of_nat j, level, entry_at b j)) [i ..< i + n]))"

text \<open>Writing the entry \<open>i\<close> behind \<open>k < 80\<close> waiting ones and going on.\<close>

lemma wp_table_entry:
  assumes base: "base \<noteq> 0" "heap s base = Some b" "8 * Suc i \<le> length b"
    and ok: "buffers_ok s" "page_header flags cr3 (payload_buffer s)" and k: "k < 80"
    and rest: "\<And>t. \<lbrakk>heap t = heap s; buffers_ok t; page_header flags cr3 (payload_buffer t)\<rbrakk> \<Longrightarrow>
      wp (table_rest P base level n (Suc i) (24 + 16 * Suc k))
        (rest_sent flags cr3 level b n (Suc i) (read_entries (Suc k) (payload_buffer t)) t) E t"
  shows "wp (bind (load_entry base i) (\<lambda>e. bind (write_entry (24 + 16 * k) e (of_nat i) level) (\<lambda>_.
        table_rest P base level n (Suc i) (24 + 16 * Suc k))))
      (rest_sent flags cr3 level b (Suc n) i (read_entries k (payload_buffer s)) s) E s"
proof -
  have entry: "table_entry (heap s) base i = Some (entry_at b i)"
    using base by (simp add: table_entry_block)
  have fits: "24 + 16 * k + 16 \<le> length (payload_buffer s)" using k buffers_ok_lengths(1) [OF ok(1)] by simp
  let ?b = "entry_written (24 + 16 * k) (entry_at b i) (of_nat i) level (payload_buffer s)"
  let ?s = "s\<lparr>payload_buffer := ?b\<rparr>"
  have "wp (table_rest P base level n (Suc i) (24 + 16 * Suc k))
      (rest_sent flags cr3 level b n (Suc i) (read_entries (Suc k) (payload_buffer ?s)) ?s) E ?s"
    by (rule rest) (use ok fits in \<open>simp_all add: buffers_ok_def page_header_written\<close>)
  moreover have "rest_sent flags cr3 level b n (Suc i) (read_entries (Suc k) (payload_buffer ?s)) ?s =
      rest_sent flags cr3 level b (Suc n) i (read_entries k (payload_buffer s)) s"
    unfolding rest_sent_def entries_from
    using fits by (simp add: fun_eq_iff read_entries_written io_only_def sends_def del: upt_Suc)
  ultimately show ?thesis
    using entry fits by (simp add: wp_bind wp_load_entry wp_write_entry)
qed

lemma wp_table_flush:
  assumes net: "network_reliable P" and base: "base \<noteq> 0"
    and s: "heap s base = Some b" "8 * Suc i \<le> length b" "buffers_ok s" "page_header flags cr3 (payload_buffer s)"
    and flush: "i mod 80 = 0 \<and> i \<noteq> 0"
    and rest: "\<And>t. heap t = heap s \<Longrightarrow> buffers_ok t \<Longrightarrow> page_header flags cr3 (payload_buffer t) \<Longrightarrow>
      wp (table_rest P base level n (Suc i) (24 + 16 * Suc 0))
        (rest_sent flags cr3 level b n (Suc i) (read_entries (Suc 0) (payload_buffer t)) t) (\<lambda>_ _. False) t"
  shows "wp (table_rest P base level (Suc n) i (24 + 16 * 80))
    (rest_sent flags cr3 level b (Suc n) i (read_entries 80 (payload_buffer s)) s) (\<lambda>_ _. False) s"
  unfolding table_rest_flush [OF flush] wp_bind
proof (rule wp_send_pageinfo_message [OF net s(3) _ s(4)])
  fix t f
  assume t: "io_only s t" "buffers_ok t" "page_header flags cr3 (payload_buffer t)" "sent t = sent s @ [f]"
    "page_message f = Some (False, flags, cr3, of_nat 80, read_entries 80 (payload_buffer s))"
  have heap: "heap t = heap s" using t(1) by (simp add: io_only_def)
  have one: "sends s t [(False, flags, cr3, 80, read_entries 80 (payload_buffer s))]" using sends_one [OF t(4,5)] by simp
  have "rest_sent flags cr3 level b (Suc n) i (read_entries 80 (payload_buffer s)) s st u"
    if "rest_sent flags cr3 level b (Suc n) i [] t st u" for st u
    using that one t(1)
    by (auto simp: rest_sent_def page_messages_full simp del: upt_Suc intro: io_only_trans sends_Cons)
  moreover have "wp (bind (load_entry base i) (\<lambda>e. bind (write_entry (24 + 16 * 0) e (of_nat i) level) (\<lambda>_.
      table_rest P base level n (Suc i) (24 + 16 * Suc 0))))
    (rest_sent flags cr3 level b (Suc n) i (read_entries 0 (payload_buffer t)) t) (\<lambda>_ _. False) t"
    by (rule wp_table_entry [OF base _ s(2) t(2,3)]) (use s(1) heap in simp, simp, rule rest, use heap in simp_all)
  ultimately show "wp (if EFI_SUCCESS \<noteq> EFI_SUCCESS then pageinfo_failed P EFI_SUCCESS
      else bind (load_entry base i) (\<lambda>e. bind (write_entry 24 e (of_nat i) level) (\<lambda>_.
        table_rest P base level n (Suc i) 40)))
    (rest_sent flags cr3 level b (Suc n) i (read_entries 80 (payload_buffer s)) s) (\<lambda>_ _. False) t"
    by (simp add: read_entries_def wp_mono del: upt_Suc)
qed simp

lemma wp_table_rest:
  assumes net: "network_reliable P" and base: "base \<noteq> 0"
    and "heap s base = Some b" "8 * (i + n) \<le> length b" "buffers_ok s"
    and "page_header flags cr3 (payload_buffer s)" "i = 80 * q + m" "m \<le> 80" "m = 0 \<Longrightarrow> i = 0"
  shows "wp (table_rest P base level n i (24 + 16 * m))
    (rest_sent flags cr3 level b n i (read_entries m (payload_buffer s)) s) (\<lambda>_ _. False) s"
  using assms(3-)
proof (induction n arbitrary: s i m q)
  case 0
  then show ?case
    unfolding table_rest_0 rest_sent_def using wp_send_rest [OF net 0(3,4,6)] by simp
next
  case (Suc n)
  have rest: "wp (table_rest P base level n (Suc i) (24 + 16 * Suc k))
      (rest_sent flags cr3 level b n (Suc i) (read_entries (Suc k) (payload_buffer t)) t) (\<lambda>_ _. False) t"
    if "heap t = heap s" "buffers_ok t" "page_header flags cr3 (payload_buffer t)" "k < 80" "i = 80 * q' + k"
    for t k q'
    by (rule Suc.IH [where q = q']) (use Suc.prems that in auto)
  show ?case
  proof (cases "m = 80")
    case False
    then have m: "m < 80" and go: "\<not> (i mod 80 = 0 \<and> i \<noteq> 0)" using Suc.prems(5-7) by auto
    have next_pos: "24 + 16 * m + 16 = 24 + 16 * Suc m" by simp
    show ?thesis
      unfolding table_rest_Suc [OF go] next_pos
      by (rule wp_table_entry [OF base Suc.prems(1) _ Suc.prems(3,4) m], use Suc.prems(2) in simp)
        (rule rest, use m Suc.prems(5) in simp_all)
  next
    case True
    have "i mod 80 = 0 \<and> i \<noteq> 0" using Suc.prems True by auto
    moreover have "8 * Suc i \<le> length b" using Suc.prems(2) by simp
    ultimately show ?thesis
      unfolding True
      by (intro wp_table_flush [OF net base Suc.prems(1) _ Suc.prems(3,4)] rest [where q' = "Suc q"])
        (use Suc.prems(5) True in simp_all)
  qed
qed

text \<open>
  The loop on a block that ends before the table: \<open>k\<close> entries can be read, of which the last are never sent, since the
  read of entry \<open>k\<close> is out of bounds.
\<close>

definition cut_off :: "u64 \<Rightarrow> u64 \<Rightarrow> u8 \<Rightarrow> u8 list \<Rightarrow> nat \<Rightarrow> nat \<Rightarrow> (u16 \<times> u8 \<times> u64) list \<Rightarrow>
    'w state \<Rightarrow> stop_reason \<Rightarrow> 'w state \<Rightarrow> bool" where
  "cut_off flags cr3 level b k i waiting s e t \<longleftrightarrow> e = OutOfBounds \<and> io_only s t \<and>
     sends s t (butlast (page_messages flags cr3 (waiting @ map (\<lambda>j. (of_nat j, level, entry_at b j)) [i ..< k])))"

lemma page_messages_not_Nil [simp]: "page_messages flags cr3 es \<noteq> []"
  unfolding page_messages_def by (subst groups.simps) simp

lemma wp_load_entry_out:
  "heap s a = Some b \<Longrightarrow> a \<noteq> 0 \<Longrightarrow> length b \<le> 8 * i \<Longrightarrow> wp (load_entry a i) Q E s = E OutOfBounds s"
  by (simp add: load_entry_def heap_read_def block_def load_bytes_def wp_simps)

lemma cut_off_from:
  assumes "cut_off flags cr3 level b k (Suc i) waiting' t e u" "io_only s t" "sent t = sent s" "i < k"
    and "waiting' = waiting @ [(of_nat i, level, entry_at b i)]"
  shows "cut_off flags cr3 level b k i waiting s e u"
  using assms by (auto simp: cut_off_def upt_conv_Cons [of i k] sends_def intro: io_only_trans)

lemma wp_table_entry_cut:
  assumes base: "base \<noteq> 0" "heap s base = Some b" "length b = 8 * k" "i < k"
    and ok: "buffers_ok s" "page_header flags cr3 (payload_buffer s)" and m: "m < 80"
    and rest: "\<And>t. \<lbrakk>heap t = heap s; buffers_ok t; page_header flags cr3 (payload_buffer t)\<rbrakk> \<Longrightarrow>
      wp (table_rest P base level n (Suc i) (24 + 16 * Suc m)) (\<lambda>_ _. False)
        (cut_off flags cr3 level b k (Suc i) (read_entries (Suc m) (payload_buffer t)) t) t"
  shows "wp (bind (load_entry base i) (\<lambda>e. bind (write_entry (24 + 16 * m) e (of_nat i) level) (\<lambda>_.
        table_rest P base level n (Suc i) (24 + 16 * Suc m)))) (\<lambda>_ _. False)
      (cut_off flags cr3 level b k i (read_entries m (payload_buffer s)) s) s"
proof -
  have entry: "table_entry (heap s) base i = Some (entry_at b i)"
    using base by (intro table_entry_block) simp_all
  have fits: "24 + 16 * m + 16 \<le> length (payload_buffer s)" using m buffers_ok_lengths(1) [OF ok(1)] by simp
  let ?s = "s\<lparr>payload_buffer := entry_written (24 + 16 * m) (entry_at b i) (of_nat i) level (payload_buffer s)\<rparr>"
  have "wp (table_rest P base level n (Suc i) (24 + 16 * Suc m)) (\<lambda>_ _. False)
      (cut_off flags cr3 level b k (Suc i) (read_entries (Suc m) (payload_buffer ?s)) ?s) ?s"
    by (rule rest) (use ok fits in \<open>simp_all add: buffers_ok_def page_header_written\<close>)
  then have "wp (table_rest P base level n (Suc i) (24 + 16 * Suc m)) (\<lambda>_ _. False)
      (cut_off flags cr3 level b k i (read_entries m (payload_buffer s)) s) ?s"
    by (rule wp_mono) (use fits base(4) in \<open>auto simp: read_entries_written io_only_def elim!: cut_off_from\<close>)
  then show ?thesis
    using entry fits by (simp add: wp_bind wp_load_entry wp_write_entry)
qed

lemma wp_table_cut:
  assumes net: "network_reliable P" and base: "base \<noteq> 0" and k: "length b = 8 * k" "k mod 80 \<noteq> 0"
    and "heap s base = Some b" "i \<le> k" "k < i + n" "buffers_ok s"
    and "page_header flags cr3 (payload_buffer s)" "i = 80 * q + m" "m \<le> 80" "m = 0 \<Longrightarrow> i = 0"
  shows "wp (table_rest P base level n i (24 + 16 * m)) (\<lambda>_ _. False)
    (cut_off flags cr3 level b k i (read_entries m (payload_buffer s)) s) s"
  using assms(5-)
proof (induction n arbitrary: s i m q)
  case 0
  then show ?case by simp
next
  case (Suc n)
  note prems = Suc.prems
  have rest: "wp (table_rest P base level n (Suc i) (24 + 16 * Suc m')) (\<lambda>_ _. False)
      (cut_off flags cr3 level b k (Suc i) (read_entries (Suc m') (payload_buffer t)) t) t"
    if "heap t = heap s" "buffers_ok t" "page_header flags cr3 (payload_buffer t)" "m' < 80" "i = 80 * q' + m'" "i < k"
    for t m' q'
    by (rule Suc.IH [where q = q']) (use prems that in auto)
  consider "i = k" | "i < k" "m < 80" | "i < k" "m = 80" using prems(2,7) by linarith
  then show ?case
  proof cases
    case 1
    then have m: "m < 80" "\<not> (i mod 80 = 0 \<and> i \<noteq> 0)" using prems(6-8) k(2) by (cases "m = 80", auto)
    have "length b \<le> 8 * i" using 1 k(1) by simp
    moreover have "cut_off flags cr3 level b k i (read_entries m (payload_buffer s)) s OutOfBounds s"
      using m(1) 1 by (simp add: cut_off_def sends_def page_messages_small io_only_refl)
    ultimately show ?thesis
      unfolding table_rest_Suc [OF m(2)] wp_bind by (simp add: wp_load_entry_out [OF prems(1) base])
  next
    case 2
    then have go: "\<not> (i mod 80 = 0 \<and> i \<noteq> 0)" using prems(6-8) by auto
    have next_pos: "24 + 16 * m + 16 = 24 + 16 * Suc m" by simp
    show ?thesis
      unfolding table_rest_Suc [OF go] next_pos
      by (rule wp_table_entry_cut [OF base prems(1) k(1) 2(1) prems(4,5) 2(2)])
        (rule rest, use 2 prems(6) in simp_all)
  next
    case 3
    then have flush: "i mod 80 = 0 \<and> i \<noteq> 0" using prems(6) by auto
    show ?thesis
      unfolding 3(2) table_rest_flush [OF flush] wp_bind
    proof (rule wp_send_pageinfo_message [OF net prems(4) _ prems(5)])
      fix t f
      assume t: "io_only s t" "buffers_ok t" "page_header flags cr3 (payload_buffer t)" "sent t = sent s @ [f]"
        "page_message f = Some (False, flags, cr3, of_nat 80, read_entries 80 (payload_buffer s))"
      have heap: "heap t = heap s" using t(1) by (simp add: io_only_def)
      have one: "sends s t [(False, flags, cr3, 80, read_entries 80 (payload_buffer s))]" using sends_one [OF t(4,5)] by simp
      have "[i ..< k] \<noteq> []" using 3(1) by simp
      then have whole: "cut_off flags cr3 level b k i (read_entries 80 (payload_buffer s)) s e u"
        if "cut_off flags cr3 level b k i [] t e u" for e u
        using that t(1) sends_Cons [OF one] by (auto simp: cut_off_def page_messages_full intro: io_only_trans)
      have "wp (bind (load_entry base i) (\<lambda>e. bind (write_entry (24 + 16 * 0) e (of_nat i) level) (\<lambda>_.
          table_rest P base level n (Suc i) (24 + 16 * Suc 0)))) (\<lambda>_ _. False)
        (cut_off flags cr3 level b k i (read_entries 0 (payload_buffer t)) t) t"
        by (rule wp_table_entry_cut [OF base _ k(1) 3(1) t(2,3)]) (use prems(1) heap in simp, simp, rule rest [where q' = "Suc q"],
            use heap prems(6) 3 in simp_all)
      then have "wp (bind (load_entry base i) (\<lambda>e. bind (write_entry 24 e (of_nat i) level) (\<lambda>_.
          table_rest P base level n (Suc i) 40))) (\<lambda>_ _. False)
        (cut_off flags cr3 level b k i (read_entries 80 (payload_buffer s)) s) t"
        by (simp add: read_entries_def [of 0]) (erule wp_mono, auto intro: whole)
      then show "wp (if EFI_SUCCESS \<noteq> EFI_SUCCESS then pageinfo_failed P EFI_SUCCESS
          else bind (load_entry base i) (\<lambda>e. bind (write_entry 24 e (of_nat i) level) (\<lambda>_.
            table_rest P base level n (Suc i) 40))) (\<lambda>_ _. False)
        (cut_off flags cr3 level b k i (read_entries 80 (payload_buffer s)) s) t"
        by simp
    qed simp
  qed
qed

lemma wp_page_header:
  assumes ok: "buffers_ok s"
    and Q: "\<And>b. page_header flags cr3 b \<Longrightarrow> length b = RESPONSE_PAYLOAD_SIZE \<Longrightarrow>
      buffers_ok (s\<lparr>payload_buffer := b\<rparr>) \<Longrightarrow> wp m Q E (s\<lparr>payload_buffer := b\<rparr>)"
  shows "wp (bind (write_payload 0 (le_bytes 8 flags)) (\<lambda>_. bind (write_payload 8 (le_bytes 8 cr3)) (\<lambda>_. m))) Q E s"
proof -
  have lp: "length (payload_buffer s) = RESPONSE_PAYLOAD_SIZE" by (rule buffers_ok_lengths(1) [OF ok])
  let ?b = "overwrite 0 (le_bytes 8 flags @ le_bytes 8 cr3) (payload_buffer s)"
  have "page_header flags cr3 ?b" by (simp add: page_header_def overwrite_def slice_def)
  then have "wp m Q E (s\<lparr>payload_buffer := ?b\<rparr>)"
    using ok lp by (intro Q) (simp_all add: buffers_ok_def)
  then show ?thesis using lp by (simp add: wp_bind wp_write_payload buf_simps)
qed

lemma wp_send_table:
  assumes net: "network_reliable P" and ok: "buffers_ok s"
    and base: "heap s base = Some b" "base \<noteq> 0" "8 * n \<le> length b"
    and Q: "\<And>t. io_only s t \<Longrightarrow> buffers_ok t \<Longrightarrow>
      sends s t (page_messages flags cr3 (table_entries level n b)) \<Longrightarrow> Q EFI_SUCCESS t"
  shows "wp (send_table P base n level flags cr3) Q E s"
  unfolding send_table_def table_rest_def [symmetric]
proof (rule wp_page_header [OF ok])
  fix p
  assume p: "page_header flags cr3 p" "buffers_ok (s\<lparr>payload_buffer := p\<rparr>)"
  let ?s = "s\<lparr>payload_buffer := p\<rparr>"
  have "wp (table_rest P base level n 0 (24 + 16 * 0))
      (rest_sent flags cr3 level b n 0 (read_entries 0 (payload_buffer ?s)) ?s) (\<lambda>_ _. False) ?s"
    by (rule wp_table_rest [OF net base(2), where q = 0]) (use base p in simp_all)
  then show "wp (table_rest P base level n 0 24) Q E ?s"
    by (simp add: read_entries_def)
      (erule wp_mono, auto simp: rest_sent_def table_entries_def io_only_def sends_def intro!: Q)
qed

lemma wp_send_table_cut:
  assumes net: "network_reliable P" and ok: "buffers_ok s"
    and base: "heap s base = Some b" "base \<noteq> 0" "length b = 8 * k" "k mod 80 \<noteq> 0" "k < n"
  shows "wp (send_table P base n level flags cr3) (\<lambda>_ _. False) (\<lambda>e t. e = OutOfBounds \<and> io_only s t \<and>
      sends s t (butlast (page_messages flags cr3 (table_entries level k b)))) s"
  unfolding send_table_def table_rest_def [symmetric]
proof (rule wp_page_header [OF ok])
  fix p
  assume p: "page_header flags cr3 p" "buffers_ok (s\<lparr>payload_buffer := p\<rparr>)"
  let ?s = "s\<lparr>payload_buffer := p\<rparr>"
  have "wp (table_rest P base level n 0 (24 + 16 * 0)) (\<lambda>_ _. False)
      (cut_off flags cr3 level b k 0 (read_entries 0 (payload_buffer ?s)) ?s) ?s"
    by (rule wp_table_cut [OF net base(2-4), where q = 0]) (use base p in simp_all)
  then show "wp (table_rest P base level n 0 24) (\<lambda>_ _. False) (\<lambda>e t. e = OutOfBounds \<and> io_only s t \<and>
      sends s t (butlast (page_messages flags cr3 (table_entries level k b)))) ?s"
    by (simp add: read_entries_def)
      (erule wp_mono, auto simp: cut_off_def table_entries_def io_only_def sends_def)
qed

lemma wp_send_entry:
  assumes net: "network_reliable P" and ok: "buffers_ok s"
    and e: "table_entry (heap s) table i = Some e"
    and Q: "\<And>t. io_only s t \<Longrightarrow> buffers_ok t \<Longrightarrow>
      sends s t [(True, flags, cr3, 1, [(position, level, e)])] \<Longrightarrow> Q EFI_SUCCESS t"
  shows "wp (send_entry P table i position level flags cr3) Q E s"
  unfolding send_entry_def
proof (rule wp_page_header [OF ok])
  fix b
  assume b: "page_header flags cr3 b" "length b = RESPONSE_PAYLOAD_SIZE" "buffers_ok (s\<lparr>payload_buffer := b\<rparr>)"
  let ?b = "entry_written 24 e position level b"
  let ?s = "s\<lparr>payload_buffer := ?b\<rparr>"
  have one: "read_entries 1 ?b = [(position, level, e)]"
    using read_entries_written [of 0 b e position level] b(2) by (simp add: read_entries_def)
  have "wp (bind (send_pageinfo_message P (of_nat 1) True) (\<lambda>status.
      if status \<noteq> EFI_SUCCESS then pageinfo_failed P status else ret EFI_SUCCESS)) Q E ?s"
    unfolding wp_bind
  proof (rule wp_send_pageinfo_message [OF net])
    show "buffers_ok ?s" using b by (simp add: buffers_ok_def)
    show "page_header flags cr3 (payload_buffer ?s)" using b by (simp add: page_header_written)
    fix t f
    assume "io_only ?s t" "buffers_ok t" "sent t = sent ?s @ [f]"
      "page_message f = Some (True, flags, cr3, of_nat 1, read_entries 1 (payload_buffer ?s))"
    then show "wp (if EFI_SUCCESS \<noteq> EFI_SUCCESS then pageinfo_failed P EFI_SUCCESS else ret EFI_SUCCESS) Q E t"
      using one by (simp add: wp_ret) (rule Q, auto simp: io_only_def intro: sends_one)
  qed simp
  moreover have "24 + 16 \<le> length (payload_buffer (s\<lparr>payload_buffer := b\<rparr>))"
    and "table_entry (heap (s\<lparr>payload_buffer := b\<rparr>)) table i = Some e" using b(2) e by simp_all
  ultimately show "wp (bind (load_entry table i) (\<lambda>e. bind (write_entry 24 e position level) (\<lambda>_.
      bind (send_pageinfo_message P 1 True) (\<lambda>status.
      if status \<noteq> EFI_SUCCESS then pageinfo_failed P status else ret EFI_SUCCESS)))) Q E (s\<lparr>payload_buffer := b\<rparr>)"
    by (simp add: wp_load_entry wp_write_entry wp_bind [of "load_entry table i"] wp_bind [of "write_entry 24 _ _ _"])
qed

section \<open>Requests\<close>

text \<open>A request: the core, then a path of indices from the top, filled up with a selector.\<close>

definition paging_request :: "u64 \<Rightarrow> u64 list \<Rightarrow> u64 \<Rightarrow> u8 list" where
  "paging_request core path selector =
     concat (map (le_bytes 8) (core # take 4 (path @ replicate 4 selector)))"

definition in_range :: "u64 list \<Rightarrow> bool" where
  "in_range path \<longleftrightarrow> (path \<noteq> [] \<longrightarrow> hd path < 512) \<and> (\<forall>i \<in> set (tl path). i < 1024)"

text \<open>The table at the end of a path.\<close>

definition walk_table :: "heap \<Rightarrow> u64 \<Rightarrow> u64 list \<Rightarrow> u64 option" where
  "walk_table h cr3 path = (if path = [] then Some cr3 else map_option next_table (walk h cr3 path))"

lemma wp_paging_request:
  assumes "core_check core s = None" "arrays_ok s"
    and "take 4 (path @ replicate 4 selector) = [i4, i3, i2, i1]"
  shows "wp (handle_get_paging_info P (paging_request core path selector @ rest) 40) Q E s =
    wp (answer_paging_request P (cr3_value (core_contexts s ! unat core)) i4 i3 i2 i1) Q E s"
proof -
  let ?p = "paging_request core path selector @ rest"
  have p: "?p = le_bytes 8 core @ le_bytes 8 i4 @ le_bytes 8 i3 @ le_bytes 8 i2 @ le_bytes 8 i1 @ rest"
    unfolding paging_request_def assms(3) by simp
  have f: "take 8 ?p = le_bytes 8 core" "slice 8 8 ?p = le_bytes 8 i4" "slice 16 8 ?p = le_bytes 8 i3"
    "slice 24 8 ?p = le_bytes 8 i2" "slice 32 8 ?p = le_bytes 8 i1" "40 \<le> length ?p"
    unfolding p by (simp_all add: slice_def)
  show ?thesis
    using core_check_range [OF assms(1,2)] f
    by (simp add: handle_get_paging_info_def wp_bind wp_load_u64 wp_check_core_id_ok [OF assms(1,2)]
        wp_get_context u64c.dec_enc)
qed

lemma path_cases:
  assumes "length path \<le> 4"
  obtains "path = []" | a where "path = [a]" | a b where "path = [a, b]" | a b c where "path = [a, b, c]"
    | a b c d where "path = [a, b, c, d]"
  using assms by (auto simp: le_Suc_eq length_Suc_conv numeral_eq_Suc)

lemma range_tests:
  "(x :: u64) < 512 \<Longrightarrow> x \<noteq> CURRENT_TABLE \<and> x \<noteq> PREVIOUS_ENTRY \<and> \<not> 512 \<le> x"
  "(x :: u64) < 1024 \<Longrightarrow> x \<noteq> CURRENT_TABLE \<and> x \<noteq> PREVIOUS_ENTRY \<and> \<not> 1024 \<le> x"
  by auto

lemmas paging_steps = wp_bind wp_get_pdpt_at wp_get_pd_at wp_get_pt_at answer_paging_request_def
  get_pml4_def Let_def range_tests

text \<open>What answers a request is determined by the first index that is not within range.\<close>

abbreviation table_size :: "u64 list \<Rightarrow> nat" where
  "table_size path \<equiv> (if path = [] then 512 else 1024)"

abbreviation range_texts :: "string list" where
  "range_texts \<equiv> [''PML4 index %u is out of range, max 511.'', ''PDPT index %u is out of range, max 1023.'',
     ''PD index %u is out of range, max 1023.'', ''PT index %u is out of range, max 1023.'']"

lemma wp_path_ends:
  assumes core: "core_check core s = None" and ok: "arrays_ok s" and path: "length path \<le> 3" "in_range path"
    and base: "walk_table (heap s) (cr3_value (core_contexts s ! unat core)) path = Some base"
    and j: "of_nat (table_size path) \<le> j" "path \<noteq> [] \<longrightarrow> j \<noteq> PREVIOUS_ENTRY"
  shows "wp (handle_get_paging_info P (paging_request core (path @ [j]) selector @ rest) 40) Q E s =
    wp (if j = CURRENT_TABLE then send_table P base (table_size path) (of_nat (4 - length path)) 1 (cr3_value (core_contexts s ! unat core))
      else reject P (range_texts ! length path) [j] (of_nat (2 + length path)) EFI_INVALID_PARAMETER) Q E s"
proof -
  let ?cr3 = "cr3_value (core_contexts s ! unat core)"
  note start = wp_paging_request [OF core ok]
  have "length path \<le> 4" using path(1) by simp
  then show ?thesis
  proof (cases rule: path_cases)
    case 1
    moreover have "take 4 ((path @ [j]) @ replicate 4 selector) = [j, selector, selector, selector]"
      by (simp add: 1 eval_nat_numeral)
    ultimately show ?thesis
      using base j by (simp add: start paging_steps walk_table_def)
  next
    case (2 a)
    obtain e where "a < 512" "table_entry (heap s) ?cr3 (unat a) = Some e" "base = next_table e"
      using path(2) base 2 by (auto simp: in_range_def walk_table_def)
    moreover have "take 4 ((path @ [j]) @ replicate 4 selector) = [a, j, selector, selector]"
      by (simp add: 2 eval_nat_numeral)
    ultimately show ?thesis
      using j by (simp add: start paging_steps 2)
  next
    case (3 a c)
    obtain e e' where "a < 512" "c < 1024" "table_entry (heap s) ?cr3 (unat a) = Some e"
      "table_entry (heap s) (next_table e) (unat c) = Some e'" "base = next_table e'"
      using path(2) base 3 by (auto simp: in_range_def walk_table_def split: option.splits)
    moreover have "take 4 ((path @ [j]) @ replicate 4 selector) = [a, c, j, selector]"
      by (simp add: 3 eval_nat_numeral)
    ultimately show ?thesis
      using j by (simp add: start paging_steps 3)
  next
    case (4 a c d)
    obtain e e' e'' where "a < 512" "c < 1024" "d < 1024" "table_entry (heap s) ?cr3 (unat a) = Some e"
      "table_entry (heap s) (next_table e) (unat c) = Some e'"
      "table_entry (heap s) (next_table e') (unat d) = Some e''" "base = next_table e''"
      using path(2) base 4 by (auto simp: in_range_def walk_table_def split: option.splits)
    moreover have "take 4 ((path @ [j]) @ replicate 4 selector) = [a, c, d, j]"
      by (simp add: 4 eval_nat_numeral)
    ultimately show ?thesis
      using j by (simp add: start paging_steps 4)
  qed (use path(1) in simp)
qed

lemma paging_request_filled:
  "length path \<le> 3 \<Longrightarrow> paging_request core (path @ [selector]) selector = paging_request core path selector"
  by (simp add: paging_request_def replicate_append_same [symmetric] flip: replicate_Suc)

lemma wp_path_entry:
  assumes core: "core_check core s = None" and ok: "arrays_ok s" and path: "length path \<le> 4" "in_range path"
    and e: "walk (heap s) (cr3_value (core_contexts s ! unat core)) path = Some e"
  obtains table where "table_entry (heap s) table (unat (last path)) = Some e"
    "\<And>Q E. wp (handle_get_paging_info P (paging_request core path PREVIOUS_ENTRY @ rest) 40) Q E s =
      wp (send_entry P table (unat (last path)) (ucast (last path)) (of_nat (5 - length path)) 1
        (cr3_value (core_contexts s ! unat core))) Q E s"
proof -
  let ?cr3 = "cr3_value (core_contexts s ! unat core)"
  note start = wp_paging_request [OF core ok]
  show thesis
  proof (cases rule: path_cases [OF path(1)])
    case 1
    then show ?thesis using e by simp
  next
    case (2 a)
    have "a < 512" "table_entry (heap s) ?cr3 (unat a) = Some e" using path(2) e 2 by (simp_all add: in_range_def)
    moreover have "take 4 (path @ replicate 4 PREVIOUS_ENTRY) = [a, PREVIOUS_ENTRY, PREVIOUS_ENTRY, PREVIOUS_ENTRY]"
      by (simp add: 2 eval_nat_numeral)
    ultimately show thesis using that [of ?cr3] by (simp add: start paging_steps 2)
  next
    case (3 a b)
    obtain e4 where "a < 512" "b < 1024" "table_entry (heap s) ?cr3 (unat a) = Some e4"
      "table_entry (heap s) (next_table e4) (unat b) = Some e"
      using path(2) e 3 by (auto simp: in_range_def split: option.splits)
    moreover have "take 4 (path @ replicate 4 PREVIOUS_ENTRY) = [a, b, PREVIOUS_ENTRY, PREVIOUS_ENTRY]"
      by (simp add: 3 eval_nat_numeral)
    ultimately show thesis using that [of "next_table e4"] by (simp add: start paging_steps 3)
  next
    case (4 a b c)
    obtain e4 e3 where "a < 512" "b < 1024" "c < 1024" "table_entry (heap s) ?cr3 (unat a) = Some e4"
      "table_entry (heap s) (next_table e4) (unat b) = Some e3"
      "table_entry (heap s) (next_table e3) (unat c) = Some e"
      using path(2) e 4 by (auto simp: in_range_def split: option.splits)
    moreover have "take 4 (path @ replicate 4 PREVIOUS_ENTRY) = [a, b, c, PREVIOUS_ENTRY]"
      by (simp add: 4 eval_nat_numeral)
    ultimately show thesis using that [of "next_table e3"] by (simp add: start paging_steps 4)
  next
    case (5 a b c d)
    obtain e4 e3 e2 where "a < 512" "b < 1024" "c < 1024" "d < 1024"
      "table_entry (heap s) ?cr3 (unat a) = Some e4" "table_entry (heap s) (next_table e4) (unat b) = Some e3"
      "table_entry (heap s) (next_table e3) (unat c) = Some e2" "table_entry (heap s) (next_table e2) (unat d) = Some e"
      using path(2) e 5 by (auto simp: in_range_def split: option.splits)
    moreover have "take 4 (path @ replicate 4 PREVIOUS_ENTRY) = [a, b, c, d]"
      by (simp add: 5 eval_nat_numeral)
    ultimately show thesis using that [of "next_table e2"] by (simp add: start paging_steps 5)
  qed
qed

lemma length_table_entries [simp]: "length (table_entries level n b) = n"
  by (simp add: table_entries_def)

text \<open>What is sent of a table of 512 entries before its last message.\<close>

lemma six_messages:
  assumes "length es = 512"
  shows "butlast (page_messages flags cr3 es) = map (\<lambda>q. (False, flags, cr3, 80, slice (80 * q) 80 es)) [0 ..< 6]"
proof -
  have step: "groups 80 (drop n es) = (False, slice n 80 es) # groups 80 (drop (n + 80) es)" if "n < 432" for n
    using that assms by (subst groups.simps) (simp add: slice_def add.commute)
  have final: "groups 80 (drop 480 es) = [(True, drop 480 es)]"
    using assms by (subst groups.simps) simp
  have "groups 80 es = groups 80 (drop 0 es)" by simp
  also have "\<dots> = map (\<lambda>q. (False, slice (80 * q) 80 es)) [0 ..< 6] @ [(True, drop 480 es)]"
    using step [of 0] step [of 80] step [of 160] step [of 240] step [of 320] step [of 400] final
    by (simp add: upt_rec)
  finally show ?thesis
    using assms by (simp add: page_messages_def butlast_append upt_rec length_slice)
qed

text \<open>
  C20. A request for the entry at the end of a path of one to four indices within range is answered
  with exactly one message, which carries the index, the level and the value that the walk of the
  core's tables finds there; no program data changes.
\<close>

theorem paging_entry_sent:
  assumes net: "network_reliable P" and ok: "buffers_ok s" "arrays_ok s" and core: "core_check core s = None"
    and path: "length path \<le> 4" "in_range path"
    and e: "walk (heap s) (cr3_value (core_contexts s ! unat core)) path = Some e"
  shows "\<exists>t. handle_get_paging_info P (paging_request core path PREVIOUS_ENTRY @ rest) 40 s = Done EFI_SUCCESS t \<and>
    sends s t [(True, 1, cr3_value (core_contexts s ! unat core), 1,
      [(ucast (last path), of_nat (5 - length path), e)])] \<and> io_only s t \<and> buffers_ok t"
proof -
  obtain table where table: "table_entry (heap s) table (unat (last path)) = Some e"
    and eq: "wp (handle_get_paging_info P (paging_request core path PREVIOUS_ENTRY @ rest) 40) Q E s =
      wp (send_entry P table (unat (last path)) (ucast (last path)) (of_nat (5 - length path)) 1
        (cr3_value (core_contexts s ! unat core))) Q E s" for Q E
    using wp_path_entry [OF core ok(2) path e, of P rest] by blast
  have "wp (handle_get_paging_info P (paging_request core path PREVIOUS_ENTRY @ rest) 40)
      (\<lambda>st t. st = EFI_SUCCESS \<and> sends s t [(True, 1, cr3_value (core_contexts s ! unat core), 1,
        [(ucast (last path), of_nat (5 - length path), e)])] \<and> io_only s t \<and> buffers_ok t) (\<lambda>_ _. False) s"
    unfolding eq by (rule wp_send_entry [OF net ok(1) table]) simp
  then show ?thesis by (auto dest: wp_total_returns)
qed

text \<open>
  C21. A request for the table at the end of a path of at most three indices. The routine sends 512 entries of the
  top table, but 1024 of every other one. When so many can be read at the table's address, the answer is all of them, in order,
  each with its index and level, in messages of at most 80 entries of which the last is marked; no program data changes. When the
  table is below the top and only the 512 entries that the architecture gives it can be read, the first 480 are sent in six
  messages of which none is marked, and then the routine reads out of bounds.
\<close>

theorem paging_table_sent:
  assumes net: "network_reliable P" and ok: "buffers_ok s" "arrays_ok s" and core: "core_check core s = None"
    and path: "length path \<le> 3" "in_range path"
    and base: "walk_table (heap s) (cr3_value (core_contexts s ! unat core)) path = Some base"
    and b: "heap s base = Some b" "base \<noteq> 0"
  shows "(8 * (if path = [] then 512 else 1024) \<le> length b \<longrightarrow>
      (\<exists>t. handle_get_paging_info P (paging_request core path CURRENT_TABLE @ rest) 40 s = Done EFI_SUCCESS t \<and>
        sends s t (page_messages 1 (cr3_value (core_contexts s ! unat core))
          (table_entries (of_nat (4 - length path)) (if path = [] then 512 else 1024) b)) \<and> io_only s t \<and> buffers_ok t)) \<and>
    (path \<noteq> [] \<and> length b = 4096 \<longrightarrow>
      (\<exists>t. handle_get_paging_info P (paging_request core path CURRENT_TABLE @ rest) 40 s = Stop OutOfBounds t \<and>
        sends s t (map (\<lambda>q. (False, 1, cr3_value (core_contexts s ! unat core), 80,
          slice (80 * q) 80 (table_entries (of_nat (4 - length path)) 512 b))) [0 ..< 6]) \<and> io_only s t))"
proof (intro conjI impI)
  let ?cr3 = "cr3_value (core_contexts s ! unat core)" and ?level = "of_nat (4 - length path) :: u8"
  have "of_nat (table_size path) \<le> CURRENT_TABLE" by (cases "path = []") simp_all
  from wp_path_ends [OF core ok(2) path base this, of P CURRENT_TABLE rest]
  have eq: "wp (handle_get_paging_info P (paging_request core path CURRENT_TABLE @ rest) 40) Q E s =
      wp (send_table P base (table_size path) ?level 1 ?cr3) Q E s" for Q E
    by (simp add: paging_request_filled [OF path(1)])
  {
    assume "8 * table_size path \<le> length b"
    then have "wp (handle_get_paging_info P (paging_request core path CURRENT_TABLE @ rest) 40)
        (\<lambda>st t. st = EFI_SUCCESS \<and> sends s t (page_messages 1 ?cr3 (table_entries ?level (table_size path) b)) \<and>
          io_only s t \<and> buffers_ok t) (\<lambda>_ _. False) s"
      unfolding eq by (intro wp_send_table [OF net ok(1)], use b in auto)
    then show "\<exists>t. handle_get_paging_info P (paging_request core path CURRENT_TABLE @ rest) 40 s = Done EFI_SUCCESS t \<and>
        sends s t (page_messages 1 ?cr3 (table_entries ?level (table_size path) b)) \<and> io_only s t \<and> buffers_ok t"
      by (auto dest: wp_total_returns)
  next
    assume short: "path \<noteq> [] \<and> length b = 4096"
    then have "wp (handle_get_paging_info P (paging_request core path CURRENT_TABLE @ rest) 40) (\<lambda>_ _. False)
        (\<lambda>e t. e = OutOfBounds \<and> io_only s t \<and> sends s t (butlast (page_messages 1 ?cr3 (table_entries ?level 512 b)))) s"
      unfolding eq by (intro wp_send_table_cut [OF net ok(1) b, of 512]) simp_all
    then show "\<exists>t. handle_get_paging_info P (paging_request core path CURRENT_TABLE @ rest) 40 s = Stop OutOfBounds t \<and>
        sends s t (map (\<lambda>q. (False, 1, ?cr3, 80, slice (80 * q) 80 (table_entries ?level 512 b))) [0 ..< 6]) \<and> io_only s t"
      unfolding six_messages [OF length_table_entries] by (auto dest: wp_total_stops)
  }
qed

text \<open>
  C22. An index behind a path of \<open>k\<close> valid ones that is too large for its level, and not one of the
  selectors that are allowed there, is refused with the status code \<open>2 + k\<close>; nothing else is sent.
\<close>

theorem paging_index_refused:
  assumes net: "network_reliable P" and ok: "buffers_ok s" "arrays_ok s" and core: "core_check core s = None"
    and path: "length path \<le> 3" "in_range path"
    and base: "walk_table (heap s) (cr3_value (core_contexts s ! unat core)) path \<noteq> None"
    and j: "(if path = [] then 512 else 1024) \<le> j" "j \<noteq> CURRENT_TABLE" "path \<noteq> [] \<longrightarrow> j \<noteq> PREVIOUS_ENTRY"
  shows "\<exists>t. handle_get_paging_info P (paging_request core (path @ [j]) selector @ rest) 40 s =
      Done EFI_INVALID_PARAMETER t \<and>
    (\<exists>msg. sent t = sent s @ [status_frame (of_nat (2 + length path)) (Some msg)]) \<and> io_only s t \<and> buffers_ok t"
proof -
  obtain b where b: "walk_table (heap s) (cr3_value (core_contexts s ! unat core)) path = Some b" using base by blast
  have "of_nat (table_size path) \<le> j" using j(1) by (cases "path = []") simp_all
  from wp_path_ends [OF core ok(2) path b this j(3), of P selector rest]
  have eq: "wp (handle_get_paging_info P (paging_request core (path @ [j]) selector @ rest) 40) Q E s =
      wp (reject P (range_texts ! length path) [j] (of_nat (2 + length path)) EFI_INVALID_PARAMETER) Q E s" for Q E
    using j(2) by simp
  have "wp (handle_get_paging_info P (paging_request core (path @ [j]) selector @ rest) 40)
      (\<lambda>st t. st = EFI_INVALID_PARAMETER \<and>
        (\<exists>msg. sent t = sent s @ [status_frame (of_nat (2 + length path)) (Some msg)]) \<and> io_only s t \<and> buffers_ok t)
      (\<lambda>_ _. False) s"
    unfolding eq by (rule wp_reject [OF net ok(1)]) auto
  from wp_total_returns [OF this] show ?thesis by blast
qed

section \<open>The reduced tables\<close>

lemma CopyPages_done:
  assumes "heap s source = Some bs" "source \<noteq> 0" "n \<le> length bs"
    and "heap s target = Some bt" "target \<noteq> 0" "length bt = n"
  shows "CopyPages target source n s = Done () (s\<lparr>heap := (heap s)(target \<mapsto> take n bs)\<rparr>)"
  using assms by (simp add: CopyPages_def run_simps overwrite_def)

lemma wp_AllocatePages:
  assumes doc: "alloc_pages_documented P"
    and none: "\<And>w. fst (alloc_pages_fw P n (heap s) (world s)) = 0 \<Longrightarrow> Q 0 (s\<lparr>world := w\<rparr>)"
    and some: "\<And>a c w. a \<noteq> 0 \<Longrightarrow> heap s a = None \<Longrightarrow> length c = n * 4096 \<Longrightarrow> take_bit 12 a = 0 \<Longrightarrow>
      take_bit 52 a = a \<Longrightarrow> Q a (s\<lparr>world := w, heap := (heap s)(a \<mapsto> c)\<rparr>)"
  shows "wp (AllocatePages P n) Q E s"
proof -
  obtain a c w where alloc: "alloc_pages_fw P n (heap s) (world s) = (a, c, w)"
    by (cases "alloc_pages_fw P n (heap s) (world s)")
  show ?thesis
  proof (cases "a = 0")
    case True
    then show ?thesis using none [of w] by (simp add: wp_def AllocatePages_def alloc)
  next
    case False
    then show ?thesis
      using some [of a c w] doc alloc unfolding alloc_pages_documented_def
      by (auto simp: wp_def AllocatePages_def)
  qed
qed

lemma update_loop:
  assumes step: "\<And>i s b. i < hi \<Longrightarrow> heap s a = Some b \<Longrightarrow> 8 * i + 8 \<le> length b \<Longrightarrow>
      body i s = Done () (s\<lparr>heap := (heap s)(a \<mapsto> overwrite (8 * i) (le_bytes 8 (f (entry_at b i))) b)\<rparr>)"
    and "heap s a = Some b" "8 * hi \<le> length b" "lo \<le> hi"
  shows "\<exists>b'. for_each [lo ..< hi] body s = Done () (s\<lparr>heap := (heap s)(a \<mapsto> b')\<rparr>) \<and> length b' = length b \<and>
    (\<forall>j. entry_at b' j = (if lo \<le> j \<and> j < hi then f (entry_at b j) else entry_at b j))"
  using assms(3,4) step
proof (induction hi)
  case 0
  then show ?case using assms(2) by (intro exI [of _ b]) (simp add: run_simps fun_upd_idem)
next
  case (Suc n)
  show ?case
  proof (cases "lo = Suc n")
    case True
    then show ?thesis using assms(2) by (intro exI [of _ b]) (auto simp: run_simps fun_upd_idem)
  next
    case False
    then have "lo \<le> n" using Suc.prems(2) by simp
    moreover have "8 * n \<le> length b" using Suc.prems(1) by simp
    ultimately obtain b' where IH: "for_each [lo ..< n] body s = Done () (s\<lparr>heap := (heap s)(a \<mapsto> b')\<rparr>)"
      "length b' = length b"
      "\<forall>j. entry_at b' j = (if lo \<le> j \<and> j < n then f (entry_at b j) else entry_at b j)"
      using Suc.IH Suc.prems(3) by (metis less_SucI)
    let ?t = "s\<lparr>heap := (heap s)(a \<mapsto> b')\<rparr>"
    have fits: "8 * n + 8 \<le> length b'" using Suc.prems(1) IH(2) by simp
    have "body n ?t = Done () (?t\<lparr>heap := (heap ?t)(a \<mapsto> overwrite (8 * n) (le_bytes 8 (f (entry_at b' n))) b')\<rparr>)"
      by (rule Suc.prems(3)) (use fits in simp_all)
    then have "for_each [lo ..< Suc n] body s = Done ()
        (s\<lparr>heap := (heap s)(a \<mapsto> overwrite (8 * n) (le_bytes 8 (f (entry_at b' n))) b')\<rparr>)"
      using IH(1) \<open>lo \<le> n\<close> by (simp add: for_each_append bind_run ret_run)
    moreover have "\<forall>j. entry_at (overwrite (8 * n) (le_bytes 8 (f (entry_at b' n))) b') j =
        (if lo \<le> j \<and> j < Suc n then f (entry_at b j) else entry_at b j)"
      using IH(3) fits \<open>lo \<le> n\<close> by (auto simp: entry_at_overwrite less_Suc_eq)
    moreover have "length (overwrite (8 * n) (le_bytes 8 (f (entry_at b' n))) b') = length b"
      using IH(2) fits by simp
    ultimately show ?thesis by blast
  qed
qed

lemma walk_mono:
  assumes keep: "\<And>a. h a \<noteq> None \<Longrightarrow> h' a = h a"
  shows "walk h a path = Some e \<Longrightarrow> walk h' a path = Some e"
proof -
  have entry: "table_entry h' a i = Some e" if "table_entry h a i = Some e" for a i e
    using table_entry_SomeD [OF that] keep [of a] by (auto simp: table_entry_def)
  show "walk h a path = Some e \<Longrightarrow> walk h' a path = Some e"
    by (induction path arbitrary: a rule: induct_list012) (auto simp: entry split: option.splits)
qed

lemma next_table_set_addr:
  assumes "take_bit 12 a = 0" "take_bit 52 a = a"
  shows "next_table (set_entry_addr (get_short_address a) e) = a"
proof (rule bit_word_eqI)
  fix n assume n: "n < LENGTH(64)"
  have "bit a n \<Longrightarrow> 12 \<le> n" and "bit a n \<Longrightarrow> n < 52"
    by (metis assms(1) bit_0_eq bit_take_bit_iff bot_apply bot_bool_def leI)
      (metis assms(2) bit_take_bit_iff)
  then show "bit (next_table (set_entry_addr (get_short_address a) e)) n = bit a n"
    using n by (auto simp: next_table_def set_entry_addr_def get_short_address_def bit_simps)
qed

lemma bit_cleared: "\<not> bit (clear_present e) 0" "\<not> bit (clear_ps (clear_present e)) 0" "\<not> bit (clear_ps e) 7"
  by (simp_all add: clear_present_def clear_ps_def bit_set_field)

lemma wp_CopyPages:
  assumes "heap s source = Some bs" "source \<noteq> 0" "n \<le> length bs"
    and "heap s target = Some bt" "target \<noteq> 0" "length bt = n"
  shows "wp (CopyPages target source n) Q E s = Q () (s\<lparr>heap := (heap s)(target \<mapsto> take n bs)\<rparr>)"
  by (simp add: wp_def CopyPages_done [OF assms])

lemma wp_CopyPages_null:
  assumes "heap s source = Some bs" "source \<noteq> 0" "n \<le> length bs"
  shows "wp (CopyPages 0 source n) Q E s = E NullDeref s"
  using assms by (simp add: CopyPages_def wp_simps)

lemma entry_at_take: "8 * i + 8 \<le> n \<Longrightarrow> entry_at (take n b) i = entry_at b i"
  by (simp add: entry_at_def slice_take)

text \<open>The three changes that are made to the copies, from any state in which they exist.\<close>

lemma unmap_pdpt:
  assumes "heap s a = Some b" "a \<noteq> 0" "length b = 8192"
  obtains b' where "for_each [4 ..< 1024] (\<lambda>i. bind (update_entry a i clear_present)
      (\<lambda>_. update_entry a i clear_ps)) s = Done () (s\<lparr>heap := (heap s)(a \<mapsto> b')\<rparr>)"
    "length b' = 8192"
    "\<And>j. entry_at b' j = (if 4 \<le> j \<and> j < 1024 then clear_ps (clear_present (entry_at b j)) else entry_at b j)"
proof -
  have "\<exists>b'. for_each [4 ..< 1024] (\<lambda>i. bind (update_entry a i clear_present)
      (\<lambda>_. update_entry a i clear_ps)) s = Done () (s\<lparr>heap := (heap s)(a \<mapsto> b')\<rparr>) \<and> length b' = length b \<and>
    (\<forall>j. entry_at b' j = (if 4 \<le> j \<and> j < 1024 then clear_ps (clear_present (entry_at b j)) else entry_at b j))"
  proof (rule update_loop [OF _ assms(1)])
    fix i and s :: "'a state" and b
    assume b: "heap s a = Some b" "8 * i + 8 \<le> length b"
    let ?b = "overwrite (8 * i) (le_bytes 8 (clear_present (entry_at b i))) b"
    have "update_entry a i clear_ps (s\<lparr>heap := (heap s)(a \<mapsto> ?b)\<rparr>) = Done () (s\<lparr>heap := (heap s)(a \<mapsto>
        overwrite (8 * i) (le_bytes 8 (clear_ps (clear_present (entry_at b i)))) b)\<rparr>)"
      using update_entry_done [of "s\<lparr>heap := (heap s)(a \<mapsto> ?b)\<rparr>" a ?b i clear_ps] b assms(2)
      by (simp add: entry_at_overwrite overwrite_again)
    then show "bind (update_entry a i clear_present) (\<lambda>_. update_entry a i clear_ps) s =
        Done () (s\<lparr>heap := (heap s)(a \<mapsto> overwrite (8 * i) (le_bytes 8 (clear_ps (clear_present (entry_at b i)))) b)\<rparr>)"
      using update_entry_done [OF b(1) assms(2) b(2)] by (simp add: bind_run)
  qed (use assms in simp_all)
  then show thesis using that assms(3) by auto
qed

lemma unmap_pml4:
  assumes "heap s a = Some b" "a \<noteq> 0" "length b = 4096"
  obtains b' where "for_each [1 ..< 512] (\<lambda>i. update_entry a i clear_present) s =
      Done () (s\<lparr>heap := (heap s)(a \<mapsto> b')\<rparr>)"
    "length b' = 4096" "\<And>j. entry_at b' j = (if 1 \<le> j \<and> j < 512 then clear_present (entry_at b j) else entry_at b j)"
proof -
  have "\<exists>b'. for_each [1 ..< 512] (\<lambda>i. update_entry a i clear_present) s =
      Done () (s\<lparr>heap := (heap s)(a \<mapsto> b')\<rparr>) \<and> length b' = length b \<and>
    (\<forall>j. entry_at b' j = (if 1 \<le> j \<and> j < 512 then clear_present (entry_at b j) else entry_at b j))"
    by (rule update_loop [OF _ assms(1)]) (use assms in \<open>auto simp: update_entry_done\<close>)
  then show thesis using that assms(3) by auto
qed

text \<open>Memory has only been added, and nothing but memory and the world has changed.\<close>

definition extends :: "'w state \<Rightarrow> 'w state \<Rightarrow> bool" where
  "extends s t \<longleftrightarrow> t = s\<lparr>heap := heap t, world := world t\<rparr> \<and> (\<forall>a. heap s a \<noteq> None \<longrightarrow> heap t a = heap s a)"

lemma extends_refl: "extends s s"
  by (simp add: extends_def)

lemma extends_heap: "extends s u \<Longrightarrow> heap s a = None \<Longrightarrow> extends s (u\<lparr>heap := (heap u)(a \<mapsto> b)\<rparr>)"
  by (cases s, cases u) (auto simp: extends_def)

lemma extends_world: "extends s u \<Longrightarrow> extends s (u\<lparr>world := w\<rparr>)"
  by (cases s, cases u) (auto simp: extends_def)

lemma extends_block: "extends s u \<Longrightarrow> heap s a = Some b \<Longrightarrow> heap u a = Some b"
  by (simp add: extends_def)

lemma extends_entry: "extends s u \<Longrightarrow> table_entry (heap s) a i = Some e \<Longrightarrow> table_entry (heap u) a i = Some e"
  by (auto simp: extends_def table_entry_def split: option.splits)

lemma wp_new_copy:
  assumes doc: "alloc_pages_documented P" and ext: "extends s u"
    and src: "heap s source = Some bs" "source \<noteq> 0" "n * 4096 \<le> length bs" and m: "m = n * 4096"
    and none: "\<And>t. fst (alloc_pages_fw P n (heap u) (world u)) = 0 \<Longrightarrow> E NullDeref t"
    and some: "\<And>a t. a \<noteq> 0 \<Longrightarrow> heap s a = None \<Longrightarrow> heap u a = None \<Longrightarrow> take_bit 12 a = 0 \<Longrightarrow> take_bit 52 a = a \<Longrightarrow>
      extends s t \<Longrightarrow> heap t = (heap u)(a \<mapsto> take m bs) \<Longrightarrow> R a t"
  shows "wp (AllocatePages P n) (\<lambda>a. wp (CopyPages a source m) (\<lambda>_. R a) E) E u"
proof (rule wp_AllocatePages [OF doc])
  fix w assume "fst (alloc_pages_fw P n (heap u) (world u)) = 0"
  then show "wp (CopyPages 0 source m) (\<lambda>_. R 0) E (u\<lparr>world := w\<rparr>)"
    using none extends_block [OF ext src(1)] src m by (subst wp_CopyPages_null) auto
next
  fix a w and c :: "u8 list"
  assume a: "a \<noteq> 0" "heap u a = None" "length c = n * 4096" "take_bit 12 a = 0" "take_bit 52 a = a"
  have src': "heap u source = Some bs" by (rule extends_block [OF ext src(1)])
  then have ne: "source \<noteq> a" using a(2) by auto
  have new: "heap s a = None" using ext a(2) by (auto simp: extends_def)
  let ?t = "u\<lparr>world := w, heap := (heap u)(a \<mapsto> take m bs)\<rparr>"
  have "extends s (u\<lparr>world := w\<rparr>)" by (rule extends_world [OF ext])
  from extends_heap [OF this new] have "extends s ?t" by simp
  then have "R a ?t" using a new by (intro some) auto
  then show "wp (CopyPages a source m) (\<lambda>_. R a) E (u\<lparr>world := w, heap := (heap u)(a \<mapsto> c)\<rparr>)"
    using src' src a ne m by (subst wp_CopyPages) (auto simp: m)
qed

lemma minimal_tables_walks:
  assumes ext: "extends s t"
    and b4: "heap s cr3 = Some b4" "cr3 \<noteq> 0" "4096 \<le> length b4"
    and b3: "heap s (next_table (entry_at b4 0)) = Some b3"
    and c4: "heap t a4 = Some c4" "a4 \<noteq> 0" "length c4 = 4096" "next_table (entry_at c4 0) = a3"
      "\<And>j. 1 \<le> j \<Longrightarrow> j < 512 \<Longrightarrow> \<not> bit (entry_at c4 j) 0"
    and c3: "heap t a3 = Some c3" "a3 \<noteq> 0" "length c3 = 8192" "\<And>j. j < 4 \<Longrightarrow> entry_at c3 j = entry_at b3 j"
      "\<And>j. 4 \<le> j \<Longrightarrow> j < 1024 \<Longrightarrow> \<not> bit (entry_at c3 j) 0"
  shows "i < 4 \<Longrightarrow> walk (heap s) cr3 (0 # i # path) = Some e \<Longrightarrow> walk (heap t) a4 (0 # i # path) = Some e"
    and "4 \<le> i \<Longrightarrow> i < 1024 \<Longrightarrow> \<exists>e. walk (heap t) a4 [0, i] = Some e \<and> \<not> bit e 0"
    and "1 \<le> i \<Longrightarrow> i < 512 \<Longrightarrow> \<exists>e. walk (heap t) a4 [i] = Some e \<and> \<not> bit e 0"
proof -
  have t4: "table_entry (heap t) a4 j = Some (entry_at c4 j)" if "j < 512" for j
    using c4 that by (intro table_entry_block) auto
  have t3: "table_entry (heap t) a3 j = Some (entry_at c3 j)" if "j < 1024" for j
    using c3 that by (intro table_entry_block) auto
  have s4: "table_entry (heap s) cr3 0 = Some (entry_at b4 0)" using b4 by (intro table_entry_block) auto
  show "walk (heap t) a4 (0 # i # path) = Some e" if "i < 4" and w: "walk (heap s) cr3 (0 # i # path) = Some e"
  proof -
    have ui: "unat i < 4" using \<open>i < 4\<close> by (simp add: word_less_nat_alt)
    have e3: "table_entry (heap t) a3 (unat i) = Some (entry_at b3 (unat i))"
      using t3 [of "unat i"] c3(4) ui by simp
    have w3: "walk (heap s) (next_table (entry_at b4 0)) (i # path) = Some e" using w s4 by simp
    show ?thesis
    proof (cases path)
      case Nil
      then show ?thesis using w3 e3 t4 [of 0] c4(4) b3 by (auto dest!: table_entry_SomeD)
    next
      case (Cons j ps)
      then obtain e' where "table_entry (heap s) (next_table (entry_at b4 0)) (unat i) = Some e'"
        and deep: "walk (heap s) (next_table e') (j # ps) = Some e"
        using w3 by (auto split: option.splits)
      then have "e' = entry_at b3 (unat i)" using b3 by (auto dest!: table_entry_SomeD)
      moreover have "walk (heap t) (next_table e') (j # ps) = Some e"
        by (rule walk_mono [OF _ deep]) (use ext in \<open>simp add: extends_def\<close>)
      ultimately show ?thesis using e3 t4 [of 0] c4(4) Cons by simp
    qed
  qed
  show "\<exists>e. walk (heap t) a4 [0, i] = Some e \<and> \<not> bit e 0" if "4 \<le> i" "i < 1024"
    using t4 [of 0] t3 [of "unat i"] c3(5) [of "unat i"] c4(4) that by (simp add: word_less_nat_alt word_le_nat_alt)
  show "\<exists>e. walk (heap t) a4 [i] = Some e \<and> \<not> bit e 0" if "1 \<le> i" "i < 512"
    using t4 [of "unat i"] c4(5) [of "unat i"] that by (simp add: word_less_nat_alt word_le_nat_alt)
qed

text \<open>
  What the new tables at \<open>new\<close> are to the given ones: the walks below 4 GiB (the first four entries of the first PDPT) are
  kept, and nothing else is present.
\<close>

definition reduced :: "'w state \<Rightarrow> u64 \<Rightarrow> u64 \<Rightarrow> 'w state \<Rightarrow> bool" where
  "reduced s cr3 new t \<longleftrightarrow> extends s t \<and> heap s new = None \<and>
     (\<forall>i path e. i < 4 \<longrightarrow> walk (heap s) cr3 (0 # i # path) = Some e \<longrightarrow> walk (heap t) new (0 # i # path) = Some e) \<and>
     (\<forall>i. 4 \<le> i \<longrightarrow> i < 1024 \<longrightarrow> (\<exists>e. walk (heap t) new [0, i] = Some e \<and> \<not> bit e 0)) \<and>
     (\<forall>i. 1 \<le> i \<longrightarrow> i < 512 \<longrightarrow> (\<exists>e. walk (heap t) new [i] = Some e \<and> \<not> bit e 0))"

text \<open>The last part of the routine, on the copies of both tables.\<close>

lemma wp_reduce_copies:
  assumes b4: "heap s cr3 = Some b4" "cr3 \<noteq> 0" "4096 \<le> length b4"
    and b3: "heap s (next_table (entry_at b4 0)) = Some b3" "8192 \<le> length b3"
    and u: "extends s u" "heap u a3 = Some (take (1024 * 8) b3)" "heap u a4 = Some (take (512 * 8) b4)"
    and a4: "a4 \<noteq> 0" "heap s a4 = None"
    and a3: "a3 \<noteq> 0" "heap s a3 = None" "take_bit 12 a3 = 0" "take_bit 52 a3 = a3" "a3 \<noteq> a4"
  shows "wp (bind (for_each [4 ..< 1024] (\<lambda>i. bind (update_entry a3 i clear_present) (\<lambda>_. update_entry a3 i clear_ps))) (\<lambda>_.
    bind (update_entry a4 0 (set_entry_addr (get_short_address a3))) (\<lambda>_.
    bind (for_each [1 ..< 512] (\<lambda>i. update_entry a4 i clear_present)) (\<lambda>_. ret a4)))) (reduced s cr3) E u"
proof -
  obtain c3 where c3: "for_each [4 ..< 1024] (\<lambda>i. bind (update_entry a3 i clear_present)
        (\<lambda>_. update_entry a3 i clear_ps)) u = Done () (u\<lparr>heap := (heap u)(a3 \<mapsto> c3)\<rparr>)" "length c3 = 8192"
      "\<And>j. entry_at c3 j = (if 4 \<le> j \<and> j < 1024
         then clear_ps (clear_present (entry_at (take (1024 * 8) b3) j)) else entry_at (take (1024 * 8) b3) j)"
    using unmap_pdpt [OF u(2) a3(1)] b3(2) by auto
  let ?s4 = "u\<lparr>heap := (heap u)(a3 \<mapsto> c3)\<rparr>"
  let ?b4 = "overwrite (8 * 0) (le_bytes 8 (set_entry_addr (get_short_address a3) (entry_at (take (512 * 8) b4) 0)))
    (take (512 * 8) b4)"
  let ?s5 = "?s4\<lparr>heap := (heap ?s4)(a4 \<mapsto> ?b4)\<rparr>"
  have up: "update_entry a4 0 (set_entry_addr (get_short_address a3)) ?s4 = Done () ?s5"
    by (rule update_entry_done) (use u(3) a3(5) a4 b4(3) in auto)
  obtain c4 where c4: "for_each [1 ..< 512] (\<lambda>i. update_entry a4 i clear_present) ?s5 =
        Done () (?s5\<lparr>heap := (heap ?s5)(a4 \<mapsto> c4)\<rparr>)" "length c4 = 4096"
      "\<And>j. entry_at c4 j = (if 1 \<le> j \<and> j < 512 then clear_present (entry_at ?b4 j) else entry_at ?b4 j)"
    by (rule unmap_pml4 [of ?s5 a4 ?b4]) (use a4 b4(3) in auto)
  let ?t = "?s5\<lparr>heap := (heap ?s5)(a4 \<mapsto> c4)\<rparr>"
  have e0: "entry_at ?b4 j = (if j = 0 then set_entry_addr (get_short_address a3) (entry_at (take (512 * 8) b4) 0)
      else entry_at (take (512 * 8) b4) j)" for j
    by (rule entry_at_overwrite) (use b4(3) in simp)
  have "next_table (entry_at c4 0) = a3" using c4(3) [of 0] by (simp only: e0) (simp add: next_table_set_addr a3)
  moreover have "\<not> bit (entry_at c4 j) 0" if "1 \<le> j" "j < 512" for j
    using c4(3) [of j] that by (simp add: bit_cleared)
  moreover have "entry_at c3 j = entry_at b3 j" if "j < 4" for j
    using c3(3) [of j] that by (simp add: entry_at_take)
  moreover have "\<not> bit (entry_at c3 j) 0" if "4 \<le> j" "j < 1024" for j
    using c3(3) [of j] that by (simp add: bit_cleared)
  moreover have ext: "extends s ?t" using u(1) a3(2) a4(2) by (intro extends_heap)
  moreover have "heap ?t a4 = Some c4" "heap ?t a3 = Some c3" using a3(5) by simp_all
  ultimately have red: "reduced s cr3 a4 ?t"
    using minimal_tables_walks [OF ext b4 b3(1), of a4 c4 a3 c3] a4 a3(1) c3(2) c4(2) by (auto simp: reduced_def)
  show ?thesis
    unfolding wp_bind wp_ret
    by (rule wp_step, rule c3(1), rule wp_step, rule up, rule wp_step, rule c4(1), rule red)
qed

lemma wp_alloc_copy:
  "wp (bind (AllocatePages P n) (\<lambda>a. bind (CopyPages a source m) (\<lambda>_. f a))) Q E s =
     wp (AllocatePages P n) (\<lambda>a. wp (CopyPages a source m) (\<lambda>_. wp (f a) Q E) E) E s"
  unfolding wp_bind by (rule refl)

text \<open>Of the three allocations, each has failed only if there was no memory left for three.\<close>

lemma memory_left_copies:
  assumes "memory_left P k (heap s)" "heap s a4 = None" "heap s a3 = None" "n \<le> 256"
  shows "0 < k \<Longrightarrow> fst (alloc_pages_fw P n (heap s) w) \<noteq> 0"
    and "1 < k \<Longrightarrow> fst (alloc_pages_fw P n ((heap s)(a4 \<mapsto> c4)) w) \<noteq> 0"
    and "2 < k \<Longrightarrow> fst (alloc_pages_fw P n ((heap s)(a4 \<mapsto> c4, a3 \<mapsto> c3)) w) \<noteq> 0"
proof -
  show "0 < k \<Longrightarrow> fst (alloc_pages_fw P n (heap s) w) \<noteq> 0" by (rule memory_left_now [OF assms(1) _ assms(4)])
  show "1 < k \<Longrightarrow> fst (alloc_pages_fw P n ((heap s)(a4 \<mapsto> c4)) w) \<noteq> 0"
    by (rule memory_leftD [OF assms(1) _ _ _ _ assms(4), where A = "{a4}"]) auto
  have "card {a4, a3} \<le> 2" by (cases "a4 = a3") simp_all
  then show "2 < k \<Longrightarrow> fst (alloc_pages_fw P n ((heap s)(a4 \<mapsto> c4, a3 \<mapsto> c3)) w) \<noteq> 0"
    by (intro memory_leftD [OF assms(1) _ _ _ _ assms(4), where A = "{a4, a3}"]) auto
qed

text \<open>
  C6. While there is memory for three allocations, \<^verbatim>\<open>create_minimal_paging\<close> returns fresh tables in which every walk
  below 4 GiB (the first four entries of the first PDPT) ends where it ended in the given tables, and in
  which nothing else is present; the given tables, and all other memory, are unchanged. The only other outcome is a copy
  to the null pointer when there is less memory. The routine copies 8 KiB from the first PDPT and from its first directory, tables of 4 KiB:
  the 4 KiB behind each of them must be memory that can be read too (C23 is the case without it); what is there does not matter.
\<close>

theorem create_minimal_paging_correct:
  assumes doc: "alloc_pages_documented P"
    and b4: "heap s cr3 = Some b4" "cr3 \<noteq> 0" "4096 \<le> length b4"
    and b3: "heap s (next_table (entry_at b4 0)) = Some b3" "next_table (entry_at b4 0) \<noteq> 0" "8192 \<le> length b3"
    and b2: "heap s (next_table (entry_at b3 0)) = Some b2" "next_table (entry_at b3 0) \<noteq> 0" "8192 \<le> length b2"
  shows "wp (create_minimal_paging P cr3) (\<lambda>new t.
      extends s t \<and> heap s new = None \<and>
      (\<forall>i path e. i < 4 \<longrightarrow> walk (heap s) cr3 (0 # i # path) = Some e \<longrightarrow> walk (heap t) new (0 # i # path) = Some e) \<and>
      (\<forall>i. 4 \<le> i \<longrightarrow> i < 1024 \<longrightarrow> (\<exists>e. walk (heap t) new [0, i] = Some e \<and> \<not> bit e 0)) \<and>
      (\<forall>i. 1 \<le> i \<longrightarrow> i < 512 \<longrightarrow> (\<exists>e. walk (heap t) new [i] = Some e \<and> \<not> bit e 0)))
    (\<lambda>e t. e = NullDeref \<and> \<not> memory_left P 3 (heap s)) s"
proof -
  let ?E = "\<lambda>e t. e = NullDeref \<and> \<not> memory_left P 3 (heap s)"
  let ?p3 = "next_table (entry_at b4 0)" and ?p2 = "next_table (entry_at b3 0)"
  have e4: "table_entry (heap s) cr3 0 = Some (entry_at b4 0)" using b4 by (intro table_entry_block) auto
  have e3: "table_entry (heap s) ?p3 0 = Some (entry_at b3 0)" using b3 by (intro table_entry_block) auto
  have g3: "wp (bind (get_pdpt_at cr3 0) f) Q E u = wp (f ?p3) Q E u" if "extends s u" for f Q E u
    using extends_entry [OF that e4] by (simp add: wp_bind wp_get_pdpt_at)
  have g2: "wp (bind (get_pd_at cr3 0 0) f) Q E u = wp (f ?p2) Q E u" if "extends s u" for f Q E u
    using extends_entry [OF that e4] extends_entry [OF that e3] by (simp add: wp_bind wp_get_pd_at)
  note left = memory_left_copies [of P 3]
  have "wp (create_minimal_paging P cr3) (reduced s cr3) ?E s"
    unfolding create_minimal_paging_def get_pml4_def wp_alloc_copy
  proof (rule wp_new_copy [OF doc extends_refl b4(1,2)], goal_cases)
    case (3 t)
    then show ?case using memory_left_now [of P 3 "heap s" 1] by auto
  next
    case (4 a4 s1)
    note a4 = 4
    show ?case
      unfolding g3 [OF 4(6)] wp_alloc_copy
    proof (rule wp_new_copy [OF doc 4(6) b3(1,2)], goal_cases)
      case (3 t)
      then show ?case using left(2) [of s a4 a4 2] a4 by auto
    next
      case (4 a3 s2)
      note a3 = 4
      show ?case
        unfolding g2 [OF 4(6)] wp_alloc_copy
      proof (rule wp_new_copy [OF doc 4(6) b2(1,2)], goal_cases)
        case (3 t)
        then show ?case using left(3) [of s a4 a3 2] a4 a3 by auto
      next
        case (4 a2 s3)
        then have "a3 \<noteq> a4" "a2 \<noteq> a3" "a2 \<noteq> a4" using a4 a3 by (auto split: if_splits)
        then show ?case
          using 4 a4 a3 by (intro wp_reduce_copies [OF b4 b3(1,3)]) simp_all
      qed (use b2 in auto)
    qed (use b3 in auto)
  qed (use b4 in auto)
  then show ?thesis by (simp only: reduced_def [abs_def])
qed

text \<open>
  C23. On page tables as the architecture defines them, with 512 entries, where only the 4096 bytes of the first PDPT can be read at its
  address, the routine always reads past its end: it copies 1024 entries.
\<close>

theorem create_minimal_paging_overreads:
  assumes doc: "alloc_pages_documented P" and left: "memory_left P 2 (heap s)"
    and b4: "heap s cr3 = Some b4" "cr3 \<noteq> 0" "4096 \<le> length b4"
    and b3: "heap s (next_table (entry_at b4 0)) = Some b3" "next_table (entry_at b4 0) \<noteq> 0" "length b3 = 4096"
  shows "\<exists>t. create_minimal_paging P cr3 s = Stop OutOfBounds t"
proof -
  let ?p3 = "next_table (entry_at b4 0)"
  have e4: "table_entry (heap s) cr3 0 = Some (entry_at b4 0)" using b4 by (intro table_entry_block) auto
  have g3: "wp (get_pdpt_at cr3 0) Q E u = Q ?p3 u" if "extends s u" for Q E u
    using extends_entry [OF that e4] by (simp add: wp_get_pdpt_at)
  have short: "wp (CopyPages a ?p3 (1024 * 8)) Q E u = E OutOfBounds u" if "heap u ?p3 = Some b3" for a Q E u
    using that b3 by (simp add: CopyPages_def wp_simps)
  have "wp (create_minimal_paging P cr3) (\<lambda>new t. False) (\<lambda>e t. e = OutOfBounds) s"
    unfolding create_minimal_paging_def wp_bind get_pml4_def
  proof (rule wp_new_copy [OF doc extends_refl b4(1,2)], goal_cases)
    case (3 t)
    then show ?case using memory_left_now [OF left, of 1] by simp
  next
    case (4 a t)
    have "heap t ?p3 = Some b3" by (rule extends_block [OF 4(6) b3(1)])
    then show ?case
      unfolding g3 [OF 4(6)]
    proof (intro wp_AllocatePages [OF doc], goal_cases)
      case (1 w)
      then show ?case using memory_left_copies(2) [OF left 4(2) 4(2), of 2] 4(7) by simp
    next
      case (2 a c w)
      then have "?p3 \<noteq> a" by auto
      with 2 show ?case by (subst short) auto
    qed
  qed (use b4 in auto)
  then show ?thesis by (auto dest: wp_total_stops)
qed

text \<open>Page tables in memory: the first entries of three tables lead to the fourth.\<close>

definition demo_table :: "nat \<Rightarrow> u64 \<Rightarrow> u8 list" where
  "demo_table n e = overwrite (8 * 0) (le_bytes 8 e) (replicate n 0)"

definition demo_paging_state :: "nat state" where
  "demo_paging_state = demo_state
     \<lparr>heap := [0x100000 \<mapsto> demo_table 4096 0x102003, 0x102000 \<mapsto> demo_table 8192 0x104003,
               0x104000 \<mapsto> demo_table 8192 0x106003, 0x106000 \<mapsto> demo_table 8192 0x123003],
      core_contexts := (core_contexts demo_state)[0 := zero_context\<lparr>present := 1, started := 1, cr3_value := 0x100000\<rparr>]\<rparr>"

lemma demo_table_facts [simp]:
  "8 \<le> n \<Longrightarrow> length (demo_table n e) = n" "8 \<le> n \<Longrightarrow> entry_at (demo_table n e) 0 = e"
  unfolding demo_table_def using entry_at_overwrite [of 0 "replicate n 0" e 0] by simp_all

lemma demo_next_table [simp]:
  "next_table 0x102003 = 0x102000" "next_table 0x104003 = 0x104000" "next_table 0x106003 = 0x106000"
  by (simp_all add: next_table_def get_field_def)

lemma demo_paging_facts:
  "buffers_ok demo_paging_state" "arrays_ok demo_paging_state" "core_check 0 demo_paging_state = None"
  "cr3_value (core_contexts demo_paging_state ! 0) = 0x100000"
  "heap demo_paging_state 0x100000 = Some (demo_table 4096 0x102003)"
  "heap demo_paging_state 0x102000 = Some (demo_table 8192 0x104003)"
  "heap demo_paging_state 0x104000 = Some (demo_table 8192 0x106003)"
  "heap demo_paging_state 0x106000 = Some (demo_table 8192 0x123003)"
  by (simp_all add: demo_paging_state_def demo_state_def buffers_ok_def arrays_ok_def core_check_def)

lemma demo_walk: "walk (heap demo_paging_state) 0x100000 [0, 0, 0, 0] = Some 0x123003"
  "walk (heap demo_paging_state) 0x100000 [0] = Some 0x102003"
  by (simp_all add: table_entry_def demo_paging_facts)

lemma paging_entry_sent_witness:
  "\<exists>t. handle_get_paging_info demo_platform (paging_request 0 [0, 0, 0, 0] PREVIOUS_ENTRY @ []) 40 demo_paging_state =
      Done EFI_SUCCESS t \<and>
    sends demo_paging_state t [(True, 1, cr3_value (core_contexts demo_paging_state ! unat (0 :: u64)), 1,
      [(ucast (last [0, 0, 0, 0 :: u64]), of_nat (5 - length [0, 0, 0, 0 :: u64]), 0x123003)])] \<and>
    io_only demo_paging_state t \<and> buffers_ok t"
  by (rule paging_entry_sent [OF demo_network_reliable demo_paging_facts(1-3)])
    (simp_all add: in_range_def demo_paging_facts demo_walk del: walk.simps)

text \<open>The same tables, but the first PDPT is of 4 KiB.\<close>

definition demo_short_state :: "nat state" where
  "demo_short_state = demo_paging_state\<lparr>heap := (heap demo_paging_state)(0x102000 \<mapsto> demo_table 4096 0x104003)\<rparr>"

lemma demo_short_facts:
  "buffers_ok demo_short_state" "arrays_ok demo_short_state" "core_check 0 demo_short_state = None"
  "heap demo_short_state 0x100000 = Some (demo_table 4096 0x102003)"
  "heap demo_short_state 0x102000 = Some (demo_table 4096 0x104003)"
  "cr3_value (core_contexts demo_short_state ! 0) = 0x100000"
  "walk (heap demo_short_state) 0x100000 [0] = Some 0x102003"
  by (simp_all add: demo_short_state_def demo_paging_state_def demo_state_def buffers_ok_def arrays_ok_def core_check_def
      table_entry_def)

lemma paging_table_sent_witness:
  "(\<exists>t. handle_get_paging_info demo_platform (paging_request 0 [0] CURRENT_TABLE @ []) 40 demo_paging_state =
      Done EFI_SUCCESS t \<and>
    sends demo_paging_state t (page_messages 1 (cr3_value (core_contexts demo_paging_state ! unat (0 :: u64)))
      (table_entries (of_nat (4 - length [0 :: u64])) 1024 (demo_table 8192 0x104003))) \<and>
    io_only demo_paging_state t \<and> buffers_ok t) \<and>
   (\<exists>t. handle_get_paging_info demo_platform (paging_request 0 [0] CURRENT_TABLE @ []) 40 demo_short_state = Stop OutOfBounds t)"
proof -
  have "\<exists>t. handle_get_paging_info demo_platform (paging_request 0 [0] CURRENT_TABLE @ []) 40 demo_paging_state =
      Done EFI_SUCCESS t \<and>
    sends demo_paging_state t (page_messages 1 (cr3_value (core_contexts demo_paging_state ! unat (0 :: u64)))
      (table_entries (of_nat (4 - length [0 :: u64])) (if [0 :: u64] = [] then 512 else 1024) (demo_table 8192 0x104003))) \<and>
    io_only demo_paging_state t \<and> buffers_ok t"
    by (rule paging_table_sent [OF demo_network_reliable demo_paging_facts(1-3), where base = "0x102000", THEN conjunct1, THEN mp])
      (simp_all add: in_range_def walk_table_def demo_paging_facts demo_walk del: walk.simps)
  moreover have "[0 :: u64] \<noteq> [] \<and> length (demo_table 4096 0x104003) = 4096" by simp
  from paging_table_sent [OF demo_network_reliable demo_short_facts(1-3), where base = "0x102000" and path = "[0]" and rest = "[]",
      THEN conjunct2, THEN mp, OF _ _ _ _ _ this]
  have "\<exists>t. handle_get_paging_info demo_platform (paging_request 0 [0] CURRENT_TABLE @ []) 40 demo_short_state = Stop OutOfBounds t"
    by (fastforce simp: in_range_def walk_table_def demo_short_facts simp del: walk.simps)
  ultimately show ?thesis by simp
qed

lemma paging_index_refused_witness:
  "\<exists>t. handle_get_paging_info demo_platform (paging_request 0 ([0] @ [1024]) 0 @ []) 40 demo_paging_state =
      Done EFI_INVALID_PARAMETER t \<and>
    (\<exists>msg. sent t = sent demo_paging_state @ [status_frame (of_nat (2 + length [0 :: u64])) (Some msg)]) \<and>
    io_only demo_paging_state t \<and> buffers_ok t"
  by (rule paging_index_refused [OF demo_network_reliable demo_paging_facts(1-3)])
    (simp_all add: in_range_def walk_table_def demo_paging_facts demo_walk del: walk.simps)

lemma demo_paging_memory: "memory_left demo_platform 3 (heap demo_paging_state)" "memory_left demo_platform 2 (heap demo_short_state)"
proof -
  have "dom (heap demo_paging_state) \<subseteq> {0x100000, 0x102000, 0x104000, 0x106000}"
    "dom (heap demo_short_state) \<subseteq> {0x100000, 0x102000, 0x104000, 0x106000}"
    by (auto simp: demo_paging_state_def demo_short_state_def split: if_splits)
  from this [THEN card_mono [rotated]] show "memory_left demo_platform 3 (heap demo_paging_state)"
    "memory_left demo_platform 2 (heap demo_short_state)"
    by (auto intro!: demo_memory_left)
qed

lemma create_minimal_paging_correct_witness:
  "\<exists>new t. create_minimal_paging demo_platform 0x100000 demo_paging_state = Done new t \<and>
      extends demo_paging_state t \<and> heap demo_paging_state new = None \<and>
      (\<forall>i path e. i < 4 \<longrightarrow> walk (heap demo_paging_state) 0x100000 (0 # i # path) = Some e \<longrightarrow>
         walk (heap t) new (0 # i # path) = Some e) \<and>
      (\<forall>i. 4 \<le> i \<longrightarrow> i < 1024 \<longrightarrow> (\<exists>e. walk (heap t) new [0, i] = Some e \<and> \<not> bit e 0)) \<and>
      (\<forall>i. 1 \<le> i \<longrightarrow> i < 512 \<longrightarrow> (\<exists>e. walk (heap t) new [i] = Some e \<and> \<not> bit e 0))"
proof (rule wp_total_returns, rule wp_mono)
  show "wp (create_minimal_paging demo_platform 0x100000) (\<lambda>new t.
      extends demo_paging_state t \<and> heap demo_paging_state new = None \<and>
      (\<forall>i path e. i < 4 \<longrightarrow> walk (heap demo_paging_state) 0x100000 (0 # i # path) = Some e \<longrightarrow>
         walk (heap t) new (0 # i # path) = Some e) \<and>
      (\<forall>i. 4 \<le> i \<longrightarrow> i < 1024 \<longrightarrow> (\<exists>e. walk (heap t) new [0, i] = Some e \<and> \<not> bit e 0)) \<and>
      (\<forall>i. 1 \<le> i \<longrightarrow> i < 512 \<longrightarrow> (\<exists>e. walk (heap t) new [i] = Some e \<and> \<not> bit e 0)))
    (\<lambda>e t. e = NullDeref \<and> \<not> memory_left demo_platform 3 (heap demo_paging_state)) demo_paging_state"
    by (rule create_minimal_paging_correct [OF demo_alloc_pages_documented, where ?b4.0 = "demo_table 4096 0x102003"
          and ?b3.0 = "demo_table 8192 0x104003" and ?b2.0 = "demo_table 8192 0x106003"])
      (simp_all add: demo_paging_facts)
qed (use demo_paging_memory in simp_all)

lemma create_minimal_paging_overreads_witness:
  "\<exists>t. create_minimal_paging demo_platform 0x100000 demo_short_state = Stop OutOfBounds t"
  by (rule create_minimal_paging_overreads [OF demo_alloc_pages_documented demo_paging_memory(2),
        where ?b4.0 = "demo_table 4096 0x102003" and ?b3.0 = "demo_table 4096 0x104003"]) (simp_all add: demo_short_facts)

end
