(* ===== verification/Cores.thy ===== *)
theory Cores
  imports Jobs Asr Paging
begin

text \<open>
  \<^verbatim>\<open>handlers/cores.c\<close> and \<^verbatim>\<open>system/smp.c\<close>: the lock of a context, the main loop of an application
  processor with its recovery from faults, jobs and the wait for them, starting cores and reporting on
  them. Application processors make their steps while the boot core waits: an iteration of the
  main loop, the execution of an accepted job, or the start of the loop is one step. Finer
  interleavings around the lock are the subject of theory \<open>Lock_Protocol\<close>.
\<close>

section \<open>The lock\<close>

definition try_lock_context :: "u64 \<Rightarrow> ('w, bool) prog" where
  "try_lock_context core =
     bind (interlocked_compare_exchange_64 core 0 1) (\<lambda>old. ret (old = 0))"

definition unlock_context :: "u64 \<Rightarrow> ('w, unit) prog" where
  "unlock_context core =
     bind (update_context core (\<lambda>c. c\<lparr>lock := 0\<rparr>)) (\<lambda>_.
     bind (interlocked_compare_exchange_64 core 1 0) (\<lambda>_. ret ()))"

text \<open>
  \<^verbatim>\<open>lock_context\<close> spins without letting anybody else run: if the lock is taken, it is taken forever.
  Nothing calls it.
\<close>

definition lock_context :: "u64 \<Rightarrow> ('w, unit) prog" where
  "lock_context core = bind (try_lock_context core) (\<lambda>ok. if ok then ret () else stop Hang)"


section \<open>The main loop of an application processor\<close>

definition ap_phase_of :: "u64 \<Rightarrow> 'w state \<Rightarrow> ap_phase" where
  "ap_phase_of core s = (if unat core < length (ap_phases s) then ap_phases s ! unat core else ApOff)"

definition set_phase :: "u64 \<Rightarrow> ap_phase \<Rightarrow> ('w, unit) prog" where
  "set_phase core ph = modify (\<lambda>s. s\<lparr>ap_phases := (ap_phases s)[unat core := ph]\<rparr>)"

text \<open>\<^verbatim>\<open>handle_job\<close> up to the call of the job's functions; the result says whether there is a job.\<close>

definition accept_job :: "u64 \<Rightarrow> ('w, bool) prog" where
  "accept_job core =
     bind (try_lock_context core) (\<lambda>ok.
     if \<not> ok then ret False else
     bind (get_context core) (\<lambda>c.
     if job_queued c = 0 then bind (unlock_context core) (\<lambda>_. ret False) else
     bind (update_context core (\<lambda>c. c\<lparr>ready := 0\<rparr>)) (\<lambda>_.
     bind (update_context core (\<lambda>c. c\<lparr>job_queued := 0\<rparr>)) (\<lambda>_.
     bind (from_option NullDeref (fault_info c)) (\<lambda>info.
     bind (if fault_occured info \<noteq> 0
           then update_context core (\<lambda>c. c\<lparr>fault_info := Some zero_fault_info\<rparr>)
           else ret ()) (\<lambda>_.
     ret True))))))"

definition run_job :: "'w platform \<Rightarrow> u64 \<Rightarrow> ('w, unit) prog" where
  "run_job P core =
     bind (call_core_functions P core) (\<lambda>_.
     bind (update_context core (\<lambda>c. c\<lparr>ready := 1\<rparr>)) (\<lambda>_.
     unlock_context core))"

definition handle_job :: "'w platform \<Rightarrow> u64 \<Rightarrow> ('w, unit) prog" where
  "handle_job P core = bind (accept_job core) (\<lambda>ok. if ok then run_job P core else ret ())"

text \<open>The part of \<^verbatim>\<open>core_main_loop\<close> before its endless loop, and one iteration of the loop.\<close>

definition core_main_loop_init :: "'w platform \<Rightarrow> u64 \<Rightarrow> ('w, unit) prog" where
  "core_main_loop_init P core =
     bind (write_idt_on_core P core) (\<lambda>_.
     bind (get_cr3 P core) (\<lambda>cr3.
     bind (update_context core (\<lambda>c. c\<lparr>cr3_value := cr3\<rparr>)) (\<lambda>_.
     bind (init_ibs_on_core P core) (\<lambda>_.
     bind (init_dsm_on_core core) (\<lambda>_.
     bind (update_context core (\<lambda>c. c\<lparr>started := 1\<rparr>)) (\<lambda>_.
     bind (update_context core (\<lambda>c. c\<lparr>ready := 1\<rparr>)) (\<lambda>_.
     bind (update_context core (\<lambda>c. c\<lparr>job_queued := 0\<rparr>)) (\<lambda>_.
     bind (unlock_context core) (\<lambda>_.
     set_phase core ApLoop)))))))))"

definition core_main_loop_entry_point :: "'w platform \<Rightarrow> u64 \<Rightarrow> ('w, unit) prog" where
  "core_main_loop_entry_point P core =
     bind (get_context core) (\<lambda>c.
     bind (set_cr3 P core (cr3_value c)) (\<lambda>_.
     core_main_loop_init P core))"

definition core_main_loop_iteration :: "'w platform \<Rightarrow> u64 \<Rightarrow> ('w, unit) prog" where
  "core_main_loop_iteration P core =
     bind (get_tsc P) (\<lambda>tsc.
     bind (update_context core (\<lambda>c. c\<lparr>heartbeat := tsc\<rparr>)) (\<lambda>_.
     bind (get_context core) (\<lambda>c.
     if lock c \<noteq> 0 then ret ()
     else if job_queued c \<noteq> 0 then
       bind (accept_job core) (\<lambda>ok. if ok then set_phase core ApJob else ret ())
     else ret ())))"

text \<open>
  A fault of a job: the handler of the core records it and recovers into the main loop, or not. The fault has been delivered through the
  table of the core, and one that is resumed after the faulting instruction does not end the code (\<open>call_machine_code\<close>).
\<close>

definition core_fault :: "'w platform \<Rightarrow> u64 \<Rightarrow> fault_frame \<Rightarrow> ('w, unit) prog" where
  "core_fault P core f =
     bind (get_context core) (\<lambda>c.
     bind (from_option NullDeref (fault_info c)) (\<lambda>info.
     bind (update_context core (\<lambda>c. c\<lparr>fault_info :=
       Some (fst (proto_handler P core (installed_handler (fault_vector f)) f info))\<rparr>)) (\<lambda>_.
     if snd (proto_handler P core (installed_handler (fault_vector f)) f info) = Recover
     then core_main_loop_init P core
     else set_phase core ApHung)))"

text \<open>
  One step of an application processor. A fault is handled; code that does not return hangs the
  core. A stop for any other reason is undefined behaviour of the whole program.
\<close>

definition job_step :: "'w platform \<Rightarrow> u64 \<Rightarrow> ('w, unit) prog" where
  "job_step P core = (\<lambda>s.
     case bind (run_job P core) (\<lambda>_. set_phase core ApLoop) s of
       Stop (Trap f) t \<Rightarrow> core_fault P core f t
     | Stop LockedUp t \<Rightarrow> set_phase core ApHung t
     | r \<Rightarrow> r)"

definition ap_step :: "'w platform \<Rightarrow> u64 \<Rightarrow> ('w, unit) prog" where
  "ap_step P core =
     bind (gets (ap_phase_of core)) (\<lambda>ph.
     case ph of
       ApOff \<Rightarrow> ret ()
     | ApEntry \<Rightarrow> core_main_loop_entry_point P core
     | ApLoop \<Rightarrow> core_main_loop_iteration P core
     | ApJob \<Rightarrow> job_step P core
     | ApHung \<Rightarrow> ret ())"

definition run_aps :: "'w platform \<Rightarrow> ('w, unit) prog" where
  "run_aps P = bind (on_world (ap_steps_fw P)) (\<lambda>cs. for_each cs (ap_step P))"


section \<open>Jobs, from the boot core\<close>

text \<open>The check of \<^verbatim>\<open>wait_on_ap_exec\<close> for the end of a job.\<close>

definition job_finished :: "u64 \<Rightarrow> ('w, bool) prog" where
  "job_finished core =
     bind (get_context core) (\<lambda>c.
     if lock c \<noteq> 0 then ret False else
     bind (try_lock_context core) (\<lambda>ok.
     if \<not> ok then ret False else
     bind (get_context core) (\<lambda>c.
     bind (unlock_context core) (\<lambda>_.
     ret (ready c = 1 \<and> job_queued c = 0)))))"

text \<open>With a timeout: \<open>n\<close> iterations are left, each stalls for a millisecond.\<close>

primrec wait_with_timeout :: "'w platform \<Rightarrow> u64 \<Rightarrow> nat \<Rightarrow> ('w, bool) prog" where
  "wait_with_timeout P core 0 = ret True"
| "wait_with_timeout P core (Suc n) =
     bind (job_finished core) (\<lambda>finished.
     if finished then ret False else
     bind (run_aps P) (\<lambda>_. wait_with_timeout P core n))"

text \<open>Without: the loop may never end. \<open>Done False\<close> means that it goes on.\<close>

definition wait_iteration :: "'w platform \<Rightarrow> u64 \<Rightarrow> ('w, bool) prog" where
  "wait_iteration P core =
     bind (job_finished core) (\<lambda>finished.
     if finished then ret True else bind (run_aps P) (\<lambda>_. ret False))"

definition going_on :: "(stop_reason, bool, 's) outcome \<Rightarrow> bool" where
  "going_on r = (case r of Done finished t \<Rightarrow> \<not> finished | Stop e t \<Rightarrow> False)"

definition next_iteration :: "'w platform \<Rightarrow> u64 \<Rightarrow> (stop_reason, bool, 'w state) outcome \<Rightarrow>
    (stop_reason, bool, 'w state) outcome" where
  "next_iteration P core r = (case r of Done finished t \<Rightarrow> wait_iteration P core t | Stop e t \<Rightarrow> Stop e t)"

definition wait_forever :: "'w platform \<Rightarrow> u64 \<Rightarrow> ('w, bool) prog" where
  "wait_forever P core = (\<lambda>s.
     case while_option going_on (next_iteration P core) (Done False s) of
       Some (Done _ t) \<Rightarrow> Done False t
     | Some (Stop e t) \<Rightarrow> Stop e t
     | None \<Rightarrow> Stop Hang s)"

text \<open>The result is true when the timeout was reached.\<close>

definition wait_on_ap_exec :: "'w platform \<Rightarrow> u64 \<Rightarrow> u64 \<Rightarrow> ('w, bool) prog" where
  "wait_on_ap_exec P core timeout =
     (if timeout \<noteq> 0 then wait_with_timeout P core (unat timeout) else wait_forever P core)"

definition acquire_core_lock_for_job :: "'w platform \<Rightarrow> u64 \<Rightarrow> ('w, efi_status) prog" where
  "acquire_core_lock_for_job P core =
     (if MAX_CORE_COUNT \<le> core then
        reject P ''Core id %u is out of range, only max %u cores are supported.'' [core, MAX_CORE_COUNT]
          0x201 EFI_INVALID_PARAMETER
      else
        bind (get_context core) (\<lambda>context.
        if present context \<noteq> 1 then
          reject P ''Core id %u is not present on this CPU.'' [core] 0x202 EFI_INVALID_PARAMETER
        else if started context \<noteq> 1 then
          reject P ''Core id %u is not started.'' [core] 0x203 EFI_INVALID_PARAMETER
        else
        bind (try_lock_context core) (\<lambda>ok.
        if \<not> ok then
          reject P ''Core id %u context is already locked, invalid state.'' [core] 0x204 EFI_INVALID_PARAMETER
        else
        bind (get_context core) (\<lambda>context.
        if ready context \<noteq> 1 then
          bind (unlock_context core) (\<lambda>_.
          reject P ''Core id %u is not ready to accept a job.'' [core] 0x205 EFI_INVALID_PARAMETER)
        else if job_queued context = 1 then
          bind (unlock_context core) (\<lambda>_.
          reject P ''Core id %u already has a job queued.'' [core] 0x206 EFI_INVALID_PARAMETER)
        else ret EFI_SUCCESS))))"

definition clear_core_functions :: "u64 \<Rightarrow> ('w, unit) prog" where
  "clear_core_functions core =
     update_context core (\<lambda>c. c\<lparr>core_functions := replicate CORE_FUNCTION_SLOTS null_call\<rparr>)"

section \<open>Starting cores\<close>

definition get_available_cores :: "'w platform \<Rightarrow> ('w, u64) prog" where
  "get_available_cores P =
     bind (gets world) (\<lambda>w.
     let (Status, ProcessorCount) = processors_fw P w in
     if EFI_ERROR Status
     then bind (FormatPrint P ''GetNumberOfProcessors failed: %r'' [Status]) (\<lambda>_. ret 0)
     else ret ProcessorCount)"

text \<open>The firmware makes the processor call its procedure, which is always \<^verbatim>\<open>core_main_loop_entry_point\<close>.\<close>

definition start_on_core :: "'w platform \<Rightarrow> u64 \<Rightarrow> ('w, efi_status) prog" where
  "start_on_core P core_index =
     bind (CreateEvent P) (\<lambda>Status.
     if EFI_ERROR Status then
       bind (FormatPrint P ''Failed to create completion event: %r'' [Status]) (\<lambda>_. ret Status)
     else
     bind (on_world (startup_ap_fw P core_index)) (\<lambda>Status.
     bind (if EFI_ERROR Status
           then FormatPrint P ''StartupThisAP failed on core %u: %r'' [core_index, Status]
           else set_phase core_index ApEntry) (\<lambda>_.
     ret Status)))"

definition start_core :: "'w platform \<Rightarrow> u64 \<Rightarrow> ('w, efi_status) prog" where
  "start_core P core =
     bind (get_context core) (\<lambda>context.
     if present context \<noteq> 1 then
       reject P ''Core id %u is not present on this CPU.'' [core] 0x3 EFI_INVALID_PARAMETER
     else if started context = 1 then
       reject P ''Core id %u is already started.'' [core] 0x4 EFI_INVALID_PARAMETER
     else
     bind (try_lock_context core) (\<lambda>ok.
     if \<not> ok then
       reject P ''Core id %u already has a locked context.'' [core] 0x5 EFI_INVALID_PARAMETER
     else
     bind (init_fault_handlers_on_core P core) (\<lambda>_.
     bind (get_cr3 P 0) (\<lambda>cr3.
     bind (create_minimal_paging P cr3) (\<lambda>new_cr3.
     bind (update_context core (\<lambda>c. c\<lparr>cr3_value := new_cr3\<rparr>)) (\<lambda>_.
     bind (start_on_core P core) (\<lambda>status.
     if status \<noteq> EFI_SUCCESS then
       bind (unlock_context core) (\<lambda>_.
       reject P ''Core id %u can not be started: %r.'' [core, status] 0x6 status)
     else ret EFI_SUCCESS)))))))"

text \<open>
  The loop over all cores; the number of cores is asked for again in every iteration. The list has
  one index more than there are contexts, at which the access to the context is out of bounds.
\<close>

primrec start_cores :: "'w platform \<Rightarrow> nat list \<Rightarrow> ('w, efi_status) prog" where
  "start_cores P [] = ret EFI_SUCCESS"
| "start_cores P (i # is) =
     bind (get_available_cores P) (\<lambda>core_count.
     if core_count \<le> of_nat i then ret EFI_SUCCESS else
     bind (get_context (of_nat i)) (\<lambda>c.
     if started c = 1 then start_cores P is else
     bind (start_core P (of_nat i)) (\<lambda>status.
     if status \<noteq> EFI_SUCCESS then ret status else start_cores P is)))"

definition handle_start_core :: "'w platform \<Rightarrow> u8 list \<Rightarrow> u64 \<Rightarrow> ('w, efi_status) prog" where
  "handle_start_core P payload payload_length =
     (if payload_length < 8 then
        reject P ''MSG_STARTCORE is too short, need at least 8 Bytes, got %u.'' [payload_length]
          0x1 EFI_INVALID_PARAMETER
      else
        bind (load_u64 payload 0) (\<lambda>core_to_start.
        if MAX_CORE_COUNT < core_to_start then
          reject P ''Core id %u is out of range, only %u max cores are supported.''
            [core_to_start, MAX_CORE_COUNT] 0x2 EFI_INVALID_PARAMETER
        else
        bind (if core_to_start = 0 then start_cores P [1 ..< 129] else start_core P core_to_start) (\<lambda>status.
        if status \<noteq> EFI_SUCCESS then ret status else
        bind (send_status P 0x0 None) (\<lambda>_. ret EFI_SUCCESS))))"


section \<open>Reports\<close>

definition handle_get_core_count :: "'w platform \<Rightarrow> u8 list \<Rightarrow> u64 \<Rightarrow> ('w, efi_status) prog" where
  "handle_get_core_count P payload payload_length =
     bind (get_available_cores P) (\<lambda>core_count.
     bind (write_payload 0 (le_bytes 8 core_count)) (\<lambda>_.
     respond P report_debug MSG_CORECOUNTRESPONSE payload_buffer 8 (8 + HEADER_SIZE) True))"

definition status_flags :: "CoreContext \<Rightarrow> u64" where
  "status_flags c =
     push_bit 0 (present c AND 1) OR push_bit 1 (started c AND 1) OR push_bit 2 (ready c AND 1) OR
     push_bit 3 (job_queued c AND 1) OR push_bit 4 (lock c AND 1) OR
     (case fault_info c of None \<Rightarrow> 0 | Some info \<Rightarrow> push_bit 5 (fault_occured info AND 1))"

definition send_core_status :: "'w platform \<Rightarrow> u64 \<Rightarrow> bool \<Rightarrow> ('w, efi_status) prog" where
  "send_core_status P core is_last_message =
     bind (get_context core) (\<lambda>context.
     let dump = (case fault_info context of
           None \<Rightarrow> None | Some info \<Rightarrow> if fault_occured info \<noteq> 0 then Some info else None) in
     bind (write_payload 0 (le_bytes 8 (status_flags context))) (\<lambda>_.
     bind (write_payload 8 (le_bytes 8 (heartbeat context))) (\<lambda>_.
     bind (get_tsc P) (\<lambda>tsc.
     bind (write_payload 16 (le_bytes 8 tsc)) (\<lambda>_.
     bind (write_payload 24 (le_bytes 8 (0 :: u64))) (\<lambda>_.
     bind (case dump of
         None \<Rightarrow> ret (4 * 8)
       | Some info \<Rightarrow>
           bind (write_payload 24 (le_bytes 8 (of_nat CoreFaultInfo_size :: u64))) (\<lambda>_.
           bind (write_payload 32 (fault_info_bytes info)) (\<lambda>_.
           ret (4 * 8 + of_nat CoreFaultInfo_size)))) (\<lambda>response_size.
     respond P (report_print P) MSG_CORESTATUSRESPONSE payload_buffer response_size
       (response_size + HEADER_SIZE) is_last_message)))))))"

definition handle_get_core_status :: "'w platform \<Rightarrow> u8 list \<Rightarrow> u64 \<Rightarrow> ('w, efi_status) prog" where
  "handle_get_core_status P payload payload_length =
     (if payload_length < 8 then
        reject P ''MSG_GETCORESTATUS is too short, need at least 8 Bytes, got %u.'' [payload_length]
          0x1 EFI_INVALID_PARAMETER
      else
        bind (load_u64 payload 0) (\<lambda>core.
        if MAX_CORE_COUNT < core then
          reject P ''Core id %u is out of range, only %u max cores are supported.''
            [core, MAX_CORE_COUNT] 0x2 EFI_INVALID_PARAMETER
        else send_core_status P core True))"


section \<open>Initialisation\<close>

definition AllocateZeroPool :: "'w platform \<Rightarrow> nat \<Rightarrow> ('w, u8 list option) prog" where
  "AllocateZeroPool P n =
     bind (on_world (alloc_pool_fw P n)) (\<lambda>ok. ret (if ok then Some (replicate n 0) else None))"

definition init_core_context :: "'w platform \<Rightarrow> u64 \<Rightarrow> nat \<Rightarrow> ('w, unit) prog" where
  "init_core_context P core_count i =
     (let core = of_nat i in
      bind (update_context core (\<lambda>c. c\<lparr>core_id := core\<rparr>)) (\<lambda>_.
      bind (if core < core_count then update_context core (\<lambda>c. c\<lparr>present := 1\<rparr>) else ret ()) (\<lambda>_.
      bind (get_context core) (\<lambda>c.
      if present c \<noteq> 0 then
        bind (AllocateZeroPool P RESULT_BUFFER_SIZE) (\<lambda>b.
        bind (update_context core (\<lambda>c. c\<lparr>result_buffer := b, result_buffer_len := of_nat RESULT_BUFFER_SIZE\<rparr>)) (\<lambda>_.
        bind (AllocateZeroPool P MACHINE_CODE_SCRATCH_SPACE_SIZE) (\<lambda>b.
        bind (update_context core (\<lambda>c. c\<lparr>scratch_space := b,
          scratch_space_len := of_nat MACHINE_CODE_SCRATCH_SPACE_SIZE\<rparr>)) (\<lambda>_.
        bind (update_context core (\<lambda>c. c\<lparr>ctx_asr_registry := Some get_default_asr_registry\<rparr>)) (\<lambda>_.
        bind (init_ibs_for_context P core) (\<lambda>_.
        init_dsm_for_context P core))))))
      else ret ()))))"

definition init_core_contexts :: "'w platform \<Rightarrow> ('w, unit) prog" where
  "init_core_contexts P =
     bind (get_available_cores P) (\<lambda>core_count.
     bind (for_each [0 ..< 128] (init_core_context P core_count)) (\<lambda>_.
     bind (update_context 0 (\<lambda>c. c\<lparr>present := 1\<rparr>)) (\<lambda>_.
     bind (update_context 0 (\<lambda>c. c\<lparr>started := 1\<rparr>)) (\<lambda>_.
     bind (update_context 0 (\<lambda>c. c\<lparr>ready := 1\<rparr>)) (\<lambda>_.
     bind (get_cr3 P 0) (\<lambda>cr3.
     update_context 0 (\<lambda>c. c\<lparr>cr3_value := cr3\<rparr>)))))))"

definition init_cores :: "'w platform \<Rightarrow> ('w, unit) prog" where
  "init_cores P = init_core_contexts P"

section \<open>The lock, on one core\<close>

text \<open>The state with the context of a core changed.\<close>

definition with_context :: "u64 \<Rightarrow> (CoreContext \<Rightarrow> CoreContext) \<Rightarrow> 'w state \<Rightarrow> 'w state" where
  "with_context core f s =
     s\<lparr>core_contexts := (core_contexts s)[unat core := f (core_contexts s ! unat core)]\<rparr>"

abbreviation context_of :: "u64 \<Rightarrow> 'w state \<Rightarrow> CoreContext" where
  "context_of core s \<equiv> core_contexts s ! unat core"

abbreviation has_context :: "u64 \<Rightarrow> 'w state \<Rightarrow> bool" where
  "has_context core s \<equiv> unat core < length (core_contexts s)"

lemma with_context_simps [simp]:
  "length (core_contexts (with_context core f s)) = length (core_contexts s)"
  "has_context core s \<Longrightarrow> context_of core (with_context core f s) = f (context_of core s)"
  "with_context core g (with_context core f s) = with_context core (\<lambda>c. g (f c)) s"
  "i \<noteq> unat core \<Longrightarrow> core_contexts (with_context core f s) ! i = core_contexts s ! i"
  "sent (with_context core f s) = sent s" "heap (with_context core f s) = heap s"
  "world (with_context core f s) = world s" "frames (with_context core f s) = frames s"
  "ap_phases (with_context core f s) = ap_phases s" "ucodes (with_context core f s) = ucodes s"
  "machine_codes (with_context core f s) = machine_codes s"
  "ap_phase_of core2 (with_context core f s) = ap_phase_of core2 s"
  "buffers_ok (with_context core f s) = buffers_ok s" "arrays_ok (with_context core f s) = arrays_ok s"
  by (simp_all add: with_context_def buffers_ok_def arrays_ok_def ap_phase_of_def nth_list_update)
    (cases "has_context core s", simp_all add: list_update_beyond)

lemma with_context_same: "f (context_of core s) = context_of core s \<Longrightarrow> with_context core f s = s"
  by (simp add: with_context_def)

lemma wp_update_with: "has_context core s \<Longrightarrow> wp (update_context core f) Q E s = Q () (with_context core f s)"
  by (simp add: wp_update_context with_context_def)

lemma wp_get_with: "has_context core s \<Longrightarrow> wp (get_context core) Q E s = Q (context_of core s) s"
  by (simp add: wp_get_context)

lemma wp_try_lock: "has_context core s \<Longrightarrow> wp (try_lock_context core) Q E s =
  (if lock (context_of core s) = 0 then Q True (with_context core (\<lambda>c. c\<lparr>lock := 1\<rparr>) s) else Q False s)"
  by (simp add: try_lock_context_def interlocked_compare_exchange_64_def wp_bind wp_get_with wp_update_with wp_ret)

lemma wp_unlock: "has_context core s \<Longrightarrow>
  wp (unlock_context core) Q E s = Q () (with_context core (\<lambda>c. c\<lparr>lock := 0\<rparr>) s)"
  by (simp add: unlock_context_def interlocked_compare_exchange_64_def wp_bind wp_get_with wp_update_with wp_ret)

lemmas context_rules = wp_bind wp_ret wp_get_with wp_update_with wp_try_lock wp_unlock


section \<open>Asking for a core\<close>

text \<open>The status code with which a request for a job on a core is refused, if it is.\<close>

definition job_check :: "u64 \<Rightarrow> 'w state \<Rightarrow> u32 option" where
  "job_check core s =
     (case core_check core s of
        Some code \<Rightarrow> Some code
      | None \<Rightarrow>
          if lock (context_of core s) \<noteq> 0 then Some 0x204
          else if ready (context_of core s) \<noteq> 1 then Some 0x205
          else if job_queued (context_of core s) = 1 then Some 0x206 else None)"

lemma lock_0_same [simp]: "lock c = 0 \<Longrightarrow> c\<lparr>lock := 0\<rparr> = c"
  by (cases c) simp

lemma wp_acquire_ok:
  assumes "job_check core s = None" "arrays_ok s"
  shows "wp (acquire_core_lock_for_job P core) Q E s = Q EFI_SUCCESS (with_context core (\<lambda>c. c\<lparr>lock := 1\<rparr>) s)"
proof -
  have core: "core_check core s = None"
    and flags: "lock (context_of core s) = 0" "ready (context_of core s) = 1" "job_queued (context_of core s) \<noteq> 1"
    using assms(1) by (auto simp: job_check_def split: option.splits if_splits)
  have len: "has_context core s" by (rule core_check_range [OF core assms(2)])
  show ?thesis
    using core flags len by (auto simp: acquire_core_lock_for_job_def core_check_def context_rules split: if_splits)
qed

lemma wp_acquire_fails:
  assumes net: "network_reliable P" and ok: "buffers_ok s" "arrays_ok s" and bad: "job_check core s = Some code"
    and Q: "\<And>t msg. io_only s t \<Longrightarrow> buffers_ok t \<Longrightarrow> sent t = sent s @ [status_frame code (Some msg)] \<Longrightarrow>
              Q EFI_INVALID_PARAMETER t"
  shows "wp (acquire_core_lock_for_job P core) Q E s"
proof (cases "core_check core s")
  case (Some c)
  then show ?thesis
    using bad core_in_range [OF ok(2), of core]
    by (auto simp: acquire_core_lock_for_job_def core_check_def job_check_def context_rules split: if_splits
        intro!: wp_reject [OF net ok(1)] Q)
next
  case None
  have len: "has_context core s" by (rule core_check_range [OF None ok(2)])
  have free: "with_context core (\<lambda>c. c\<lparr>lock := 0\<rparr>) s = s" if "lock (context_of core s) = 0"
    using that by (intro with_context_same) simp
  show ?thesis
    using bad None len
    by (auto simp: acquire_core_lock_for_job_def core_check_def job_check_def context_rules free split: if_splits
        intro!: wp_reject [OF net ok(1)] Q)
qed

text \<open>
  C26. A request for a core takes its lock, and changes nothing else, exactly when the core is within
  range, present, started, unlocked, ready and without a queued job. In every other case one
  status message goes out, with the code of the first of these conditions that fails, and the program
  data is as before; in particular the lock is released again.
\<close>

theorem acquire_core_lock_spec:
  assumes net: "network_reliable P" and ok: "buffers_ok s" "arrays_ok s"
  shows "case job_check core s of
      None \<Rightarrow> acquire_core_lock_for_job P core s = Done EFI_SUCCESS (with_context core (\<lambda>c. c\<lparr>lock := 1\<rparr>) s)
    | Some code \<Rightarrow> \<exists>t msg. acquire_core_lock_for_job P core s = Done EFI_INVALID_PARAMETER t \<and>
        sent t = sent s @ [status_frame code (Some msg)] \<and> io_only s t \<and> buffers_ok t"
proof (cases "job_check core s")
  case None
  have "wp (acquire_core_lock_for_job P core)
      (\<lambda>st t. st = EFI_SUCCESS \<and> t = with_context core (\<lambda>c. c\<lparr>lock := 1\<rparr>) s) (\<lambda>_ _. False) s"
    by (simp add: wp_acquire_ok [OF None ok(2)])
  then show ?thesis using None by (auto dest: wp_total_returns)
next
  case (Some code)
  have "wp (acquire_core_lock_for_job P core) (\<lambda>st t. st = EFI_INVALID_PARAMETER \<and>
      (\<exists>msg. sent t = sent s @ [status_frame code (Some msg)]) \<and> io_only s t \<and> buffers_ok t) (\<lambda>_ _. False) s"
    by (rule wp_acquire_fails [OF net ok Some]) auto
  from wp_total_returns [OF this] show ?thesis using Some by auto
qed


section \<open>Jobs\<close>

lemma function_slots: "[0 ..< CORE_FUNCTION_SLOTS] = [0, 1, 2]"
  by (simp add: upt_rec)

text \<open>What accepting a job does to a context.\<close>

definition accepted :: "CoreContext \<Rightarrow> CoreContext" where
  "accepted c = c\<lparr>lock := 1, ready := 0, job_queued := 0,
     fault_info := map_option (\<lambda>i. if fault_occured i \<noteq> 0 then zero_fault_info else i) (fault_info c)\<rparr>"

lemma wp_accept_job:
  assumes "has_context core s" "fault_info (context_of core s) \<noteq> None"
  shows "wp (accept_job core) Q E s =
    (if lock (context_of core s) = 0 \<and> job_queued (context_of core s) \<noteq> 0
     then Q True (with_context core accepted s) else Q False s)"
proof -
  obtain info where info: "fault_info (context_of core s) = Some info" using assms(2) by blast
  let ?c = "context_of core s"
  have acc: "accepted ?c = (if fault_occured info \<noteq> 0
      then ?c\<lparr>lock := 1, ready := 0, job_queued := 0, fault_info := Some zero_fault_info\<rparr>
      else ?c\<lparr>lock := 1, ready := 0, job_queued := 0\<rparr>)"
    using info by (cases ?c) (simp add: accepted_def)
  have w: "with_context core accepted s = with_context core (\<lambda>_. accepted ?c) s"
    by (simp add: with_context_def)
  have free: "with_context core (\<lambda>c. c\<lparr>lock := 0\<rparr>) s = s" if "lock ?c = 0"
    using that by (intro with_context_same) simp
  show ?thesis
    using assms(1) info
    by (auto simp: accept_job_def context_rules wp_from_option free w acc)
      (auto simp: with_context_def)
qed

text \<open>
  C27. A core that finds a queued job while its lock is free runs the functions of its slots in a
  context that is locked, not ready, without a queued job and without an old fault, and, when they return,
  is ready again and unlocked. When the lock is taken, or the job is gone, nothing changes.
\<close>

theorem handle_job_runs_functions:
  assumes "has_context core s" "fault_info (context_of core s) \<noteq> None"
  shows "handle_job P core s =
    (if lock (context_of core s) = 0 \<and> job_queued (context_of core s) \<noteq> 0
     then bind (call_core_functions P core) (\<lambda>_. bind (update_context core (\<lambda>c. c\<lparr>ready := 1\<rparr>))
            (\<lambda>_. unlock_context core)) (with_context core accepted s)
     else Done () s)"
proof -
  have "accept_job core s = Done True (with_context core accepted s)"
    if "lock (context_of core s) = 0 \<and> job_queued (context_of core s) \<noteq> 0"
    using wp_total_returns [of "accept_job core" "\<lambda>v t. v \<and> t = with_context core accepted s" s]
      wp_accept_job [OF assms] that by auto
  moreover have "accept_job core s = Done False s"
    if "\<not> (lock (context_of core s) = 0 \<and> job_queued (context_of core s) \<noteq> 0)"
    using wp_total_returns [of "accept_job core" "\<lambda>v t. \<not> v \<and> t = s" s]
      wp_accept_job [OF assms] that by auto
  ultimately show ?thesis by (simp add: handle_job_def run_job_def bind_run ret_run)
qed

section \<open>Reports\<close>

text \<open>The payload of a status report: four words and, after a fault, the fault information.\<close>

definition status_report :: "CoreContext \<Rightarrow> u64 \<Rightarrow> u8 list" where
  "status_report c tsc =
     (let dump = (case fault_info c of None \<Rightarrow> [] | Some i \<Rightarrow> if fault_occured i \<noteq> 0 then fault_info_bytes i else []) in
      concat (map (le_bytes 8) [status_flags c, heartbeat c, tsc, of_nat (length dump)]) @ dump)"

lemma length_status_report: "length (status_report c tsc) \<le> 248"
  by (simp add: status_report_def Let_def split: option.splits)

lemma words_written:
  assumes "length b = 1400" "length d \<le> 1368"
  shows "overwrite 32 d (overwrite 24 (le_bytes 8 (w3 :: u64)) (overwrite 24 (le_bytes 8 (w :: u64))
      (overwrite 16 (le_bytes 8 (w2 :: u64)) (overwrite 8 (le_bytes 8 (w1 :: u64))
      (overwrite 0 (le_bytes 8 (w0 :: u64)) b))))) =
    overwrite 0 (concat (map (le_bytes 8) [w0, w1, w2, w3]) @ d) b"
proof -
  have "overwrite 24 (le_bytes 8 w3) (overwrite 24 (le_bytes 8 w) c) = overwrite 24 (le_bytes 8 w3) c"
    if "length c = 1400" for c
    using that by (simp add: overwrite_again)
  then show ?thesis using assms by (simp only: length_overwrite length_le_bytes) (simp add: buf_simps)
qed

lemma wp_send_core_status:
  assumes net: "network_reliable P" and ok: "buffers_ok s" and len: "has_context core s"
    and Q: "\<And>t. io_only s t \<Longrightarrow> buffers_ok t \<Longrightarrow> sent t = sent s @
      [frame MSG_CORESTATUSRESPONSE (status_report (context_of core s) (fst (rdtsc_hw P (world s)))) l] \<Longrightarrow> Q EFI_SUCCESS t"
  shows "wp (send_core_status P core l) Q E s"
proof -
  let ?c = "context_of core s" and ?tsc = "fst (rdtsc_hw P (world s))"
  let ?p = "status_report ?c ?tsc"
  let ?w = "s\<lparr>world := snd (rdtsc_hw P (world s))\<rparr>"
  have pl: "length (payload_buffer s) = 1400" using buffers_ok_lengths(1) [OF ok] by simp
  have ok2: "buffers_ok ?w" using ok by (simp add: buffers_ok_def)
  define n where "n = length ?p"
  have n: "n \<le> 248" using length_status_report by (simp add: n_def)
  have "wp (send_core_status P core l) Q E s =
    wp (respond P (report_print P) MSG_CORESTATUSRESPONSE payload_buffer (of_nat n) (of_nat (n + 12)) l) Q E
      (?w\<lparr>payload_buffer := overwrite 0 ?p (payload_buffer ?w)\<rparr>)"
  proof (cases "\<exists>i. fault_info ?c = Some i \<and> fault_occured i \<noteq> 0")
    case True
    then obtain i where i: "fault_info ?c = Some i" "fault_occured i \<noteq> 0" by blast
    have p: "?p = concat (map (le_bytes 8) [status_flags ?c, heartbeat ?c, ?tsc, 216]) @ fault_info_bytes i"
      using i by (simp add: status_report_def)
    have "n = 248" unfolding n_def p by simp
    then show ?thesis
      using len pl i words_written [OF pl, of "fault_info_bytes i" 216 0 ?tsc "heartbeat ?c" "status_flags ?c"]
      by (simp add: send_core_status_def get_tsc_def wp_bind wp_get_with wp_ret wp_write_payload wp_on_world p Let_def)
  next
    case False
    have p: "?p = concat (map (le_bytes 8) [status_flags ?c, heartbeat ?c, ?tsc, 0])"
      using False by (auto simp: status_report_def Let_def split: option.splits)
    have n32: "n = 32" unfolding n_def p by simp
    have dump: "(case fault_info ?c of None \<Rightarrow> None | Some info \<Rightarrow> if fault_occured info \<noteq> 0 then Some info else None) = None"
      using False by (auto split: option.splits)
    show ?thesis
      unfolding n32 p using len pl words_written [OF pl, of "[]" 0 0 ?tsc "heartbeat ?c" "status_flags ?c"]
      by (simp add: send_core_status_def get_tsc_def wp_bind wp_get_with wp_ret wp_write_payload wp_on_world
          Let_def dump buf_simps)
  qed
  also have "\<dots>"
    by (rule wp_respond_written [OF net ok2 _ _ _, where p = ?p])
      (use n in \<open>auto simp: n_def io_only_def intro!: Q\<close>)
  finally show ?thesis by simp
qed

lemma bit_and_1: "bit ((x :: u64) AND 1) n \<longleftrightarrow> n = 0 \<and> bit x 0"
  by (simp add: bit_simps) auto

lemma status_flags_bits:
  "bit (status_flags c) 0 = bit (present c) 0" "bit (status_flags c) 1 = bit (started c) 0"
  "bit (status_flags c) 2 = bit (ready c) 0" "bit (status_flags c) 3 = bit (job_queued c) 0"
  "bit (status_flags c) 4 = bit (lock c) 0"
  "bit (status_flags c) 5 = (\<exists>i. fault_info c = Some i \<and> bit (fault_occured i) 0)"
  "6 \<le> n \<Longrightarrow> \<not> bit (status_flags c) n"
  by (cases "fault_info c"; simp only: option.case status_flags_def bit_or_iff bit_push_bit_iff bit_and_1; simp)+

text \<open>
  C28. A status request for a core below 128 is answered with one message: the six flags of the core
  in the low bits of the first word and nothing in the others, its heartbeat, the current time stamp and, if
  a fault was recorded, the 216 bytes of the fault information behind their length. A request for core 128 passes
  the range check, which excludes only larger numbers, and reads past the end of the contexts.
\<close>

theorem handle_get_core_status_report:
  fixes core :: u64
  assumes net: "network_reliable P" and ok: "buffers_ok s" "arrays_ok s"
  defines "c \<equiv> context_of core s"
  shows "if core < MAX_CORE_COUNT then
      (\<exists>t. handle_get_core_status P (le_bytes 8 core @ rest) 8 s = Done EFI_SUCCESS t \<and> io_only s t \<and> buffers_ok t \<and>
        sent t = sent s @ [frame MSG_CORESTATUSRESPONSE (status_report c (fst (rdtsc_hw P (world s)))) True] \<and>
        (\<forall>n. bit (status_flags c) n \<longleftrightarrow> n = 0 \<and> bit (present c) 0 \<or> n = 1 \<and> bit (started c) 0 \<or>
          n = 2 \<and> bit (ready c) 0 \<or> n = 3 \<and> bit (job_queued c) 0 \<or> n = 4 \<and> bit (lock c) 0 \<or>
          n = 5 \<and> (\<exists>i. fault_info c = Some i \<and> bit (fault_occured i) 0)))
    else if core = MAX_CORE_COUNT then handle_get_core_status P (le_bytes 8 core @ rest) 8 s = Stop OutOfBounds s
    else (\<exists>t msg. handle_get_core_status P (le_bytes 8 core @ rest) 8 s = Done EFI_INVALID_PARAMETER t \<and>
        io_only s t \<and> sent t = sent s @ [status_frame 2 (Some msg)])"
proof -
  have len: "length (core_contexts s) = 128" by (rule arrays_ok_lengths(3) [OF ok(2)])
  have w: "take 8 (le_bytes 8 core @ rest) = le_bytes 8 core" by simp
  consider "core < 128" | "core = 128" | "128 < core" by fastforce
  then show ?thesis
  proof cases
    case 1
    then have ctx: "has_context core s" using len by (simp add: word_less_nat_alt)
    have flags: "bit (status_flags c) n \<longleftrightarrow> n = 0 \<and> bit (present c) 0 \<or> n = 1 \<and> bit (started c) 0 \<or>
          n = 2 \<and> bit (ready c) 0 \<or> n = 3 \<and> bit (job_queued c) 0 \<or> n = 4 \<and> bit (lock c) 0 \<or>
          n = 5 \<and> (\<exists>i. fault_info c = Some i \<and> bit (fault_occured i) 0)" for n
    proof (cases "6 \<le> n")
      case True
      then show ?thesis using status_flags_bits(7) [OF True] by auto
    next
      case False
      then consider "n = 0" | "n = 1" | "n = 2" | "n = 3" | "n = 4" | "n = 5" by linarith
      then show ?thesis by cases (simp_all add: status_flags_bits status_flags_bits(2) [unfolded One_nat_def])
    qed
    have "wp (handle_get_core_status P (le_bytes 8 core @ rest) 8) (\<lambda>st t. st = EFI_SUCCESS \<and> io_only s t \<and> buffers_ok t \<and>
        sent t = sent s @ [frame MSG_CORESTATUSRESPONSE (status_report c (fst (rdtsc_hw P (world s)))) True])
      (\<lambda>_ _. False) s"
      using less_not_sym [OF 1]
      by (simp add: handle_get_core_status_def wp_bind wp_load_u64 u64c.dec_enc w)
        (rule wp_send_core_status [OF net ok(1) ctx], simp add: c_def)
    then show ?thesis using 1 flags by (auto dest: wp_total_returns)
  next
    case 2
    then show ?thesis using len
      by (simp add: handle_get_core_status_def run_simps u64c.dec_enc w send_core_status_def)
  next
    case 3
    have "wp (handle_get_core_status P (le_bytes 8 core @ rest) 8) (\<lambda>st t. st = EFI_INVALID_PARAMETER \<and>
        (\<exists>msg. sent t = sent s @ [status_frame 2 (Some msg)]) \<and> io_only s t) (\<lambda>_ _. False) s"
      using 3 by (simp add: handle_get_core_status_def wp_bind wp_load_u64 u64c.dec_enc w)
        (rule wp_reject [OF net ok(1)], auto)
    from wp_total_returns [OF this] show ?thesis using 3 by auto
  qed
qed

section \<open>Concrete cores\<close>

text \<open>Core 1 is in its main loop; core 2 has a queued job without functions.\<close>

definition demo_core :: CoreContext where
  "demo_core = zero_context\<lparr>present := 1, started := 1, ready := 1, fault_info := Some zero_fault_info\<rparr>"

definition demo_core_state :: "nat state" where
  "demo_core_state = demo_state\<lparr>
     core_contexts := (core_contexts demo_state)[1 := demo_core, 2 := demo_core\<lparr>job_queued := 1\<rparr>],
     ap_phases := (ap_phases demo_state)[1 := ApLoop, 2 := ApLoop]\<rparr>"

lemma demo_core_state_facts:
  "buffers_ok demo_core_state" "arrays_ok demo_core_state"
  "context_of 1 demo_core_state = demo_core" "context_of 2 demo_core_state = demo_core\<lparr>job_queued := 1\<rparr>"
  "ap_phase_of 1 demo_core_state = ApLoop" "ap_phase_of 2 demo_core_state = ApLoop"
  "length (core_contexts demo_core_state) = 128"
  by (simp_all add: demo_core_state_def demo_state_def buffers_ok_def arrays_ok_def ap_phase_of_def)

lemma demo_contexts [simp]:
  "core_contexts demo_core_state ! Suc 0 = demo_core"
  "core_contexts demo_core_state ! 2 = demo_core\<lparr>job_queued := 1\<rparr>"
  by (simp_all add: demo_core_state_def demo_state_def)

lemma demo_core_fields [simp]:
  "present demo_core = 1" "started demo_core = 1" "ready demo_core = 1" "job_queued demo_core = 0" "lock demo_core = 0"
  "fault_info demo_core = Some zero_fault_info" "core_functions demo_core = replicate 3 null_call"
  by (simp_all add: demo_core_def zero_context_def)

lemma demo_job_check: "job_check 1 demo_core_state = None"
  by (simp add: job_check_def core_check_def word_le_nat_alt)

lemma acquire_core_lock_spec_witness:
  "acquire_core_lock_for_job demo_platform 1 demo_core_state =
     Done EFI_SUCCESS (with_context 1 (\<lambda>c. c\<lparr>lock := 1\<rparr>) demo_core_state)"
  using acquire_core_lock_spec [OF demo_network_reliable demo_core_state_facts(1,2), of 1]
  by (simp add: demo_job_check)

lemma handle_job_runs_functions_witness:
  "handle_job demo_platform 2 demo_core_state = Done () (with_context 2 (\<lambda>c. c\<lparr>ready := 1, lock := 0\<rparr>)
     (with_context 2 accepted demo_core_state))"
proof -
  let ?s = "with_context 2 accepted demo_core_state"
  have len: "has_context 2 demo_core_state" "has_context 2 ?s" using demo_core_state_facts(7) by simp_all
  have f: "core_functions (core_contexts ?s ! 2) = replicate 3 null_call"
    using with_context_simps(2) [OF len(1), of accepted] by (simp add: accepted_def)
  have "wp (call_core_functions demo_platform 2) Q E ?s = Q () ?s" for Q and E :: "stop_reason \<Rightarrow> nat state \<Rightarrow> bool"
    using len(2) f unfolding call_core_functions_def function_slots by (simp add: wp_bind wp_get_with wp_require wp_ret null_call_def)
  then have none: "call_core_functions demo_platform 2 ?s = Done () ?s"
    using wp_total_returns [of "call_core_functions demo_platform 2" "\<lambda>_ t. t = ?s" ?s] by auto
  have "handle_job demo_platform 2 demo_core_state = bind (call_core_functions demo_platform 2)
      (\<lambda>_. bind (update_context 2 (\<lambda>c. c\<lparr>ready := 1\<rparr>)) (\<lambda>_. unlock_context 2)) ?s"
    using handle_job_runs_functions [OF len(1), of demo_platform] by simp
  also have "\<dots> = bind (update_context 2 (\<lambda>c. c\<lparr>ready := 1\<rparr>)) (\<lambda>_. unlock_context 2) ?s"
    by (simp add: bind_run none)
  also have "\<dots> = Done () (with_context 2 (\<lambda>c. c\<lparr>ready := 1, lock := 0\<rparr>) ?s)"
    using wp_total_returns [of "bind (update_context 2 (\<lambda>c. c\<lparr>ready := 1\<rparr>)) (\<lambda>_. unlock_context 2)"
        "\<lambda>_ t. t = with_context 2 (\<lambda>c. c\<lparr>ready := 1, lock := 0\<rparr>) ?s" ?s] len(2)
    by (simp add: context_rules)
  finally show ?thesis .
qed

lemma handle_get_core_status_report_witness:
  "handle_get_core_status demo_platform (le_bytes 8 (128 :: u64) @ []) 8 demo_core_state = Stop OutOfBounds demo_core_state \<and>
   (\<exists>t. handle_get_core_status demo_platform (le_bytes 8 (1 :: u64) @ []) 8 demo_core_state = Done EFI_SUCCESS t \<and>
      sent t = sent demo_core_state @ [frame MSG_CORESTATUSRESPONSE (status_report demo_core 0) True])"
  using handle_get_core_status_report [OF demo_network_reliable demo_core_state_facts(1,2), of 128 "[]"]
    handle_get_core_status_report [OF demo_network_reliable demo_core_state_facts(1,2), of 1 "[]"]
  by (simp only: demo_core_state_facts) (auto simp: demo_platform_def demo_core_state_def demo_state_def)

end
