(* ===== verification/Slots.thy ===== *)
theory Slots
  imports Paging
begin

text \<open>
  The slots that clients upload to: the arrays \<^verbatim>\<open>ucodes\<close> of \<^verbatim>\<open>handlers/ucode.c\<close> and \<^verbatim>\<open>machine_codes\<close> of
  \<^verbatim>\<open>handlers/ucode_execute.c\<close>. A slot is the address of a block, allocated at its first use, and the length
  of what was uploaded last. The laws of such an array are a locale, interpreted for both.
\<close>

section \<open>Access\<close>

definition get_ucode :: "nat \<Rightarrow> ('w, UcodeContainer) prog" where
  "get_ucode i =
     bind (gets ucodes) (\<lambda>us. bind (require OutOfBounds (i < length us)) (\<lambda>_. ret (us ! i)))"

definition put_ucode :: "nat \<Rightarrow> UcodeContainer \<Rightarrow> ('w, unit) prog" where
  "put_ucode i c = modify (\<lambda>s. s\<lparr>ucodes := (ucodes s)[i := c]\<rparr>)"

definition get_machine_code :: "nat \<Rightarrow> ('w, MachineCodeContainer) prog" where
  "get_machine_code i =
     bind (gets machine_codes) (\<lambda>ms. bind (require OutOfBounds (i < length ms)) (\<lambda>_. ret (ms ! i)))"

definition put_machine_code :: "nat \<Rightarrow> MachineCodeContainer \<Rightarrow> ('w, unit) prog" where
  "put_machine_code i c = modify (\<lambda>s. s\<lparr>machine_codes := (machine_codes s)[i := c]\<rparr>)"

text \<open>\<^verbatim>\<open>CopyMem\<close> between blocks; it does not look at its pointers when the length is zero.\<close>

definition copy_block :: "u64 \<Rightarrow> u64 \<Rightarrow> nat \<Rightarrow> ('w, unit) prog" where
  "copy_block target source n =
     (if n = 0 then ret () else bind (heap_read source 0 n) (heap_write target 0))"

lemma wp_get_ucode:
  "i < length (ucodes s) \<Longrightarrow> wp (get_ucode i) Q E s = Q (ucodes s ! i) s"
  by (simp add: get_ucode_def wp_simps)

lemma wp_put_ucode: "wp (put_ucode i c) Q E s = Q () (s\<lparr>ucodes := (ucodes s)[i := c]\<rparr>)"
  by (simp add: put_ucode_def wp_simps)

lemma wp_get_machine_code:
  "i < length (machine_codes s) \<Longrightarrow> wp (get_machine_code i) Q E s = Q (machine_codes s ! i) s"
  by (simp add: get_machine_code_def wp_simps)

lemma wp_put_machine_code:
  "wp (put_machine_code i c) Q E s = Q () (s\<lparr>machine_codes := (machine_codes s)[i := c]\<rparr>)"
  by (simp add: put_machine_code_def wp_simps)

lemmas slot_rules = wp_bind wp_ret wp_get_ucode wp_put_ucode wp_get_machine_code wp_put_machine_code

lemma wp_copy_block:
  assumes "target \<noteq> 0" "source \<noteq> 0" "heap s target = Some tb" "heap s source = Some sb"
    and "n \<le> length tb" "n \<le> length sb"
  shows "wp (copy_block target source n) Q E s =
    Q () (s\<lparr>heap := (heap s)(target \<mapsto> overwrite 0 (take n sb) tb)\<rparr>)"
proof (cases "n = 0")
  case True
  have "s\<lparr>heap := (heap s)(target \<mapsto> tb)\<rparr> = s" using assms(3) by (simp add: fun_upd_idem)
  then show ?thesis using True by (simp add: copy_block_def wp_ret)
qed (use assms in \<open>simp add: copy_block_def wp_simps\<close>)


text \<open>The first step of a computation, as equations: the rest of it stays as it is written.\<close>

named_theorems head_simps "the first step of a computation"

lemma bind_load_u32 [head_simps]:
  "off + 4 \<le> length b \<Longrightarrow> bind (load_u32 b off) f s = f (le_word (slice off 4 b)) s"
  by (simp add: bind_run load_u32_run)

lemma bind_load_u64 [head_simps]:
  "off + 8 \<le> length b \<Longrightarrow> bind (load_u64 b off) f s = f (le_word (slice off 8 b)) s"
  by (simp add: bind_run load_u64_run)

lemma bind_get_ucode [head_simps]: "i < length (ucodes s) \<Longrightarrow> bind (get_ucode i) f s = f (ucodes s ! i) s"
  by (simp add: bind_run get_ucode_def run_simps)

lemma bind_get_machine_code [head_simps]:
  "i < length (machine_codes s) \<Longrightarrow> bind (get_machine_code i) f s = f (machine_codes s ! i) s"
  by (simp add: bind_run get_machine_code_def run_simps)

lemma run_bind_returns: "wp (bind m f) Q (\<lambda>_ _. False) s \<Longrightarrow> \<exists>a t. bind m f s = Done a t \<and> Q a t"
  by (rule wp_total_returns)


section \<open>Valid slots\<close>

text \<open>An empty slot, or one that points to a block of the capacity with a length that fits.\<close>

definition slot_block :: "heap \<Rightarrow> nat \<Rightarrow> u64 \<Rightarrow> u64 \<Rightarrow> bool" where
  "slot_block h cap a n \<longleftrightarrow> a = 0 \<or> (\<exists>b. h a = Some b \<and> length b = cap \<and> unat n \<le> cap)"

lemma slot_block_write:
  "slot_block h cap a n \<Longrightarrow> h x = Some b \<Longrightarrow> length c = length b \<Longrightarrow> slot_block (h(x \<mapsto> c)) cap a n"
  by (auto simp: slot_block_def)

lemma slot_block_alloc:
  "slot_block h cap a n \<Longrightarrow> h x = None \<Longrightarrow> slot_block (h(x \<mapsto> c)) cap a n"
  by (auto simp: slot_block_def)

locale slot_array =
  fixes slots :: "'w state \<Rightarrow> 'c list" and put :: "nat \<Rightarrow> 'c \<Rightarrow> 'w state \<Rightarrow> 'w state"
    and addr :: "'c \<Rightarrow> u64" and len :: "'c \<Rightarrow> u64" and cap :: nat
  assumes slots_put: "slots (put i c s) = (slots s)[i := c]"
    and heap_put: "heap (put i c s) = heap s"
    and slots_heap: "slots (s\<lparr>heap := h\<rparr>) = slots s"
begin

definition valid :: "'w state \<Rightarrow> bool" where
  "valid s \<longleftrightarrow> (\<forall>c \<in> set (slots s). slot_block (heap s) cap (addr c) (len c))"

lemma valid_same: "slots t = slots s \<Longrightarrow> heap t = heap s \<Longrightarrow> valid t = valid s"
  by (simp add: valid_def)

lemma valid_slot: "valid s \<Longrightarrow> i < length (slots s) \<Longrightarrow> slot_block (heap s) cap (addr (slots s ! i)) (len (slots s ! i))"
  by (simp add: valid_def)

lemma valid_used:
  assumes "valid s" "i < length (slots s)" "addr (slots s ! i) \<noteq> 0"
  obtains b where "heap s (addr (slots s ! i)) = Some b" "length b = cap" "unat (len (slots s ! i)) \<le> cap"
  using valid_slot [OF assms(1,2)] assms(3) by (auto simp: slot_block_def)

lemma valid_put: "valid s \<Longrightarrow> slot_block (heap s) cap (addr c) (len c) \<Longrightarrow> valid (put i c s)"
  by (auto simp: valid_def slots_put heap_put dest: set_update_subset_insert [THEN subsetD])

lemma valid_write: "valid s \<Longrightarrow> heap s x = Some b \<Longrightarrow> length c = length b \<Longrightarrow> valid (s\<lparr>heap := (heap s)(x \<mapsto> c)\<rparr>)"
  by (auto simp: valid_def slots_heap intro: slot_block_write)

lemma valid_alloc: "valid s \<Longrightarrow> heap s x = None \<Longrightarrow> valid (s\<lparr>heap := (heap s)(x \<mapsto> c)\<rparr>)"
  by (auto simp: valid_def slots_heap intro: slot_block_alloc)

end

interpretation uslots: slot_array ucodes "\<lambda>i c s. s\<lparr>ucodes := (ucodes s)[i := c]\<rparr>" ucode ucode_length 16384
  by unfold_locales simp_all

interpretation mslots: slot_array machine_codes "\<lambda>i c s. s\<lparr>machine_codes := (machine_codes s)[i := c]\<rparr>"
    machine_code machine_code_length 1048576
  by unfold_locales simp_all

definition slots_ok :: "'w state \<Rightarrow> bool" where
  "slots_ok s \<longleftrightarrow>
     (\<forall>c \<in> set (ucodes s). slot_block (heap s) UCODE_SIZE (ucode c) (ucode_length c)) \<and>
     (\<forall>c \<in> set (machine_codes s). slot_block (heap s) MACHINE_CODE_SIZE (machine_code c) (machine_code_length c))"

lemma slots_ok_valid: "slots_ok s \<longleftrightarrow> uslots.valid s \<and> mslots.valid s"
  by (simp add: slots_ok_def uslots.valid_def mslots.valid_def)

lemma slots_ok_same:
  "ucodes t = ucodes s \<Longrightarrow> machine_codes t = machine_codes s \<Longrightarrow> heap t = heap s \<Longrightarrow> slots_ok t = slots_ok s"
  by (simp add: slots_ok_def)

lemma slots_ok_write:
  "slots_ok s \<Longrightarrow> heap s x = Some b \<Longrightarrow> length c = length b \<Longrightarrow> slots_ok (s\<lparr>heap := (heap s)(x \<mapsto> c)\<rparr>)"
  by (simp add: slots_ok_valid uslots.valid_write mslots.valid_write)

lemma slots_ok_alloc: "slots_ok s \<Longrightarrow> heap s x = None \<Longrightarrow> slots_ok (s\<lparr>heap := (heap s)(x \<mapsto> c)\<rparr>)"
  by (simp add: slots_ok_valid uslots.valid_alloc mslots.valid_alloc)

lemma slots_ok_put_ucode:
  assumes "slots_ok s" "slot_block (heap s) UCODE_SIZE (ucode c) (ucode_length c)"
  shows "slots_ok (s\<lparr>ucodes := (ucodes s)[i := c]\<rparr>)"
proof -
  have "uslots.valid (s\<lparr>ucodes := (ucodes s)[i := c]\<rparr>)"
    using assms by (intro uslots.valid_put) (auto simp: slots_ok_valid)
  then show ?thesis using assms(1) by (simp add: slots_ok_valid mslots.valid_def)
qed

lemma slots_ok_put_machine_code:
  assumes "slots_ok s" "slot_block (heap s) MACHINE_CODE_SIZE (machine_code c) (machine_code_length c)"
  shows "slots_ok (s\<lparr>machine_codes := (machine_codes s)[i := c]\<rparr>)"
proof -
  have "mslots.valid (s\<lparr>machine_codes := (machine_codes s)[i := c]\<rparr>)"
    using assms by (intro mslots.valid_put) (auto simp: slots_ok_valid)
  then show ?thesis using assms(1) by (simp add: slots_ok_valid uslots.valid_def)
qed


section \<open>Uploading\<close>

text \<open>A slot with address \<open>a\<close> and length \<open>n\<close> holds the bytes \<open>bs\<close>.\<close>

definition slot_holds :: "heap \<Rightarrow> u64 \<Rightarrow> u64 \<Rightarrow> u8 list \<Rightarrow> bool" where
  "slot_holds h a n bs \<longleftrightarrow> a \<noteq> 0 \<and> unat n = length bs \<and> (\<exists>b. h a = Some b \<and> take (length bs) b = bs)"

lemma ucast_u32_of_nat: "m < 4294967296 \<Longrightarrow> (ucast (of_nat m :: u32) :: u64) = of_nat m"
  by (rule word_unat_eq_iff [THEN iffD2]) simp

text \<open>
  What both upload handlers do after their checks: allocate the block of an empty slot, give up when there is no
  memory, record the length, copy the bytes.
\<close>

locale slot_access = slot_array slots put addr len cap
  for slots :: "'w state \<Rightarrow> 'c list" and put addr len cap +
  fixes getp :: "nat \<Rightarrow> ('w, 'c) prog" and putp :: "nat \<Rightarrow> 'c \<Rightarrow> ('w, unit) prog"
    and set_addr :: "u64 \<Rightarrow> 'c \<Rightarrow> 'c" and set_len :: "u64 \<Rightarrow> 'c \<Rightarrow> 'c"
  assumes getp: "getp i = bind (gets slots) (\<lambda>us. bind (require OutOfBounds (i < length us)) (\<lambda>_. ret (us ! i)))"
    and putp: "putp i c = modify (put i c)"
    and fields: "addr (set_addr a c) = a" "addr (set_len l c) = addr c" "len (set_len l c) = l"
      "set_addr (addr c) c = c"
    and put_same: "put i (slots s ! i) s = s"
    and put_put: "put i c (put i d s) = put i c s"
    and put_heap: "(put i c s)\<lparr>heap := h\<rparr> = put i c (s\<lparr>heap := h\<rparr>)"
    and slots_world: "slots (s\<lparr>world := w\<rparr>) = slots s"
begin

text \<open>The state after an upload of \<open>bs\<close>: the slot points to the block \<open>a\<close>, which was its own or is new.\<close>

definition uploaded :: "nat \<Rightarrow> u8 list \<Rightarrow> 'w state \<Rightarrow> 'w state \<Rightarrow> bool" where
  "uploaded i bs s t \<longleftrightarrow> (\<exists>a b w. a \<noteq> 0 \<and> length b = cap \<and>
     (addr (slots s ! i) = a \<and> heap s a = Some b \<or> addr (slots s ! i) = 0 \<and> heap s a = None) \<and>
     t = put i (set_len (of_nat (length bs)) (set_addr a (slots s ! i)))
       (s\<lparr>world := w, heap := (heap s)(a \<mapsto> overwrite 0 bs b)\<rparr>))"

lemma uploaded_valid:
  assumes "uploaded i bs s t" "valid s" "length bs \<le> cap" "cap < 2 ^ 64"
  shows "valid t"
proof -
  obtain a b w where a: "a \<noteq> 0" "length b = cap"
      "addr (slots s ! i) = a \<and> heap s a = Some b \<or> addr (slots s ! i) = 0 \<and> heap s a = None"
      "t = put i (set_len (of_nat (length bs)) (set_addr a (slots s ! i)))
         (s\<lparr>world := w, heap := (heap s)(a \<mapsto> overwrite 0 bs b)\<rparr>)"
    using assms(1) by (auto simp: uploaded_def)
  let ?u = "s\<lparr>world := w\<rparr>"
  have u: "valid ?u" using assms(2) valid_same [of ?u s] by (simp add: slots_world)
  have "valid (?u\<lparr>heap := (heap ?u)(a \<mapsto> overwrite 0 bs b)\<rparr>)"
    using a(2,3) assms(3) u valid_write [OF u, of a b "overwrite 0 bs b"] valid_alloc [OF u, of a "overwrite 0 bs b"]
    by auto
  then show ?thesis
    unfolding a(4) using a(2) assms(3,4)
    by (intro valid_put) (auto simp: slot_block_def fields)
qed

lemma uploaded_holds:
  assumes "uploaded i bs s t" "i < length (slots s)" "length bs \<le> cap" "cap < 2 ^ 64"
  shows "slot_holds (heap t) (addr (slots t ! i)) (len (slots t ! i)) bs"
    and "a \<noteq> addr (slots t ! i) \<Longrightarrow> heap t a = heap s a"
    and "j \<noteq> i \<Longrightarrow> slots t ! j = slots s ! j"
  using assms by (auto simp: uploaded_def slot_holds_def heap_put slots_put slots_heap slots_world fields buf_simps)

lemma put_null:
  assumes "addr (slots s ! i) = 0"
  shows "put i (set_addr 0 (slots s ! i)) (s\<lparr>world := w\<rparr>) = s\<lparr>world := w\<rparr>"
  using fields(4) [of "slots s ! i"] put_same [of i "s\<lparr>world := w\<rparr>"] assms by (simp add: slots_world)

lemma wp_upload:
  assumes doc: "alloc_pages_documented P" and ok: "valid s" "i < length (slots s)"
    and sizes: "n * 4096 = cap" "m \<le> cap" "8 + m \<le> length payload" "cap < 2 ^ 64"
    and none: "\<And>w. addr (slots s ! i) = 0 \<Longrightarrow> fst (alloc_pages_fw P n (heap s) (world s)) = 0 \<Longrightarrow>
      wp no_memory Q E (s\<lparr>world := w\<rparr>)"
    and done': "\<And>t. uploaded i (slice 8 m payload) s t \<Longrightarrow> valid t \<Longrightarrow> wp answer Q E t"
  shows "wp (bind (if addr (slots s ! i) = 0
        then bind (AllocatePages P n) (\<lambda>a. putp i (set_addr a (slots s ! i))) else ret ()) (\<lambda>_.
      bind (getp i) (\<lambda>c. if addr c = 0 then no_memory else
      bind (putp i (set_len (of_nat m) c)) (\<lambda>_.
      bind (load_bytes payload 8 m) (\<lambda>bs.
      bind (heap_write (addr c) 0 bs) (\<lambda>_. answer)))))) Q E s"
proof -
  let ?c = "slots s ! i"
  have len: "length (slice 8 m payload) = m" using sizes(3) by simp
  have finish: "wp answer Q E t"
    if "a \<noteq> 0" "length b = cap" "addr ?c = a \<and> heap s a = Some b \<or> addr ?c = 0 \<and> heap s a = None"
      "t = put i (set_len (of_nat m) (set_addr a ?c)) (s\<lparr>world := w, heap := (heap s)(a \<mapsto> overwrite 0 (slice 8 m payload) b)\<rparr>)"
    for a b w t
  proof -
    have "uploaded i (slice 8 m payload) s t" unfolding uploaded_def len using that by blast
    then show ?thesis using uploaded_valid ok(1) sizes(2,4) len by (intro done') auto
  qed
  show ?thesis
  proof (cases "addr ?c = 0")
    case False
    then obtain b where b: "heap s (addr ?c) = Some b" "length b = cap"
      using valid_used [OF ok] by metis
    show ?thesis
      using False b ok(2) sizes len fields(4)
      by (simp add: wp_simps getp putp heap_put put_heap slots_put)
        (rule finish [of "addr ?c" b _ "world s"], simp_all)
  next
    case True
    show ?thesis
      unfolding if_P [OF True] wp_bind
    proof (rule wp_AllocatePages [OF doc], goal_cases)
      case (1 w)
      then show ?case using True ok(2) none [OF True 1] put_null [OF True]
        by (simp add: wp_simps getp putp slots_put slots_world fields)
    next
      case (2 a b w)
      then show ?case using ok(2) sizes len True
        by (simp add: wp_simps getp putp slots_put slots_world fields slots_heap heap_put put_heap put_put)
          (rule finish [of a b _ w], simp_all)
    qed
  qed
qed

text \<open>More bytes than the capacity are written past the end of the block, or read past the end of the message.\<close>

lemma wp_upload_stops:
  assumes doc: "alloc_pages_documented P" and ok: "valid s" "i < length (slots s)"
    and sizes: "n * 4096 = cap" "cap < m \<or> length payload < 8 + m"
    and none: "\<And>w. addr (slots s ! i) = 0 \<Longrightarrow> fst (alloc_pages_fw P n (heap s) (world s)) = 0 \<Longrightarrow>
      wp no_memory Q E (s\<lparr>world := w\<rparr>)"
    and over: "\<And>t. E OutOfBounds t"
  shows "wp (bind (if addr (slots s ! i) = 0
        then bind (AllocatePages P n) (\<lambda>a. putp i (set_addr a (slots s ! i))) else ret ()) (\<lambda>_.
      bind (getp i) (\<lambda>c. if addr c = 0 then no_memory else
      bind (putp i (set_len (of_nat m) c)) (\<lambda>_.
      bind (load_bytes payload 8 m) (\<lambda>bs.
      bind (heap_write (addr c) 0 bs) (\<lambda>_. answer)))))) Q E s"
proof (cases "addr (slots s ! i) = 0")
  case False
  then obtain b where b: "heap s (addr (slots s ! i)) = Some b" "length b = cap"
    using valid_used [OF ok] by metis
  then show ?thesis using False ok(2) sizes over
    by (auto simp: wp_simps getp putp heap_put put_heap slots_put)
next
  case True
  show ?thesis
    unfolding if_P [OF True] wp_bind
  proof (rule wp_AllocatePages [OF doc], goal_cases)
    case (1 w)
    then show ?case using True ok(2) none [OF True 1] put_null [OF True]
        by (simp add: wp_simps getp putp slots_put slots_world fields)
  next
    case (2 a b w)
    then show ?case using ok(2) sizes over True
      by (auto simp: wp_simps getp putp slots_put slots_world fields slots_heap heap_put put_heap put_put)
  qed
qed


end

interpretation uaccess: slot_access ucodes "\<lambda>i c s. s\<lparr>ucodes := (ucodes s)[i := c]\<rparr>" ucode ucode_length 16384
    get_ucode put_ucode "\<lambda>a c. c\<lparr>ucode := a\<rparr>" "\<lambda>l c. c\<lparr>ucode_length := l\<rparr>"
  by unfold_locales (simp_all add: get_ucode_def put_ucode_def)

interpretation maccess: slot_access machine_codes "\<lambda>i c s. s\<lparr>machine_codes := (machine_codes s)[i := c]\<rparr>"
    machine_code machine_code_length 1048576
    get_machine_code put_machine_code "\<lambda>a c. c\<lparr>machine_code := a\<rparr>" "\<lambda>l c. c\<lparr>machine_code_length := l\<rparr>"
  by unfold_locales (simp_all add: get_machine_code_def put_machine_code_def)

lemma uploaded_slots_ok:
  assumes "slots_ok s" "a = 0 \<or> heap s a = None \<or> (\<exists>b'. heap s a = Some b' \<and> length b' = length b)" "a \<noteq> 0"
  shows "slots_ok (s\<lparr>world := w, heap := (heap s)(a \<mapsto> b)\<rparr>)"
proof -
  have ok: "slots_ok (s\<lparr>world := w\<rparr>)" using assms(1) slots_ok_same [of "s\<lparr>world := w\<rparr>" s] by simp
  then show ?thesis
    using assms(2,3) slots_ok_write [OF ok] slots_ok_alloc [OF ok] by auto
qed

lemma maccess_uploaded_slots_ok:
  assumes "maccess.uploaded i bs s t" "slots_ok s" "length bs \<le> 1048576"
  shows "slots_ok t"
proof -
  obtain a b w where a: "a \<noteq> 0" "length b = 1048576"
      "machine_code (machine_codes s ! i) = a \<and> heap s a = Some b \<or> machine_code (machine_codes s ! i) = 0 \<and> heap s a = None"
      "t = (let u = s\<lparr>world := w, heap := (heap s)(a \<mapsto> overwrite 0 bs b)\<rparr> in u\<lparr>machine_codes := (machine_codes u)[i :=
         (machine_codes s ! i)\<lparr>machine_code := a, machine_code_length := of_nat (length bs)\<rparr>]\<rparr>)"
    using assms(1) by (auto simp: maccess.uploaded_def Let_def)
  have "slots_ok (s\<lparr>world := w, heap := (heap s)(a \<mapsto> overwrite 0 bs b)\<rparr>)"
    by (rule uploaded_slots_ok [OF assms(2)]) (use a assms(3) in auto)
  then show ?thesis
    unfolding a(4) Let_def by (rule slots_ok_put_machine_code) (use a(2) assms(3) in \<open>auto simp: slot_block_def\<close>)
qed

lemma uaccess_uploaded_slots_ok:
  assumes "uaccess.uploaded i bs s t" "slots_ok s" "length bs \<le> 16384"
  shows "slots_ok t"
proof -
  obtain a b w where a: "a \<noteq> 0" "length b = 16384"
      "ucode (ucodes s ! i) = a \<and> heap s a = Some b \<or> ucode (ucodes s ! i) = 0 \<and> heap s a = None"
      "t = (let u = s\<lparr>world := w, heap := (heap s)(a \<mapsto> overwrite 0 bs b)\<rparr> in u\<lparr>ucodes := (ucodes u)[i :=
         (ucodes s ! i)\<lparr>ucode := a, ucode_length := of_nat (length bs)\<rparr>]\<rparr>)"
    using assms(1) by (auto simp: uaccess.uploaded_def Let_def)
  have "slots_ok (s\<lparr>world := w, heap := (heap s)(a \<mapsto> overwrite 0 bs b)\<rparr>)"
    by (rule uploaded_slots_ok [OF assms(2)]) (use a assms(3) in auto)
  then show ?thesis
    unfolding a(4) Let_def by (rule slots_ok_put_ucode) (use a(2) assms(3) in \<open>auto simp: slot_block_def\<close>)
qed

end
