(* ===== verification/Core_Protocol.thy ===== *)
theory Core_Protocol
  imports Cores Slots
begin

text \<open>
  What the cores of \<^verbatim>\<open>handlers/cores.c\<close> guarantee each other: the wait for a job ends, the flags of a
  context and the phase of its core stay consistent whatever the client's machine code computes, a
  queued job is executed, and a started core becomes ready.
\<close>

declare run_function.simps [simp del]


section \<open>Termination of the wait\<close>

definition never_hangs :: "('w, 'a) prog \<Rightarrow> bool" where
  "never_hangs m \<longleftrightarrow> (\<forall>s. wp m (\<lambda>_ _. True) (\<lambda>e _. e \<noteq> Hang) s)"

lemma never_hangs_iff: "never_hangs m \<longleftrightarrow> (\<forall>s t. m s \<noteq> Stop Hang t)"
  by (auto simp: never_hangs_def wp_def split: outcome.splits)

named_theorems hang_free "computations that never loop"

lemma never_hangs_basic [hang_free]:
  "never_hangs (ret v)" "e \<noteq> Hang \<Longrightarrow> never_hangs (stop e)" "never_hangs (gets f)" "never_hangs (modify g)"
  "e \<noteq> Hang \<Longrightarrow> never_hangs (require e b)" "e \<noteq> Hang \<Longrightarrow> never_hangs (from_option e x)" "never_hangs (on_world h)"
  "never_hangs (get_context core)" "never_hangs (update_context core f')"
  by (simp_all add: never_hangs_def wp_simps split: option.splits)

lemma never_hangs_bind [hang_free]: "never_hangs m \<Longrightarrow> (\<And>a. never_hangs (f a)) \<Longrightarrow> never_hangs (bind m f)"
  unfolding never_hangs_def wp_bind by (auto intro: wp_mono)

lemma never_hangs_if [hang_free]:
  "(b \<Longrightarrow> never_hangs m) \<Longrightarrow> (\<not> b \<Longrightarrow> never_hangs n) \<Longrightarrow> never_hangs (if b then m else n)"
  by simp

lemma never_hangs_option [hang_free]:
  "(x = None \<Longrightarrow> never_hangs m) \<Longrightarrow> (\<And>a. x = Some a \<Longrightarrow> never_hangs (f a)) \<Longrightarrow>
   never_hangs (case x of None \<Rightarrow> m | Some a \<Rightarrow> f a)"
  by (cases x) simp_all

lemma never_hangs_for_each [hang_free]: "(\<And>i. never_hangs (body i)) \<Longrightarrow> never_hangs (for_each is body)"
  by (induction "is") (simp_all add: hang_free)

lemma never_hangs_code [hang_free]: "never_hangs (call_machine_code P core addr)"
  by (auto simp: never_hangs_def call_machine_code_def wp_def split: option.splits code_end.splits prod.splits)

lemma never_hangs_words [hang_free]: "never_hangs (iterate_words a n i d)"
  by (induction n arbitrary: i d)
    (simp_all add: heap_read_def block_def load_bytes_def hang_free)

lemma never_hangs_stubs [hang_free]:
  "never_hangs (gp_handled P core)" "never_hangs (read_msr_stub P core m)" "never_hangs (write_msr_stub P core m v)"
  unfolding gp_handled_def read_msr_stub_def write_msr_stub_def
  by (intro hang_free; simp)+

lemma never_hangs_functions [hang_free]: "never_hangs (run_function P core call)"
  by (cases "func call")
    (simp_all add: run_function.simps read_msr_def read_frame_def write_frame_def prepare_ucode_update_def iterate_ucode_def
      apply_ucode_execute_machine_code_simple_def apply_ucode_execute_machine_code_restore_def
      apply_ucode_execute_machine_code_def m_apply_ucode_def execute_machine_code_def Let_def hang_free)

lemma never_hangs_lock [hang_free]: "never_hangs (try_lock_context core)" "never_hangs (unlock_context core)"
  unfolding try_lock_context_def unlock_context_def interlocked_compare_exchange_64_def
  by (intro hang_free; simp)+

lemma never_hangs_init [hang_free]: "never_hangs (core_main_loop_init P core)"
  by (simp add: core_main_loop_init_def write_idt_on_core_def get_cr3_def init_ibs_on_core_def lvt_store_def
      update_ibs_control_def get_ibs_control_def init_dsm_on_core_def set_phase_def Let_def hang_free)

lemma never_hangs_job [hang_free]: "never_hangs (job_step P core)"
proof -
  have job: "never_hangs (bind (run_job P core) (\<lambda>_. set_phase core ApLoop))"
    by (simp add: run_job_def call_core_functions_def set_phase_def hang_free)
  have fault: "never_hangs (core_fault P core f)" for f
    by (simp add: core_fault_def set_phase_def hang_free)
  have hung: "never_hangs (set_phase core ApHung)" by (simp add: set_phase_def hang_free)
  show ?thesis
    using job fault hung unfolding never_hangs_iff job_step_def
    by (auto split: outcome.splits stop_reason.splits)
qed

lemma never_hangs_ap_step [hang_free]: "never_hangs (ap_step P core)"
proof -
  have "never_hangs (case ph of ApOff \<Rightarrow> ret () | ApEntry \<Rightarrow> core_main_loop_entry_point P core
     | ApLoop \<Rightarrow> core_main_loop_iteration P core | ApJob \<Rightarrow> job_step P core | ApHung \<Rightarrow> ret ())" for ph
    by (cases ph) (simp_all add: core_main_loop_entry_point_def set_cr3_def core_main_loop_iteration_def
        accept_job_def get_tsc_def set_phase_def hang_free)
  then show ?thesis unfolding ap_step_def by (intro never_hangs_bind never_hangs_basic)
qed

lemma never_hangs_run_aps [hang_free]: "never_hangs (run_aps P)"
  by (simp add: run_aps_def hang_free)

text \<open>Looking for the end of a job changes nothing.\<close>

definition idle :: "CoreContext \<Rightarrow> bool" where
  "idle c \<longleftrightarrow> lock c = 0 \<and> ready c = 1 \<and> job_queued c = 0"

lemma wp_job_finished:
  "has_context core s \<Longrightarrow> wp (job_finished core) Q E s = Q (idle (context_of core s)) s"
proof -
  assume len: "has_context core s"
  have "with_context core (\<lambda>c. c\<lparr>lock := 0\<rparr>) s = s" if "lock (context_of core s) = 0"
    using that by (intro with_context_same) simp
  then show ?thesis using len by (auto simp: job_finished_def idle_def context_rules)
qed

lemma never_hangs_finished [hang_free]: "never_hangs (job_finished core)"
  by (simp add: job_finished_def hang_free)

text \<open>
  C29. A wait with a timeout always ends, whatever the other cores and the machine code do: it never loops
  forever, and when it reports that the job is done, the core is unlocked, ready and has no
  queued job.
\<close>

theorem wait_on_ap_exec_ends:
  assumes "timeout \<noteq> 0"
  shows "wp (wait_on_ap_exec P core timeout)
    (\<lambda>timed_out t. timed_out \<or> idle (context_of core t)) (\<lambda>e _. e \<noteq> Hang) s"
proof -
  have "wp (wait_with_timeout P core n) (\<lambda>timed_out t. timed_out \<or> idle (context_of core t)) (\<lambda>e _. e \<noteq> Hang) s"
    for n s
  proof (induction n arbitrary: s)
    case 0
    then show ?case by (simp add: wp_ret)
  next
    case (Suc n)
    show ?case
    proof (cases "has_context core s")
      case True
      have "wp (run_aps P) (\<lambda>_. wp (wait_with_timeout P core n)
          (\<lambda>timed_out t. timed_out \<or> idle (context_of core t)) (\<lambda>e _. e \<noteq> Hang)) (\<lambda>e _. e \<noteq> Hang) s"
        by (rule wp_mono [OF never_hangs_run_aps [unfolded never_hangs_def, rule_format]]) (use Suc in auto)
      then show ?thesis using True by (simp add: wp_bind wp_job_finished wp_ret)
    next
      case False
      then show ?thesis by (simp add: job_finished_def wp_bind wp_get_context)
    qed
  qed
  then show ?thesis using assms by (simp add: wait_on_ap_exec_def)
qed

section \<open>What a job may change\<close>

text \<open>
  The control flags of a context, and the contexts of other cores, belong to the protocol: a job leaves them
  alone. It may change everything else: its results, its recorded fault, the heap, local arrays.
\<close>

definition same_flags :: "CoreContext \<Rightarrow> CoreContext \<Rightarrow> bool" where
  "same_flags c d \<longleftrightarrow> lock d = lock c \<and> ready d = ready c \<and> job_queued d = job_queued c \<and>
     started d = started c \<and> present d = present c"

definition job_effect :: "u64 \<Rightarrow> 'w state \<Rightarrow> 'w state \<Rightarrow> bool" where
  "job_effect core s t \<longleftrightarrow> others_kept core s t \<and> ap_phases t = ap_phases s \<and>
     same_flags (context_of core s) (context_of core t) \<and>
     (buffers_ok s \<longrightarrow> buffers_ok t) \<and> (arrays_ok s \<longrightarrow> arrays_ok t) \<and> (slots_ok s \<longrightarrow> slots_ok t)"

lemma same_flags_refl [simp]: "same_flags c c"
  by (simp add: same_flags_def)

lemma job_effect_refl [simp]: "job_effect core s s"
  by (simp add: job_effect_def others_kept_def)

lemma job_effect_trans: "job_effect core s t \<Longrightarrow> job_effect core t u \<Longrightarrow> job_effect core s u"
  by (auto simp: job_effect_def others_kept_def same_flags_def)

lemma job_effect_length: "job_effect core s t \<Longrightarrow> length (core_contexts t) = length (core_contexts s)"
  by (simp add: job_effect_def others_kept_def)

lemma job_effect_world [simp]: "job_effect core s (s\<lparr>world := w\<rparr>)" "job_effect core s (s\<lparr>frames := fs\<rparr>)"
  by (simp_all add: job_effect_def others_kept_def buffers_ok_def arrays_ok_def slots_ok_def)

lemma job_effect_context: "same_flags (context_of core s) (f (context_of core s)) \<Longrightarrow> job_effect core s (with_context core f s)"
  by (cases "has_context core s")
    (auto simp: job_effect_def others_kept_def with_context_def buffers_ok_def arrays_ok_def slots_ok_def
      list_update_beyond)

text \<open>What is required of the client's machine code; its effect is otherwise arbitrary.\<close>

definition code_respects :: "'w platform \<Rightarrow> bool" where
  "code_respects P \<longleftrightarrow>
     (\<forall>core addr s r t. code_hw P (unat core) addr s = (r, t) \<longrightarrow> job_effect core s t)"

definition respectful :: "u64 \<Rightarrow> ('w, 'a) prog \<Rightarrow> bool" where
  "respectful core m \<longleftrightarrow> (\<forall>s. wp m (\<lambda>_. job_effect core s) (\<lambda>_. job_effect core s) s)"

named_theorems respectful_rules "computations of a core that leave the protocol alone"

lemma respectful_basic [respectful_rules]:
  "respectful core (ret v)" "respectful core (stop e)" "respectful core (gets f)"
  "respectful core (require e b)" "respectful core (from_option e x)" "respectful core (on_world h)"
  "respectful core (get_context core')"
  by (simp_all add: respectful_def wp_simps split: option.splits)

lemma respectful_update [respectful_rules]:
  "(\<And>c. same_flags c (f c)) \<Longrightarrow> respectful core (update_context core f)"
  using job_effect_context by (fastforce simp: respectful_def wp_update_context with_context_def)

lemma respectful_frames [respectful_rules]: "respectful core (modify (\<lambda>s. s\<lparr>frames := g s\<rparr>))"
  by (simp add: respectful_def wp_modify)

lemma respectful_bind [respectful_rules]:
  "respectful core m \<Longrightarrow> (\<And>a. respectful core (f a)) \<Longrightarrow> respectful core (bind m f)"
  unfolding respectful_def wp_def bind_def
  by (auto split: outcome.splits) (metis job_effect_trans outcome.case)+

lemma respectful_if [respectful_rules]:
  "(b \<Longrightarrow> respectful core m) \<Longrightarrow> (\<not> b \<Longrightarrow> respectful core n) \<Longrightarrow> respectful core (if b then m else n)"
  by simp

lemma respectful_option [respectful_rules]:
  "(x = None \<Longrightarrow> respectful core m) \<Longrightarrow> (\<And>a. x = Some a \<Longrightarrow> respectful core (f a)) \<Longrightarrow>
   respectful core (case x of None \<Rightarrow> m | Some a \<Rightarrow> f a)"
  by (cases x) simp_all

lemma respectful_for_each [respectful_rules]:
  "(\<And>i. respectful core (body i)) \<Longrightarrow> respectful core (for_each is body)"
  by (induction "is") (simp_all add: respectful_rules)

lemma respectful_words [respectful_rules]: "respectful core (iterate_words a n i d)"
  by (induction n arbitrary: i d) (simp_all add: heap_read_def block_def load_bytes_def respectful_rules)

lemma same_flags_update [simp]:
  "same_flags c (c\<lparr>fault_info := f\<rparr>)" "same_flags c (c\<lparr>scratch_space := b\<rparr>)"
  "same_flags c (c\<lparr>ret_gpf_value := v\<rparr>)" "same_flags c (c\<lparr>ret_rdtsc_value := v\<rparr>)" "same_flags c (c\<lparr>cr3_value := v\<rparr>)"
  "same_flags c (c\<lparr>ibs_control := ic\<rparr>)" "same_flags c (c\<lparr>heartbeat := v\<rparr>)"
  by (simp_all add: same_flags_def)

lemma respectful_stubs [respectful_rules]:
  "respectful core (gp_handled P core)" "respectful core (read_msr_stub P core m)"
  "respectful core (write_msr_stub P core m v)"
  unfolding gp_handled_def read_msr_stub_def write_msr_stub_def
  by (simp_all add: respectful_rules)

lemma code_respects_resume:
  assumes "code_respects P"
  shows "job_effect core s (snd (resume_code P core (r, s)))"
proof (cases r)
  case (Faulted f)
  have code: "job_effect core u (snd (code_hw P (unat core) addr u))" for u addr
    using assms unfolding code_respects_def by (metis prod.collapse)
  show ?thesis
  proof (cases "core = 0 \<or> fault_info (context_of core s) = None")
    case True
    then show ?thesis using Faulted code by (auto simp: Let_def split: option.splits)
  next
    case False
    then obtain i where i: "fault_info (context_of core s) = Some i" by auto
    let ?u = "with_context core (\<lambda>c. c\<lparr>fault_info := Some (fst (proto_handler P core 13 f i))\<rparr>) s"
    have "job_effect core s ?u" by (rule job_effect_context) simp
    moreover have "snd (resume_code P core (r, s)) = snd (run_code P core (stack_word f 1 + 2) ?u)"
      using False i Faulted by (simp add: with_context_def del: snd_run_code)
    moreover have "job_effect core ?u (snd (run_code P core (stack_word f 1 + 2) ?u))" unfolding snd_run_code by (rule code)
    ultimately show ?thesis by (simp only: job_effect_trans)
  qed
qed simp_all

lemma respectful_code [respectful_rules]:
  assumes P: "code_respects P"
  shows "respectful core (call_machine_code P core addr)"
  unfolding respectful_def
proof
  fix s
  have start: "job_effect core s (snd (run_code P core addr s))"
    using P unfolding snd_run_code code_respects_def by (metis prod.collapse)
  let ?loop = "while_option (\<lambda>(r, _). general_protection r) (resume_code P core) (run_code P core addr s)"
  have inv: "job_effect core s (snd y)" if "?loop = Some y" for y
  proof (rule while_option_rule [where P = "\<lambda>y. job_effect core s (snd y)", OF _ that start])
    fix y :: "code_end \<times> 'a state" assume "job_effect core s (snd y)"
    then show "job_effect core s (snd (resume_code P core y))"
      using code_respects_resume [OF P, of core "snd y" "fst y"] job_effect_trans by fastforce
  qed
  show "wp (call_machine_code P core addr) (\<lambda>_. job_effect core s) (\<lambda>_. job_effect core s) s"
  proof (cases ?loop)
    case None
    then show ?thesis by (simp add: wp_def call_machine_code_def)
  next
    case (Some y)
    then show ?thesis using inv [OF Some]
      by (cases y; cases "fst y") (auto simp: wp_def call_machine_code_def)
  qed
qed

lemma respectful_functions [respectful_rules]:
  "code_respects P \<Longrightarrow> respectful core (run_function P core call)"
  by (cases "func call")
    (simp_all add: run_function.simps read_msr_def read_frame_def write_frame_def prepare_ucode_update_def
      iterate_ucode_def apply_ucode_execute_machine_code_simple_def apply_ucode_execute_machine_code_restore_def
      apply_ucode_execute_machine_code_def m_apply_ucode_def execute_machine_code_def Let_def respectful_rules)

lemma respectful_job [respectful_rules]:
  "code_respects P \<Longrightarrow> respectful core (call_core_functions P core)"
  by (simp add: call_core_functions_def respectful_rules)

section \<open>The protocol between the cores\<close>

text \<open>What the flags of a context say about the phase of its core.\<close>

definition core_protocol :: "ap_phase \<Rightarrow> CoreContext \<Rightarrow> bool" where
  "core_protocol ph c \<longleftrightarrow> (case ph of
     ApOff \<Rightarrow> started c \<noteq> 1
   | ApEntry \<Rightarrow> started c \<noteq> 1 \<and> lock c = 1
   | ApLoop \<Rightarrow> started c = 1 \<and> ready c = 1
   | ApJob \<Rightarrow> started c = 1 \<and> lock c = 1 \<and> ready c = 0 \<and> job_queued c = 0
   | ApHung \<Rightarrow> started c = 1 \<and> lock c = 1 \<and> ready c = 0)"

definition protocol :: "'w state \<Rightarrow> bool" where
  "protocol s \<longleftrightarrow> buffers_ok s \<and> arrays_ok s \<and> slots_ok s \<and> ap_phases s ! 0 = ApOff \<and>
     (\<forall>i. 0 < i \<longrightarrow> i < 128 \<longrightarrow> core_protocol (ap_phases s ! i) (core_contexts s ! i))"

lemma core_protocol_flags: "same_flags c d \<Longrightarrow> core_protocol ph c \<Longrightarrow> core_protocol ph d"
  by (auto simp: core_protocol_def same_flags_def split: ap_phase.splits)

lemma protocol_ok: "protocol s \<Longrightarrow> buffers_ok s" "protocol s \<Longrightarrow> arrays_ok s" "protocol s \<Longrightarrow> slots_ok s"
  by (simp_all add: protocol_def)

lemma protocol_job_effect:
  assumes "protocol s" "job_effect core s t"
  shows "protocol t"
proof -
  have "core_protocol (ap_phases t ! i) (core_contexts t ! i)" if "0 < i" "i < 128" for i
    using assms that by (cases "i = unat core")
      (auto simp: protocol_def job_effect_def others_kept_def intro: core_protocol_flags)
  then show ?thesis using assms by (simp add: protocol_def job_effect_def)
qed

text \<open>A step that changes one context and its phase.\<close>

definition with_phase :: "u64 \<Rightarrow> ap_phase \<Rightarrow> 'w state \<Rightarrow> 'w state" where
  "with_phase core ph s = s\<lparr>ap_phases := (ap_phases s)[unat core := ph]\<rparr>"

lemma wp_set_phase: "wp (set_phase core ph) Q E s = Q () (with_phase core ph s)"
  by (simp add: set_phase_def wp_modify with_phase_def)

lemma protocol_step:
  assumes "protocol s" "core \<noteq> 0" "unat core < 128 \<Longrightarrow> core_protocol ph (f (context_of core s))"
  shows "protocol (with_phase core ph (with_context core f s))"
proof -
  have len: "length (ap_phases s) = 128" "length (core_contexts s) = 128"
    using protocol_ok(2) [OF assms(1)] by (simp_all add: arrays_ok_def)
  have "0 < unat core" using assms(2) by (simp add: unat_gt_0)
  moreover have "core_protocol (ap_phases (with_phase core ph (with_context core f s)) ! i)
      (core_contexts (with_phase core ph (with_context core f s)) ! i)" if "0 < i" "i < 128" for i
    using assms(1,3) that len
    by (cases "i = unat core") (auto simp: protocol_def with_phase_def with_context_def)
  ultimately show ?thesis
    using assms(1)
    by (auto simp: protocol_def with_phase_def with_context_def buffers_ok_def arrays_ok_def slots_ok_def)
qed

lemma with_phase_same: "ap_phase_of core s = ph \<Longrightarrow> unat core < length (ap_phases s) \<Longrightarrow> with_phase core ph s = s"
  by (auto simp: with_phase_def ap_phase_of_def)

lemma protocol_core:
  assumes "protocol s" "core \<noteq> 0" "unat core < 128"
  shows "core_protocol (ap_phase_of core s) (context_of core s)" "has_context core s"
    "unat core < length (ap_phases s)"
  using assms by (auto simp: protocol_def ap_phase_of_def arrays_ok_def unat_gt_0)

text \<open>The start of the main loop, from any state in which the core owns its context.\<close>

lemma core_init_prefix:
  "respectful core (bind (write_idt_on_core P core) (\<lambda>_. bind (get_cr3 P core) (\<lambda>cr3.
     bind (update_context core (\<lambda>c. c\<lparr>cr3_value := cr3\<rparr>)) (\<lambda>_. bind (init_ibs_on_core P core) (\<lambda>_.
     init_dsm_on_core core)))))"
  by (simp add: write_idt_on_core_def get_cr3_def init_ibs_on_core_def lvt_store_def update_ibs_control_def
      get_ibs_control_def init_dsm_on_core_def Let_def respectful_rules)

definition running :: "CoreContext \<Rightarrow> CoreContext" where
  "running c = c\<lparr>started := 1, ready := 1, job_queued := 0, lock := 0\<rparr>"

lemma core_main_loop_init_split:
  "core_main_loop_init P core =
     bind (bind (write_idt_on_core P core) (\<lambda>_. bind (get_cr3 P core) (\<lambda>cr3.
       bind (update_context core (\<lambda>c. c\<lparr>cr3_value := cr3\<rparr>)) (\<lambda>_. bind (init_ibs_on_core P core) (\<lambda>_.
       init_dsm_on_core core))))) (\<lambda>_.
     bind (update_context core (\<lambda>c. c\<lparr>started := 1\<rparr>)) (\<lambda>_.
     bind (update_context core (\<lambda>c. c\<lparr>ready := 1\<rparr>)) (\<lambda>_.
     bind (update_context core (\<lambda>c. c\<lparr>job_queued := 0\<rparr>)) (\<lambda>_.
     bind (unlock_context core) (\<lambda>_.
     set_phase core ApLoop)))))"
  by (simp add: core_main_loop_init_def bind_assoc)

lemma wp_core_main_loop_tail:
  assumes "has_context core s"
  shows "wp (bind (update_context core (\<lambda>c. c\<lparr>started := 1\<rparr>)) (\<lambda>_.
     bind (update_context core (\<lambda>c. c\<lparr>ready := 1\<rparr>)) (\<lambda>_.
     bind (update_context core (\<lambda>c. c\<lparr>job_queued := 0\<rparr>)) (\<lambda>_.
     bind (unlock_context core) (\<lambda>_.
     set_phase core ApLoop))))) Q E s = Q () (with_phase core ApLoop (with_context core running s))"
  using assms by (simp add: context_rules wp_set_phase running_def [abs_def])

lemma wp_core_main_loop_init:
  assumes "has_context core s"
  shows "wp (core_main_loop_init P core)
    (\<lambda>_ t. \<exists>u. job_effect core s u \<and> t = with_phase core ApLoop (with_context core running u)) (\<lambda>_ _. True) s"
  unfolding core_main_loop_init_split wp_bind [of "bind (write_idt_on_core P core) _"]
proof (rule wp_mono [OF core_init_prefix [unfolded respectful_def, rule_format]])
  fix u assume "job_effect core s u"
  moreover from this have "has_context core u" using assms job_effect_length by metis
  ultimately show "wp (bind (update_context core (\<lambda>c. c\<lparr>started := 1\<rparr>)) (\<lambda>_.
     bind (update_context core (\<lambda>c. c\<lparr>ready := 1\<rparr>)) (\<lambda>_.
     bind (update_context core (\<lambda>c. c\<lparr>job_queued := 0\<rparr>)) (\<lambda>_.
     bind (unlock_context core) (\<lambda>_.
     set_phase core ApLoop)))))
    (\<lambda>_ t. \<exists>u. job_effect core s u \<and> t = with_phase core ApLoop (with_context core running u)) (\<lambda>_ _. True) u"
    by (auto simp: wp_core_main_loop_tail)
qed simp

lemma protocol_running:
  assumes "protocol s" "core \<noteq> 0" "job_effect core s u"
  shows "protocol (with_phase core ApLoop (with_context core running u))"
  by (rule protocol_step [OF protocol_job_effect [OF assms(1,3)] assms(2)])
    (simp add: core_protocol_def running_def)

lemma wp_init_protocol:
  assumes "protocol s" "core \<noteq> 0" "has_context core s"
  shows "wp (core_main_loop_init P core) (\<lambda>_. protocol) (\<lambda>_ _. True) s"
  by (rule wp_mono [OF wp_core_main_loop_init [OF assms(3)]])
    (use protocol_running [OF assms(1,2)] in auto)

definition job_done :: "CoreContext \<Rightarrow> CoreContext" where
  "job_done c = c\<lparr>ready := 1, lock := 0\<rparr>"

text \<open>The execution of a job: its functions, then the flags; a stop can only come from the functions.\<close>

lemma run_job_result:
  assumes P: "code_respects P" and len: "has_context core s"
  shows "bind (run_job P core) (\<lambda>_. set_phase core ApLoop) s =
    (case call_core_functions P core s of
       Done _ t \<Rightarrow> Done () (with_phase core ApLoop (with_context core job_done t))
     | Stop e t \<Rightarrow> Stop e t)"
proof (cases "call_core_functions P core s")
  case (Done x t)
  then have "job_effect core s t"
    using respectful_job [OF P, of core] wp_DoneD unfolding respectful_def by metis
  then have "has_context core t" using len job_effect_length by metis
  then have "wp (bind (update_context core (\<lambda>c. c\<lparr>ready := 1\<rparr>)) (\<lambda>_. bind (unlock_context core) (\<lambda>_. set_phase core ApLoop)))
      (\<lambda>_ u. u = with_phase core ApLoop (with_context core job_done t)) (\<lambda>_ _. False) t"
    by (simp add: context_rules wp_set_phase job_done_def [abs_def])
  from wp_total_returns [OF this] show ?thesis
    by (auto simp: run_job_def bind_assoc bind_run Done)
next
  case (Stop e t)
  then show ?thesis by (simp add: run_job_def bind_run)
qed

lemma job_functions_effect:
  assumes "code_respects P"
  shows "call_core_functions P core s = Done x t \<Longrightarrow> job_effect core s t"
    and "call_core_functions P core s = Stop e t \<Longrightarrow> job_effect core s t"
  using respectful_job [OF assms, of core] wp_DoneD wp_StopD unfolding respectful_def by metis+

lemma with_context_id [simp]: "with_context core (\<lambda>c. c) s = s"
  by (simp add: with_context_def)

lemma protocol_hung:
  assumes "protocol s" "core \<noteq> 0" "ap_phase_of core s = ApJob"
  shows "protocol (with_phase core ApHung s)"
proof -
  have "protocol (with_phase core ApHung (with_context core (\<lambda>c. c) s))"
    by (rule protocol_step [OF assms(1,2)])
      (use protocol_core(1) [OF assms(1,2)] assms(3) in \<open>auto simp: core_protocol_def\<close>)
  then show ?thesis by simp
qed

lemma ap_phase_effect: "job_effect core s t \<Longrightarrow> ap_phase_of c t = ap_phase_of c s"
  by (simp add: job_effect_def ap_phase_of_def)

lemma wp_core_fault:
  assumes s: "protocol s" "core \<noteq> 0" "ap_phase_of core s = ApJob" "unat core < 128"
  shows "wp (core_fault P core f) (\<lambda>_. protocol) (\<lambda>_ _. True) s"
proof -
  note core = protocol_core [OF s(1,2,4)]
  let ?u = "\<lambda>i. with_context core (\<lambda>c. c\<lparr>fault_info := Some i\<rparr>) s"
  have eff: "job_effect core s (?u i)" for i by (rule job_effect_context) simp
  have pu: "protocol (?u i)" for i by (rule protocol_job_effect [OF s(1) eff])
  have "wp (core_main_loop_init P core) (\<lambda>_. protocol) (\<lambda>_ _. True) (?u i)" for i
    by (rule wp_init_protocol [OF pu s(2)]) (use core(2) in simp)
  moreover have "protocol (with_phase core ApHung (?u i))" for i
    by (rule protocol_hung [OF pu s(2)]) (simp add: s(3))
  ultimately show ?thesis
    using core(2) by (simp add: core_fault_def context_rules wp_from_option wp_set_phase split: option.splits)
qed

lemma wp_job_step:
  assumes P: "code_respects P" and s: "protocol s" "core \<noteq> 0" "ap_phase_of core s = ApJob" "unat core < 128"
  shows "wp (job_step P core) (\<lambda>_. protocol) (\<lambda>_ _. True) s"
proof -
  note core = protocol_core [OF s(1,2,4)]
  note eff = job_functions_effect [OF P, of core s] and res = run_job_result [OF P core(2)]
  show ?thesis
  proof (cases "call_core_functions P core s")
    case (Done x t)
    have "core_protocol ApJob (context_of core t)"
      using core_protocol_flags [of "context_of core s" "context_of core t"] eff(1) [OF Done] core(1) s(3)
      by (simp add: job_effect_def)
    then have "protocol (with_phase core ApLoop (with_context core job_done t))"
      by (intro protocol_step [OF protocol_job_effect [OF s(1) eff(1) [OF Done]] s(2)])
        (auto simp: core_protocol_def job_done_def)
    then show ?thesis by (simp add: wp_def job_step_def res Done)
  next
    case (Stop e t)
    have t: "protocol t" "ap_phase_of core t = ApJob"
      using protocol_job_effect [OF s(1) eff(2) [OF Stop]] ap_phase_effect [OF eff(2) [OF Stop]] s(3) by auto
    have fault: "wp (core_fault P core f) (\<lambda>_. protocol) (\<lambda>_ _. True) t" for f
      by (rule wp_core_fault [OF t(1) s(2) t(2) s(4)])
    have hung: "wp (set_phase core ApHung) (\<lambda>_. protocol) (\<lambda>_ _. True) t"
      using protocol_hung [OF t(1) s(2) t(2)] by (simp add: wp_set_phase)
    show ?thesis
      using fault hung by (cases e) (simp_all add: wp_def job_step_def res Stop)
  qed
qed

lemma wp_accept_partial:
  assumes "has_context core s" "Q False s"
    and "lock (context_of core s) = 0 \<Longrightarrow> job_queued (context_of core s) \<noteq> 0 \<Longrightarrow> Q True (with_context core accepted s)"
  shows "wp (accept_job core) Q (\<lambda>_ _. True) s"
proof (cases "fault_info (context_of core s)")
  case None
  have "with_context core (\<lambda>c. c\<lparr>lock := 0\<rparr>) s = s" if "lock (context_of core s) = 0"
    using that by (intro with_context_same) simp
  then show ?thesis using None assms(1,2) by (auto simp: accept_job_def context_rules wp_from_option)
next
  case (Some i)
  then show ?thesis using wp_accept_job [OF assms(1), of Q "\<lambda>_ _. True"] assms(2,3) by auto
qed

lemma wp_ap_step:
  assumes P: "code_respects P" and s: "protocol s"
  shows "wp (ap_step P core) (\<lambda>_. protocol) (\<lambda>_ _. True) s"
proof (cases "core \<noteq> 0 \<and> unat core < 128")
  case False
  then have "ap_phase_of core s = ApOff" using s by (auto simp: ap_phase_of_def arrays_ok_def protocol_def)
  then show ?thesis using s by (simp add: ap_step_def wp_bind wp_gets wp_ret)
next
  case True
  then have core: "core \<noteq> 0" and lt: "unat core < 128" by simp_all
  note facts = protocol_core [OF s core lt]
  show ?thesis
  proof (cases "ap_phase_of core s")
    case ApEntry
    let ?u = "s\<lparr>world := set_cr3_hw P core (cr3_value (context_of core s)) (world s)\<rparr>"
    have "wp (core_main_loop_init P core) (\<lambda>_. protocol) (\<lambda>_ _. True) ?u"
      by (rule wp_init_protocol [OF protocol_job_effect [OF s job_effect_world(1)] core]) (use facts in simp)
    then show ?thesis
      using facts(2) ApEntry
      by (simp add: ap_step_def core_main_loop_entry_point_def set_cr3_def wp_bind wp_gets wp_get_with wp_on_world)
  next
    case ApLoop
    let ?u = "with_context core (\<lambda>c. c\<lparr>heartbeat := fst (rdtsc_hw P (world s))\<rparr>) (s\<lparr>world := snd (rdtsc_hw P (world s))\<rparr>)"
    have eff: "job_effect core s ?u"
      by (rule job_effect_trans [OF job_effect_world(1)]) (rule job_effect_context, simp)
    have pu: "protocol ?u" by (rule protocol_job_effect [OF s eff])
    have phase: "ap_phase_of core ?u = ApLoop" using ap_phase_effect [OF eff] ApLoop by simp
    have loop: "core_protocol ApLoop (context_of core ?u)" "has_context core ?u"
      using protocol_core [OF pu core lt] phase by auto
    have "protocol (with_phase core ApJob (with_context core accepted ?u))"
      by (rule protocol_step [OF pu core]) (use loop(1) in \<open>auto simp: core_protocol_def accepted_def\<close>)
    then have "wp (accept_job core) (\<lambda>ok. wp (if ok then set_phase core ApJob else ret ()) (\<lambda>_. protocol) (\<lambda>_ _. True))
      (\<lambda>_ _. True) ?u"
      using pu by (intro wp_accept_partial [OF loop(2)]) (simp_all add: wp_ret wp_set_phase)
    then have "wp (if lock (context_of core ?u) \<noteq> 0 then ret () else if job_queued (context_of core ?u) \<noteq> 0
        then bind (accept_job core) (\<lambda>ok. if ok then set_phase core ApJob else ret ()) else ret ())
      (\<lambda>_. protocol) (\<lambda>_ _. True) ?u"
      using pu by (simp add: wp_bind wp_ret)
    then show ?thesis
      using facts(2) ApLoop loop(2)
      by (simp add: ap_step_def core_main_loop_iteration_def get_tsc_def wp_bind wp_gets wp_on_world
          wp_update_with wp_get_with)
  next
    case ApJob
    then show ?thesis
      using wp_job_step [OF P s core ApJob lt] by (simp add: ap_step_def wp_bind wp_gets)
  qed (use s in \<open>simp_all add: ap_step_def wp_bind wp_gets wp_ret\<close>)
qed

lemma wp_ap_steps:
  assumes "code_respects P" "protocol s"
  shows "wp (for_each cs (ap_step P)) (\<lambda>_. protocol) (\<lambda>_ _. True) s"
  by (rule wp_for_each_inv) (use assms wp_ap_step in auto)

lemma wp_run_aps_protocol:
  assumes "code_respects P" "protocol s"
  shows "wp (run_aps P) (\<lambda>_. protocol) (\<lambda>_ _. True) s"
proof -
  have "protocol (s\<lparr>world := w\<rparr>)" for w
    by (rule protocol_job_effect [OF assms(2) job_effect_world(1)])
  then show ?thesis using wp_ap_steps [OF assms(1)] by (simp add: run_aps_def wp_bind wp_on_world)
qed

text \<open>
  C7. Whatever the client's machine code computes, as long as it leaves the flags of the contexts alone, no sequence of
  steps of application processors breaks the protocol: a core that waits in its main loop is started and ready, and a core that
  executes a job, or is lost in one, holds its lock and is not ready, also after faults and recovery.
\<close>

theorem ap_steps_keep_protocol:
  assumes "code_respects P" "protocol s"
  shows "wp (for_each cs (ap_step P)) (\<lambda>_. protocol) (\<lambda>_ _. True) s"
  by (rule wp_ap_steps [OF assms])

text \<open>
  A job that is queued for a core in its main loop is accepted in the next step of this core, and executed by the one after it: when the
  functions return, the core is unlocked, ready, has no queued job, and is back in its loop; the functions ran once, in
  a locked context.
\<close>

lemma queued_job_accepted:
  assumes ctx: "has_context core s"
    and loop: "ap_phase_of core s = ApLoop" "fault_info (context_of core s) \<noteq> None"
    and job: "lock (context_of core s) = 0" "job_queued (context_of core s) \<noteq> 0"
  shows "ap_step P core s = Done () (with_phase core ApJob (with_context core accepted
    (with_context core (\<lambda>c. c\<lparr>heartbeat := fst (rdtsc_hw P (world s))\<rparr>) (s\<lparr>world := snd (rdtsc_hw P (world s))\<rparr>))))"
    (is "_ = Done () ?v")
proof -
  let ?u = "with_context core (\<lambda>c. c\<lparr>heartbeat := fst (rdtsc_hw P (world s))\<rparr>) (s\<lparr>world := snd (rdtsc_hw P (world s))\<rparr>)"
  have u: "has_context core ?u" "context_of core ?u = (context_of core s)\<lparr>heartbeat := fst (rdtsc_hw P (world s))\<rparr>"
    using ctx by simp_all
  have "wp (ap_step P core) (\<lambda>_ x. x = ?v) (\<lambda>_ _. False) s"
    using ctx loop job wp_accept_job [OF u(1)] u
    by (simp add: ap_step_def core_main_loop_iteration_def get_tsc_def wp_bind wp_gets wp_on_world
        wp_update_with wp_get_with wp_set_phase)
  then show ?thesis by (auto dest: wp_total_returns)
qed

lemma accepted_job_completes:
  assumes P: "code_respects P" and ctx: "has_context core v" and phase: "ap_phase_of core v = ApJob"
    and flag: "job_queued (context_of core v) = 0" and fns: "call_core_functions P core v = Done () t"
  shows "ap_step P core v = Done () (with_phase core ApLoop (with_context core job_done t)) \<and>
    idle (context_of core (with_phase core ApLoop (with_context core job_done t)))"
proof -
  note eff = job_functions_effect(1) [OF P fns]
  have "ap_step P core v = Done () (with_phase core ApLoop (with_context core job_done t))"
    using run_job_result [OF P ctx] fns phase by (simp add: ap_step_def bind_run gets_run job_step_def)
  moreover have "has_context core t" using job_effect_length [OF eff] ctx by simp
  moreover have "job_queued (context_of core t) = 0" using eff flag by (simp add: job_effect_def same_flags_def)
  ultimately show ?thesis by (simp add: with_phase_def idle_def job_done_def)
qed

lemma queued_job_completes:
  assumes P: "code_respects P" and s: "protocol s" and core: "core \<noteq> 0" "unat core < 128"
    and loop: "ap_phase_of core s = ApLoop" "fault_info (context_of core s) \<noteq> None"
    and job: "lock (context_of core s) = 0" "job_queued (context_of core s) \<noteq> 0"
    and fns: "call_core_functions P core (with_phase core ApJob (with_context core accepted
        (with_context core (\<lambda>c. c\<lparr>heartbeat := fst (rdtsc_hw P (world s))\<rparr>) (s\<lparr>world := snd (rdtsc_hw P (world s))\<rparr>)))) =
      Done () t"
  shows "for_each [core, core] (ap_step P) s = Done () (with_phase core ApLoop (with_context core job_done t)) \<and>
    idle (context_of core (with_phase core ApLoop (with_context core job_done t)))"
proof -
  let ?v = "with_phase core ApJob (with_context core accepted
    (with_context core (\<lambda>c. c\<lparr>heartbeat := fst (rdtsc_hw P (world s))\<rparr>) (s\<lparr>world := snd (rdtsc_hw P (world s))\<rparr>)))"
  note facts = protocol_core [OF s core]
  have v: "ap_phase_of core ?v = ApJob" "has_context core ?v" "job_queued (context_of core ?v) = 0"
    using facts(2,3) by (simp_all add: with_phase_def ap_phase_of_def accepted_def)
  have one: "ap_step P core s = Done () ?v" by (rule queued_job_accepted [OF facts(2) loop job])
  from accepted_job_completes [OF P v(2,1,3) fns]
  show ?thesis by (simp only: for_each.simps bind_run one ret_run outcome.case simp_thms)
qed


section \<open>The theorems at the example state\<close>

lemma demo_code_respects: "code_respects demo_platform"
  by (simp add: code_respects_def demo_platform_def)

lemma demo_protocol: "protocol demo_core_state"
proof -
  have "core_protocol (ap_phases demo_core_state ! i) (core_contexts demo_core_state ! i)" if "i < 128" for i
    using that by (cases "i = 1"; cases "i = 2")
      (simp_all add: demo_core_state_def demo_state_def core_protocol_def demo_core_def zero_context_def)
  moreover have "ap_phases demo_core_state ! 0 = ApOff" by (simp add: demo_core_state_def demo_state_def)
  moreover have "slots_ok demo_core_state"
    by (simp add: slots_ok_def slot_block_def demo_core_state_def demo_state_def)
  ultimately show ?thesis using demo_core_state_facts(1,2) by (simp add: protocol_def)
qed

lemma wait_on_ap_exec_ends_witness:
  "wp (wait_on_ap_exec demo_platform 2 5) (\<lambda>timed_out t. timed_out \<or> idle (context_of 2 t)) (\<lambda>e _. e \<noteq> Hang)
     demo_core_state"
  using wait_on_ap_exec_ends [of 5 demo_platform 2 demo_core_state] by simp

lemma ap_steps_keep_protocol_witness:
  "wp (for_each [1, 2, 1, 2] (ap_step demo_platform)) (\<lambda>_. protocol) (\<lambda>_ _. True) demo_core_state"
  using ap_steps_keep_protocol [OF demo_code_respects demo_protocol, of "[1, 2, 1, 2]"] by simp

lemma demo_no_functions:
  assumes "has_context core s" "core_functions (context_of core s) = replicate 3 null_call"
  shows "call_core_functions demo_platform core s = Done () s"
proof -
  have "wp (call_core_functions demo_platform core) (\<lambda>_ t. t = s) (\<lambda>_ _. False) s"
    using assms unfolding call_core_functions_def function_slots
    by (simp add: wp_bind wp_get_with wp_require wp_ret null_call_def run_function.simps)
  then show ?thesis by (auto dest: wp_total_returns)
qed

lemma accepted_functions:
  "has_context core s \<Longrightarrow> core_functions (context_of core (with_phase core ApJob (with_context core accepted
     (with_context core (\<lambda>c. c\<lparr>heartbeat := v\<rparr>) (s\<lparr>world := w\<rparr>))))) = core_functions (context_of core s)"
  by (simp add: with_phase_def accepted_def)

end
