(* ===== verification/Ucode_Execute.thy ===== *)
theory Ucode_Execute
  imports Core_Protocol
begin

text \<open>
  \<^verbatim>\<open>handlers/ucode_execute.c\<close>: uploading machine code, running it on a core, alone or after a microcode update,
  and reporting the results.
\<close>

section \<open>Uploading machine code\<close>

definition machine_code_pages :: nat where
  "machine_code_pages = unat (ROUND_UP (of_nat MACHINE_CODE_SIZE) 4096 div 4096)"

definition handle_send_machine_code :: "'w platform \<Rightarrow> u8 list \<Rightarrow> u64 \<Rightarrow> ('w, efi_status) prog" where
  "handle_send_machine_code P payload payload_length =
     (if payload_length < 8 then
        reject P ''SENDMACHINECODE is too short, need at least 8 Bytes, got %u.'' [payload_length]
          0x1 EFI_INVALID_PARAMETER
      else
        bind (load_u32 payload 0) (\<lambda>target_slot.
        bind (load_u32 payload 4) (\<lambda>machine_code_size.
        if of_nat MACHINE_CODE_SLOTS - 1 < target_slot then
          reject P ''Invalid target slot, got %u, max %u.'' [ucast target_slot, of_nat MACHINE_CODE_SLOTS - 1]
            0x2 EFI_INVALID_PARAMETER
        else
        bind (get_machine_code (unat target_slot)) (\<lambda>c.
        bind (if machine_code c = 0
              then bind (AllocatePages P machine_code_pages) (\<lambda>a. put_machine_code (unat target_slot) (c\<lparr>machine_code := a\<rparr>))
              else ret ()) (\<lambda>_.
        bind (get_machine_code (unat target_slot)) (\<lambda>c.
        if machine_code c = 0 then
          reject P ''Unable to allocate memory for machine_code.'' [] 0x3 EFI_INVALID_PARAMETER
        else
        bind (put_machine_code (unat target_slot) (c\<lparr>machine_code_length := ucast machine_code_size\<rparr>)) (\<lambda>_.
        bind (load_bytes payload 8 (unat machine_code_size)) (\<lambda>bs.
        bind (heap_write (machine_code c) 0 bs) (\<lambda>_.
        bind (send_status P 0x0 None) (\<lambda>_.
        ret EFI_SUCCESS))))))))))"


section \<open>Job parameters\<close>

record JobParameters =
  job_core_id :: u64
  machine_code_slot :: u64
  ucode_slot :: u64
  job_timeout :: u64
  options :: u64

definition job_parameters_from_payload :: "u8 list \<Rightarrow> ('w, JobParameters) prog" where
  "job_parameters_from_payload payload =
     bind (load_u32 payload 0) (\<lambda>target_ucode_slot.
     bind (load_u32 payload 4) (\<lambda>target_machine_code_slot.
     bind (load_u32 payload 8) (\<lambda>target_core_id.
     bind (load_u32 payload 12) (\<lambda>timeout.
     bind (load_u32 payload 16) (\<lambda>opts.
     ret \<lparr>job_core_id = ucast target_core_id, machine_code_slot = ucast target_machine_code_slot,
        ucode_slot = ucast target_ucode_slot, job_timeout = ucast timeout, options = ucast opts\<rparr>)))))"

definition check_job_parameters :: "'w platform \<Rightarrow> JobParameters \<Rightarrow> ('w, efi_status) prog" where
  "check_job_parameters P jp =
     (if of_nat UCODE_SLOTS \<le> ucode_slot jp then
        reject P ''Target ucode slot %u is unsupported, only have %u slots.'' [ucode_slot jp, of_nat UCODE_SLOTS]
          0x101 EFI_INVALID_PARAMETER
      else if of_nat MACHINE_CODE_SLOTS \<le> machine_code_slot jp then
        reject P ''Target machine code slot %u is unsupported, only have %u slots.''
          [machine_code_slot jp, of_nat MACHINE_CODE_SLOTS] 0x102 EFI_INVALID_PARAMETER
      else
        bind (get_ucode (unat (ucode_slot jp))) (\<lambda>u.
        if ucode u = 0 \<or> ucode_length u = 0 then
          reject P ''Target ucode slot %u is empty.'' [ucode_slot jp] 0x103 EFI_INVALID_PARAMETER
        else
        bind (get_machine_code (unat (machine_code_slot jp))) (\<lambda>c.
        if machine_code c = 0 \<or> machine_code_length c = 0 then
          reject P ''Target machine code slot %u is empty.'' [machine_code_slot jp] 0x104 EFI_INVALID_PARAMETER
        else ret EFI_SUCCESS)))"

text \<open>\<^verbatim>\<open>ZeroMem\<close> of the result buffer; a length of zero leaves a null pointer alone.\<close>

definition zero_results :: "u64 \<Rightarrow> ('w, unit) prog" where
  "zero_results core =
     bind (get_context core) (\<lambda>c.
     if result_buffer_len c = 0 then ret () else
     bind (from_option NullDeref (result_buffer c)) (\<lambda>b.
     bind (require OutOfBounds (unat (result_buffer_len c) \<le> length b)) (\<lambda>_.
     update_context core (\<lambda>c. c\<lparr>result_buffer :=
       Some (overwrite 0 (replicate (unat (result_buffer_len c)) 0) b)\<rparr>))))"

definition write_job_infos :: "JobParameters \<Rightarrow> u64 \<Rightarrow> ('w, unit) prog" where
  "write_job_infos jp core =
     bind (zero_results core) (\<lambda>_.
     bind (get_machine_code (unat (machine_code_slot jp))) (\<lambda>m.
     bind (get_ucode (unat (ucode_slot jp))) (\<lambda>u.
     bind (update_context core (\<lambda>c. c\<lparr>current_machine_code_slot_address := machine_code m,
       current_microcode_slot_address := ucode u, ret_gpf_value := 0, ret_rdtsc_value := 0,
       current_microcode_len := ucode_length u\<rparr>)) (\<lambda>_.
     bind (clear_core_functions core) (\<lambda>_.
     bind (update_context core (\<lambda>c. c\<lparr>core_functions :=
       (core_functions c)[0 := (core_functions c ! 0)\<lparr>func := Prepare_ucode_update\<rparr>]\<rparr>)) (\<lambda>_.
     update_context core (\<lambda>c. c\<lparr>core_functions :=
       (core_functions c)[1 := (core_functions c ! 1)\<lparr>func :=
         (if options jp AND 0x01 = 0x01 then Apply_ucode_execute_machine_code_restore
          else Apply_ucode_execute_machine_code_simple)\<rparr>]\<rparr>)))))))"


section \<open>Running a job\<close>

text \<open>
  Both handlers end in the same way: the job is queued; the boot core executes its own job at once,
  the others are waited for. The result is the word of flags.
\<close>

definition execute_job :: "'w platform \<Rightarrow> u64 \<Rightarrow> u64 \<Rightarrow> ('w, u64) prog" where
  "execute_job P core timeout =
     bind (update_context core (\<lambda>c. c\<lparr>job_queued := 1\<rparr>)) (\<lambda>_.
     if core = 0 then
       bind (update_context core (\<lambda>c. c\<lparr>ready := 0\<rparr>)) (\<lambda>_.
       bind (update_context core (\<lambda>c. c\<lparr>job_queued := 0\<rparr>)) (\<lambda>_.
       bind (call_core_functions P core) (\<lambda>_.
       bind (update_context core (\<lambda>c. c\<lparr>ready := 1\<rparr>)) (\<lambda>_.
       bind (unlock_context core) (\<lambda>_. ret 0)))))
     else
       bind (unlock_context core) (\<lambda>_.
       bind (wait_on_ap_exec P core timeout) (\<lambda>timeout_reached.
       bind (get_context core) (\<lambda>c.
       ret ((if timeout_reached then 0x1 else 0) OR
         (case fault_info c of None \<Rightarrow> 0 | Some info \<Rightarrow> if fault_occured info = 1 then 0x2 else 0))))))"

definition send_result_message :: "'w platform \<Rightarrow> u64 \<Rightarrow> u64 \<Rightarrow> bool \<Rightarrow> ('w, efi_status) prog" where
  "send_result_message P core flags is_last_message =
     bind (get_context core) (\<lambda>c.
     bind (write_payload 0 (le_bytes 8 (ret_rdtsc_value c))) (\<lambda>_.
     bind (write_payload 8 (le_bytes 8 (ret_gpf_value c))) (\<lambda>_.
     bind (write_payload 16 (le_bytes 8 flags)) (\<lambda>_.
     bind (write_payload 24 (le_bytes 8 (result_buffer_len c))) (\<lambda>_.
     bind (if result_buffer_len c = 0 then ret () else
           bind (from_option NullDeref (result_buffer c)) (\<lambda>b.
           bind (load_bytes b 0 (unat (result_buffer_len c))) (write_payload 32))) (\<lambda>_.
     respond P (report_print P) MSG_UCODEEXECUTETESTRESPONSE payload_buffer
       (4 * 8 + result_buffer_len c) (4 * 8 + result_buffer_len c + HEADER_SIZE) is_last_message))))))"

definition handle_execute_machine_code :: "'w platform \<Rightarrow> u8 list \<Rightarrow> u64 \<Rightarrow> ('w, efi_status) prog" where
  "handle_execute_machine_code P payload payload_length =
     (if payload_length < 12 then
        reject P ''MSG_EXECUTEMACHINECODE is too short, need at least 12 Bytes, got %u.'' [payload_length]
          0x1 EFI_INVALID_PARAMETER
      else
        bind (load_u32 payload 0) (\<lambda>target_machine_code_slot.
        bind (load_u32 payload 4) (\<lambda>target_core_id.
        bind (load_u32 payload 8) (\<lambda>timeout.
        if of_nat MACHINE_CODE_SLOTS \<le> target_machine_code_slot then
          reject P ''Target machine code slot %u is unsupported, only have %u slots.''
            [ucast target_machine_code_slot, of_nat MACHINE_CODE_SLOTS] 0x2 EFI_INVALID_PARAMETER
        else
        bind (get_machine_code (unat target_machine_code_slot)) (\<lambda>m.
        if machine_code m = 0 \<or> machine_code_length m = 0 then
          reject P ''Target machine code slot %u is empty.'' [ucast target_machine_code_slot]
            0x3 EFI_INVALID_PARAMETER
        else
        let core = ucast target_core_id in
        bind (acquire_core_lock_for_job P core) (\<lambda>status.
        if status \<noteq> EFI_SUCCESS then ret status else
        bind (clear_core_functions core) (\<lambda>_.
        bind (update_context core (\<lambda>c. c\<lparr>ret_gpf_value := 0, ret_rdtsc_value := 0,
          core_functions := (core_functions c)[0 := \<lparr>func = Execute_machine_code, arg = None\<rparr>],
          current_machine_code_slot_address := machine_code m\<rparr>)) (\<lambda>_.
        bind (zero_results core) (\<lambda>_.
        bind (execute_job P core (ucast timeout)) (\<lambda>flags.
        send_result_message P core flags True))))))))))"

definition handle_apply_ucode_execute_test :: "'w platform \<Rightarrow> u8 list \<Rightarrow> u64 \<Rightarrow> ('w, efi_status) prog" where
  "handle_apply_ucode_execute_test P payload payload_length =
     (if payload_length < 20 then
        reject P ''MSG_APPLYUCODEEXCUTETEST is too short, need at least 20 Bytes, got %u.'' [payload_length]
          0x1 EFI_INVALID_PARAMETER
      else
        bind (job_parameters_from_payload payload) (\<lambda>jp.
        bind (check_job_parameters P jp) (\<lambda>status.
        if status \<noteq> EFI_SUCCESS then ret status else
        bind (acquire_core_lock_for_job P (job_core_id jp)) (\<lambda>status.
        if status \<noteq> EFI_SUCCESS then ret status else
        bind (write_job_infos jp (job_core_id jp)) (\<lambda>_.
        bind (execute_job P (job_core_id jp) (job_timeout jp)) (\<lambda>flags.
        bind (send_result_message P (job_core_id jp) flags True) (\<lambda>status.
        if EFI_ERROR status then ret status else ret EFI_SUCCESS)))))))"

definition handle_get_last_test_result :: "'w platform \<Rightarrow> u8 list \<Rightarrow> u64 \<Rightarrow> ('w, efi_status) prog" where
  "handle_get_last_test_result P payload payload_length =
     (if payload_length < 8 then
        reject P ''MSG_GETLASTTESTRESULT is too short, need at least 8 Bytes, got %u.'' [payload_length]
          0x1 EFI_INVALID_PARAMETER
      else
        bind (load_u64 payload 0) (\<lambda>core.
        if MAX_CORE_COUNT < core then
          reject P ''Core id %u is out of range, only %u max cores are supported.''
            [core, MAX_CORE_COUNT] 0x2 EFI_INVALID_PARAMETER
        else
        bind (send_core_status P core False) (\<lambda>status.
        if EFI_ERROR status then ret status else
        bind (send_result_message P core 0 True) (\<lambda>status.
        if EFI_ERROR status then ret status else ret EFI_SUCCESS))))"

definition init_ucode_execute :: "'w platform \<Rightarrow> ('w, unit) prog" where
  "init_ucode_execute P = init_cores P"


section \<open>Uploads\<close>

lemma machine_code_pages [simp]: "machine_code_pages = 256"
  by (simp add: machine_code_pages_def ROUND_UP_def)

text \<open>The payload of an upload: slot, size, bytes.\<close>

definition upload :: "u32 \<Rightarrow> u8 list \<Rightarrow> u8 list" where
  "upload slot bs = le_bytes 4 slot @ le_bytes 4 (of_nat (length bs) :: u32) @ bs"

lemma upload_fields [simp]:
  "take 4 (upload slot bs) = le_bytes 4 slot"
  "slice 4 4 (upload slot bs @ rest) = le_bytes 4 (of_nat (length bs) :: u32)"
  "n = length bs \<Longrightarrow> slice 8 n (upload slot bs @ rest) = bs"
  "length (upload slot bs) = length bs + 8"
  by (simp_all add: upload_def slice_def)

lemma maccess_uploaded_io:
  "maccess.uploaded i bs s t \<Longrightarrow> buffers_ok t = buffers_ok s \<and> sent t = sent s \<and> ucodes t = ucodes s \<and>
     core_contexts t = core_contexts s \<and> ap_phases t = ap_phases s \<and> frames t = frames s"
  by (auto simp: maccess.uploaded_def buffers_ok_def)

text \<open>The part of an upload after its checks.\<close>

lemma handle_send_machine_code_head:
  fixes slot :: u32
  defines "i \<equiv> unat slot"
  assumes "8 \<le> payload_length" "slot < 10" "length (machine_codes s) = 10" "length bs \<le> MACHINE_CODE_SIZE"
  shows "handle_send_machine_code P (upload slot bs @ rest) payload_length s =
    bind (if machine_code (machine_codes s ! i) = 0
          then bind (AllocatePages P 256) (\<lambda>a. put_machine_code i ((machine_codes s ! i)\<lparr>machine_code := a\<rparr>))
          else ret ()) (\<lambda>_.
    bind (get_machine_code i) (\<lambda>c.
    if machine_code c = 0 then
      reject P ''Unable to allocate memory for machine_code.'' [] 0x3 EFI_INVALID_PARAMETER
    else
    bind (put_machine_code i (c\<lparr>machine_code_length := of_nat (length bs)\<rparr>)) (\<lambda>_.
    bind (load_bytes (upload slot bs @ rest) 8 (length bs)) (\<lambda>bs.
    bind (heap_write (machine_code c) 0 bs) (\<lambda>_.
    bind (send_status P 0x0 None) (\<lambda>_.
    ret EFI_SUCCESS)))))) s"
proof -
  have "unat (of_nat (length bs) :: u32) = length bs" "(ucast (of_nat (length bs) :: u32) :: u64) = of_nat (length bs)"
    using assms(5) by (simp_all add: ucast_u32_of_nat)
  moreover have "\<not> 9 < slot" "i < length (machine_codes s)"
    using assms(3,4) by (simp_all add: i_def word_less_nat_alt)
  ultimately show ?thesis
    using leD [OF assms(2)] assms(5)
    by (simp add: handle_send_machine_code_def head_simps u32c.dec_enc i_def [symmetric] cong: if_cong)
qed

text \<open>
  C30. An upload of at most a megabyte to one of the ten slots ends with the bytes in the slot and their length
  beside them, in the block of the slot or in a new one, with no other slot and no other memory changed; the one
  exception is a slot without a block when the allocation of one fails, and then nothing is changed
  and the status 3 is sent.
\<close>

theorem handle_send_machine_code_stores:
  fixes slot :: u32
  defines "i \<equiv> unat slot"
  assumes net: "network_reliable P" and doc: "alloc_pages_documented P"
    and ok: "buffers_ok s" "arrays_ok s" "slots_ok s"
    and slot: "slot < 10" and bs: "length bs \<le> MACHINE_CODE_SIZE" and pl: "8 \<le> payload_length"
  shows "\<exists>st t. handle_send_machine_code P (upload slot bs @ rest) payload_length s = Done st t \<and>
    slots_ok t \<and> ucodes t = ucodes s \<and> core_contexts t = core_contexts s \<and>
    (st = EFI_SUCCESS \<and> sent t = sent s @ [status_frame 0 None] \<and>
       slot_holds (heap t) (machine_code (machine_codes t ! i)) (machine_code_length (machine_codes t ! i)) bs \<and>
       (\<forall>j. j \<noteq> i \<longrightarrow> machine_codes t ! j = machine_codes s ! j) \<and>
       (\<forall>a. a \<noteq> machine_code (machine_codes t ! i) \<longrightarrow> heap t a = heap s a)
     \<or> st = EFI_INVALID_PARAMETER \<and> machine_code (machine_codes s ! i) = 0 \<and>
       fst (alloc_pages_fw P 256 (heap s) (world s)) = 0 \<and>
       (\<exists>msg. sent t = sent s @ [status_frame 3 (Some msg)]) \<and>
       heap t = heap s \<and> machine_codes t = machine_codes s)"
proof -
  have i: "i < length (machine_codes s)"
    using slot arrays_ok_lengths(2) [OF ok(2)] by (simp add: i_def word_less_nat_alt)
  have valid: "mslots.valid s" "uslots.valid s" using ok(3) by (simp_all add: slots_ok_valid)
  show ?thesis
    unfolding handle_send_machine_code_head [OF pl slot arrays_ok_lengths(2) [OF ok(2)] bs, folded i_def]
  proof (rule run_bind_returns, rule maccess.wp_upload [OF doc valid(1) i], goal_cases)
    case (5 w)
    have io: "slots_ok t" "ucodes t = ucodes s" "core_contexts t = core_contexts s" "heap t = heap s" "machine_codes t = machine_codes s"
      if "io_only (s\<lparr>world := w\<rparr>) t" for t
      using that ok(3) by (auto simp: io_only_def slots_ok_def)
    show ?case
      by (rule wp_reject [OF net]) (use ok(1) 5 io in \<open>auto simp: buffers_ok_def\<close>)
  next
    case (6 t)
    then have up: "maccess.uploaded i bs s t" by simp
    note io = maccess_uploaded_io [OF up]
    have holds: "slot_holds (heap t) (machine_code (machine_codes t ! i)) (machine_code_length (machine_codes t ! i)) bs"
      "j \<noteq> i \<Longrightarrow> machine_codes t ! j = machine_codes s ! j"
      "a \<noteq> machine_code (machine_codes t ! i) \<Longrightarrow> heap t a = heap s a" for a j
      using maccess.uploaded_holds [OF up i] bs by simp_all
    have slots: "slots_ok t" by (rule maccess_uploaded_slots_ok [OF up ok(3)]) (use bs in simp)
    show ?case
      unfolding wp_bind
    proof (rule wp_send_status [OF net], goal_cases)
      case (3 u)
      then have u: "heap u = heap t" "machine_codes u = machine_codes t" "ucodes u = ucodes t" "core_contexts u = core_contexts t"
        by (simp_all add: io_only_def)
      then have "slots_ok u" using slots slots_ok_same by metis
      then show ?case unfolding wp_ret u 3(4) using io holds by simp
    qed (use io ok(1) in simp_all)
  qed (use bs in simp_all)
qed


section \<open>Refused jobs\<close>

text \<open>The status code with which the parameters of a job are refused, if they are.\<close>

definition parameter_check :: "JobParameters \<Rightarrow> 'w state \<Rightarrow> u32 option" where
  "parameter_check jp s =
     (if 10 \<le> ucode_slot jp then Some 0x101
      else if 10 \<le> machine_code_slot jp then Some 0x102
      else let u = ucodes s ! unat (ucode_slot jp); m = machine_codes s ! unat (machine_code_slot jp) in
        if ucode u = 0 \<or> ucode_length u = 0 then Some 0x103
        else if machine_code m = 0 \<or> machine_code_length m = 0 then Some 0x104 else None)"

lemma slot_in_range: "\<not> 10 \<le> (x :: u64) \<Longrightarrow> unat x < 10"
  by (simp add: word_le_nat_alt)

lemma parameters_accepted:
  assumes "parameter_check jp s = None" "arrays_ok s"
  shows "check_job_parameters P jp s = Done EFI_SUCCESS s"
proof -
  have "\<not> 10 \<le> ucode_slot jp" "\<not> 10 \<le> machine_code_slot jp"
    using assms(1) by (auto simp: parameter_check_def split: if_splits)
  then show ?thesis
    using assms(1) slot_in_range arrays_ok_lengths(1,2) [OF assms(2)]
    by (simp add: parameter_check_def check_job_parameters_def head_simps ret_run Let_def split: if_splits)
qed

lemma wp_parameters_refused:
  assumes net: "network_reliable P" and ok: "buffers_ok s" "arrays_ok s" and bad: "parameter_check jp s = Some code"
    and Q: "\<And>t msg. io_only s t \<Longrightarrow> buffers_ok t \<Longrightarrow> sent t = sent s @ [status_frame code (Some msg)] \<Longrightarrow>
              Q EFI_INVALID_PARAMETER t"
  shows "wp (check_job_parameters P jp) Q E s"
proof -
  have ret: "wp (reject P fmt args code EFI_INVALID_PARAMETER) Q E s" for fmt args
    by (rule wp_reject [OF net ok(1)]) (rule Q)
  show ?thesis
    using bad ret slot_in_range arrays_ok_lengths(1,2) [OF ok(2)]
    by (auto simp: parameter_check_def check_job_parameters_def Let_def slot_rules split: if_splits)
qed

definition job_payload :: "u32 \<Rightarrow> u32 \<Rightarrow> u32 \<Rightarrow> u32 \<Rightarrow> u32 \<Rightarrow> u8 list" where
  "job_payload uslot mslot core timeout opts =
     concat (map (le_bytes 4) [uslot, mslot, core, timeout, opts])"

definition job_of :: "u32 \<Rightarrow> u32 \<Rightarrow> u32 \<Rightarrow> u32 \<Rightarrow> u32 \<Rightarrow> JobParameters" where
  "job_of uslot mslot core timeout opts =
     \<lparr>job_core_id = ucast core, machine_code_slot = ucast mslot, ucode_slot = ucast uslot,
      job_timeout = ucast timeout, options = ucast opts\<rparr>"

lemma job_parameters_read:
  "job_parameters_from_payload (job_payload u m c t opts @ rest) s = Done (job_of u m c t opts) s"
  by (simp add: job_parameters_from_payload_def job_payload_def job_of_def head_simps ret_run slice_def u32c.dec_enc)

text \<open>
  C31. A request to apply an update and run machine code that cannot be served is answered with one status
  message and changes nothing. Its code is that of the first check that fails: the microcode slot exists, the
  machine code slot exists, the first is used, the second is used; then the checks of the core.
\<close>

theorem handle_apply_ucode_execute_test_refused:
  assumes net: "network_reliable P" and ok: "buffers_ok s" "arrays_ok s" and pl: "20 \<le> payload_length"
    and bad: "(case parameter_check (job_of u m c t opts) s of Some code \<Rightarrow> Some code
      | None \<Rightarrow> job_check (ucast c) s) = Some code"
  shows "\<exists>msg t'. handle_apply_ucode_execute_test P (job_payload u m c t opts @ rest) payload_length s =
      Done EFI_INVALID_PARAMETER t' \<and> sent t' = sent s @ [status_frame code (Some msg)] \<and> io_only s t' \<and> buffers_ok t'"
proof -
  let ?Q = "\<lambda>st t'. st = EFI_INVALID_PARAMETER \<and> (\<exists>msg. sent t' = sent s @ [status_frame code (Some msg)]) \<and>
    io_only s t' \<and> buffers_ok t'"
  note read = wp_Done [where m = "job_parameters_from_payload _", OF job_parameters_read]
  have core: "job_core_id (job_of u m c t opts) = ucast c" by (simp add: job_of_def)
  have "wp (handle_apply_ucode_execute_test P (job_payload u m c t opts @ rest) payload_length) ?Q (\<lambda>_ _. False) s"
  proof (cases "parameter_check (job_of u m c t opts) s")
    case None
    then have "job_check (ucast c) s = Some code" using bad by simp
    then show ?thesis
      unfolding handle_apply_ucode_execute_test_def using leD [OF pl]
      by (simp add: wp_bind read wp_Done [where m = "check_job_parameters P _", OF parameters_accepted [OF None ok(2)]] core)
        (rule wp_acquire_fails [OF net ok], auto simp: wp_ret)
  next
    case (Some c)
    then show ?thesis
      unfolding handle_apply_ucode_execute_test_def using leD [OF pl] bad
      by (simp add: wp_bind read) (rule wp_parameters_refused [OF net ok Some], auto simp: wp_ret)
  qed
  from wp_total_returns [OF this] show ?thesis by auto
qed


section \<open>Results\<close>

text \<open>A result buffer of the recorded length that fits into a response.\<close>

definition results_ok :: "CoreContext \<Rightarrow> bool" where
  "results_ok c \<longleftrightarrow> unat (result_buffer_len c) \<le> 1368 \<and>
     (result_buffer_len c \<noteq> 0 \<longrightarrow> (\<exists>b. result_buffer c = Some b \<and> unat (result_buffer_len c) \<le> length b))"

definition results :: "CoreContext \<Rightarrow> u8 list" where
  "results c = (case result_buffer c of None \<Rightarrow> [] | Some b \<Rightarrow> take (unat (result_buffer_len c)) b)"

definition result_report :: "CoreContext \<Rightarrow> u64 \<Rightarrow> u8 list" where
  "result_report c flags =
     concat (map (le_bytes 8) [ret_rdtsc_value c, ret_gpf_value c, flags, result_buffer_len c]) @ results c"

lemma length_results: "results_ok c \<Longrightarrow> length (results c) = unat (result_buffer_len c)"
  by (auto simp: results_ok_def results_def split: option.splits)

lemma report_written:
  assumes "length b = 1400" "length d \<le> 1368"
  shows "overwrite 32 d (overwrite 24 (le_bytes 8 (w3 :: u64)) (overwrite 16 (le_bytes 8 (w2 :: u64))
      (overwrite 8 (le_bytes 8 (w1 :: u64)) (overwrite 0 (le_bytes 8 (w0 :: u64)) b)))) =
    overwrite 0 (concat (map (le_bytes 8) [w0, w1, w2, w3]) @ d) b"
  using assms by (simp add: buf_simps)

lemma wp_send_result_message:
  assumes net: "network_reliable P" and ok: "buffers_ok s" and len: "has_context core s"
    and res: "results_ok (context_of core s)"
    and Q: "\<And>t. io_only s t \<Longrightarrow> buffers_ok t \<Longrightarrow> sent t = sent s @
      [frame MSG_UCODEEXECUTETESTRESPONSE (result_report (context_of core s) flags) l] \<Longrightarrow> Q EFI_SUCCESS t"
  shows "wp (send_result_message P core flags l) Q E s"
proof -
  let ?c = "context_of core s"
  let ?p = "result_report ?c flags"
  have pl: "length (payload_buffer s) = 1400" using buffers_ok_lengths(1) [OF ok] by simp
  define n where "n = unat (result_buffer_len ?c)"
  have n: "result_buffer_len ?c = of_nat n" "n \<le> 1368" using res by (simp_all add: n_def results_ok_def)
  have lp: "length ?p = n + 32" using length_results [OF res] by (simp add: result_report_def n_def)
  have "wp (send_result_message P core flags l) Q E s =
    wp (respond P (report_print P) MSG_UCODEEXECUTETESTRESPONSE payload_buffer
      (of_nat (n + 32)) (of_nat (n + 32 + 12)) l) Q E (s\<lparr>payload_buffer := overwrite 0 ?p (payload_buffer s)\<rparr>)"
  proof (cases "result_buffer_len ?c = 0")
    case True
    then have d: "results ?c = []" and n0: "n = 0" by (simp_all add: results_def n_def split: option.splits)
    show ?thesis
      using len pl True report_written [OF pl, of "[]" 0 flags "ret_gpf_value ?c" "ret_rdtsc_value ?c"]
      by (simp add: send_result_message_def wp_bind wp_get_with wp_ret wp_write_payload result_report_def d n0)
  next
    case False
    then obtain b where b: "result_buffer ?c = Some b" "n \<le> length b" using res by (auto simp: results_ok_def n_def)
    then have d: "results ?c = take n b" by (simp add: results_def n_def)
    show ?thesis
      using len pl False b n report_written [OF pl, of "take n b" "of_nat n" flags "ret_gpf_value ?c" "ret_rdtsc_value ?c"]
      by (simp add: send_result_message_def wp_bind wp_get_with wp_ret wp_write_payload wp_from_option wp_load_bytes
          result_report_def d add.commute)
  qed
  also have "\<dots>"
    by (rule wp_respond_written [OF net ok, where p = ?p]) (use n lp in \<open>auto intro!: Q\<close>)
  finally show ?thesis .
qed


section \<open>Executing a job\<close>

text \<open>The context when the boot core executes its own job, and when another core may take it.\<close>

definition own_job :: "CoreContext \<Rightarrow> CoreContext" where
  "own_job c = c\<lparr>ready := 0, job_queued := 0\<rparr>"

definition queued :: "CoreContext \<Rightarrow> CoreContext" where
  "queued c = c\<lparr>job_queued := 1, lock := 0\<rparr>"

lemma with_context_0 [simp]:
  "core_contexts s \<noteq> [] \<Longrightarrow> core_contexts (with_context 0 f s) ! 0 = f (core_contexts s ! 0)"
  using with_context_simps(2) [of 0 s f] by simp

lemma execute_job_boot:
  assumes "has_context 0 s" "call_core_functions P 0 (with_context 0 own_job s) = Done () t" "has_context 0 t"
  shows "execute_job P 0 timeout s = Done 0 (with_context 0 job_done t)"
proof -
  have own: "with_context 0 (\<lambda>c. c\<lparr>ready := 0, job_queued := 0\<rparr>) s = with_context 0 own_job s"
    by (simp add: own_job_def [abs_def])
  have "wp (execute_job P 0 timeout) (\<lambda>v u. v = 0 \<and> u = with_context 0 job_done t) (\<lambda>_ _. False) s"
    using assms own
    by (simp add: execute_job_def context_rules wp_Done [where m = "call_core_functions P 0", OF assms(2)]
        job_done_def [abs_def])
  then show ?thesis by (auto dest: wp_total_returns)
qed

text \<open>
  On another core: the first look at the context finds the job still queued, and two steps of the core later
  it is done.
\<close>

definition fault_flag :: "CoreContext \<Rightarrow> u64" where
  "fault_flag c = (case fault_info c of None \<Rightarrow> 0 | Some info \<Rightarrow> if fault_occured info = 1 then 0x2 else 0)"

definition job_started :: "'w platform \<Rightarrow> u64 \<Rightarrow> 'w state \<Rightarrow> 'w state" where
  "job_started P core s = with_phase core ApJob (with_context core accepted
     (with_context core (\<lambda>c. c\<lparr>heartbeat := fst (rdtsc_hw P (world s))\<rparr>) (s\<lparr>world := snd (rdtsc_hw P (world s))\<rparr>)))"

lemma buffers_ok_steps [simp]:
  "buffers_ok (s\<lparr>world := w\<rparr>) = buffers_ok s" "buffers_ok (with_phase core ph s) = buffers_ok s"
  "core_contexts (with_phase core ph s) = core_contexts s" "sent (with_phase core ph s) = sent s"
  by (simp_all add: buffers_ok_def with_phase_def)

lemma job_started_facts:
  "length (core_contexts (job_started P core s)) = length (core_contexts s)"
  "buffers_ok (job_started P core s) = buffers_ok s"
  "has_context core s \<Longrightarrow> job_queued (context_of core (job_started P core s)) = 0"
  by (simp add: job_started_def with_phase_def, simp add: job_started_def,
      simp add: job_started_def with_phase_def accepted_def)

lemma job_started_context: "has_context core s \<Longrightarrow> context_of core (job_started P core s) =
    accepted ((context_of core s)\<lparr>heartbeat := fst (rdtsc_hw P (world s))\<rparr>)"
  by (simp add: job_started_def with_phase_def)

lemma job_finished_run:
  "has_context core s \<Longrightarrow> job_finished core s = Done (idle (context_of core s)) s"
  using wp_job_finished [of core s "\<lambda>v t. v = idle (context_of core s) \<and> t = s" "\<lambda>_ _. False"]
  by (auto dest: wp_total_returns)

text \<open>A change of the context of a core in its main loop that keeps it started and ready.\<close>

lemma protocol_loop:
  assumes s: "protocol s" and core: "core \<noteq> 0" "unat core < 128" "ap_phase_of core s = ApLoop"
    and f: "\<And>c. started (f c) = started c" "\<And>c. ready (f c) = ready c"
  shows "protocol (with_context core f s)"
proof -
  note facts = protocol_core [OF s core(1,2)]
  have "protocol (with_phase core ApLoop (with_context core f s))"
    by (rule protocol_step [OF s core(1)]) (use facts(1) core(3) f in \<open>simp add: core_protocol_def\<close>)
  moreover have "with_phase core ApLoop (with_context core f s) = with_context core f s"
    using facts(3) core(3) by (intro with_phase_same) (simp_all)
  ultimately show ?thesis by simp
qed

lemma wait_job_done:
  assumes P: "code_respects P" and s: "protocol s" and core: "core \<noteq> 0" "unat core < 128"
    and loop: "ap_phase_of core s = ApLoop" "fault_info (context_of core s) \<noteq> None"
    and time: "1 < unat timeout" and aps: "ap_steps_fw P (world s) = ([core, core], w)"
    and fns: "call_core_functions P core (job_started P core ((with_context core queued s)\<lparr>world := w\<rparr>)) = Done () t"
  shows "wait_on_ap_exec P core timeout (with_context core queued s) =
      Done False (with_phase core ApLoop (with_context core job_done t))" "has_context core t"
proof -
  let ?q = "with_context core queued s" and ?t = "with_phase core ApLoop (with_context core job_done t)"
  let ?u = "?q\<lparr>world := w\<rparr>"
  have ctx: "has_context core s" "has_context core ?q" "has_context core ?u"
    using protocol_core(2) [OF s core] by simp_all
  have c: "context_of core ?u = queued (context_of core s)" using ctx by simp
  have u: "protocol ?u" by (rule protocol_job_effect [OF protocol_loop [OF s core loop(1)] job_effect_world(1)]) (simp_all add: queued_def)
  have run: "for_each [core, core] (ap_step P) ?u = Done () ?t \<and> idle (context_of core ?t)"
  proof (rule queued_job_completes [OF P u core])
    show "ap_phase_of core ?u = ApLoop" using loop(1) by (auto simp: ap_phase_of_def split: if_splits)
    show "fault_info (context_of core ?u) \<noteq> None" "lock (context_of core ?u) = 0" "job_queued (context_of core ?u) \<noteq> 0"
      unfolding c using loop(2) by (simp_all add: queued_def)
  qed (use fns in \<open>simp add: job_started_def\<close>)
  show len: "has_context core t"
    using job_effect_length [OF job_functions_effect(1) [OF P fns]] ctx by (simp add: job_started_facts)
  then have t: "has_context core ?t" by simp
  have busy: "\<not> idle (context_of core ?q)" using ctx by (simp add: idle_def queued_def)
  define n where "n = unat timeout - 2"
  have n: "unat timeout = Suc (Suc n)" using time by (simp add: n_def)
  have "run_aps P ?q = Done () ?t" using run aps by (simp add: run_aps_def bind_run on_world_run)
  then show "wait_on_ap_exec P core timeout ?q = Done False ?t"
    using n run busy job_finished_run [OF ctx(2)] job_finished_run [OF t]
    by (auto simp: wait_on_ap_exec_def bind_run ret_run)
qed

lemma execute_job_ap:
  assumes P: "code_respects P" and s: "protocol s" and core: "core \<noteq> 0" "unat core < 128"
    and loop: "ap_phase_of core s = ApLoop" "fault_info (context_of core s) \<noteq> None"
    and time: "1 < unat timeout" and aps: "ap_steps_fw P (world s) = ([core, core], w)"
    and fns: "call_core_functions P core (job_started P core ((with_context core queued s)\<lparr>world := w\<rparr>)) = Done () t"
  shows "execute_job P core timeout s =
    Done (fault_flag (context_of core t)) (with_phase core ApLoop (with_context core job_done t))"
proof -
  let ?t = "with_phase core ApLoop (with_context core job_done t)"
  note finished = wait_job_done [OF assms]
  have ctx: "has_context core s" using protocol_core(2) [OF s core] .
  have q: "with_context core (\<lambda>c. c\<lparr>job_queued := 1, lock := 0\<rparr>) s = with_context core queued s"
    by (simp add: queued_def [abs_def])
  have "wp (execute_job P core timeout) (\<lambda>v u. v = fault_flag (context_of core t) \<and> u = ?t) (\<lambda>_ _. False) s"
    using ctx core(1) finished(2) q
    by (simp add: execute_job_def context_rules wp_Done [where m = "wait_on_ap_exec P core timeout", OF finished(1)]
        fault_flag_def job_done_def)
  then show ?thesis by (auto dest: wp_total_returns)
qed


section \<open>The handlers of jobs\<close>

definition zeroed :: "CoreContext \<Rightarrow> CoreContext" where
  "zeroed c = (if result_buffer_len c = 0 then c else c\<lparr>result_buffer :=
     map_option (overwrite 0 (replicate (unat (result_buffer_len c)) 0)) (result_buffer c)\<rparr>)"

text \<open>The context of a core whose job runs machine code, without and with a microcode update before it.\<close>

definition code_job :: "u64 \<Rightarrow> CoreContext \<Rightarrow> CoreContext" where
  "code_job addr c = zeroed (c\<lparr>lock := 1, ret_gpf_value := 0, ret_rdtsc_value := 0, core_functions :=
      [\<lparr>func = Execute_machine_code, arg = None\<rparr>, null_call, null_call],
     current_machine_code_slot_address := addr\<rparr>)"

definition test_job :: "UcodeContainer \<Rightarrow> MachineCodeContainer \<Rightarrow> u64 \<Rightarrow> CoreContext \<Rightarrow> CoreContext" where
  "test_job u m opts c = (zeroed (c\<lparr>lock := 1\<rparr>))\<lparr>current_machine_code_slot_address := machine_code m,
     current_microcode_slot_address := ucode u, ret_gpf_value := 0, ret_rdtsc_value := 0,
     current_microcode_len := ucode_length u,
     core_functions := [\<lparr>func = Prepare_ucode_update, arg = None\<rparr>,
       \<lparr>func = (if opts AND 0x01 = 0x01 then Apply_ucode_execute_machine_code_restore
                else Apply_ucode_execute_machine_code_simple), arg = None\<rparr>, null_call]\<rparr>"

lemma with_context_cong: "f (context_of core s) = g (context_of core s) \<Longrightarrow> with_context core f s = with_context core g s"
  by (simp add: with_context_def)

lemma null_slots: "replicate CORE_FUNCTION_SLOTS null_call = [null_call, null_call, null_call]"
  by (simp add: numeral_3_eq_3)

lemma null_call_func: "null_call\<lparr>func := f\<rparr> = \<lparr>func = f, arg = None\<rparr>"
  by (simp add: null_call_def)

lemma wp_zero_results:
  assumes "has_context core s" "results_ok (context_of core s)"
  shows "wp (zero_results core) Q E s = Q () (with_context core zeroed s)"
proof (cases "result_buffer_len (context_of core s) = 0")
  case True
  then have "with_context core zeroed s = s" by (intro with_context_same) (simp add: zeroed_def)
  then show ?thesis using True assms(1) by (simp add: zero_results_def context_rules)
next
  case False
  then obtain b where b: "result_buffer (context_of core s) = Some b"
    "unat (result_buffer_len (context_of core s)) \<le> length b"
    using assms(2) by (auto simp: results_ok_def)
  have "with_context core zeroed s = with_context core
      (\<lambda>c. c\<lparr>result_buffer := Some (overwrite 0 (replicate (unat (result_buffer_len c)) 0) b)\<rparr>) s"
    by (rule with_context_cong) (use False b in \<open>simp add: zeroed_def\<close>)
  then show ?thesis using False b assms(1)
    by (simp add: zero_results_def context_rules wp_from_option wp_require)
qed

lemma results_ok_fields [simp]:
  "results_ok (c\<lparr>lock := l\<rparr>) = results_ok c" "results_ok (job_done c) = results_ok c"
  "results_ok (c\<lparr>lock := l, ret_gpf_value := g, ret_rdtsc_value := r, core_functions := fs,
     current_machine_code_slot_address := a\<rparr>) = results_ok c"
  "result_report (job_done c) = result_report c" "fault_flag (job_done c) = fault_flag c"
  by (cases "result_buffer c"; simp add: results_ok_def job_done_def result_report_def results_def fault_flag_def fun_eq_iff)+

lemma wp_write_job_infos:
  assumes len: "has_context core s" and res: "results_ok (context_of core s)"
    and slots: "unat (ucode_slot jp) < length (ucodes s)" "unat (machine_code_slot jp) < length (machine_codes s)"
  shows "wp (write_job_infos jp core) Q E (with_context core (\<lambda>c. c\<lparr>lock := 1\<rparr>) s) =
    Q () (with_context core (test_job (ucodes s ! unat (ucode_slot jp))
      (machine_codes s ! unat (machine_code_slot jp)) (options jp)) s)"
proof -
  let ?u = "ucodes s ! unat (ucode_slot jp)" and ?m = "machine_codes s ! unat (machine_code_slot jp)"
  have res1: "results_ok (context_of core (with_context core (\<lambda>c. c\<lparr>lock := 1\<rparr>) s))"
    using len res by simp
  show ?thesis
    using len slots
    by (simp add: write_job_infos_def clear_core_functions_def wp_zero_results [OF _ res1] slot_rules
        wp_update_with null_slots test_job_def [abs_def] null_call_func)
qed


text \<open>A core that is started and unlocked is in its main loop.\<close>

lemma job_check_loop:
  assumes "protocol s" "core \<noteq> 0" "job_check core s = None"
  shows "unat core < 128" "ap_phase_of core s = ApLoop"
proof -
  have check: "core_check core s = None" and free: "lock (context_of core s) = 0"
    using assms(3) by (auto simp: job_check_def split: option.splits if_splits)
  then have lt: "has_context core s" and started: "started (context_of core s) = 1"
    using core_check_range [OF check] protocol_ok(2) [OF assms(1)] by (auto simp: core_check_def split: if_splits)
  then show "unat core < 128" using arrays_ok_lengths(3) [OF protocol_ok(2) [OF assms(1)]] by simp
  then show "ap_phase_of core s = ApLoop"
    using protocol_core(1) [OF assms(1,2)] free started by (auto simp: core_protocol_def split: ap_phase.splits)
qed

lemma wp_send_results:
  assumes "network_reliable P" "buffers_ok s" "has_context core s" "results_ok (context_of core s)"
    "idle (context_of core s)"
  shows "wp (send_result_message P core flags True) (\<lambda>st t. st = EFI_SUCCESS \<and> idle (context_of core t) \<and>
    sent t = sent s @ [frame MSG_UCODEEXECUTETESTRESPONSE (result_report (context_of core s) flags) True])
    (\<lambda>_ _. False) s"
  by (rule wp_send_result_message [OF assms(1-4)]) (use assms(5) in \<open>simp add: io_only_def\<close>)

lemma idle_done [simp]: "job_queued c = 0 \<Longrightarrow> idle (job_done c)"
  by (simp add: idle_def job_done_def)

lemma idle_job_done: "has_context core t \<Longrightarrow> job_queued (context_of core t) = 0 \<Longrightarrow>
    idle (context_of core (with_phase core ApLoop (with_context core job_done t)))"
  by (simp add: with_phase_def idle_def job_done_def)

text \<open>
  C2. A request to run machine code on an application processor: when the core can take a job, takes its two
  steps while the boot core stalls for the first time, and its functions return, then the client receives one message
  with the results that the functions left in the context and the flag for a recorded fault, and the
  core is unlocked, ready and without a job again. The functions find the code of the slot and a zeroed
  result buffer.
\<close>

theorem machine_code_runs_on_core:
  fixes slot core timeout :: u32 and s :: "'w state"
  defines "i \<equiv> (ucast core :: u64)"
  defines "q \<equiv> with_context i (\<lambda>c. queued (code_job (machine_code (machine_codes s ! unat slot)) c)) s"
  assumes net: "network_reliable P" and P: "code_respects P" and s: "protocol s"
    and pl: "12 \<le> payload_length" and slot: "slot < 10" and time: "1 < timeout"
    and used: "machine_code (machine_codes s ! unat slot) \<noteq> 0" "machine_code_length (machine_codes s ! unat slot) \<noteq> 0"
    and core: "i \<noteq> 0" "job_check i s = None" "fault_info (context_of i s) \<noteq> None" "results_ok (context_of i s)"
    and aps: "ap_steps_fw P (world s) = ([i, i], w)"
    and fns: "call_core_functions P i (job_started P i (q\<lparr>world := w\<rparr>)) = Done () t" and res: "results_ok (context_of i t)"
  shows "\<exists>u. handle_execute_machine_code P (le_bytes 4 slot @ le_bytes 4 core @ le_bytes 4 timeout @ rest)
      payload_length s = Done EFI_SUCCESS u \<and> idle (context_of i u) \<and>
    sent u = sent t @ [frame MSG_UCODEEXECUTETESTRESPONSE
      (result_report (context_of i t) (fault_flag (context_of i t))) True]"
proof -
  let ?m = "machine_codes s ! unat slot"
  let ?l = "with_context i (\<lambda>c. c\<lparr>lock := 1\<rparr>) s" and ?j = "with_context i (code_job (machine_code ?m)) s"
  let ?t = "with_phase i ApLoop (with_context i job_done t)"
  let ?Q = "\<lambda>st u. st = EFI_SUCCESS \<and> idle (context_of i u) \<and> sent u = sent t @ [frame MSG_UCODEEXECUTETESTRESPONSE
      (result_report (context_of i t) (fault_flag (context_of i t))) True]"
  note lt = job_check_loop [OF s core(1,2)]
  have m: "unat slot < length (machine_codes s)" "\<not> 10 \<le> slot"
    using slot arrays_ok_lengths(2) [OF protocol_ok(2) [OF s]] by (simp_all add: word_less_nat_alt word_le_nat_alt)
  have ctx: "has_context i s" "has_context i ?j" using protocol_core(2) [OF s core(1) lt(1)] by simp_all
  have j: "protocol ?j"
    by (rule protocol_loop [OF s core(1) lt]) (simp_all add: code_job_def zeroed_def)
  have eff: "job_effect i (job_started P i (q\<lparr>world := w\<rparr>)) t" by (rule job_functions_effect(1) [OF P fns])
  have ex: "execute_job P i (ucast timeout) ?j = Done (fault_flag (context_of i t)) ?t"
  proof (rule execute_job_ap [OF P j core(1) lt(1)])
    show "fault_info (context_of i ?j) \<noteq> None" using ctx core(3) by (simp add: code_job_def zeroed_def)
    show "1 < unat (ucast timeout :: u64)" using time by (simp add: word_less_nat_alt)
    show "call_core_functions P i (job_started P i ((with_context i queued ?j)\<lparr>world := w\<rparr>)) = Done () t"
      using fns by (simp add: q_def)
  qed (use lt aps in simp_all)
  have "has_context i t" "job_queued (context_of i t) = 0" "buffers_ok t"
    using eff ctx(1) protocol_ok(1) [OF s] job_effect_length [OF eff]
    by (simp_all add: job_effect_def same_flags_def job_started_facts q_def)
  then have t: "has_context i ?t" "buffers_ok ?t" "idle (context_of i ?t)" "results_ok (context_of i ?t)"
    "context_of i ?t = job_done (context_of i t)" "sent ?t = sent t"
    using res idle_job_done [of i t] by simp_all
  have final: "wp (send_result_message P i flags True) (\<lambda>st u. st = EFI_SUCCESS \<and> idle (context_of i u) \<and>
      sent u = sent t @ [frame MSG_UCODEEXECUTETESTRESPONSE (result_report (context_of i t) flags) True]) (\<lambda>_ _. False) ?t"
    for flags
    using wp_send_results [OF net t(2,1,4,3), of flags] unfolding t(5,6) results_ok_fields(4) .
  have slices: "take 4 (le_bytes 4 slot) = le_bytes 4 slot" "slice 4 4 (le_bytes 4 slot @ le_bytes 4 core @ le_bytes 4 timeout @ rest) = le_bytes 4 core"
    "slice 8 4 (le_bytes 4 slot @ le_bytes 4 core @ le_bytes 4 timeout @ rest) = le_bytes 4 timeout"
    by (simp_all add: slice_def)
  have "wp (handle_execute_machine_code P (le_bytes 4 slot @ le_bytes 4 core @ le_bytes 4 timeout @ rest) payload_length)
      ?Q (\<lambda>_ _. False) s"
    using leD [OF pl] m used ctx core(4) slices
    by (simp add: handle_execute_machine_code_def wp_bind wp_load_u32 u32c.dec_enc wp_get_machine_code
        i_def [symmetric] wp_acquire_ok [OF core(2) protocol_ok(2) [OF s]] clear_core_functions_def wp_update_with
        wp_zero_results null_slots code_job_def [symmetric] wp_Done [where m = "execute_job P i _", OF ex] Let_def)
      (rule final)
  from wp_total_returns [OF this] show ?thesis by auto
qed


text \<open>
  C32. A request to apply an update and run machine code on the boot core, with parameters that pass the checks:
  the boot core runs the functions at once in its own context, which holds the addresses of both slots, and when they return the
  client receives one message with the results, without flags; the boot core is unlocked and ready again.
\<close>

theorem update_and_code_on_boot_core:
  fixes s :: "'w state" and u m tm opts :: u32
  defines "jp \<equiv> job_of u m 0 tm opts"
  defines "q \<equiv> with_context 0 (\<lambda>c. own_job (test_job (ucodes s ! unat u) (machine_codes s ! unat m) (ucast opts) c)) s"
  assumes net: "network_reliable P" and P: "code_respects P" and ok: "buffers_ok s" "arrays_ok s"
    and pl: "20 \<le> payload_length" and checks: "parameter_check jp s = None" "job_check 0 s = None"
    and res0: "results_ok (context_of 0 s)"
    and fns: "call_core_functions P 0 q = Done () t" and res: "results_ok (context_of 0 t)"
  shows "\<exists>v. handle_apply_ucode_execute_test P (job_payload u m 0 tm opts @ rest) payload_length s = Done EFI_SUCCESS v \<and>
    idle (context_of 0 v) \<and>
    sent v = sent t @ [frame MSG_UCODEEXECUTETESTRESPONSE (result_report (context_of 0 t) 0) True]"
proof -
  let ?j = "with_context 0 (test_job (ucodes s ! unat u) (machine_codes s ! unat m) (ucast opts)) s"
  let ?t = "with_context 0 job_done t"
  have slots: "unat u < length (ucodes s)" "unat m < length (machine_codes s)"
    using checks(1) arrays_ok_lengths(1,2) [OF ok(2)]
    by (auto simp: jp_def job_of_def parameter_check_def word_le_nat_alt split: if_splits)
  have fields: "job_core_id jp = 0" "ucode_slot jp = ucast u" "machine_code_slot jp = ucast m"
    "job_timeout jp = ucast tm" "options jp = ucast opts"
    by (simp_all add: jp_def job_of_def)
  have ctx: "has_context 0 s" using arrays_ok_lengths(3) [OF ok(2)] by simp
  have eff: "job_effect 0 q t" by (rule job_functions_effect(1) [OF P fns])
  have "has_context 0 t" "job_queued (context_of 0 t) = 0" "buffers_ok t"
    using eff ctx ok(1) job_effect_length [OF eff]
    by (simp_all add: job_effect_def same_flags_def q_def own_job_def)
  then have t: "has_context 0 ?t" "buffers_ok ?t" "idle (context_of 0 ?t)" "results_ok (context_of 0 ?t)"
    "context_of 0 ?t = job_done (context_of 0 t)" "sent ?t = sent t" "has_context 0 t"
    using res by (simp_all add: idle_done)
  have ex: "execute_job P 0 timeout ?j = Done 0 ?t" for timeout
    by (rule execute_job_boot) (use ctx fns t(7) in \<open>simp_all add: q_def\<close>)
  note read = wp_Done [where m = "job_parameters_from_payload _", OF job_parameters_read]
  have infos: "wp (write_job_infos jp 0) Q E (with_context 0 (\<lambda>c. c\<lparr>lock := 1\<rparr>) s) = Q () ?j" for Q E
    using wp_write_job_infos [OF ctx res0, of jp] slots by (simp add: fields)
  have final: "wp (send_result_message P 0 flags True) (\<lambda>st v. st = EFI_SUCCESS \<and> idle (context_of 0 v) \<and>
      sent v = sent t @ [frame MSG_UCODEEXECUTETESTRESPONSE (result_report (context_of 0 t) flags) True]) (\<lambda>_ _. False) ?t"
    for flags
    using wp_send_results [OF net t(2,1,4,3), of flags] unfolding t(5,6) results_ok_fields(4) .
  have "wp (handle_apply_ucode_execute_test P (job_payload u m 0 tm opts @ rest) payload_length)
      (\<lambda>st v. st = EFI_SUCCESS \<and> idle (context_of 0 v) \<and>
        sent v = sent t @ [frame MSG_UCODEEXECUTETESTRESPONSE (result_report (context_of 0 t) 0) True]) (\<lambda>_ _. False) s"
    unfolding handle_apply_ucode_execute_test_def using leD [OF pl]
    by (simp add: wp_bind read jp_def [symmetric] fields infos wp_acquire_ok [OF checks(2) ok(2)]
        wp_Done [where m = "check_job_parameters P _", OF parameters_accepted [OF checks(1) ok(2)]]
        wp_Done [where m = "execute_job P 0 _", OF ex])
      (rule wp_mono [OF final], auto simp: wp_ret)
  from wp_total_returns [OF this] show ?thesis by auto
qed

text \<open>
  A request for the last results of a core below 128 is answered with two messages: the status report of the core, marked as not
  the last, and the results left in its context. A request for core 128 passes the range check and
  reads past the end of the contexts; larger numbers are refused.
\<close>

theorem handle_get_last_test_result_answers:
  fixes core :: u64 and s :: "'w state"
  defines "c \<equiv> context_of core s"
  assumes net: "network_reliable P" and ok: "buffers_ok s" "arrays_ok s" and pl: "8 \<le> payload_length"
    and res: "core < 128 \<Longrightarrow> results_ok c"
  shows "if core < 128 then
      (\<exists>t. handle_get_last_test_result P (le_bytes 8 core @ rest) payload_length s = Done EFI_SUCCESS t \<and> io_only s t \<and>
        sent t = sent s @ [frame MSG_CORESTATUSRESPONSE (status_report c (fst (rdtsc_hw P (world s)))) False,
          frame MSG_UCODEEXECUTETESTRESPONSE (result_report c 0) True])
    else if core = 128 then handle_get_last_test_result P (le_bytes 8 core @ rest) payload_length s = Stop OutOfBounds s
    else (\<exists>t msg. handle_get_last_test_result P (le_bytes 8 core @ rest) payload_length s = Done EFI_INVALID_PARAMETER t \<and>
        io_only s t \<and> sent t = sent s @ [status_frame 2 (Some msg)])"
proof -
  let ?h = "handle_get_last_test_result P (le_bytes 8 core @ rest) payload_length"
  have len: "length (core_contexts s) = 128" by (rule arrays_ok_lengths(3) [OF ok(2)])
  have w: "take 8 (le_bytes 8 core @ rest) = le_bytes 8 core" by simp
  consider "core < 128" | "core = 128" | "128 < core" by fastforce
  then show ?thesis
  proof cases
    case 1
    then have ctx: "has_context core s" using len by (simp add: word_less_nat_alt)
    let ?Q = "\<lambda>st t. st = EFI_SUCCESS \<and> io_only s t \<and>
        sent t = sent s @ [frame MSG_CORESTATUSRESPONSE (status_report c (fst (rdtsc_hw P (world s)))) False,
          frame MSG_UCODEEXECUTETESTRESPONSE (result_report c 0) True]"
    have "wp (send_core_status P core False)
      (\<lambda>st. wp (if EFI_ERROR st then ret st else bind (send_result_message P core 0 True)
        (\<lambda>st. if EFI_ERROR st then ret st else ret EFI_SUCCESS)) ?Q (\<lambda>_ _. False)) (\<lambda>_ _. False) s"
    proof (rule wp_send_core_status [OF net ok(1) ctx], goal_cases)
      case (1 t)
      then have t: "core_contexts t = core_contexts s" "io_only s t" by (simp_all add: io_only_def)
      have "wp (send_result_message P core 0 True)
          (\<lambda>st. wp (if EFI_ERROR st then ret st else ret EFI_SUCCESS) ?Q (\<lambda>_ _. False)) (\<lambda>_ _. False) t"
        by (rule wp_send_result_message [OF net 1(2)])
          (use t ctx res \<open>core < 128\<close> 1(3) in \<open>auto simp: wp_ret c_def intro: io_only_trans\<close>)
      then show ?case by (simp add: wp_bind)
    qed
    then have "wp ?h ?Q (\<lambda>_ _. False) s"
      using less_not_sym [OF 1] leD [OF pl]
      by (simp add: handle_get_last_test_result_def wp_bind wp_load_u64 u64c.dec_enc w cong: if_cong)
    then show ?thesis using 1 by (auto dest: wp_total_returns)
  next
    case 2
    then show ?thesis using len leD [OF pl]
      by (simp add: handle_get_last_test_result_def run_simps u64c.dec_enc w send_core_status_def)
  next
    case 3
    have "wp ?h (\<lambda>st t. st = EFI_INVALID_PARAMETER \<and>
        (\<exists>msg. sent t = sent s @ [status_frame 2 (Some msg)]) \<and> io_only s t) (\<lambda>_ _. False) s"
      using 3 leD [OF pl] by (simp add: handle_get_last_test_result_def wp_bind wp_load_u64 u64c.dec_enc w)
        (rule wp_reject [OF net ok(1)], auto)
    from wp_total_returns [OF this] show ?thesis using 3 by auto
  qed
qed


section \<open>The theorems at the example state\<close>

text \<open>The boot core is started and has scratch space; microcode and machine code were uploaded to slot 2.\<close>

definition boot_core :: CoreContext where
  "boot_core = demo_core\<lparr>scratch_space := Some (replicate 4096 0)\<rparr>"

definition demo_ucode :: UcodeContainer where
  "demo_ucode = \<lparr>ucode = 0x5000, ucode_length = 3200\<rparr>"

definition demo_machine_code :: MachineCodeContainer where
  "demo_machine_code = \<lparr>machine_code = 0x9000, machine_code_length = 64\<rparr>"

definition demo_job_state :: "nat state" where
  "demo_job_state = demo_core_state\<lparr>
     heap := [0x5000 \<mapsto> replicate 16384 0, 0x9000 \<mapsto> replicate 1048576 0],
     ucodes := (ucodes demo_core_state)[2 := demo_ucode],
     machine_codes := (machine_codes demo_core_state)[2 := demo_machine_code],
     core_contexts := (core_contexts demo_core_state)[0 := boot_core]\<rparr>"

lemma demo_core_arrays:
  "ucodes demo_core_state = replicate 10 \<lparr>ucode = 0, ucode_length = 0\<rparr>"
  "machine_codes demo_core_state = replicate 10 \<lparr>machine_code = 0, machine_code_length = 0\<rparr>"
  by (simp_all add: demo_core_state_def demo_state_def)

lemma demo_job_facts [simp]:
  "ucodes demo_job_state ! 2 = demo_ucode" "machine_codes demo_job_state ! 2 = demo_machine_code"
  "core_contexts demo_job_state ! 0 = boot_core" "core_contexts demo_job_state ! Suc 0 = demo_core"
  "length (core_contexts demo_job_state) = 128" "world demo_job_state = 0"
  "heap demo_job_state 0x5000 = Some (replicate 16384 0)"
  using demo_core_state_facts(7)
  by (simp_all add: demo_job_state_def demo_core_arrays demo_core_state_def demo_state_def)

lemma demo_job_ok: "buffers_ok demo_job_state" "arrays_ok demo_job_state" "slots_ok demo_job_state"
  using demo_core_state_facts(1,2)
  by (auto simp: demo_job_state_def buffers_ok_def arrays_ok_def slots_ok_def slot_block_def demo_core_arrays
      demo_ucode_def demo_machine_code_def set_update_subset_insert [THEN subsetD]
      dest!: set_update_subset_insert [THEN subsetD])

lemma demo_job_protocol: "protocol demo_job_state"
proof -
  have "ap_phases demo_job_state = ap_phases demo_core_state"
    "0 < i \<Longrightarrow> core_contexts demo_job_state ! i = core_contexts demo_core_state ! i" for i
    by (simp_all add: demo_job_state_def)
  then show ?thesis using demo_protocol demo_job_ok by (simp add: protocol_def)
qed

lemma handle_send_machine_code_stores_witness:
  "\<exists>st t. handle_send_machine_code demo_platform (upload 3 [0xC3] @ []) 9 demo_job_state = Done st t \<and> slots_ok t"
  using handle_send_machine_code_stores [OF demo_network_reliable demo_alloc_pages_documented demo_job_ok, of 3 "[0xC3]" 9 "[]"]
  by (auto simp: word_less_nat_alt word_le_nat_alt)

lemma handle_apply_ucode_execute_test_refused_witness:
  "\<exists>msg t. handle_apply_ucode_execute_test demo_platform (job_payload 2 5 1 100 0 @ []) 20 demo_job_state =
      Done EFI_INVALID_PARAMETER t \<and> sent t = sent demo_job_state @ [status_frame 0x104 (Some msg)]"
proof -
  have "machine_codes demo_job_state ! 5 = \<lparr>machine_code = 0, machine_code_length = 0\<rparr>"
    by (simp add: demo_job_state_def demo_core_arrays)
  then have "parameter_check (job_of 2 5 1 100 0) demo_job_state = Some 0x104"
    by (simp add: parameter_check_def job_of_def Let_def demo_ucode_def word_le_nat_alt)
  then show ?thesis
    using handle_apply_ucode_execute_test_refused [OF demo_network_reliable demo_job_ok(1,2),
        where payload_length = 20 and u = 2 and m = 5 and c = 1 and t = 100 and opts = 0 and rest = "[]" and code = "0x104"]
    by auto
qed

lemma handle_get_last_test_result_answers_witness:
  "(\<exists>t. handle_get_last_test_result demo_platform (le_bytes 8 (1 :: u64) @ []) 8 demo_job_state = Done EFI_SUCCESS t) \<and>
   handle_get_last_test_result demo_platform (le_bytes 8 (128 :: u64) @ []) 8 demo_job_state = Stop OutOfBounds demo_job_state"
proof -
  have "results_ok demo_core" by (simp add: results_ok_def demo_core_def zero_context_def)
  then show ?thesis
    using handle_get_last_test_result_answers [OF demo_network_reliable demo_job_ok(1,2), of 8 1 "[]"]
      handle_get_last_test_result_answers [OF demo_network_reliable demo_job_ok(1,2), of 8 128 "[]"]
    by auto
qed

text \<open>Machine code of the example returns at once.\<close>

lemma demo_call_code: "call_machine_code demo_platform core a s = Done () s"
proof -
  have "run_code demo_platform core a s = (Returned, s)" by (simp add: run_code_def demo_platform_def)
  then show ?thesis by (simp add: call_machine_code_def while_option_unfold)
qed

lemma demo_code_function:
  assumes "has_context core s"
    and "core_functions (context_of core s) = [\<lparr>func = Execute_machine_code, arg = None\<rparr>, null_call, null_call]"
  shows "call_core_functions demo_platform core s = Done () s"
proof -
  have "wp (call_core_functions demo_platform core) (\<lambda>_ t. t = s) (\<lambda>_ _. False) s"
    using assms unfolding call_core_functions_def function_slots
    by (simp add: wp_bind wp_get_with wp_require wp_ret null_call_def run_function.simps execute_machine_code_def
        wp_Done [where m = "call_machine_code demo_platform core _", OF demo_call_code])
  then show ?thesis by (auto dest: wp_total_returns)
qed

lemma machine_code_runs_on_core_witness:
  "\<exists>u. handle_execute_machine_code demo_platform (le_bytes 4 (2 :: u32) @ le_bytes 4 (1 :: u32) @ le_bytes 4 (100 :: u32) @ [])
      12 demo_job_state = Done EFI_SUCCESS u \<and> idle (context_of 1 u)"
proof -
  let ?i = "ucast (1 :: u32) :: u64"
  let ?q = "with_context ?i (\<lambda>c. queued (code_job (machine_code (machine_codes demo_job_state ! unat (2 :: u32))) c)) demo_job_state"
  let ?v = "job_started demo_platform ?i (?q\<lparr>world := 0\<rparr>)"
  have ctx: "has_context ?i demo_job_state" "context_of ?i demo_job_state = demo_core" by simp_all
  then have q: "has_context ?i (?q\<lparr>world := 0\<rparr>)" "context_of ?i (?q\<lparr>world := 0\<rparr>) = queued (code_job 0x9000 demo_core)"
    using with_context_simps(2) [OF ctx(1)] by (simp_all add: demo_machine_code_def)
  have v: "context_of ?i ?v = accepted ((queued (code_job 0x9000 demo_core))\<lparr>heartbeat :=
      fst (rdtsc_hw demo_platform (world (?q\<lparr>world := 0\<rparr>)))\<rparr>)"
    unfolding job_started_context [OF q(1)] q(2) ..
  have lenv: "has_context ?i ?v" using q(1) by (simp add: job_started_facts)
  have fns: "call_core_functions demo_platform ?i ?v = Done () ?v"
    by (rule demo_code_function [OF lenv], unfold v) (simp add: accepted_def queued_def code_job_def zeroed_def)
  have res: "results_ok (context_of ?i ?v)" "results_ok (context_of ?i demo_job_state)"
    unfolding v ctx(2) by (simp_all add: results_ok_def accepted_def queued_def code_job_def zeroed_def demo_core_def zero_context_def)
  have check: "job_check ?i demo_job_state = None" by (simp add: job_check_def core_check_def word_le_nat_alt)
  have "\<exists>u. handle_execute_machine_code demo_platform
        (le_bytes 4 (2 :: u32) @ le_bytes 4 (1 :: u32) @ le_bytes 4 (100 :: u32) @ []) 12 demo_job_state =
      Done EFI_SUCCESS u \<and> idle (context_of ?i u) \<and>
    sent u = sent ?v @ [frame MSG_UCODEEXECUTETESTRESPONSE
      (result_report (context_of ?i ?v) (fault_flag (context_of ?i ?v))) True]"
    by (rule machine_code_runs_on_core [OF demo_network_reliable demo_code_respects demo_job_protocol _ _ _ _ _ _ check _ res(2) _ fns res(1)])
      (simp_all add: word_less_nat_alt word_le_nat_alt demo_machine_code_def demo_platform_def)
  then show ?thesis by auto
qed

lemma demo_prepare:
  assumes "has_context 0 s" "current_microcode_slot_address (context_of 0 s) = 0x5000"
    "current_microcode_len (context_of 0 s) = 3200" "scratch_space (context_of 0 s) = Some (replicate 4096 0)"
    "heap s 0x5000 = Some (replicate 16384 0)"
  shows "\<exists>b. prepare_ucode_update 0 s = Done () (with_context 0 (\<lambda>c. c\<lparr>scratch_space := Some b\<rparr>) s)"
proof -
  have "wp (iterate_ucode 0x5000 3200) (\<lambda>_ t. t = s) (\<lambda>_ _. False) s"
    by (rule wp_iterate_ucode [OF assms(5)]) simp_all
  then obtain v where v: "iterate_ucode 0x5000 3200 s = Done v s" by (auto dest: wp_total_returns)
  have "wp (prepare_ucode_update 0) (\<lambda>_ t. \<exists>b. t = with_context 0 (\<lambda>c. c\<lparr>scratch_space := Some b\<rparr>) s) (\<lambda>_ _. False) s"
    using assms(1-4) unfolding prepare_ucode_update_def
    by (auto simp: wp_bind wp_get_with wp_Done [where m = "iterate_ucode _ _", OF v] wp_from_option wp_require wp_update_with)
  from wp_total_returns [OF this] show ?thesis by auto
qed

lemma demo_apply:
  assumes "has_context 0 s"
  shows "\<exists>g r w. apply_ucode_execute_machine_code_simple demo_platform 0 s =
    Done () ((with_context 0 (\<lambda>c. c\<lparr>ret_gpf_value := g, ret_rdtsc_value := r\<rparr>) s)\<lparr>world := w\<rparr>)"
proof -
  obtain cycles gp w where eff: "update_effect demo_platform (current_microcode_slot_address (context_of 0 s)) (world s) = (cycles, gp, w)"
    by (cases "update_effect demo_platform (current_microcode_slot_address (context_of 0 s)) (world s)")
  obtain regs where m: "m_apply_ucode demo_platform 0 (ucode_entry_regs (current_microcode_slot_address (context_of 0 s))) s =
      Done regs (s\<lparr>world := w\<rparr>)"
    using m_apply_ucode_boot [of demo_platform "ucode_entry_regs (current_microcode_slot_address (context_of 0 s))" s cycles gp w] eff
    by (auto simp: ucode_entry_regs_def)
  have world: "with_context 0 f (s\<lparr>world := w\<rparr>) = (with_context 0 f s)\<lparr>world := w\<rparr>" for f by (simp add: with_context_def)
  have "wp (apply_ucode_execute_machine_code_simple demo_platform 0) (\<lambda>_ t.
      t = (with_context 0 (\<lambda>c. c\<lparr>ret_gpf_value := r9 regs, ret_rdtsc_value := rax regs\<rparr>) s)\<lparr>world := w\<rparr>) (\<lambda>_ _. False) s"
    using assms unfolding apply_ucode_execute_machine_code_simple_def apply_ucode_execute_machine_code_def
    by (simp add: wp_bind wp_get_with wp_Done [where m = "m_apply_ucode _ _ _", OF m [simplified]] wp_update_with wp_ret
        wp_Done [where m = "call_machine_code demo_platform 0 _", OF demo_call_code] world [symmetric])
  from wp_total_returns [OF this] show ?thesis by auto
qed

text \<open>The job of the boot core, whatever its context was: all three functions return.\<close>

lemma demo_test_job:
  assumes "has_context 0 s" "context_of 0 s = own_job (test_job demo_ucode demo_machine_code 0 boot_core)"
    "heap s 0x5000 = Some (replicate 16384 0)"
  shows "\<exists>t. call_core_functions demo_platform 0 s = Done () t \<and> results_ok (context_of 0 t)"
proof -
  let ?c = "context_of 0 s"
  have c: "current_microcode_slot_address ?c = 0x5000" "current_microcode_len ?c = 3200" "result_buffer_len ?c = 0"
    "scratch_space ?c = Some (replicate 4096 0)"
    "core_functions ?c = [\<lparr>func = Prepare_ucode_update, arg = None\<rparr>,
       \<lparr>func = Apply_ucode_execute_machine_code_simple, arg = None\<rparr>, null_call]"
    unfolding assms(2)
    by (simp_all add: own_job_def test_job_def zeroed_def boot_core_def demo_core_def zero_context_def demo_ucode_def)
  obtain b where 1: "prepare_ucode_update 0 s = Done () (with_context 0 (\<lambda>c. c\<lparr>scratch_space := Some b\<rparr>) s)"
    using demo_prepare [OF assms(1) c(1,2,4) assms(3)] by blast
  let ?s = "with_context 0 (\<lambda>c. c\<lparr>scratch_space := Some b\<rparr>) s"
  obtain g r w where 2: "apply_ucode_execute_machine_code_simple demo_platform 0 ?s =
      Done () ((with_context 0 (\<lambda>c. c\<lparr>ret_gpf_value := g, ret_rdtsc_value := r\<rparr>) ?s)\<lparr>world := w\<rparr>)"
    using demo_apply [of ?s] assms(1) by auto
  have "wp (call_core_functions demo_platform 0) (\<lambda>_ t. results_ok (context_of 0 t)) (\<lambda>_ _. False) s"
    using assms(1) c unfolding call_core_functions_def function_slots
    by (simp add: wp_bind wp_get_with wp_require wp_ret null_call_def run_function.simps
        wp_Done [where m = "prepare_ucode_update 0", OF 1]
        wp_Done [where m = "apply_ucode_execute_machine_code_simple _ _", OF 2 [simplified]] results_ok_def)
  then show ?thesis by (auto dest: wp_total_returns)
qed

lemma update_and_code_on_boot_core_witness:
  "\<exists>v. handle_apply_ucode_execute_test demo_platform (job_payload 2 2 0 100 0 @ []) 20 demo_job_state = Done EFI_SUCCESS v \<and>
     idle (context_of 0 v)"
proof -
  let ?q = "with_context 0 (\<lambda>c. own_job (test_job (ucodes demo_job_state ! unat (2 :: u32))
    (machine_codes demo_job_state ! unat (2 :: u32)) (ucast (0 :: u32)) c)) demo_job_state"
  have len: "core_contexts demo_job_state \<noteq> []" using demo_job_facts(5) by (metis list.size(3) zero_neq_numeral)
  have q: "has_context 0 ?q" "context_of 0 ?q = own_job (test_job demo_ucode demo_machine_code 0 boot_core)"
    "heap ?q 0x5000 = Some (replicate 16384 0)"
    using len by simp_all
  obtain t where t: "call_core_functions demo_platform 0 ?q = Done () t" "results_ok (context_of 0 t)"
    using demo_test_job [OF q] by blast
  have check: "parameter_check (job_of 2 2 0 100 0) demo_job_state = None" "job_check 0 demo_job_state = None"
    "results_ok (context_of 0 demo_job_state)"
    by (simp_all add: parameter_check_def job_of_def Let_def demo_ucode_def demo_machine_code_def word_le_nat_alt
        job_check_def core_check_def boot_core_def results_ok_def) (simp_all add: demo_core_def zero_context_def)
  show ?thesis
    using update_and_code_on_boot_core [OF demo_network_reliable demo_code_respects demo_job_ok(1,2) _ check t,
        of 20 "[]"] by auto
qed

end
