(* ===== verification/Msr.thy ===== *)
theory Msr
  imports Ucode_Execute
begin

text \<open>
  \<^verbatim>\<open>handlers/ucode.c\<close>, reading model-specific registers: on the boot core directly, on any other core as a
  job whose argument is the address of a local array of the handler.
\<close>

section \<open>Reading model-specific registers\<close>

definition send_msr_response :: "'w platform \<Rightarrow> nat \<Rightarrow> ('w, efi_status) prog" where
  "send_msr_response P frame_id =
     bind (read_frame (Some frame_id) 0) (\<lambda>eax.
     bind (read_frame (Some frame_id) 1) (\<lambda>edx.
     respond P (report_print P) MSG_MSRRESPONSE (\<lambda>_. le_bytes 4 eax @ le_bytes 4 edx) 8 (8 + HEADER_SIZE) True))"

text \<open>A handler with a local array of two words, which is gone when the handler returns.\<close>

definition with_frame :: "u32 list \<Rightarrow> (nat \<Rightarrow> ('w, 'a) prog) \<Rightarrow> ('w, 'a) prog" where
  "with_frame ws body =
     bind (new_frame ws) (\<lambda>n.
     bind (body n) (\<lambda>result.
     bind (drop_frame n) (\<lambda>_. ret result)))"

definition handle_read_msr :: "'w platform \<Rightarrow> u8 list \<Rightarrow> u64 \<Rightarrow> ('w, efi_status) prog" where
  "handle_read_msr P payload payload_length =
     (if payload_length < 4 then
        reject P ''MSG_READMSR is too short, need at least 4 Bytes, got %u.'' [payload_length]
          0x1 EFI_INVALID_PARAMETER
      else
        bind (load_u32 payload 0) (\<lambda>target_msr.
        with_frame [target_msr, 0] (\<lambda>buf.
          bind (read_msr P 0 (Some buf)) (\<lambda>_.
          send_msr_response P buf))))"

definition handle_read_msr_on_core :: "'w platform \<Rightarrow> u8 list \<Rightarrow> u64 \<Rightarrow> ('w, efi_status) prog" where
  "handle_read_msr_on_core P payload payload_length =
     (if payload_length < 12 then
        reject P ''MSG_READMSRONCORE is too short, need at least 12 Bytes, got %u.'' [payload_length]
          0x1 EFI_INVALID_PARAMETER
      else
        bind (load_u32 payload 0) (\<lambda>target_msr.
        bind (load_u64 payload 4) (\<lambda>core.
        if core = 0 then handle_read_msr P payload payload_length else
        with_frame [target_msr, 0] (\<lambda>buf.
          bind (acquire_core_lock_for_job P core) (\<lambda>status.
          if status \<noteq> EFI_SUCCESS then ret status else
          bind (clear_core_functions core) (\<lambda>_.
          bind (update_context core (\<lambda>c. c\<lparr>core_functions :=
            (core_functions c)[0 := \<lparr>func = Read_msr, arg = Some buf\<rparr>]\<rparr>)) (\<lambda>_.
          bind (update_context core (\<lambda>c. c\<lparr>job_queued := 1\<rparr>)) (\<lambda>_.
          bind (unlock_context core) (\<lambda>_.
          bind (wait_on_ap_exec P core 100) (\<lambda>timeout_reached.
          if timeout_reached then
            reject P ''Core %u was ready, but did not respond to read msr in 100ms, likely stuck?'' [core]
              0x2 EFI_TIMEOUT
          else send_msr_response P buf))))))))))"


section \<open>Values\<close>

text \<open>What the instruction gives on a core: the value of its register, or the constant of the fault handlers.\<close>

definition msr_value :: "'w platform \<Rightarrow> u64 \<Rightarrow> u32 \<Rightarrow> 'w \<Rightarrow> u64" where
  "msr_value P core msr w = (case fst (rdmsr_hw P core msr w) of Some x \<Rightarrow> x | None \<Rightarrow> 0xDEAD)"

definition msr_words :: "u64 \<Rightarrow> u32 list" where
  "msr_words v = [ucast (v AND 0xFFFFFFFF), ucast (drop_bit 32 v)]"

lemma msr_words_bytes:
  "le_bytes 4 (msr_words v ! 0) @ le_bytes 4 (msr_words v ! Suc 0) = le_bytes 8 v"
proof -
  have low: "v AND 0xFFFFFFFF = take_bit 32 v" by (simp add: take_bit_eq_mask mask_eq_exp_minus_1)
  have "ucast (drop_bit i (ucast (take_bit 32 v) :: u32)) = (ucast (drop_bit i v) :: u8)" if "i \<le> 24" for i
    using that by (intro bit_word_eqI) (auto simp: bit_simps)
  moreover have "ucast (drop_bit i (ucast (drop_bit 32 v) :: u32)) = (ucast (drop_bit (32 + i) v) :: u8)" if "i \<le> 24" for i
    using that by (intro bit_word_eqI) (auto simp: bit_simps ac_simps)
  moreover from calculation(1) [of 0] calculation(2) [of 0]
  have "ucast (ucast (take_bit 32 v) :: u32) = (ucast v :: u8)" "ucast (ucast (drop_bit 32 v) :: u32) = (ucast (drop_bit 32 v) :: u8)"
    by simp_all
  ultimately show ?thesis
    by (simp add: msr_words_def low numeral_eq_Suc)
qed

lemma wp_read_msr:
  assumes fr: "frames s n = Some [msr, x]"
    and ctx: "core \<noteq> 0 \<Longrightarrow> has_context core s \<and> fault_info (context_of core s) \<noteq> None"
    and Q: "\<And>i w. i = fault_info (context_of core s) \<or> core \<noteq> 0 \<and> i \<noteq> None \<Longrightarrow>
      Q () ((with_context core (\<lambda>c. c\<lparr>fault_info := i\<rparr>) s)\<lparr>world := w,
               frames := (frames s)(n \<mapsto> msr_words (msr_value P core msr (world s)))\<rparr>)"
  shows "wp (read_msr P core (Some n)) Q E s"
proof -
  let ?w = "snd (rdmsr_hw P core msr (world s))"
  have same: "with_context core (\<lambda>c. c\<lparr>fault_info := fault_info (context_of core s)\<rparr>) s = s"
    by (intro with_context_same) simp
  have written: "wp (bind (write_frame (Some n) 0 (ucast (v AND 0xFFFFFFFF))) (\<lambda>_.
      write_frame (Some n) 1 (ucast (drop_bit 32 v)))) Q E u"
    if "v = msr_value P core msr (world s)" "frames u = frames s" "\<And>f. u\<lparr>frames := f\<rparr> = v'\<lparr>frames := f\<rparr>"
      "Q () (v'\<lparr>frames := (frames s)(n \<mapsto> msr_words v)\<rparr>)" for v u v'
    using that fr by (simp add: wp_bind wp_write_frame msr_words_def)
  show ?thesis
  proof (cases "fst (rdmsr_hw P core msr (world s))")
    case (Some v)
    have "wp (bind (write_frame (Some n) 0 (ucast (v AND 0xFFFFFFFF))) (\<lambda>_.
      write_frame (Some n) 1 (ucast (drop_bit 32 v)))) Q E (s\<lparr>world := ?w\<rparr>)"
      by (rule written [where v' = "s\<lparr>world := ?w\<rparr>"])
        (use Some Q [of "fault_info (context_of core s)" ?w] in \<open>simp_all add: msr_value_def same\<close>)
    then show ?thesis using Some fr
      by (simp add: read_msr_def read_msr_stub_def wp_bind wp_on_world wp_read_frame wp_ret)
  next
    case None
    show ?thesis
    proof (cases "core = 0")
      case True
      have "wp (bind (write_frame (Some n) 0 (ucast (0xDEAD AND (0xFFFFFFFF :: u64)))) (\<lambda>_.
        write_frame (Some n) 1 (ucast (drop_bit 32 (0xDEAD :: u64))))) Q E (s\<lparr>world := ?w\<rparr>)"
        by (rule written [where v' = "s\<lparr>world := ?w\<rparr>"])
          (use None Q [of "fault_info (context_of core s)" ?w] in \<open>simp_all add: msr_value_def same\<close>)
      then show ?thesis using None fr True
        by (simp add: read_msr_def read_msr_stub_def gp_handled_def wp_bind wp_on_world wp_read_frame wp_ret)
    next
      case False
      then obtain info where info: "has_context core s" "fault_info (context_of core s) = Some info" using ctx by blast
      let ?i = "Some (fst (proto_handler P core 13 (gp_frame_hw P ?w) info))"
      let ?u = "with_context core (\<lambda>c. c\<lparr>fault_info := ?i\<rparr>) (s\<lparr>world := ?w\<rparr>)"
      have "wp (bind (write_frame (Some n) 0 (ucast (0xDEAD AND (0xFFFFFFFF :: u64)))) (\<lambda>_.
        write_frame (Some n) 1 (ucast (drop_bit 32 (0xDEAD :: u64))))) Q E ?u"
        by (rule written [where v' = "(with_context core (\<lambda>c. c\<lparr>fault_info := ?i\<rparr>) s)\<lparr>world := ?w\<rparr>"])
          (use None False Q [of ?i ?w] in \<open>simp_all add: msr_value_def with_context_def\<close>)
      then show ?thesis using None fr False info
        by (simp add: read_msr_def read_msr_stub_def gp_handled_def wp_bind wp_on_world wp_read_frame wp_ret
            wp_get_with wp_from_option wp_gets wp_update_with)
    qed
  qed
qed


section \<open>Answers\<close>

lemma wp_new_frame:
  "wp (new_frame ws) Q E s = Q (next_frame s) (s\<lparr>frames := (frames s)(next_frame s \<mapsto> ws), next_frame := Suc (next_frame s)\<rparr>)"
  by (simp add: new_frame_def wp_simps)

lemma wp_drop_frame: "wp (drop_frame n) Q E s = Q () (s\<lparr>frames := (frames s)(n := None)\<rparr>)"
  by (simp add: drop_frame_def wp_simps)

lemma wp_send_msr_response:
  assumes net: "network_reliable P" and ok: "buffers_ok s" and fr: "frames s n = Some (msr_words v)"
    and Q: "\<And>t. io_only s t \<Longrightarrow> buffers_ok t \<Longrightarrow> sent t = sent s @ [frame MSG_MSRRESPONSE (le_bytes 8 v) True] \<Longrightarrow> Q EFI_SUCCESS t"
  shows "wp (send_msr_response P n) Q E s"
proof -
  have two: "0 < length (msr_words v)" "1 < length (msr_words v)" by (simp_all add: msr_words_def)
  have "wp (respond P (report_print P) MSG_MSRRESPONSE (\<lambda>_. le_bytes 8 v) 8 (8 + HEADER_SIZE) True) Q E s"
    by (rule wp_respond [OF net ok, where m = 8]) (auto intro!: Q)
  then show ?thesis
    using two fr by (simp add: send_msr_response_def wp_bind wp_read_frame msr_words_bytes)
qed

text \<open>A request for a register of the boot core is answered with its value.\<close>

lemma handle_read_msr_answers:
  assumes net: "network_reliable P" and ok: "buffers_ok s" and pl: "4 \<le> payload_length"
  shows "\<exists>t. handle_read_msr P (le_bytes 4 msr @ rest) payload_length s = Done EFI_SUCCESS t \<and>
    sent t = sent s @ [frame MSG_MSRRESPONSE (le_bytes 8 (msr_value P 0 msr (world s))) True] \<and>
    frames t = (frames s)(next_frame s := None) \<and> core_contexts t = core_contexts s"
proof -
  let ?n = "next_frame s"
  let ?s = "s\<lparr>frames := (frames s)(?n \<mapsto> [msr, 0]), next_frame := Suc ?n\<rparr>"
  let ?Q = "\<lambda>st t. st = EFI_SUCCESS \<and>
    sent t = sent s @ [frame MSG_MSRRESPONSE (le_bytes 8 (msr_value P 0 msr (world s))) True] \<and>
    frames t = (frames s)(next_frame s := None) \<and> core_contexts t = core_contexts s"
  have "wp (read_msr P 0 (Some ?n)) (\<lambda>_. wp (send_msr_response P ?n)
      (\<lambda>r. wp (bind (drop_frame ?n) (\<lambda>_. ret r)) ?Q (\<lambda>_ _. False)) (\<lambda>_ _. False)) (\<lambda>_ _. False) ?s"
  proof (rule wp_read_msr [where msr = msr and x = 0], goal_cases)
    case (3 i w)
    then have i: "i = fault_info (context_of 0 ?s)" by simp
    have same: "with_context 0 (\<lambda>c. c\<lparr>fault_info := i\<rparr>) ?s = ?s"
      unfolding i by (intro with_context_same) simp
    show ?case
      unfolding same
      by (rule wp_send_msr_response [OF net])
        (use ok in \<open>auto simp: buffers_ok_def io_only_def wp_bind wp_drop_frame wp_ret\<close>)
  qed simp_all
  then have "wp (handle_read_msr P (le_bytes 4 msr @ rest) payload_length) ?Q (\<lambda>_ _. False) s"
    using leD [OF pl]
    by (simp add: handle_read_msr_def with_frame_def wp_bind wp_load_u32 u32c.dec_enc wp_new_frame wp_ret)
  from wp_total_returns [OF this] show ?thesis by auto
qed


section \<open>The job that reads a register\<close>

definition msr_job :: "nat \<Rightarrow> CoreContext \<Rightarrow> CoreContext" where
  "msr_job n c = c\<lparr>lock := 1, core_functions := [\<lparr>func = Read_msr, arg = Some n\<rparr>, null_call, null_call]\<rparr>"

text \<open>The state in which the boot core waits: the array is allocated and the job queued.\<close>

definition msr_framed :: "u32 \<Rightarrow> 'w state \<Rightarrow> 'w state" where
  "msr_framed msr s = s\<lparr>frames := (frames s)(next_frame s \<mapsto> [msr, 0]), next_frame := Suc (next_frame s)\<rparr>"

definition msr_waiting :: "u32 \<Rightarrow> u64 \<Rightarrow> 'w state \<Rightarrow> 'w state" where
  "msr_waiting msr core s = with_context core queued (with_context core (msr_job (next_frame s)) (msr_framed msr s))"

lemma msr_framed_simps [simp]:
  "core_contexts (msr_framed msr s) = core_contexts s" "world (msr_framed msr s) = world s"
  "sent (msr_framed msr s) = sent s" "ap_phases (msr_framed msr s) = ap_phases s"
  "buffers_ok (msr_framed msr s) = buffers_ok s" "arrays_ok (msr_framed msr s) = arrays_ok s"
  "frames (msr_framed msr s) (next_frame s) = Some [msr, 0]" "ap_phase_of core (msr_framed msr s) = ap_phase_of core s"
  by (simp_all add: msr_framed_def buffers_ok_def arrays_ok_def ap_phase_of_def)

lemma msr_framed_protocol: "protocol s \<Longrightarrow> protocol (msr_framed msr s)"
  by (simp add: msr_framed_def protocol_def buffers_ok_def arrays_ok_def slots_ok_def)

lemma wp_read_msr_on_core_head:
  assumes check: "core \<noteq> 0" "job_check core s = None" and ok: "arrays_ok s" and ctx: "has_context core s"
    and pl: "12 \<le> payload_length"
  shows "wp (handle_read_msr_on_core P (le_bytes 4 msr @ le_bytes 8 core @ rest) payload_length) Q E s =
    wp (wait_on_ap_exec P core 100) (\<lambda>timeout_reached.
      wp (if timeout_reached then
            reject P ''Core %u was ready, but did not respond to read msr in 100ms, likely stuck?'' [core]
              0x2 EFI_TIMEOUT
          else send_msr_response P (next_frame s))
        (\<lambda>r. wp (bind (drop_frame (next_frame s)) (\<lambda>_. ret r)) Q E) E) E (msr_waiting msr core s)"
proof -
  have slices: "take 4 (le_bytes 4 msr) = le_bytes 4 msr" "slice 4 8 (le_bytes 4 msr @ le_bytes 8 core @ rest) = le_bytes 8 core"
    by (simp_all add: slice_def)
  have "job_check core (msr_framed msr s) = job_check core s" by (simp add: job_check_def core_check_def)
  then have job: "job_check core (msr_framed msr s) = None" using check(2) by simp
  have q: "with_context core (\<lambda>c. c\<lparr>core_functions := [\<lparr>func = Read_msr, arg = Some (next_frame s)\<rparr>, null_call, null_call],
      job_queued := 1, lock := 0\<rparr>) (msr_framed msr s) = msr_waiting msr core s"
    by (simp add: msr_waiting_def queued_def msr_job_def)
  show ?thesis
    unfolding handle_read_msr_on_core_def with_frame_def
    using leD [OF pl] slices check(1) ctx
    by (simp add: wp_bind wp_load_u32 wp_load_u64 u32c.dec_enc u64c.dec_enc wp_new_frame msr_framed_def [symmetric]
        wp_acquire_ok [OF job] ok clear_core_functions_def wp_update_with wp_unlock null_slots q cong: if_cong)
qed


lemma msr_waiting_facts:
  assumes s: "protocol s" and core: "core \<noteq> 0" "unat core < 128" and loop: "ap_phase_of core s = ApLoop"
  shows "protocol (with_context core (msr_job (next_frame s)) (msr_framed msr s))" "has_context core (msr_framed msr s)"
    "context_of core (msr_waiting msr core s) = queued (msr_job (next_frame s) (context_of core s))"
    "buffers_ok (msr_waiting msr core s)" "has_context core (msr_waiting msr core s)"
proof -
  show "protocol (with_context core (msr_job (next_frame s)) (msr_framed msr s))"
    by (rule protocol_loop [OF msr_framed_protocol [OF s] core]) (simp_all add: loop msr_job_def)
  have ctx: "has_context core s" by (rule protocol_core(2) [OF s core])
  then show "has_context core (msr_framed msr s)" by simp
  show "context_of core (msr_waiting msr core s) = queued (msr_job (next_frame s) (context_of core s))"
    using ctx by (simp add: msr_waiting_def)
  show "buffers_ok (msr_waiting msr core s)" "has_context core (msr_waiting msr core s)"
    using protocol_ok(1) [OF s] ctx by (simp_all add: msr_waiting_def)
qed

text \<open>The functions of the job: they leave the value in the array.\<close>

lemma msr_job_functions:
  fixes s :: "'w state" and w :: 'w and core :: u64 and msr :: u32 and P :: "'w platform"
  defines "u \<equiv> job_started P core ((msr_waiting msr core s)\<lparr>world := w\<rparr>)"
  assumes ctx: "has_context core s" and fault: "fault_info (context_of core s) \<noteq> None" and core: "core \<noteq> 0"
  shows "\<exists>t. call_core_functions P core u = Done () t \<and> sent t = sent s \<and>
    frames t = (frames s)(next_frame s \<mapsto> msr_words (msr_value P core msr (snd (rdtsc_hw P w))))"
proof -
  have c: "context_of core u = accepted ((queued (msr_job (next_frame s) (context_of core s)))\<lparr>heartbeat := fst (rdtsc_hw P w)\<rparr>)"
    using ctx by (simp add: u_def job_started_context msr_waiting_def)
  have u: "frames u = (frames s)(next_frame s \<mapsto> [msr, 0])" "world u = snd (rdtsc_hw P w)" "sent u = sent s" "has_context core u"
    "core_functions (context_of core u) = [\<lparr>func = Read_msr, arg = Some (next_frame s)\<rparr>, null_call, null_call]"
    using ctx unfolding c by (simp_all add: u_def job_started_def with_phase_def msr_waiting_def msr_framed_def
        accepted_def queued_def msr_job_def)
  have fault': "fault_info (context_of core u) \<noteq> None"
    unfolding c using fault by (simp add: accepted_def queued_def msr_job_def)
  let ?v = "msr_value P core msr (world u)"
  let ?Q = "\<lambda>_ t. sent t = sent s \<and> frames t = (frames s)(next_frame s \<mapsto> msr_words ?v)"
  have "wp (read_msr P core (Some (next_frame s))) (\<lambda>_ t. has_context core t \<and> core_functions (context_of core t) =
      core_functions (context_of core u) \<and> ?Q () t) (\<lambda>_ _. False) u"
    by (rule wp_read_msr [where msr = msr and x = 0]) (use u fault' in simp_all)
  then have "wp (call_core_functions P core) ?Q (\<lambda>_ _. False) u"
    unfolding call_core_functions_def function_slots
    using u(4,5) by (simp add: wp_bind wp_get_with wp_require wp_ret run_function.simps)
      (erule wp_mono, auto simp: wp_bind wp_get_with wp_require wp_ret null_call_def run_function.simps)
  then show ?thesis unfolding u(2) by (auto dest: wp_total_returns)
qed

text \<open>
  C35. A request for a register of another core that can take a job: when the core makes its two steps while the boot core
  stalls for the first time, the client receives the value that the core reads, or 0xDEAD if the access faults there,
  the core is idle again, and the array of the handler is gone with the job done.
\<close>

theorem handle_read_msr_on_core_answers:
  fixes msr :: u32
  assumes net: "network_reliable P" and P: "code_respects P" and s: "protocol s" and pl: "12 \<le> payload_length"
    and core: "core \<noteq> 0" "job_check core s = None" "fault_info (context_of core s) \<noteq> None"
    and aps: "ap_steps_fw P (world s) = ([core, core], w)"
  shows "\<exists>t. handle_read_msr_on_core P (le_bytes 4 msr @ le_bytes 8 core @ rest) payload_length s = Done EFI_SUCCESS t \<and>
    sent t = sent s @ [frame MSG_MSRRESPONSE (le_bytes 8 (msr_value P core msr (snd (rdtsc_hw P w)))) True] \<and>
    idle (context_of core t) \<and> frames t = (frames s)(next_frame s := None)"
proof -
  note lt = job_check_loop [OF s core(1,2)]
  note facts = msr_waiting_facts [OF s core(1) lt, of msr]
  note ctx = facts(2) [unfolded msr_framed_simps]
  let ?v = "msr_value P core msr (snd (rdtsc_hw P w))"
  obtain t where t: "call_core_functions P core (job_started P core ((msr_waiting msr core s)\<lparr>world := w\<rparr>)) = Done () t"
    "sent t = sent s" "frames t = (frames s)(next_frame s \<mapsto> msr_words ?v)"
    using msr_job_functions [OF ctx core(3,1), where P = P and msr = msr and w = w] by blast
  let ?j = "with_context core (msr_job (next_frame s)) (msr_framed msr s)"
  have j: "ap_phase_of core ?j = ApLoop" "fault_info (context_of core ?j) \<noteq> None" "1 < unat (100 :: u64)"
    "ap_steps_fw P (world ?j) = ([core, core], w)"
    using lt(2) core(3) ctx aps by (simp_all add: msr_job_def)
  note finished = wait_job_done [OF P facts(1) core(1) lt(1) j t(1) [unfolded msr_waiting_def], folded msr_waiting_def]
  let ?t = "with_phase core ApLoop (with_context core job_done t)"
  have eff: "job_effect core (job_started P core ((msr_waiting msr core s)\<lparr>world := w\<rparr>)) t"
    by (rule job_functions_effect(1) [OF P t(1)])
  then have "buffers_ok t" "job_queued (context_of core t) = 0"
    using facts(4,5) by (simp_all add: job_effect_def same_flags_def job_started_facts)
  then have ok: "buffers_ok ?t" "idle (context_of core ?t)" "sent ?t = sent s"
    "frames ?t = (frames s)(next_frame s \<mapsto> msr_words ?v)"
    using finished(2) idle_job_done t(2,3) by simp_all (simp add: with_phase_def)
  have "wp (handle_read_msr_on_core P (le_bytes 4 msr @ le_bytes 8 core @ rest) payload_length)
    (\<lambda>st t. st = EFI_SUCCESS \<and> sent t = sent s @ [frame MSG_MSRRESPONSE (le_bytes 8 ?v) True] \<and>
      idle (context_of core t) \<and> frames t = (frames s)(next_frame s := None)) (\<lambda>_ _. False) s"
    unfolding wp_read_msr_on_core_head [OF core(1,2) protocol_ok(2) [OF s] ctx pl]
      wp_Done [where m = "wait_on_ap_exec P core 100", OF finished(1)]
    by (simp add: wp_bind wp_drop_frame wp_ret, rule wp_send_msr_response [OF net ok(1)])
      (use ok in \<open>auto simp: io_only_def wp_bind wp_drop_frame wp_ret\<close>)
  from wp_total_returns [OF this] show ?thesis by auto
qed

text \<open>
  C36. When the core makes no step within the 100 milliseconds, the handler gives up with a timeout, but it leaves the job queued with
  the address of its local array in it, which is gone: a later execution of the job accesses a dead array.
\<close>

theorem handle_read_msr_on_core_dangles:
  fixes msr :: u32
  assumes net: "network_reliable P" and s: "protocol s" and pl: "12 \<le> payload_length"
    and core: "core \<noteq> 0" "job_check core s = None" and aps: "\<forall>w. fst (ap_steps_fw P w) = []"
  shows "\<exists>t msg. handle_read_msr_on_core P (le_bytes 4 msr @ le_bytes 8 core @ rest) payload_length s = Done EFI_TIMEOUT t \<and>
    sent t = sent s @ [status_frame 2 (Some msg)] \<and> job_queued (context_of core t) = 1 \<and> lock (context_of core t) = 0 \<and>
    ap_phase_of core t = ApLoop \<and> call_core_functions P core t = Stop DeadFrame t"
proof -
  note lt = job_check_loop [OF s core(1,2)]
  note facts = msr_waiting_facts [OF s core(1) lt, of msr]
  note ctx = facts(2) [unfolded msr_framed_simps]
  let ?q = "msr_waiting msr core s"
  have wait: "\<exists>w. wait_with_timeout P core n (?q\<lparr>world := v\<rparr>) = Done True (?q\<lparr>world := w\<rparr>)" for n v
  proof (induction n arbitrary: v)
    case (Suc n)
    obtain w where w: "ap_steps_fw P v = ([], w)" using aps by (metis prod.collapse)
    have "\<not> idle (context_of core (?q\<lparr>world := v\<rparr>))" unfolding facts(3) by (simp add: idle_def queued_def facts(3))
    then show ?case
      using Suc [of w] facts(5) w job_finished_run [of core "?q\<lparr>world := v\<rparr>"]
      by (simp add: bind_run run_aps_def on_world_run ret_run)
  qed (auto simp: ret_run)
  obtain w where w: "wait_on_ap_exec P core 100 ?q = Done True (?q\<lparr>world := w\<rparr>)"
    using wait [of "unat (100 :: u64)" "world ?q"] by (auto simp: wait_on_ap_exec_def)
  let ?R = "\<lambda>st t. st = EFI_TIMEOUT \<and> (\<exists>msg. sent t = sent s @ [status_frame 2 (Some msg)]) \<and>
    core_contexts t = core_contexts ?q \<and> ap_phases t = ap_phases s \<and> frames t = (frames ?q)(next_frame s := None)"
  have "sent ?q = sent s" "ap_phases ?q = ap_phases s" by (simp_all add: msr_waiting_def)
  then have "wp (handle_read_msr_on_core P (le_bytes 4 msr @ le_bytes 8 core @ rest) payload_length) ?R (\<lambda>_ _. False) s"
    unfolding wp_read_msr_on_core_head [OF core(1,2) protocol_ok(2) [OF s] ctx pl]
      wp_Done [where m = "wait_on_ap_exec P core 100", OF w]
    by (simp, intro wp_reject [OF net])
      (use facts(4) in \<open>auto simp: buffers_ok_def io_only_def wp_bind wp_drop_frame wp_ret\<close>)
  then obtain t where t: "handle_read_msr_on_core P (le_bytes 4 msr @ le_bytes 8 core @ rest) payload_length s = Done EFI_TIMEOUT t"
    "?R EFI_TIMEOUT t"
    using wp_total_returns by fastforce
  have c: "has_context core t" "context_of core t = queued (msr_job (next_frame s) (context_of core s))"
    using t(2) facts(3,5) by simp_all
  then have fns: "core_functions (context_of core t) = [\<lparr>func = Read_msr, arg = Some (next_frame s)\<rparr>, null_call, null_call]"
    by (simp add: queued_def msr_job_def)
  have "call_core_functions P core t = Stop DeadFrame t"
    using t(2) c(1) fns unfolding call_core_functions_def function_slots
    by (simp add: bind_run get_context_run require_run run_function.simps dead_frame)
  moreover have "ap_phase_of core t = ApLoop" using t(2) lt(2) protocol_core(3) [OF s core(1) lt(1)] by (simp add: ap_phase_of_def)
  ultimately show ?thesis using t c by (auto simp: queued_def)
qed


section \<open>The theorems at the example state\<close>

lemma demo_msr_core: "job_check 1 demo_job_state = None" "fault_info (context_of 1 demo_job_state) \<noteq> None"
  by (simp_all add: job_check_def core_check_def word_le_nat_alt)

lemma handle_read_msr_on_core_answers_witness:
  "\<exists>t. handle_read_msr_on_core demo_platform (le_bytes 4 (0x8B :: u32) @ le_bytes 8 (1 :: u64) @ []) 12 demo_job_state = Done EFI_SUCCESS t \<and>
     sent t = sent demo_job_state @ [frame MSG_MSRRESPONSE (le_bytes 8 (0 :: u64)) True]"
  using handle_read_msr_on_core_answers [OF demo_network_reliable demo_code_respects demo_job_protocol _ _ demo_msr_core,
      of 12 0 "0x8B" "[]"]
  by (auto simp: demo_platform_def msr_value_def)

lemma handle_read_msr_on_core_dangles_witness:
  "\<exists>t. call_core_functions (demo_platform\<lparr>ap_steps_fw := \<lambda>w. ([], w)\<rparr>) 1 t = Stop DeadFrame t"
proof -
  have "network_reliable (demo_platform\<lparr>ap_steps_fw := \<lambda>w. ([], w)\<rparr>)"
    using demo_network_reliable by (simp add: network_reliable_def)
  then show ?thesis
    using handle_read_msr_on_core_dangles [of "demo_platform\<lparr>ap_steps_fw := \<lambda>w. ([], w)\<rparr>", OF _ demo_job_protocol _ _ demo_msr_core(1),
        of 12 "0x8B" "[]"]
    by auto
qed

end
