(* ===== verification/Ucode.thy ===== *)
theory Ucode
  imports Ucode_Execute
begin

text \<open>
  \<^verbatim>\<open>handlers/ucode.c\<close>: uploading microcode, flipping bits of it, and applying it on the boot core. The
  other parts of the file are in theories \<open>Msr\<close> and \<open>Ucode_Init\<close>.
\<close>

section \<open>Uploading microcode\<close>

definition ucode_alloc_size :: u64 where
  "ucode_alloc_size = ROUND_UP (of_nat UCODE_SIZE) 4096"

definition ucode_pages :: nat where
  "ucode_pages = unat (ucode_alloc_size div 4096)"

text \<open>The failed checks of this handler print nothing, so they send the text printed last.\<close>

definition handle_send_ucode :: "'w platform \<Rightarrow> u8 list \<Rightarrow> u64 \<Rightarrow> ('w, efi_status) prog" where
  "handle_send_ucode P payload payload_length =
     (if payload_length < 8 then
        bind (send_status_fmt P 0x1) (\<lambda>_. ret EFI_INVALID_PARAMETER)
      else
        bind (load_u32 payload 0) (\<lambda>target_slot.
        bind (load_u32 payload 4) (\<lambda>ucode_size.
        if of_nat UCODE_SLOTS - 1 < target_slot then
          bind (send_status_fmt P 0x2) (\<lambda>_. ret EFI_INVALID_PARAMETER)
        else
        bind (get_ucode (unat target_slot)) (\<lambda>c.
        bind (if ucode c = 0
              then bind (AllocatePages P ucode_pages) (\<lambda>a. put_ucode (unat target_slot) (c\<lparr>ucode := a\<rparr>))
              else ret ()) (\<lambda>_.
        bind (get_ucode (unat target_slot)) (\<lambda>c.
        if ucode c = 0 then
          bind (send_status_fmt P 0x3) (\<lambda>_. ret EFI_INVALID_PARAMETER)
        else
        bind (put_ucode (unat target_slot) (c\<lparr>ucode_length := ucast ucode_size\<rparr>)) (\<lambda>_.
        bind (load_bytes payload 8 (unat ucode_size)) (\<lambda>bs.
        bind (heap_write (ucode c) 0 bs) (\<lambda>_.
        bind (send_status P 0x0 None) (\<lambda>_.
        ret EFI_SUCCESS))))))))))"


section \<open>Flipping bits\<close>

definition flip_bit :: "u64 \<Rightarrow> u64 \<Rightarrow> u32 \<Rightarrow> ('w, unit) prog" where
  "flip_bit addr ucode_len position =
     (if ucode_len \<le> ucast (position div 8) then ret () else
      bind (heap_read addr (unat (position div 8)) 1) (\<lambda>bs.
      heap_write addr (unat (position div 8)) [hd bs XOR push_bit (unat (position mod 8)) 1]))"

definition handle_flip_bits :: "'w platform \<Rightarrow> u8 list \<Rightarrow> u64 \<Rightarrow> ('w, efi_status) prog" where
  "handle_flip_bits P payload payload_length =
     (if payload_length < 8 then
        reject P ''FLIPBITS is too short, need at least 8 Bytes, got %u.'' [payload_length] 0x1 EFI_INVALID_PARAMETER
      else
        bind (load_u32 payload 0) (\<lambda>target_slot.
        bind (load_u32 payload 4) (\<lambda>num_flips.
        if of_nat UCODE_SLOTS - 1 < target_slot then
          reject P ''Invalid target slot, got %u, max %u.'' [ucast target_slot, of_nat UCODE_SLOTS - 1]
            0x2 EFI_INVALID_PARAMETER
        else
        bind (get_ucode (unat target_slot)) (\<lambda>target.
        if ucode target = 0 then
          reject P ''Slot %u is empty'' [ucast target_slot] 0x3 EFI_INVALID_PARAMETER
        else
        bind (if target_slot \<noteq> 1 then
            bind (get_ucode 1) (\<lambda>c.
            bind (if ucode c = 0
                  then bind (AllocatePages P ucode_pages) (\<lambda>a.
                    put_ucode 1 (c\<lparr>ucode := a, ucode_length := ucode_alloc_size\<rparr>))
                  else ret ()) (\<lambda>_.
            bind (get_ucode 1) (\<lambda>c.
            bind (copy_block (ucode c) (ucode target) (unat (ucode_length target))) (\<lambda>_.
            put_ucode 1 (c\<lparr>ucode_length := ucode_length target\<rparr>)))))
          else ret ()) (\<lambda>_.
        bind (for_each [0 ..< unat num_flips] (\<lambda>i.
          bind (get_ucode 1) (\<lambda>c.
          bind (get_ucode (unat target_slot)) (\<lambda>target.
          bind (load_u32 payload (8 + 4 * i)) (\<lambda>position.
          flip_bit (ucode c) (ucode_length target) position))))) (\<lambda>_.
        bind (send_status P 0x0 None) (\<lambda>_.
        ret EFI_SUCCESS)))))))"


section \<open>Applying microcode on the boot core\<close>

definition handle_apply_ucode :: "'w platform \<Rightarrow> u8 list \<Rightarrow> u64 \<Rightarrow> ('w, efi_status) prog" where
  "handle_apply_ucode P payload payload_length =
     (if payload_length < 8 then
        reject P ''MSG_APPLYUCODE is too short, need at least 8 Bytes, got %u.'' [payload_length]
          0x1 EFI_INVALID_PARAMETER
      else
        bind (load_u32 payload 0) (\<lambda>target_slot.
        bind (load_u32 payload 4) (\<lambda>opts.
        bind (get_ucode (unat target_slot)) (\<lambda>c.
        if ucode c = 0 \<or> ucode_length c = 0 then
          reject P ''Target slot %u is empty.'' [ucast target_slot] 0x2 EFI_INVALID_PARAMETER
        else
        bind (iterate_ucode (ucode c) (ucode_length c)) (\<lambda>dummy.
        bind (if opts AND 0x01 = 0x01 then apply_ucode_restore P (ucode c) else apply_ucode_simple P (ucode c))
          (\<lambda>(result, interrupt_value).
        bind (write_payload 0 (le_bytes 8 result)) (\<lambda>_.
        bind (write_payload 8 (le_bytes 8 interrupt_value)) (\<lambda>_.
        respond P (report_print P) MSG_UCODERESPONSE payload_buffer 16 (16 + HEADER_SIZE) True))))))))"


section \<open>Uploads\<close>

lemma ucode_sizes [simp]: "ucode_alloc_size = 16384" "ucode_pages = 4"
  by (simp_all add: ucode_alloc_size_def ucode_pages_def ROUND_UP_def)

lemma uaccess_uploaded_io:
  "uaccess.uploaded i bs s t \<Longrightarrow> buffers_ok t = buffers_ok s \<and> sent t = sent s \<and> machine_codes t = machine_codes s \<and>
     core_contexts t = core_contexts s \<and> format_buffer t = format_buffer s"
  by (auto simp: uaccess.uploaded_def buffers_ok_def)

text \<open>The part of an upload after its checks.\<close>

lemma handle_send_ucode_head:
  fixes slot :: u32
  defines "i \<equiv> unat slot"
  assumes "8 \<le> payload_length" "slot < 10" "length (ucodes s) = 10" "length bs < 2 ^ 32"
  shows "handle_send_ucode P (upload slot bs @ rest) payload_length s =
    bind (if ucode (ucodes s ! i) = 0
          then bind (AllocatePages P 4) (\<lambda>a. put_ucode i ((ucodes s ! i)\<lparr>ucode := a\<rparr>)) else ret ()) (\<lambda>_.
    bind (get_ucode i) (\<lambda>c.
    if ucode c = 0 then bind (send_status_fmt P 0x3) (\<lambda>_. ret EFI_INVALID_PARAMETER) else
    bind (put_ucode i (c\<lparr>ucode_length := of_nat (length bs)\<rparr>)) (\<lambda>_.
    bind (load_bytes (upload slot bs @ rest) 8 (length bs)) (\<lambda>bs.
    bind (heap_write (ucode c) 0 bs) (\<lambda>_.
    bind (send_status P 0x0 None) (\<lambda>_. ret EFI_SUCCESS)))))) s"
proof -
  have "\<not> 9 < slot" "i < length (ucodes s)" using assms(3,4) by (simp_all add: i_def word_less_nat_alt)
  then show ?thesis
    using leD [OF assms(2)] assms(5)
    by (simp add: handle_send_ucode_def head_simps u32c.dec_enc i_def [symmetric] ucast_u32_of_nat cong: if_cong)
qed

text \<open>The answer when no memory is left.\<close>

lemma wp_no_memory_answer:
  assumes net: "network_reliable P" and ok: "buffers_ok s" "slots_ok s"
  shows "wp (bind (send_status_fmt P 0x3) (\<lambda>_. ret EFI_INVALID_PARAMETER))
      (\<lambda>st t. st = EFI_INVALID_PARAMETER \<and> sent t = sent s @ [status_frame 3 (Some (format_buffer s))] \<and>
        heap t = heap s \<and> ucodes t = ucodes s \<and> slots_ok t \<and> machine_codes t = machine_codes s \<and>
        core_contexts t = core_contexts s) E (s\<lparr>world := w\<rparr>)"
  unfolding send_status_fmt_def wp_bind wp_gets
proof (rule wp_send_status [OF net], goal_cases)
  case (3 t)
  then have "heap t = heap s" "ucodes t = ucodes s" "machine_codes t = machine_codes s" "core_contexts t = core_contexts s"
    by (simp_all add: io_only_def)
  then show ?case using 3(4) ok(2) slots_ok_same [of t s] by (simp add: wp_ret)
qed (use ok(1) in \<open>simp_all add: buffers_ok_short\<close>)

lemma handle_send_ucode_fits:
  fixes slot :: u32 and s :: "'w state" and P :: "'w platform"
  defines "i \<equiv> unat slot"
  defines "no_memory \<equiv> \<lambda>st t. st = EFI_INVALID_PARAMETER \<and> ucode (ucodes s ! i) = 0 \<and>
    fst (alloc_pages_fw P 4 (heap s) (world s)) = 0 \<and> sent t = sent s @ [status_frame 3 (Some (format_buffer s))] \<and> heap t = heap s \<and> ucodes t = ucodes s"
  assumes net: "network_reliable P" and doc: "alloc_pages_documented P"
    and ok: "buffers_ok s" "arrays_ok s" "slots_ok s"
    and slot: "slot < 10" and bs: "length bs < 2 ^ 32" and pl: "8 \<le> payload_length" and fits: "length bs \<le> UCODE_SIZE"
  shows "\<exists>st t. handle_send_ucode P (upload slot bs @ rest) payload_length s = Done st t \<and>
    slots_ok t \<and> machine_codes t = machine_codes s \<and> core_contexts t = core_contexts s \<and>
    (st = EFI_SUCCESS \<and> sent t = sent s @ [status_frame 0 None] \<and>
       slot_holds (heap t) (ucode (ucodes t ! i)) (ucode_length (ucodes t ! i)) bs \<and>
       (\<forall>j. j \<noteq> i \<longrightarrow> ucodes t ! j = ucodes s ! j) \<and>
       (\<forall>a. a \<noteq> ucode (ucodes t ! i) \<longrightarrow> heap t a = heap s a) \<or> no_memory st t)"
proof -
  have i: "i < length (ucodes s)"
    using slot arrays_ok_lengths(1) [OF ok(2)] by (simp add: i_def word_less_nat_alt)
  have valid: "uslots.valid s" using ok(3) by (simp_all add: slots_ok_valid)
  note head = handle_send_ucode_head [OF pl slot arrays_ok_lengths(1) [OF ok(2)] bs, folded i_def, of P rest]
  have none: "wp (bind (send_status_fmt P 0x3) (\<lambda>_. ret EFI_INVALID_PARAMETER))
      (\<lambda>st t. no_memory st t \<and> slots_ok t \<and> machine_codes t = machine_codes s \<and> core_contexts t = core_contexts s)
      E (s\<lparr>world := w\<rparr>)" if "ucode (ucodes s ! i) = 0" "fst (alloc_pages_fw P 4 (heap s) (world s)) = 0" for w E
    by (rule wp_mono [OF wp_no_memory_answer [OF net ok(1,3)]]) (use that in \<open>simp_all add: no_memory_def\<close>)
  show ?thesis
    unfolding head
  proof (rule run_bind_returns, rule uaccess.wp_upload [OF doc valid i], goal_cases)
    case (5 w)
    show ?case by (rule wp_mono [OF none]) (use 5 in auto)
  next
    case (6 t)
    then have up: "uaccess.uploaded i bs s t" by simp
    note io = uaccess_uploaded_io [OF up]
    have holds: "slot_holds (heap t) (ucode (ucodes t ! i)) (ucode_length (ucodes t ! i)) bs"
      "j \<noteq> i \<Longrightarrow> ucodes t ! j = ucodes s ! j" "a \<noteq> ucode (ucodes t ! i) \<Longrightarrow> heap t a = heap s a" for a j
      using uaccess.uploaded_holds [OF up i] fits by simp_all
    have slots: "slots_ok t" by (rule uaccess_uploaded_slots_ok [OF up ok(3)]) (use fits in simp)
    show ?case
      unfolding wp_bind
    proof (rule wp_send_status [OF net], goal_cases)
      case (3 u)
      then have u: "heap u = heap t" "machine_codes u = machine_codes t" "ucodes u = ucodes t" "core_contexts u = core_contexts t"
        by (simp_all add: io_only_def)
      then have "slots_ok u" using slots slots_ok_same by metis
      then show ?case unfolding wp_ret u 3(4) using io holds by simp
    qed (use io ok(1) in simp_all)
  qed (use fits in simp_all)
qed

text \<open>
  C33. An upload of microcode to one of the ten slots stores the bytes in the block of the slot, or in a new one, with their
  length beside them, and changes no other slot and no other memory; when the allocation of the first block of a slot fails,
  the status 3 is sent, with the text that happens to be in the format buffer, and nothing is stored. More than 16384 bytes are written
  past the end of the block: the size is not checked.
\<close>

theorem handle_send_ucode_stores:
  fixes slot :: u32 and s :: "'w state" and P :: "'w platform"
  defines "i \<equiv> unat slot"
  defines "no_memory \<equiv> \<lambda>st t. st = EFI_INVALID_PARAMETER \<and> ucode (ucodes s ! i) = 0 \<and>
    fst (alloc_pages_fw P 4 (heap s) (world s)) = 0 \<and> sent t = sent s @ [status_frame 3 (Some (format_buffer s))] \<and> heap t = heap s \<and> ucodes t = ucodes s"
  assumes net: "network_reliable P" and doc: "alloc_pages_documented P"
    and ok: "buffers_ok s" "arrays_ok s" "slots_ok s"
    and slot: "slot < 10" and bs: "length bs < 2 ^ 32" and pl: "8 \<le> payload_length"
  shows "if length bs \<le> UCODE_SIZE then
      (\<exists>st t. handle_send_ucode P (upload slot bs @ rest) payload_length s = Done st t \<and>
        slots_ok t \<and> machine_codes t = machine_codes s \<and> core_contexts t = core_contexts s \<and>
        (st = EFI_SUCCESS \<and> sent t = sent s @ [status_frame 0 None] \<and>
           slot_holds (heap t) (ucode (ucodes t ! i)) (ucode_length (ucodes t ! i)) bs \<and>
           (\<forall>j. j \<noteq> i \<longrightarrow> ucodes t ! j = ucodes s ! j) \<and>
           (\<forall>a. a \<noteq> ucode (ucodes t ! i) \<longrightarrow> heap t a = heap s a) \<or>
         no_memory st t))
    else (\<exists>t. handle_send_ucode P (upload slot bs @ rest) payload_length s = Stop OutOfBounds t) \<or>
      (\<exists>st t. handle_send_ucode P (upload slot bs @ rest) payload_length s = Done st t \<and> no_memory st t)"
proof -
  have i: "i < length (ucodes s)"
    using slot arrays_ok_lengths(1) [OF ok(2)] by (simp add: i_def word_less_nat_alt)
  have valid: "uslots.valid s" using ok(3) by (simp_all add: slots_ok_valid)
  note head = handle_send_ucode_head [OF pl slot arrays_ok_lengths(1) [OF ok(2)] bs, folded i_def, of P rest]
  have none: "wp (bind (send_status_fmt P 0x3) (\<lambda>_. ret EFI_INVALID_PARAMETER))
      (\<lambda>st t. no_memory st t \<and> slots_ok t \<and> machine_codes t = machine_codes s \<and> core_contexts t = core_contexts s)
      E (s\<lparr>world := w\<rparr>)" if "ucode (ucodes s ! i) = 0" "fst (alloc_pages_fw P 4 (heap s) (world s)) = 0" for w E
    by (rule wp_mono [OF wp_no_memory_answer [OF net ok(1,3)]]) (use that in \<open>simp_all add: no_memory_def\<close>)
  show ?thesis
  proof (cases "length bs \<le> UCODE_SIZE")
    case True
    then show ?thesis
      using handle_send_ucode_fits [OF net doc ok slot bs pl] unfolding i_def no_memory_def by simp
  next
    case False
    have "wp (handle_send_ucode P (upload slot bs @ rest) payload_length) no_memory (\<lambda>e _. e = OutOfBounds) s"
      unfolding wp_def head unfolding wp_def [symmetric]
    proof (rule uaccess.wp_upload_stops [OF doc valid i], goal_cases)
      case (3 w)
      show ?case by (rule wp_mono [OF none]) (use 3 in auto)
    qed (use False in simp_all)
    then show ?thesis using False by (auto simp: wp_def split: outcome.splits)
  qed
qed

section \<open>Flips\<close>

text \<open>The effect of one flip on the bytes of a block whose first \<open>n\<close> bytes are microcode.\<close>

definition flip1 :: "nat \<Rightarrow> u32 \<Rightarrow> u8 list \<Rightarrow> u8 list" where
  "flip1 n p b = (if n \<le> unat p div 8 then b
     else b[unat p div 8 := b ! (unat p div 8) XOR push_bit (unat p mod 8) 1])"

lemma length_flip1 [simp]: "length (flip1 n p b) = length b"
  by (simp add: flip1_def)

lemma length_fold_flip1 [simp]: "length (fold (flip1 n) ps b) = length b"
  by (induction ps arbitrary: b) simp_all

lemma overwrite_single: "i < length b \<Longrightarrow> overwrite i [x] b = b[i := x]"
  by (simp add: overwrite_def upd_conv_take_nth_drop)

lemma wp_flip_bit:
  assumes "heap s a = Some b" "a \<noteq> 0" "unat len \<le> length b"
  shows "wp (flip_bit a len p) Q E s = Q () (s\<lparr>heap := (heap s)(a \<mapsto> flip1 (unat len) p b)\<rparr>)"
proof -
  have le: "len \<le> ucast (p div 8) \<longleftrightarrow> unat len \<le> unat p div 8"
    by (simp add: word_le_nat_alt unat_div)
  have pos: "unat (p div 8) = unat p div 8" "unat (p mod 8) = unat p mod 8" by (simp_all add: unat_div unat_mod)
  show ?thesis
  proof (cases "unat len \<le> unat p div 8")
    case True
    have "s\<lparr>heap := (heap s)(a \<mapsto> b)\<rparr> = s" using assms(1) by (simp add: fun_upd_idem)
    then show ?thesis using True le by (simp add: flip_bit_def flip1_def wp_ret)
  next
    case False
    then have lt: "unat p div 8 < length b" using assms(3) by linarith
    then have "hd (slice (unat p div 8) 1 b) = b ! (unat p div 8)"
      by (simp add: slice_def hd_conv_nth)
    then show ?thesis
      using False assms le lt by (simp add: flip_bit_def flip1_def pos wp_simps overwrite_single)
  qed
qed

lemma bit_flip1:
  assumes "q < 8 * n" "n \<le> length b"
  shows "bit (flip1 n p b ! (q div 8)) (q mod 8) \<longleftrightarrow> bit (b ! (q div 8)) (q mod 8) \<noteq> (unat p = q)"
proof -
  have q: "q mod 8 < LENGTH(8)" by simp
  have same: "unat p div 8 = q div 8 \<Longrightarrow> (unat p = q) = (unat p mod 8 = q mod 8)"
    by (metis div_mult_mod_eq)
  have diff: "unat p div 8 \<noteq> q div 8 \<Longrightarrow> unat p \<noteq> q" by auto
  show ?thesis
    using assms q same diff by (cases "unat p div 8 = q div 8") (auto simp: flip1_def bit_xor_iff bit_exp_iff)
qed

text \<open>A bit ends up flipped when its position occurs an odd number of times.\<close>

lemma bit_flips:
  assumes "q < 8 * n" "n \<le> length b"
  shows "bit (fold (flip1 n) ps b ! (q div 8)) (q mod 8) \<longleftrightarrow>
    bit (b ! (q div 8)) (q mod 8) \<noteq> odd (count_list (map unat ps) q)"
  using assms(2)
proof (induction ps arbitrary: b)
  case (Cons p ps)
  then show ?case using bit_flip1 [OF assms(1) Cons.prems, of p] by auto
qed simp

lemma slice_concat_words:
  "i < length ws \<Longrightarrow> slice (4 * i) 4 (concat (map (le_bytes 4) ws) @ rest) = le_bytes 4 (ws ! i)"
proof (induction ws arbitrary: i)
  case (Cons w ws)
  then show ?case by (cases i) (simp_all add: slice_def)
qed simp

text \<open>The payload of a request: slot, number of flips, their positions.\<close>

definition flips_payload :: "u32 \<Rightarrow> u32 list \<Rightarrow> u8 list" where
  "flips_payload slot ps = le_bytes 4 slot @ le_bytes 4 (of_nat (length ps) :: u32) @ concat (map (le_bytes 4) ps)"

lemma flips_payload_fields [simp]:
  "take 4 (flips_payload slot ps) = le_bytes 4 slot"
  "slice 4 4 (flips_payload slot ps @ rest) = le_bytes 4 (of_nat (length ps) :: u32)"
  "length (flips_payload slot ps) = 8 + 4 * length ps"
  "i < length ps \<Longrightarrow> slice (8 + 4 * i) 4 (flips_payload slot ps @ rest) = le_bytes 4 (ps ! i)"
proof -
  have len: "length (concat (map (le_bytes 4) ps)) = 4 * length ps" by (induction ps) simp_all
  then show "length (flips_payload slot ps) = 8 + 4 * length ps" by (simp add: flips_payload_def)
  have "slice (8 + k) 4 (flips_payload slot ps @ rest) = slice k 4 (concat (map (le_bytes 4) ps) @ rest)" for k
    by (simp add: slice_def flips_payload_def)
  then show "i < length ps \<Longrightarrow> slice (8 + 4 * i) 4 (flips_payload slot ps @ rest) = le_bytes 4 (ps ! i)"
    by (simp add: slice_concat_words)
qed (simp_all add: flips_payload_def slice_def)

text \<open>The loop over the positions.\<close>

lemma wp_flip_loop:
  assumes u1: "ucode (ucodes s ! 1) = a" "a \<noteq> 0" "heap s a = Some b" "length (ucodes s) = 10" "i < 10"
    and n: "unat (ucode_length (ucodes s ! i)) \<le> length b"
    and Q: "Q () (s\<lparr>heap := (heap s)(a \<mapsto> fold (flip1 (unat (ucode_length (ucodes s ! i)))) ps b)\<rparr>)"
  shows "wp (for_each [0 ..< length ps] (\<lambda>k.
      bind (get_ucode 1) (\<lambda>c. bind (get_ucode i) (\<lambda>target.
      bind (load_u32 (flips_payload slot ps @ rest) (8 + 4 * k)) (\<lambda>position.
      flip_bit (ucode c) (ucode_length target) position))))) Q E s"
proof -
  let ?n = "unat (ucode_length (ucodes s ! i))"
  let ?I = "\<lambda>k t. t = s\<lparr>heap := (heap s)(a \<mapsto> fold (flip1 ?n) (take k ps) b)\<rparr>"
  have "wp (for_each [0 ..< length ps] (\<lambda>k.
      bind (get_ucode 1) (\<lambda>c. bind (get_ucode i) (\<lambda>target.
      bind (load_u32 (flips_payload slot ps @ rest) (8 + 4 * k)) (\<lambda>position.
      flip_bit (ucode c) (ucode_length target) position))))) (\<lambda>_. ?I (length ps)) E s"
  proof (rule wp_for_each_upt)
    show "?I 0 s" using u1(3) by (simp add: fun_upd_idem)
  next
    fix k t assume k: "k < length ps" and t: "?I k t"
    have h: "heap t a = Some (fold (flip1 ?n) (take k ps) b)" "ucodes t = ucodes s" using t by simp_all
    show "wp (bind (get_ucode 1) (\<lambda>c. bind (get_ucode i) (\<lambda>target.
      bind (load_u32 (flips_payload slot ps @ rest) (8 + 4 * k)) (\<lambda>position.
      flip_bit (ucode c) (ucode_length target) position)))) (\<lambda>_. ?I (Suc k)) E t"
      using k u1 n h(2) wp_flip_bit [OF h(1) u1(2), of "ucode_length (ucodes s ! i)" "ps ! k"]
      by (simp add: wp_bind wp_get_ucode wp_load_u32 u32c.dec_enc) (simp add: t take_Suc_conv_app_nth)
  qed
  then show ?thesis by (rule wp_mono) (use Q in auto)
qed

text \<open>What the handler does before the loop: a copy of the target in slot 1, unless that is the target.\<close>

definition flip_prepare :: "'w platform \<Rightarrow> u32 \<Rightarrow> UcodeContainer \<Rightarrow> ('w, unit) prog" where
  "flip_prepare P slot target =
     (if slot \<noteq> 1 then
        bind (get_ucode 1) (\<lambda>c.
        bind (if ucode c = 0
              then bind (AllocatePages P ucode_pages) (\<lambda>a. put_ucode 1 (c\<lparr>ucode := a, ucode_length := ucode_alloc_size\<rparr>))
              else ret ()) (\<lambda>_.
        bind (get_ucode 1) (\<lambda>c.
        bind (copy_block (ucode c) (ucode target) (unat (ucode_length target))) (\<lambda>_.
        put_ucode 1 (c\<lparr>ucode_length := ucode_length target\<rparr>)))))
      else ret ())"

text \<open>Slot 1 holds the microcode of slot \<open>i\<close>; nothing else changed but the block of slot 1.\<close>

definition copied :: "nat \<Rightarrow> u64 \<Rightarrow> u8 list \<Rightarrow> 'w state \<Rightarrow> 'w state \<Rightarrow> bool" where
  "copied i a b s t \<longleftrightarrow> a \<noteq> 0 \<and> length b = 16384 \<and>
     take (unat (ucode_length (ucodes s ! i))) b = take (unat (ucode_length (ucodes s ! i))) (the (heap s (ucode (ucodes s ! i)))) \<and>
     (\<exists>w. t = s\<lparr>world := w, heap := (heap s)(a \<mapsto> b),
        ucodes := (ucodes s)[1 := \<lparr>ucode = a, ucode_length = ucode_length (ucodes s ! i)\<rparr>]\<rparr>) \<and>
     (heap s a = None \<or> (\<exists>b'. heap s a = Some b' \<and> length b' = 16384))"

lemma container_eta: "\<lparr>ucode = ucode u, ucode_length = ucode_length u\<rparr> = u"
  by (cases u) simp

lemma container_length:
  "u\<lparr>ucode_length := l\<rparr> = \<lparr>ucode = ucode u, ucode_length = l\<rparr>"
  "u\<lparr>ucode := a, ucode_length := l\<rparr> = \<lparr>ucode = a, ucode_length = l\<rparr>"
  by (cases u; simp)+

lemma copied_slots_ok:
  assumes "copied i a b s t" "slots_ok s" "unat (ucode_length (ucodes s ! i)) \<le> 16384"
  shows "slots_ok t"
proof -
  obtain w where t: "t = (let u = s\<lparr>world := w, heap := (heap s)(a \<mapsto> b)\<rparr> in
      u\<lparr>ucodes := (ucodes u)[1 := \<lparr>ucode = a, ucode_length = ucode_length (ucodes s ! i)\<rparr>]\<rparr>)"
    using assms(1) by (auto simp: copied_def Let_def)
  have "slots_ok (s\<lparr>world := w, heap := (heap s)(a \<mapsto> b)\<rparr>)"
    by (rule uploaded_slots_ok [OF assms(2)]) (use assms(1) in \<open>auto simp: copied_def\<close>)
  then show ?thesis
    unfolding t Let_def by (rule slots_ok_put_ucode) (use assms in \<open>auto simp: copied_def slot_block_def\<close>)
qed

text \<open>The copy into a block for slot 1, in use already or new.\<close>

lemma copied_into:
  assumes "heap s (ucode (ucodes s ! i)) = Some src" "length src = 16384"
    and "unat (ucode_length (ucodes s ! i)) \<le> 16384"
    and "a \<noteq> 0" "length b = 16384" "heap s a = None \<or> heap s a = Some b"
  shows "copied i a (overwrite 0 (take (unat (ucode_length (ucodes s ! i))) src) b) s
    (s\<lparr>world := w, heap := (heap s)(a \<mapsto> overwrite 0 (take (unat (ucode_length (ucodes s ! i))) src) b),
       ucodes := (ucodes s)[1 := \<lparr>ucode = a, ucode_length = ucode_length (ucodes s ! i)\<rparr>]\<rparr>)"
  using assms by (auto simp: copied_def buf_simps)

lemma copied_self:
  assumes "heap s (ucode (ucodes s ! 1)) = Some src" "length src = 16384" "ucode (ucodes s ! 1) \<noteq> 0"
  shows "copied 1 (ucode (ucodes s ! 1)) src s s"
proof -
  have "\<exists>w. s = s\<lparr>world := w, heap := (heap s)(ucode (ucodes s ! 1) \<mapsto> src),
      ucodes := (ucodes s)[1 := \<lparr>ucode = ucode (ucodes s ! 1), ucode_length = ucode_length (ucodes s ! 1)\<rparr>]\<rparr>"
    by (rule exI [of _ "world s"]) (use assms in \<open>simp add: fun_upd_idem container_eta\<close>)
  then show ?thesis unfolding copied_def using assms by simp
qed

lemma wp_flip_prepare:
  assumes doc: "alloc_pages_documented P" and ok: "arrays_ok s" "slots_ok s"
    and slot: "slot < 10" "ucode (ucodes s ! unat slot) \<noteq> 0"
    and memory: "slot = 1 \<or> ucode (ucodes s ! 1) \<noteq> 0 \<or> fst (alloc_pages_fw P 4 (heap s) (world s)) \<noteq> 0"
    and Q: "\<And>t a b. copied (unat slot) a b s t \<Longrightarrow> Q () t"
  shows "wp (flip_prepare P slot (ucodes s ! unat slot)) Q E s"
proof -
  let ?c = "ucodes s ! unat slot" and ?c1 = "ucodes s ! 1"
  have len: "unat slot < length (ucodes s)" "1 < length (ucodes s)"
    using slot(1) arrays_ok_lengths(1) [OF ok(1)] by (simp_all add: word_less_nat_alt)
  have valid: "uslots.valid s" using ok(2) by (simp add: slots_ok_valid)
  obtain src where src: "heap s (ucode ?c) = Some src" "length src = 16384" "unat (ucode_length ?c) \<le> 16384"
    using uslots.valid_used [OF valid len(1) slot(2)] by metis
  let ?n = "unat (ucode_length ?c)"
  note copy = Q [OF copied_into [OF src]]
  consider (same) "slot = 1" | (used) "slot \<noteq> 1" "ucode ?c1 \<noteq> 0" | (new) "slot \<noteq> 1" "ucode ?c1 = 0" by blast
  then show ?thesis
  proof cases
    case same
    then show ?thesis
      using Q [of "ucode ?c1" src s] copied_self [of s src] slot(2) src by (simp add: flip_prepare_def wp_ret)
  next
    case used
    obtain b where b: "heap s (ucode ?c1) = Some b" "length b = 16384"
      using uslots.valid_used [OF valid len(2) used(2)] by metis
    have "Q () (s\<lparr>heap := (heap s)(ucode ?c1 \<mapsto> overwrite 0 (take ?n src) b),
        ucodes := (ucodes s)[1 := ?c1\<lparr>ucode_length := ucode_length ?c\<rparr>]\<rparr>)"
      using copy [OF used(2) b(2), of "world s"] b by (simp add: container_length)
    then show ?thesis
      using used len src b slot(2)
      by (simp add: flip_prepare_def slot_rules, subst wp_copy_block) (simp_all add: slot_rules)
  next
    case new
    have "wp (AllocatePages P 4) (\<lambda>a. wp (put_ucode 1 (?c1\<lparr>ucode := a, ucode_length := 16384\<rparr>))
        (\<lambda>_. wp (bind (get_ucode 1) (\<lambda>c. bind (copy_block (ucode c) (ucode ?c) ?n) (\<lambda>_.
          put_ucode 1 (c\<lparr>ucode_length := ucode_length ?c\<rparr>)))) Q E) E) E s"
    proof (rule wp_AllocatePages [OF doc], goal_cases)
      case (1 w)
      then show ?case using memory new by blast
    next
      case (2 a b w)
      then have ne: "ucode ?c \<noteq> a" using src(1) by auto
      show ?case
        using copy [OF 2(1), of b w] 2 ne len src slot(2)
        by (simp add: slot_rules, subst wp_copy_block) (simp_all add: slot_rules container_length)
    qed
    then show ?thesis using new len by (simp add: flip_prepare_def slot_rules)
  qed
qed

text \<open>The part of the handler after its checks, and the loop with its answer from a state with the copy.\<close>

lemma handle_flip_bits_head:
  fixes slot :: u32 and s :: "'w state"
  defines "c \<equiv> ucodes s ! unat slot"
  assumes "8 \<le> payload_length" "slot < 10" "length (ucodes s) = 10" "ucode c \<noteq> 0" "length ps < 2 ^ 32"
  shows "handle_flip_bits P (flips_payload slot ps @ rest) payload_length s =
    bind (flip_prepare P slot c) (\<lambda>_.
    bind (for_each [0 ..< length ps] (\<lambda>k. bind (get_ucode 1) (\<lambda>c. bind (get_ucode (unat slot)) (\<lambda>target.
      bind (load_u32 (flips_payload slot ps @ rest) (8 + 4 * k)) (\<lambda>position.
      flip_bit (ucode c) (ucode_length target) position))))) (\<lambda>_.
    bind (send_status P 0x0 None) (\<lambda>_. ret EFI_SUCCESS))) s"
proof -
  have "unat slot < length (ucodes s)" "\<not> 9 < slot" using assms(3,4) by (simp_all add: word_less_nat_alt)
  then show ?thesis
    using leD [OF assms(2)] assms(5,6)
    by (simp add: handle_flip_bits_def flip_prepare_def head_simps u32c.dec_enc c_def [symmetric] cong: if_cong)
qed

lemma wp_flips_sent:
  fixes slot :: u32 and s :: "'w state"
  defines "c \<equiv> ucodes s ! unat slot"
  assumes net: "network_reliable P" and cp: "copied (unat slot) a b s t"
    and ok: "buffers_ok s" "arrays_ok s" "slots_ok s" and slot: "slot < 10" "unat (ucode_length c) \<le> 16384"
    and Q: "\<And>v. \<lbrakk>sent v = sent s @ [status_frame 0 None]; slots_ok v;
      heap v = (heap s)(a \<mapsto> fold (flip1 (unat (ucode_length c))) ps b);
      ucodes v = (ucodes s)[1 := \<lparr>ucode = a, ucode_length = ucode_length c\<rparr>]\<rbrakk> \<Longrightarrow> Q EFI_SUCCESS v"
  shows "wp (bind (for_each [0 ..< length ps] (\<lambda>k. bind (get_ucode 1) (\<lambda>c. bind (get_ucode (unat slot)) (\<lambda>target.
      bind (load_u32 (flips_payload slot ps @ rest) (8 + 4 * k)) (\<lambda>position.
      flip_bit (ucode c) (ucode_length target) position))))) (\<lambda>_.
    bind (send_status P 0x0 None) (\<lambda>_. ret EFI_SUCCESS))) Q E t"
proof -
  have len: "unat slot < length (ucodes s)" "unat slot < 10" "length (ucodes s) = 10"
    using slot(1) arrays_ok_lengths(1) [OF ok(2)] by (simp_all add: word_less_nat_alt)
  have t: "ucode (ucodes t ! 1) = a" "a \<noteq> 0" "heap t a = Some b" "length (ucodes t) = 10" "length b = 16384"
    "ucode_length (ucodes t ! unat slot) = ucode_length c" "buffers_ok t" "sent t = sent s"
    "ucodes t = (ucodes s)[1 := \<lparr>ucode = a, ucode_length = ucode_length c\<rparr>]" "heap t = (heap s)(a \<mapsto> b)"
    using cp len ok(1) by (auto simp: copied_def c_def nth_list_update buffers_ok_def)
  have slots: "slots_ok t" using copied_slots_ok [OF cp ok(3)] slot(2) by (simp add: c_def)
  let ?b = "fold (flip1 (unat (ucode_length c))) ps b"
  let ?u = "t\<lparr>heap := (heap t)(a \<mapsto> ?b)\<rparr>"
  have u: "slots_ok ?u" "buffers_ok ?u"
    using slots_ok_write [OF slots t(3), of ?b] t(7) by (simp_all add: buffers_ok_def)
  have "wp (send_status P 0 None) (\<lambda>_. wp (ret EFI_SUCCESS) Q E) E ?u"
  proof (rule wp_send_status [OF net u(2)], goal_cases)
    case (2 v)
    then have "heap v = (heap t)(a \<mapsto> ?b)" "ucodes v = ucodes t" "slots_ok v"
      using slots_ok_same [of v ?u] u(1) by (simp_all add: io_only_def)
    then show ?case using 2(4) t(8-10) by (simp add: wp_ret Q)
  qed simp
  then show ?thesis
    unfolding wp_bind
    by (intro wp_flip_loop [OF t(1-4) len(2)]) (use slot(2) t(5,6) in simp_all)
qed

text \<open>
  C10. A request to flip bits of a used slot leaves in slot 1 the microcode of that slot in which exactly those bits are inverted whose
  position occurs an odd number of times in the request; positions behind the end of the microcode have no effect. The slot
  itself, if it is another one, and all other slots stay as they are. The block of slot 1 is allocated when it has none; the handler
  does not check this allocation, which is assumed to succeed.
\<close>

theorem handle_flip_bits_flips:
  fixes slot :: u32 and s :: "'w state"
  defines "c \<equiv> ucodes s ! unat slot"
  assumes net: "network_reliable P" and doc: "alloc_pages_documented P"
    and ok: "buffers_ok s" "arrays_ok s" "slots_ok s" and pl: "8 \<le> payload_length"
    and slot: "slot < 10" "ucode c \<noteq> 0"
    and memory: "slot = 1 \<or> ucode (ucodes s ! 1) \<noteq> 0 \<or> fst (alloc_pages_fw P 4 (heap s) (world s)) \<noteq> 0"
    and ps: "length ps < 2 ^ 32"
  shows "\<exists>t src b. handle_flip_bits P (flips_payload slot ps @ rest) payload_length s = Done EFI_SUCCESS t \<and>
    sent t = sent s @ [status_frame 0 None] \<and> slots_ok t \<and>
    heap s (ucode c) = Some src \<and> heap t (ucode (ucodes t ! 1)) = Some b \<and>
    ucodes t = (ucodes s)[1 := \<lparr>ucode = ucode (ucodes t ! 1), ucode_length = ucode_length c\<rparr>] \<and>
    (\<forall>q < 8 * unat (ucode_length c). bit (b ! (q div 8)) (q mod 8) =
       (bit (src ! (q div 8)) (q mod 8) \<noteq> odd (count_list (map unat ps) q))) \<and>
    (\<forall>a. a \<noteq> ucode (ucodes t ! 1) \<longrightarrow> heap t a = heap s a)"
proof -
  let ?n = "unat (ucode_length c)"
  have len: "unat slot < length (ucodes s)" "length (ucodes s) = 10"
    using slot(1) arrays_ok_lengths(1) [OF ok(2)] by (simp_all add: word_less_nat_alt)
  have valid: "uslots.valid s" using ok(3) by (simp add: slots_ok_valid)
  obtain src where src: "heap s (ucode c) = Some src" "length src = 16384" "?n \<le> 16384"
    using uslots.valid_used [OF valid len(1)] slot(2) unfolding c_def by metis
  have bits: "bit (fold (flip1 ?n) ps b ! (q div 8)) (q mod 8) =
      (bit (src ! (q div 8)) (q mod 8) \<noteq> odd (count_list (map unat ps) q))"
    if "copied (unat slot) a b s t" "q < 8 * ?n" for a b t q
  proof -
    have b: "length b = 16384" "take ?n b = take ?n src" using that(1) src(1) by (auto simp: copied_def c_def)
    then have "b ! (q div 8) = src ! (q div 8)"
      using that(2) by (metis less_mult_imp_div_less mult.commute nth_take)
    then show ?thesis using bit_flips [OF that(2), of b ps] b(1) src(3) by simp
  qed
  have "\<exists>st t. handle_flip_bits P (flips_payload slot ps @ rest) payload_length s = Done st t \<and>
    (st = EFI_SUCCESS \<and> (\<exists>b. sent t = sent s @ [status_frame 0 None] \<and> slots_ok t \<and>
      heap t (ucode (ucodes t ! 1)) = Some b \<and>
      ucodes t = (ucodes s)[1 := \<lparr>ucode = ucode (ucodes t ! 1), ucode_length = ucode_length c\<rparr>] \<and>
      (\<forall>q < 8 * ?n. bit (b ! (q div 8)) (q mod 8) =
         (bit (src ! (q div 8)) (q mod 8) \<noteq> odd (count_list (map unat ps) q))) \<and>
      (\<forall>a. a \<noteq> ucode (ucodes t ! 1) \<longrightarrow> heap t a = heap s a)))"
    unfolding handle_flip_bits_head [OF pl slot(1) len(2) slot(2) [unfolded c_def] ps]
  proof (rule run_bind_returns, rule wp_bind [THEN iffD2],
      rule wp_flip_prepare [OF doc ok(2,3) slot(1) slot(2) [unfolded c_def] memory],
      rule wp_flips_sent [OF net _ ok slot(1) src(3) [unfolded c_def]], assumption, fold c_def, goal_cases)
    case (1 t a b v)
    then show ?case using bits [OF 1(1)] len(2) by simp
  qed
  then show ?thesis using src(1) by blast
qed

section \<open>Applying\<close>

text \<open>What applying the update at an address on the boot core returns, from the hardware's side.\<close>

definition apply_result :: "'w platform \<Rightarrow> bool \<Rightarrow> u64 \<Rightarrow> 'w \<Rightarrow> u64 \<times> u64 \<times> 'w" where
  "apply_result P restore addr w =
     (let (cycles, gp, w1) = update_effect P addr w; interrupt = (if gp then 0xDEAD else low32 addr) in
      if restore then
        let (_, gp', w2) = update_effect P (original_ucode_s_addr P) w1 in
        (if gp' then 0xDEAD else low32 (original_ucode_s_addr P), interrupt, w2)
      else (cycles, interrupt, w1))"

lemma apply_ucode_result:
  assumes "apply_result P restore addr (world s) = (result, interrupt, w)"
  shows "(if restore then apply_ucode_restore P addr else apply_ucode_simple P addr) s =
    Done (result, interrupt) (s\<lparr>world := w\<rparr>)"
proof -
  obtain cycles gp w1 where 1: "update_effect P addr (world s) = (cycles, gp, w1)"
    by (cases "update_effect P addr (world s)")
  obtain cycles' gp' w2 where 2: "update_effect P (original_ucode_s_addr P) w1 = (cycles', gp', w2)"
    by (cases "update_effect P (original_ucode_s_addr P) w1")
  show ?thesis
    using apply_ucode_run [OF 1 2] assms 1 2 by (auto simp: apply_result_def Let_def split: if_splits)
qed

text \<open>The part of the handler after its checks.\<close>

lemma handle_apply_ucode_head:
  fixes slot opts :: u32 and s :: "'w state"
  defines "c \<equiv> ucodes s ! unat slot"
  assumes "8 \<le> payload_length" "unat slot < length (ucodes s)" "ucode c \<noteq> 0" "ucode_length c \<noteq> 0"
  shows "handle_apply_ucode P (le_bytes 4 slot @ le_bytes 4 opts @ rest) payload_length s =
    bind (iterate_ucode (ucode c) (ucode_length c)) (\<lambda>dummy.
    bind (if opts AND 1 = 1 then apply_ucode_restore P (ucode c) else apply_ucode_simple P (ucode c))
      (\<lambda>(result, interrupt_value).
    bind (write_payload 0 (le_bytes 8 result)) (\<lambda>_.
    bind (write_payload 8 (le_bytes 8 interrupt_value)) (\<lambda>_.
    respond P (report_print P) MSG_UCODERESPONSE payload_buffer 16 (16 + HEADER_SIZE) True)))) s"
proof -
  have "take 4 (le_bytes 4 slot) = le_bytes 4 slot"
    "slice 4 4 (le_bytes 4 slot @ le_bytes 4 opts @ rest) = le_bytes 4 opts"
    by (simp_all add: slice_def)
  then show ?thesis
    using leD [OF assms(2)] assms(3-)
    by (simp add: handle_apply_ucode_def head_simps u32c.dec_enc c_def [symmetric] cong: if_cong)
qed

lemma handle_apply_ucode_out_of_range:
  assumes "8 \<le> payload_length" "\<not> unat (slot :: u32) < length (ucodes s)"
  shows "handle_apply_ucode P (le_bytes 4 slot @ le_bytes 4 opts @ rest) payload_length s = Stop OutOfBounds s"
proof -
  have "take 4 (le_bytes 4 slot) = le_bytes 4 slot" by simp
  then show ?thesis
    using leD [OF assms(1)] assms(2)
    by (simp add: handle_apply_ucode_def head_simps u32c.dec_enc get_ucode_def run_simps)
qed

text \<open>
  C34. A request to apply the update of a used slot is answered with the two values that the stub returns, and changes
  neither memory nor slots; reading the update up to the next multiple of eight stays within its block. The slot number
  is not checked: a number above nine reads past the end of the array of slots.
\<close>

theorem handle_apply_ucode_responds:
  fixes slot opts :: u32 and s :: "'w state"
  defines "c \<equiv> ucodes s ! unat slot"
  assumes net: "network_reliable P" and ok: "buffers_ok s" "arrays_ok s" "slots_ok s" and pl: "8 \<le> payload_length"
    and used: "slot < 10 \<Longrightarrow> ucode c \<noteq> 0 \<and> ucode_length c \<noteq> 0"
    and eff: "apply_result P (opts AND 1 = 1) (ucode c) (world s) = (result, interrupt, w)"
  shows "if slot < 10 then
      \<exists>t. handle_apply_ucode P (le_bytes 4 slot @ le_bytes 4 opts @ rest) payload_length s = Done EFI_SUCCESS t \<and>
        sent t = sent s @ [frame MSG_UCODERESPONSE (le_bytes 8 result @ le_bytes 8 interrupt) True] \<and>
        heap t = heap s \<and> ucodes t = ucodes s \<and> core_contexts t = core_contexts s
    else handle_apply_ucode P (le_bytes 4 slot @ le_bytes 4 opts @ rest) payload_length s = Stop OutOfBounds s"
proof (cases "slot < 10")
  case False
  then have "\<not> unat slot < length (ucodes s)"
    using arrays_ok_lengths(1) [OF ok(2)] by (simp add: word_less_nat_alt)
  then show ?thesis using False handle_apply_ucode_out_of_range [OF pl] by simp
next
  case True
  then have i: "unat slot < length (ucodes s)"
    using arrays_ok_lengths(1) [OF ok(2)] by (simp add: word_less_nat_alt)
  have valid: "uslots.valid s" using ok(3) by (simp add: slots_ok_valid)
  obtain b where b: "heap s (ucode c) = Some b" "length b = 16384" "unat (ucode_length c) \<le> 16384"
    using uslots.valid_used [OF valid i] used True unfolding c_def by metis
  let ?h = "handle_apply_ucode P (le_bytes 4 slot @ le_bytes 4 opts @ rest) payload_length"
  let ?p = "le_bytes 8 result @ le_bytes 8 interrupt"
  let ?Q = "\<lambda>st t. st = EFI_SUCCESS \<and> sent t = sent s @ [frame MSG_UCODERESPONSE ?p True] \<and>
      heap t = heap s \<and> ucodes t = ucodes s \<and> core_contexts t = core_contexts s"
  let ?s = "s\<lparr>world := w\<rparr>"
  have pb: "length (payload_buffer s) = 1400" using buffers_ok_lengths(1) [OF ok(1)] by simp
  have answer: "wp (respond P (report_print P) MSG_UCODERESPONSE payload_buffer 16 28 True) ?Q (\<lambda>_ _. False)
      (?s\<lparr>payload_buffer := overwrite 0 ?p (payload_buffer ?s)\<rparr>)"
    by (rule wp_respond_written [OF net, where p = ?p]) (use ok(1) in \<open>auto simp: io_only_def\<close>)
  have iter: "wp (iterate_ucode (ucode c) (ucode_length c)) R E s" if "\<And>v. R v s" for R E
    unfolding iterate_ucode_def by (rule wp_iterate_words [OF b(1)]) (use b used True that in auto)
  have "\<exists>st t. ?h s = Done st t \<and> ?Q st t"
    unfolding handle_apply_ucode_head [OF pl i used [OF True, THEN conjunct1, unfolded c_def]
      used [OF True, THEN conjunct2, unfolded c_def]] c_def [symmetric]
    by (rule run_bind_returns, rule wp_bind [THEN iffD2], rule iter, subst wp_bind,
        subst wp_Done [where m = "if opts AND 1 = 1 then apply_ucode_restore P (ucode c) else apply_ucode_simple P (ucode c)",
          OF apply_ucode_result [OF eff]])
      (use pb answer in \<open>simp add: wp_bind wp_write_payload buf_simps\<close>)
  then show ?thesis using True by auto
qed



section \<open>The theorems at the example state\<close>

lemma handle_send_ucode_stores_witness:
  "\<exists>st t. handle_send_ucode demo_platform (upload 3 [0x11, 0x22] @ []) 10 demo_job_state = Done st t \<and> slots_ok t"
  using handle_send_ucode_stores [OF demo_network_reliable demo_alloc_pages_documented demo_job_ok, of 3 "[0x11, 0x22]" 10 "[]"]
  by (auto simp: word_less_nat_alt word_le_nat_alt)

text \<open>Once with slot 1 empty, so that its block is allocated, and once with the block in use.\<close>

definition demo_flip_state :: "nat state" where
  "demo_flip_state = demo_job_state\<lparr>ucodes := (ucodes demo_job_state)[1 := demo_ucode]\<rparr>"

lemma demo_flip_facts:
  "ucodes demo_flip_state ! 2 = demo_ucode" "ucodes demo_flip_state ! 1 = demo_ucode"
  "buffers_ok demo_flip_state" "arrays_ok demo_flip_state" "slots_ok demo_flip_state"
proof -
  have "slot_block (heap demo_job_state) UCODE_SIZE (ucode demo_ucode) (ucode_length demo_ucode)"
    using demo_job_facts(7) by (simp add: slot_block_def demo_ucode_def)
  then show "slots_ok demo_flip_state"
    unfolding demo_flip_state_def by (intro slots_ok_put_ucode [OF demo_job_ok(3)])
  show "ucodes demo_flip_state ! 1 = demo_ucode"
    using arrays_ok_lengths(1) [OF demo_job_ok(2)] by (simp add: demo_flip_state_def)
qed (use demo_job_ok in \<open>simp_all add: demo_flip_state_def buffers_ok_def arrays_ok_def\<close>)

lemma demo_first_allocation:
  "ucode (ucodes demo_job_state ! 1) = 0" "fst (alloc_pages_fw demo_platform 4 (heap demo_job_state) (world demo_job_state)) \<noteq> 0"
  by (simp_all add: demo_job_state_def demo_core_arrays demo_platform_def demo_core_state_def demo_state_def)

lemma handle_flip_bits_flips_witness:
  "(\<exists>t. handle_flip_bits demo_platform (flips_payload 2 [5, 77, 5] @ []) 20 demo_flip_state = Done EFI_SUCCESS t \<and>
     sent t = sent demo_flip_state @ [status_frame 0 None]) \<and>
   ucode (ucodes demo_job_state ! 1) = 0 \<and>
   (\<exists>t. handle_flip_bits demo_platform (flips_payload 2 [5, 77, 5] @ []) 20 demo_job_state = Done EFI_SUCCESS t \<and>
     sent t = sent demo_job_state @ [status_frame 0 None])"
  using handle_flip_bits_flips [OF demo_network_reliable demo_alloc_pages_documented demo_flip_facts(3-5), of 20 2 "[5, 77, 5]" "[]"]
    handle_flip_bits_flips [OF demo_network_reliable demo_alloc_pages_documented demo_job_ok, of 20 2 "[5, 77, 5]" "[]"]
    demo_flip_facts(1,2) demo_first_allocation
  by (auto simp: demo_ucode_def word_less_nat_alt word_le_nat_alt)

lemma handle_apply_ucode_responds_witness:
  "\<exists>t r i. handle_apply_ucode demo_platform (le_bytes 4 (2 :: u32) @ le_bytes 4 (1 :: u32) @ []) 8 demo_job_state =
      Done EFI_SUCCESS t \<and> sent t = sent demo_job_state @ [frame MSG_UCODERESPONSE (le_bytes 8 (r :: u64) @ le_bytes 8 (i :: u64)) True]"
proof -
  obtain r i w where eff: "apply_result demo_platform ((1 :: u32) AND 1 = 1)
      (ucode (ucodes demo_job_state ! unat (2 :: u32))) (world demo_job_state) = (r, i, w)"
    by (cases "apply_result demo_platform ((1 :: u32) AND 1 = 1)
      (ucode (ucodes demo_job_state ! unat (2 :: u32))) (world demo_job_state)")
  show ?thesis
    using handle_apply_ucode_responds [OF demo_network_reliable demo_job_ok _ _ eff, of 8 "[]"]
    by (auto simp: demo_ucode_def word_less_nat_alt)
qed

end
