(* ===== verification/Invariant.thy ===== *)
theory Invariant
  imports Debug Handle_Dsm Msr Ucode
begin

text \<open>
  Every message handler keeps the protocol between the cores, whatever the client sends: the invariants of a state that
  input and output leave alone are a locale, interpreted for the protocol itself and for the protocol together with a core
  that the boot core has acquired.
\<close>

section \<open>Invariants that input and output keep\<close>

named_theorems keeps_rules "computations that keep an invariant"

locale kept =
  fixes inv :: "'w state \<Rightarrow> bool"
  assumes inv_buffers: "inv s \<Longrightarrow> buffers_ok s"
    and inv_io: "inv s \<Longrightarrow> io_only s t \<Longrightarrow> buffers_ok t \<Longrightarrow> inv t"
begin

definition keeps :: "('w, 'a) prog \<Rightarrow> bool" where
  "keeps m \<longleftrightarrow> (\<forall>s. inv s \<longrightarrow> wp m (\<lambda>_. inv) (\<lambda>_ _. True) s)"

lemma keepsD: "keeps m \<Longrightarrow> inv s \<Longrightarrow> wp m (\<lambda>_. inv) (\<lambda>_ _. True) s"
  by (simp add: keeps_def)

lemma keeps_pure [keeps_rules]:
  "keeps (ret v)" "keeps (stop e)" "keeps (gets f)" "keeps (require e c)" "keeps (from_option e x)"
  "keeps (get_context core)" "keeps (get_ucode i)" "keeps (get_machine_code i)" "keeps (load_bytes b off n)"
  "keeps (load_u32 b off)" "keeps (load_u64 b off)" "keeps (heap_read a off n)"
  by (simp_all add: keeps_def wp_simps get_ucode_def get_machine_code_def split: option.splits)

lemma keeps_bind [keeps_rules]: "keeps m \<Longrightarrow> (\<And>a. keeps (f a)) \<Longrightarrow> keeps (bind m f)"
  unfolding keeps_def wp_bind by (auto intro: wp_mono)

lemma keeps_if [keeps_rules]: "(b \<Longrightarrow> keeps m) \<Longrightarrow> (\<not> b \<Longrightarrow> keeps n) \<Longrightarrow> keeps (if b then m else n)"
  by simp

lemma keeps_option [keeps_rules]:
  "(x = None \<Longrightarrow> keeps m) \<Longrightarrow> (\<And>a. x = Some a \<Longrightarrow> keeps (f a)) \<Longrightarrow> keeps (case x of None \<Rightarrow> m | Some a \<Rightarrow> f a)"
  by (cases x) simp_all

lemma keeps_prod [keeps_rules]: "(\<And>a b. x = (a, b) \<Longrightarrow> keeps (f a b)) \<Longrightarrow> keeps (case x of (a, b) \<Rightarrow> f a b)"
  by (cases x) simp

lemma keeps_for_each [keeps_rules]: "(\<And>i. keeps (body i)) \<Longrightarrow> keeps (for_each is body)"
  by (induction "is") (simp_all add: keeps_rules)

text \<open>Input and output.\<close>

lemma keeps_io:
  assumes "\<And>s. buffers_ok s \<Longrightarrow> wp m (\<lambda>_ t. io_only s t \<and> buffers_ok t) (\<lambda>_ _. True) s"
  shows "keeps m"
  unfolding keeps_def
proof (intro allI impI)
  fix s assume s: "inv s"
  show "wp m (\<lambda>_. inv) (\<lambda>_ _. True) s"
    by (rule wp_mono [OF assms [OF inv_buffers [OF s]]]) (use inv_io [OF s] in auto)
qed

lemma keeps_on_world [keeps_rules]: "keeps (on_world g)"
  by (rule keeps_io) (simp add: wp_on_world io_only_def buffers_ok_def)

lemma keeps_write_payload [keeps_rules]: "keeps (write_payload off bs)"
  by (rule keeps_io) (simp add: wp_write_payload io_only_def buffers_ok_def)

lemma keeps_write_response [keeps_rules]: "keeps (write_response off bs)"
  by (rule keeps_io) (simp add: wp_write_response io_only_def buffers_ok_def)

lemma keeps_FormatPrint [keeps_rules]: "keeps (FormatPrint P fmt args)"
  by (rule keeps_io) (simp add: wp_FormatPrint buffers_ok_format io_only_def)

lemma keeps_log [keeps_rules]:
  "keeps (modify (\<lambda>s. s\<lparr>open_events := h s\<rparr>))" "keeps (modify (\<lambda>s. s\<lparr>sent := h' s\<rparr>))"
  by (rule keeps_io, simp add: wp_modify io_only_def buffers_ok_def)+

lemma keeps_wait_token [keeps_rules]: "keeps (wait_token poll)"
  by (rule keeps_io) (auto simp: wait_token_def wp_def io_only_def buffers_ok_def split: option.splits)

lemma keeps_send_message [keeps_rules]: "keeps (send_message P msg n)"
  by (simp add: send_message_def CreateEvent_def CloseEvent_def keeps_rules)

lemma keeps_construct_message [keeps_rules]: "keeps (construct_message cap ty payload n l)"
  by (simp add: construct_message_def keeps_rules)

lemma keeps_report [keeps_rules]: "keeps (report_print P fmt st)" "keeps (report_debug fmt st)"
  by (simp_all add: report_print_def report_debug_def keeps_rules)

lemma keeps_respond [keeps_rules]:
  "(\<And>fmt st. keeps (report fmt st)) \<Longrightarrow> keeps (respond P report ty payload n sz l)"
  by (simp add: respond_def keeps_rules)

lemma keeps_send_status [keeps_rules]: "keeps (send_status P code msg)" "keeps (send_status_fmt P code)"
  by (simp_all add: send_status_def send_status_fmt_def keeps_rules)

lemma keeps_reject [keeps_rules]: "keeps (reject P fmt args code st)"
  by (simp add: reject_def keeps_rules)

lemma keeps_get_tsc [keeps_rules]: "keeps (get_tsc P)"
  by (simp add: get_tsc_def keeps_rules)

text \<open>The handlers that only report.\<close>

lemma keeps_multi_ping_loop [keeps_rules]: "keeps (multi_ping_loop P ping_size i ping_count)"
proof (induction P ping_size i ping_count rule: multi_ping_loop.induct)
  case (1 P ping_size i ping_count)
  then show ?case by (subst multi_ping_loop.simps) (simp add: keeps_rules)
qed

lemma keeps_debug [keeps_rules]:
  "keeps (handle_ping P payload n)" "keeps (handle_multi_ping P payload n)" "keeps (handle_get_msg_size P payload n)"
  "keeps (handle_reboot P payload n)"
  by (simp_all add: handle_ping_def handle_multi_ping_def handle_get_msg_size_def handle_reboot_def keeps_rules)

lemma keeps_stream_loop [keeps_rules]:
  assumes "\<And>target start count. (\<And>off bs. keeps (target off bs)) \<Longrightarrow> keeps (copy target core start count)"
  shows "keeps (stream_loop P ty hdr coff copy core fuel start count)"
  by (induction fuel arbitrary: start count) (simp_all add: assms Let_def keeps_rules)

lemma keeps_copy [keeps_rules]:
  assumes "\<And>off bs. keeps (target off bs)"
  shows "keeps (copy_ibs_entries target core start count)" "keeps (copy_dsm_entries target core start count)"
  using assms
  by (simp_all add: copy_ibs_entries_def copy_dsm_entries_def get_ibs_control_def get_dsm_control_def Let_def keeps_rules)

lemma keeps_check_core_id [keeps_rules]: "keeps (check_core_id P core)" "keeps (check_core_id_dsm P core)"
  by (simp_all add: check_core_id_def check_core_id_dsm_same keeps_rules)

lemma keeps_events [keeps_rules]: "keeps (handle_get_ibs_buffer P payload n)" "keeps (handle_get_dsm_buffer P payload n)"
  by (simp_all add: handle_get_ibs_buffer_def handle_get_dsm_buffer_def get_current_ibs_event_count_def
      get_max_ibs_event_count_def get_ibs_control_def Let_def keeps_rules)

lemma keeps_page_steps [keeps_rules]:
  "keeps (load_entry a i)" "keeps (get_pdpt_at cr3 x)" "keeps (get_pd_at cr3 x y)" "keeps (get_pt_at cr3 x y z)"
  "keeps (write_entry off e pos level)" "keeps (send_pageinfo_message P n l)" "keeps (pageinfo_failed P st)"
  by (simp_all add: load_entry_def get_pdpt_at_def get_pd_at_def get_pt_at_def get_entry_def write_entry_def
      send_pageinfo_message_def pageinfo_failed_def Let_def keeps_rules)

lemma keeps_send_entries [keeps_rules]: "keeps (send_entries P base level n i pos)"
  by (induction n arbitrary: i pos) (simp_all add: keeps_rules)

lemma keeps_paging [keeps_rules]: "keeps (handle_get_paging_info P payload n)"
  by (simp add: handle_get_paging_info_def answer_paging_request_def send_table_def send_rest_def send_entry_def
      Let_def keeps_rules)

lemma keeps_core_reports [keeps_rules]:
  "keeps (get_available_cores P)" "keeps (handle_get_core_count P payload n)" "keeps (send_core_status P core l)"
  "keeps (handle_get_core_status P payload n)"
  by (simp_all add: get_available_cores_def handle_get_core_count_def send_core_status_def handle_get_core_status_def
      Let_def keeps_rules)

lemma keeps_results [keeps_rules]:
  "keeps (send_result_message P core flags l)" "keeps (handle_get_last_test_result P payload n)"
  "keeps (check_job_parameters P jp)" "keeps (job_parameters_from_payload payload)"
  by (simp_all add: send_result_message_def handle_get_last_test_result_def check_job_parameters_def
      job_parameters_from_payload_def keeps_rules)

end


text \<open>Invariants that the jobs of the cores keep as well.\<close>

locale kept_jobs = kept +
  assumes inv_job: "inv s \<Longrightarrow> job_effect core s t \<Longrightarrow> inv t"
begin

lemma keeps_respectful:
  assumes "respectful core m"
  shows "keeps m"
  unfolding keeps_def
proof (intro allI impI)
  fix s assume s: "inv s"
  show "wp m (\<lambda>_. inv) (\<lambda>_ _. True) s"
    by (rule wp_mono [OF assms [unfolded respectful_def, rule_format]]) (use inv_job [OF s] in auto)
qed

end


section \<open>More computations that leave the protocol alone\<close>

lemma respectful_modify:
  "(\<And>s. core_contexts (g s) = core_contexts s \<and> ap_phases (g s) = ap_phases s \<and> (buffers_ok s \<longrightarrow> buffers_ok (g s)) \<and>
     (arrays_ok s \<longrightarrow> arrays_ok (g s)) \<and> (slots_ok s \<longrightarrow> slots_ok (g s))) \<Longrightarrow> respectful core (modify g)"
  by (simp add: respectful_def wp_modify job_effect_def others_kept_def)

lemma respectful_new_frame [respectful_rules]: "respectful core (new_frame ws)"
  unfolding new_frame_def
  by (intro respectful_rules respectful_modify) (simp_all add: buffers_ok_def arrays_ok_def slots_ok_def)

lemma respectful_drop_frame [respectful_rules]: "respectful core (drop_frame n)"
  by (simp add: drop_frame_def respectful_rules)

lemma respectful_heap_read [respectful_rules]: "respectful core (heap_read a off n)"
  by (simp add: heap_read_def block_def load_bytes_def respectful_rules)

lemma respectful_heap_write [respectful_rules]: "respectful core (heap_write a off bs)"
proof -
  have "job_effect core s (s\<lparr>heap := (heap s)(a \<mapsto> overwrite off bs b)\<rparr>)"
    if "heap s a = Some b" "off + length bs \<le> length b" for s :: "'a state" and b
    using that slots_ok_write [of s a b "overwrite off bs b"]
    by (simp add: job_effect_def others_kept_def buffers_ok_def arrays_ok_def)
  then show ?thesis by (auto simp: respectful_def wp_heap_write split: option.splits)
qed

lemma respectful_AllocatePages [respectful_rules]:
  assumes "alloc_pages_documented P"
  shows "respectful core (AllocatePages P n)"
  unfolding respectful_def
proof
  fix s
  show "wp (AllocatePages P n) (\<lambda>_. job_effect core s) (\<lambda>_. job_effect core s) s"
  proof (rule wp_AllocatePages [OF assms], goal_cases)
    case (2 a b w)
    have "job_effect core (s\<lparr>world := w\<rparr>) (s\<lparr>world := w, heap := (heap s)(a \<mapsto> b)\<rparr>)"
      using slots_ok_alloc [of "s\<lparr>world := w\<rparr>" a b] 2
      by (simp add: job_effect_def others_kept_def buffers_ok_def arrays_ok_def)
    then show ?case by (rule job_effect_trans [OF job_effect_world(1)])
  qed simp
qed

lemma respectful_tables [respectful_rules]:
  "respectful core (get_cr3 P c)" "respectful core (load_entry a i)" "respectful core (update_entry a i f)"
  "respectful core (CopyPages a b n)" "respectful core (get_pdpt_at cr3 x)" "respectful core (get_pd_at cr3 x y)"
  by (simp_all add: get_cr3_def load_entry_def update_entry_def store_entry_def CopyPages_def get_pdpt_at_def get_pd_at_def
      get_entry_def Let_def respectful_rules)

lemma respectful_minimal_paging [respectful_rules]:
  "alloc_pages_documented P \<Longrightarrow> respectful core (create_minimal_paging P cr3)"
  unfolding create_minimal_paging_def by (intro respectful_rules)

lemma respectful_AllocatePool [respectful_rules]:
  assumes "alloc_pool_documented P"
  shows "respectful core (AllocatePool P n)"
  unfolding respectful_def
proof
  fix s :: "'a state"
  obtain a c w where alloc: "alloc_block_fw P n (heap s) (world s) = (a, c, w)"
    by (cases "alloc_block_fw P n (heap s) (world s)")
  have "job_effect core s (s\<lparr>world := w, heap := (heap s)(a \<mapsto> c)\<rparr>)" if "a \<noteq> 0"
  proof -
    have "heap s a = None" using assms alloc that unfolding alloc_pool_documented_def by blast
    then have "job_effect core (s\<lparr>world := w\<rparr>) (s\<lparr>world := w, heap := (heap s)(a \<mapsto> c)\<rparr>)"
      using slots_ok_alloc [of "s\<lparr>world := w\<rparr>" a c]
      by (simp add: job_effect_def others_kept_def buffers_ok_def arrays_ok_def)
    then show ?thesis by (rule job_effect_trans [OF job_effect_world(1)])
  qed
  then show "wp (AllocatePool P n) (\<lambda>_. job_effect core s) (\<lambda>_. job_effect core s) s"
    by (simp add: wp_def AllocatePool_def alloc)
qed

lemma respectful_fault_handlers [respectful_rules]:
  assumes "alloc_pool_documented P"
  shows "respectful core (init_fault_handlers_on_core P core)"
proof -
  have "same_flags c (c\<lparr>idt_base := b\<rparr>)" "same_flags c (c\<lparr>idt_limit := l\<rparr>)" for c b l
    by (simp_all add: same_flags_def)
  then show ?thesis
    by (simp add: init_fault_handlers_on_core_def write_idt_entry_def Let_def respectful_rules assms)
qed

lemma respectful_ucode [respectful_rules]:
  "respectful core (iterate_ucode a n)" "respectful core (flip_bit a n p)" "respectful core (copy_block a b k)"
  "respectful 0 (apply_ucode_simple P a)" "respectful 0 (apply_ucode_restore P a)" "respectful c (read_msr P c fp)"
  by (simp_all add: iterate_ucode_def flip_bit_def copy_block_def apply_ucode_simple_def apply_ucode_restore_def
      m_apply_ucode_def read_msr_def read_frame_def write_frame_def Let_def respectful_rules)

lemma respectful_results [respectful_rules]:
  "respectful core (clear_core_functions core)" "respectful core (zero_results core)" "respectful core (write_job_infos jp core)"
proof -
  have "same_flags c (c\<lparr>core_functions := fs\<rparr>)" "same_flags c (c\<lparr>result_buffer := b\<rparr>)"
    "same_flags c (c\<lparr>current_machine_code_slot_address := a, current_microcode_slot_address := u,
       ret_gpf_value := g, ret_rdtsc_value := r, current_microcode_len := l\<rparr>)" for c fs b a u g r l
    by (simp_all add: same_flags_def)
  then show "respectful core (clear_core_functions core)" "respectful core (zero_results core)"
    "respectful core (write_job_infos jp core)"
    by (simp_all add: clear_core_functions_def zero_results_def write_job_infos_def get_machine_code_def get_ucode_def
        respectful_rules)
qed


section \<open>The invariants\<close>

text \<open>
  \<open>owned core\<close>: the boot core has acquired the core for a job; \<open>claimed core\<close>: it is about to start the
  core. In both cases the core itself makes no step.
\<close>

definition owned :: "u64 \<Rightarrow> 'w state \<Rightarrow> bool" where
  "owned core s \<longleftrightarrow> protocol s \<and> unat core < 128 \<and> (core \<noteq> 0 \<longrightarrow> ap_phase_of core s = ApLoop)"

definition claimed :: "u64 \<Rightarrow> 'w state \<Rightarrow> bool" where
  "claimed core s \<longleftrightarrow> protocol s \<and> core \<noteq> 0 \<and> unat core < 128 \<and> ap_phase_of core s = ApOff \<and>
     lock (context_of core s) = 1 \<and> started (context_of core s) \<noteq> 1"

lemma protocol_io: "protocol s \<Longrightarrow> io_only s t \<Longrightarrow> buffers_ok t \<Longrightarrow> protocol t"
  by (simp add: protocol_def io_only_def arrays_ok_def slots_ok_def)

lemma io_phase: "io_only s t \<Longrightarrow> ap_phase_of core t = ap_phase_of core s"
  by (simp add: io_only_def ap_phase_of_def)

lemma job_flags: "job_effect c s t \<Longrightarrow> same_flags (context_of core s) (context_of core t)"
  by (cases "unat core = unat c") (auto simp: job_effect_def others_kept_def)

interpretation prot: kept_jobs protocol
proof unfold_locales
  fix s t :: "'w state" and c
  show "protocol s \<Longrightarrow> buffers_ok s" by (rule protocol_ok(1))
  show "protocol s \<Longrightarrow> io_only s t \<Longrightarrow> buffers_ok t \<Longrightarrow> protocol t" by (rule protocol_io)
  show "protocol s \<Longrightarrow> job_effect c s t \<Longrightarrow> protocol t" by (rule protocol_job_effect)
qed

interpretation own: kept_jobs "owned core" for core
proof unfold_locales
  fix s t :: "'w state" and c
  show "owned core s \<Longrightarrow> buffers_ok s" using protocol_ok(1) by (auto simp: owned_def)
  show "owned core s \<Longrightarrow> io_only s t \<Longrightarrow> buffers_ok t \<Longrightarrow> owned core t"
    using protocol_io [of s t] io_phase [of s t core] by (simp add: owned_def)
  show "owned core s \<Longrightarrow> job_effect c s t \<Longrightarrow> owned core t"
    using protocol_job_effect [of s c t] ap_phase_effect [of c s t core] by (simp add: owned_def)
qed

interpretation claim: kept_jobs "claimed core" for core
proof unfold_locales
  fix s t :: "'w state" and c
  show "claimed core s \<Longrightarrow> buffers_ok s" using protocol_ok(1) by (auto simp: claimed_def)
  show "claimed core s \<Longrightarrow> io_only s t \<Longrightarrow> buffers_ok t \<Longrightarrow> claimed core t"
    using protocol_io [of s t] io_phase [of s t core] by (simp add: claimed_def) (simp add: io_only_def)
  show "claimed core s \<Longrightarrow> job_effect c s t \<Longrightarrow> claimed core t"
    using protocol_job_effect [of s c t] ap_phase_effect [of c s t core] job_flags [of c s t core]
    by (simp add: claimed_def same_flags_def)
qed



section \<open>Steps of the protocol\<close>

lemma protocol_boot: "protocol s \<Longrightarrow> protocol (with_context 0 f s)"
  by (auto simp: protocol_def slots_ok_def with_context_def buffers_ok_def arrays_ok_def)

lemma owned_context: "owned core s \<Longrightarrow> has_context core s"
  using protocol_ok(2) arrays_ok_lengths(3) by (fastforce simp: owned_def)

lemma own_update [keeps_rules]:
  assumes "\<And>c. started (f c) = started c" "core \<noteq> 0 \<Longrightarrow> (\<And>c. ready (f c) = ready c)"
  shows "own.keeps core (update_context core f)"
  unfolding own.keeps_def
proof (intro allI impI)
  fix s :: "'a state" assume s: "owned core s"
  have "protocol (with_context core f s)"
  proof (cases "core = 0")
    case True
    then show ?thesis using s protocol_boot by (auto simp: owned_def)
  next
    case False
    then show ?thesis using s assms by (intro protocol_loop) (auto simp: owned_def)
  qed
  then show "wp (update_context core f) (\<lambda>_. owned core) (\<lambda>_ _. True) s"
    using s owned_context [OF s] by (simp add: wp_update_with owned_def)
qed

lemma own_unlock [keeps_rules]: "own.keeps core (unlock_context core)"
  by (simp add: unlock_context_def interlocked_compare_exchange_64_def keeps_rules)

text \<open>Computations that start with an acquired core and end in any state of the protocol.\<close>

definition uses :: "u64 \<Rightarrow> ('w, 'a) prog \<Rightarrow> bool" where
  "uses core m \<longleftrightarrow> (\<forall>s. owned core s \<longrightarrow> wp m (\<lambda>_. protocol) (\<lambda>_ _. True) s)"

lemma uses_bind: "own.keeps core m \<Longrightarrow> (\<And>a. uses core (f a)) \<Longrightarrow> uses core (bind m f)"
  unfolding own.keeps_def uses_def wp_bind by (auto intro: wp_mono)

lemma uses_then: "uses core m \<Longrightarrow> (\<And>a. prot.keeps (f a)) \<Longrightarrow> uses core (bind m f)"
  unfolding prot.keeps_def uses_def wp_bind by (auto intro: wp_mono)

lemma uses_prot: "prot.keeps m \<Longrightarrow> uses core m"
  by (auto simp: uses_def prot.keeps_def owned_def)

lemma uses_own: "own.keeps core m \<Longrightarrow> uses core m"
  unfolding uses_def by (auto dest!: own.keepsD elim!: wp_mono) (simp add: owned_def)

lemma uses_if: "(b \<Longrightarrow> uses core m) \<Longrightarrow> (\<not> b \<Longrightarrow> uses core n) \<Longrightarrow> uses core (if b then m else n)"
  by simp

lemma prot_acquire:
  assumes "uses core (f EFI_SUCCESS)" "\<And>st. st \<noteq> EFI_SUCCESS \<Longrightarrow> prot.keeps (f st)"
  shows "prot.keeps (bind (acquire_core_lock_for_job P core) f)"
  unfolding prot.keeps_def wp_bind
proof (intro allI impI)
  fix s :: "'a state" assume s: "protocol s"
  show "wp (acquire_core_lock_for_job P core) (\<lambda>st. wp (f st) (\<lambda>_. protocol) (\<lambda>_ _. True)) (\<lambda>_ _. True) s"
  proof (cases "job_check core s")
    case None
    let ?t = "with_context core (\<lambda>c. c\<lparr>lock := 1\<rparr>) s"
    have "owned core ?t"
    proof (cases "core = 0")
      case True
      then show ?thesis using protocol_boot [OF s] by (simp add: owned_def)
    next
      case False
      note lt = job_check_loop [OF s False None]
      have "protocol ?t" by (rule protocol_loop [OF s False lt]) simp_all
      then show ?thesis using lt by (simp add: owned_def)
    qed
    then show ?thesis using assms(1) by (simp add: wp_acquire_ok [OF None protocol_ok(2) [OF s]] uses_def)
  next
    case (Some code)
    have reject: "wp (reject P fmt args c EFI_INVALID_PARAMETER) (\<lambda>st. wp (f st) (\<lambda>_. protocol) (\<lambda>_ _. True)) (\<lambda>_ _. True) s"
      for fmt args c
      by (rule wp_reject_any [OF protocol_ok(1) [OF s]])
        (auto intro!: assms(2) [THEN prot.keepsD] protocol_io [OF s])
    have ctx: "has_context core s" if "core < 128"
      using that arrays_ok_lengths(3) [OF protocol_ok(2) [OF s]] by (simp add: word_less_nat_alt)
    have free: "with_context core (\<lambda>c. c\<lparr>lock := 0\<rparr>) s = s" if "lock (context_of core s) = 0"
      using that by (intro with_context_same) simp
    show ?thesis
      using Some ctx
      by (auto simp: acquire_core_lock_for_job_def core_check_def job_check_def context_rules free reject not_le
          split: if_splits)
  qed
qed

text \<open>The wait for a job.\<close>

lemma prot_run_aps: "code_respects P \<Longrightarrow> prot.keeps (run_aps P)"
  by (simp add: prot.keeps_def wp_run_aps_protocol)

lemma prot_job_finished [keeps_rules]: "prot.keeps (job_finished core)"
  unfolding prot.keeps_def
proof (intro allI impI)
  fix s :: "'a state" assume s: "protocol s"
  show "wp (job_finished core) (\<lambda>_. protocol) (\<lambda>_ _. True) s"
  proof (cases "has_context core s")
    case True
    then show ?thesis using s by (simp add: wp_job_finished)
  next
    case False
    then show ?thesis by (simp add: job_finished_def wp_bind wp_get_context)
  qed
qed

lemma prot_wait_with_timeout: "code_respects P \<Longrightarrow> prot.keeps (wait_with_timeout P core n)"
  by (induction n) (simp_all add: prot_run_aps keeps_rules)

lemma prot_wait_forever:
  assumes "code_respects P"
  shows "prot.keeps (wait_forever P core)"
  unfolding prot.keeps_def
proof (intro allI impI)
  fix s :: "'a state" assume s: "protocol s"
  let ?I = "\<lambda>r. case r of Done _ t \<Rightarrow> protocol t | Stop _ _ \<Rightarrow> True"
  have step: "prot.keeps (wait_iteration P core)"
    by (simp add: wait_iteration_def prot_run_aps [OF assms] keeps_rules)
  have inv: "?I r" if "while_option going_on (next_iteration P core) (Done False s) = Some r" for r
  proof (rule while_option_rule [OF _ that])
    fix r :: "(stop_reason, bool, 'a state) outcome" assume r: "?I r" "going_on r"
    then show "?I (next_iteration P core r)"
      using step [unfolded prot.keeps_def wp_def] by (auto simp: next_iteration_def split: outcome.splits)
  qed (simp add: s)
  show "wp (wait_forever P core) (\<lambda>_. protocol) (\<lambda>_ _. True) s"
    using inv by (auto simp: wp_def wait_forever_def split: option.splits outcome.splits)
qed

lemma prot_wait_on_ap_exec: "code_respects P \<Longrightarrow> prot.keeps (wait_on_ap_exec P core timeout)"
  by (simp add: wait_on_ap_exec_def prot_wait_with_timeout prot_wait_forever)

lemma uses_execute_job:
  assumes "code_respects P"
  shows "uses core (execute_job P core timeout)"
proof -
  have fns: "own.keeps core (call_core_functions P core)"
    by (rule own.keeps_respectful [OF respectful_job [OF assms]])
  show ?thesis
  proof (cases "core = 0")
    case True
    then show ?thesis
      using fns by (intro uses_own) (simp add: execute_job_def keeps_rules)
  next
    case False
    have "prot.keeps (bind (wait_on_ap_exec P core timeout) (\<lambda>timeout_reached. bind (get_context core) (\<lambda>c. ret (g c timeout_reached))))" for g
      by (simp add: prot_wait_on_ap_exec [OF assms] keeps_rules)
    then show ?thesis
      using False by (simp add: execute_job_def) (intro uses_bind uses_prot; simp add: keeps_rules)
  qed
qed


section \<open>The handlers of jobs\<close>

lemma prot_execute_machine_code:
  assumes "code_respects P"
  shows "prot.keeps (handle_execute_machine_code P payload n)"
proof -
  have "same_flags c (c\<lparr>ret_gpf_value := 0, ret_rdtsc_value := 0, core_functions := fs,
      current_machine_code_slot_address := a\<rparr>)" for c fs a
    by (simp add: same_flags_def)
  then have "own.keeps core (update_context core (\<lambda>c. c\<lparr>ret_gpf_value := 0, ret_rdtsc_value := 0,
      core_functions := (core_functions c)[0 := call], current_machine_code_slot_address := a\<rparr>))" for core call a
    by (intro own.keeps_respectful [OF respectful_update]) simp
  then show ?thesis
    unfolding handle_execute_machine_code_def Let_def
    by (intro prot.keeps_if prot.keeps_bind prot.keeps_reject prot.keeps_pure prot_acquire uses_bind
        uses_then [OF uses_execute_job [OF assms]] own.keeps_respectful [OF respectful_results(1)]
        own.keeps_respectful [OF respectful_results(2)] prot.keeps_results uses_if) (auto intro: uses_prot simp: keeps_rules)
qed


lemma prot_apply_ucode_execute_test:
  assumes "code_respects P"
  shows "prot.keeps (handle_apply_ucode_execute_test P payload n)"
  unfolding handle_apply_ucode_execute_test_def
  by (intro prot.keeps_if prot.keeps_bind prot.keeps_reject prot.keeps_results prot.keeps_pure prot_acquire uses_bind
      uses_then [OF uses_execute_job [OF assms]] own.keeps_respectful [OF respectful_results(3)] uses_if)
    (simp_all add: keeps_rules)

lemma prot_with_frame:
  "(\<And>k. prot.keeps (body k)) \<Longrightarrow> prot.keeps (with_frame ws body)"
  by (simp add: with_frame_def keeps_rules prot.keeps_respectful [OF respectful_new_frame]
      prot.keeps_respectful [OF respectful_drop_frame])

lemma prot_send_msr_response [keeps_rules]: "prot.keeps (send_msr_response P k)"
  by (simp add: send_msr_response_def read_frame_def keeps_rules)

lemma prot_read_msr: "prot.keeps (handle_read_msr P payload n)"
  by (simp add: handle_read_msr_def prot_with_frame keeps_rules prot.keeps_respectful [OF respectful_ucode(6)])

lemma prot_read_msr_on_core:
  assumes "code_respects P"
  shows "prot.keeps (handle_read_msr_on_core P payload n)"
proof -
  have job: "own.keeps core (update_context core (\<lambda>c. c\<lparr>core_functions := (core_functions c)[0 := call]\<rparr>))" for core call
    by (simp add: keeps_rules)
  have "prot.keeps (bind (wait_on_ap_exec P core 100) (\<lambda>timeout_reached. if timeout_reached
      then reject P fmt args code st else send_msr_response P k))" for core fmt args code st k
    by (simp add: prot_wait_on_ap_exec [OF assms] keeps_rules)
  then have "uses core (bind (clear_core_functions core) (\<lambda>_.
      bind (update_context core (\<lambda>c. c\<lparr>core_functions := (core_functions c)[0 := call]\<rparr>)) (\<lambda>_.
      bind (update_context core (\<lambda>c. c\<lparr>job_queued := 1\<rparr>)) (\<lambda>_.
      bind (unlock_context core) (\<lambda>_.
      bind (wait_on_ap_exec P core 100) (\<lambda>timeout_reached. if timeout_reached
        then reject P fmt args code st else send_msr_response P k))))))" for core call fmt args code st k
    by (intro uses_bind job own.keeps_respectful [OF respectful_results(1)] uses_prot; simp add: keeps_rules)
  then show ?thesis
    unfolding handle_read_msr_on_core_def
    by (intro prot.keeps_if prot.keeps_bind prot.keeps_reject prot.keeps_pure prot_read_msr prot_with_frame prot_acquire)
      (simp_all add: keeps_rules)
qed

lemma prot_apply_ucode: "prot.keeps (handle_apply_ucode P payload n)"
  by (simp add: handle_apply_ucode_def keeps_rules prot.keeps_respectful [OF respectful_ucode(1)]
      prot.keeps_respectful [OF respectful_ucode(4)] prot.keeps_respectful [OF respectful_ucode(5)])


section \<open>The handlers of slots\<close>

lemma protocol_slots:
  assumes "protocol s" "core_contexts t = core_contexts s" "ap_phases t = ap_phases s" "buffers_ok t" "arrays_ok t" "slots_ok t"
  shows "protocol t"
  using assms by (simp add: protocol_def)

lemma protocol_world: "protocol s \<Longrightarrow> protocol (s\<lparr>world := w\<rparr>)"
  by (rule protocol_job_effect [OF _ job_effect_world(1)])

context slot_access
begin

text \<open>An upload of any size, from a message of any length: it is stored, or refused for lack of memory, or it stops.\<close>

lemma wp_upload_any:
  assumes doc: "alloc_pages_documented P" and ok: "valid s" and sizes: "n * 4096 = cap" "cap < 2 ^ 64" "l = of_nat m"
    and none: "\<And>w. wp no_memory Q E (s\<lparr>world := w\<rparr>)"
    and done': "\<And>t bs. uploaded i bs s t \<Longrightarrow> length bs \<le> cap \<Longrightarrow> wp answer Q E t"
    and over: "\<And>e t. E e t"
  shows "wp (bind (getp i) (\<lambda>c.
      bind (if addr c = 0 then bind (AllocatePages P n) (\<lambda>a. putp i (set_addr a c)) else ret ()) (\<lambda>_.
      bind (getp i) (\<lambda>c. if addr c = 0 then no_memory else
      bind (putp i (set_len l c)) (\<lambda>_.
      bind (load_bytes payload 8 m) (\<lambda>bs.
      bind (heap_write (addr c) 0 bs) (\<lambda>_. answer))))))) Q E s"
proof (cases "i < length (slots s)")
  case False
  then show ?thesis using over by (simp add: wp_simps getp)
next
  case True
  then have get: "wp (getp i) Q' E s = Q' (slots s ! i) s" for Q'
    by (simp add: wp_simps getp)
  show ?thesis
    unfolding wp_bind [of "getp i"] get sizes(3)
  proof (cases "m \<le> cap \<and> 8 + m \<le> length payload")
    case stores: True
    then have len: "length (slice 8 m payload) \<le> cap" by simp
    show "wp (bind (if addr (slots s ! i) = 0
        then bind (AllocatePages P n) (\<lambda>a. putp i (set_addr a (slots s ! i))) else ret ()) (\<lambda>_.
      bind (getp i) (\<lambda>c. if addr c = 0 then no_memory else
      bind (putp i (set_len (of_nat m) c)) (\<lambda>_.
      bind (load_bytes payload 8 m) (\<lambda>bs.
      bind (heap_write (addr c) 0 bs) (\<lambda>_. answer)))))) Q E s"
      by (rule wp_upload [OF doc ok True sizes(1)]) (use stores sizes(2) none done' len in auto)
  next
    case False
    then show "wp (bind (if addr (slots s ! i) = 0
        then bind (AllocatePages P n) (\<lambda>a. putp i (set_addr a (slots s ! i))) else ret ()) (\<lambda>_.
      bind (getp i) (\<lambda>c. if addr c = 0 then no_memory else
      bind (putp i (set_len (of_nat m) c)) (\<lambda>_.
      bind (load_bytes payload 8 m) (\<lambda>bs.
      bind (heap_write (addr c) 0 bs) (\<lambda>_. answer)))))) Q E s"
      by (intro wp_upload_stops [OF doc ok True sizes(1)]) (use none over in auto)
  qed
qed

end

lemma uploaded_protocol:
  "uaccess.uploaded i bs s t \<Longrightarrow> length bs \<le> 16384 \<Longrightarrow> protocol s \<Longrightarrow> protocol t"
  "maccess.uploaded i bs s t \<Longrightarrow> length bs \<le> 1048576 \<Longrightarrow> protocol s \<Longrightarrow> protocol t"
proof -
  assume up: "uaccess.uploaded i bs s t" "length bs \<le> 16384" and s: "protocol s"
  have "slots_ok t" by (rule uaccess_uploaded_slots_ok [OF up(1) protocol_ok(3) [OF s] up(2)])
  moreover have "core_contexts t = core_contexts s \<and> ap_phases t = ap_phases s \<and> buffers_ok t = buffers_ok s \<and>
      arrays_ok t = arrays_ok s"
    using up(1) by (auto simp: uaccess.uploaded_def buffers_ok_def arrays_ok_def)
  ultimately show "protocol t" using s protocol_ok by (intro protocol_slots [OF s]) auto
next
  assume up: "maccess.uploaded i bs s t" "length bs \<le> 1048576" and s: "protocol s"
  have "slots_ok t" by (rule maccess_uploaded_slots_ok [OF up(1) protocol_ok(3) [OF s] up(2)])
  moreover have "core_contexts t = core_contexts s \<and> ap_phases t = ap_phases s \<and> buffers_ok t = buffers_ok s \<and>
      arrays_ok t = arrays_ok s"
    using up(1) by (auto simp: maccess.uploaded_def buffers_ok_def arrays_ok_def)
  ultimately show "protocol t" using s protocol_ok by (intro protocol_slots [OF s]) auto
qed

lemma prot_send_machine_code:
  assumes "alloc_pages_documented P"
  shows "prot.keeps (handle_send_machine_code P payload n)"
proof -
  have "prot.keeps (bind (get_machine_code i) (\<lambda>c.
      bind (if machine_code c = 0
            then bind (AllocatePages P machine_code_pages) (\<lambda>a. put_machine_code i (c\<lparr>machine_code := a\<rparr>)) else ret ()) (\<lambda>_.
      bind (get_machine_code i) (\<lambda>c. if machine_code c = 0 then reject P fmt args code st else
      bind (put_machine_code i (c\<lparr>machine_code_length := ucast size\<rparr>)) (\<lambda>_.
      bind (load_bytes payload 8 (unat size)) (\<lambda>bs.
      bind (heap_write (machine_code c) 0 bs) (\<lambda>_. bind (send_status P 0x0 None) (\<lambda>_. ret EFI_SUCCESS))))))))"
    for i fmt args code st and size :: u32
    unfolding prot.keeps_def
    by (intro allI impI, rule maccess.wp_upload_any [OF assms])
      (auto simp: slots_ok_valid [symmetric] protocol_ok(3) [unfolded slots_ok_valid]
        intro!: prot.keepsD keeps_rules protocol_world elim: uploaded_protocol)
  then show ?thesis
    unfolding handle_send_machine_code_def
    by (intro prot.keeps_if prot.keeps_bind [OF prot.keeps_pure(10)] prot.keeps_reject)
qed

lemma prot_send_ucode:
  assumes "alloc_pages_documented P"
  shows "prot.keeps (handle_send_ucode P payload n)"
proof -
  have "prot.keeps (bind (get_ucode i) (\<lambda>c.
      bind (if ucode c = 0
            then bind (AllocatePages P ucode_pages) (\<lambda>a. put_ucode i (c\<lparr>ucode := a\<rparr>)) else ret ()) (\<lambda>_.
      bind (get_ucode i) (\<lambda>c. if ucode c = 0 then bind (send_status_fmt P code) (\<lambda>_. ret st) else
      bind (put_ucode i (c\<lparr>ucode_length := ucast size\<rparr>)) (\<lambda>_.
      bind (load_bytes payload 8 (unat size)) (\<lambda>bs.
      bind (heap_write (ucode c) 0 bs) (\<lambda>_. bind (send_status P 0x0 None) (\<lambda>_. ret EFI_SUCCESS))))))))"
    for i code st and size :: u32
    unfolding prot.keeps_def
    by (intro allI impI, rule uaccess.wp_upload_any [OF assms])
      (auto simp: slots_ok_valid [symmetric] protocol_ok(3) [unfolded slots_ok_valid]
        intro!: prot.keepsD keeps_rules protocol_world elim: uploaded_protocol)
  then show ?thesis
    unfolding handle_send_ucode_def
    by (intro prot.keeps_if prot.keeps_bind [OF prot.keeps_pure(10)] prot.keeps_bind [OF prot.keeps_send_status(2)] prot.keeps_pure(1))
qed


text \<open>The copy that flipping bits starts with.\<close>

lemma protocol_put_ucode:
  assumes "protocol s" "slot_block (heap s) UCODE_SIZE (ucode c) (ucode_length c)"
  shows "protocol (s\<lparr>ucodes := (ucodes s)[i := c]\<rparr>)"
  by (rule protocol_slots [OF assms(1)])
    (use slots_ok_put_ucode [OF protocol_ok(3) [OF assms(1)] assms(2)] protocol_ok [OF assms(1)]
      in \<open>simp_all add: buffers_ok_def arrays_ok_def\<close>)

lemma protocol_heap:
  assumes "protocol s" "heap s a = None \<or> (\<exists>b'. heap s a = Some b' \<and> length b' = length b)"
  shows "protocol (s\<lparr>heap := (heap s)(a \<mapsto> b)\<rparr>)"
  by (rule protocol_slots [OF assms(1)])
    (use slots_ok_alloc [OF protocol_ok(3) [OF assms(1)], of a b] slots_ok_write [OF protocol_ok(3) [OF assms(1)], of a _ b]
      assms(2) protocol_ok [OF assms(1)] in \<open>auto simp: buffers_ok_def arrays_ok_def\<close>)

lemma slot_1: "protocol s \<Longrightarrow> slot_block (heap s) UCODE_SIZE (ucode (ucodes s ! 1)) (ucode_length (ucodes s ! 1))"
  using protocol_ok(3) arrays_ok_lengths(1) [OF protocol_ok(2)] by (fastforce simp: slots_ok_def)

lemma wp_flip_copy:
  assumes s: "protocol s" and len: "unat (ucode_length target) \<le> 16384"
  shows "wp (bind (get_ucode 1) (\<lambda>c.
      bind (copy_block (ucode c) (ucode target) (unat (ucode_length target))) (\<lambda>_.
      put_ucode 1 (c\<lparr>ucode_length := ucode_length target\<rparr>)))) (\<lambda>_. protocol) (\<lambda>_ _. True) s"
proof -
  let ?c = "ucodes s ! 1"
  have one: "1 < length (ucodes s)" using arrays_ok_lengths(1) [OF protocol_ok(2) [OF s]] by simp
  have final: "protocol (t\<lparr>ucodes := (ucodes t)[1 := ?c\<lparr>ucode_length := ucode_length target\<rparr>]\<rparr>)"
    if "protocol t" "heap t (ucode ?c) = None \<longrightarrow> heap s (ucode ?c) = None"
      "\<And>b b'. heap s (ucode ?c) = Some b \<Longrightarrow> heap t (ucode ?c) = Some b' \<Longrightarrow> length b' = length b" for t
    by (rule protocol_put_ucode [OF that(1)]) (use that(2,3) slot_1 [OF s] len in \<open>fastforce simp: slot_block_def\<close>)
  have "wp (copy_block (ucode ?c) (ucode target) (unat (ucode_length target)))
      (\<lambda>_ t. protocol (t\<lparr>ucodes := (ucodes t)[1 := ?c\<lparr>ucode_length := ucode_length target\<rparr>]\<rparr>)) (\<lambda>_ _. True) s"
  proof (cases "unat (ucode_length target) = 0")
    case True
    then show ?thesis using final [OF s] by (simp add: copy_block_def wp_ret)
  next
    case False
    have "protocol (u\<lparr>ucodes := (ucodes u)[1 := ?c\<lparr>ucode_length := ucode_length target\<rparr>]\<rparr>)"
      if "heap s (ucode ?c) = Some b" "length bs \<le> length b" "u = s\<lparr>heap := (heap s)(ucode ?c \<mapsto> overwrite 0 bs b)\<rparr>" for b bs u
      using that by (intro final) (auto intro!: protocol_heap [OF s])
    then show ?thesis
      using False by (auto simp: copy_block_def wp_bind wp_heap_read wp_heap_write split: option.splits)
  qed
  then show ?thesis using one by (simp add: wp_bind wp_get_ucode) (erule wp_mono, simp_all add: wp_put_ucode)
qed

lemma wp_flip_slot_1:
  assumes doc: "alloc_pages_documented P" and s: "protocol s" and Q: "\<And>t. protocol t \<Longrightarrow> Q () t"
  shows "wp (if ucode c = 0
      then bind (AllocatePages P ucode_pages) (\<lambda>a. put_ucode 1 (c\<lparr>ucode := a, ucode_length := ucode_alloc_size\<rparr>))
      else ret ()) Q E s"
proof (cases "ucode c = 0")
  case True
  have "wp (AllocatePages P 4) (\<lambda>a. wp (put_ucode 1 (c\<lparr>ucode := a, ucode_length := 16384\<rparr>)) Q E) E s"
  proof (rule wp_AllocatePages [OF doc], goal_cases)
    case (1 w)
    then show ?case
      using protocol_put_ucode [OF protocol_world [OF s, of w], of "c\<lparr>ucode := 0, ucode_length := 16384\<rparr>" 1]
      by (auto simp: wp_put_ucode slot_block_def intro!: Q)
  next
    case (2 a b w)
    have "protocol (s\<lparr>world := w, heap := (heap s)(a \<mapsto> b)\<rparr>)"
      using protocol_heap [OF protocol_world [OF s], of w a b] 2 by simp
    then show ?case
      using protocol_put_ucode [of "s\<lparr>world := w, heap := (heap s)(a \<mapsto> b)\<rparr>" "c\<lparr>ucode := a, ucode_length := 16384\<rparr>" 1] 2
      by (auto simp: wp_put_ucode slot_block_def intro!: Q)
  qed
  then show ?thesis using True by (simp add: wp_bind)
qed (simp add: wp_ret Q [OF s])

lemma wp_flip_prepare_protocol:
  assumes doc: "alloc_pages_documented P" and s: "protocol s" and len: "unat (ucode_length target) \<le> 16384"
  shows "wp (flip_prepare P slot target) (\<lambda>_. protocol) (\<lambda>_ _. True) s"
proof (cases "slot = 1")
  case True
  then show ?thesis using s by (simp add: flip_prepare_def wp_ret)
next
  case False
  have one: "1 < length (ucodes s)" using arrays_ok_lengths(1) [OF protocol_ok(2) [OF s]] by simp
  have "wp (if ucode c = 0
      then bind (AllocatePages P ucode_pages) (\<lambda>a. put_ucode 1 (c\<lparr>ucode := a, ucode_length := ucode_alloc_size\<rparr>))
      else ret ()) (\<lambda>_. wp (bind (get_ucode 1) (\<lambda>c.
        bind (copy_block (ucode c) (ucode target) (unat (ucode_length target))) (\<lambda>_.
        put_ucode 1 (c\<lparr>ucode_length := ucode_length target\<rparr>)))) (\<lambda>_. protocol) (\<lambda>_ _. True)) (\<lambda>_ _. True) s" for c
    by (rule wp_flip_slot_1 [OF doc s]) (rule wp_flip_copy [OF _ len])
  then show ?thesis
    using False by (simp only: flip_prepare_def if_True not_True_eq_False not_False_eq_True
      wp_bind [of "get_ucode 1"] wp_get_ucode [OF one] wp_bind [of "if _ then _ else _"])
qed

lemma prot_flip_target:
  assumes doc: "alloc_pages_documented P" and rest: "prot.keeps rest"
  shows "prot.keeps (bind (get_ucode i) (\<lambda>target. if ucode target = 0 then reject P fmt args code st else
      bind (flip_prepare P slot target) (\<lambda>_. rest)))"
  unfolding prot.keeps_def
proof (intro allI impI)
  fix s :: "'a state" assume s: "protocol s"
  let ?target = "ucodes s ! i"
  show "wp (bind (get_ucode i) (\<lambda>target. if ucode target = 0 then reject P fmt args code st else
      bind (flip_prepare P slot target) (\<lambda>_. rest))) (\<lambda>_. protocol) (\<lambda>_ _. True) s"
  proof (cases "i < length (ucodes s)")
    case False
    then show ?thesis by (simp add: wp_bind get_ucode_def wp_gets wp_require)
  next
    case True
    then have "slot_block (heap s) UCODE_SIZE (ucode ?target) (ucode_length ?target)"
      using protocol_ok(3) [OF s] by (simp add: slots_ok_def)
    then have len: "ucode ?target \<noteq> 0 \<Longrightarrow> unat (ucode_length ?target) \<le> 16384" by (auto simp: slot_block_def)
    have "wp (bind (flip_prepare P slot ?target) (\<lambda>_. rest)) (\<lambda>_. protocol) (\<lambda>_ _. True) s"
      if "ucode ?target \<noteq> 0"
      unfolding wp_bind by (rule wp_mono [OF wp_flip_prepare_protocol [OF doc s len [OF that]]])
        (auto intro: prot.keepsD [OF rest])
    then show ?thesis
      using prot.keepsD [OF prot.keeps_reject s] by (simp add: wp_bind [of "get_ucode i"] wp_get_ucode [OF True])
  qed
qed

lemma prot_flip_bits:
  assumes doc: "alloc_pages_documented P"
  shows "prot.keeps (handle_flip_bits P payload n)"
proof -
  have "prot.keeps (bind (for_each is (\<lambda>k. bind (get_ucode 1) (\<lambda>c. bind (get_ucode i) (\<lambda>target.
      bind (load_u32 payload (off k)) (flip_bit (ucode c) (ucode_length target)))))) (\<lambda>_.
      bind (send_status P 0x0 None) (\<lambda>_. ret EFI_SUCCESS)))" for "is" i off
    by (simp add: keeps_rules prot.keeps_respectful [OF respectful_ucode(2)])
  then show ?thesis
    unfolding handle_flip_bits_def flip_prepare_def [symmetric]
    by (intro prot.keeps_if prot.keeps_bind [OF prot.keeps_pure(10)] prot.keeps_reject prot_flip_target [OF doc])
qed


section \<open>Starting cores\<close>

text \<open>The documented service: the start of a processor succeeds, or gives an error and does not start it.\<close>

definition startup_documented :: "'w platform \<Rightarrow> bool" where
  "startup_documented P \<longleftrightarrow> (\<forall>i w. fst (startup_ap_fw P i w) = EFI_SUCCESS \<or> EFI_ERROR (fst (startup_ap_fw P i w)))"

lemma protocol_unlock_off:
  assumes "claimed core s"
  shows "protocol (with_context core (\<lambda>c. c\<lparr>lock := 0\<rparr>) s)"
proof -
  have s: "protocol s" "core \<noteq> 0" "unat core < 128" "ap_phase_of core s = ApOff" "started (context_of core s) \<noteq> 1"
    using assms by (simp_all add: claimed_def)
  note facts = protocol_core [OF s(1-3)]
  have "protocol (with_phase core ApOff (with_context core (\<lambda>c. c\<lparr>lock := 0\<rparr>) s))"
    by (rule protocol_step [OF s(1,2)]) (simp add: core_protocol_def s(5))
  moreover have "with_phase core ApOff (with_context core (\<lambda>c. c\<lparr>lock := 0\<rparr>) s) = with_context core (\<lambda>c. c\<lparr>lock := 0\<rparr>) s"
    using facts(3) s(4) by (intro with_phase_same) simp_all
  ultimately show ?thesis by simp
qed

lemma protocol_entry:
  assumes "claimed core s"
  shows "protocol (with_phase core ApEntry s)"
proof -
  have s: "protocol s" "core \<noteq> 0" "lock (context_of core s) = 1" "started (context_of core s) \<noteq> 1"
    using assms by (simp_all add: claimed_def)
  have "protocol (with_phase core ApEntry (with_context core (\<lambda>c. c) s))"
    by (rule protocol_step [OF s(1,2)]) (simp add: core_protocol_def s(3,4))
  then show ?thesis by simp
qed

text \<open>An unlocked core that is not started can be claimed.\<close>

lemma claim_core:
  assumes s: "protocol s" and core: "core \<noteq> 0" "has_context core s" and off: "started (context_of core s) \<noteq> 1"
    and free: "lock (context_of core s) = 0"
  shows "claimed core (with_context core (\<lambda>c. c\<lparr>lock := 1\<rparr>) s)"
proof -
  have lt: "unat core < 128" using core(2) arrays_ok_lengths(3) [OF protocol_ok(2) [OF s]] by simp
  note facts = protocol_core [OF s core(1) lt]
  have phase: "ap_phase_of core s = ApOff"
    using facts(1) off free by (auto simp: core_protocol_def split: ap_phase.splits)
  have "protocol (with_phase core ApOff (with_context core (\<lambda>c. c\<lparr>lock := 1\<rparr>) s))"
    by (rule protocol_step [OF s core(1)]) (simp add: core_protocol_def off)
  moreover have "with_phase core ApOff (with_context core (\<lambda>c. c\<lparr>lock := 1\<rparr>) s) = with_context core (\<lambda>c. c\<lparr>lock := 1\<rparr>) s"
    using facts(3) phase by (intro with_phase_same) simp_all
  ultimately show ?thesis using core lt off phase by (simp add: claimed_def)
qed

lemma wp_start_on_core:
  assumes doc: "startup_documented P" and s: "claimed core s"
  shows "wp (start_on_core P core) (\<lambda>st t. if st = EFI_SUCCESS then protocol t else claimed core t) (\<lambda>_ _. True) s"
proof -
  have call: "wp (bind (on_world (startup_ap_fw P core)) (\<lambda>Status.
      bind (if EFI_ERROR Status then FormatPrint P fmt (f Status) else set_phase core ApEntry) (\<lambda>_. ret Status)))
      (\<lambda>st t. if st = EFI_SUCCESS then protocol t else claimed core t) (\<lambda>_ _. True) t" if t: "claimed core t" for t fmt f
  proof -
    let ?st = "fst (startup_ap_fw P core (world t))" and ?t = "t\<lparr>world := snd (startup_ap_fw P core (world t))\<rparr>"
    have t': "claimed core ?t"
      using claim.keepsD [OF claim.keeps_on_world t, of "startup_ap_fw P core"] by (simp add: wp_on_world)
    consider "?st = EFI_SUCCESS" | "EFI_ERROR ?st" using doc by (auto simp: startup_documented_def)
    then show ?thesis
    proof cases
      case 1
      then show ?thesis using protocol_entry [OF t'] by (simp add: wp_bind wp_on_world wp_set_phase wp_ret)
    next
      case 2
      then have "?st \<noteq> EFI_SUCCESS" by auto
      then show ?thesis
        using 2 claim.keepsD [OF claim.keeps_FormatPrint t', of P fmt "f ?st"]
        by (simp add: wp_bind wp_on_world) (erule wp_mono, simp_all add: wp_ret)
    qed
  qed
  have event: "claim.keeps core (CreateEvent P)" by (simp add: CreateEvent_def keeps_rules)
  have "wp (CreateEvent P) (\<lambda>Status. wp (if EFI_ERROR Status then
         bind (FormatPrint P ''Failed to create completion event: %r'' [Status]) (\<lambda>_. ret Status)
       else bind (on_world (startup_ap_fw P core)) (\<lambda>Status.
         bind (if EFI_ERROR Status then FormatPrint P ''StartupThisAP failed on core %u: %r'' [core, Status]
           else set_phase core ApEntry) (\<lambda>_. ret Status)))
      (\<lambda>st t. if st = EFI_SUCCESS then protocol t else claimed core t) (\<lambda>_ _. True)) (\<lambda>_ _. True) s"
  proof (rule wp_mono [OF claim.keepsD [OF event s]], goal_cases)
    case (1 st t)
    show ?case
    proof (cases "EFI_ERROR st")
      case True
      then have "st \<noteq> EFI_SUCCESS" by auto
      then show ?thesis
        using True claim.keepsD [OF claim.keeps_FormatPrint 1, of P "''Failed to create completion event: %r''" "[st]"]
        by (simp add: wp_bind) (erule wp_mono, simp_all add: wp_ret)
    next
      case False
      then show ?thesis using call [OF 1] by simp
    qed
  qed simp
  then show ?thesis by (simp only: start_on_core_def wp_bind [of "CreateEvent P"])
qed

lemma prot_start_core:
  assumes pages: "alloc_pages_documented P" "alloc_pool_documented P" and startup: "startup_documented P" and core: "core \<noteq> 0"
  shows "prot.keeps (start_core P core)"
  unfolding prot.keeps_def
proof (intro allI impI)
  fix s :: "'a state" assume s: "protocol s"
  let ?body = "bind (init_fault_handlers_on_core P core) (\<lambda>_.
     bind (get_cr3 P 0) (\<lambda>cr3.
     bind (create_minimal_paging P cr3) (\<lambda>new_cr3.
     update_context core (\<lambda>c. c\<lparr>cr3_value := new_cr3\<rparr>))))"
  let ?rest = "bind (start_on_core P core) (\<lambda>status. if status \<noteq> EFI_SUCCESS then
       bind (unlock_context core) (\<lambda>_. reject P ''Core id %u can not be started: %r.'' [core, status] 0x6 status)
     else ret EFI_SUCCESS)"
  have body: "claim.keeps core ?body"
    by (intro claim.keeps_respectful [of core] respectful_bind respectful_fault_handlers [OF pages(2)]
        respectful_tables(1) respectful_minimal_paging [OF pages(1)] respectful_update) simp
  have rest: "wp ?rest (\<lambda>_. protocol) (\<lambda>_ _. True) t" if t: "claimed core t" for t
    unfolding wp_bind [of "start_on_core P core"]
  proof (rule wp_mono [OF wp_start_on_core [OF startup t]], goal_cases)
    case (1 st u)
    show ?case
    proof (cases "st = EFI_SUCCESS")
      case True
      then show ?thesis using 1 by (simp add: wp_ret)
    next
      case False
      then have u: "claimed core u" using 1 by simp
      then have "protocol u" "unat core < 128" by (simp_all add: claimed_def)
      then have ctx: "has_context core u" using core protocol_core(2) by blast
      show ?thesis
        using False ctx prot.keepsD [OF prot.keeps_reject protocol_unlock_off [OF u]]
        by (simp add: wp_bind wp_unlock)
    qed
  qed simp
  have run: "wp (bind ?body (\<lambda>_. ?rest)) (\<lambda>_. protocol) (\<lambda>_ _. True) t" if "claimed core t" for t
    unfolding wp_bind [of ?body]
    by (rule wp_mono [OF claim.keepsD [OF body that]]) (use rest in auto)
  have reject: "wp (reject P fmt args c EFI_INVALID_PARAMETER) (\<lambda>_. protocol) (\<lambda>_ _. True) s" for fmt args c
    by (rule prot.keepsD [OF prot.keeps_reject s])
  show "wp (start_core P core) (\<lambda>_. protocol) (\<lambda>_ _. True) s"
  proof (cases "has_context core s")
    case False
    then show ?thesis by (simp add: start_core_def wp_bind wp_get_context)
  next
    case True
    then show ?thesis
      using reject run [OF claim_core [OF s core True]]
      by (simp add: start_core_def wp_bind [of "get_context core"] wp_get_with wp_bind [of "try_lock_context core"] wp_try_lock bind_assoc)
  qed
qed

lemma prot_start_cores:
  assumes "alloc_pages_documented P" "alloc_pool_documented P" "startup_documented P" "\<forall>i \<in> set is. 0 < i \<and> i < 2 ^ 64"
  shows "prot.keeps (start_cores P is)"
  using assms(4)
proof (induction "is")
  case (Cons i "is")
  then have "(of_nat i :: u64) \<noteq> 0" by (simp add: word_unat_eq_iff)
  then have "prot.keeps (start_core P (of_nat i))" by (rule prot_start_core [OF assms(1-3)])
  then show ?case using Cons by (simp add: keeps_rules)
qed (simp add: keeps_rules)

lemma prot_handle_start_core:
  assumes "alloc_pages_documented P" "alloc_pool_documented P" "startup_documented P"
  shows "prot.keeps (handle_start_core P payload n)"
proof -
  have "prot.keeps (start_cores P [1 ..< 129])" by (rule prot_start_cores [OF assms]) auto
  then show ?thesis
    by (simp add: handle_start_core_def prot_start_core [OF assms] keeps_rules del: upt_Suc start_cores.simps)
qed

text \<open>All handlers of messages.\<close>

lemmas prot_handlers = prot_execute_machine_code prot_apply_ucode_execute_test prot_read_msr prot_read_msr_on_core
  prot_apply_ucode prot_send_machine_code prot_send_ucode prot_flip_bits prot_handle_start_core

end
