(* ===== verification/Dispatch.thy ===== *)
theory Dispatch
  imports Invariant
begin

text \<open>
  \<^verbatim>\<open>handle_message\<close> of \<^verbatim>\<open>Protocol.c\<close> and the receiving side of \<^verbatim>\<open>AngryUEFI.c\<close>: chunks, messages, and the loop
  that serves a connection. A connection keeps the protocol between the cores; messages that cannot be handled are
  refused.
\<close>

section \<open>Dispatch\<close>

text \<open>A handler gets the bytes from behind the header to the end of the receive buffer, and the length of the payload.\<close>

definition dispatch :: "'w platform \<Rightarrow> u32 \<Rightarrow> u8 list \<Rightarrow> u64 \<Rightarrow> ('w, efi_status) prog" where
  "dispatch P message_type payload payload_length =
     (if message_type = MSG_PING then handle_ping P payload payload_length
      else if message_type = MSG_MULTIPING then handle_multi_ping P payload payload_length
      else if message_type = MSG_GETMSGSIZE then handle_get_msg_size P payload payload_length
      else if message_type = MSG_REBOOT then handle_reboot P payload payload_length
      else if message_type = MSG_SENDUCODE then handle_send_ucode P payload payload_length
      else if message_type = MSG_FLIPBITS then handle_flip_bits P payload payload_length
      else if message_type = MSG_APPLYUCODE then handle_apply_ucode P payload payload_length
      else if message_type = MSG_APPLYUCODEEXCUTETEST then handle_apply_ucode_execute_test P payload payload_length
      else if message_type = MSG_GETLASTTESTRESULT then handle_get_last_test_result P payload payload_length
      else if message_type = MSG_EXECUTEMACHINECODE then handle_execute_machine_code P payload payload_length
      else if message_type = MSG_READMSR then handle_read_msr P payload payload_length
      else if message_type = MSG_READMSRONCORE then handle_read_msr_on_core P payload payload_length
      else if message_type = MSG_GETCORECOUNT then handle_get_core_count P payload payload_length
      else if message_type = MSG_STARTCORE then handle_start_core P payload payload_length
      else if message_type = MSG_GETCORESTATUS then handle_get_core_status P payload payload_length
      else if message_type = MSG_SENDMACHINECODE then handle_send_machine_code P payload payload_length
      else if message_type = MSG_GETPAGINGINFO then handle_get_paging_info P payload payload_length
      else if message_type = MSG_GETIBSBUFFER then handle_get_ibs_buffer P payload payload_length
      else if message_type = MSG_GETDSMBUFFER then handle_get_dsm_buffer P payload payload_length
      else
        bind (FormatPrint P ''Unknown message type 0x%08X'' [ucast message_type]) (\<lambda>_.
        send_status_fmt P 0x80000001))"

definition handle_message :: "'w platform \<Rightarrow> u8 list \<Rightarrow> u64 \<Rightarrow> ('w, efi_status) prog" where
  "handle_message P message message_length =
     (if message_length < 8 then ret EFI_INVALID_PARAMETER else
      bind (load_bytes message 0 4) (\<lambda>bs.
      let meta_data = metadata_of bs in
      if Major meta_data \<noteq> 1 \<or> Minor meta_data \<noteq> 0 then ret EFI_INVALID_PARAMETER else
      bind (load_u32 message 4) (\<lambda>message_type.
      bind (dispatch P message_type (drop 8 message) (message_length - 8)) (\<lambda>_.
      ret EFI_SUCCESS))))"


section \<open>Receiving\<close>

abbreviation TCP_CONNECTION_CLOSED :: efi_status where "TCP_CONNECTION_CLOSED \<equiv> 0x8000000000000068"

text \<open>The stack of the firmware writes the received bytes to the buffer it was given.\<close>

definition write_receive :: "nat \<Rightarrow> u8 list \<Rightarrow> ('w, unit) prog" where
  "write_receive off bs =
     bind (gets receive_buffer) (\<lambda>b.
     bind (require OutOfBounds (off + length bs \<le> length b)) (\<lambda>_.
     modify (\<lambda>s. s\<lparr>receive_buffer := overwrite off bs b\<rparr>)))"

text \<open>The results are the status and the length of the chunk, 0 for a closed connection.\<close>

definition receive_chunk :: "'w platform \<Rightarrow> nat \<Rightarrow> u64 \<Rightarrow> ('w, efi_status \<times> u64) prog" where
  "receive_chunk P off chunk_capacity =
     bind (CreateEvent P) (\<lambda>Status.
     if EFI_ERROR Status then ret (Status, 0) else
     bind (on_world (receive_fw P chunk_capacity)) (\<lambda>Status.
     if Status = TCP_CONNECTION_CLOSED then bind CloseEvent (\<lambda>_. ret (EFI_SUCCESS, 0))
     else if EFI_ERROR Status then bind CloseEvent (\<lambda>_. ret (Status, 0)) else
     bind (wait_token (rx_poll_fw P)) (\<lambda>Status.
     if Status = TCP_CONNECTION_CLOSED then bind CloseEvent (\<lambda>_. ret (EFI_SUCCESS, 0))
     else if EFI_ERROR Status then bind CloseEvent (\<lambda>_. ret (Status, 0)) else
     bind (gets (\<lambda>s. rx_data_fw P (world s))) (\<lambda>bs.
     bind (write_receive off bs) (\<lambda>_.
     bind CloseEvent (\<lambda>_. ret (EFI_SUCCESS, of_nat (length bs))))))))"

text \<open>
  A loop with a value that it carries; \<open>Inl\<close> goes on, \<open>Inr\<close> ends it. A loop that never ends is the
  stop \<open>Hang\<close>.
\<close>

fun loop_goes_on :: "(stop_reason, 'a + 'b, 's) outcome \<Rightarrow> bool" where
  "loop_goes_on (Done (Inl a) t) = True"
| "loop_goes_on (Done (Inr b) t) = False"
| "loop_goes_on (Stop e t) = False"

fun loop_step :: "('a \<Rightarrow> ('w, 'a + 'b) prog) \<Rightarrow> (stop_reason, 'a + 'b, 'w state) outcome \<Rightarrow>
    (stop_reason, 'a + 'b, 'w state) outcome" where
  "loop_step body (Done (Inl a) t) = body a t"
| "loop_step body (Done (Inr b) t) = Done (Inr b) t"
| "loop_step body (Stop e t) = Stop e t"

definition loop :: "('a \<Rightarrow> ('w, 'a + 'b) prog) \<Rightarrow> 'a \<Rightarrow> ('w, 'b) prog" where
  "loop body a = (\<lambda>s.
     case while_option loop_goes_on (loop_step body) (Done (Inl a) s) of
       Some (Done (Inr b) t) \<Rightarrow> Done b t
     | Some (Stop e t) \<Rightarrow> Stop e t
     | _ \<Rightarrow> Stop Hang s)"

text \<open>The bytes of a message arrive in chunks; the loop ends early when the connection is closed or fails.\<close>

definition receive_body_step :: "'w platform \<Rightarrow> u64 \<Rightarrow> u64 \<Rightarrow> ('w, u64 + efi_status \<times> u64) prog" where
  "receive_body_step P header_message_length = (\<lambda>current_message_size.
     if \<not> current_message_size < header_message_length then ret (Inr (EFI_SUCCESS, current_message_size)) else
     bind (receive_chunk P (unat current_message_size) (header_message_length - current_message_size))
       (\<lambda>(Status, message_length).
     if EFI_ERROR Status then ret (Inr (Status, current_message_size))
     else if message_length = 0 then ret (Inr (EFI_SUCCESS, current_message_size))
     else ret (Inl (current_message_size + message_length))))"

definition receive_body :: "'w platform \<Rightarrow> u64 \<Rightarrow> ('w, efi_status \<times> u64) prog" where
  "receive_body P header_message_length = loop (receive_body_step P header_message_length) 0"

definition receive_message :: "'w platform \<Rightarrow> ('w, unit + efi_status) prog" where
  "receive_message P =
     bind (receive_chunk P 0 4) (\<lambda>(Status, message_length).
     if EFI_ERROR Status then ret (Inr Status)
     else if message_length = 0 then ret (Inr EFI_SUCCESS)
     else if message_length \<noteq> 4 then ret (Inr EFI_ABORTED) else
     bind (gets receive_buffer) (\<lambda>b.
     bind (load_u32 b 0) (\<lambda>header.
     let header_message_length = (ucast header :: u64) in
     bind (receive_body P header_message_length) (\<lambda>(Status, current_message_size).
     if EFI_ERROR Status then ret (Inr Status)
     else if current_message_size \<noteq> header_message_length then ret (Inr EFI_ABORTED) else
     bind (gets receive_buffer) (\<lambda>b.
     bind (handle_message P b current_message_size) (\<lambda>Status.
     if EFI_ERROR Status then ret (Inr Status) else ret (Inl ())))))))"

definition receive_messages :: "'w platform \<Rightarrow> ('w, efi_status) prog" where
  "receive_messages P = loop (\<lambda>_. receive_message P) ()"


section \<open>Loops\<close>

lemma loop_unfold:
  "while_option loop_goes_on (loop_step body) (Done (Inl a) s) =
     while_option loop_goes_on (loop_step body) (body a s)"
  by (subst while_option_unfold) simp

lemma loop_exit: "body a s = Done (Inr b) t \<Longrightarrow> loop body a s = Done b t"
  by (simp add: loop_def loop_unfold while_option_unfold)

lemma loop_stop: "body a s = Stop e t \<Longrightarrow> loop body a s = Stop e t"
  by (simp add: loop_def loop_unfold while_option_unfold)

lemma loop_next:
  assumes "body a s = Done (Inl a') t" "loop body a' t = Done b u"
  shows "loop body a s = Done b u"
  using assms by (auto simp: loop_def loop_unfold [of body a] split: option.splits outcome.splits sum.splits)

lemma loop_next_stop:
  assumes "body a s = Done (Inl a') t" "loop body a' t = Stop e u" "e \<noteq> Hang"
  shows "loop body a s = Stop e u"
  using assms by (auto simp: loop_def loop_unfold [of body a] split: option.splits outcome.splits sum.splits)

text \<open>An invariant of the body is an invariant of the loop.\<close>

lemma wp_loop:
  assumes start: "I a s"
    and body: "\<And>a s. I a s \<Longrightarrow> wp (body a) (\<lambda>r t. case r of Inl a' \<Rightarrow> I a' t | Inr b \<Rightarrow> Q b t) E s"
    and hang: "E Hang s"
  shows "wp (loop body a) Q E s"
proof -
  let ?J = "\<lambda>r. case r of Done (Inl a) t \<Rightarrow> I a t | Done (Inr b) t \<Rightarrow> Q b t | Stop e t \<Rightarrow> E e t"
  have "?J r" if "while_option loop_goes_on (loop_step body) (Done (Inl a) s) = Some r" for r
  proof (rule while_option_rule [OF _ that])
    fix r :: "(stop_reason, 'a + 'c, 'b state) outcome" assume r: "?J r" "loop_goes_on r"
    then obtain a t where "r = Done (Inl a) t" by (cases r rule: loop_goes_on.cases) auto
    then show "?J (loop_step body r)"
      using r(1) body [of a t] by (auto simp: wp_def split: outcome.splits sum.splits)
  qed (simp add: start)
  then show ?thesis
    using hang by (auto simp: wp_def loop_def split: option.splits outcome.splits sum.splits)
qed


section \<open>The protocol between the cores\<close>

text \<open>What the platform is documented to do: machine code, memory (pages and pool blocks) and processors.\<close>

definition platform_documented :: "'w platform \<Rightarrow> bool" where
  "platform_documented P \<longleftrightarrow> code_respects P \<and> alloc_pages_documented P \<and> alloc_pool_documented P \<and> startup_documented P"

lemma prot_dispatch:
  assumes "platform_documented P"
  shows "prot.keeps (dispatch P ty payload n)"
proof -
  note doc = assms [unfolded platform_documented_def]
  note handlers = prot_handlers [of P]
  show ?thesis
    using doc unfolding dispatch_def
    by (intro prot.keeps_if prot.keeps_bind prot.keeps_debug prot.keeps_events prot.keeps_paging prot.keeps_core_reports
        prot.keeps_results prot.keeps_FormatPrint prot.keeps_send_status handlers) simp_all
qed

lemma prot_handle_message:
  assumes "platform_documented P"
  shows "prot.keeps (handle_message P message n)"
  unfolding handle_message_def Let_def
  by (intro prot.keeps_if prot.keeps_bind prot.keeps_pure prot_dispatch [OF assms])

lemma prot_write_receive [keeps_rules]: "prot.keeps (write_receive off bs)"
  by (simp add: prot.keeps_def write_receive_def wp_simps protocol_def buffers_ok_def arrays_ok_def slots_ok_def)

lemma prot_receive_chunk [keeps_rules]: "prot.keeps (receive_chunk P off n)"
  unfolding receive_chunk_def by (simp add: CreateEvent_def CloseEvent_def keeps_rules)

lemma prot_loop:
  fixes body :: "'a \<Rightarrow> ('w, 'a + 'b) prog"
  assumes "\<And>a. prot.keeps (body a)"
  shows "prot.keeps (loop body a)"
  unfolding prot.keeps_def
proof (intro allI impI)
  fix s :: "'w state" assume s: "protocol s"
  show "wp (loop body a) (\<lambda>_. protocol) (\<lambda>_ _. True) s"
  proof (rule wp_loop [where I = "\<lambda>_. protocol", OF s])
    fix a and t :: "'w state" assume t: "protocol t"
    show "wp (body a) (\<lambda>r u. case r of Inl a' \<Rightarrow> protocol u | Inr b \<Rightarrow> protocol u) (\<lambda>_ _. True) t"
      by (rule wp_mono [OF prot.keepsD [OF assms t]]) (auto split: sum.splits)
  qed simp
qed

lemma prot_receive_body: "prot.keeps (receive_body P n)"
  unfolding receive_body_def receive_body_step_def by (rule prot_loop) (simp add: keeps_rules)

lemma prot_receive_message:
  assumes "platform_documented P"
  shows "prot.keeps (receive_message P)"
  unfolding receive_message_def Let_def
  by (intro prot.keeps_if prot.keeps_bind prot.keeps_prod prot.keeps_pure prot_receive_chunk prot_receive_body
      prot_handle_message [OF assms])

text \<open>
  Whatever a client sends, and however long the connection lasts: the protocol between the cores (the sizes of all arrays,
  the blocks of all slots, the phase of every core against its flags and its lock) holds after every message and when the
  connection ends.
\<close>

theorem receive_messages_keep_protocol:
  assumes "platform_documented P" "protocol s"
  shows "wp (receive_message P) (\<lambda>_. protocol) (\<lambda>_ _. True) s \<and> wp (receive_messages P) (\<lambda>_. protocol) (\<lambda>_ _. True) s"
proof
  show "wp (receive_message P) (\<lambda>_. protocol) (\<lambda>_ _. True) s"
    by (rule prot.keepsD [OF prot_receive_message [OF assms(1)] assms(2)])
  have "prot.keeps (receive_messages P)"
    unfolding receive_messages_def by (rule prot_loop) (rule prot_receive_message [OF assms(1)])
  then show "wp (receive_messages P) (\<lambda>_. protocol) (\<lambda>_ _. True) s"
    by (rule prot.keepsD [OF _ assms(2)])
qed

lemma receive_messages_keep_protocol_witness:
  "platform_documented demo_platform \<and> protocol demo_job_state \<and>
   wp (receive_message demo_platform) (\<lambda>_. protocol) (\<lambda>_ _. True) demo_job_state \<and>
   wp (receive_messages demo_platform) (\<lambda>_. protocol) (\<lambda>_ _. True) demo_job_state"
proof -
  have "startup_documented demo_platform" by (simp add: startup_documented_def demo_platform_def)
  then have "platform_documented demo_platform" by (simp add: platform_documented_def demo_code_respects)
  then show ?thesis using receive_messages_keep_protocol [OF _ demo_job_protocol] demo_job_protocol by simp
qed


section \<open>Handling a message\<close>

definition message_types :: "u32 list" where
  "message_types = [MSG_PING, MSG_MULTIPING, MSG_GETMSGSIZE, MSG_REBOOT, MSG_SENDUCODE, MSG_FLIPBITS, MSG_APPLYUCODE,
     MSG_APPLYUCODEEXCUTETEST, MSG_GETLASTTESTRESULT, MSG_EXECUTEMACHINECODE, MSG_READMSR, MSG_READMSRONCORE,
     MSG_GETCORECOUNT, MSG_STARTCORE, MSG_GETCORESTATUS, MSG_SENDMACHINECODE, MSG_GETPAGINGINFO, MSG_GETIBSBUFFER,
     MSG_GETDSMBUFFER]"

text \<open>What follows the length of a message of version 1.0.\<close>

definition message_bytes :: "u32 \<Rightarrow> u8 list \<Rightarrow> u8 list" where
  "message_bytes ty payload = metadata_bytes \<lparr>Major = 1, Minor = 0, Control = 0, MetaReserved = 0\<rparr> @ le_bytes 4 ty @ payload"

lemma length_message_bytes [simp]: "length (message_bytes ty payload) = length payload + 8"
  by (simp add: message_bytes_def)

lemma request_length_ok: "n < 2 ^ 32 \<Longrightarrow> \<not> (of_nat (n + 8) :: u64) < 8"
  by (simp add: word_less_nat_alt del: of_nat_add)

lemma handle_message_dispatches:
  assumes "length payload < 2 ^ 32"
  shows "handle_message P (message_bytes ty payload @ rest) (of_nat (length payload + 8)) =
    bind (dispatch P ty (payload @ rest) (of_nat (length payload))) (\<lambda>_. ret EFI_SUCCESS)"
proof (rule ext)
  fix s
  let ?m = "message_bytes ty payload @ rest"
  have parts: "metadata_of (slice 0 4 ?m) = \<lparr>Major = 1, Minor = 0, Control = 0, MetaReserved = 0\<rparr>" "slice 4 4 ?m = le_bytes 4 ty"
    "drop 8 ?m = payload @ rest" "8 \<le> length ?m"
    by (simp_all add: message_bytes_def slice_def metac.dec_enc)
  have len: "(of_nat (length payload + 8) :: u64) - 8 = of_nat (length payload)" by simp
  show "handle_message P ?m (of_nat (length payload + 8)) s =
      bind (dispatch P ty (payload @ rest) (of_nat (length payload))) (\<lambda>_. ret EFI_SUCCESS) s"
    unfolding handle_message_def
    using request_length_ok [OF assms] parts
    by (simp add: bind_run [of "load_bytes _ _ _"] load_bytes_run bind_run [of "load_u32 _ _"] load_u32_run Let_def len
        u32c.dec_enc del: of_nat_add)
qed

text \<open>
  A message shorter than its fixed part or of another version than 1.0 is refused without an answer and without any
  effect; this ends the connection.
\<close>

theorem handle_message_refuses:
  assumes "n < 8 \<or> 4 \<le> length message \<and> (Major (metadata_of (take 4 message)) \<noteq> 1 \<or> Minor (metadata_of (take 4 message)) \<noteq> 0)"
  shows "handle_message P message n s = Done EFI_INVALID_PARAMETER s"
  using assms by (auto simp: handle_message_def run_simps Let_def slice_def)

lemma handle_message_refuses_witness:
  "handle_message demo_platform [2, 0, 0, 0, 1, 0, 0, 0] 8 demo_state = Done EFI_INVALID_PARAMETER demo_state"
  by (rule handle_message_refuses) (simp add: metadata_of_def)

text \<open>
  A message of a type that the program does not know is answered with the status 0x80000001 and a text that names the
  type; the connection goes on.
\<close>

theorem handle_message_unknown:
  assumes net: "network_reliable P" and ok: "buffers_ok s" and ty: "ty \<notin> set message_types" and len: "length payload < 2 ^ 32"
  shows "\<exists>t. handle_message P (message_bytes ty payload @ rest) (of_nat (length payload + 8)) s = Done EFI_SUCCESS t \<and>
    sent t = sent s @ [status_frame 0x80000001 (Some (printed P ''Unknown message type 0x%08X'' [ucast ty]))] \<and>
    io_only s t \<and> buffers_ok t"
proof -
  have eq: "bind (dispatch P ty (payload @ rest) (of_nat (length payload))) (\<lambda>_. ret EFI_SUCCESS) =
      reject P ''Unknown message type 0x%08X'' [ucast ty] 0x80000001 EFI_SUCCESS"
    using ty by (simp add: message_types_def dispatch_def reject_def bind_assoc)
  have w: "wp (reject P ''Unknown message type 0x%08X'' [ucast ty] 0x80000001 EFI_SUCCESS) (\<lambda>st t. st = EFI_SUCCESS \<and>
      sent t = sent s @ [status_frame 0x80000001 (Some (printed P ''Unknown message type 0x%08X'' [ucast ty]))] \<and>
      io_only s t \<and> buffers_ok t) (\<lambda>_ _. False) s"
    by (rule wp_reject [OF net ok]) simp_all
  show ?thesis
    unfolding handle_message_dispatches [OF len] eq using wp_total_returns [OF w] by auto
qed

lemma handle_message_unknown_witness:
  "0x7 \<notin> set message_types \<and>
   (\<exists>t. handle_message demo_platform (message_bytes 0x7 [] @ []) (of_nat (length ([] :: u8 list) + 8)) demo_state = Done EFI_SUCCESS t \<and>
     sent t = sent demo_state @ [status_frame 0x80000001 (Some (printed demo_platform ''Unknown message type 0x%08X'' [ucast (0x7 :: u32)]))] \<and>
     io_only demo_state t \<and> buffers_ok t)"
proof
  show ty: "0x7 \<notin> set message_types" by (simp add: message_types_def)
  show "\<exists>t. handle_message demo_platform (message_bytes 0x7 [] @ []) (of_nat (length ([] :: u8 list) + 8)) demo_state = Done EFI_SUCCESS t \<and>
     sent t = sent demo_state @ [status_frame 0x80000001 (Some (printed demo_platform ''Unknown message type 0x%08X'' [ucast (0x7 :: u32)]))] \<and>
     io_only demo_state t \<and> buffers_ok t"
    by (rule handle_message_unknown [OF demo_network_reliable demo_buffers_ok ty]) simp
qed

end
