(* ===== verification/Sessions.thy ===== *)
theory Sessions
  imports Dispatch
begin

text \<open>
  What a client sees of a connection (\<^verbatim>\<open>receive_messages\<close> of \<^verbatim>\<open>AngryUEFI.c\<close>): messages are put together from chunks,
  a header in pieces or a message that is too large is not, and a session of pings is answered in order. A peer on a concrete
  network is the platform of the witnesses.
\<close>

section \<open>What the network delivers\<close>

text \<open>
  \<open>delivery P n w\<close>: the bytes that one receive with capacity \<open>n\<close> gives in the world \<open>w\<close>, and the
  world after it. \<open>arrives P n bs w w'\<close>: \<open>n\<close> bytes arrive in one chunk or several, none of
  which is larger than what is still missing.
\<close>

definition delivery :: "'w platform \<Rightarrow> u64 \<Rightarrow> 'w \<Rightarrow> (u8 list \<times> 'w) option" where
  "delivery P n w =
     (case create_event_fw P w of (st, w) \<Rightarrow> if EFI_ERROR st then None else
      case receive_fw P n w of (st, w) \<Rightarrow> if EFI_ERROR st then None else
      case token_loop (rx_poll_fw P) w of None \<Rightarrow> None | Some (st, w) \<Rightarrow> if EFI_ERROR st then None else
      Some (rx_data_fw P w, w))"

inductive arrives :: "'w platform \<Rightarrow> nat \<Rightarrow> u8 list \<Rightarrow> 'w \<Rightarrow> 'w \<Rightarrow> bool" for P where
  arrived: "arrives P 0 [] w w"
| chunk: "delivery P (of_nat n) w = Some (c, w1) \<Longrightarrow> c \<noteq> [] \<Longrightarrow> length c \<le> n \<Longrightarrow>
    arrives P (n - length c) cs w1 w2 \<Longrightarrow> arrives P n (c @ cs) w w2"

lemma arrives_length: "arrives P n bs w w' \<Longrightarrow> length bs = n"
  by (induction rule: arrives.induct) simp_all

lemma not_closed [simp]: "\<not> EFI_ERROR st \<Longrightarrow> st \<noteq> TCP_CONNECTION_CLOSED"
  by (auto simp: EFI_ERROR_def)

lemma receive_chunk_delivers:
  assumes "delivery P n (world s) = Some (c, w)"
  shows "receive_chunk P off n s =
    (if off + length c \<le> length (receive_buffer s)
     then Done (EFI_SUCCESS, of_nat (length c)) (s\<lparr>world := w, receive_buffer := overwrite off c (receive_buffer s)\<rparr>)
     else Stop OutOfBounds (s\<lparr>world := w, open_events := Suc (open_events s)\<rparr>))"
  using assms
  by (auto simp: delivery_def receive_chunk_def CreateEvent_def CloseEvent_def write_receive_def wait_token_def run_simps
      split: prod.splits if_splits option.splits)

text \<open>The loop that receives the body, from any point of the message.\<close>

lemma loop_arrives:
  assumes "arrives P n bs w w'" "world s = w" "off + n \<le> length (receive_buffer s)" "off + n < 2 ^ 64"
  shows "loop (receive_body_step P (of_nat (off + n))) (of_nat off) s =
    Done (EFI_SUCCESS, of_nat (off + n)) (s\<lparr>world := w', receive_buffer := overwrite off bs (receive_buffer s)\<rparr>)"
  using assms
proof (induction arbitrary: off s rule: arrives.induct)
  case (arrived w)
  then show ?case by (intro loop_exit) (simp add: receive_body_step_def run_simps overwrite_def)
next
  case (chunk n w c w1 cs w2)
  let ?t = "s\<lparr>world := w1, receive_buffer := overwrite off c (receive_buffer s)\<rparr>"
  have len: "length cs = n - length c" by (rule arrives_length [OF chunk.hyps(4)])
  have c: "0 < length c" "0 < n" using chunk.hyps(2,3) by (auto simp: neq_Nil_conv)
  have sizes: "unat (of_nat off :: u64) = off" "(of_nat off :: u64) < of_nat (off + n)" "(of_nat (length c) :: u64) \<noteq> 0"
    using chunk.prems c chunk.hyps(3) by (simp_all add: word_less_nat_alt word_unat_eq_iff del: of_nat_add)
  have "receive_body_step P (of_nat (off + n)) (of_nat off) s = Done (Inl (of_nat (off + length c))) ?t"
    using receive_chunk_delivers [of P "of_nat n" s c w1 off] chunk sizes
    by (simp add: receive_body_step_def run_simps)
  moreover have "loop (receive_body_step P (of_nat (off + n))) (of_nat (off + length c)) ?t =
      Done (EFI_SUCCESS, of_nat (off + n)) (s\<lparr>world := w2, receive_buffer := overwrite off (c @ cs) (receive_buffer s)\<rparr>)"
    using chunk.IH [of ?t "off + length c"] chunk.prems chunk.hyps(3) len by (simp add: buf_simps)
  ultimately show ?case by (rule loop_next)
qed


definition message_arrives :: "'w platform \<Rightarrow> u8 list \<Rightarrow> 'w \<Rightarrow> 'w \<Rightarrow> bool" where
  "message_arrives P bs w w' \<longleftrightarrow>
     (\<exists>w0. delivery P 4 w = Some (le_bytes 4 (of_nat (length bs) :: u32), w0) \<and> arrives P (length bs) bs w0 w')"

text \<open>The state in which a message is handled.\<close>

definition received :: "u8 list \<Rightarrow> 'w \<Rightarrow> 'w state \<Rightarrow> 'w state" where
  "received bs w s = s\<lparr>world := w,
     receive_buffer := overwrite 0 bs (overwrite 0 (le_bytes 4 (of_nat (length bs) :: u32)) (receive_buffer s))\<rparr>"

text \<open>
  However the network splits the body of a message, the message is put together in the receive buffer and handed to
  \<^verbatim>\<open>handle_message\<close> with its length; the loop goes on unless the message is refused.
\<close>

lemma receive_message_whole:
  assumes m: "message_arrives P bs (world s) w" and fits: "4 \<le> length (receive_buffer s)" "length bs \<le> length (receive_buffer s)"
    and small: "length bs < 2 ^ 32"
  shows "receive_message P s = bind (handle_message P (receive_buffer (received bs w s)) (of_nat (length bs)))
    (\<lambda>Status. if EFI_ERROR Status then ret (Inr Status) else ret (Inl ())) (received bs w s)"
proof -
  let ?n = "of_nat (length bs) :: u32"
  obtain w0 where w0: "delivery P 4 (world s) = Some (le_bytes 4 ?n, w0)" "arrives P (length bs) bs w0 w"
    using m by (auto simp: message_arrives_def)
  let ?t = "s\<lparr>world := w0, receive_buffer := overwrite 0 (le_bytes 4 ?n) (receive_buffer s)\<rparr>"
  have n: "(ucast ?n :: u64) = of_nat (length bs)"
    using small by (simp add: word_unat_eq_iff)
  have head: "receive_chunk P 0 4 s = Done (EFI_SUCCESS, 4) ?t"
    using receive_chunk_delivers [OF w0(1), of 0] fits by simp
  have body: "receive_body P (of_nat (length bs)) ?t = Done (EFI_SUCCESS, of_nat (length bs)) (received bs w s)"
    using loop_arrives [OF w0(2), of ?t 0] fits small by (simp add: receive_body_def received_def)
  have load: "load_u32 (overwrite 0 (le_bytes 4 ?n) (receive_buffer s)) 0 ?t = Done ?n ?t"
    using fits(1) by (simp add: run_simps buf_simps u32c.dec_enc)
  show ?thesis
    using fits(1)
    by (simp add: receive_message_def bind_run [of "receive_chunk P 0 4"] head bind_run [of "gets _"] gets_run
        bind_run [of "load_u32 _ _"] load n Let_def bind_run [of "receive_body _ _"] body del: of_nat_eq_iff)
qed


text \<open>A header that does not arrive in one piece.\<close>

lemma receive_message_short:
  assumes "delivery P 4 (world s) = Some (c, w)" "c \<noteq> []" "length c < 4" "4 \<le> length (receive_buffer s)"
  shows "receive_message P s = Done (Inr EFI_ABORTED) (s\<lparr>world := w, receive_buffer := overwrite 0 c (receive_buffer s)\<rparr>)"
proof -
  have "(of_nat (length c) :: u64) \<noteq> 0" "(of_nat (length c) :: u64) \<noteq> 4"
    using assms(2,3) by (simp_all add: word_unat_eq_iff)
  then show ?thesis
    using assms receive_chunk_delivers [OF assms(1), of 0]
    by (simp add: receive_message_def bind_run [of "receive_chunk _ _ _"] run_simps)
qed

text \<open>
  C9. A message of the network: its first receive gives the first bytes \<open>c\<close> of the four of the header. When it gives all four, the
  body is put together in the receive buffer, however the network splits it, and handed to \<^verbatim>\<open>handle_message\<close> with its length, and
  the loop goes on unless the message is refused. When it gives fewer, the message is not received: the connection is
  given up with nothing but these bytes in the buffer.
\<close>

theorem receive_message_reassembles:
  fixes s :: "'w state"
  defines "header \<equiv> \<lambda>bs. le_bytes 4 (of_nat (length bs) :: u32)"
  assumes first: "delivery P 4 (world s) = Some (c, w0)" "c \<noteq> []" "c = take (length c) (header bs)"
    and body: "length c = 4 \<Longrightarrow> arrives P (length bs) bs w0 w"
    and fits: "4 \<le> length (receive_buffer s)" "length bs \<le> length (receive_buffer s)" "length bs < 2 ^ 32"
  shows "receive_message P s =
    (if length c = 4 then
       bind (handle_message P (overwrite 0 bs (overwrite 0 (header bs) (receive_buffer s))) (of_nat (length bs)))
         (\<lambda>Status. if EFI_ERROR Status then ret (Inr Status) else ret (Inl ()))
         (s\<lparr>world := w, receive_buffer := overwrite 0 bs (overwrite 0 (header bs) (receive_buffer s))\<rparr>)
     else Done (Inr EFI_ABORTED) (s\<lparr>world := w0, receive_buffer := overwrite 0 c (receive_buffer s)\<rparr>))"
proof (cases "length c = 4")
  case True
  then have "message_arrives P bs (world s) w"
    unfolding message_arrives_def using first body by (auto simp: header_def)
  from receive_message_whole [OF this fits] show ?thesis using True by (simp add: received_def header_def)
next
  case False
  have "length c \<le> 4" using first(3) by (metis header_def length_le_bytes length_take min.cobounded1)
  then show ?thesis using False receive_message_short [OF first(1,2) _ fits(1)] by simp
qed


text \<open>
  C40. The header has to arrive in one piece: when the first receive gives fewer than its four bytes, the connection is
  given up, although the rest of the header may be on its way.
\<close>

theorem receive_messages_short_header:
  assumes "delivery P 4 (world s) = Some (c, w)" "c \<noteq> []" "length c < 4" "4 \<le> length (receive_buffer s)"
  shows "receive_messages P s = Done EFI_ABORTED (s\<lparr>world := w, receive_buffer := overwrite 0 c (receive_buffer s)\<rparr>)"
  unfolding receive_messages_def by (intro loop_exit receive_message_short assms)

text \<open>
  C39. The length in the header is not compared with the size of the receive buffer: a chunk of a message that is larger
  than the buffer is written past its end.
\<close>

theorem receive_messages_overflow:
  fixes n :: u32
  assumes header: "delivery P 4 (world s) = Some (le_bytes 4 n, w0)"
    and body: "delivery P (ucast n) w0 = Some (c, w1)"
    and big: "length (receive_buffer s) < length c" and ok: "4 \<le> length (receive_buffer s)" and n: "0 < n"
  shows "\<exists>t. receive_messages P s = Stop OutOfBounds t"
proof -
  let ?t = "s\<lparr>world := w0, receive_buffer := overwrite 0 (le_bytes 4 n) (receive_buffer s)\<rparr>"
  have head: "receive_chunk P 0 4 s = Done (EFI_SUCCESS, 4) ?t"
    using receive_chunk_delivers [OF header, of 0] ok by simp
  have load: "load_u32 (overwrite 0 (le_bytes 4 n) (receive_buffer s)) 0 ?t = Done n ?t"
    using ok by (simp add: run_simps buf_simps u32c.dec_enc)
  have pos: "(0 :: u64) < ucast n" using n by (simp add: word_less_nat_alt)
  have "receive_chunk P 0 (ucast n) ?t = Stop OutOfBounds (?t\<lparr>world := w1, open_events := Suc (open_events ?t)\<rparr>)"
    using receive_chunk_delivers [of P "ucast n" ?t c w1 0] body big ok by simp
  then have "receive_body P (ucast n) ?t = Stop OutOfBounds (?t\<lparr>world := w1, open_events := Suc (open_events ?t)\<rparr>)"
    unfolding receive_body_def using pos by (intro loop_stop) (simp add: receive_body_step_def bind_run)
  then have "receive_message P s = Stop OutOfBounds (?t\<lparr>world := w1, open_events := Suc (open_events ?t)\<rparr>)"
    by (simp add: receive_message_def bind_run [of "receive_chunk P 0 4"] head bind_run [of "gets _"] gets_run
        bind_run [of "load_u32 _ _"] load Let_def bind_run [of "receive_body _ _"])
  then show ?thesis unfolding receive_messages_def by (intro exI) (rule loop_stop)
qed


section \<open>A session of pings\<close>

text \<open>
  The documented service of a connection: the peer's bytes that have not been received yet are \<open>pending\<close>; a receive
  gives at least one of them, in order, and at most as many as there is room for; when none is left the
  connection is closed. Sending leaves them alone.
\<close>

definition stream_documented :: "'w platform \<Rightarrow> ('w \<Rightarrow> u8 list) \<Rightarrow> bool" where
  "stream_documented P pending \<longleftrightarrow>
     (\<forall>w. pending (snd (create_event_fw P w)) = pending w) \<and>
     (\<forall>d w. pending (snd (transmit_fw P d w)) = pending w) \<and>
     (\<forall>w st w'. token_loop (tx_poll_fw P) w = Some (st, w') \<longrightarrow> pending w' = pending w) \<and>
     (\<forall>n w. n \<noteq> 0 \<longrightarrow> pending w \<noteq> [] \<longrightarrow>
        (\<exists>k w'. delivery P n w = Some (take k (pending w), w') \<and> 0 < k \<and> k \<le> unat n \<and> pending w' = drop k (pending w))) \<and>
     (\<forall>n w. pending w = [] \<longrightarrow> fst (receive_fw P n w) = TCP_CONNECTION_CLOSED)"

lemma stream_receive:
  assumes "stream_documented P pending" "n \<noteq> 0" "pending w \<noteq> []"
  obtains k w' where "delivery P n w = Some (take k (pending w), w')" "0 < k" "k \<le> unat n" "pending w' = drop k (pending w)"
  using assms unfolding stream_documented_def by blast

lemma stream_sends:
  assumes "stream_documented P pending"
  shows "pending (snd (create_event_fw P w)) = pending w" "pending (snd (transmit_fw P d w)) = pending w"
    "token_loop (tx_poll_fw P) w = Some (st, w') \<Longrightarrow> pending w' = pending w"
    "pending w = [] \<Longrightarrow> fst (receive_fw P n w) = TCP_CONNECTION_CLOSED"
  using assms unfolding stream_documented_def by blast+

lemma stream_arrives:
  assumes "stream_documented P pending" "pending w = bs @ rest" "length bs < 2 ^ 64"
  shows "\<exists>w'. arrives P (length bs) bs w w' \<and> pending w' = rest"
  using assms(2,3)
proof (induction "length bs" arbitrary: bs w rule: less_induct)
  case less
  show ?case
  proof (cases "bs = []")
    case True
    then show ?thesis using less.prems arrived by fastforce
  next
    case False
    then have "(of_nat (length bs) :: u64) \<noteq> 0" "pending w \<noteq> []" using less.prems by (simp_all add: word_unat_eq_iff)
    from stream_receive [OF assms(1) this] obtain k w1 where
      "delivery P (of_nat (length bs)) w = Some (take k (pending w), w1)" "0 < k"
      "k \<le> unat (of_nat (length bs) :: u64)" "pending w1 = drop k (pending w)" .
    then have k: "delivery P (of_nat (length bs)) w = Some (take k (pending w), w1)" "0 < k" "k \<le> length bs"
        "pending w1 = drop k (pending w)"
      using less.prems(2) by simp_all
    obtain w2 where w2: "arrives P (length (drop k bs)) (drop k bs) w1 w2" "pending w2 = rest"
      using less.hyps [of "drop k bs" w1] less.prems k False le_less_trans [of "length bs - k" "length bs"] by auto
    have "arrives P (length bs) (take k bs @ drop k bs) w w2"
      by (rule arrives.chunk [where ?w1.0 = w1]) (use k w2 less.prems False in auto)
    then show ?thesis using w2(2) by auto
  qed
qed


text \<open>Computations that do not consume what is pending.\<close>

definition quiet :: "('w \<Rightarrow> u8 list) \<Rightarrow> ('w, 'a) prog \<Rightarrow> bool" where
  "quiet pending m \<longleftrightarrow> (\<forall>s. wp m (\<lambda>_ t. pending (world t) = pending (world s)) (\<lambda>_ _. True) s)"

named_theorems quiet_rules "computations that do not consume input"

lemma quiet_pure [quiet_rules]:
  "quiet p (ret v)" "quiet p (gets f)" "quiet p (load_bytes b off n)" "quiet p (load_u32 b off)"
  "quiet p (write_payload off bs)" "quiet p (write_response off bs)" "quiet p (FormatPrint P fmt args)"
  "quiet p (modify (\<lambda>s. s\<lparr>open_events := h s\<rparr>))" "quiet p (modify (\<lambda>s. s\<lparr>sent := h' s\<rparr>))"
  by (simp_all add: quiet_def wp_simps)

lemma quiet_bind [quiet_rules]: "quiet p m \<Longrightarrow> (\<And>a. quiet p (f a)) \<Longrightarrow> quiet p (bind m f)"
  unfolding quiet_def wp_bind by (fastforce elim!: wp_mono)

lemma quiet_if [quiet_rules]: "quiet p m \<Longrightarrow> quiet p n \<Longrightarrow> quiet p (if b then m else n)"
  by simp

lemma quiet_send_message:
  assumes "stream_documented P p"
  shows "quiet p (send_message P msg n)"
proof -
  have "quiet p (on_world (create_event_fw P))" "quiet p (on_world (transmit_fw P d))" "quiet p (wait_token (tx_poll_fw P))" for d
    using stream_sends [OF assms] by (auto simp: quiet_def on_world_run wait_token_def wp_def split: option.splits)
  then show ?thesis by (simp add: send_message_def CreateEvent_def CloseEvent_def quiet_rules)
qed

lemma quiet_handle_ping: "stream_documented P p \<Longrightarrow> quiet p (handle_ping P payload n)"
  by (simp add: handle_ping_def respond_def construct_message_def report_debug_def quiet_send_message quiet_rules)

lemma wp_both: "wp m Q E s \<Longrightarrow> wp m Q' E' s \<Longrightarrow> wp m (\<lambda>a t. Q a t \<and> Q' a t) (\<lambda>e t. E e t \<and> E' e t) s"
  by (simp add: wp_def split: outcome.splits)

lemma frame_message: "frame ty payload True = le_bytes 4 (of_nat (length (message_bytes ty payload)) :: u32) @ message_bytes ty payload"
  by (simp add: frame_def message_bytes_def add.commute)

text \<open>A message of the stream arrives.\<close>

lemma stream_message:
  assumes doc: "stream_documented P pending" and s: "pending w = frame ty payload True @ rest" and len: "length payload < 2 ^ 32"
    and header: "delivery P 4 w = Some (take 4 (pending w), w0)" "pending w0 = drop 4 (pending w)"
  shows "\<exists>w'. message_arrives P (message_bytes ty payload) w w' \<and> pending w' = rest"
proof -
  let ?n = "of_nat (length (message_bytes ty payload)) :: u32"
  have w0: "delivery P 4 w = Some (le_bytes 4 ?n, w0)" "pending w0 = message_bytes ty payload @ rest"
    using header s by (simp_all add: frame_message)
  then show ?thesis
    using stream_arrives [OF doc w0(2)] len unfolding message_arrives_def by fastforce
qed

text \<open>The network splits the header of the next message: a receive of four bytes gives fewer.\<close>

definition header_split :: "'w platform \<Rightarrow> ('w \<Rightarrow> u8 list) \<Rightarrow> u8 list \<Rightarrow> bool" where
  "header_split P pending input \<longleftrightarrow> (\<exists>w c w'. pending w = input \<and> delivery P 4 w = Some (c, w') \<and> c \<noteq> [] \<and> length c < 4)"

text \<open>The state between two messages of a session.\<close>

definition serving :: "('w \<Rightarrow> u8 list) \<Rightarrow> u8 list \<Rightarrow> 'w state \<Rightarrow> bool" where
  "serving pending input s \<longleftrightarrow> buffers_ok s \<and> length (receive_buffer s) = RECEIVE_BUFFER_SIZE \<and> pending (world s) = input"

lemma receive_ping_whole:
  assumes doc: "stream_documented P pending" and net: "network_reliable P"
    and s: "serving pending (frame MSG_PING (ping_payload d) True @ rest) s" and d: "length d \<le> 1396"
    and header: "delivery P 4 (world s) = Some (take 4 (pending (world s)), w0)" "pending w0 = drop 4 (pending (world s))"
  shows "\<exists>t. receive_message P s = Done (Inl ()) t \<and> serving pending rest t \<and>
    sent t = sent s @ [frame MSG_PONG (ping_payload d) True]"
proof -
  let ?m = "message_bytes MSG_PING (ping_payload d)"
  have ok: "buffers_ok s" "length (receive_buffer s) = RECEIVE_BUFFER_SIZE"
    and input: "pending (world s) = frame MSG_PING (ping_payload d) True @ rest"
    using s by (simp_all add: serving_def)
  have small: "length (ping_payload d) < 2 ^ 32" using d by simp
  from stream_message [OF doc input small header] obtain w where w: "message_arrives P ?m (world s) w" "pending w = rest" by auto
  let ?r = "received ?m w s" and ?rest = "drop (length ?m) (receive_buffer (received ?m w s))"
  have fits: "4 \<le> length (receive_buffer s)" "length ?m \<le> length (receive_buffer s)" "length ?m < 2 ^ 32"
    using ok(2) d by simp_all
  have r: "receive_buffer ?r = ?m @ ?rest" "world ?r = w" "sent ?r = sent s" "buffers_ok ?r"
      "length (receive_buffer ?r) = RECEIVE_BUFFER_SIZE"
    using ok d by (simp_all add: received_def overwrite_def buffers_ok_def min_def)
  have "wp (handle_ping P (ping_payload d @ ?rest) (of_nat (length d + 4)))
      (\<lambda>st t. (st = EFI_SUCCESS \<and> sent t = sent ?r @ [frame MSG_PONG (ping_payload d) True] \<and> io_only ?r t \<and> buffers_ok t) \<and>
        pending (world t) = pending (world ?r)) (\<lambda>_ _. False \<and> True) ?r"
    by (rule wp_both [OF wp_handle_ping [OF net r(4) d] quiet_handle_ping [OF doc, unfolded quiet_def, rule_format]])
  then obtain t where t: "handle_ping P (ping_payload d @ ?rest) (of_nat (length d + 4)) ?r = Done EFI_SUCCESS t"
      "sent t = sent s @ [frame MSG_PONG (ping_payload d) True]" "io_only ?r t" "buffers_ok t" "pending (world t) = rest"
    using r w(2) by (auto dest: wp_total_returns)
  have "handle_message P (?m @ ?rest) (of_nat (length (ping_payload d) + 8)) ?r = Done EFI_SUCCESS t"
    unfolding handle_message_dispatches [OF small] using t(1) by (simp add: dispatch_def bind_run ret_run)
  then have "receive_message P s = Done (Inl ()) t"
    unfolding receive_message_whole [OF w(1) fits] using r(1) by (simp add: bind_run ret_run)
  moreover have "length (receive_buffer t) = RECEIVE_BUFFER_SIZE" using t(3) r(5) by (simp add: io_only_def)
  ultimately show ?thesis using t by (auto simp: serving_def)
qed


lemma receive_ping:
  assumes doc: "stream_documented P pending" and net: "network_reliable P"
    and s: "serving pending (frame MSG_PING (ping_payload d) True @ rest) s" and d: "length d \<le> 1396"
  shows "(\<exists>t. receive_message P s = Done (Inl ()) t \<and> serving pending rest t \<and>
      sent t = sent s @ [frame MSG_PONG (ping_payload d) True]) \<or>
    header_split P pending (frame MSG_PING (ping_payload d) True @ rest) \<and>
      (\<exists>t. receive_message P s = Done (Inr EFI_ABORTED) t \<and> sent t = sent s)"
proof -
  let ?m = "message_bytes MSG_PING (ping_payload d)"
  have ok: "buffers_ok s" "length (receive_buffer s) = RECEIVE_BUFFER_SIZE"
    and input: "pending (world s) = frame MSG_PING (ping_payload d) True @ rest"
    using s by (simp_all add: serving_def)
  have small: "length (ping_payload d) < 2 ^ 32" using d by simp
  have "4 \<le> length (pending (world s))" using input by (simp add: frame_message)
  then have more: "4 \<le> length (pending (world s))" "pending (world s) \<noteq> []" by auto
  obtain k w0 where k: "delivery P 4 (world s) = Some (take k (pending (world s)), w0)" "0 < k" "k \<le> 4"
    "pending w0 = drop k (pending (world s))"
    using stream_receive [OF doc _ more(2), of 4] by auto
  show ?thesis
  proof (cases "k = 4")
    case False
    then have c: "take k (pending (world s)) \<noteq> []" "length (take k (pending (world s))) < 4" using k more by auto
    have "header_split P pending (frame MSG_PING (ping_payload d) True @ rest)"
      unfolding header_split_def using input k(1) c by blast
    moreover have "\<exists>t. receive_message P s = Done (Inr EFI_ABORTED) t \<and> sent t = sent s"
      using receive_message_short [OF k(1) c] ok(2) by simp
    ultimately show ?thesis by blast
  next
    case True
    have "\<exists>t. receive_message P s = Done (Inl ()) t \<and> serving pending rest t \<and> sent t = sent s @ [frame MSG_PONG (ping_payload d) True]"
      by (rule receive_ping_whole [OF doc net s d]) (use k True in simp_all)
    then show ?thesis by blast
  qed
qed

lemma receive_closed:
  assumes doc: "stream_documented P pending" and net: "network_reliable P" and s: "serving pending [] s"
  shows "\<exists>t. receive_message P s = Done (Inr EFI_SUCCESS) t \<and> sent t = sent s"
proof -
  let ?w = "snd (create_event_fw P (world s))"
  have "pending ?w = []" using stream_sends(1) [OF doc] s by (simp add: serving_def)
  then have "fst (receive_fw P 4 ?w) = TCP_CONNECTION_CLOSED" by (rule stream_sends(4) [OF doc])
  moreover have "\<not> EFI_ERROR (fst (create_event_fw P (world s)))" using net by (simp add: network_reliable_def)
  ultimately show ?thesis
    by (simp add: receive_message_def receive_chunk_def CreateEvent_def CloseEvent_def run_simps)
qed

text \<open>
  C5. A client that sends any number of pings and closes the connection gets the first \<open>k\<close> of them back, unchanged and in order, however
  the network splits the bytes into chunks. These are all of them, and \<^verbatim>\<open>receive_messages\<close> returns successfully, or the network has split the
  four bytes of the header of the next ping: then the connection is given up. There is no other outcome.
\<close>

theorem ping_session:
  assumes doc: "stream_documented P pending" and net: "network_reliable P"
    and ok: "buffers_ok s" "length (receive_buffer s) = RECEIVE_BUFFER_SIZE"
    and input: "pending (world s) = concat (map (\<lambda>d. frame MSG_PING (ping_payload d) True) ds)"
    and small: "\<forall>d \<in> set ds. length d \<le> 1396"
  shows "\<exists>t k. map parse_frame (drop (length (sent s)) (sent t)) = map (\<lambda>d. Some (MSG_PONG, True, ping_payload d)) (take k ds) \<and>
    (receive_messages P s = Done EFI_SUCCESS t \<and> k = length ds \<or>
     receive_messages P s = Done EFI_ABORTED t \<and> k < length ds \<and>
       header_split P pending (concat (map (\<lambda>d. frame MSG_PING (ping_payload d) True) (drop k ds))))"
proof -
  let ?pings = "\<lambda>ds. concat (map (\<lambda>d. frame MSG_PING (ping_payload d) True) ds)"
  have "\<exists>t k. sent t = sent s @ map (\<lambda>d. frame MSG_PONG (ping_payload d) True) (take k ds) \<and>
      (receive_messages P s = Done EFI_SUCCESS t \<and> k = length ds \<or>
       receive_messages P s = Done EFI_ABORTED t \<and> k < length ds \<and> header_split P pending (?pings (drop k ds)))"
    if "serving pending (?pings ds) s" for s
    using that small
  proof (induction ds arbitrary: s)
    case Nil
    then obtain t where "receive_message P s = Done (Inr EFI_SUCCESS) t" "sent t = sent s"
      using receive_closed [OF doc net, of s] by auto
    then show ?case unfolding receive_messages_def using loop_exit [of "\<lambda>_. receive_message P"] by auto
  next
    case (Cons d ds)
    then have "serving pending (frame MSG_PING (ping_payload d) True @ ?pings ds) s" "length d \<le> 1396" by simp_all
    from receive_ping [OF doc net this] show ?case
    proof
      assume "header_split P pending (frame MSG_PING (ping_payload d) True @ ?pings ds) \<and>
        (\<exists>t. receive_message P s = Done (Inr EFI_ABORTED) t \<and> sent t = sent s)"
      then obtain t where t: "receive_message P s = Done (Inr EFI_ABORTED) t" "sent t = sent s"
        "header_split P pending (?pings (drop 0 (d # ds)))" by auto
      from loop_exit [of "\<lambda>_. receive_message P", OF t(1)] have "receive_messages P s = Done EFI_ABORTED t"
        by (simp add: receive_messages_def)
      then show ?thesis using t(2,3) by (intro exI [of _ t] exI [of _ 0]) simp
    next
      assume "\<exists>t. receive_message P s = Done (Inl ()) t \<and> serving pending (?pings ds) t \<and>
        sent t = sent s @ [frame MSG_PONG (ping_payload d) True]"
      then obtain t where t: "receive_message P s = Done (Inl ()) t" "serving pending (?pings ds) t"
        "sent t = sent s @ [frame MSG_PONG (ping_payload d) True]" by blast
      obtain u k where u: "sent u = sent t @ map (\<lambda>d. frame MSG_PONG (ping_payload d) True) (take k ds)"
        "receive_messages P t = Done EFI_SUCCESS u \<and> k = length ds \<or>
         receive_messages P t = Done EFI_ABORTED u \<and> k < length ds \<and> header_split P pending (?pings (drop k ds))"
        using Cons.IH [OF t(2)] Cons.prems(2) by auto
      have "receive_messages P s = Done st u" if "receive_messages P t = Done st u" for st
        using that loop_next [of "\<lambda>_. receive_message P", OF t(1)] unfolding receive_messages_def by blast
      then show ?thesis using u t(3) by (intro exI [of _ u] exI [of _ "Suc k"]) auto
    qed
  qed
  moreover have "serving pending (?pings ds) s"
    using ok input by (simp add: serving_def)
  ultimately obtain t k where t: "sent t = sent s @ map (\<lambda>d. frame MSG_PONG (ping_payload d) True) (take k ds)"
    "receive_messages P s = Done EFI_SUCCESS t \<and> k = length ds \<or>
     receive_messages P s = Done EFI_ABORTED t \<and> k < length ds \<and> header_split P pending (?pings (drop k ds))" by blast
  have "parse_frame (frame MSG_PONG (ping_payload d) True) = Some (MSG_PONG, True, ping_payload d)" if "d \<in> set (take k ds)" for d
    using small that by (intro parse_frame_frame) (fastforce dest: in_set_takeD)
  then show ?thesis using t by (intro exI [of _ t] exI [of _ k]) auto
qed


section \<open>A peer\<close>

text \<open>
  A peer that sends the bytes of a list and then closes the connection, on a network that hands them out in chunks of at
  most \<open>k\<close> bytes. The world is what has not been received yet, with the last chunk.
\<close>

definition peer_platform :: "nat \<Rightarrow> (u8 list \<times> u8 list) platform" where
  "peer_platform k =
     \<lparr>create_event_fw = (\<lambda>w. (EFI_SUCCESS, w)),
      transmit_fw = (\<lambda>d w. (EFI_SUCCESS, w)),
      tx_poll_fw = (\<lambda>w. (EFI_SUCCESS, w)),
      receive_fw = (\<lambda>n (input, _). if input = [] then (TCP_CONNECTION_CLOSED, ([], [])) else
        let m = min (unat n) k in (EFI_SUCCESS, (drop m input, take m input))),
      rx_poll_fw = (\<lambda>w. (EFI_SUCCESS, w)),
      rx_data_fw = snd,
      alloc_pages_fw = (\<lambda>n h w. (0, [], w)),
      alloc_pool_fw = (\<lambda>n w. (False, w)),
      alloc_block_fw = (\<lambda>n h w. if h 0x12345678900000 = None then (0x12345678900000, replicate n 0, w) else (0, [], w)),
      processors_fw = (\<lambda>w. (EFI_SUCCESS, 1)),
      startup_ap_fw = (\<lambda>i w. (EFI_ABORTED, w)),
      sprint_fw = (\<lambda>fmt args. [0x41]),
      rdmsr_hw = (\<lambda>i m w. (Some 0, w)),
      wrmsr_hw = (\<lambda>i m v w. (False, w)),
      gp_frame_hw = (\<lambda>w. \<lparr>fault_vector = 13, fault_regs = zero_fault_info, fault_stack = [0, 0x1000, 0x38, 2, 0x2000]\<rparr>),
      iretq_segments_hw = (\<lambda>cs ss. cs = CODE_SEGMENT \<and> ss = 0x30),
      rdtsc_hw = (\<lambda>w. (0, w)),
      cpuid_eax_hw = (\<lambda>l. 0),
      cpuid_ecx_hw = (\<lambda>l. 0),
      cr3_hw = (\<lambda>i w. 0),
      set_cr3_hw = (\<lambda>i v w. w),
      cr4_hw = (\<lambda>i w. 0),
      set_cr4_hw = (\<lambda>i v w. w),
      set_idtr_hw = (\<lambda>i b l w. w),
      sidt_hw = (\<lambda>w. (0xFFF, 0x1E00000)),
      lidt_hw = (\<lambda>l b w. w),
      apic_read_hw = (\<lambda>a w. (0, w)),
      apic_write_hw = (\<lambda>a v w. w),
      fptan_write_hw = (\<lambda>a b f w. w),
      fpatan_read_hw = (\<lambda>a b f w. (0, w)),
      fprem_write_hw = (\<lambda>a b f w. w),
      code_hw = (\<lambda>i a s. (Returned, s)),
      ap_steps_fw = (\<lambda>w. ([], w)),
      original_ucode_s_addr = 0x1F00020,
      write_fenced_fprem_asm_addr = 0x1F00100,
      gpf_handler_addr = 0x1F00200,
      proto_fault_handlers_offset = (\<lambda>i. of_nat (0x100 + 0x100 * i)),
      fallback_handler_offset = 0x2000,
      fault_stub_code = replicate 0x2200 0x90,
      recovery_stub_addr = 0x1F00300,
      core_contexts_addr = 0x1F10000\<rparr>"

definition peer_state :: "u8 list \<Rightarrow> (u8 list \<times> u8 list) state" where
  "peer_state input =
     \<lparr>world = (input, []),
      payload_buffer = payload_buffer demo_state,
      response_buffer = response_buffer demo_state,
      receive_buffer = receive_buffer demo_state,
      format_buffer = format_buffer demo_state,
      sent = [],
      open_events = 0,
      heap = (\<lambda>a. None),
      ucodes = ucodes demo_state,
      machine_codes = machine_codes demo_state,
      original_ucode = 0,
      core_contexts = core_contexts demo_state,
      ap_phases = ap_phases demo_state,
      frames = (\<lambda>n. None),
      next_frame = 0\<rparr>"

lemma peer_state_simps [simp]:
  "world (peer_state input) = (input, [])" "sent (peer_state input) = []"
  "receive_buffer (peer_state input) = replicate RECEIVE_BUFFER_SIZE 0" "buffers_ok (peer_state input)"
  by (simp_all add: peer_state_def buffers_ok_def demo_state_def)

lemma peer_token_loops:
  "token_loop (tx_poll_fw (peer_platform k)) w = Some (EFI_SUCCESS, w)"
  "token_loop (rx_poll_fw (peer_platform k)) w = Some (EFI_SUCCESS, w)"
  by (simp_all add: token_loop_def peer_platform_def while_option_unfold)

lemma peer_network_reliable: "network_reliable (peer_platform k)"
  unfolding network_reliable_def peer_token_loops by (simp add: peer_platform_def)

lemma peer_delivery:
  "delivery (peer_platform k) n w = (if fst w = [] then None else
     Some (take (min (unat n) k) (fst w), (drop (min (unat n) k) (fst w), take (min (unat n) k) (fst w))))"
proof -
  have "EFI_ERROR TCP_CONNECTION_CLOSED" by (simp add: EFI_ERROR_def)
  then show ?thesis
    unfolding delivery_def peer_token_loops by (cases w) (simp add: peer_platform_def Let_def)
qed

lemma peer_stream_documented:
  assumes "0 < k"
  shows "stream_documented (peer_platform k) fst"
  unfolding stream_documented_def peer_token_loops peer_delivery
proof (intro conjI allI impI, goal_cases)
  case (4 n w)
  then show ?case by (intro exI [of _ "min (unat n) k"]) (use assms in \<open>auto simp: word_unat_eq_iff\<close>)
qed (auto simp: peer_platform_def)

text \<open>Chunks of four bytes split no header, so that all is answered.\<close>

lemma ping_session_witness:
  "\<exists>t. receive_messages (peer_platform 4) (peer_state (concat (map (\<lambda>d. frame MSG_PING (ping_payload d) True) [[1, 2, 3], []]))) =
      Done EFI_SUCCESS t \<and>
    map parse_frame (sent t) = [Some (MSG_PONG, True, ping_payload [1, 2, 3]), Some (MSG_PONG, True, ping_payload [])]"
proof -
  let ?ds = "[[1, 2, 3], []] :: u8 list list"
  let ?pings = "\<lambda>ds. concat (map (\<lambda>d. frame MSG_PING (ping_payload d) True) ds)"
  have whole: "\<not> header_split (peer_platform 4) fst (?pings (drop n ?ds))" if "n < 2" for n
  proof -
    have "4 \<le> length (?pings (drop n ?ds))" using that by (cases n) (auto simp: frame_message)
    then show ?thesis by (auto simp: header_split_def peer_delivery split: if_splits)
  qed
  show "\<exists>t. receive_messages (peer_platform 4) (peer_state (?pings ?ds)) = Done EFI_SUCCESS t \<and>
    map parse_frame (sent t) = [Some (MSG_PONG, True, ping_payload [1, 2, 3]), Some (MSG_PONG, True, ping_payload [])]"
    using ping_session [OF peer_stream_documented peer_network_reliable, of 4 "peer_state (?pings ?ds)" ?ds] whole by auto
qed

lemma receive_messages_short_header_witness:
  "delivery (peer_platform 2) 4 (world (peer_state [16, 0, 0, 0])) = Some ([16, 0], ([0, 0], [16, 0])) \<and>
   receive_messages (peer_platform 2) (peer_state [16, 0, 0, 0]) =
     Done EFI_ABORTED ((peer_state [16, 0, 0, 0])\<lparr>world := ([0, 0], [16, 0]),
       receive_buffer := overwrite 0 [16, 0] (receive_buffer (peer_state [16, 0, 0, 0]))\<rparr>)"
proof
  show d: "delivery (peer_platform 2) 4 (world (peer_state [16, 0, 0, 0])) = Some ([16, 0], ([0, 0], [16, 0]))"
    by (simp add: peer_delivery)
  show "receive_messages (peer_platform 2) (peer_state [16, 0, 0, 0]) =
     Done EFI_ABORTED ((peer_state [16, 0, 0, 0])\<lparr>world := ([0, 0], [16, 0]),
       receive_buffer := overwrite 0 [16, 0] (receive_buffer (peer_state [16, 0, 0, 0]))\<rparr>)"
    by (rule receive_messages_short_header [OF d]) simp_all
qed

lemma receive_messages_overflow_witness:
  "\<exists>t. receive_messages (peer_platform (2 ^ 24)) (peer_state (le_bytes 4 (0x100010 :: u32) @ replicate 0x100010 0)) =
     Stop OutOfBounds t"
proof -
  let ?s = "peer_state (le_bytes 4 (0x100010 :: u32) @ replicate 0x100010 0)"
  let ?w0 = "(replicate 0x100010 0, le_bytes 4 (0x100010 :: u32))"
  have "delivery (peer_platform (2 ^ 24)) 4 (world ?s) = Some (le_bytes 4 (0x100010 :: u32), ?w0)"
    by (simp add: peer_delivery)
  moreover have "delivery (peer_platform (2 ^ 24)) (ucast (0x100010 :: u32)) ?w0 = Some (replicate 0x100010 0, ([], replicate 0x100010 0))"
    by (simp add: peer_delivery)
  ultimately show ?thesis
    by (rule receive_messages_overflow) simp_all
qed

text \<open>A header in one piece with a body in two, and a header of which three bytes come first.\<close>

lemma receive_message_reassembles_witness:
  "receive_message (peer_platform 4) (peer_state [8, 0, 0, 0, 1, 0, 0, 0, 7, 0, 0, 0]) =
     bind (handle_message (peer_platform 4) (overwrite 0 [1, 0, 0, 0, 7, 0, 0, 0] (overwrite 0 [8, 0, 0, 0] (replicate RECEIVE_BUFFER_SIZE 0)))
         (of_nat (length [1, 0, 0, 0, 7, 0, 0, 0 :: u8])))
       (\<lambda>Status. if EFI_ERROR Status then ret (Inr Status) else ret (Inl ()))
       ((peer_state [8, 0, 0, 0, 1, 0, 0, 0, 7, 0, 0, 0])\<lparr>world := ([], [7, 0, 0, 0]), receive_buffer :=
          overwrite 0 [1, 0, 0, 0, 7, 0, 0, 0] (overwrite 0 [8, 0, 0, 0] (replicate RECEIVE_BUFFER_SIZE 0))\<rparr>) \<and>
   receive_message (peer_platform 3) (peer_state [8, 0, 0, 0, 1, 0, 0, 0, 7, 0, 0, 0]) =
     Done (Inr EFI_ABORTED) ((peer_state [8, 0, 0, 0, 1, 0, 0, 0, 7, 0, 0, 0])\<lparr>world := ([0, 1, 0, 0, 0, 7, 0, 0, 0], [8, 0, 0]),
       receive_buffer := overwrite 0 [8, 0, 0] (replicate RECEIVE_BUFFER_SIZE 0)\<rparr>)"
proof
  let ?m = "[1, 0, 0, 0, 7, 0, 0, 0] :: u8 list" and ?s = "peer_state [8, 0, 0, 0, 1, 0, 0, 0, 7, 0, 0, 0]"
  have header: "le_bytes 4 (of_nat (length ?m) :: u32) = [8, 0, 0, 0]" by code_simp
  have "arrives (peer_platform 4) 4 ([7, 0, 0, 0] @ []) ([7, 0, 0, 0], [1, 0, 0, 0]) ([], [7, 0, 0, 0])"
    by (rule arrives.chunk) (auto simp: peer_delivery intro: arrives.arrived)
  then have "arrives (peer_platform 4) 8 ([1, 0, 0, 0] @ [7, 0, 0, 0]) (?m, [8, 0, 0, 0]) ([], [7, 0, 0, 0])"
    by (intro arrives.chunk [where ?w1.0 = "([7, 0, 0, 0], [1, 0, 0, 0])"]) (simp_all add: peer_delivery)
  moreover have "length ?m = 8" "[1, 0, 0, 0] @ [7, 0, 0, 0] = ?m" by simp_all
  ultimately have arr: "arrives (peer_platform 4) (length ?m) ?m (?m, [8, 0, 0, 0]) ([], [7, 0, 0, 0])" by (simp only:)
  have d: "delivery (peer_platform 4) 4 (world ?s) = Some ([8, 0, 0, 0], (?m, [8, 0, 0, 0]))"
    "delivery (peer_platform 3) 4 (world ?s) = Some ([8, 0, 0], ([0, 1, 0, 0, 0, 7, 0, 0, 0], [8, 0, 0]))"
    by (simp_all add: peer_delivery)
  show "receive_message (peer_platform 4) ?s =
     bind (handle_message (peer_platform 4) (overwrite 0 ?m (overwrite 0 [8, 0, 0, 0] (replicate RECEIVE_BUFFER_SIZE 0)))
         (of_nat (length ?m)))
       (\<lambda>Status. if EFI_ERROR Status then ret (Inr Status) else ret (Inl ()))
       (?s\<lparr>world := ([], [7, 0, 0, 0]), receive_buffer :=
          overwrite 0 ?m (overwrite 0 [8, 0, 0, 0] (replicate RECEIVE_BUFFER_SIZE 0))\<rparr>)"
    using receive_message_reassembles [OF d(1), of ?m "([], [7, 0, 0, 0])"] arr unfolding header by simp
  show "receive_message (peer_platform 3) ?s =
     Done (Inr EFI_ABORTED) (?s\<lparr>world := ([0, 1, 0, 0, 0, 7, 0, 0, 0], [8, 0, 0]),
       receive_buffer := overwrite 0 [8, 0, 0] (replicate RECEIVE_BUFFER_SIZE 0)\<rparr>)"
    using receive_message_reassembles [OF d(2), of ?m] unfolding header by simp
qed

end
