(* ===== verification/Ucode_Templates.thy ===== *)
theory Ucode_Templates
  imports Prelude
begin

text \<open>
  The built-in microcode updates of \<^verbatim>\<open>data/ucode/template-*.h\<close>, row by row, and the lengths the headers declare
  for them. An array is split into parts, each a block of rows of its header.
\<close>

definition ucode_template_0x00A20F12_part0 :: "u8 list" where
  "ucode_template_0x00A20F12_part0 = concat [
     [0x21, 0x20, 0x19, 0x07, 0x20, 0x12, 0x20, 0x0a, 0x05, 0x80, 0x00, 0x00],
     [0x00, 0x00, 0x00, 0x00, 0x00, 0x00, 0x00, 0x00, 0x00, 0x00, 0x00, 0x00],
     [0x12, 0xa2, 0x00, 0x00, 0x00, 0x00, 0x00, 0x00, 0x6d, 0x90, 0x1f, 0x8f],
     [0xa5, 0x55, 0x30, 0x5b, 0xce, 0xd2, 0x83, 0x78, 0xc4, 0xc0, 0x6c, 0xef],
     [0xf8, 0xa7, 0x04, 0x5d, 0x4d, 0xf4, 0x59, 0x3d, 0x1a, 0xef, 0xa9, 0x77],
     [0xf4, 0x55, 0x1b, 0xf5, 0xb1, 0x9e, 0xcc, 0xf4, 0xe9, 0x6f, 0xb7, 0x51],
     [0x17, 0x4f, 0x6f, 0x15, 0x40, 0xc1, 0x44, 0x61, 0xd2, 0xe7, 0xea, 0xf5],
     [0xb8, 0x99, 0xd4, 0x98, 0xc0, 0x22, 0xf0, 0x5d, 0xab, 0xac, 0x1c, 0x9d],
     [0x33, 0x51, 0x6f, 0xfb, 0x69, 0x77, 0x30, 0x22, 0x9c, 0xdc, 0x92, 0x8a],
     [0x74, 0xff, 0x5c, 0x2d, 0xd7, 0x48, 0x1f, 0x98, 0x96, 0x86, 0x8e, 0xd6],
     [0xec, 0x77, 0xa7, 0x7d, 0xb2, 0x70, 0x54, 0x24, 0x1b, 0xb6, 0xb1, 0x7a],
     [0x55, 0xdb, 0x14, 0x41, 0x2d, 0x8b, 0xfa, 0xc2, 0x73, 0xbd, 0x20, 0xb7],
     [0xcd, 0x32, 0xc3, 0x9b, 0x2f, 0x19, 0x87, 0x5a, 0x40, 0x8b, 0xdc, 0x63],
     [0x6b, 0x35, 0xcf, 0x30, 0xe0, 0x62, 0xe8, 0x4f, 0x4e, 0xa4, 0x2f, 0xec],
     [0xfd, 0x67, 0x37, 0x28, 0x1e, 0xca, 0x18, 0xb3, 0x59, 0x67, 0xf7, 0x50],
     [0x08, 0x49, 0xff, 0xe7, 0xed, 0x0f, 0xfc, 0x23, 0xca, 0xc9, 0x9e, 0x36],
     [0x1c, 0x63, 0x4b, 0x11, 0xf9, 0x77, 0xc7, 0x76, 0x8c, 0x0c, 0x81, 0xad],
     [0xce, 0x0d, 0x2b, 0x20, 0xc0, 0xc0, 0xb4, 0x56, 0x18, 0x33, 0x58, 0xbd],
     [0xc7, 0xb2, 0x38, 0x39, 0x11, 0x0b, 0xff, 0x02, 0xb6, 0x8e, 0xa0, 0xc8],
     [0x90, 0x58, 0x91, 0xf9, 0x73, 0x73, 0x25, 0xf8, 0x5c, 0xc0, 0x55, 0xc1],
     [0x76, 0x4f, 0xc2, 0x14, 0xd3, 0x59, 0x5f, 0x48, 0xf5, 0x89, 0x4b, 0x2f],
     [0xf6, 0x44, 0x86, 0xeb, 0x20, 0x87, 0x49, 0xa6, 0xee, 0xf8, 0x73, 0x94],
     [0x40, 0x7e, 0x04, 0xc0, 0x19, 0x9d, 0xac, 0x11, 0x70, 0x32, 0xcf, 0xee],
     [0xe1, 0x09, 0xeb, 0xee, 0x4f, 0x51, 0xb6, 0x8d, 0xf5, 0x55, 0x72, 0x98],
     [0x80, 0x00, 0x00, 0x00, 0x00, 0x00, 0x00, 0x00, 0x00, 0x00, 0x00, 0x00],
     [0x00, 0x00, 0x00, 0x00, 0xae, 0x46, 0x34, 0xb8, 0x38, 0x05, 0xea, 0x28],
     [0xd7, 0xec, 0xac, 0x00, 0x53, 0xa6, 0xab, 0x6c, 0x00, 0x00, 0x00, 0x00],
     [0x00, 0x00, 0x00, 0x00, 0x00, 0x00, 0x00, 0x00, 0x00, 0x00, 0x00, 0x00],
     [0x00, 0x00, 0x00, 0x00, 0x00, 0x00, 0x00, 0x00, 0x00, 0x00, 0x00, 0x00],
     [0x00, 0x00, 0x00, 0x00, 0x00, 0x00, 0x00, 0x00, 0x00, 0x00, 0x00, 0x00],
     [0x00, 0x00, 0x00, 0x00, 0x00, 0x00, 0x00, 0x00, 0x00, 0x00, 0x00, 0x00],
     [0x00, 0x00, 0x00, 0x00, 0x00, 0x00, 0x00, 0x00, 0x00, 0x00, 0x00, 0x00],
     [0x00, 0x00, 0x00, 0x00, 0x00, 0x00, 0x00, 0x00, 0x00, 0x00, 0x00, 0x00],
     [0x00, 0x00, 0x00, 0x00, 0x00, 0x00, 0x00, 0x00, 0x00, 0x00, 0x00, 0x00],
     [0x00, 0x00, 0x00, 0x00, 0x00, 0x00, 0x00, 0x00, 0x00, 0x00, 0x00, 0x00],
     [0x00, 0x00, 0x00, 0x00, 0x00, 0x00, 0x00, 0x00, 0x00, 0x00, 0x00, 0x00],
     [0x00, 0x00, 0x00, 0x00, 0x00, 0x00, 0x00, 0x00, 0x00, 0x00, 0x00, 0x00],
     [0x00, 0x00, 0x00, 0x00, 0x00, 0x00, 0x00, 0x00, 0x00, 0x00, 0x00, 0x00],
     [0x00, 0x00, 0x00, 0x00, 0x00, 0x00, 0x00, 0x00, 0x00, 0x00, 0x00, 0x00],
     [0x00, 0x00, 0x00, 0x00, 0x00, 0x00, 0x00, 0x00, 0x00, 0x00, 0x00, 0x00],
     [0x00, 0x00, 0x00, 0x00, 0x00, 0x00, 0x00, 0x00, 0x00, 0x00, 0x00, 0x00],
     [0x00, 0x00, 0x00, 0x00, 0x00, 0x00, 0x00, 0x00, 0x00, 0x00, 0x00, 0x00],
     [0x00, 0x00, 0x00, 0x00, 0x00, 0x00, 0x00, 0x00, 0x00, 0x00, 0x00, 0x00],
     [0x00, 0x00, 0x00, 0x00, 0x00, 0x00, 0x00, 0x00, 0x00, 0x00, 0x00, 0x00],
     [0x00, 0x00, 0x00, 0x00, 0x00, 0x00, 0x00, 0x00, 0x00, 0x00, 0x00, 0x00],
     [0x00, 0x00, 0x00, 0x13, 0x17, 0xc1, 0x98, 0x77, 0x22, 0xbf, 0x77, 0xd8],
     [0x49, 0xc0, 0x2d, 0x62, 0x92, 0x15, 0x46, 0x34, 0x7a, 0x74, 0x7e, 0x5f],
     [0x89, 0x04, 0xfa, 0xf9, 0xbb, 0x1a, 0x2f, 0x47, 0x9f, 0xc9, 0xdb, 0x99],
     [0x79, 0x43, 0x5e, 0x50, 0xd7, 0x94, 0x35, 0xe5, 0x0d, 0x79, 0x43, 0x5e],
     [0x50, 0xd7, 0x94, 0x35, 0xe5, 0x0d, 0x79, 0x43, 0x5e, 0x50, 0xd7, 0x94],
     [0x35, 0xe5, 0x0d, 0x79, 0x43, 0x5e, 0x50, 0xd7, 0x94, 0x35, 0xe5, 0x0d],
     [0x79, 0x43, 0x5e, 0x50, 0xd7, 0x94, 0x35, 0xe5, 0x0d, 0x79, 0x43, 0x5e],
     [0x50, 0xd7, 0x94, 0x35, 0xe5, 0x0d, 0x79, 0x43, 0x5e, 0x50, 0xd7, 0x94],
     [0x35, 0xe5, 0x0d, 0x79, 0x43, 0x5e, 0x50, 0xd7, 0x94, 0x35, 0xe5, 0x0d],
     [0x79, 0x43, 0x5e, 0x50, 0xd7, 0x94, 0x35, 0xe5, 0x0d, 0x79, 0x43, 0x5e],
     [0x50, 0xd7, 0x94, 0x35, 0xe5, 0x0d, 0x79, 0x43, 0x5e, 0x50, 0xd7, 0x94],
     [0x35, 0xe5, 0x0d, 0x79, 0x43, 0x5e, 0x50, 0xd7, 0x94, 0x35, 0xe5, 0x0d],
     [0x79, 0x43, 0x5e, 0x50, 0xd7, 0x94, 0x35, 0xe5, 0x0d, 0x79, 0x43, 0x5e],
     [0x50, 0xd7, 0x94, 0x35, 0xe5, 0x0d, 0x79, 0x43, 0x5e, 0x50, 0xd7, 0x94],
     [0x35, 0xe5, 0x0d, 0x79, 0x43, 0x5e, 0x50, 0xd7, 0x94, 0x35, 0xe5, 0x0d],
     [0x79, 0x43, 0x5e, 0x50, 0xd7, 0x94, 0x35, 0xe5, 0x0d, 0x79, 0x43, 0x5e],
     [0x50, 0xd7, 0x94, 0x35, 0xe5, 0x0d, 0x79, 0x43, 0x5e, 0x50, 0xd7, 0x94],
     [0x35, 0xe5, 0x0d, 0x79, 0x43, 0x5e, 0x50, 0xd7, 0x94, 0x35, 0xe5, 0x0d],
     [0x79, 0x43, 0x5e, 0x50, 0xd7, 0x94, 0x35, 0xe5, 0x0d, 0x79, 0x43, 0x5e],
     [0x50, 0xd7, 0x94, 0x35, 0xe5, 0x0d, 0x79, 0x43, 0x5e, 0x50, 0xd7, 0x94],
     [0x35, 0xe5, 0x0d, 0x79, 0x43, 0x5e, 0x50, 0xd7, 0x94, 0x35, 0xe5, 0x0d],
     [0x79, 0x43, 0x5e, 0x50, 0xd7, 0x94, 0x35, 0xe5, 0x00, 0x00, 0x00, 0x00],
     [0x20, 0x12, 0x20, 0x0a, 0x00, 0x00, 0x00, 0x00, 0x00, 0x00, 0x00, 0x00],
     [0x00, 0x00, 0x00, 0x00, 0x00, 0x00, 0x00, 0x00, 0x00, 0x00, 0x00, 0x00],
     [0x00, 0x00, 0x00, 0x00, 0x00, 0x00, 0x00, 0x00, 0x00, 0x00, 0x00, 0x00],
     [0x00, 0x00, 0x00, 0x00, 0x00, 0x00, 0x00, 0x00, 0x00, 0x00, 0x00, 0x00],
     [0x00, 0x00, 0x00, 0x00, 0x00, 0x00, 0x00, 0x00, 0x00, 0x00, 0x00, 0x00],
     [0x00, 0x00, 0x00, 0x00, 0x00, 0x00, 0x00, 0x00, 0x00, 0x00, 0x00, 0x00],
     [0x00, 0x00, 0x00, 0x00, 0x00, 0x00, 0x00, 0x00, 0x00, 0x00, 0x00, 0x00],
     [0x00, 0x00, 0x00, 0x00, 0x00, 0x00, 0x00, 0x00, 0x00, 0x00, 0x00, 0x00],
     [0x00, 0x00, 0x00, 0x00, 0x00, 0x00, 0x00, 0x00, 0x00, 0x00, 0x00, 0x00],
     [0x00, 0x00, 0x00, 0x00, 0x00, 0x00, 0x00, 0x00, 0x00, 0x00, 0x00, 0x00],
     [0x00, 0x00, 0x00, 0x00, 0x00, 0x00, 0x00, 0x00, 0x00, 0x00, 0x00, 0x00],
     [0x00, 0x00, 0x00, 0x00, 0x00, 0x00, 0x00, 0x00, 0x00, 0x00, 0x00, 0x00],
     [0x00, 0x00, 0x00, 0x00, 0x00, 0x00, 0x00, 0x00, 0x00, 0x00, 0x00, 0x00],
     [0x00, 0x00, 0x00, 0x00, 0x00, 0x9c, 0x7f, 0x00, 0x00, 0x00, 0x00, 0x00],
     [0x00, 0x9c, 0x7f, 0x00, 0x00, 0x00, 0x00, 0x00, 0x00, 0x9c, 0x7f, 0x00],
     [0x00, 0x00, 0x00, 0x00, 0x00, 0x9c, 0x7f, 0x00, 0x01, 0x00, 0x00, 0x04],
     [0x00, 0x00, 0x00, 0x00, 0x00, 0x9c, 0x7f, 0x00, 0x00, 0x00, 0x00, 0x00],
     [0x00, 0x9c, 0x7f, 0x00, 0x00, 0x00, 0x00, 0x00, 0x00, 0x9c, 0x7f, 0x00],
     [0x00, 0x00, 0x00, 0x00, 0x00, 0x9c, 0x7f, 0x00, 0x01, 0x00, 0x00, 0x04],
     [0x00, 0x00, 0x00, 0x00, 0x00, 0x9c, 0x7f, 0x00, 0x00, 0x00, 0x00, 0x00],
     [0x00, 0x9c, 0x7f, 0x00, 0x00, 0x00, 0x00, 0x00, 0x00, 0x9c, 0x7f, 0x00],
     [0x00, 0x00, 0x00, 0x00, 0x00, 0x9c, 0x7f, 0x00, 0x01, 0x00, 0x00, 0x04],
     [0x00, 0x00, 0x00, 0x00, 0x00, 0x9c, 0x7f, 0x00, 0x00, 0x00, 0x00, 0x00],
     [0x00, 0x9c, 0x7f, 0x00, 0x00, 0x00, 0x00, 0x00, 0x00, 0x9c, 0x7f, 0x00],
     [0x00, 0x00, 0x00, 0x00, 0x00, 0x9c, 0x7f, 0x00, 0x01, 0x00, 0x00, 0x04],
     [0x00, 0x00, 0x00, 0x00, 0x00, 0x9c, 0x7f, 0x00, 0x00, 0x00, 0x00, 0x00],
     [0x00, 0x9c, 0x7f, 0x00, 0x00, 0x00, 0x00, 0x00, 0x00, 0x9c, 0x7f, 0x00],
     [0x00, 0x00, 0x00, 0x00, 0x00, 0x9c, 0x7f, 0x00, 0x01, 0x00, 0x00, 0x04],
     [0x00, 0x00, 0x00, 0x00, 0x00, 0x9c, 0x7f, 0x00, 0x00, 0x00, 0x00, 0x00],
     [0x00, 0x9c, 0x7f, 0x00, 0x00, 0x00, 0x00, 0x00, 0x00, 0x9c, 0x7f, 0x00],
     [0x00, 0x00, 0x00, 0x00, 0x00, 0x9c, 0x7f, 0x00, 0x01, 0x00, 0x00, 0x04],
     [0x00, 0x00, 0x00, 0x00, 0x00, 0x9c, 0x7f, 0x00, 0x00, 0x00, 0x00, 0x00],
     [0x00, 0x9c, 0x7f, 0x00, 0x00, 0x00, 0x00, 0x00, 0x00, 0x9c, 0x7f, 0x00],
     [0x00, 0x00, 0x00, 0x00, 0x00, 0x9c, 0x7f, 0x00, 0x01, 0x00, 0x00, 0x04],
     [0x00, 0x00, 0x00, 0x00, 0x00, 0x9c, 0x7f, 0x00, 0x00, 0x00, 0x00, 0x00],
     [0x00, 0x9c, 0x7f, 0x00, 0x00, 0x00, 0x00, 0x00, 0x00, 0x9c, 0x7f, 0x00],
     [0x00, 0x00, 0x00, 0x00, 0x00, 0x9c, 0x7f, 0x00, 0x01, 0x00, 0x00, 0x04],
     [0x00, 0x00, 0x00, 0x00, 0x00, 0x9c, 0x7f, 0x00, 0x00, 0x00, 0x00, 0x00],
     [0x00, 0x9c, 0x7f, 0x00, 0x00, 0x00, 0x00, 0x00, 0x00, 0x9c, 0x7f, 0x00],
     [0x00, 0x00, 0x00, 0x00, 0x00, 0x9c, 0x7f, 0x00, 0x01, 0x00, 0x00, 0x04],
     [0x00, 0x00, 0x00, 0x00, 0x00, 0x9c, 0x7f, 0x00, 0x00, 0x00, 0x00, 0x00],
     [0x00, 0x9c, 0x7f, 0x00, 0x00, 0x00, 0x00, 0x00, 0x00, 0x9c, 0x7f, 0x00],
     [0x00, 0x00, 0x00, 0x00, 0x00, 0x9c, 0x7f, 0x00, 0x01, 0x00, 0x00, 0x04],
     [0x00, 0x00, 0x00, 0x00, 0x00, 0x9c, 0x7f, 0x00, 0x00, 0x00, 0x00, 0x00],
     [0x00, 0x9c, 0x7f, 0x00, 0x00, 0x00, 0x00, 0x00, 0x00, 0x9c, 0x7f, 0x00],
     [0x00, 0x00, 0x00, 0x00, 0x00, 0x9c, 0x7f, 0x00, 0x01, 0x00, 0x00, 0x04],
     [0x00, 0x00, 0x00, 0x00, 0x00, 0x9c, 0x7f, 0x00, 0x00, 0x00, 0x00, 0x00],
     [0x00, 0x9c, 0x7f, 0x00, 0x00, 0x00, 0x00, 0x00, 0x00, 0x9c, 0x7f, 0x00],
     [0x00, 0x00, 0x00, 0x00, 0x00, 0x9c, 0x7f, 0x00, 0x01, 0x00, 0x00, 0x04],
     [0x00, 0x00, 0x00, 0x00, 0x00, 0x9c, 0x7f, 0x00, 0x00, 0x00, 0x00, 0x00],
     [0x00, 0x9c, 0x7f, 0x00, 0x00, 0x00, 0x00, 0x00, 0x00, 0x9c, 0x7f, 0x00],
     [0x00, 0x00, 0x00, 0x00, 0x00, 0x9c, 0x7f, 0x00, 0x01, 0x00, 0x00, 0x04],
     [0x00, 0x00, 0x00, 0x00, 0x00, 0x9c, 0x7f, 0x00, 0x00, 0x00, 0x00, 0x00]]"

definition ucode_template_0x00A20F12_part1 :: "u8 list" where
  "ucode_template_0x00A20F12_part1 = concat [
     [0x00, 0x9c, 0x7f, 0x00, 0x00, 0x00, 0x00, 0x00, 0x00, 0x9c, 0x7f, 0x00],
     [0x00, 0x00, 0x00, 0x00, 0x00, 0x9c, 0x7f, 0x00, 0x01, 0x00, 0x00, 0x04],
     [0x00, 0x00, 0x00, 0x00, 0x00, 0x9c, 0x7f, 0x00, 0x00, 0x00, 0x00, 0x00],
     [0x00, 0x9c, 0x7f, 0x00, 0x00, 0x00, 0x00, 0x00, 0x00, 0x9c, 0x7f, 0x00],
     [0x00, 0x00, 0x00, 0x00, 0x00, 0x9c, 0x7f, 0x00, 0x01, 0x00, 0x00, 0x04],
     [0x00, 0x00, 0x00, 0x00, 0x00, 0x9c, 0x7f, 0x00, 0x00, 0x00, 0x00, 0x00],
     [0x00, 0x9c, 0x7f, 0x00, 0x00, 0x00, 0x00, 0x00, 0x00, 0x9c, 0x7f, 0x00],
     [0x00, 0x00, 0x00, 0x00, 0x00, 0x9c, 0x7f, 0x00, 0x01, 0x00, 0x00, 0x04],
     [0x00, 0x00, 0x00, 0x00, 0x00, 0x9c, 0x7f, 0x00, 0x00, 0x00, 0x00, 0x00],
     [0x00, 0x9c, 0x7f, 0x00, 0x00, 0x00, 0x00, 0x00, 0x00, 0x9c, 0x7f, 0x00],
     [0x00, 0x00, 0x00, 0x00, 0x00, 0x9c, 0x7f, 0x00, 0x01, 0x00, 0x00, 0x04],
     [0x00, 0x00, 0x00, 0x00, 0x00, 0x9c, 0x7f, 0x00, 0x00, 0x00, 0x00, 0x00],
     [0x00, 0x9c, 0x7f, 0x00, 0x00, 0x00, 0x00, 0x00, 0x00, 0x9c, 0x7f, 0x00],
     [0x00, 0x00, 0x00, 0x00, 0x00, 0x9c, 0x7f, 0x00, 0x01, 0x00, 0x00, 0x04],
     [0x00, 0x00, 0x00, 0x00, 0x00, 0x9c, 0x7f, 0x00, 0x00, 0x00, 0x00, 0x00],
     [0x00, 0x9c, 0x7f, 0x00, 0x00, 0x00, 0x00, 0x00, 0x00, 0x9c, 0x7f, 0x00],
     [0x00, 0x00, 0x00, 0x00, 0x00, 0x9c, 0x7f, 0x00, 0x01, 0x00, 0x00, 0x04],
     [0x00, 0x00, 0x00, 0x00, 0x00, 0x9c, 0x7f, 0x00, 0x00, 0x00, 0x00, 0x00],
     [0x00, 0x9c, 0x7f, 0x00, 0x00, 0x00, 0x00, 0x00, 0x00, 0x9c, 0x7f, 0x00],
     [0x00, 0x00, 0x00, 0x00, 0x00, 0x9c, 0x7f, 0x00, 0x01, 0x00, 0x00, 0x04],
     [0x00, 0x00, 0x00, 0x00, 0x00, 0x9c, 0x7f, 0x00, 0x00, 0x00, 0x00, 0x00],
     [0x00, 0x9c, 0x7f, 0x00, 0x00, 0x00, 0x00, 0x00, 0x00, 0x9c, 0x7f, 0x00],
     [0x00, 0x00, 0x00, 0x00, 0x00, 0x9c, 0x7f, 0x00, 0x01, 0x00, 0x00, 0x04],
     [0x00, 0x00, 0x00, 0x00, 0x00, 0x9c, 0x7f, 0x00, 0x00, 0x00, 0x00, 0x00],
     [0x00, 0x9c, 0x7f, 0x00, 0x00, 0x00, 0x00, 0x00, 0x00, 0x9c, 0x7f, 0x00],
     [0x00, 0x00, 0x00, 0x00, 0x00, 0x9c, 0x7f, 0x00, 0x01, 0x00, 0x00, 0x04],
     [0x00, 0x00, 0x00, 0x00, 0x00, 0x9c, 0x7f, 0x00, 0x00, 0x00, 0x00, 0x00],
     [0x00, 0x9c, 0x7f, 0x00, 0x00, 0x00, 0x00, 0x00, 0x00, 0x9c, 0x7f, 0x00],
     [0x00, 0x00, 0x00, 0x00, 0x00, 0x9c, 0x7f, 0x00, 0x01, 0x00, 0x00, 0x04],
     [0x00, 0x00, 0x00, 0x00, 0x00, 0x9c, 0x7f, 0x00, 0x00, 0x00, 0x00, 0x00],
     [0x00, 0x9c, 0x7f, 0x00, 0x00, 0x00, 0x00, 0x00, 0x00, 0x9c, 0x7f, 0x00],
     [0x00, 0x00, 0x00, 0x00, 0x00, 0x9c, 0x7f, 0x00, 0x01, 0x00, 0x00, 0x04],
     [0x00, 0x00, 0x00, 0x00, 0x00, 0x9c, 0x7f, 0x00, 0x00, 0x00, 0x00, 0x00],
     [0x00, 0x9c, 0x7f, 0x00, 0x00, 0x00, 0x00, 0x00, 0x00, 0x9c, 0x7f, 0x00],
     [0x00, 0x00, 0x00, 0x00, 0x00, 0x9c, 0x7f, 0x00, 0x01, 0x00, 0x00, 0x04],
     [0x00, 0x00, 0x00, 0x00, 0x00, 0x9c, 0x7f, 0x00, 0x00, 0x00, 0x00, 0x00],
     [0x00, 0x9c, 0x7f, 0x00, 0x00, 0x00, 0x00, 0x00, 0x00, 0x9c, 0x7f, 0x00],
     [0x00, 0x00, 0x00, 0x00, 0x00, 0x9c, 0x7f, 0x00, 0x01, 0x00, 0x00, 0x04],
     [0x00, 0x00, 0x00, 0x00, 0x00, 0x9c, 0x7f, 0x00, 0x00, 0x00, 0x00, 0x00],
     [0x00, 0x9c, 0x7f, 0x00, 0x00, 0x00, 0x00, 0x00, 0x00, 0x9c, 0x7f, 0x00],
     [0x00, 0x00, 0x00, 0x00, 0x00, 0x9c, 0x7f, 0x00, 0x01, 0x00, 0x00, 0x04],
     [0x00, 0x00, 0x00, 0x00, 0x00, 0x9c, 0x7f, 0x00, 0x00, 0x00, 0x00, 0x00],
     [0x00, 0x9c, 0x7f, 0x00, 0x00, 0x00, 0x00, 0x00, 0x00, 0x9c, 0x7f, 0x00],
     [0x00, 0x00, 0x00, 0x00, 0x00, 0x9c, 0x7f, 0x00, 0x01, 0x00, 0x00, 0x04],
     [0x00, 0x00, 0x00, 0x00, 0x00, 0x9c, 0x7f, 0x00, 0x00, 0x00, 0x00, 0x00],
     [0x00, 0x9c, 0x7f, 0x00, 0x00, 0x00, 0x00, 0x00, 0x00, 0x9c, 0x7f, 0x00],
     [0x00, 0x00, 0x00, 0x00, 0x00, 0x9c, 0x7f, 0x00, 0x01, 0x00, 0x00, 0x04],
     [0x00, 0x00, 0x00, 0x00, 0x00, 0x9c, 0x7f, 0x00, 0x00, 0x00, 0x00, 0x00],
     [0x00, 0x9c, 0x7f, 0x00, 0x00, 0x00, 0x00, 0x00, 0x00, 0x9c, 0x7f, 0x00],
     [0x00, 0x00, 0x00, 0x00, 0x00, 0x9c, 0x7f, 0x00, 0x01, 0x00, 0x00, 0x04],
     [0x00, 0x00, 0x00, 0x00, 0x00, 0x9c, 0x7f, 0x00, 0x00, 0x00, 0x00, 0x00],
     [0x00, 0x9c, 0x7f, 0x00, 0x00, 0x00, 0x00, 0x00, 0x00, 0x9c, 0x7f, 0x00],
     [0x00, 0x00, 0x00, 0x00, 0x00, 0x9c, 0x7f, 0x00, 0x01, 0x00, 0x00, 0x04],
     [0x00, 0x00, 0x00, 0x00, 0x00, 0x9c, 0x7f, 0x00, 0x00, 0x00, 0x00, 0x00],
     [0x00, 0x9c, 0x7f, 0x00, 0x00, 0x00, 0x00, 0x00, 0x00, 0x9c, 0x7f, 0x00],
     [0x00, 0x00, 0x00, 0x00, 0x00, 0x9c, 0x7f, 0x00, 0x01, 0x00, 0x00, 0x04],
     [0x00, 0x00, 0x00, 0x00, 0x00, 0x9c, 0x7f, 0x00, 0x00, 0x00, 0x00, 0x00],
     [0x00, 0x9c, 0x7f, 0x00, 0x00, 0x00, 0x00, 0x00, 0x00, 0x9c, 0x7f, 0x00],
     [0x00, 0x00, 0x00, 0x00, 0x00, 0x9c, 0x7f, 0x00, 0x01, 0x00, 0x00, 0x04],
     [0x00, 0x00, 0x00, 0x00, 0x00, 0x9c, 0x7f, 0x00, 0x00, 0x00, 0x00, 0x00],
     [0x00, 0x9c, 0x7f, 0x00, 0x00, 0x00, 0x00, 0x00, 0x00, 0x9c, 0x7f, 0x00],
     [0x00, 0x00, 0x00, 0x00, 0x00, 0x9c, 0x7f, 0x00, 0x01, 0x00, 0x00, 0x04],
     [0x00, 0x00, 0x00, 0x00, 0x00, 0x9c, 0x7f, 0x00, 0x00, 0x00, 0x00, 0x00],
     [0x00, 0x9c, 0x7f, 0x00, 0x00, 0x00, 0x00, 0x00, 0x00, 0x9c, 0x7f, 0x00],
     [0x00, 0x00, 0x00, 0x00, 0x00, 0x9c, 0x7f, 0x00, 0x01, 0x00, 0x00, 0x04],
     [0x00, 0x00, 0x00, 0x00, 0x00, 0x9c, 0x7f, 0x00, 0x00, 0x00, 0x00, 0x00],
     [0x00, 0x9c, 0x7f, 0x00, 0x00, 0x00, 0x00, 0x00, 0x00, 0x9c, 0x7f, 0x00],
     [0x00, 0x00, 0x00, 0x00, 0x00, 0x9c, 0x7f, 0x00, 0x01, 0x00, 0x00, 0x04],
     [0x00, 0x00, 0x00, 0x00, 0x00, 0x9c, 0x7f, 0x00, 0x00, 0x00, 0x00, 0x00],
     [0x00, 0x9c, 0x7f, 0x00, 0x00, 0x00, 0x00, 0x00, 0x00, 0x9c, 0x7f, 0x00],
     [0x00, 0x00, 0x00, 0x00, 0x00, 0x9c, 0x7f, 0x00, 0x01, 0x00, 0x00, 0x04],
     [0x00, 0x00, 0x00, 0x00, 0x00, 0x9c, 0x7f, 0x00, 0x00, 0x00, 0x00, 0x00],
     [0x00, 0x9c, 0x7f, 0x00, 0x00, 0x00, 0x00, 0x00, 0x00, 0x9c, 0x7f, 0x00],
     [0x00, 0x00, 0x00, 0x00, 0x00, 0x9c, 0x7f, 0x00, 0x01, 0x00, 0x00, 0x04],
     [0x00, 0x00, 0x00, 0x00, 0x00, 0x9c, 0x7f, 0x00, 0x00, 0x00, 0x00, 0x00],
     [0x00, 0x9c, 0x7f, 0x00, 0x00, 0x00, 0x00, 0x00, 0x00, 0x9c, 0x7f, 0x00],
     [0x00, 0x00, 0x00, 0x00, 0x00, 0x9c, 0x7f, 0x00, 0x01, 0x00, 0x00, 0x04],
     [0x00, 0x00, 0x00, 0x00, 0x00, 0x9c, 0x7f, 0x00, 0x00, 0x00, 0x00, 0x00],
     [0x00, 0x9c, 0x7f, 0x00, 0x00, 0x00, 0x00, 0x00, 0x00, 0x9c, 0x7f, 0x00],
     [0x00, 0x00, 0x00, 0x00, 0x00, 0x9c, 0x7f, 0x00, 0x01, 0x00, 0x00, 0x04],
     [0x00, 0x00, 0x00, 0x00, 0x00, 0x9c, 0x7f, 0x00, 0x00, 0x00, 0x00, 0x00],
     [0x00, 0x9c, 0x7f, 0x00, 0x00, 0x00, 0x00, 0x00, 0x00, 0x9c, 0x7f, 0x00],
     [0x00, 0x00, 0x00, 0x00, 0x00, 0x9c, 0x7f, 0x00, 0x01, 0x00, 0x00, 0x04],
     [0x00, 0x00, 0x00, 0x00, 0x00, 0x9c, 0x7f, 0x00, 0x00, 0x00, 0x00, 0x00],
     [0x00, 0x9c, 0x7f, 0x00, 0x00, 0x00, 0x00, 0x00, 0x00, 0x9c, 0x7f, 0x00],
     [0x00, 0x00, 0x00, 0x00, 0x00, 0x9c, 0x7f, 0x00, 0x01, 0x00, 0x00, 0x04],
     [0x00, 0x00, 0x00, 0x00, 0x00, 0x9c, 0x7f, 0x00, 0x00, 0x00, 0x00, 0x00],
     [0x00, 0x9c, 0x7f, 0x00, 0x00, 0x00, 0x00, 0x00, 0x00, 0x9c, 0x7f, 0x00],
     [0x00, 0x00, 0x00, 0x00, 0x00, 0x9c, 0x7f, 0x00, 0x01, 0x00, 0x00, 0x04],
     [0x00, 0x00, 0x00, 0x00, 0x00, 0x9c, 0x7f, 0x00, 0x00, 0x00, 0x00, 0x00],
     [0x00, 0x9c, 0x7f, 0x00, 0x00, 0x00, 0x00, 0x00, 0x00, 0x9c, 0x7f, 0x00],
     [0x00, 0x00, 0x00, 0x00, 0x00, 0x9c, 0x7f, 0x00, 0x01, 0x00, 0x00, 0x04],
     [0x00, 0x00, 0x00, 0x00, 0x00, 0x9c, 0x7f, 0x00, 0x00, 0x00, 0x00, 0x00],
     [0x00, 0x9c, 0x7f, 0x00, 0x00, 0x00, 0x00, 0x00, 0x00, 0x9c, 0x7f, 0x00],
     [0x00, 0x00, 0x00, 0x00, 0x00, 0x9c, 0x7f, 0x00, 0x01, 0x00, 0x00, 0x04],
     [0x00, 0x00, 0x00, 0x00, 0x00, 0x9c, 0x7f, 0x00, 0x00, 0x00, 0x00, 0x00],
     [0x00, 0x9c, 0x7f, 0x00, 0x00, 0x00, 0x00, 0x00, 0x00, 0x9c, 0x7f, 0x00],
     [0x00, 0x00, 0x00, 0x00, 0x00, 0x9c, 0x7f, 0x00, 0x01, 0x00, 0x00, 0x04],
     [0x00, 0x00, 0x00, 0x00, 0x00, 0x9c, 0x7f, 0x00, 0x00, 0x00, 0x00, 0x00],
     [0x00, 0x9c, 0x7f, 0x00, 0x00, 0x00, 0x00, 0x00, 0x00, 0x9c, 0x7f, 0x00],
     [0x00, 0x00, 0x00, 0x00, 0x00, 0x9c, 0x7f, 0x00, 0x01, 0x00, 0x00, 0x04],
     [0x00, 0x00, 0x00, 0x00, 0x00, 0x9c, 0x7f, 0x00, 0x00, 0x00, 0x00, 0x00],
     [0x00, 0x9c, 0x7f, 0x00, 0x00, 0x00, 0x00, 0x00, 0x00, 0x9c, 0x7f, 0x00],
     [0x00, 0x00, 0x00, 0x00, 0x00, 0x9c, 0x7f, 0x00, 0x01, 0x00, 0x00, 0x04],
     [0x00, 0x00, 0x00, 0x00, 0x00, 0x9c, 0x7f, 0x00, 0x00, 0x00, 0x00, 0x00],
     [0x00, 0x9c, 0x7f, 0x00, 0x00, 0x00, 0x00, 0x00, 0x00, 0x9c, 0x7f, 0x00],
     [0x00, 0x00, 0x00, 0x00, 0x00, 0x9c, 0x7f, 0x00, 0x01, 0x00, 0x00, 0x04],
     [0x00, 0x00, 0x00, 0x00, 0x00, 0x9c, 0x7f, 0x00, 0x00, 0x00, 0x00, 0x00],
     [0x00, 0x9c, 0x7f, 0x00, 0x00, 0x00, 0x00, 0x00, 0x00, 0x9c, 0x7f, 0x00],
     [0x00, 0x00, 0x00, 0x00, 0x00, 0x9c, 0x7f, 0x00, 0x01, 0x00, 0x00, 0x04],
     [0x00, 0x00, 0x00, 0x00, 0x00, 0x9c, 0x7f, 0x00, 0x00, 0x00, 0x00, 0x00],
     [0x00, 0x9c, 0x7f, 0x00, 0x00, 0x00, 0x00, 0x00, 0x00, 0x9c, 0x7f, 0x00],
     [0x00, 0x00, 0x00, 0x00, 0x00, 0x9c, 0x7f, 0x00, 0x01, 0x00, 0x00, 0x04],
     [0x00, 0x00, 0x00, 0x00, 0x00, 0x9c, 0x7f, 0x00, 0x00, 0x00, 0x00, 0x00],
     [0x00, 0x9c, 0x7f, 0x00, 0x00, 0x00, 0x00, 0x00, 0x00, 0x9c, 0x7f, 0x00],
     [0x00, 0x00, 0x00, 0x00, 0x00, 0x9c, 0x7f, 0x00, 0x01, 0x00, 0x00, 0x04],
     [0x00, 0x00, 0x00, 0x00, 0x00, 0x9c, 0x7f, 0x00, 0x00, 0x00, 0x00, 0x00],
     [0x00, 0x9c, 0x7f, 0x00, 0x00, 0x00, 0x00, 0x00, 0x00, 0x9c, 0x7f, 0x00],
     [0x00, 0x00, 0x00, 0x00, 0x00, 0x9c, 0x7f, 0x00, 0x01, 0x00, 0x00, 0x04],
     [0x00, 0x00, 0x00, 0x00, 0x00, 0x9c, 0x7f, 0x00, 0x00, 0x00, 0x00, 0x00]]"

definition ucode_template_0x00A20F12_part2 :: "u8 list" where
  "ucode_template_0x00A20F12_part2 = concat [
     [0x00, 0x9c, 0x7f, 0x00, 0x00, 0x00, 0x00, 0x00, 0x00, 0x9c, 0x7f, 0x00],
     [0x00, 0x00, 0x00, 0x00, 0x00, 0x9c, 0x7f, 0x00, 0x01, 0x00, 0x00, 0x04],
     [0x00, 0x00, 0x00, 0x00, 0x00, 0x9c, 0x7f, 0x00, 0x00, 0x00, 0x00, 0x00],
     [0x00, 0x9c, 0x7f, 0x00, 0x00, 0x00, 0x00, 0x00, 0x00, 0x9c, 0x7f, 0x00],
     [0x00, 0x00, 0x00, 0x00, 0x00, 0x9c, 0x7f, 0x00, 0x01, 0x00, 0x00, 0x04],
     [0x00, 0x00, 0x00, 0x00, 0x00, 0x9c, 0x7f, 0x00, 0x00, 0x00, 0x00, 0x00],
     [0x00, 0x9c, 0x7f, 0x00, 0x00, 0x00, 0x00, 0x00, 0x00, 0x9c, 0x7f, 0x00],
     [0x00, 0x00, 0x00, 0x00, 0x00, 0x9c, 0x7f, 0x00, 0x01, 0x00, 0x00, 0x04],
     [0x00, 0x00, 0x00, 0x00, 0x00, 0x9c, 0x7f, 0x00, 0x00, 0x00, 0x00, 0x00],
     [0x00, 0x9c, 0x7f, 0x00, 0x00, 0x00, 0x00, 0x00, 0x00, 0x9c, 0x7f, 0x00],
     [0x00, 0x00, 0x00, 0x00, 0x00, 0x9c, 0x7f, 0x00, 0x01, 0x00, 0x00, 0x04],
     [0x00, 0x00, 0x00, 0x00, 0x00, 0x9c, 0x7f, 0x00, 0x00, 0x00, 0x00, 0x00],
     [0x00, 0x9c, 0x7f, 0x00, 0x00, 0x00, 0x00, 0x00, 0x00, 0x9c, 0x7f, 0x00],
     [0x00, 0x00, 0x00, 0x00, 0x00, 0x9c, 0x7f, 0x00, 0x01, 0x00, 0x00, 0x04],
     [0x00, 0x00, 0x00, 0x00, 0x00, 0x9c, 0x7f, 0x00, 0x00, 0x00, 0x00, 0x00],
     [0x00, 0x9c, 0x7f, 0x00, 0x00, 0x00, 0x00, 0x00, 0x00, 0x9c, 0x7f, 0x00],
     [0x00, 0x00, 0x00, 0x00, 0x00, 0x9c, 0x7f, 0x00, 0x01, 0x00, 0x00, 0x04],
     [0x00, 0x00, 0x00, 0x00, 0x00, 0x9c, 0x7f, 0x00, 0x00, 0x00, 0x00, 0x00],
     [0x00, 0x9c, 0x7f, 0x00, 0x00, 0x00, 0x00, 0x00, 0x00, 0x9c, 0x7f, 0x00],
     [0x00, 0x00, 0x00, 0x00, 0x00, 0x9c, 0x7f, 0x00, 0x01, 0x00, 0x00, 0x04],
     [0x00, 0x00, 0x00, 0x00, 0x00, 0x9c, 0x7f, 0x00, 0x00, 0x00, 0x00, 0x00],
     [0x00, 0x9c, 0x7f, 0x00, 0x00, 0x00, 0x00, 0x00, 0x00, 0x9c, 0x7f, 0x00],
     [0x00, 0x00, 0x00, 0x00, 0x00, 0x9c, 0x7f, 0x00, 0x01, 0x00, 0x00, 0x04],
     [0x00, 0x00, 0x00, 0x00, 0x00, 0x9c, 0x7f, 0x00, 0x00, 0x00, 0x00, 0x00],
     [0x00, 0x9c, 0x7f, 0x00, 0x00, 0x00, 0x00, 0x00, 0x00, 0x9c, 0x7f, 0x00],
     [0x00, 0x00, 0x00, 0x00, 0x00, 0x9c, 0x7f, 0x00, 0x01, 0x00, 0x00, 0x04],
     [0x00, 0x00, 0x00, 0x00, 0x00, 0x9c, 0x7f, 0x00, 0x00, 0x00, 0x00, 0x00],
     [0x00, 0x9c, 0x7f, 0x00, 0x00, 0x00, 0x00, 0x00, 0x00, 0x9c, 0x7f, 0x00],
     [0x00, 0x00, 0x00, 0x00, 0x00, 0x9c, 0x7f, 0x00, 0x01, 0x00, 0x00, 0x04],
     [0x00, 0x00, 0x00, 0x00, 0x00, 0x9c, 0x7f, 0x00, 0x00, 0x00, 0x00, 0x00],
     [0x00, 0x9c, 0x7f, 0x00, 0x00, 0x00, 0x00, 0x00, 0x00, 0x9c, 0x7f, 0x00],
     [0x00, 0x00, 0x00, 0x00, 0x00, 0x9c, 0x7f, 0x00, 0x01, 0x00, 0x00, 0x04],
     [0x00, 0x00, 0x00, 0x00, 0x00, 0x9c, 0x7f, 0x00, 0x00, 0x00, 0x00, 0x00],
     [0x00, 0x9c, 0x7f, 0x00, 0x00, 0x00, 0x00, 0x00, 0x00, 0x9c, 0x7f, 0x00],
     [0x00, 0x00, 0x00, 0x00, 0x00, 0x9c, 0x7f, 0x00, 0x01, 0x00, 0x00, 0x04],
     [0x00, 0x00, 0x00, 0x00, 0x00, 0x9c, 0x7f, 0x00, 0x00, 0x00, 0x00, 0x00],
     [0x00, 0x9c, 0x7f, 0x00, 0x00, 0x00, 0x00, 0x00, 0x00, 0x9c, 0x7f, 0x00],
     [0x00, 0x00, 0x00, 0x00, 0x00, 0x9c, 0x7f, 0x00, 0x01, 0x00, 0x00, 0x04],
     [0x00, 0x00, 0x00, 0x00, 0x00, 0x9c, 0x7f, 0x00, 0x00, 0x00, 0x00, 0x00],
     [0x00, 0x9c, 0x7f, 0x00, 0x00, 0x00, 0x00, 0x00, 0x00, 0x9c, 0x7f, 0x00],
     [0x00, 0x00, 0x00, 0x00, 0x00, 0x9c, 0x7f, 0x00, 0x01, 0x00, 0x00, 0x04],
     [0x00, 0x00, 0x00, 0x00, 0x00, 0x9c, 0x7f, 0x00, 0x00, 0x00, 0x00, 0x00],
     [0x00, 0x9c, 0x7f, 0x00, 0x00, 0x00, 0x00, 0x00, 0x00, 0x9c, 0x7f, 0x00],
     [0x00, 0x00, 0x00, 0x00, 0x00, 0x9c, 0x7f, 0x00, 0x01, 0x00, 0x00, 0x04],
     [0x00, 0x00, 0x00, 0x00, 0x00, 0x9c, 0x7f, 0x00, 0x00, 0x00, 0x00, 0x00],
     [0x00, 0x9c, 0x7f, 0x00, 0x00, 0x00, 0x00, 0x00, 0x00, 0x9c, 0x7f, 0x00],
     [0x00, 0x00, 0x00, 0x00, 0x00, 0x9c, 0x7f, 0x00, 0x01, 0x00, 0x00, 0x04],
     [0x00, 0x00, 0x00, 0x00, 0x00, 0x9c, 0x7f, 0x00, 0x00, 0x00, 0x00, 0x00],
     [0x00, 0x9c, 0x7f, 0x00, 0x00, 0x00, 0x00, 0x00, 0x00, 0x9c, 0x7f, 0x00],
     [0x00, 0x00, 0x00, 0x00, 0x00, 0x9c, 0x7f, 0x00, 0x01, 0x00, 0x00, 0x04],
     [0x00, 0x00, 0x00, 0x00, 0x00, 0x9c, 0x7f, 0x00, 0x00, 0x00, 0x00, 0x00],
     [0x00, 0x9c, 0x7f, 0x00, 0x00, 0x00, 0x00, 0x00, 0x00, 0x9c, 0x7f, 0x00],
     [0x00, 0x00, 0x00, 0x00, 0x00, 0x9c, 0x7f, 0x00, 0x01, 0x00, 0x00, 0x04],
     [0x00, 0x00, 0x00, 0x00, 0x00, 0x9c, 0x7f, 0x00, 0x00, 0x00, 0x00, 0x00],
     [0x00, 0x9c, 0x7f, 0x00, 0x00, 0x00, 0x00, 0x00, 0x00, 0x9c, 0x7f, 0x00],
     [0x00, 0x00, 0x00, 0x00, 0x00, 0x9c, 0x7f, 0x00, 0x01, 0x00, 0x00, 0x04],
     [0x00, 0x00, 0x00, 0x00, 0x00, 0x9c, 0x7f, 0x00, 0x00, 0x00, 0x00, 0x00],
     [0x00, 0x9c, 0x7f, 0x00, 0x00, 0x00, 0x00, 0x00, 0x00, 0x9c, 0x7f, 0x00],
     [0x00, 0x00, 0x00, 0x00, 0x00, 0x9c, 0x7f, 0x00, 0x01, 0x00, 0x00, 0x04],
     [0x00, 0x00, 0x00, 0x00, 0x00, 0x9c, 0x7f, 0x00, 0x00, 0x00, 0x00, 0x00],
     [0x00, 0x9c, 0x7f, 0x00, 0x00, 0x00, 0x00, 0x00, 0x00, 0x9c, 0x7f, 0x00],
     [0x00, 0x00, 0x00, 0x00, 0x00, 0x9c, 0x7f, 0x00, 0x01, 0x00, 0x00, 0x04],
     [0x00, 0x00, 0x00, 0x00, 0x00, 0x9c, 0x7f, 0x00, 0x00, 0x00, 0x00, 0x00],
     [0x00, 0x9c, 0x7f, 0x00, 0x00, 0x00, 0x00, 0x00, 0x00, 0x9c, 0x7f, 0x00],
     [0x00, 0x00, 0x00, 0x00, 0x00, 0x9c, 0x7f, 0x00, 0x01, 0x00, 0x00, 0x04],
     [0x00, 0x00, 0x00, 0x00, 0x00, 0x9c, 0x7f, 0x00, 0x00, 0x00, 0x00, 0x00],
     [0x00, 0x9c, 0x7f, 0x00, 0x00, 0x00, 0x00, 0x00, 0x00, 0x9c, 0x7f, 0x00],
     [0x00, 0x00, 0x00, 0x00, 0x00, 0x9c, 0x7f, 0x00, 0x01, 0x00, 0x00, 0x04],
     [0x00, 0x00, 0x00, 0x00, 0x00, 0x9c, 0x7f, 0x00, 0x00, 0x00, 0x00, 0x00],
     [0x00, 0x9c, 0x7f, 0x00, 0x00, 0x00, 0x00, 0x00, 0x00, 0x9c, 0x7f, 0x00],
     [0x00, 0x00, 0x00, 0x00, 0x00, 0x9c, 0x7f, 0x00, 0x01, 0x00, 0x00, 0x04],
     [0x00, 0x00, 0x00, 0x00, 0x00, 0x9c, 0x7f, 0x00, 0x00, 0x00, 0x00, 0x00],
     [0x00, 0x9c, 0x7f, 0x00, 0x00, 0x00, 0x00, 0x00, 0x00, 0x9c, 0x7f, 0x00],
     [0x00, 0x00, 0x00, 0x00, 0x00, 0x9c, 0x7f, 0x00, 0x01, 0x00, 0x00, 0x04],
     [0x00, 0x00, 0x00, 0x00, 0x00, 0x9c, 0x7f, 0x00, 0x00, 0x00, 0x00, 0x00],
     [0x00, 0x9c, 0x7f, 0x00, 0x00, 0x00, 0x00, 0x00, 0x00, 0x9c, 0x7f, 0x00],
     [0x00, 0x00, 0x00, 0x00, 0x00, 0x9c, 0x7f, 0x00, 0x01, 0x00, 0x00, 0x04],
     [0x00, 0x00, 0x00, 0x00, 0x00, 0x9c, 0x7f, 0x00, 0x00, 0x00, 0x00, 0x00],
     [0x00, 0x9c, 0x7f, 0x00, 0x00, 0x00, 0x00, 0x00, 0x00, 0x9c, 0x7f, 0x00],
     [0x00, 0x00, 0x00, 0x00, 0x00, 0x9c, 0x7f, 0x00, 0x01, 0x00, 0x00, 0x04],
     [0x00, 0x00, 0x00, 0x00, 0x00, 0x9c, 0x7f, 0x00, 0x00, 0x00, 0x00, 0x00],
     [0x00, 0x9c, 0x7f, 0x00, 0x00, 0x00, 0x00, 0x00, 0x00, 0x9c, 0x7f, 0x00],
     [0x00, 0x00, 0x00, 0x00, 0x00, 0x9c, 0x7f, 0x00, 0x01, 0x00, 0x00, 0x04],
     [0x00, 0x00, 0x00, 0x00, 0x00, 0x9c, 0x7f, 0x00, 0x00, 0x00, 0x00, 0x00],
     [0x00, 0x9c, 0x7f, 0x00, 0x00, 0x00, 0x00, 0x00, 0x00, 0x9c, 0x7f, 0x00],
     [0x00, 0x00, 0x00, 0x00, 0x00, 0x9c, 0x7f, 0x00, 0x01, 0x00, 0x00, 0x04],
     [0x00, 0x00, 0x00, 0x00, 0x00, 0x9c, 0x7f, 0x00, 0x00, 0x00, 0x00, 0x00],
     [0x00, 0x9c, 0x7f, 0x00, 0x00, 0x00, 0x00, 0x00, 0x00, 0x9c, 0x7f, 0x00],
     [0x00, 0x00, 0x00, 0x00, 0x00, 0x9c, 0x7f, 0x00, 0x01, 0x00, 0x00, 0x04],
     [0x00, 0x00, 0x00, 0x00, 0x00, 0x9c, 0x7f, 0x00, 0x00, 0x00, 0x00, 0x00],
     [0x00, 0x9c, 0x7f, 0x00, 0x00, 0x00, 0x00, 0x00, 0x00, 0x9c, 0x7f, 0x00],
     [0x00, 0x00, 0x00, 0x00, 0x00, 0x9c, 0x7f, 0x00, 0x01, 0x00, 0x00, 0x04],
     [0x00, 0x00, 0x00, 0x00, 0x00, 0x9c, 0x7f, 0x00, 0x00, 0x00, 0x00, 0x00],
     [0x00, 0x9c, 0x7f, 0x00, 0x00, 0x00, 0x00, 0x00, 0x00, 0x9c, 0x7f, 0x00],
     [0x00, 0x00, 0x00, 0x00, 0x00, 0x9c, 0x7f, 0x00, 0x01, 0x00, 0x00, 0x04],
     [0x00, 0x00, 0x00, 0x00, 0x00, 0x9c, 0x7f, 0x00, 0x00, 0x00, 0x00, 0x00],
     [0x00, 0x9c, 0x7f, 0x00, 0x00, 0x00, 0x00, 0x00, 0x00, 0x9c, 0x7f, 0x00],
     [0x00, 0x00, 0x00, 0x00, 0x00, 0x9c, 0x7f, 0x00, 0x01, 0x00, 0x00, 0x04],
     [0x00, 0x00, 0x00, 0x00, 0x00, 0x9c, 0x7f, 0x00, 0x00, 0x00, 0x00, 0x00],
     [0x00, 0x9c, 0x7f, 0x00, 0x00, 0x00, 0x00, 0x00, 0x00, 0x9c, 0x7f, 0x00],
     [0x00, 0x00, 0x00, 0x00, 0x00, 0x9c, 0x7f, 0x00, 0x01, 0x00, 0x00, 0x04],
     [0x00, 0x00, 0x00, 0x00, 0x00, 0x9c, 0x7f, 0x00, 0x00, 0x00, 0x00, 0x00],
     [0x00, 0x9c, 0x7f, 0x00, 0x00, 0x00, 0x00, 0x00, 0x00, 0x9c, 0x7f, 0x00],
     [0x00, 0x00, 0x00, 0x00, 0x00, 0x9c, 0x7f, 0x00, 0x01, 0x00, 0x00, 0x04],
     [0x00, 0x00, 0x00, 0x00, 0x00, 0x9c, 0x7f, 0x00, 0x00, 0x00, 0x00, 0x00],
     [0x00, 0x9c, 0x7f, 0x00, 0x00, 0x00, 0x00, 0x00, 0x00, 0x9c, 0x7f, 0x00],
     [0x00, 0x00, 0x00, 0x00, 0x00, 0x9c, 0x7f, 0x00, 0x01, 0x00, 0x00, 0x04],
     [0x00, 0x00, 0x00, 0x00, 0x00, 0x9c, 0x7f, 0x00, 0x00, 0x00, 0x00, 0x00],
     [0x00, 0x9c, 0x7f, 0x00, 0x00, 0x00, 0x00, 0x00, 0x00, 0x9c, 0x7f, 0x00],
     [0x00, 0x00, 0x00, 0x00, 0x00, 0x9c, 0x7f, 0x00, 0x01, 0x00, 0x00, 0x04],
     [0x00, 0x00, 0x00, 0x00, 0x00, 0x9c, 0x7f, 0x00, 0x00, 0x00, 0x00, 0x00],
     [0x00, 0x9c, 0x7f, 0x00, 0x00, 0x00, 0x00, 0x00, 0x00, 0x9c, 0x7f, 0x00],
     [0x00, 0x00, 0x00, 0x00, 0x00, 0x9c, 0x7f, 0x00, 0x01, 0x00, 0x00, 0x04],
     [0x00, 0x00, 0x00, 0x00, 0x00, 0x9c, 0x7f, 0x00, 0x00, 0x00, 0x00, 0x00],
     [0x00, 0x9c, 0x7f, 0x00, 0x00, 0x00, 0x00, 0x00, 0x00, 0x9c, 0x7f, 0x00],
     [0x00, 0x00, 0x00, 0x00, 0x00, 0x9c, 0x7f, 0x00, 0x01, 0x00, 0x00, 0x04],
     [0x00, 0x00, 0x00, 0x00, 0x00, 0x9c, 0x7f, 0x00, 0x00, 0x00, 0x00, 0x00],
     [0x00, 0x9c, 0x7f, 0x00, 0x00, 0x00, 0x00, 0x00, 0x00, 0x9c, 0x7f, 0x00],
     [0x00, 0x00, 0x00, 0x00, 0x00, 0x9c, 0x7f, 0x00, 0x01, 0x00, 0x00, 0x04],
     [0x00, 0x00, 0x00, 0x00, 0x00, 0x9c, 0x7f, 0x00, 0x00, 0x00, 0x00, 0x00]]"

definition ucode_template_0x00A20F12_part3 :: "u8 list" where
  "ucode_template_0x00A20F12_part3 = concat [
     [0x00, 0x9c, 0x7f, 0x00, 0x00, 0x00, 0x00, 0x00, 0x00, 0x9c, 0x7f, 0x00],
     [0x00, 0x00, 0x00, 0x00, 0x00, 0x9c, 0x7f, 0x00, 0x01, 0x00, 0x00, 0x04],
     [0x00, 0x00, 0x00, 0x00, 0x00, 0x9c, 0x7f, 0x00, 0x00, 0x00, 0x00, 0x00],
     [0x00, 0x9c, 0x7f, 0x00, 0x00, 0x00, 0x00, 0x00, 0x00, 0x9c, 0x7f, 0x00],
     [0x00, 0x00, 0x00, 0x00, 0x00, 0x9c, 0x7f, 0x00, 0x01, 0x00, 0x00, 0x04],
     [0x00, 0x00, 0x00, 0x00, 0x00, 0x9c, 0x7f, 0x00, 0x00, 0x00, 0x00, 0x00],
     [0x00, 0x9c, 0x7f, 0x00, 0x00, 0x00, 0x00, 0x00, 0x00, 0x9c, 0x7f, 0x00],
     [0x00, 0x00, 0x00, 0x00, 0x00, 0x9c, 0x7f, 0x00, 0x01, 0x00, 0x00, 0x04],
     [0x00, 0x00, 0x00, 0x00, 0x00, 0x9c, 0x7f, 0x00, 0x00, 0x00, 0x00, 0x00],
     [0x00, 0x9c, 0x7f, 0x00, 0x00, 0x00, 0x00, 0x00, 0x00, 0x9c, 0x7f, 0x00],
     [0x00, 0x00, 0x00, 0x00, 0x00, 0x9c, 0x7f, 0x00, 0x01, 0x00, 0x00, 0x04],
     [0x00, 0x00, 0x00, 0x00, 0x00, 0x9c, 0x7f, 0x00, 0x00, 0x00, 0x00, 0x00],
     [0x00, 0x9c, 0x7f, 0x00, 0x00, 0x00, 0x00, 0x00, 0x00, 0x9c, 0x7f, 0x00],
     [0x00, 0x00, 0x00, 0x00, 0x00, 0x9c, 0x7f, 0x00, 0x01, 0x00, 0x00, 0x04],
     [0x00, 0x00, 0x00, 0x00, 0x00, 0x9c, 0x7f, 0x00, 0x00, 0x00, 0x00, 0x00],
     [0x00, 0x9c, 0x7f, 0x00, 0x00, 0x00, 0x00, 0x00, 0x00, 0x9c, 0x7f, 0x00],
     [0x00, 0x00, 0x00, 0x00, 0x00, 0x9c, 0x7f, 0x00, 0x01, 0x00, 0x00, 0x04],
     [0x00, 0x00, 0x00, 0x00, 0x00, 0x9c, 0x7f, 0x00, 0x00, 0x00, 0x00, 0x00],
     [0x00, 0x9c, 0x7f, 0x00, 0x00, 0x00, 0x00, 0x00, 0x00, 0x9c, 0x7f, 0x00],
     [0x00, 0x00, 0x00, 0x00, 0x00, 0x9c, 0x7f, 0x00, 0x01, 0x00, 0x00, 0x04],
     [0x00, 0x00, 0x00, 0x00, 0x00, 0x9c, 0x7f, 0x00, 0x00, 0x00, 0x00, 0x00],
     [0x00, 0x9c, 0x7f, 0x00, 0x00, 0x00, 0x00, 0x00, 0x00, 0x9c, 0x7f, 0x00],
     [0x00, 0x00, 0x00, 0x00, 0x00, 0x9c, 0x7f, 0x00, 0x01, 0x00, 0x00, 0x04],
     [0x00, 0x00, 0x00, 0x00, 0x00, 0x9c, 0x7f, 0x00, 0x00, 0x00, 0x00, 0x00],
     [0x00, 0x9c, 0x7f, 0x00, 0x00, 0x00, 0x00, 0x00, 0x00, 0x9c, 0x7f, 0x00],
     [0x00, 0x00, 0x00, 0x00, 0x00, 0x9c, 0x7f, 0x00, 0x01, 0x00, 0x00, 0x04],
     [0x00, 0x00, 0x00, 0x00, 0x00, 0x9c, 0x7f, 0x00, 0x00, 0x00, 0x00, 0x00],
     [0x00, 0x9c, 0x7f, 0x00, 0x00, 0x00, 0x00, 0x00, 0x00, 0x9c, 0x7f, 0x00],
     [0x00, 0x00, 0x00, 0x00, 0x00, 0x9c, 0x7f, 0x00, 0x01, 0x00, 0x00, 0x04],
     [0x00, 0x00, 0x00, 0x00, 0x00, 0x9c, 0x7f, 0x00, 0x00, 0x00, 0x00, 0x00],
     [0x00, 0x9c, 0x7f, 0x00, 0x00, 0x00, 0x00, 0x00, 0x00, 0x9c, 0x7f, 0x00],
     [0x00, 0x00, 0x00, 0x00, 0x00, 0x9c, 0x7f, 0x00, 0x01, 0x00, 0x00, 0x04],
     [0x00, 0x00, 0x00, 0x00, 0x00, 0x9c, 0x7f, 0x00, 0x00, 0x00, 0x00, 0x00],
     [0x00, 0x9c, 0x7f, 0x00, 0x00, 0x00, 0x00, 0x00, 0x00, 0x9c, 0x7f, 0x00],
     [0x00, 0x00, 0x00, 0x00, 0x00, 0x9c, 0x7f, 0x00, 0x01, 0x00, 0x00, 0x04],
     [0x00, 0x00, 0x00, 0x00, 0x00, 0x9c, 0x7f, 0x00, 0x00, 0x00, 0x00, 0x00],
     [0x00, 0x9c, 0x7f, 0x00, 0x00, 0x00, 0x00, 0x00, 0x00, 0x9c, 0x7f, 0x00],
     [0x00, 0x00, 0x00, 0x00, 0x00, 0x9c, 0x7f, 0x00, 0x01, 0x00, 0x00, 0x04],
     [0x00, 0x00, 0x00, 0x00, 0x00, 0x9c, 0x7f, 0x00, 0x00, 0x00, 0x00, 0x00],
     [0x00, 0x9c, 0x7f, 0x00, 0x00, 0x00, 0x00, 0x00, 0x00, 0x9c, 0x7f, 0x00],
     [0x00, 0x00, 0x00, 0x00, 0x00, 0x9c, 0x7f, 0x00, 0x01, 0x00, 0x00, 0x04],
     [0x00, 0x00, 0x00, 0x00, 0x00, 0x9c, 0x7f, 0x00, 0x00, 0x00, 0x00, 0x00],
     [0x00, 0x9c, 0x7f, 0x00, 0x00, 0x00, 0x00, 0x00, 0x00, 0x9c, 0x7f, 0x00],
     [0x00, 0x00, 0x00, 0x00, 0x00, 0x9c, 0x7f, 0x00, 0x01, 0x00, 0x00, 0x04],
     [0x00, 0x00, 0x00, 0x00, 0x00, 0x9c, 0x7f, 0x00, 0x00, 0x00, 0x00, 0x00],
     [0x00, 0x9c, 0x7f, 0x00, 0x00, 0x00, 0x00, 0x00, 0x00, 0x9c, 0x7f, 0x00],
     [0x00, 0x00, 0x00, 0x00, 0x00, 0x9c, 0x7f, 0x00, 0x01, 0x00, 0x00, 0x04],
     [0x00, 0x00, 0x00, 0x00, 0x00, 0x9c, 0x7f, 0x00, 0x00, 0x00, 0x00, 0x00],
     [0x00, 0x9c, 0x7f, 0x00, 0x00, 0x00, 0x00, 0x00, 0x00, 0x9c, 0x7f, 0x00],
     [0x00, 0x00, 0x00, 0x00, 0x00, 0x9c, 0x7f, 0x00, 0x01, 0x00, 0x00, 0x04],
     [0x00, 0x00, 0x00, 0x00, 0x00, 0x9c, 0x7f, 0x00, 0x00, 0x00, 0x00, 0x00],
     [0x00, 0x9c, 0x7f, 0x00, 0x00, 0x00, 0x00, 0x00, 0x00, 0x9c, 0x7f, 0x00],
     [0x00, 0x00, 0x00, 0x00, 0x00, 0x9c, 0x7f, 0x00, 0x01, 0x00, 0x00, 0x04],
     [0x00, 0x00, 0x00, 0x00, 0x00, 0x9c, 0x7f, 0x00, 0x00, 0x00, 0x00, 0x00],
     [0x00, 0x9c, 0x7f, 0x00, 0x00, 0x00, 0x00, 0x00, 0x00, 0x9c, 0x7f, 0x00],
     [0x00, 0x00, 0x00, 0x00, 0x00, 0x9c, 0x7f, 0x00, 0x01, 0x00, 0x00, 0x04],
     [0x00, 0x00, 0x00, 0x00, 0x00, 0x9c, 0x7f, 0x00, 0x00, 0x00, 0x00, 0x00],
     [0x00, 0x9c, 0x7f, 0x00, 0x00, 0x00, 0x00, 0x00, 0x00, 0x9c, 0x7f, 0x00],
     [0x00, 0x00, 0x00, 0x00, 0x00, 0x9c, 0x7f, 0x00, 0x01, 0x00, 0x00, 0x04],
     [0x00, 0x00, 0x00, 0x00, 0x00, 0x9c, 0x7f, 0x00, 0x00, 0x00, 0x00, 0x00],
     [0x00, 0x9c, 0x7f, 0x00, 0x00, 0x00, 0x00, 0x00, 0x00, 0x9c, 0x7f, 0x00],
     [0x00, 0x00, 0x00, 0x00, 0x00, 0x9c, 0x7f, 0x00, 0x01, 0x00, 0x00, 0x04],
     [0x00, 0x00, 0x00, 0x00, 0x00, 0x9c, 0x7f, 0x00, 0x00, 0x00, 0x00, 0x00],
     [0x00, 0x9c, 0x7f, 0x00, 0x00, 0x00, 0x00, 0x00, 0x00, 0x9c, 0x7f, 0x00],
     [0x00, 0x00, 0x00, 0x00, 0x00, 0x9c, 0x7f, 0x00, 0x01, 0x00, 0x00, 0x04],
     [0x00, 0x00, 0x00, 0x00, 0x00, 0x9c, 0x7f, 0x00, 0x00, 0x00, 0x00, 0x00],
     [0x00, 0x9c, 0x7f, 0x00, 0x00, 0x00, 0x00, 0x00, 0x00, 0x9c, 0x7f, 0x00],
     [0x00, 0x00, 0x00, 0x00, 0x00, 0x9c, 0x7f, 0x00, 0x01, 0x00, 0x00, 0x04],
     [0x00, 0x00, 0x00, 0x00, 0x00, 0x9c, 0x7f, 0x00, 0x00, 0x00, 0x00, 0x00],
     [0x00, 0x9c, 0x7f, 0x00, 0x00, 0x00, 0x00, 0x00, 0x00, 0x9c, 0x7f, 0x00],
     [0x00, 0x00, 0x00, 0x00, 0x00, 0x9c, 0x7f, 0x00, 0x01, 0x00, 0x00, 0x04],
     [0x00, 0x00, 0x00, 0x00, 0x00, 0x9c, 0x7f, 0x00, 0x00, 0x00, 0x00, 0x00],
     [0x00, 0x9c, 0x7f, 0x00, 0x00, 0x00, 0x00, 0x00, 0x00, 0x9c, 0x7f, 0x00],
     [0x00, 0x00, 0x00, 0x00, 0x00, 0x9c, 0x7f, 0x00, 0x01, 0x00, 0x00, 0x04],
     [0x00, 0x00, 0x00, 0x00, 0x00, 0x9c, 0x7f, 0x00, 0x00, 0x00, 0x00, 0x00],
     [0x00, 0x9c, 0x7f, 0x00, 0x00, 0x00, 0x00, 0x00, 0x00, 0x9c, 0x7f, 0x00],
     [0x00, 0x00, 0x00, 0x00, 0x00, 0x9c, 0x7f, 0x00, 0x01, 0x00, 0x00, 0x04],
     [0x00, 0x00, 0x00, 0x00, 0x00, 0x9c, 0x7f, 0x00, 0x00, 0x00, 0x00, 0x00],
     [0x00, 0x9c, 0x7f, 0x00, 0x00, 0x00, 0x00, 0x00, 0x00, 0x9c, 0x7f, 0x00],
     [0x00, 0x00, 0x00, 0x00, 0x00, 0x9c, 0x7f, 0x00, 0x01, 0x00, 0x00, 0x04],
     [0x00, 0x00, 0x00, 0x00, 0x00, 0x9c, 0x7f, 0x00, 0x00, 0x00, 0x00, 0x00],
     [0x00, 0x9c, 0x7f, 0x00, 0x00, 0x00, 0x00, 0x00, 0x00, 0x9c, 0x7f, 0x00],
     [0x00, 0x00, 0x00, 0x00, 0x00, 0x9c, 0x7f, 0x00, 0x01, 0x00, 0x00, 0x04],
     [0x00, 0x00, 0x00, 0x00, 0x00, 0x9c, 0x7f, 0x00, 0x00, 0x00, 0x00, 0x00],
     [0x00, 0x9c, 0x7f, 0x00, 0x00, 0x00, 0x00, 0x00, 0x00, 0x9c, 0x7f, 0x00],
     [0x00, 0x00, 0x00, 0x00, 0x00, 0x9c, 0x7f, 0x00, 0x01, 0x00, 0x00, 0x04],
     [0x00, 0x00, 0x00, 0x00, 0x00, 0x9c, 0x7f, 0x00, 0x00, 0x00, 0x00, 0x00],
     [0x00, 0x9c, 0x7f, 0x00, 0x00, 0x00, 0x00, 0x00, 0x00, 0x9c, 0x7f, 0x00],
     [0x00, 0x00, 0x00, 0x00, 0x00, 0x9c, 0x7f, 0x00, 0x01, 0x00, 0x00, 0x04],
     [0x00, 0x00, 0x00, 0x00, 0x00, 0x9c, 0x7f, 0x00, 0x00, 0x00, 0x00, 0x00],
     [0x00, 0x9c, 0x7f, 0x00, 0x00, 0x00, 0x00, 0x00, 0x00, 0x9c, 0x7f, 0x00],
     [0x00, 0x00, 0x00, 0x00, 0x00, 0x9c, 0x7f, 0x00, 0x01, 0x00, 0x00, 0x04],
     [0x00, 0x00, 0x00, 0x00, 0x00, 0x9c, 0x7f, 0x00, 0x00, 0x00, 0x00, 0x00],
     [0x00, 0x9c, 0x7f, 0x00, 0x00, 0x00, 0x00, 0x00, 0x00, 0x9c, 0x7f, 0x00],
     [0x00, 0x00, 0x00, 0x00, 0x00, 0x9c, 0x7f, 0x00, 0x01, 0x00, 0x00, 0x04],
     [0x00, 0x00, 0x00, 0x00, 0x00, 0x9c, 0x7f, 0x00, 0x00, 0x00, 0x00, 0x00],
     [0x00, 0x9c, 0x7f, 0x00, 0x00, 0x00, 0x00, 0x00, 0x00, 0x9c, 0x7f, 0x00],
     [0x00, 0x00, 0x00, 0x00, 0x00, 0x9c, 0x7f, 0x00, 0x01, 0x00, 0x00, 0x04],
     [0x00, 0x00, 0x00, 0x00, 0x00, 0x9c, 0x7f, 0x00, 0x00, 0x00, 0x00, 0x00],
     [0x00, 0x9c, 0x7f, 0x00, 0x00, 0x00, 0x00, 0x00, 0x00, 0x9c, 0x7f, 0x00],
     [0x00, 0x00, 0x00, 0x00, 0x00, 0x9c, 0x7f, 0x00, 0x01, 0x00, 0x00, 0x04],
     [0x00, 0x00, 0x00, 0x00, 0x00, 0x9c, 0x7f, 0x00, 0x00, 0x00, 0x00, 0x00],
     [0x00, 0x9c, 0x7f, 0x00, 0x00, 0x00, 0x00, 0x00, 0x00, 0x9c, 0x7f, 0x00],
     [0x00, 0x00, 0x00, 0x00, 0x00, 0x9c, 0x7f, 0x00, 0x01, 0x00, 0x00, 0x04]]"

definition ucode_template_0x00A20F12 :: "u8 list" where
  "ucode_template_0x00A20F12 = ucode_template_0x00A20F12_part0 @ ucode_template_0x00A20F12_part1 @ ucode_template_0x00A20F12_part2 @ ucode_template_0x00A20F12_part3"

lemma length_template_0x00A20F12: "length ucode_template_0x00A20F12 = 5568"
  by (simp add: ucode_template_0x00A20F12_def
      ucode_template_0x00A20F12_part0_def
      ucode_template_0x00A20F12_part1_def
      ucode_template_0x00A20F12_part2_def
      ucode_template_0x00A20F12_part3_def)

definition ucode_template_0x00A60F12_part0 :: "u8 list" where
  "ucode_template_0x00A60F12_part0 = concat [
     [0x22, 0x20, 0x13, 0x05, 0x20, 0x12, 0x60, 0x0a, 0x05, 0x80, 0x5c, 0x01],
     [0x00, 0x00, 0x00, 0x00, 0x00, 0x00, 0x00, 0x00, 0x00, 0x00, 0x00, 0x00],
     [0x12, 0xa6, 0x00, 0x00, 0x00, 0x00, 0x00, 0x00, 0x5d, 0x85, 0x95, 0x44],
     [0x9e, 0xf4, 0xf2, 0x16, 0xfb, 0xad, 0x1c, 0xa0, 0x06, 0x48, 0x2e, 0x4c],
     [0xdb, 0x46, 0x4d, 0xa1, 0x52, 0x46, 0x9f, 0x63, 0x79, 0x84, 0xeb, 0x54],
     [0x30, 0x02, 0x09, 0x82, 0x5e, 0x79, 0xb7, 0x3b, 0x75, 0x79, 0xa1, 0x7b],
     [0x1c, 0xbe, 0x58, 0x53, 0x6a, 0xe9, 0x9a, 0xbc, 0xa9, 0x88, 0xe6, 0x0e],
     [0xcf, 0xbf, 0x86, 0x2e, 0x36, 0xa8, 0x2c, 0x88, 0x07, 0x07, 0xa8, 0x62],
     [0x42, 0x6e, 0x37, 0x68, 0xbc, 0x4c, 0x2a, 0xca, 0x6b, 0xfe, 0x7d, 0x0e],
     [0x1f, 0xd1, 0x7d, 0xb5, 0xfc, 0xbb, 0x2a, 0x20, 0xee, 0x01, 0x25, 0xd7],
     [0xf2, 0x84, 0x77, 0x95, 0xf0, 0x89, 0xbd, 0x70, 0xa8, 0x53, 0xb9, 0xe9],
     [0x1b, 0x5d, 0xdc, 0x0b, 0x14, 0x04, 0x7e, 0xca, 0x43, 0xc1, 0xef, 0x61],
     [0xc4, 0x94, 0x5f, 0x8a, 0x84, 0x70, 0x70, 0xfb, 0x4b, 0x6f, 0x97, 0x18],
     [0x78, 0x39, 0x20, 0x6e, 0x7a, 0x7c, 0xe8, 0x98, 0x7d, 0x0b, 0x3c, 0xeb],
     [0xf1, 0x0a, 0xc2, 0xf0, 0x51, 0x86, 0xb1, 0x55, 0xdd, 0xd3, 0xf9, 0x0e],
     [0x58, 0x7f, 0x95, 0x81, 0xe7, 0x80, 0x78, 0x4b, 0x7e, 0x9d, 0x77, 0x20],
     [0x01, 0x27, 0xee, 0x01, 0x89, 0x3e, 0x05, 0x0c, 0x20, 0xe1, 0x5d, 0x47],
     [0x7b, 0x25, 0xc8, 0xef, 0x3f, 0x9d, 0xa9, 0x4f, 0x0f, 0xb1, 0x09, 0x87],
     [0xcf, 0x2d, 0x6d, 0x7b, 0x9f, 0x7c, 0xbe, 0xff, 0xb2, 0x24, 0x92, 0xb6],
     [0x73, 0xc9, 0xa9, 0x3c, 0xb4, 0xe2, 0xbe, 0xa3, 0x36, 0xe4, 0xf5, 0x00],
     [0x89, 0x9b, 0xbc, 0x0f, 0xc3, 0xff, 0xcc, 0x2d, 0x9d, 0x11, 0x05, 0x61],
     [0x1a, 0x43, 0xe0, 0xcd, 0xae, 0xd0, 0x9a, 0x57, 0xa6, 0xaf, 0x31, 0xac],
     [0x81, 0x5e, 0x4c, 0x12, 0x6b, 0xfa, 0x5a, 0xf7, 0x02, 0xc7, 0x9c, 0x98],
     [0x13, 0x9d, 0x80, 0xf4, 0xa8, 0x5b, 0xc8, 0x36, 0xa4, 0xc6, 0x11, 0x86],
     [0x80, 0x00, 0x00, 0x00, 0x00, 0x00, 0x00, 0x00, 0x00, 0x00, 0x00, 0x00],
     [0x00, 0x00, 0x00, 0x00, 0xae, 0x46, 0x34, 0xb8, 0x38, 0x05, 0xea, 0x28],
     [0xd7, 0xec, 0xac, 0x00, 0x53, 0xa6, 0xab, 0x6c, 0x00, 0x00, 0x00, 0x00],
     [0x00, 0x00, 0x00, 0x00, 0x00, 0x00, 0x00, 0x00, 0x00, 0x00, 0x00, 0x00],
     [0x00, 0x00, 0x00, 0x00, 0x00, 0x00, 0x00, 0x00, 0x00, 0x00, 0x00, 0x00],
     [0x00, 0x00, 0x00, 0x00, 0x00, 0x00, 0x00, 0x00, 0x00, 0x00, 0x00, 0x00],
     [0x00, 0x00, 0x00, 0x00, 0x00, 0x00, 0x00, 0x00, 0x00, 0x00, 0x00, 0x00],
     [0x00, 0x00, 0x00, 0x00, 0x00, 0x00, 0x00, 0x00, 0x00, 0x00, 0x00, 0x00],
     [0x00, 0x00, 0x00, 0x00, 0x00, 0x00, 0x00, 0x00, 0x00, 0x00, 0x00, 0x00],
     [0x00, 0x00, 0x00, 0x00, 0x00, 0x00, 0x00, 0x00, 0x00, 0x00, 0x00, 0x00],
     [0x00, 0x00, 0x00, 0x00, 0x00, 0x00, 0x00, 0x00, 0x00, 0x00, 0x00, 0x00],
     [0x00, 0x00, 0x00, 0x00, 0x00, 0x00, 0x00, 0x00, 0x00, 0x00, 0x00, 0x00],
     [0x00, 0x00, 0x00, 0x00, 0x00, 0x00, 0x00, 0x00, 0x00, 0x00, 0x00, 0x00],
     [0x00, 0x00, 0x00, 0x00, 0x00, 0x00, 0x00, 0x00, 0x00, 0x00, 0x00, 0x00],
     [0x00, 0x00, 0x00, 0x00, 0x00, 0x00, 0x00, 0x00, 0x00, 0x00, 0x00, 0x00],
     [0x00, 0x00, 0x00, 0x00, 0x00, 0x00, 0x00, 0x00, 0x00, 0x00, 0x00, 0x00],
     [0x00, 0x00, 0x00, 0x00, 0x00, 0x00, 0x00, 0x00, 0x00, 0x00, 0x00, 0x00],
     [0x00, 0x00, 0x00, 0x00, 0x00, 0x00, 0x00, 0x00, 0x00, 0x00, 0x00, 0x00],
     [0x00, 0x00, 0x00, 0x00, 0x00, 0x00, 0x00, 0x00, 0x00, 0x00, 0x00, 0x00],
     [0x00, 0x00, 0x00, 0x00, 0x00, 0x00, 0x00, 0x00, 0x00, 0x00, 0x00, 0x00],
     [0x00, 0x00, 0x00, 0x00, 0x00, 0x00, 0x00, 0x00, 0x00, 0x00, 0x00, 0x00],
     [0x00, 0x00, 0x00, 0x13, 0x17, 0xc1, 0x98, 0x77, 0x22, 0xbf, 0x77, 0xd8],
     [0x49, 0xc0, 0x2d, 0x62, 0x92, 0x15, 0x46, 0x34, 0x7a, 0x74, 0x7e, 0x5f],
     [0x89, 0x04, 0xfa, 0xf9, 0xbb, 0x1a, 0x2f, 0x47, 0x9f, 0xc9, 0xdb, 0x99],
     [0x79, 0x43, 0x5e, 0x50, 0xd7, 0x94, 0x35, 0xe5, 0x0d, 0x79, 0x43, 0x5e],
     [0x50, 0xd7, 0x94, 0x35, 0xe5, 0x0d, 0x79, 0x43, 0x5e, 0x50, 0xd7, 0x94],
     [0x35, 0xe5, 0x0d, 0x79, 0x43, 0x5e, 0x50, 0xd7, 0x94, 0x35, 0xe5, 0x0d],
     [0x79, 0x43, 0x5e, 0x50, 0xd7, 0x94, 0x35, 0xe5, 0x0d, 0x79, 0x43, 0x5e],
     [0x50, 0xd7, 0x94, 0x35, 0xe5, 0x0d, 0x79, 0x43, 0x5e, 0x50, 0xd7, 0x94],
     [0x35, 0xe5, 0x0d, 0x79, 0x43, 0x5e, 0x50, 0xd7, 0x94, 0x35, 0xe5, 0x0d],
     [0x79, 0x43, 0x5e, 0x50, 0xd7, 0x94, 0x35, 0xe5, 0x0d, 0x79, 0x43, 0x5e],
     [0x50, 0xd7, 0x94, 0x35, 0xe5, 0x0d, 0x79, 0x43, 0x5e, 0x50, 0xd7, 0x94],
     [0x35, 0xe5, 0x0d, 0x79, 0x43, 0x5e, 0x50, 0xd7, 0x94, 0x35, 0xe5, 0x0d],
     [0x79, 0x43, 0x5e, 0x50, 0xd7, 0x94, 0x35, 0xe5, 0x0d, 0x79, 0x43, 0x5e],
     [0x50, 0xd7, 0x94, 0x35, 0xe5, 0x0d, 0x79, 0x43, 0x5e, 0x50, 0xd7, 0x94],
     [0x35, 0xe5, 0x0d, 0x79, 0x43, 0x5e, 0x50, 0xd7, 0x94, 0x35, 0xe5, 0x0d],
     [0x79, 0x43, 0x5e, 0x50, 0xd7, 0x94, 0x35, 0xe5, 0x0d, 0x79, 0x43, 0x5e],
     [0x50, 0xd7, 0x94, 0x35, 0xe5, 0x0d, 0x79, 0x43, 0x5e, 0x50, 0xd7, 0x94],
     [0x35, 0xe5, 0x0d, 0x79, 0x43, 0x5e, 0x50, 0xd7, 0x94, 0x35, 0xe5, 0x0d],
     [0x79, 0x43, 0x5e, 0x50, 0xd7, 0x94, 0x35, 0xe5, 0x0d, 0x79, 0x43, 0x5e],
     [0x50, 0xd7, 0x94, 0x35, 0xe5, 0x0d, 0x79, 0x43, 0x5e, 0x50, 0xd7, 0x94],
     [0x35, 0xe5, 0x0d, 0x79, 0x43, 0x5e, 0x50, 0xd7, 0x94, 0x35, 0xe5, 0x0d],
     [0x79, 0x43, 0x5e, 0x50, 0xd7, 0x94, 0x35, 0xe5, 0x00, 0x00, 0x00, 0x00],
     [0x20, 0x12, 0x60, 0x0a, 0x00, 0x00, 0x00, 0xe0, 0x00, 0x00, 0x00, 0xb0],
     [0x00, 0x00, 0x00, 0x60, 0x00, 0x00, 0x00, 0x30, 0x00, 0x00, 0x00, 0x60],
     [0x00, 0x00, 0x00, 0x20, 0x00, 0x00, 0x00, 0x50, 0x00, 0x00, 0x00, 0xf0],
     [0x00, 0x00, 0x00, 0x90, 0x00, 0x00, 0x00, 0xd0, 0x00, 0x00, 0x00, 0x40],
     [0x00, 0x00, 0x00, 0xe0, 0x00, 0x00, 0x00, 0xa0, 0x00, 0x00, 0x00, 0x70],
     [0x00, 0x00, 0x00, 0x50, 0x00, 0x00, 0x00, 0xc0, 0x00, 0x00, 0x00, 0xd0],
     [0x00, 0x00, 0x00, 0xa0, 0x00, 0x00, 0x00, 0x80, 0x00, 0x00, 0x00, 0x60],
     [0x00, 0x00, 0x00, 0xe0, 0x00, 0x00, 0x00, 0xd0, 0x00, 0x00, 0x00, 0x70],
     [0x00, 0x00, 0x00, 0x00, 0x00, 0x00, 0x00, 0x90, 0x00, 0x00, 0x00, 0x30],
     [0x00, 0x00, 0x00, 0x70, 0x00, 0x00, 0x00, 0x90, 0x00, 0x00, 0x00, 0x80],
     [0x00, 0x00, 0x00, 0xb0, 0x00, 0x00, 0x00, 0xa0, 0x00, 0x00, 0x00, 0x70],
     [0x00, 0x00, 0x00, 0x90, 0x00, 0x00, 0x00, 0x40, 0x00, 0x00, 0x00, 0x10],
     [0x00, 0x00, 0x00, 0x10, 0x00, 0x00, 0x00, 0xc0, 0x00, 0x00, 0x00, 0x30],
     [0x00, 0x00, 0x00, 0x00, 0x00, 0x9c, 0x7f, 0x00, 0x00, 0x00, 0x00, 0x00],
     [0x00, 0x9c, 0x7f, 0x00, 0x00, 0x00, 0x00, 0x00, 0x00, 0x9c, 0x7f, 0x00],
     [0x00, 0x00, 0x00, 0x00, 0x00, 0x9c, 0x7f, 0x00, 0x01, 0x00, 0x00, 0x04],
     [0x00, 0x00, 0x00, 0x00, 0x00, 0x9c, 0x7f, 0x00, 0x00, 0x00, 0x00, 0x00],
     [0x00, 0x9c, 0x7f, 0x00, 0x00, 0x00, 0x00, 0x00, 0x00, 0x9c, 0x7f, 0x00],
     [0x00, 0x00, 0x00, 0x00, 0x00, 0x9c, 0x7f, 0x00, 0x01, 0x00, 0x00, 0x04],
     [0x00, 0x00, 0x00, 0x00, 0x00, 0x9c, 0x7f, 0x00, 0x00, 0x00, 0x00, 0x00],
     [0x00, 0x9c, 0x7f, 0x00, 0x00, 0x00, 0x00, 0x00, 0x00, 0x9c, 0x7f, 0x00],
     [0x00, 0x00, 0x00, 0x00, 0x00, 0x9c, 0x7f, 0x00, 0x01, 0x00, 0x00, 0x04],
     [0x00, 0x00, 0x00, 0x00, 0x00, 0x9c, 0x7f, 0x00, 0x00, 0x00, 0x00, 0x00],
     [0x00, 0x9c, 0x7f, 0x00, 0x00, 0x00, 0x00, 0x00, 0x00, 0x9c, 0x7f, 0x00],
     [0x00, 0x00, 0x00, 0x00, 0x00, 0x9c, 0x7f, 0x00, 0x01, 0x00, 0x00, 0x04],
     [0x00, 0x00, 0x00, 0x00, 0x00, 0x9c, 0x7f, 0x00, 0x00, 0x00, 0x00, 0x00],
     [0x00, 0x9c, 0x7f, 0x00, 0x00, 0x00, 0x00, 0x00, 0x00, 0x9c, 0x7f, 0x00],
     [0x00, 0x00, 0x00, 0x00, 0x00, 0x9c, 0x7f, 0x00, 0x01, 0x00, 0x00, 0x04],
     [0x00, 0x00, 0x00, 0x00, 0x00, 0x9c, 0x7f, 0x00, 0x00, 0x00, 0x00, 0x00],
     [0x00, 0x9c, 0x7f, 0x00, 0x00, 0x00, 0x00, 0x00, 0x00, 0x9c, 0x7f, 0x00],
     [0x00, 0x00, 0x00, 0x00, 0x00, 0x9c, 0x7f, 0x00, 0x01, 0x00, 0x00, 0x04],
     [0x00, 0x00, 0x00, 0x00, 0x00, 0x9c, 0x7f, 0x00, 0x00, 0x00, 0x00, 0x00],
     [0x00, 0x9c, 0x7f, 0x00, 0x00, 0x00, 0x00, 0x00, 0x00, 0x9c, 0x7f, 0x00],
     [0x00, 0x00, 0x00, 0x00, 0x00, 0x9c, 0x7f, 0x00, 0x01, 0x00, 0x00, 0x04],
     [0x00, 0x00, 0x00, 0x00, 0x00, 0x9c, 0x7f, 0x00, 0x00, 0x00, 0x00, 0x00],
     [0x00, 0x9c, 0x7f, 0x00, 0x00, 0x00, 0x00, 0x00, 0x00, 0x9c, 0x7f, 0x00],
     [0x00, 0x00, 0x00, 0x00, 0x00, 0x9c, 0x7f, 0x00, 0x01, 0x00, 0x00, 0x04],
     [0x00, 0x00, 0x00, 0x00, 0x00, 0x9c, 0x7f, 0x00, 0x00, 0x00, 0x00, 0x00],
     [0x00, 0x9c, 0x7f, 0x00, 0x00, 0x00, 0x00, 0x00, 0x00, 0x9c, 0x7f, 0x00],
     [0x00, 0x00, 0x00, 0x00, 0x00, 0x9c, 0x7f, 0x00, 0x01, 0x00, 0x00, 0x04],
     [0x00, 0x00, 0x00, 0x00, 0x00, 0x9c, 0x7f, 0x00, 0x00, 0x00, 0x00, 0x00],
     [0x00, 0x9c, 0x7f, 0x00, 0x00, 0x00, 0x00, 0x00, 0x00, 0x9c, 0x7f, 0x00],
     [0x00, 0x00, 0x00, 0x00, 0x00, 0x9c, 0x7f, 0x00, 0x01, 0x00, 0x00, 0x04],
     [0x00, 0x00, 0x00, 0x00, 0x00, 0x9c, 0x7f, 0x00, 0x00, 0x00, 0x00, 0x00],
     [0x00, 0x9c, 0x7f, 0x00, 0x00, 0x00, 0x00, 0x00, 0x00, 0x9c, 0x7f, 0x00],
     [0x00, 0x00, 0x00, 0x00, 0x00, 0x9c, 0x7f, 0x00, 0x01, 0x00, 0x00, 0x04],
     [0x00, 0x00, 0x00, 0x00, 0x00, 0x9c, 0x7f, 0x00, 0x00, 0x00, 0x00, 0x00],
     [0x00, 0x9c, 0x7f, 0x00, 0x00, 0x00, 0x00, 0x00, 0x00, 0x9c, 0x7f, 0x00],
     [0x00, 0x00, 0x00, 0x00, 0x00, 0x9c, 0x7f, 0x00, 0x01, 0x00, 0x00, 0x04],
     [0x00, 0x00, 0x00, 0x00, 0x00, 0x9c, 0x7f, 0x00, 0x00, 0x00, 0x00, 0x00],
     [0x00, 0x9c, 0x7f, 0x00, 0x00, 0x00, 0x00, 0x00, 0x00, 0x9c, 0x7f, 0x00],
     [0x00, 0x00, 0x00, 0x00, 0x00, 0x9c, 0x7f, 0x00, 0x01, 0x00, 0x00, 0x04],
     [0x00, 0x00, 0x00, 0x00, 0x00, 0x9c, 0x7f, 0x00, 0x00, 0x00, 0x00, 0x00]]"

definition ucode_template_0x00A60F12_part1 :: "u8 list" where
  "ucode_template_0x00A60F12_part1 = concat [
     [0x00, 0x9c, 0x7f, 0x00, 0x00, 0x00, 0x00, 0x00, 0x00, 0x9c, 0x7f, 0x00],
     [0x00, 0x00, 0x00, 0x00, 0x00, 0x9c, 0x7f, 0x00, 0x01, 0x00, 0x00, 0x04],
     [0x00, 0x00, 0x00, 0x00, 0x00, 0x9c, 0x7f, 0x00, 0x00, 0x00, 0x00, 0x00],
     [0x00, 0x9c, 0x7f, 0x00, 0x00, 0x00, 0x00, 0x00, 0x00, 0x9c, 0x7f, 0x00],
     [0x00, 0x00, 0x00, 0x00, 0x00, 0x9c, 0x7f, 0x00, 0x01, 0x00, 0x00, 0x04],
     [0x00, 0x00, 0x00, 0x00, 0x00, 0x9c, 0x7f, 0x00, 0x00, 0x00, 0x00, 0x00],
     [0x00, 0x9c, 0x7f, 0x00, 0x00, 0x00, 0x00, 0x00, 0x00, 0x9c, 0x7f, 0x00],
     [0x00, 0x00, 0x00, 0x00, 0x00, 0x9c, 0x7f, 0x00, 0x01, 0x00, 0x00, 0x04],
     [0x00, 0x00, 0x00, 0x00, 0x00, 0x9c, 0x7f, 0x00, 0x00, 0x00, 0x00, 0x00],
     [0x00, 0x9c, 0x7f, 0x00, 0x00, 0x00, 0x00, 0x00, 0x00, 0x9c, 0x7f, 0x00],
     [0x00, 0x00, 0x00, 0x00, 0x00, 0x9c, 0x7f, 0x00, 0x01, 0x00, 0x00, 0x04],
     [0x00, 0x00, 0x00, 0x00, 0x00, 0x9c, 0x7f, 0x00, 0x00, 0x00, 0x00, 0x00],
     [0x00, 0x9c, 0x7f, 0x00, 0x00, 0x00, 0x00, 0x00, 0x00, 0x9c, 0x7f, 0x00],
     [0x00, 0x00, 0x00, 0x00, 0x00, 0x9c, 0x7f, 0x00, 0x01, 0x00, 0x00, 0x04],
     [0x00, 0x00, 0x00, 0x00, 0x00, 0x9c, 0x7f, 0x00, 0x00, 0x00, 0x00, 0x00],
     [0x00, 0x9c, 0x7f, 0x00, 0x00, 0x00, 0x00, 0x00, 0x00, 0x9c, 0x7f, 0x00],
     [0x00, 0x00, 0x00, 0x00, 0x00, 0x9c, 0x7f, 0x00, 0x01, 0x00, 0x00, 0x04],
     [0x00, 0x00, 0x00, 0x00, 0x00, 0x9c, 0x7f, 0x00, 0x00, 0x00, 0x00, 0x00],
     [0x00, 0x9c, 0x7f, 0x00, 0x00, 0x00, 0x00, 0x00, 0x00, 0x9c, 0x7f, 0x00],
     [0x00, 0x00, 0x00, 0x00, 0x00, 0x9c, 0x7f, 0x00, 0x01, 0x00, 0x00, 0x04],
     [0x00, 0x00, 0x00, 0x00, 0x00, 0x9c, 0x7f, 0x00, 0x00, 0x00, 0x00, 0x00],
     [0x00, 0x9c, 0x7f, 0x00, 0x00, 0x00, 0x00, 0x00, 0x00, 0x9c, 0x7f, 0x00],
     [0x00, 0x00, 0x00, 0x00, 0x00, 0x9c, 0x7f, 0x00, 0x01, 0x00, 0x00, 0x04],
     [0x00, 0x00, 0x00, 0x00, 0x00, 0x9c, 0x7f, 0x00, 0x00, 0x00, 0x00, 0x00],
     [0x00, 0x9c, 0x7f, 0x00, 0x00, 0x00, 0x00, 0x00, 0x00, 0x9c, 0x7f, 0x00],
     [0x00, 0x00, 0x00, 0x00, 0x00, 0x9c, 0x7f, 0x00, 0x01, 0x00, 0x00, 0x04],
     [0x00, 0x00, 0x00, 0x00, 0x00, 0x9c, 0x7f, 0x00, 0x00, 0x00, 0x00, 0x00],
     [0x00, 0x9c, 0x7f, 0x00, 0x00, 0x00, 0x00, 0x00, 0x00, 0x9c, 0x7f, 0x00],
     [0x00, 0x00, 0x00, 0x00, 0x00, 0x9c, 0x7f, 0x00, 0x01, 0x00, 0x00, 0x04],
     [0x00, 0x00, 0x00, 0x00, 0x00, 0x9c, 0x7f, 0x00, 0x00, 0x00, 0x00, 0x00],
     [0x00, 0x9c, 0x7f, 0x00, 0x00, 0x00, 0x00, 0x00, 0x00, 0x9c, 0x7f, 0x00],
     [0x00, 0x00, 0x00, 0x00, 0x00, 0x9c, 0x7f, 0x00, 0x01, 0x00, 0x00, 0x04],
     [0x00, 0x00, 0x00, 0x00, 0x00, 0x9c, 0x7f, 0x00, 0x00, 0x00, 0x00, 0x00],
     [0x00, 0x9c, 0x7f, 0x00, 0x00, 0x00, 0x00, 0x00, 0x00, 0x9c, 0x7f, 0x00],
     [0x00, 0x00, 0x00, 0x00, 0x00, 0x9c, 0x7f, 0x00, 0x01, 0x00, 0x00, 0x04],
     [0x00, 0x00, 0x00, 0x00, 0x00, 0x9c, 0x7f, 0x00, 0x00, 0x00, 0x00, 0x00],
     [0x00, 0x9c, 0x7f, 0x00, 0x00, 0x00, 0x00, 0x00, 0x00, 0x9c, 0x7f, 0x00],
     [0x00, 0x00, 0x00, 0x00, 0x00, 0x9c, 0x7f, 0x00, 0x01, 0x00, 0x00, 0x04],
     [0x00, 0x00, 0x00, 0x00, 0x00, 0x9c, 0x7f, 0x00, 0x00, 0x00, 0x00, 0x00],
     [0x00, 0x9c, 0x7f, 0x00, 0x00, 0x00, 0x00, 0x00, 0x00, 0x9c, 0x7f, 0x00],
     [0x00, 0x00, 0x00, 0x00, 0x00, 0x9c, 0x7f, 0x00, 0x01, 0x00, 0x00, 0x04],
     [0x00, 0x00, 0x00, 0x00, 0x00, 0x9c, 0x7f, 0x00, 0x00, 0x00, 0x00, 0x00],
     [0x00, 0x9c, 0x7f, 0x00, 0x00, 0x00, 0x00, 0x00, 0x00, 0x9c, 0x7f, 0x00],
     [0x00, 0x00, 0x00, 0x00, 0x00, 0x9c, 0x7f, 0x00, 0x01, 0x00, 0x00, 0x04],
     [0x00, 0x00, 0x00, 0x00, 0x00, 0x9c, 0x7f, 0x00, 0x00, 0x00, 0x00, 0x00],
     [0x00, 0x9c, 0x7f, 0x00, 0x00, 0x00, 0x00, 0x00, 0x00, 0x9c, 0x7f, 0x00],
     [0x00, 0x00, 0x00, 0x00, 0x00, 0x9c, 0x7f, 0x00, 0x01, 0x00, 0x00, 0x04],
     [0x00, 0x00, 0x00, 0x00, 0x00, 0x9c, 0x7f, 0x00, 0x00, 0x00, 0x00, 0x00],
     [0x00, 0x9c, 0x7f, 0x00, 0x00, 0x00, 0x00, 0x00, 0x00, 0x9c, 0x7f, 0x00],
     [0x00, 0x00, 0x00, 0x00, 0x00, 0x9c, 0x7f, 0x00, 0x01, 0x00, 0x00, 0x04],
     [0x00, 0x00, 0x00, 0x00, 0x00, 0x9c, 0x7f, 0x00, 0x00, 0x00, 0x00, 0x00],
     [0x00, 0x9c, 0x7f, 0x00, 0x00, 0x00, 0x00, 0x00, 0x00, 0x9c, 0x7f, 0x00],
     [0x00, 0x00, 0x00, 0x00, 0x00, 0x9c, 0x7f, 0x00, 0x01, 0x00, 0x00, 0x04],
     [0x00, 0x00, 0x00, 0x00, 0x00, 0x9c, 0x7f, 0x00, 0x00, 0x00, 0x00, 0x00],
     [0x00, 0x9c, 0x7f, 0x00, 0x00, 0x00, 0x00, 0x00, 0x00, 0x9c, 0x7f, 0x00],
     [0x00, 0x00, 0x00, 0x00, 0x00, 0x9c, 0x7f, 0x00, 0x01, 0x00, 0x00, 0x04],
     [0x00, 0x00, 0x00, 0x00, 0x00, 0x9c, 0x7f, 0x00, 0x00, 0x00, 0x00, 0x00],
     [0x00, 0x9c, 0x7f, 0x00, 0x00, 0x00, 0x00, 0x00, 0x00, 0x9c, 0x7f, 0x00],
     [0x00, 0x00, 0x00, 0x00, 0x00, 0x9c, 0x7f, 0x00, 0x01, 0x00, 0x00, 0x04],
     [0x00, 0x00, 0x00, 0x00, 0x00, 0x9c, 0x7f, 0x00, 0x00, 0x00, 0x00, 0x00],
     [0x00, 0x9c, 0x7f, 0x00, 0x00, 0x00, 0x00, 0x00, 0x00, 0x9c, 0x7f, 0x00],
     [0x00, 0x00, 0x00, 0x00, 0x00, 0x9c, 0x7f, 0x00, 0x01, 0x00, 0x00, 0x04],
     [0x00, 0x00, 0x00, 0x00, 0x00, 0x9c, 0x7f, 0x00, 0x00, 0x00, 0x00, 0x00],
     [0x00, 0x9c, 0x7f, 0x00, 0x00, 0x00, 0x00, 0x00, 0x00, 0x9c, 0x7f, 0x00],
     [0x00, 0x00, 0x00, 0x00, 0x00, 0x9c, 0x7f, 0x00, 0x01, 0x00, 0x00, 0x04],
     [0x00, 0x00, 0x00, 0x00, 0x00, 0x9c, 0x7f, 0x00, 0x00, 0x00, 0x00, 0x00],
     [0x00, 0x9c, 0x7f, 0x00, 0x00, 0x00, 0x00, 0x00, 0x00, 0x9c, 0x7f, 0x00],
     [0x00, 0x00, 0x00, 0x00, 0x00, 0x9c, 0x7f, 0x00, 0x01, 0x00, 0x00, 0x04],
     [0x00, 0x00, 0x00, 0x00, 0x00, 0x9c, 0x7f, 0x00, 0x00, 0x00, 0x00, 0x00],
     [0x00, 0x9c, 0x7f, 0x00, 0x00, 0x00, 0x00, 0x00, 0x00, 0x9c, 0x7f, 0x00],
     [0x00, 0x00, 0x00, 0x00, 0x00, 0x9c, 0x7f, 0x00, 0x01, 0x00, 0x00, 0x04],
     [0x00, 0x00, 0x00, 0x00, 0x00, 0x9c, 0x7f, 0x00, 0x00, 0x00, 0x00, 0x00],
     [0x00, 0x9c, 0x7f, 0x00, 0x00, 0x00, 0x00, 0x00, 0x00, 0x9c, 0x7f, 0x00],
     [0x00, 0x00, 0x00, 0x00, 0x00, 0x9c, 0x7f, 0x00, 0x01, 0x00, 0x00, 0x04],
     [0x00, 0x00, 0x00, 0x00, 0x00, 0x9c, 0x7f, 0x00, 0x00, 0x00, 0x00, 0x00],
     [0x00, 0x9c, 0x7f, 0x00, 0x00, 0x00, 0x00, 0x00, 0x00, 0x9c, 0x7f, 0x00],
     [0x00, 0x00, 0x00, 0x00, 0x00, 0x9c, 0x7f, 0x00, 0x01, 0x00, 0x00, 0x04],
     [0x00, 0x00, 0x00, 0x00, 0x00, 0x9c, 0x7f, 0x00, 0x00, 0x00, 0x00, 0x00],
     [0x00, 0x9c, 0x7f, 0x00, 0x00, 0x00, 0x00, 0x00, 0x00, 0x9c, 0x7f, 0x00],
     [0x00, 0x00, 0x00, 0x00, 0x00, 0x9c, 0x7f, 0x00, 0x01, 0x00, 0x00, 0x04],
     [0x00, 0x00, 0x00, 0x00, 0x00, 0x9c, 0x7f, 0x00, 0x00, 0x00, 0x00, 0x00],
     [0x00, 0x9c, 0x7f, 0x00, 0x00, 0x00, 0x00, 0x00, 0x00, 0x9c, 0x7f, 0x00],
     [0x00, 0x00, 0x00, 0x00, 0x00, 0x9c, 0x7f, 0x00, 0x01, 0x00, 0x00, 0x04],
     [0x00, 0x00, 0x00, 0x00, 0x00, 0x9c, 0x7f, 0x00, 0x00, 0x00, 0x00, 0x00],
     [0x00, 0x9c, 0x7f, 0x00, 0x00, 0x00, 0x00, 0x00, 0x00, 0x9c, 0x7f, 0x00],
     [0x00, 0x00, 0x00, 0x00, 0x00, 0x9c, 0x7f, 0x00, 0x01, 0x00, 0x00, 0x04],
     [0x00, 0x00, 0x00, 0x00, 0x00, 0x9c, 0x7f, 0x00, 0x00, 0x00, 0x00, 0x00],
     [0x00, 0x9c, 0x7f, 0x00, 0x00, 0x00, 0x00, 0x00, 0x00, 0x9c, 0x7f, 0x00],
     [0x00, 0x00, 0x00, 0x00, 0x00, 0x9c, 0x7f, 0x00, 0x01, 0x00, 0x00, 0x04],
     [0x00, 0x00, 0x00, 0x00, 0x00, 0x9c, 0x7f, 0x00, 0x00, 0x00, 0x00, 0x00],
     [0x00, 0x9c, 0x7f, 0x00, 0x00, 0x00, 0x00, 0x00, 0x00, 0x9c, 0x7f, 0x00],
     [0x00, 0x00, 0x00, 0x00, 0x00, 0x9c, 0x7f, 0x00, 0x01, 0x00, 0x00, 0x04],
     [0x00, 0x00, 0x00, 0x00, 0x00, 0x9c, 0x7f, 0x00, 0x00, 0x00, 0x00, 0x00],
     [0x00, 0x9c, 0x7f, 0x00, 0x00, 0x00, 0x00, 0x00, 0x00, 0x9c, 0x7f, 0x00],
     [0x00, 0x00, 0x00, 0x00, 0x00, 0x9c, 0x7f, 0x00, 0x01, 0x00, 0x00, 0x04],
     [0x00, 0x00, 0x00, 0x00, 0x00, 0x9c, 0x7f, 0x00, 0x00, 0x00, 0x00, 0x00],
     [0x00, 0x9c, 0x7f, 0x00, 0x00, 0x00, 0x00, 0x00, 0x00, 0x9c, 0x7f, 0x00],
     [0x00, 0x00, 0x00, 0x00, 0x00, 0x9c, 0x7f, 0x00, 0x01, 0x00, 0x00, 0x04],
     [0x00, 0x00, 0x00, 0x00, 0x00, 0x9c, 0x7f, 0x00, 0x00, 0x00, 0x00, 0x00],
     [0x00, 0x9c, 0x7f, 0x00, 0x00, 0x00, 0x00, 0x00, 0x00, 0x9c, 0x7f, 0x00],
     [0x00, 0x00, 0x00, 0x00, 0x00, 0x9c, 0x7f, 0x00, 0x01, 0x00, 0x00, 0x04],
     [0x00, 0x00, 0x00, 0x00, 0x00, 0x9c, 0x7f, 0x00, 0x00, 0x00, 0x00, 0x00],
     [0x00, 0x9c, 0x7f, 0x00, 0x00, 0x00, 0x00, 0x00, 0x00, 0x9c, 0x7f, 0x00],
     [0x00, 0x00, 0x00, 0x00, 0x00, 0x9c, 0x7f, 0x00, 0x01, 0x00, 0x00, 0x04],
     [0x00, 0x00, 0x00, 0x00, 0x00, 0x9c, 0x7f, 0x00, 0x00, 0x00, 0x00, 0x00],
     [0x00, 0x9c, 0x7f, 0x00, 0x00, 0x00, 0x00, 0x00, 0x00, 0x9c, 0x7f, 0x00],
     [0x00, 0x00, 0x00, 0x00, 0x00, 0x9c, 0x7f, 0x00, 0x01, 0x00, 0x00, 0x04],
     [0x00, 0x00, 0x00, 0x00, 0x00, 0x9c, 0x7f, 0x00, 0x00, 0x00, 0x00, 0x00],
     [0x00, 0x9c, 0x7f, 0x00, 0x00, 0x00, 0x00, 0x00, 0x00, 0x9c, 0x7f, 0x00],
     [0x00, 0x00, 0x00, 0x00, 0x00, 0x9c, 0x7f, 0x00, 0x01, 0x00, 0x00, 0x04],
     [0x00, 0x00, 0x00, 0x00, 0x00, 0x9c, 0x7f, 0x00, 0x00, 0x00, 0x00, 0x00],
     [0x00, 0x9c, 0x7f, 0x00, 0x00, 0x00, 0x00, 0x00, 0x00, 0x9c, 0x7f, 0x00],
     [0x00, 0x00, 0x00, 0x00, 0x00, 0x9c, 0x7f, 0x00, 0x01, 0x00, 0x00, 0x04],
     [0x00, 0x00, 0x00, 0x00, 0x00, 0x9c, 0x7f, 0x00, 0x00, 0x00, 0x00, 0x00],
     [0x00, 0x9c, 0x7f, 0x00, 0x00, 0x00, 0x00, 0x00, 0x00, 0x9c, 0x7f, 0x00],
     [0x00, 0x00, 0x00, 0x00, 0x00, 0x9c, 0x7f, 0x00, 0x01, 0x00, 0x00, 0x04],
     [0x00, 0x00, 0x00, 0x00, 0x00, 0x9c, 0x7f, 0x00, 0x00, 0x00, 0x00, 0x00],
     [0x00, 0x9c, 0x7f, 0x00, 0x00, 0x00, 0x00, 0x00, 0x00, 0x9c, 0x7f, 0x00],
     [0x00, 0x00, 0x00, 0x00, 0x00, 0x9c, 0x7f, 0x00, 0x01, 0x00, 0x00, 0x04],
     [0x00, 0x00, 0x00, 0x00, 0x00, 0x9c, 0x7f, 0x00, 0x00, 0x00, 0x00, 0x00]]"

definition ucode_template_0x00A60F12_part2 :: "u8 list" where
  "ucode_template_0x00A60F12_part2 = concat [
     [0x00, 0x9c, 0x7f, 0x00, 0x00, 0x00, 0x00, 0x00, 0x00, 0x9c, 0x7f, 0x00],
     [0x00, 0x00, 0x00, 0x00, 0x00, 0x9c, 0x7f, 0x00, 0x01, 0x00, 0x00, 0x04],
     [0x00, 0x00, 0x00, 0x00, 0x00, 0x9c, 0x7f, 0x00, 0x00, 0x00, 0x00, 0x00],
     [0x00, 0x9c, 0x7f, 0x00, 0x00, 0x00, 0x00, 0x00, 0x00, 0x9c, 0x7f, 0x00],
     [0x00, 0x00, 0x00, 0x00, 0x00, 0x9c, 0x7f, 0x00, 0x01, 0x00, 0x00, 0x04],
     [0x00, 0x00, 0x00, 0x00, 0x00, 0x9c, 0x7f, 0x00, 0x00, 0x00, 0x00, 0x00],
     [0x00, 0x9c, 0x7f, 0x00, 0x00, 0x00, 0x00, 0x00, 0x00, 0x9c, 0x7f, 0x00],
     [0x00, 0x00, 0x00, 0x00, 0x00, 0x9c, 0x7f, 0x00, 0x01, 0x00, 0x00, 0x04],
     [0x00, 0x00, 0x00, 0x00, 0x00, 0x9c, 0x7f, 0x00, 0x00, 0x00, 0x00, 0x00],
     [0x00, 0x9c, 0x7f, 0x00, 0x00, 0x00, 0x00, 0x00, 0x00, 0x9c, 0x7f, 0x00],
     [0x00, 0x00, 0x00, 0x00, 0x00, 0x9c, 0x7f, 0x00, 0x01, 0x00, 0x00, 0x04],
     [0x00, 0x00, 0x00, 0x00, 0x00, 0x9c, 0x7f, 0x00, 0x00, 0x00, 0x00, 0x00],
     [0x00, 0x9c, 0x7f, 0x00, 0x00, 0x00, 0x00, 0x00, 0x00, 0x9c, 0x7f, 0x00],
     [0x00, 0x00, 0x00, 0x00, 0x00, 0x9c, 0x7f, 0x00, 0x01, 0x00, 0x00, 0x04],
     [0x00, 0x00, 0x00, 0x00, 0x00, 0x9c, 0x7f, 0x00, 0x00, 0x00, 0x00, 0x00],
     [0x00, 0x9c, 0x7f, 0x00, 0x00, 0x00, 0x00, 0x00, 0x00, 0x9c, 0x7f, 0x00],
     [0x00, 0x00, 0x00, 0x00, 0x00, 0x9c, 0x7f, 0x00, 0x01, 0x00, 0x00, 0x04],
     [0x00, 0x00, 0x00, 0x00, 0x00, 0x9c, 0x7f, 0x00, 0x00, 0x00, 0x00, 0x00],
     [0x00, 0x9c, 0x7f, 0x00, 0x00, 0x00, 0x00, 0x00, 0x00, 0x9c, 0x7f, 0x00],
     [0x00, 0x00, 0x00, 0x00, 0x00, 0x9c, 0x7f, 0x00, 0x01, 0x00, 0x00, 0x04],
     [0x00, 0x00, 0x00, 0x00, 0x00, 0x9c, 0x7f, 0x00, 0x00, 0x00, 0x00, 0x00],
     [0x00, 0x9c, 0x7f, 0x00, 0x00, 0x00, 0x00, 0x00, 0x00, 0x9c, 0x7f, 0x00],
     [0x00, 0x00, 0x00, 0x00, 0x00, 0x9c, 0x7f, 0x00, 0x01, 0x00, 0x00, 0x04],
     [0x00, 0x00, 0x00, 0x00, 0x00, 0x9c, 0x7f, 0x00, 0x00, 0x00, 0x00, 0x00],
     [0x00, 0x9c, 0x7f, 0x00, 0x00, 0x00, 0x00, 0x00, 0x00, 0x9c, 0x7f, 0x00],
     [0x00, 0x00, 0x00, 0x00, 0x00, 0x9c, 0x7f, 0x00, 0x01, 0x00, 0x00, 0x04],
     [0x00, 0x00, 0x00, 0x00, 0x00, 0x9c, 0x7f, 0x00, 0x00, 0x00, 0x00, 0x00],
     [0x00, 0x9c, 0x7f, 0x00, 0x00, 0x00, 0x00, 0x00, 0x00, 0x9c, 0x7f, 0x00],
     [0x00, 0x00, 0x00, 0x00, 0x00, 0x9c, 0x7f, 0x00, 0x01, 0x00, 0x00, 0x04],
     [0x00, 0x00, 0x00, 0x00, 0x00, 0x9c, 0x7f, 0x00, 0x00, 0x00, 0x00, 0x00],
     [0x00, 0x9c, 0x7f, 0x00, 0x00, 0x00, 0x00, 0x00, 0x00, 0x9c, 0x7f, 0x00],
     [0x00, 0x00, 0x00, 0x00, 0x00, 0x9c, 0x7f, 0x00, 0x01, 0x00, 0x00, 0x04],
     [0x00, 0x00, 0x00, 0x00, 0x00, 0x9c, 0x7f, 0x00, 0x00, 0x00, 0x00, 0x00],
     [0x00, 0x9c, 0x7f, 0x00, 0x00, 0x00, 0x00, 0x00, 0x00, 0x9c, 0x7f, 0x00],
     [0x00, 0x00, 0x00, 0x00, 0x00, 0x9c, 0x7f, 0x00, 0x01, 0x00, 0x00, 0x04],
     [0x00, 0x00, 0x00, 0x00, 0x00, 0x9c, 0x7f, 0x00, 0x00, 0x00, 0x00, 0x00],
     [0x00, 0x9c, 0x7f, 0x00, 0x00, 0x00, 0x00, 0x00, 0x00, 0x9c, 0x7f, 0x00],
     [0x00, 0x00, 0x00, 0x00, 0x00, 0x9c, 0x7f, 0x00, 0x01, 0x00, 0x00, 0x04],
     [0x00, 0x00, 0x00, 0x00, 0x00, 0x9c, 0x7f, 0x00, 0x00, 0x00, 0x00, 0x00],
     [0x00, 0x9c, 0x7f, 0x00, 0x00, 0x00, 0x00, 0x00, 0x00, 0x9c, 0x7f, 0x00],
     [0x00, 0x00, 0x00, 0x00, 0x00, 0x9c, 0x7f, 0x00, 0x01, 0x00, 0x00, 0x04],
     [0x00, 0x00, 0x00, 0x00, 0x00, 0x9c, 0x7f, 0x00, 0x00, 0x00, 0x00, 0x00],
     [0x00, 0x9c, 0x7f, 0x00, 0x00, 0x00, 0x00, 0x00, 0x00, 0x9c, 0x7f, 0x00],
     [0x00, 0x00, 0x00, 0x00, 0x00, 0x9c, 0x7f, 0x00, 0x01, 0x00, 0x00, 0x04],
     [0x00, 0x00, 0x00, 0x00, 0x00, 0x9c, 0x7f, 0x00, 0x00, 0x00, 0x00, 0x00],
     [0x00, 0x9c, 0x7f, 0x00, 0x00, 0x00, 0x00, 0x00, 0x00, 0x9c, 0x7f, 0x00],
     [0x00, 0x00, 0x00, 0x00, 0x00, 0x9c, 0x7f, 0x00, 0x01, 0x00, 0x00, 0x04],
     [0x00, 0x00, 0x00, 0x00, 0x00, 0x9c, 0x7f, 0x00, 0x00, 0x00, 0x00, 0x00],
     [0x00, 0x9c, 0x7f, 0x00, 0x00, 0x00, 0x00, 0x00, 0x00, 0x9c, 0x7f, 0x00],
     [0x00, 0x00, 0x00, 0x00, 0x00, 0x9c, 0x7f, 0x00, 0x01, 0x00, 0x00, 0x04],
     [0x00, 0x00, 0x00, 0x00, 0x00, 0x9c, 0x7f, 0x00, 0x00, 0x00, 0x00, 0x00],
     [0x00, 0x9c, 0x7f, 0x00, 0x00, 0x00, 0x00, 0x00, 0x00, 0x9c, 0x7f, 0x00],
     [0x00, 0x00, 0x00, 0x00, 0x00, 0x9c, 0x7f, 0x00, 0x01, 0x00, 0x00, 0x04],
     [0x00, 0x00, 0x00, 0x00, 0x00, 0x9c, 0x7f, 0x00, 0x00, 0x00, 0x00, 0x00],
     [0x00, 0x9c, 0x7f, 0x00, 0x00, 0x00, 0x00, 0x00, 0x00, 0x9c, 0x7f, 0x00],
     [0x00, 0x00, 0x00, 0x00, 0x00, 0x9c, 0x7f, 0x00, 0x01, 0x00, 0x00, 0x04],
     [0x00, 0x00, 0x00, 0x00, 0x00, 0x9c, 0x7f, 0x00, 0x00, 0x00, 0x00, 0x00],
     [0x00, 0x9c, 0x7f, 0x00, 0x00, 0x00, 0x00, 0x00, 0x00, 0x9c, 0x7f, 0x00],
     [0x00, 0x00, 0x00, 0x00, 0x00, 0x9c, 0x7f, 0x00, 0x01, 0x00, 0x00, 0x04],
     [0x00, 0x00, 0x00, 0x00, 0x00, 0x9c, 0x7f, 0x00, 0x00, 0x00, 0x00, 0x00],
     [0x00, 0x9c, 0x7f, 0x00, 0x00, 0x00, 0x00, 0x00, 0x00, 0x9c, 0x7f, 0x00],
     [0x00, 0x00, 0x00, 0x00, 0x00, 0x9c, 0x7f, 0x00, 0x01, 0x00, 0x00, 0x04],
     [0x00, 0x00, 0x00, 0x00, 0x00, 0x9c, 0x7f, 0x00, 0x00, 0x00, 0x00, 0x00],
     [0x00, 0x9c, 0x7f, 0x00, 0x00, 0x00, 0x00, 0x00, 0x00, 0x9c, 0x7f, 0x00],
     [0x00, 0x00, 0x00, 0x00, 0x00, 0x9c, 0x7f, 0x00, 0x01, 0x00, 0x00, 0x04],
     [0x00, 0x00, 0x00, 0x00, 0x00, 0x9c, 0x7f, 0x00, 0x00, 0x00, 0x00, 0x00],
     [0x00, 0x9c, 0x7f, 0x00, 0x00, 0x00, 0x00, 0x00, 0x00, 0x9c, 0x7f, 0x00],
     [0x00, 0x00, 0x00, 0x00, 0x00, 0x9c, 0x7f, 0x00, 0x01, 0x00, 0x00, 0x04],
     [0x00, 0x00, 0x00, 0x00, 0x00, 0x9c, 0x7f, 0x00, 0x00, 0x00, 0x00, 0x00],
     [0x00, 0x9c, 0x7f, 0x00, 0x00, 0x00, 0x00, 0x00, 0x00, 0x9c, 0x7f, 0x00],
     [0x00, 0x00, 0x00, 0x00, 0x00, 0x9c, 0x7f, 0x00, 0x01, 0x00, 0x00, 0x04],
     [0x00, 0x00, 0x00, 0x00, 0x00, 0x9c, 0x7f, 0x00, 0x00, 0x00, 0x00, 0x00],
     [0x00, 0x9c, 0x7f, 0x00, 0x00, 0x00, 0x00, 0x00, 0x00, 0x9c, 0x7f, 0x00],
     [0x00, 0x00, 0x00, 0x00, 0x00, 0x9c, 0x7f, 0x00, 0x01, 0x00, 0x00, 0x04],
     [0x00, 0x00, 0x00, 0x00, 0x00, 0x9c, 0x7f, 0x00, 0x00, 0x00, 0x00, 0x00],
     [0x00, 0x9c, 0x7f, 0x00, 0x00, 0x00, 0x00, 0x00, 0x00, 0x9c, 0x7f, 0x00],
     [0x00, 0x00, 0x00, 0x00, 0x00, 0x9c, 0x7f, 0x00, 0x01, 0x00, 0x00, 0x04],
     [0x00, 0x00, 0x00, 0x00, 0x00, 0x9c, 0x7f, 0x00, 0x00, 0x00, 0x00, 0x00],
     [0x00, 0x9c, 0x7f, 0x00, 0x00, 0x00, 0x00, 0x00, 0x00, 0x9c, 0x7f, 0x00],
     [0x00, 0x00, 0x00, 0x00, 0x00, 0x9c, 0x7f, 0x00, 0x01, 0x00, 0x00, 0x04],
     [0x00, 0x00, 0x00, 0x00, 0x00, 0x9c, 0x7f, 0x00, 0x00, 0x00, 0x00, 0x00],
     [0x00, 0x9c, 0x7f, 0x00, 0x00, 0x00, 0x00, 0x00, 0x00, 0x9c, 0x7f, 0x00],
     [0x00, 0x00, 0x00, 0x00, 0x00, 0x9c, 0x7f, 0x00, 0x01, 0x00, 0x00, 0x04],
     [0x00, 0x00, 0x00, 0x00, 0x00, 0x9c, 0x7f, 0x00, 0x00, 0x00, 0x00, 0x00],
     [0x00, 0x9c, 0x7f, 0x00, 0x00, 0x00, 0x00, 0x00, 0x00, 0x9c, 0x7f, 0x00],
     [0x00, 0x00, 0x00, 0x00, 0x00, 0x9c, 0x7f, 0x00, 0x01, 0x00, 0x00, 0x04],
     [0x00, 0x00, 0x00, 0x00, 0x00, 0x9c, 0x7f, 0x00, 0x00, 0x00, 0x00, 0x00],
     [0x00, 0x9c, 0x7f, 0x00, 0x00, 0x00, 0x00, 0x00, 0x00, 0x9c, 0x7f, 0x00],
     [0x00, 0x00, 0x00, 0x00, 0x00, 0x9c, 0x7f, 0x00, 0x01, 0x00, 0x00, 0x04],
     [0x00, 0x00, 0x00, 0x00, 0x00, 0x9c, 0x7f, 0x00, 0x00, 0x00, 0x00, 0x00],
     [0x00, 0x9c, 0x7f, 0x00, 0x00, 0x00, 0x00, 0x00, 0x00, 0x9c, 0x7f, 0x00],
     [0x00, 0x00, 0x00, 0x00, 0x00, 0x9c, 0x7f, 0x00, 0x01, 0x00, 0x00, 0x04],
     [0x00, 0x00, 0x00, 0x00, 0x00, 0x9c, 0x7f, 0x00, 0x00, 0x00, 0x00, 0x00],
     [0x00, 0x9c, 0x7f, 0x00, 0x00, 0x00, 0x00, 0x00, 0x00, 0x9c, 0x7f, 0x00],
     [0x00, 0x00, 0x00, 0x00, 0x00, 0x9c, 0x7f, 0x00, 0x01, 0x00, 0x00, 0x04],
     [0x00, 0x00, 0x00, 0x00, 0x00, 0x9c, 0x7f, 0x00, 0x00, 0x00, 0x00, 0x00],
     [0x00, 0x9c, 0x7f, 0x00, 0x00, 0x00, 0x00, 0x00, 0x00, 0x9c, 0x7f, 0x00],
     [0x00, 0x00, 0x00, 0x00, 0x00, 0x9c, 0x7f, 0x00, 0x01, 0x00, 0x00, 0x04],
     [0x00, 0x00, 0x00, 0x00, 0x00, 0x9c, 0x7f, 0x00, 0x00, 0x00, 0x00, 0x00],
     [0x00, 0x9c, 0x7f, 0x00, 0x00, 0x00, 0x00, 0x00, 0x00, 0x9c, 0x7f, 0x00],
     [0x00, 0x00, 0x00, 0x00, 0x00, 0x9c, 0x7f, 0x00, 0x01, 0x00, 0x00, 0x04],
     [0x00, 0x00, 0x00, 0x00, 0x00, 0x9c, 0x7f, 0x00, 0x00, 0x00, 0x00, 0x00],
     [0x00, 0x9c, 0x7f, 0x00, 0x00, 0x00, 0x00, 0x00, 0x00, 0x9c, 0x7f, 0x00],
     [0x00, 0x00, 0x00, 0x00, 0x00, 0x9c, 0x7f, 0x00, 0x01, 0x00, 0x00, 0x04],
     [0x00, 0x00, 0x00, 0x00, 0x00, 0x9c, 0x7f, 0x00, 0x00, 0x00, 0x00, 0x00],
     [0x00, 0x9c, 0x7f, 0x00, 0x00, 0x00, 0x00, 0x00, 0x00, 0x9c, 0x7f, 0x00],
     [0x00, 0x00, 0x00, 0x00, 0x00, 0x9c, 0x7f, 0x00, 0x01, 0x00, 0x00, 0x04],
     [0x00, 0x00, 0x00, 0x00, 0x00, 0x9c, 0x7f, 0x00, 0x00, 0x00, 0x00, 0x00],
     [0x00, 0x9c, 0x7f, 0x00, 0x00, 0x00, 0x00, 0x00, 0x00, 0x9c, 0x7f, 0x00],
     [0x00, 0x00, 0x00, 0x00, 0x00, 0x9c, 0x7f, 0x00, 0x01, 0x00, 0x00, 0x04],
     [0x00, 0x00, 0x00, 0x00, 0x00, 0x9c, 0x7f, 0x00, 0x00, 0x00, 0x00, 0x00],
     [0x00, 0x9c, 0x7f, 0x00, 0x00, 0x00, 0x00, 0x00, 0x00, 0x9c, 0x7f, 0x00],
     [0x00, 0x00, 0x00, 0x00, 0x00, 0x9c, 0x7f, 0x00, 0x01, 0x00, 0x00, 0x04],
     [0x00, 0x00, 0x00, 0x00, 0x00, 0x9c, 0x7f, 0x00, 0x00, 0x00, 0x00, 0x00],
     [0x00, 0x9c, 0x7f, 0x00, 0x00, 0x00, 0x00, 0x00, 0x00, 0x9c, 0x7f, 0x00],
     [0x00, 0x00, 0x00, 0x00, 0x00, 0x9c, 0x7f, 0x00, 0x01, 0x00, 0x00, 0x04],
     [0x00, 0x00, 0x00, 0x00, 0x00, 0x9c, 0x7f, 0x00, 0x00, 0x00, 0x00, 0x00],
     [0x00, 0x9c, 0x7f, 0x00, 0x00, 0x00, 0x00, 0x00, 0x00, 0x9c, 0x7f, 0x00],
     [0x00, 0x00, 0x00, 0x00, 0x00, 0x9c, 0x7f, 0x00, 0x01, 0x00, 0x00, 0x04],
     [0x00, 0x00, 0x00, 0x00, 0x00, 0x9c, 0x7f, 0x00, 0x00, 0x00, 0x00, 0x00]]"

definition ucode_template_0x00A60F12_part3 :: "u8 list" where
  "ucode_template_0x00A60F12_part3 = concat [
     [0x00, 0x9c, 0x7f, 0x00, 0x00, 0x00, 0x00, 0x00, 0x00, 0x9c, 0x7f, 0x00],
     [0x00, 0x00, 0x00, 0x00, 0x00, 0x9c, 0x7f, 0x00, 0x01, 0x00, 0x00, 0x04],
     [0x00, 0x00, 0x00, 0x00, 0x00, 0x9c, 0x7f, 0x00, 0x00, 0x00, 0x00, 0x00],
     [0x00, 0x9c, 0x7f, 0x00, 0x00, 0x00, 0x00, 0x00, 0x00, 0x9c, 0x7f, 0x00],
     [0x00, 0x00, 0x00, 0x00, 0x00, 0x9c, 0x7f, 0x00, 0x01, 0x00, 0x00, 0x04],
     [0x00, 0x00, 0x00, 0x00, 0x00, 0x9c, 0x7f, 0x00, 0x00, 0x00, 0x00, 0x00],
     [0x00, 0x9c, 0x7f, 0x00, 0x00, 0x00, 0x00, 0x00, 0x00, 0x9c, 0x7f, 0x00],
     [0x00, 0x00, 0x00, 0x00, 0x00, 0x9c, 0x7f, 0x00, 0x01, 0x00, 0x00, 0x04],
     [0x00, 0x00, 0x00, 0x00, 0x00, 0x9c, 0x7f, 0x00, 0x00, 0x00, 0x00, 0x00],
     [0x00, 0x9c, 0x7f, 0x00, 0x00, 0x00, 0x00, 0x00, 0x00, 0x9c, 0x7f, 0x00],
     [0x00, 0x00, 0x00, 0x00, 0x00, 0x9c, 0x7f, 0x00, 0x01, 0x00, 0x00, 0x04],
     [0x00, 0x00, 0x00, 0x00, 0x00, 0x9c, 0x7f, 0x00, 0x00, 0x00, 0x00, 0x00],
     [0x00, 0x9c, 0x7f, 0x00, 0x00, 0x00, 0x00, 0x00, 0x00, 0x9c, 0x7f, 0x00],
     [0x00, 0x00, 0x00, 0x00, 0x00, 0x9c, 0x7f, 0x00, 0x01, 0x00, 0x00, 0x04],
     [0x00, 0x00, 0x00, 0x00, 0x00, 0x9c, 0x7f, 0x00, 0x00, 0x00, 0x00, 0x00],
     [0x00, 0x9c, 0x7f, 0x00, 0x00, 0x00, 0x00, 0x00, 0x00, 0x9c, 0x7f, 0x00],
     [0x00, 0x00, 0x00, 0x00, 0x00, 0x9c, 0x7f, 0x00, 0x01, 0x00, 0x00, 0x04],
     [0x00, 0x00, 0x00, 0x00, 0x00, 0x9c, 0x7f, 0x00, 0x00, 0x00, 0x00, 0x00],
     [0x00, 0x9c, 0x7f, 0x00, 0x00, 0x00, 0x00, 0x00, 0x00, 0x9c, 0x7f, 0x00],
     [0x00, 0x00, 0x00, 0x00, 0x00, 0x9c, 0x7f, 0x00, 0x01, 0x00, 0x00, 0x04],
     [0x00, 0x00, 0x00, 0x00, 0x00, 0x9c, 0x7f, 0x00, 0x00, 0x00, 0x00, 0x00],
     [0x00, 0x9c, 0x7f, 0x00, 0x00, 0x00, 0x00, 0x00, 0x00, 0x9c, 0x7f, 0x00],
     [0x00, 0x00, 0x00, 0x00, 0x00, 0x9c, 0x7f, 0x00, 0x01, 0x00, 0x00, 0x04],
     [0x00, 0x00, 0x00, 0x00, 0x00, 0x9c, 0x7f, 0x00, 0x00, 0x00, 0x00, 0x00],
     [0x00, 0x9c, 0x7f, 0x00, 0x00, 0x00, 0x00, 0x00, 0x00, 0x9c, 0x7f, 0x00],
     [0x00, 0x00, 0x00, 0x00, 0x00, 0x9c, 0x7f, 0x00, 0x01, 0x00, 0x00, 0x04],
     [0x00, 0x00, 0x00, 0x00, 0x00, 0x9c, 0x7f, 0x00, 0x00, 0x00, 0x00, 0x00],
     [0x00, 0x9c, 0x7f, 0x00, 0x00, 0x00, 0x00, 0x00, 0x00, 0x9c, 0x7f, 0x00],
     [0x00, 0x00, 0x00, 0x00, 0x00, 0x9c, 0x7f, 0x00, 0x01, 0x00, 0x00, 0x04],
     [0x00, 0x00, 0x00, 0x00, 0x00, 0x9c, 0x7f, 0x00, 0x00, 0x00, 0x00, 0x00],
     [0x00, 0x9c, 0x7f, 0x00, 0x00, 0x00, 0x00, 0x00, 0x00, 0x9c, 0x7f, 0x00],
     [0x00, 0x00, 0x00, 0x00, 0x00, 0x9c, 0x7f, 0x00, 0x01, 0x00, 0x00, 0x04],
     [0x00, 0x00, 0x00, 0x00, 0x00, 0x9c, 0x7f, 0x00, 0x00, 0x00, 0x00, 0x00],
     [0x00, 0x9c, 0x7f, 0x00, 0x00, 0x00, 0x00, 0x00, 0x00, 0x9c, 0x7f, 0x00],
     [0x00, 0x00, 0x00, 0x00, 0x00, 0x9c, 0x7f, 0x00, 0x01, 0x00, 0x00, 0x04],
     [0x00, 0x00, 0x00, 0x00, 0x00, 0x9c, 0x7f, 0x00, 0x00, 0x00, 0x00, 0x00],
     [0x00, 0x9c, 0x7f, 0x00, 0x00, 0x00, 0x00, 0x00, 0x00, 0x9c, 0x7f, 0x00],
     [0x00, 0x00, 0x00, 0x00, 0x00, 0x9c, 0x7f, 0x00, 0x01, 0x00, 0x00, 0x04],
     [0x00, 0x00, 0x00, 0x00, 0x00, 0x9c, 0x7f, 0x00, 0x00, 0x00, 0x00, 0x00],
     [0x00, 0x9c, 0x7f, 0x00, 0x00, 0x00, 0x00, 0x00, 0x00, 0x9c, 0x7f, 0x00],
     [0x00, 0x00, 0x00, 0x00, 0x00, 0x9c, 0x7f, 0x00, 0x01, 0x00, 0x00, 0x04],
     [0x00, 0x00, 0x00, 0x00, 0x00, 0x9c, 0x7f, 0x00, 0x00, 0x00, 0x00, 0x00],
     [0x00, 0x9c, 0x7f, 0x00, 0x00, 0x00, 0x00, 0x00, 0x00, 0x9c, 0x7f, 0x00],
     [0x00, 0x00, 0x00, 0x00, 0x00, 0x9c, 0x7f, 0x00, 0x01, 0x00, 0x00, 0x04],
     [0x00, 0x00, 0x00, 0x00, 0x00, 0x9c, 0x7f, 0x00, 0x00, 0x00, 0x00, 0x00],
     [0x00, 0x9c, 0x7f, 0x00, 0x00, 0x00, 0x00, 0x00, 0x00, 0x9c, 0x7f, 0x00],
     [0x00, 0x00, 0x00, 0x00, 0x00, 0x9c, 0x7f, 0x00, 0x01, 0x00, 0x00, 0x04],
     [0x00, 0x00, 0x00, 0x00, 0x00, 0x9c, 0x7f, 0x00, 0x00, 0x00, 0x00, 0x00],
     [0x00, 0x9c, 0x7f, 0x00, 0x00, 0x00, 0x00, 0x00, 0x00, 0x9c, 0x7f, 0x00],
     [0x00, 0x00, 0x00, 0x00, 0x00, 0x9c, 0x7f, 0x00, 0x01, 0x00, 0x00, 0x04],
     [0x00, 0x00, 0x00, 0x00, 0x00, 0x9c, 0x7f, 0x00, 0x00, 0x00, 0x00, 0x00],
     [0x00, 0x9c, 0x7f, 0x00, 0x00, 0x00, 0x00, 0x00, 0x00, 0x9c, 0x7f, 0x00],
     [0x00, 0x00, 0x00, 0x00, 0x00, 0x9c, 0x7f, 0x00, 0x01, 0x00, 0x00, 0x04],
     [0x00, 0x00, 0x00, 0x00, 0x00, 0x9c, 0x7f, 0x00, 0x00, 0x00, 0x00, 0x00],
     [0x00, 0x9c, 0x7f, 0x00, 0x00, 0x00, 0x00, 0x00, 0x00, 0x9c, 0x7f, 0x00],
     [0x00, 0x00, 0x00, 0x00, 0x00, 0x9c, 0x7f, 0x00, 0x01, 0x00, 0x00, 0x04],
     [0x00, 0x00, 0x00, 0x00, 0x00, 0x9c, 0x7f, 0x00, 0x00, 0x00, 0x00, 0x00],
     [0x00, 0x9c, 0x7f, 0x00, 0x00, 0x00, 0x00, 0x00, 0x00, 0x9c, 0x7f, 0x00],
     [0x00, 0x00, 0x00, 0x00, 0x00, 0x9c, 0x7f, 0x00, 0x01, 0x00, 0x00, 0x04],
     [0x00, 0x00, 0x00, 0x00, 0x00, 0x9c, 0x7f, 0x00, 0x00, 0x00, 0x00, 0x00],
     [0x00, 0x9c, 0x7f, 0x00, 0x00, 0x00, 0x00, 0x00, 0x00, 0x9c, 0x7f, 0x00],
     [0x00, 0x00, 0x00, 0x00, 0x00, 0x9c, 0x7f, 0x00, 0x01, 0x00, 0x00, 0x04],
     [0x00, 0x00, 0x00, 0x00, 0x00, 0x9c, 0x7f, 0x00, 0x00, 0x00, 0x00, 0x00],
     [0x00, 0x9c, 0x7f, 0x00, 0x00, 0x00, 0x00, 0x00, 0x00, 0x9c, 0x7f, 0x00],
     [0x00, 0x00, 0x00, 0x00, 0x00, 0x9c, 0x7f, 0x00, 0x01, 0x00, 0x00, 0x04],
     [0x00, 0x00, 0x00, 0x00, 0x00, 0x9c, 0x7f, 0x00, 0x00, 0x00, 0x00, 0x00],
     [0x00, 0x9c, 0x7f, 0x00, 0x00, 0x00, 0x00, 0x00, 0x00, 0x9c, 0x7f, 0x00],
     [0x00, 0x00, 0x00, 0x00, 0x00, 0x9c, 0x7f, 0x00, 0x01, 0x00, 0x00, 0x04],
     [0x00, 0x00, 0x00, 0x00, 0x00, 0x9c, 0x7f, 0x00, 0x00, 0x00, 0x00, 0x00],
     [0x00, 0x9c, 0x7f, 0x00, 0x00, 0x00, 0x00, 0x00, 0x00, 0x9c, 0x7f, 0x00],
     [0x00, 0x00, 0x00, 0x00, 0x00, 0x9c, 0x7f, 0x00, 0x01, 0x00, 0x00, 0x04],
     [0x00, 0x00, 0x00, 0x00, 0x00, 0x9c, 0x7f, 0x00, 0x00, 0x00, 0x00, 0x00],
     [0x00, 0x9c, 0x7f, 0x00, 0x00, 0x00, 0x00, 0x00, 0x00, 0x9c, 0x7f, 0x00],
     [0x00, 0x00, 0x00, 0x00, 0x00, 0x9c, 0x7f, 0x00, 0x01, 0x00, 0x00, 0x04],
     [0x00, 0x00, 0x00, 0x00, 0x00, 0x9c, 0x7f, 0x00, 0x00, 0x00, 0x00, 0x00],
     [0x00, 0x9c, 0x7f, 0x00, 0x00, 0x00, 0x00, 0x00, 0x00, 0x9c, 0x7f, 0x00],
     [0x00, 0x00, 0x00, 0x00, 0x00, 0x9c, 0x7f, 0x00, 0x01, 0x00, 0x00, 0x04],
     [0x00, 0x00, 0x00, 0x00, 0x00, 0x9c, 0x7f, 0x00, 0x00, 0x00, 0x00, 0x00],
     [0x00, 0x9c, 0x7f, 0x00, 0x00, 0x00, 0x00, 0x00, 0x00, 0x9c, 0x7f, 0x00],
     [0x00, 0x00, 0x00, 0x00, 0x00, 0x9c, 0x7f, 0x00, 0x01, 0x00, 0x00, 0x04],
     [0x00, 0x00, 0x00, 0x00, 0x00, 0x9c, 0x7f, 0x00, 0x00, 0x00, 0x00, 0x00],
     [0x00, 0x9c, 0x7f, 0x00, 0x00, 0x00, 0x00, 0x00, 0x00, 0x9c, 0x7f, 0x00],
     [0x00, 0x00, 0x00, 0x00, 0x00, 0x9c, 0x7f, 0x00, 0x01, 0x00, 0x00, 0x04],
     [0x00, 0x00, 0x00, 0x00, 0x00, 0x9c, 0x7f, 0x00, 0x00, 0x00, 0x00, 0x00],
     [0x00, 0x9c, 0x7f, 0x00, 0x00, 0x00, 0x00, 0x00, 0x00, 0x9c, 0x7f, 0x00],
     [0x00, 0x00, 0x00, 0x00, 0x00, 0x9c, 0x7f, 0x00, 0x01, 0x00, 0x00, 0x04],
     [0x00, 0x00, 0x00, 0x00, 0x00, 0x9c, 0x7f, 0x00, 0x00, 0x00, 0x00, 0x00],
     [0x00, 0x9c, 0x7f, 0x00, 0x00, 0x00, 0x00, 0x00, 0x00, 0x9c, 0x7f, 0x00],
     [0x00, 0x00, 0x00, 0x00, 0x00, 0x9c, 0x7f, 0x00, 0x01, 0x00, 0x00, 0x04],
     [0x00, 0x00, 0x00, 0x00, 0x00, 0x9c, 0x7f, 0x00, 0x00, 0x00, 0x00, 0x00],
     [0x00, 0x9c, 0x7f, 0x00, 0x00, 0x00, 0x00, 0x00, 0x00, 0x9c, 0x7f, 0x00],
     [0x00, 0x00, 0x00, 0x00, 0x00, 0x9c, 0x7f, 0x00, 0x01, 0x00, 0x00, 0x04],
     [0x00, 0x00, 0x00, 0x00, 0x00, 0x9c, 0x7f, 0x00, 0x00, 0x00, 0x00, 0x00],
     [0x00, 0x9c, 0x7f, 0x00, 0x00, 0x00, 0x00, 0x00, 0x00, 0x9c, 0x7f, 0x00],
     [0x00, 0x00, 0x00, 0x00, 0x00, 0x9c, 0x7f, 0x00, 0x01, 0x00, 0x00, 0x04],
     [0x00, 0x00, 0x00, 0x00, 0x00, 0x9c, 0x7f, 0x00, 0x00, 0x00, 0x00, 0x00],
     [0x00, 0x9c, 0x7f, 0x00, 0x00, 0x00, 0x00, 0x00, 0x00, 0x9c, 0x7f, 0x00],
     [0x00, 0x00, 0x00, 0x00, 0x00, 0x9c, 0x7f, 0x00, 0x01, 0x00, 0x00, 0x04],
     [0x00, 0x00, 0x00, 0x00, 0x00, 0x9c, 0x7f, 0x00, 0x00, 0x00, 0x00, 0x00],
     [0x00, 0x9c, 0x7f, 0x00, 0x00, 0x00, 0x00, 0x00, 0x00, 0x9c, 0x7f, 0x00],
     [0x00, 0x00, 0x00, 0x00, 0x00, 0x9c, 0x7f, 0x00, 0x01, 0x00, 0x00, 0x04],
     [0x00, 0x00, 0x00, 0x00, 0x00, 0x9c, 0x7f, 0x00, 0x00, 0x00, 0x00, 0x00],
     [0x00, 0x9c, 0x7f, 0x00, 0x00, 0x00, 0x00, 0x00, 0x00, 0x9c, 0x7f, 0x00],
     [0x00, 0x00, 0x00, 0x00, 0x00, 0x9c, 0x7f, 0x00, 0x01, 0x00, 0x00, 0x04]]"

definition ucode_template_0x00A60F12 :: "u8 list" where
  "ucode_template_0x00A60F12 = ucode_template_0x00A60F12_part0 @ ucode_template_0x00A60F12_part1 @ ucode_template_0x00A60F12_part2 @ ucode_template_0x00A60F12_part3"

lemma length_template_0x00A60F12: "length ucode_template_0x00A60F12 = 5568"
  by (simp add: ucode_template_0x00A60F12_def
      ucode_template_0x00A60F12_part0_def
      ucode_template_0x00A60F12_part1_def
      ucode_template_0x00A60F12_part2_def
      ucode_template_0x00A60F12_part3_def)

definition ucode_template_0x00870F10_part0 :: "u8 list" where
  "ucode_template_0x00870F10_part0 = concat [
     [0x19, 0x20, 0x22, 0x03, 0x40, 0x10, 0x70, 0x08, 0x04, 0x80, 0x00, 0x00],
     [0x00, 0x00, 0x00, 0x00, 0x00, 0x00, 0x00, 0x00, 0x00, 0x00, 0x00, 0x00],
     [0x10, 0x87, 0x00, 0x00, 0x00, 0x00, 0x00, 0x00, 0x7b, 0xf0, 0xc7, 0x76],
     [0x2a, 0x99, 0xec, 0x24, 0x96, 0xed, 0x11, 0x75, 0xea, 0x99, 0x98, 0x5f],
     [0x8b, 0x88, 0x3b, 0xe7, 0x1f, 0xa7, 0x99, 0xa5, 0xc1, 0xb2, 0x22, 0x89],
     [0xcd, 0xe3, 0x6c, 0x3c, 0x06, 0xa1, 0x90, 0x7f, 0xec, 0x89, 0x0e, 0xc9],
     [0x07, 0xfb, 0x0b, 0x5b, 0x6a, 0x47, 0x9f, 0x97, 0x0e, 0x6a, 0x2b, 0x4a],
     [0x4f, 0xa5, 0x0b, 0x04, 0x96, 0xec, 0x88, 0x70, 0x1c, 0x25, 0xd4, 0xbd],
     [0xe2, 0x8f, 0xda, 0x45, 0xc7, 0x3e, 0xc5, 0x1a, 0x64, 0x03, 0x49, 0x5b],
     [0x0f, 0xf0, 0x87, 0x9c, 0xe3, 0xb3, 0x6b, 0x99, 0x70, 0x2d, 0x5f, 0x82],
     [0xa1, 0xda, 0xe2, 0x57, 0x7c, 0xea, 0x7a, 0xea, 0x32, 0xde, 0x37, 0xe9],
     [0x49, 0x60, 0xd7, 0xe8, 0xff, 0x11, 0x0d, 0xd0, 0x7e, 0x92, 0x57, 0x47],
     [0xe6, 0x03, 0x55, 0xab, 0xec, 0x6d, 0xc6, 0x9a, 0xc5, 0xd2, 0x86, 0x23],
     [0xf9, 0x83, 0xfc, 0x75, 0xd5, 0x28, 0x56, 0xa3, 0x88, 0xe7, 0x38, 0x39],
     [0xa2, 0x49, 0x91, 0x4a, 0xb4, 0x24, 0xfb, 0x14, 0x24, 0xd2, 0xda, 0xf2],
     [0x37, 0x38, 0x52, 0x89, 0xf2, 0x40, 0x12, 0x3e, 0x90, 0x06, 0x18, 0x44],
     [0xb6, 0x8a, 0xe7, 0xa0, 0xcf, 0x00, 0x9d, 0xaa, 0x95, 0xd0, 0x5a, 0x06],
     [0xe2, 0xff, 0xa2, 0x9b, 0x71, 0xa7, 0x41, 0xee, 0xa5, 0xa5, 0x61, 0x9e],
     [0xa0, 0xbe, 0xfe, 0xab, 0x68, 0xb8, 0x43, 0x92, 0x0b, 0xcc, 0xa7, 0x0d],
     [0xc0, 0x41, 0xa4, 0xa6, 0xb5, 0x0f, 0x10, 0x17, 0x1e, 0x2e, 0xf9, 0x41],
     [0x05, 0xca, 0x7c, 0x39, 0x43, 0x6b, 0x76, 0x8a, 0x27, 0xf9, 0x6d, 0xb1],
     [0x8b, 0xf5, 0x27, 0xfa, 0x4b, 0x80, 0xad, 0xaa, 0x30, 0x8e, 0xe4, 0xcf],
     [0xbd, 0xd6, 0x9f, 0xc9, 0xd3, 0x5e, 0x35, 0x36, 0x35, 0x12, 0x6a, 0xa7],
     [0x43, 0x08, 0x13, 0xe1, 0xc4, 0x36, 0xba, 0xf7, 0x31, 0x85, 0xca, 0x30],
     [0x80, 0x00, 0x00, 0x00, 0x00, 0x00, 0x00, 0x00, 0x00, 0x00, 0x00, 0x00],
     [0x00, 0x00, 0x00, 0x00, 0xae, 0x46, 0x34, 0xb8, 0x38, 0x05, 0xea, 0x28],
     [0xd7, 0xec, 0xac, 0x00, 0x53, 0xa6, 0xab, 0x6c, 0x00, 0x00, 0x00, 0x00],
     [0x00, 0x00, 0x00, 0x00, 0x00, 0x00, 0x00, 0x00, 0x00, 0x00, 0x00, 0x00],
     [0x00, 0x00, 0x00, 0x00, 0x00, 0x00, 0x00, 0x00, 0x00, 0x00, 0x00, 0x00],
     [0x00, 0x00, 0x00, 0x00, 0x00, 0x00, 0x00, 0x00, 0x00, 0x00, 0x00, 0x00],
     [0x00, 0x00, 0x00, 0x00, 0x00, 0x00, 0x00, 0x00, 0x00, 0x00, 0x00, 0x00],
     [0x00, 0x00, 0x00, 0x00, 0x00, 0x00, 0x00, 0x00, 0x00, 0x00, 0x00, 0x00],
     [0x00, 0x00, 0x00, 0x00, 0x00, 0x00, 0x00, 0x00, 0x00, 0x00, 0x00, 0x00],
     [0x00, 0x00, 0x00, 0x00, 0x00, 0x00, 0x00, 0x00, 0x00, 0x00, 0x00, 0x00],
     [0x00, 0x00, 0x00, 0x00, 0x00, 0x00, 0x00, 0x00, 0x00, 0x00, 0x00, 0x00],
     [0x00, 0x00, 0x00, 0x00, 0x00, 0x00, 0x00, 0x00, 0x00, 0x00, 0x00, 0x00],
     [0x00, 0x00, 0x00, 0x00, 0x00, 0x00, 0x00, 0x00, 0x00, 0x00, 0x00, 0x00],
     [0x00, 0x00, 0x00, 0x00, 0x00, 0x00, 0x00, 0x00, 0x00, 0x00, 0x00, 0x00],
     [0x00, 0x00, 0x00, 0x00, 0x00, 0x00, 0x00, 0x00, 0x00, 0x00, 0x00, 0x00],
     [0x00, 0x00, 0x00, 0x00, 0x00, 0x00, 0x00, 0x00, 0x00, 0x00, 0x00, 0x00],
     [0x00, 0x00, 0x00, 0x00, 0x00, 0x00, 0x00, 0x00, 0x00, 0x00, 0x00, 0x00],
     [0x00, 0x00, 0x00, 0x00, 0x00, 0x00, 0x00, 0x00, 0x00, 0x00, 0x00, 0x00],
     [0x00, 0x00, 0x00, 0x00, 0x00, 0x00, 0x00, 0x00, 0x00, 0x00, 0x00, 0x00],
     [0x00, 0x00, 0x00, 0x00, 0x00, 0x00, 0x00, 0x00, 0x00, 0x00, 0x00, 0x00],
     [0x00, 0x00, 0x00, 0x00, 0x00, 0x00, 0x00, 0x00, 0x00, 0x00, 0x00, 0x00],
     [0x00, 0x00, 0x00, 0x13, 0x17, 0xc1, 0x98, 0x77, 0x22, 0xbf, 0x77, 0xd8],
     [0x49, 0xc0, 0x2d, 0x62, 0x92, 0x15, 0x46, 0x34, 0x7a, 0x74, 0x7e, 0x5f],
     [0x89, 0x04, 0xfa, 0xf9, 0xbb, 0x1a, 0x2f, 0x47, 0x9f, 0xc9, 0xdb, 0x99],
     [0x79, 0x43, 0x5e, 0x50, 0xd7, 0x94, 0x35, 0xe5, 0x0d, 0x79, 0x43, 0x5e],
     [0x50, 0xd7, 0x94, 0x35, 0xe5, 0x0d, 0x79, 0x43, 0x5e, 0x50, 0xd7, 0x94],
     [0x35, 0xe5, 0x0d, 0x79, 0x43, 0x5e, 0x50, 0xd7, 0x94, 0x35, 0xe5, 0x0d],
     [0x79, 0x43, 0x5e, 0x50, 0xd7, 0x94, 0x35, 0xe5, 0x0d, 0x79, 0x43, 0x5e],
     [0x50, 0xd7, 0x94, 0x35, 0xe5, 0x0d, 0x79, 0x43, 0x5e, 0x50, 0xd7, 0x94],
     [0x35, 0xe5, 0x0d, 0x79, 0x43, 0x5e, 0x50, 0xd7, 0x94, 0x35, 0xe5, 0x0d],
     [0x79, 0x43, 0x5e, 0x50, 0xd7, 0x94, 0x35, 0xe5, 0x0d, 0x79, 0x43, 0x5e],
     [0x50, 0xd7, 0x94, 0x35, 0xe5, 0x0d, 0x79, 0x43, 0x5e, 0x50, 0xd7, 0x94],
     [0x35, 0xe5, 0x0d, 0x79, 0x43, 0x5e, 0x50, 0xd7, 0x94, 0x35, 0xe5, 0x0d],
     [0x79, 0x43, 0x5e, 0x50, 0xd7, 0x94, 0x35, 0xe5, 0x0d, 0x79, 0x43, 0x5e],
     [0x50, 0xd7, 0x94, 0x35, 0xe5, 0x0d, 0x79, 0x43, 0x5e, 0x50, 0xd7, 0x94],
     [0x35, 0xe5, 0x0d, 0x79, 0x43, 0x5e, 0x50, 0xd7, 0x94, 0x35, 0xe5, 0x0d],
     [0x79, 0x43, 0x5e, 0x50, 0xd7, 0x94, 0x35, 0xe5, 0x0d, 0x79, 0x43, 0x5e],
     [0x50, 0xd7, 0x94, 0x35, 0xe5, 0x0d, 0x79, 0x43, 0x5e, 0x50, 0xd7, 0x94],
     [0x35, 0xe5, 0x0d, 0x79, 0x43, 0x5e, 0x50, 0xd7, 0x94, 0x35, 0xe5, 0x0d],
     [0x79, 0x43, 0x5e, 0x50, 0xd7, 0x94, 0x35, 0xe5, 0x0d, 0x79, 0x43, 0x5e],
     [0x50, 0xd7, 0x94, 0x35, 0xe5, 0x0d, 0x79, 0x43, 0x5e, 0x50, 0xd7, 0x94],
     [0x35, 0xe5, 0x0d, 0x79, 0x43, 0x5e, 0x50, 0xd7, 0x94, 0x35, 0xe5, 0x0d],
     [0x79, 0x43, 0x5e, 0x50, 0xd7, 0x94, 0x35, 0xe5, 0x00, 0x00, 0x00, 0x00],
     [0x40, 0x10, 0x70, 0x08, 0x00, 0x00, 0x00, 0x00, 0x00, 0x00, 0x00, 0x00],
     [0x00, 0x00, 0x00, 0x00, 0x00, 0x00, 0x00, 0x00, 0x00, 0x00, 0x00, 0x00],
     [0x00, 0x00, 0x00, 0x00, 0x00, 0x00, 0x00, 0x00, 0x00, 0x00, 0x00, 0x00],
     [0x00, 0x00, 0x00, 0x00, 0x00, 0x00, 0x00, 0x00, 0x00, 0x00, 0x00, 0x00],
     [0x00, 0x00, 0x00, 0x00, 0x00, 0x00, 0x00, 0x00, 0x00, 0x00, 0x00, 0x00],
     [0x00, 0x00, 0x00, 0x00, 0x00, 0x00, 0x00, 0x00, 0x00, 0x00, 0x00, 0x00],
     [0x00, 0x00, 0x00, 0x00, 0x00, 0x00, 0x00, 0x00, 0x00, 0x00, 0x00, 0x00],
     [0x00, 0x00, 0x00, 0x00, 0x00, 0x00, 0x00, 0x00, 0x00, 0x00, 0x00, 0x00],
     [0x00, 0x9c, 0x7f, 0x00, 0x00, 0x00, 0x00, 0x00, 0x00, 0x9c, 0x7f, 0x00],
     [0x00, 0x00, 0x00, 0x00, 0x00, 0x9c, 0x7f, 0x00, 0x00, 0x00, 0x00, 0x00],
     [0x00, 0x9c, 0x7f, 0x00, 0x01, 0x00, 0x00, 0x04, 0x00, 0x00, 0x00, 0x00],
     [0x00, 0x9c, 0x7f, 0x00, 0x00, 0x00, 0x00, 0x00, 0x00, 0x9c, 0x7f, 0x00],
     [0x00, 0x00, 0x00, 0x00, 0x00, 0x9c, 0x7f, 0x00, 0x00, 0x00, 0x00, 0x00],
     [0x00, 0x9c, 0x7f, 0x00, 0x01, 0x00, 0x00, 0x04, 0x00, 0x00, 0x00, 0x00],
     [0x00, 0x9c, 0x7f, 0x00, 0x00, 0x00, 0x00, 0x00, 0x00, 0x9c, 0x7f, 0x00],
     [0x00, 0x00, 0x00, 0x00, 0x00, 0x9c, 0x7f, 0x00, 0x00, 0x00, 0x00, 0x00],
     [0x00, 0x9c, 0x7f, 0x00, 0x01, 0x00, 0x00, 0x04, 0x00, 0x00, 0x00, 0x00],
     [0x00, 0x9c, 0x7f, 0x00, 0x00, 0x00, 0x00, 0x00, 0x00, 0x9c, 0x7f, 0x00],
     [0x00, 0x00, 0x00, 0x00, 0x00, 0x9c, 0x7f, 0x00, 0x00, 0x00, 0x00, 0x00],
     [0x00, 0x9c, 0x7f, 0x00, 0x01, 0x00, 0x00, 0x04, 0x00, 0x00, 0x00, 0x00],
     [0x00, 0x9c, 0x7f, 0x00, 0x00, 0x00, 0x00, 0x00, 0x00, 0x9c, 0x7f, 0x00],
     [0x00, 0x00, 0x00, 0x00, 0x00, 0x9c, 0x7f, 0x00, 0x00, 0x00, 0x00, 0x00],
     [0x00, 0x9c, 0x7f, 0x00, 0x01, 0x00, 0x00, 0x04, 0x00, 0x00, 0x00, 0x00],
     [0x00, 0x9c, 0x7f, 0x00, 0x00, 0x00, 0x00, 0x00, 0x00, 0x9c, 0x7f, 0x00],
     [0x00, 0x00, 0x00, 0x00, 0x00, 0x9c, 0x7f, 0x00, 0x00, 0x00, 0x00, 0x00],
     [0x00, 0x9c, 0x7f, 0x00, 0x01, 0x00, 0x00, 0x04, 0x00, 0x00, 0x00, 0x00],
     [0x00, 0x9c, 0x7f, 0x00, 0x00, 0x00, 0x00, 0x00, 0x00, 0x9c, 0x7f, 0x00],
     [0x00, 0x00, 0x00, 0x00, 0x00, 0x9c, 0x7f, 0x00, 0x00, 0x00, 0x00, 0x00],
     [0x00, 0x9c, 0x7f, 0x00, 0x01, 0x00, 0x00, 0x04, 0x00, 0x00, 0x00, 0x00],
     [0x00, 0x9c, 0x7f, 0x00, 0x00, 0x00, 0x00, 0x00, 0x00, 0x9c, 0x7f, 0x00],
     [0x00, 0x00, 0x00, 0x00, 0x00, 0x9c, 0x7f, 0x00, 0x00, 0x00, 0x00, 0x00],
     [0x00, 0x9c, 0x7f, 0x00, 0x01, 0x00, 0x00, 0x04, 0x00, 0x00, 0x00, 0x00],
     [0x00, 0x9c, 0x7f, 0x00, 0x00, 0x00, 0x00, 0x00, 0x00, 0x9c, 0x7f, 0x00],
     [0x00, 0x00, 0x00, 0x00, 0x00, 0x9c, 0x7f, 0x00, 0x00, 0x00, 0x00, 0x00],
     [0x00, 0x9c, 0x7f, 0x00, 0x01, 0x00, 0x00, 0x04, 0x00, 0x00, 0x00, 0x00],
     [0x00, 0x9c, 0x7f, 0x00, 0x00, 0x00, 0x00, 0x00, 0x00, 0x9c, 0x7f, 0x00],
     [0x00, 0x00, 0x00, 0x00, 0x00, 0x9c, 0x7f, 0x00, 0x00, 0x00, 0x00, 0x00],
     [0x00, 0x9c, 0x7f, 0x00, 0x01, 0x00, 0x00, 0x04, 0x00, 0x00, 0x00, 0x00],
     [0x00, 0x9c, 0x7f, 0x00, 0x00, 0x00, 0x00, 0x00, 0x00, 0x9c, 0x7f, 0x00],
     [0x00, 0x00, 0x00, 0x00, 0x00, 0x9c, 0x7f, 0x00, 0x00, 0x00, 0x00, 0x00],
     [0x00, 0x9c, 0x7f, 0x00, 0x01, 0x00, 0x00, 0x04, 0x00, 0x00, 0x00, 0x00],
     [0x00, 0x9c, 0x7f, 0x00, 0x00, 0x00, 0x00, 0x00, 0x00, 0x9c, 0x7f, 0x00],
     [0x00, 0x00, 0x00, 0x00, 0x00, 0x9c, 0x7f, 0x00, 0x00, 0x00, 0x00, 0x00],
     [0x00, 0x9c, 0x7f, 0x00, 0x01, 0x00, 0x00, 0x04, 0x00, 0x00, 0x00, 0x00],
     [0x00, 0x9c, 0x7f, 0x00, 0x00, 0x00, 0x00, 0x00, 0x00, 0x9c, 0x7f, 0x00],
     [0x00, 0x00, 0x00, 0x00, 0x00, 0x9c, 0x7f, 0x00, 0x00, 0x00, 0x00, 0x00],
     [0x00, 0x9c, 0x7f, 0x00, 0x01, 0x00, 0x00, 0x04, 0x00, 0x00, 0x00, 0x00],
     [0x00, 0x9c, 0x7f, 0x00, 0x00, 0x00, 0x00, 0x00, 0x00, 0x9c, 0x7f, 0x00],
     [0x00, 0x00, 0x00, 0x00, 0x00, 0x9c, 0x7f, 0x00, 0x00, 0x00, 0x00, 0x00],
     [0x00, 0x9c, 0x7f, 0x00, 0x01, 0x00, 0x00, 0x04, 0x00, 0x00, 0x00, 0x00],
     [0x00, 0x9c, 0x7f, 0x00, 0x00, 0x00, 0x00, 0x00, 0x00, 0x9c, 0x7f, 0x00],
     [0x00, 0x00, 0x00, 0x00, 0x00, 0x9c, 0x7f, 0x00, 0x00, 0x00, 0x00, 0x00],
     [0x00, 0x9c, 0x7f, 0x00, 0x01, 0x00, 0x00, 0x04, 0x00, 0x00, 0x00, 0x00]]"

definition ucode_template_0x00870F10_part1 :: "u8 list" where
  "ucode_template_0x00870F10_part1 = concat [
     [0x00, 0x9c, 0x7f, 0x00, 0x00, 0x00, 0x00, 0x00, 0x00, 0x9c, 0x7f, 0x00],
     [0x00, 0x00, 0x00, 0x00, 0x00, 0x9c, 0x7f, 0x00, 0x00, 0x00, 0x00, 0x00],
     [0x00, 0x9c, 0x7f, 0x00, 0x01, 0x00, 0x00, 0x04, 0x00, 0x00, 0x00, 0x00],
     [0x00, 0x9c, 0x7f, 0x00, 0x00, 0x00, 0x00, 0x00, 0x00, 0x9c, 0x7f, 0x00],
     [0x00, 0x00, 0x00, 0x00, 0x00, 0x9c, 0x7f, 0x00, 0x00, 0x00, 0x00, 0x00],
     [0x00, 0x9c, 0x7f, 0x00, 0x01, 0x00, 0x00, 0x04, 0x00, 0x00, 0x00, 0x00],
     [0x00, 0x9c, 0x7f, 0x00, 0x00, 0x00, 0x00, 0x00, 0x00, 0x9c, 0x7f, 0x00],
     [0x00, 0x00, 0x00, 0x00, 0x00, 0x9c, 0x7f, 0x00, 0x00, 0x00, 0x00, 0x00],
     [0x00, 0x9c, 0x7f, 0x00, 0x01, 0x00, 0x00, 0x04, 0x00, 0x00, 0x00, 0x00],
     [0x00, 0x9c, 0x7f, 0x00, 0x00, 0x00, 0x00, 0x00, 0x00, 0x9c, 0x7f, 0x00],
     [0x00, 0x00, 0x00, 0x00, 0x00, 0x9c, 0x7f, 0x00, 0x00, 0x00, 0x00, 0x00],
     [0x00, 0x9c, 0x7f, 0x00, 0x01, 0x00, 0x00, 0x04, 0x00, 0x00, 0x00, 0x00],
     [0x00, 0x9c, 0x7f, 0x00, 0x00, 0x00, 0x00, 0x00, 0x00, 0x9c, 0x7f, 0x00],
     [0x00, 0x00, 0x00, 0x00, 0x00, 0x9c, 0x7f, 0x00, 0x00, 0x00, 0x00, 0x00],
     [0x00, 0x9c, 0x7f, 0x00, 0x01, 0x00, 0x00, 0x04, 0x00, 0x00, 0x00, 0x00],
     [0x00, 0x9c, 0x7f, 0x00, 0x00, 0x00, 0x00, 0x00, 0x00, 0x9c, 0x7f, 0x00],
     [0x00, 0x00, 0x00, 0x00, 0x00, 0x9c, 0x7f, 0x00, 0x00, 0x00, 0x00, 0x00],
     [0x00, 0x9c, 0x7f, 0x00, 0x01, 0x00, 0x00, 0x04, 0x00, 0x00, 0x00, 0x00],
     [0x00, 0x9c, 0x7f, 0x00, 0x00, 0x00, 0x00, 0x00, 0x00, 0x9c, 0x7f, 0x00],
     [0x00, 0x00, 0x00, 0x00, 0x00, 0x9c, 0x7f, 0x00, 0x00, 0x00, 0x00, 0x00],
     [0x00, 0x9c, 0x7f, 0x00, 0x01, 0x00, 0x00, 0x04, 0x00, 0x00, 0x00, 0x00],
     [0x00, 0x9c, 0x7f, 0x00, 0x00, 0x00, 0x00, 0x00, 0x00, 0x9c, 0x7f, 0x00],
     [0x00, 0x00, 0x00, 0x00, 0x00, 0x9c, 0x7f, 0x00, 0x00, 0x00, 0x00, 0x00],
     [0x00, 0x9c, 0x7f, 0x00, 0x01, 0x00, 0x00, 0x04, 0x00, 0x00, 0x00, 0x00],
     [0x00, 0x9c, 0x7f, 0x00, 0x00, 0x00, 0x00, 0x00, 0x00, 0x9c, 0x7f, 0x00],
     [0x00, 0x00, 0x00, 0x00, 0x00, 0x9c, 0x7f, 0x00, 0x00, 0x00, 0x00, 0x00],
     [0x00, 0x9c, 0x7f, 0x00, 0x01, 0x00, 0x00, 0x04, 0x00, 0x00, 0x00, 0x00],
     [0x00, 0x9c, 0x7f, 0x00, 0x00, 0x00, 0x00, 0x00, 0x00, 0x9c, 0x7f, 0x00],
     [0x00, 0x00, 0x00, 0x00, 0x00, 0x9c, 0x7f, 0x00, 0x00, 0x00, 0x00, 0x00],
     [0x00, 0x9c, 0x7f, 0x00, 0x01, 0x00, 0x00, 0x04, 0x00, 0x00, 0x00, 0x00],
     [0x00, 0x9c, 0x7f, 0x00, 0x00, 0x00, 0x00, 0x00, 0x00, 0x9c, 0x7f, 0x00],
     [0x00, 0x00, 0x00, 0x00, 0x00, 0x9c, 0x7f, 0x00, 0x00, 0x00, 0x00, 0x00],
     [0x00, 0x9c, 0x7f, 0x00, 0x01, 0x00, 0x00, 0x04, 0x00, 0x00, 0x00, 0x00],
     [0x00, 0x9c, 0x7f, 0x00, 0x00, 0x00, 0x00, 0x00, 0x00, 0x9c, 0x7f, 0x00],
     [0x00, 0x00, 0x00, 0x00, 0x00, 0x9c, 0x7f, 0x00, 0x00, 0x00, 0x00, 0x00],
     [0x00, 0x9c, 0x7f, 0x00, 0x01, 0x00, 0x00, 0x04, 0x00, 0x00, 0x00, 0x00],
     [0x00, 0x9c, 0x7f, 0x00, 0x00, 0x00, 0x00, 0x00, 0x00, 0x9c, 0x7f, 0x00],
     [0x00, 0x00, 0x00, 0x00, 0x00, 0x9c, 0x7f, 0x00, 0x00, 0x00, 0x00, 0x00],
     [0x00, 0x9c, 0x7f, 0x00, 0x01, 0x00, 0x00, 0x04, 0x00, 0x00, 0x00, 0x00],
     [0x00, 0x9c, 0x7f, 0x00, 0x00, 0x00, 0x00, 0x00, 0x00, 0x9c, 0x7f, 0x00],
     [0x00, 0x00, 0x00, 0x00, 0x00, 0x9c, 0x7f, 0x00, 0x00, 0x00, 0x00, 0x00],
     [0x00, 0x9c, 0x7f, 0x00, 0x01, 0x00, 0x00, 0x04, 0x00, 0x00, 0x00, 0x00],
     [0x00, 0x9c, 0x7f, 0x00, 0x00, 0x00, 0x00, 0x00, 0x00, 0x9c, 0x7f, 0x00],
     [0x00, 0x00, 0x00, 0x00, 0x00, 0x9c, 0x7f, 0x00, 0x00, 0x00, 0x00, 0x00],
     [0x00, 0x9c, 0x7f, 0x00, 0x01, 0x00, 0x00, 0x04, 0x00, 0x00, 0x00, 0x00],
     [0x00, 0x9c, 0x7f, 0x00, 0x00, 0x00, 0x00, 0x00, 0x00, 0x9c, 0x7f, 0x00],
     [0x00, 0x00, 0x00, 0x00, 0x00, 0x9c, 0x7f, 0x00, 0x00, 0x00, 0x00, 0x00],
     [0x00, 0x9c, 0x7f, 0x00, 0x01, 0x00, 0x00, 0x04, 0x00, 0x00, 0x00, 0x00],
     [0x00, 0x9c, 0x7f, 0x00, 0x00, 0x00, 0x00, 0x00, 0x00, 0x9c, 0x7f, 0x00],
     [0x00, 0x00, 0x00, 0x00, 0x00, 0x9c, 0x7f, 0x00, 0x00, 0x00, 0x00, 0x00],
     [0x00, 0x9c, 0x7f, 0x00, 0x01, 0x00, 0x00, 0x04, 0x00, 0x00, 0x00, 0x00],
     [0x00, 0x9c, 0x7f, 0x00, 0x00, 0x00, 0x00, 0x00, 0x00, 0x9c, 0x7f, 0x00],
     [0x00, 0x00, 0x00, 0x00, 0x00, 0x9c, 0x7f, 0x00, 0x00, 0x00, 0x00, 0x00],
     [0x00, 0x9c, 0x7f, 0x00, 0x01, 0x00, 0x00, 0x04, 0x00, 0x00, 0x00, 0x00],
     [0x00, 0x9c, 0x7f, 0x00, 0x00, 0x00, 0x00, 0x00, 0x00, 0x9c, 0x7f, 0x00],
     [0x00, 0x00, 0x00, 0x00, 0x00, 0x9c, 0x7f, 0x00, 0x00, 0x00, 0x00, 0x00],
     [0x00, 0x9c, 0x7f, 0x00, 0x01, 0x00, 0x00, 0x04, 0x00, 0x00, 0x00, 0x00],
     [0x00, 0x9c, 0x7f, 0x00, 0x00, 0x00, 0x00, 0x00, 0x00, 0x9c, 0x7f, 0x00],
     [0x00, 0x00, 0x00, 0x00, 0x00, 0x9c, 0x7f, 0x00, 0x00, 0x00, 0x00, 0x00],
     [0x00, 0x9c, 0x7f, 0x00, 0x01, 0x00, 0x00, 0x04, 0x00, 0x00, 0x00, 0x00],
     [0x00, 0x9c, 0x7f, 0x00, 0x00, 0x00, 0x00, 0x00, 0x00, 0x9c, 0x7f, 0x00],
     [0x00, 0x00, 0x00, 0x00, 0x00, 0x9c, 0x7f, 0x00, 0x00, 0x00, 0x00, 0x00],
     [0x00, 0x9c, 0x7f, 0x00, 0x01, 0x00, 0x00, 0x04, 0x00, 0x00, 0x00, 0x00],
     [0x00, 0x9c, 0x7f, 0x00, 0x00, 0x00, 0x00, 0x00, 0x00, 0x9c, 0x7f, 0x00],
     [0x00, 0x00, 0x00, 0x00, 0x00, 0x9c, 0x7f, 0x00, 0x00, 0x00, 0x00, 0x00],
     [0x00, 0x9c, 0x7f, 0x00, 0x01, 0x00, 0x00, 0x04, 0x00, 0x00, 0x00, 0x00],
     [0x00, 0x9c, 0x7f, 0x00, 0x00, 0x00, 0x00, 0x00, 0x00, 0x9c, 0x7f, 0x00],
     [0x00, 0x00, 0x00, 0x00, 0x00, 0x9c, 0x7f, 0x00, 0x00, 0x00, 0x00, 0x00],
     [0x00, 0x9c, 0x7f, 0x00, 0x01, 0x00, 0x00, 0x04, 0x00, 0x00, 0x00, 0x00],
     [0x00, 0x9c, 0x7f, 0x00, 0x00, 0x00, 0x00, 0x00, 0x00, 0x9c, 0x7f, 0x00],
     [0x00, 0x00, 0x00, 0x00, 0x00, 0x9c, 0x7f, 0x00, 0x00, 0x00, 0x00, 0x00],
     [0x00, 0x9c, 0x7f, 0x00, 0x01, 0x00, 0x00, 0x04, 0x00, 0x00, 0x00, 0x00],
     [0x00, 0x9c, 0x7f, 0x00, 0x00, 0x00, 0x00, 0x00, 0x00, 0x9c, 0x7f, 0x00],
     [0x00, 0x00, 0x00, 0x00, 0x00, 0x9c, 0x7f, 0x00, 0x00, 0x00, 0x00, 0x00],
     [0x00, 0x9c, 0x7f, 0x00, 0x01, 0x00, 0x00, 0x04, 0x00, 0x00, 0x00, 0x00],
     [0x00, 0x9c, 0x7f, 0x00, 0x00, 0x00, 0x00, 0x00, 0x00, 0x9c, 0x7f, 0x00],
     [0x00, 0x00, 0x00, 0x00, 0x00, 0x9c, 0x7f, 0x00, 0x00, 0x00, 0x00, 0x00],
     [0x00, 0x9c, 0x7f, 0x00, 0x01, 0x00, 0x00, 0x04, 0x00, 0x00, 0x00, 0x00],
     [0x00, 0x9c, 0x7f, 0x00, 0x00, 0x00, 0x00, 0x00, 0x00, 0x9c, 0x7f, 0x00],
     [0x00, 0x00, 0x00, 0x00, 0x00, 0x9c, 0x7f, 0x00, 0x00, 0x00, 0x00, 0x00],
     [0x00, 0x9c, 0x7f, 0x00, 0x01, 0x00, 0x00, 0x04, 0x00, 0x00, 0x00, 0x00],
     [0x00, 0x9c, 0x7f, 0x00, 0x00, 0x00, 0x00, 0x00, 0x00, 0x9c, 0x7f, 0x00],
     [0x00, 0x00, 0x00, 0x00, 0x00, 0x9c, 0x7f, 0x00, 0x00, 0x00, 0x00, 0x00],
     [0x00, 0x9c, 0x7f, 0x00, 0x01, 0x00, 0x00, 0x04, 0x00, 0x00, 0x00, 0x00],
     [0x00, 0x9c, 0x7f, 0x00, 0x00, 0x00, 0x00, 0x00, 0x00, 0x9c, 0x7f, 0x00],
     [0x00, 0x00, 0x00, 0x00, 0x00, 0x9c, 0x7f, 0x00, 0x00, 0x00, 0x00, 0x00],
     [0x00, 0x9c, 0x7f, 0x00, 0x01, 0x00, 0x00, 0x04, 0x00, 0x00, 0x00, 0x00],
     [0x00, 0x9c, 0x7f, 0x00, 0x00, 0x00, 0x00, 0x00, 0x00, 0x9c, 0x7f, 0x00],
     [0x00, 0x00, 0x00, 0x00, 0x00, 0x9c, 0x7f, 0x00, 0x00, 0x00, 0x00, 0x00],
     [0x00, 0x9c, 0x7f, 0x00, 0x01, 0x00, 0x00, 0x04, 0x00, 0x00, 0x00, 0x00],
     [0x00, 0x9c, 0x7f, 0x00, 0x00, 0x00, 0x00, 0x00, 0x00, 0x9c, 0x7f, 0x00],
     [0x00, 0x00, 0x00, 0x00, 0x00, 0x9c, 0x7f, 0x00, 0x00, 0x00, 0x00, 0x00],
     [0x00, 0x9c, 0x7f, 0x00, 0x01, 0x00, 0x00, 0x04, 0x00, 0x00, 0x00, 0x00],
     [0x00, 0x9c, 0x7f, 0x00, 0x00, 0x00, 0x00, 0x00, 0x00, 0x9c, 0x7f, 0x00],
     [0x00, 0x00, 0x00, 0x00, 0x00, 0x9c, 0x7f, 0x00, 0x00, 0x00, 0x00, 0x00],
     [0x00, 0x9c, 0x7f, 0x00, 0x01, 0x00, 0x00, 0x04, 0x00, 0x00, 0x00, 0x00],
     [0x00, 0x9c, 0x7f, 0x00, 0x00, 0x00, 0x00, 0x00, 0x00, 0x9c, 0x7f, 0x00],
     [0x00, 0x00, 0x00, 0x00, 0x00, 0x9c, 0x7f, 0x00, 0x00, 0x00, 0x00, 0x00],
     [0x00, 0x9c, 0x7f, 0x00, 0x01, 0x00, 0x00, 0x04, 0x00, 0x00, 0x00, 0x00],
     [0x00, 0x9c, 0x7f, 0x00, 0x00, 0x00, 0x00, 0x00, 0x00, 0x9c, 0x7f, 0x00],
     [0x00, 0x00, 0x00, 0x00, 0x00, 0x9c, 0x7f, 0x00, 0x00, 0x00, 0x00, 0x00],
     [0x00, 0x9c, 0x7f, 0x00, 0x01, 0x00, 0x00, 0x04, 0x00, 0x00, 0x00, 0x00],
     [0x00, 0x9c, 0x7f, 0x00, 0x00, 0x00, 0x00, 0x00, 0x00, 0x9c, 0x7f, 0x00],
     [0x00, 0x00, 0x00, 0x00, 0x00, 0x9c, 0x7f, 0x00, 0x00, 0x00, 0x00, 0x00],
     [0x00, 0x9c, 0x7f, 0x00, 0x01, 0x00, 0x00, 0x04, 0x00, 0x00, 0x00, 0x00],
     [0x00, 0x9c, 0x7f, 0x00, 0x00, 0x00, 0x00, 0x00, 0x00, 0x9c, 0x7f, 0x00],
     [0x00, 0x00, 0x00, 0x00, 0x00, 0x9c, 0x7f, 0x00, 0x00, 0x00, 0x00, 0x00],
     [0x00, 0x9c, 0x7f, 0x00, 0x01, 0x00, 0x00, 0x04, 0x00, 0x00, 0x00, 0x00],
     [0x00, 0x9c, 0x7f, 0x00, 0x00, 0x00, 0x00, 0x00, 0x00, 0x9c, 0x7f, 0x00],
     [0x00, 0x00, 0x00, 0x00, 0x00, 0x9c, 0x7f, 0x00, 0x00, 0x00, 0x00, 0x00],
     [0x00, 0x9c, 0x7f, 0x00, 0x01, 0x00, 0x00, 0x04, 0x00, 0x00, 0x00, 0x00],
     [0x00, 0x9c, 0x7f, 0x00, 0x00, 0x00, 0x00, 0x00, 0x00, 0x9c, 0x7f, 0x00],
     [0x00, 0x00, 0x00, 0x00, 0x00, 0x9c, 0x7f, 0x00, 0x00, 0x00, 0x00, 0x00],
     [0x00, 0x9c, 0x7f, 0x00, 0x01, 0x00, 0x00, 0x04, 0x00, 0x00, 0x00, 0x00],
     [0x00, 0x9c, 0x7f, 0x00, 0x00, 0x00, 0x00, 0x00, 0x00, 0x9c, 0x7f, 0x00],
     [0x00, 0x00, 0x00, 0x00, 0x00, 0x9c, 0x7f, 0x00, 0x00, 0x00, 0x00, 0x00],
     [0x00, 0x9c, 0x7f, 0x00, 0x01, 0x00, 0x00, 0x04, 0x00, 0x00, 0x00, 0x00],
     [0x00, 0x9c, 0x7f, 0x00, 0x00, 0x00, 0x00, 0x00, 0x00, 0x9c, 0x7f, 0x00],
     [0x00, 0x00, 0x00, 0x00, 0x00, 0x9c, 0x7f, 0x00, 0x00, 0x00, 0x00, 0x00],
     [0x00, 0x9c, 0x7f, 0x00, 0x01, 0x00, 0x00, 0x04, 0x00, 0x00, 0x00, 0x00]]"

definition ucode_template_0x00870F10_part2 :: "u8 list" where
  "ucode_template_0x00870F10_part2 = concat [
     [0x00, 0x9c, 0x7f, 0x00, 0x00, 0x00, 0x00, 0x00, 0x00, 0x9c, 0x7f, 0x00],
     [0x00, 0x00, 0x00, 0x00, 0x00, 0x9c, 0x7f, 0x00, 0x00, 0x00, 0x00, 0x00],
     [0x00, 0x9c, 0x7f, 0x00, 0x01, 0x00, 0x00, 0x04, 0x00, 0x00, 0x00, 0x00],
     [0x00, 0x9c, 0x7f, 0x00, 0x00, 0x00, 0x00, 0x00, 0x00, 0x9c, 0x7f, 0x00],
     [0x00, 0x00, 0x00, 0x00, 0x00, 0x9c, 0x7f, 0x00, 0x00, 0x00, 0x00, 0x00],
     [0x00, 0x9c, 0x7f, 0x00, 0x01, 0x00, 0x00, 0x04, 0x00, 0x00, 0x00, 0x00],
     [0x00, 0x9c, 0x7f, 0x00, 0x00, 0x00, 0x00, 0x00, 0x00, 0x9c, 0x7f, 0x00],
     [0x00, 0x00, 0x00, 0x00, 0x00, 0x9c, 0x7f, 0x00, 0x00, 0x00, 0x00, 0x00],
     [0x00, 0x9c, 0x7f, 0x00, 0x01, 0x00, 0x00, 0x04, 0x00, 0x00, 0x00, 0x00],
     [0x00, 0x9c, 0x7f, 0x00, 0x00, 0x00, 0x00, 0x00, 0x00, 0x9c, 0x7f, 0x00],
     [0x00, 0x00, 0x00, 0x00, 0x00, 0x9c, 0x7f, 0x00, 0x00, 0x00, 0x00, 0x00],
     [0x00, 0x9c, 0x7f, 0x00, 0x01, 0x00, 0x00, 0x04, 0x00, 0x00, 0x00, 0x00],
     [0x00, 0x9c, 0x7f, 0x00, 0x00, 0x00, 0x00, 0x00, 0x00, 0x9c, 0x7f, 0x00],
     [0x00, 0x00, 0x00, 0x00, 0x00, 0x9c, 0x7f, 0x00, 0x00, 0x00, 0x00, 0x00],
     [0x00, 0x9c, 0x7f, 0x00, 0x01, 0x00, 0x00, 0x04, 0x00, 0x00, 0x00, 0x00],
     [0x00, 0x9c, 0x7f, 0x00, 0x00, 0x00, 0x00, 0x00, 0x00, 0x9c, 0x7f, 0x00],
     [0x00, 0x00, 0x00, 0x00, 0x00, 0x9c, 0x7f, 0x00, 0x00, 0x00, 0x00, 0x00],
     [0x00, 0x9c, 0x7f, 0x00, 0x01, 0x00, 0x00, 0x04, 0x00, 0x00, 0x00, 0x00],
     [0x00, 0x9c, 0x7f, 0x00, 0x00, 0x00, 0x00, 0x00, 0x00, 0x9c, 0x7f, 0x00],
     [0x00, 0x00, 0x00, 0x00, 0x00, 0x9c, 0x7f, 0x00, 0x00, 0x00, 0x00, 0x00],
     [0x00, 0x9c, 0x7f, 0x00, 0x01, 0x00, 0x00, 0x04, 0x00, 0x00, 0x00, 0x00],
     [0x00, 0x9c, 0x7f, 0x00, 0x00, 0x00, 0x00, 0x00, 0x00, 0x9c, 0x7f, 0x00],
     [0x00, 0x00, 0x00, 0x00, 0x00, 0x9c, 0x7f, 0x00, 0x00, 0x00, 0x00, 0x00],
     [0x00, 0x9c, 0x7f, 0x00, 0x01, 0x00, 0x00, 0x04, 0x00, 0x00, 0x00, 0x00],
     [0x00, 0x9c, 0x7f, 0x00, 0x00, 0x00, 0x00, 0x00, 0x00, 0x9c, 0x7f, 0x00],
     [0x00, 0x00, 0x00, 0x00, 0x00, 0x9c, 0x7f, 0x00, 0x00, 0x00, 0x00, 0x00],
     [0x00, 0x9c, 0x7f, 0x00, 0x01, 0x00, 0x00, 0x04]]"

definition ucode_template_0x00870F10 :: "u8 list" where
  "ucode_template_0x00870F10 = ucode_template_0x00870F10_part0 @ ucode_template_0x00870F10_part1 @ ucode_template_0x00870F10_part2"

lemma length_template_0x00870F10: "length ucode_template_0x00870F10 = 3200"
  by (simp add: ucode_template_0x00870F10_def
      ucode_template_0x00870F10_part0_def
      ucode_template_0x00870F10_part1_def
      ucode_template_0x00870F10_part2_def)

end
