(* ===== verification/Ucode_DB.thy ===== *)
theory Ucode_DB
  imports Machine Ucode_Templates
begin

text \<open>
  \<^verbatim>\<open>data/ucode/ucode_db.c\<close>: the built-in microcode updates and the choice of one for a CPU. A
  template is named, with the length and the CPUID list that its header file declares; its bytes are
  in theory \<open>Ucode_Templates\<close>.
\<close>

section \<open>Definitions\<close>

datatype UcodeTemplate = Template_0x00A20F12 | Template_0x00A60F12 | Template_0x00870F10

primrec template_bytes :: "UcodeTemplate \<Rightarrow> u8 list" where
  "template_bytes Template_0x00A20F12 = ucode_template_0x00A20F12"
| "template_bytes Template_0x00A60F12 = ucode_template_0x00A60F12"
| "template_bytes Template_0x00870F10 = ucode_template_0x00870F10"

record UcodeDBEntry =
  update :: UcodeTemplate
  update_length :: u32
  matching_cpuids :: "u32 list"

definition ucode_template_0x00A20F12_len :: u32 where "ucode_template_0x00A20F12_len = 5568"
definition ucode_template_0x00A60F12_len :: u32 where "ucode_template_0x00A60F12_len = 5568"
definition ucode_template_0x00870F10_len :: u32 where "ucode_template_0x00870F10_len = 3200"

definition ucode_template_0x00A20F12_cpuids :: "u32 list" where
  "ucode_template_0x00A20F12_cpuids = [0x00A20F12, 0x0]"
definition ucode_template_0x00A60F12_cpudids :: "u32 list" where
  "ucode_template_0x00A60F12_cpudids = [0x00A60F12, 0]"
definition ucode_template_0x00870F10_cpuids :: "u32 list" where
  "ucode_template_0x00870F10_cpuids = [0x00870F10, 0xFFFFFFFF, 0]"

definition db_entries :: "UcodeDBEntry list" where
  "db_entries =
     [\<lparr>update = Template_0x00A20F12, update_length = ucode_template_0x00A20F12_len,
       matching_cpuids = ucode_template_0x00A20F12_cpuids\<rparr>,
      \<lparr>update = Template_0x00A60F12, update_length = ucode_template_0x00A60F12_len,
       matching_cpuids = ucode_template_0x00A60F12_cpudids\<rparr>,
      \<lparr>update = Template_0x00870F10, update_length = ucode_template_0x00870F10_len,
       matching_cpuids = ucode_template_0x00870F10_cpuids\<rparr>]"

definition FALLBACK_CPUID :: u32 where "FALLBACK_CPUID = 0xffffffff"

text \<open>
  The scan of a zero-terminated array; \<open>None\<close> is a read past the end of an array that has no
  terminator.
\<close>

fun scan_cpuids :: "u32 list \<Rightarrow> u32 \<Rightarrow> bool option" where
  "scan_cpuids [] cpuid = None"
| "scan_cpuids (current # rest) cpuid =
     (if current = 0 then Some False
      else if current = cpuid then Some True else scan_cpuids rest cpuid)"

definition cpudid_matches :: "UcodeDBEntry \<Rightarrow> u32 \<Rightarrow> bool option" where
  "cpudid_matches entry cpuid = scan_cpuids (matching_cpuids entry) cpuid"

text \<open>
  The loop of \<^verbatim>\<open>get_update_for_cpuid\<close> over the entries, with the fallback seen so far. The outer
  option is undefined behaviour, the inner one the null pointer.
\<close>

fun scan_entries :: "UcodeDBEntry list \<Rightarrow> UcodeDBEntry option \<Rightarrow> u32 \<Rightarrow> UcodeDBEntry option option" where
  "scan_entries [] fallback cpuid = Some fallback"
| "scan_entries (current # rest) fallback cpuid =
     (case cpudid_matches current FALLBACK_CPUID of
        None \<Rightarrow> None
      | Some is_fallback \<Rightarrow>
          (case cpudid_matches current cpuid of
             None \<Rightarrow> None
           | Some True \<Rightarrow> Some (Some current)
           | Some False \<Rightarrow>
               scan_entries rest (if is_fallback then Some current else fallback) cpuid))"

definition get_update_for_cpuid :: "u32 \<Rightarrow> UcodeDBEntry option option" where
  "get_update_for_cpuid cpuid = scan_entries db_entries None cpuid"


section \<open>Properties\<close>

text \<open>The specification: an entry applies to the CPUIDs before the first zero.\<close>

definition applies_to :: "UcodeDBEntry \<Rightarrow> u32 \<Rightarrow> bool" where
  "applies_to entry cpuid \<longleftrightarrow> cpuid \<in> set (takeWhile (\<lambda>c. c \<noteq> 0) (matching_cpuids entry))"

lemma cpudid_matches_applies:
  assumes "0 \<in> set (matching_cpuids e)"
  shows "cpudid_matches e c = Some (applies_to e c)"
proof -
  have "0 \<in> set xs \<Longrightarrow> scan_cpuids xs c = Some (c \<in> set (takeWhile (\<lambda>c. c \<noteq> 0) xs))" for xs
    by (induction xs) auto
  with assms show ?thesis by (simp add: cpudid_matches_def applies_to_def)
qed

lemma scan_entries_spec:
  assumes "\<forall>e \<in> set db. 0 \<in> set (matching_cpuids e)"
  shows "scan_entries db fb cpuid = Some
    (case find (\<lambda>e. applies_to e cpuid) db of
       Some e \<Rightarrow> Some e
     | None \<Rightarrow> (case find (\<lambda>e. applies_to e FALLBACK_CPUID) (rev db) of
                  Some e \<Rightarrow> Some e | None \<Rightarrow> fb))"
  using assms
proof (induction db arbitrary: fb)
  case Nil
  then show ?case by simp
next
  case (Cons e db)
  have app: "find p (xs @ [x]) = (case find p xs of Some y \<Rightarrow> Some y | None \<Rightarrow> if p x then Some x else None)"
    for p and xs :: "UcodeDBEntry list" and x
    by (induction xs) auto
  show ?case
    using Cons by (auto simp: cpudid_matches_applies app split: option.splits)
qed

lemmas template_simps = ucode_template_0x00A20F12_cpuids_def
  ucode_template_0x00A60F12_cpudids_def ucode_template_0x00870F10_cpuids_def

lemma get_update_spec:
  "get_update_for_cpuid cpuid = Some (Some (db_entries !
     (if cpuid = 0x00A20F12 then 0 else if cpuid = 0x00A60F12 then 1 else 2)))"
proof -
  have "\<forall>e \<in> set db_entries. 0 \<in> set (matching_cpuids e)"
    by (simp add: db_entries_def template_simps)
  then have "get_update_for_cpuid cpuid = Some
    (case find (\<lambda>e. applies_to e cpuid) db_entries of
       Some e \<Rightarrow> Some e
     | None \<Rightarrow> find (\<lambda>e. applies_to e FALLBACK_CPUID) (rev db_entries))"
    unfolding get_update_for_cpuid_def by (simp add: scan_entries_spec split: option.splits)
  then show ?thesis
    by (simp add: db_entries_def applies_to_def FALLBACK_CPUID_def template_simps)
qed

text \<open>
  For every CPUID the built-in database yields an update, never the null pointer: the
  template of the same name for the two families 0x00A20F12 and 0x00A60F12, and the template
  0x00870F10, which is registered as the fallback, for all others.
\<close>

theorem get_update_for_cpuid_total:
  "get_update_for_cpuid cpuid = Some (Some (db_entries !
     (if cpuid = 0x00A20F12 then 0 else if cpuid = 0x00A60F12 then 1 else 2)))"
  by (rule get_update_spec)

text \<open>Every update fits into a microcode slot.\<close>

lemma db_entries_fit: "e \<in> set db_entries \<Longrightarrow> unat (update_length e) \<le> UCODE_SIZE"
  by (auto simp: db_entries_def ucode_template_0x00A20F12_len_def
      ucode_template_0x00A60F12_len_def ucode_template_0x00870F10_len_def)

text \<open>The declared length of a template is the length of its array.\<close>

lemma db_entries_bytes: "e \<in> set db_entries \<Longrightarrow> length (template_bytes (update e)) = unat (update_length e)"
  by (auto simp: db_entries_def ucode_template_0x00A20F12_len_def ucode_template_0x00A60F12_len_def
      ucode_template_0x00870F10_len_def length_template_0x00A20F12 length_template_0x00A60F12
      length_template_0x00870F10)

lemma get_update_in_db:
  "get_update_for_cpuid cpuid = Some (Some e) \<Longrightarrow> e \<in> set db_entries"
  unfolding get_update_spec by (auto simp: db_entries_def split: if_splits)

end
