(* ===== verification/Ucode_Init.thy ===== *)
theory Ucode_Init
  imports Ucode Ucode_DB
begin

text \<open>
  \<^verbatim>\<open>handlers/ucode.c\<close>, initialisation: slot 0 receives the known good update of the CPU, the boot core a handler
  for general protection faults that skips the faulting instruction, and the cores are set up.
\<close>

section \<open>Initialisation\<close>

text \<open>
  The routines keep the register in \<^verbatim>\<open>idt_structure_addr\<close>. Its ten bytes (limit and base) do not fit the eight of this object: \<^verbatim>\<open>sidt\<close>
  writes the last two over the start of \<^verbatim>\<open>gpf_backup_addr\<close>, the next object of \<^verbatim>\<open>stubs.s\<close>. Nothing else of the program reads or writes either of them,
  so the pair that is stored there is the result of the first routine and the argument of the second, and no part of the state is overwritten.
\<close>

definition read_idt_position :: "'w platform \<Rightarrow> ('w, u16 \<times> u64) prog" where
  "read_idt_position P = gets (\<lambda>s. sidt_hw P (world s))"

definition write_idt_position :: "'w platform \<Rightarrow> u16 \<times> u64 \<Rightarrow> ('w, unit) prog" where
  "write_idt_position P idtr = on_world (\<lambda>w. ((), lidt_hw P (fst idtr) (snd idtr) w))"

text \<open>An entry of the table as its 16 bytes in memory.\<close>

definition idt_entry_bytes :: "IDT_ENTRY \<Rightarrow> u8 list" where
  "idt_entry_bytes e =
     le_bytes 2 (OffsetLow e) @ le_bytes 2 (SegmentSelector e) @ [Ist e, Attributes e] @
     le_bytes 2 (OffsetMid e) @ le_bytes 4 (OffsetHigh e) @ le_bytes 4 (Reserved e)"

definition InstallCustomGpfHandler :: "'w platform \<Rightarrow> ('w, unit) prog" where
  "InstallCustomGpfHandler P =
     bind (read_idt_position P) (\<lambda>idtr.
     let IdtEntryCount = (unat (fst idtr) + 1) div 16; Vector = 13 in
     if IdtEntryCount \<le> Vector then ret () else
     bind (heap_write (snd idtr) (16 * Vector) (idt_entry_bytes (idt_entry (gpf_handler_addr P)))) (\<lambda>_.
     write_idt_position P idtr))"

definition ensure_ucode_slot_0 :: "'w platform \<Rightarrow> ('w, unit) prog" where
  "ensure_ucode_slot_0 P =
     (let my_cpuid = call_cpuid P 1 in
      bind (from_option OutOfBounds (get_update_for_cpuid my_cpuid)) (\<lambda>db_entry.
      bind (if db_entry = None
            then FormatPrint P ''Warning: No known good update for CPUID 0x%x! Load ucode slot 0!'' [ucast my_cpuid]
            else ret ()) (\<lambda>_.
      bind (get_ucode 0) (\<lambda>c.
      if ucode c \<noteq> 0 then ret () else
      bind (AllocatePages P ucode_pages) (\<lambda>a.
      bind (put_ucode 0 \<lparr>ucode = a, ucode_length = ucode_alloc_size\<rparr>) (\<lambda>_.
      bind (case db_entry of
          None \<Rightarrow> ret ()
        | Some e \<Rightarrow>
            bind (load_bytes (template_bytes (update e)) 0 (unat (update_length e))) (\<lambda>bs.
            bind (heap_write a 0 bs) (\<lambda>_.
            put_ucode 0 \<lparr>ucode = a, ucode_length = ucast (update_length e)\<rparr>))) (\<lambda>_.
      modify (\<lambda>s. s\<lparr>original_ucode := a\<rparr>))))))))"

definition init_ucode :: "'w platform \<Rightarrow> ('w, unit) prog" where
  "init_ucode P =
     bind (ensure_ucode_slot_0 P) (\<lambda>_.
     bind (InstallCustomGpfHandler P) (\<lambda>_.
     init_ucode_execute P))"


section \<open>Slot 0 and the fault handler of the boot core\<close>

lemma length_idt_entry_bytes [simp]: "length (idt_entry_bytes e) = 16"
  by (simp add: idt_entry_bytes_def)

text \<open>A new slot 0 holds the update that the database has for the processor, as the original microcode.\<close>

definition slot_0_loaded :: "'w platform \<Rightarrow> 'w state \<Rightarrow> 'w state \<Rightarrow> bool" where
  "slot_0_loaded P s t \<longleftrightarrow>
     (\<exists>e. get_update_for_cpuid (call_cpuid P 1) = Some (Some e) \<and>
        slot_holds (heap t) (ucode (ucodes t ! 0)) (ucode_length (ucodes t ! 0)) (template_bytes (update e))) \<and>
     original_ucode t = ucode (ucodes t ! 0) \<and> heap s (original_ucode t) = None \<and>
     (\<forall>a. a \<noteq> original_ucode t \<longrightarrow> heap t a = heap s a) \<and>
     (\<forall>i. 0 < i \<longrightarrow> ucodes t ! i = ucodes s ! i) \<and> slots_ok t"

lemma wp_ensure_ucode_slot_0:
  assumes doc: "alloc_pages_documented P" and ok: "arrays_ok s" "slots_ok s" and empty: "ucode (ucodes s ! 0) = 0"
    and memory: "fst (alloc_pages_fw P 4 (heap s) (world s)) \<noteq> 0"
    and Q: "\<And>t. slot_0_loaded P s t \<Longrightarrow> world t = snd (snd (alloc_pages_fw P 4 (heap s) (world s))) \<Longrightarrow> Q () t"
  shows "wp (ensure_ucode_slot_0 P) Q E s"
proof -
  obtain e where e: "get_update_for_cpuid (call_cpuid P 1) = Some (Some e)" using get_update_spec by blast
  note db = get_update_in_db [OF e]
  let ?bs = "template_bytes (update e)"
  have bs: "length ?bs = unat (update_length e)" "length ?bs \<le> 16384" "unat (ucast (update_length e) :: u64) = length ?bs"
    using db_entries_bytes [OF db] db_entries_fit [OF db] by simp_all
  obtain a c w where pages: "alloc_pages_fw P 4 (heap s) (world s) = (a, c, w)"
    by (cases "alloc_pages_fw P 4 (heap s) (world s)")
  then have new: "a \<noteq> 0" "heap s a = None" "length c = 16384"
    using doc memory unfolding alloc_pages_documented_def by fastforce+
  have alloc: "AllocatePages P 4 s = Done a (s\<lparr>world := w, heap := (heap s)(a \<mapsto> c)\<rparr>)"
    using pages new(1) by (simp add: AllocatePages_def)
  let ?u = "s\<lparr>world := w, heap := (heap s)(a \<mapsto> overwrite 0 ?bs c)\<rparr>"
  let ?t = "?u\<lparr>ucodes := (ucodes ?u)[0 := \<lparr>ucode = a, ucode_length = ucast (update_length e)\<rparr>]\<rparr>"
  have "slots_ok ?u" by (rule uploaded_slots_ok [OF ok(2)]) (use new in simp_all)
  then have "slots_ok ?t"
    by (rule slots_ok_put_ucode) (use new bs in \<open>simp add: slot_block_def\<close>)
  then have slots: "slots_ok (?t\<lparr>original_ucode := a\<rparr>)"
    using slots_ok_same [of "?t\<lparr>original_ucode := a\<rparr>" ?t] by simp
  have "Q () (?t\<lparr>original_ucode := a\<rparr>)"
  proof (rule Q)
    show "slot_0_loaded P s (?t\<lparr>original_ucode := a\<rparr>)"
      using e new bs slots arrays_ok_lengths(1) [OF ok(1)]
      by (simp add: slot_0_loaded_def slot_holds_def buf_simps)
  qed (simp add: pages)
  then show ?thesis
    using e empty new bs arrays_ok_lengths(1) [OF ok(1)]
    by (simp add: ensure_ucode_slot_0_def Let_def slot_rules wp_from_option wp_Done [where m = "AllocatePages P 4", OF alloc]
        wp_load_bytes wp_heap_write wp_modify slice_def)
qed

lemma wp_InstallCustomGpfHandler:
  assumes "sidt_hw P (world s) = (limit, base)" "223 \<le> limit" "base \<noteq> 0" "heap s base = Some b" "224 \<le> length b"
  shows "wp (InstallCustomGpfHandler P) Q E s =
    Q () (s\<lparr>heap := (heap s)(base \<mapsto> overwrite 208 (idt_entry_bytes (idt_entry (gpf_handler_addr P))) b),
            world := lidt_hw P limit base (world s)\<rparr>)"
proof -
  have "\<not> (unat limit + 1) div 16 \<le> 13" using assms(2) by (simp add: word_le_nat_alt)
  then show ?thesis
    using assms(1,3-5)
    by (simp add: InstallCustomGpfHandler_def read_idt_position_def write_idt_position_def Let_def wp_bind wp_gets
        wp_heap_write wp_on_world)
qed

text \<open>
  C37. The initialisation of the microcode handlers, when slot 0 is empty, there is memory for it, and the interrupt table of the boot core has
  an entry for general protection faults: before the cores are initialised, slot 0 holds byte for byte the known good update that the
  database has for the processor, its address is that of the original microcode, all other slots and memory are unchanged, and
  the entry 13 of the table, and only this entry, leads to the handler.
\<close>

theorem init_ucode_prepares:
  fixes s :: "'w state"
  assumes doc: "alloc_pages_documented P" and ok: "arrays_ok s" "slots_ok s" and empty: "ucode (ucodes s ! 0) = 0"
    and memory: "fst (alloc_pages_fw P 4 (heap s) (world s)) \<noteq> 0"
    and table: "\<And>w. sidt_hw P w = (limit, base)" "223 \<le> limit" "base \<noteq> 0" "heap s base = Some b" "224 \<le> length b"
  shows "\<exists>t u. init_ucode P s = init_ucode_execute P u \<and> slot_0_loaded P s t \<and>
    (\<exists>w. u = t\<lparr>heap := (heap t)(base \<mapsto> overwrite 208 (idt_entry_bytes (idt_entry (gpf_handler_addr P))) b), world := w\<rparr>)"
proof -
  have "wp (bind (ensure_ucode_slot_0 P) (\<lambda>_. InstallCustomGpfHandler P)) (\<lambda>_ u. \<exists>t w. slot_0_loaded P s t \<and>
      u = t\<lparr>heap := (heap t)(base \<mapsto> overwrite 208 (idt_entry_bytes (idt_entry (gpf_handler_addr P))) b), world := w\<rparr>)
      (\<lambda>_ _. False) s"
    unfolding wp_bind
  proof (rule wp_ensure_ucode_slot_0 [OF doc ok empty memory])
    fix t assume t: "slot_0_loaded P s t"
    then have "base \<noteq> original_ucode t" using table(4) by (auto simp: slot_0_loaded_def)
    then have "heap t base = Some b" using t table(4) by (simp add: slot_0_loaded_def)
    then show "wp (InstallCustomGpfHandler P) (\<lambda>_ u. \<exists>t w. slot_0_loaded P s t \<and>
      u = t\<lparr>heap := (heap t)(base \<mapsto> overwrite 208 (idt_entry_bytes (idt_entry (gpf_handler_addr P))) b), world := w\<rparr>)
      (\<lambda>_ _. False) t"
      using t by (subst wp_InstallCustomGpfHandler [OF table(1-3) _ table(5)]) auto
  qed
  from wp_total_returns [OF this] obtain u t w where
    run: "bind (ensure_ucode_slot_0 P) (\<lambda>_. InstallCustomGpfHandler P) s = Done () u" and
    loaded: "slot_0_loaded P s t"
      "u = t\<lparr>heap := (heap t)(base \<mapsto> overwrite 208 (idt_entry_bytes (idt_entry (gpf_handler_addr P))) b), world := w\<rparr>"
    by auto
  have "init_ucode P = bind (bind (ensure_ucode_slot_0 P) (\<lambda>_. InstallCustomGpfHandler P)) (\<lambda>_. init_ucode_execute P)"
    by (simp add: init_ucode_def bind_assoc)
  then have "init_ucode P s = init_ucode_execute P u"
    by (simp only: bind_run [of "bind (ensure_ucode_slot_0 P) (\<lambda>_. InstallCustomGpfHandler P)"] run outcome.case)
  then show ?thesis using loaded by blast
qed

definition demo_idt_state :: "nat state" where
  "demo_idt_state = demo_state\<lparr>heap := [0x1E00000 \<mapsto> replicate 4096 0]\<rparr>"

lemma demo_idt_facts:
  "arrays_ok demo_idt_state" "slots_ok demo_idt_state" "ucode (ucodes demo_idt_state ! 0) = 0"
  "fst (alloc_pages_fw demo_platform 4 (heap demo_idt_state) (world demo_idt_state)) \<noteq> 0"
  "sidt_hw demo_platform w = (0xFFF, 0x1E00000)" "heap demo_idt_state 0x1E00000 = Some (replicate 4096 0)"
  by (simp_all add: demo_idt_state_def demo_state_def slots_ok_def slot_block_def arrays_ok_def demo_platform_def
      Let_def take_bit_eq_mod)

lemma init_ucode_prepares_witness:
  "\<exists>t u. init_ucode demo_platform demo_idt_state = init_ucode_execute demo_platform u \<and> slot_0_loaded demo_platform demo_idt_state t"
  using init_ucode_prepares [OF demo_alloc_pages_documented demo_idt_facts(1-5) _ _ demo_idt_facts(6)]
  by (simp add: word_le_nat_alt) blast

end
