(* ===== verification/Startup.thy ===== *)
theory Startup
  imports Sessions Ucode_Init
begin

text \<open>
  The entry point, \<^verbatim>\<open>UefiMain\<close> and \<^verbatim>\<open>AngryUEFI\<close> of \<^verbatim>\<open>AngryUEFI.c\<close>, with \<^verbatim>\<open>init_smp\<close> of \<^verbatim>\<open>system/smp.c\<close>: the services
  are located, the cores and slots initialised, the network configured, and connections served one after the other
  until one of them fails.
\<close>

section \<open>The network services\<close>

record Ip4ModeData =
  IsStarted :: bool
  IsConfigured :: bool
  StationAddress :: "u8 \<times> u8 \<times> u8 \<times> u8"

text \<open>
  The boot services that only the entry point calls. \<open>stack_mode_data\<close> is what the uninitialised structure
  \<^verbatim>\<open>Ip4ModeData\<close> holds. The results of the calls that nothing depends on are left out.
\<close>

record 'w network =
  locate_text_fw :: "'w \<Rightarrow> efi_status \<times> 'w"
  open_image_fw :: "'w \<Rightarrow> (efi_status \<times> u64) \<times> 'w"
  locate_mp_fw :: "'w \<Rightarrow> efi_status \<times> 'w"
  locate_handles_fw :: "'w \<Rightarrow> (efi_status \<times> u64) \<times> 'w"
  open_binding_fw :: "'w \<Rightarrow> efi_status \<times> 'w"
  create_child_fw :: "'w \<Rightarrow> (efi_status \<times> u64) \<times> 'w"
  open_tcp_fw :: "'w \<Rightarrow> efi_status \<times> 'w"
  configure_fw :: "'w \<Rightarrow> efi_status \<times> 'w"
  mode_data_fw :: "'w \<Rightarrow> Ip4ModeData \<times> 'w"
  stack_mode_data :: Ip4ModeData
  accept_fw :: "'w \<Rightarrow> efi_status \<times> 'w"
  accept_poll_fw :: "'w \<Rightarrow> efi_status \<times> 'w"
  new_child_fw :: "'w \<Rightarrow> u64"
  open_incoming_fw :: "'w \<Rightarrow> efi_status \<times> 'w"
  close_protocol_fw :: "'w \<Rightarrow> 'w"
  tcp_close_fw :: "'w \<Rightarrow> 'w"
  destroy_child_fw :: "u64 \<Rightarrow> 'w \<Rightarrow> 'w"
  free_handles_fw :: "'w \<Rightarrow> 'w"

abbreviation EFI_NO_MAPPING :: efi_status where "EFI_NO_MAPPING \<equiv> 0x8000000000000011"


section \<open>Operations\<close>

definition init_smp :: "'w platform \<Rightarrow> 'w network \<Rightarrow> ('w, efi_status) prog" where
  "init_smp P N =
     bind (on_world (locate_mp_fw N)) (\<lambda>Status.
     if EFI_ERROR Status
     then bind (FormatPrint P ''Failed to locate MP Services: %r'' [Status]) (\<lambda>_. ret Status)
     else ret EFI_SUCCESS)"

text \<open>
  When the multiprocessor services are missing, their pointer stays null, and the first use of it, which is in the
  initialisation of the cores, dereferences it.
\<close>

definition init_handlers :: "'w platform \<Rightarrow> 'w network \<Rightarrow> ('w, unit) prog" where
  "init_handlers P N =
     bind (init_smp P N) (\<lambda>Status.
     let result = test_stub 0x123456789ABCDEF0 0x0FEDCBA987654321;
         expected = (0x123456789ABCDEF0 + 0x0FEDCBA987654321) XOR 0xdeadbeefdeadc0de in
     bind (if result \<noteq> expected
           then FormatPrint P ''test stub returned invalid. got 0x%016llX, expected 0x%016llX.'' [result, expected]
           else ret ()) (\<lambda>_.
     if EFI_ERROR Status
     then bind (ensure_ucode_slot_0 P) (\<lambda>_. bind (InstallCustomGpfHandler P) (\<lambda>_. stop NullDeref))
     else init_ucode P))"

text \<open>The exit: the interfaces that have been opened are closed, and the result is always a success.\<close>

definition clean_up :: "'w network \<Rightarrow> bool \<Rightarrow> u64 \<Rightarrow> ('w, efi_status) prog" where
  "clean_up N tcp4 child =
     bind (if tcp4 then on_world (\<lambda>w. ((), tcp_close_fw N w)) else ret ()) (\<lambda>_.
     bind (if child \<noteq> 0 then on_world (\<lambda>w. ((), destroy_child_fw N child w)) else ret ()) (\<lambda>_.
     bind (on_world (\<lambda>w. ((), free_handles_fw N w))) (\<lambda>_.
     ret EFI_SUCCESS)))"

text \<open>Waiting until the address is configured.\<close>

definition wait_configured :: "'w network \<Rightarrow> ('w, Ip4ModeData) prog" where
  "wait_configured N = loop (\<lambda>_ :: unit.
     bind (on_world (mode_data_fw N)) (\<lambda>data.
     if \<not> IsConfigured data \<and> IsStarted data then ret (Inl ()) else ret (Inr data))) ()"

text \<open>The status of the second attempt is not looked at. \<open>None\<close> is the failure of the first.\<close>

definition configure_tcp :: "'w platform \<Rightarrow> 'w network \<Rightarrow> ('w, Ip4ModeData option) prog" where
  "configure_tcp P N =
     bind (on_world (configure_fw N)) (\<lambda>Status.
     if Status = EFI_NO_MAPPING then
       bind (wait_configured N) (\<lambda>data.
       bind (on_world (configure_fw N)) (\<lambda>_.
       ret (Some data)))
     else if EFI_ERROR Status then
       bind (FormatPrint P ''Error: TCP Configure failed: %r'' [Status]) (\<lambda>_. ret None)
     else ret (Some (stack_mode_data N)))"

text \<open>One connection; \<open>Inr\<close> leads to the exit.\<close>

definition serve_connection :: "'w platform \<Rightarrow> 'w network \<Rightarrow> ('w, unit + unit) prog" where
  "serve_connection P N =
     bind (on_world (accept_fw N)) (\<lambda>Status.
     if EFI_ERROR Status then bind (FormatPrint P ''Error: TCP Listen failed: %r'' [Status]) (\<lambda>_. ret (Inr ())) else
     bind (wait_token (accept_poll_fw N)) (\<lambda>Status.
     if EFI_ERROR Status then
       bind (FormatPrint P ''Error: Listen token completed with error: %r'' [Status]) (\<lambda>_. ret (Inr ()))
     else
     bind (gets (\<lambda>s. new_child_fw N (world s))) (\<lambda>child.
     bind (on_world (open_incoming_fw N)) (\<lambda>Status.
     if EFI_ERROR Status then
       bind (FormatPrint P ''Error: Could not get incoming TCP4 protocol interface: %r'' [Status]) (\<lambda>_. ret (Inr ()))
     else
     bind (receive_messages P) (\<lambda>Status.
     if EFI_ERROR Status then bind (FormatPrint P ''Unable to receive message: %r'' [Status]) (\<lambda>_. ret (Inr ())) else
     bind (if child \<noteq> 0 then on_world (\<lambda>w. ((), close_protocol_fw N w)) else ret ()) (\<lambda>_.
     ret (Inl ())))))))"

definition serve_connections :: "'w platform \<Rightarrow> 'w network \<Rightarrow> ('w, unit) prog" where
  "serve_connections P N = loop (\<lambda>_. serve_connection P N) ()"

text \<open>From the configuration data to the end.\<close>

definition run_server :: "'w platform \<Rightarrow> 'w network \<Rightarrow> u64 \<Rightarrow> ('w, efi_status) prog" where
  "run_server P N child =
     bind (CreateEvent P) (\<lambda>Status.
     if EFI_ERROR Status then
       bind (FormatPrint P ''Error: Could not create event for ListenToken: %r'' [Status]) (\<lambda>_. clean_up N True child)
     else
     bind (CreateEvent P) (\<lambda>Status.
     if EFI_ERROR Status then
       bind (FormatPrint P ''Error: Could not create event for CloseToken: %r'' [Status]) (\<lambda>_. clean_up N True child)
     else
     bind (configure_tcp P N) (\<lambda>data.
     case data of None \<Rightarrow> clean_up N True child
     | Some data \<Rightarrow>
         bind (case StationAddress data of (ip0, ip1, ip2, ip3) \<Rightarrow>
           FormatPrint P ''Interface IP: %u.%u.%u.%u'' [ucast ip0, ucast ip1, ucast ip2, ucast ip3]) (\<lambda>_.
         bind (serve_connections P N) (\<lambda>_.
         clean_up N True child)))))"

definition AngryUEFI :: "'w platform \<Rightarrow> 'w network \<Rightarrow> ('w, efi_status) prog" where
  "AngryUEFI P N =
     bind (on_world (locate_text_fw N)) (\<lambda>Status.
     if EFI_ERROR Status then
       bind (FormatPrint P ''Couldn't open Text Output Protocol: %r'' [Status]) (\<lambda>_. stop NullDeref)
     else
     bind (on_world (open_image_fw N)) (\<lambda>(Status, Base).
     if EFI_ERROR Status then stop WildPointer else
     bind (FormatPrint P ''AngryUEFI base: 0x%p'' [Base]) (\<lambda>_.
     bind (init_handlers P N) (\<lambda>_.
     bind (on_world (locate_handles_fw N)) (\<lambda>(Status, HandleCount).
     if EFI_ERROR Status \<or> HandleCount = 0 then
       bind (FormatPrint P ''Error: Could not locate TCP4 Service Binding handles: %r'' [Status]) (\<lambda>_. ret Status)
     else
     bind (on_world (open_binding_fw N)) (\<lambda>Status.
     if EFI_ERROR Status then
       bind (FormatPrint P ''Error: Could not get TCP4 Service Binding interface: %r'' [Status]) (\<lambda>_. clean_up N False 0)
     else
     bind (on_world (create_child_fw N)) (\<lambda>(Status, child).
     if EFI_ERROR Status then
       bind (FormatPrint P ''Error: Could not create TCP4 child: %r'' [Status]) (\<lambda>_. clean_up N False child)
     else
     bind (on_world (open_tcp_fw N)) (\<lambda>Status.
     if EFI_ERROR Status then
       bind (FormatPrint P ''Error: Could not get TCP4 protocol interface: %r'' [Status]) (\<lambda>_. clean_up N False child)
     else run_server P N child))))))))"

definition UefiMain :: "'w platform \<Rightarrow> 'w network \<Rightarrow> ('w, efi_status) prog" where
  "UefiMain P N = AngryUEFI P N"


section \<open>The protocol between the cores, from the start on\<close>

lemma prot_update:
  assumes "\<And>ph c. core = 0 \<or> (core_protocol ph c \<longrightarrow> core_protocol ph (f c))"
  shows "prot.keeps (update_context core f)"
  unfolding prot.keeps_def
proof (intro allI impI)
  fix s :: "'a state" assume s: "protocol s"
  have "core_protocol (ap_phases s ! i) ((core_contexts s)[unat core := f (core_contexts s ! unat core)] ! i)"
    if "unat core < length (core_contexts s)" "0 < i" "i < 128" for i
  proof (cases "i = unat core")
    case True
    then have "core \<noteq> 0" using that(2) by auto
    then show ?thesis using True s that assms [of "ap_phases s ! i" "core_contexts s ! i"] by (simp add: protocol_def)
  qed (use s that in \<open>simp add: protocol_def\<close>)
  then show "wp (update_context core f) (\<lambda>_. protocol) (\<lambda>_ _. True) s"
    using s by (simp add: wp_update_context protocol_def buffers_ok_def arrays_ok_def slots_ok_def)
qed

lemma core_protocol_data [simp]:
  "core_protocol ph (c\<lparr>core_id := i\<rparr>) = core_protocol ph c" "core_protocol ph (c\<lparr>present := p\<rparr>) = core_protocol ph c"
  "core_protocol ph (c\<lparr>result_buffer := b, result_buffer_len := l\<rparr>) = core_protocol ph c"
  "core_protocol ph (c\<lparr>scratch_space := b, scratch_space_len := l\<rparr>) = core_protocol ph c"
  "core_protocol ph (c\<lparr>ctx_asr_registry := r\<rparr>) = core_protocol ph c" "core_protocol ph (c\<lparr>ibs_control := ctl\<rparr>) = core_protocol ph c"
  "core_protocol ph (c\<lparr>dsm_control := d\<rparr>) = core_protocol ph c"
  by (simp_all add: core_protocol_def split: ap_phase.splits)

lemma prot_AllocatePages: "alloc_pages_documented P \<Longrightarrow> prot.keeps (AllocatePages P n)"
  by (rule prot.keeps_respectful [OF respectful_AllocatePages])

lemma prot_init_core_context:
  assumes "alloc_pages_documented P"
  shows "prot.keeps (init_core_context P core_count i)"
  unfolding init_core_context_def init_ibs_for_context_def init_dsm_for_context_def AllocateZeroPool_def
    update_ibs_control_def get_ibs_control_def update_dsm_control_def get_dsm_control_def block_def Let_def
  by (intro prot.keeps_bind prot.keeps_if prot.keeps_option prot.keeps_on_world prot.keeps_pure prot_update
      prot_AllocatePages [OF assms]) simp_all

lemma prot_init_cores:
  assumes "alloc_pages_documented P"
  shows "prot.keeps (init_cores P)"
  unfolding init_cores_def init_core_contexts_def get_cr3_def
  by (intro prot.keeps_bind prot.keeps_for_each prot.keeps_core_reports prot_init_core_context [OF assms] prot_update
      prot.keeps_pure) simp_all

text \<open>Slot 0 is a block of its size or empty, whatever the allocation gives.\<close>

lemma prot_ensure_ucode_slot_0:
  assumes doc: "alloc_pages_documented P"
  shows "prot.keeps (ensure_ucode_slot_0 P)"
  unfolding prot.keeps_def
proof (intro allI impI)
  fix s :: "'a state" assume s: "protocol s"
  obtain e where e: "get_update_for_cpuid (call_cpuid P 1) = Some (Some e)" using get_update_spec by blast
  then have "e \<in> set db_entries" by (rule get_update_in_db)
  then have small: "unat (ucast (update_length e) :: u64) \<le> 16384" using db_entries_fit by simp
  let ?bs = "slice 0 (unat (update_length e)) (template_bytes (update e))"
  have zero: "0 < length (ucodes s)" using arrays_ok_lengths(1) [OF protocol_ok(2) [OF s]] by simp
  have "wp (AllocatePages P 4) (\<lambda>a. wp (bind (put_ucode 0 \<lparr>ucode = a, ucode_length = 16384\<rparr>) (\<lambda>_.
      bind (bind (load_bytes (template_bytes (update e)) 0 (unat (update_length e))) (\<lambda>bs.
        bind (heap_write a 0 bs) (\<lambda>_. put_ucode 0 \<lparr>ucode = a, ucode_length = ucast (update_length e)\<rparr>))) (\<lambda>_.
      modify (\<lambda>s. s\<lparr>original_ucode := a\<rparr>)))) (\<lambda>_. protocol) (\<lambda>_ _. True)) (\<lambda>_ _. True) s"
  proof (rule wp_AllocatePages [OF doc], goal_cases)
    case (1 w)
    then show ?case by (simp add: wp_put_ucode wp_bind wp_load_bytes wp_heap_write wp_modify zero)
  next
    case (2 a b w)
    have alloc: "protocol (s\<lparr>world := w, heap := (heap s)(a \<mapsto> overwrite 0 ?bs b)\<rparr>)"
      if "length ?bs \<le> length b"
      using protocol_heap [OF protocol_world [OF s], of w a] 2 that by simp
    have keep: "protocol (t\<lparr>original_ucode := a\<rparr>)" if "protocol t" for t :: "'a state"
      by (rule protocol_slots [OF that]) (use protocol_ok [OF that] in \<open>simp_all add: buffers_ok_def arrays_ok_def slots_ok_def\<close>)
    show ?case
      using 2 zero small protocol_put_ucode [OF alloc, of "\<lparr>ucode = a, ucode_length = ucast (update_length e)\<rparr>" 0]
      by (auto simp: wp_put_ucode wp_bind wp_load_bytes wp_heap_write wp_modify slot_block_def intro!: keep)
  qed
  then show "wp (ensure_ucode_slot_0 P) (\<lambda>_. protocol) (\<lambda>_ _. True) s"
    using e s by (cases "ucode (ucodes s ! 0) = 0")
      (simp_all add: ensure_ucode_slot_0_def Let_def wp_bind wp_from_option wp_ret wp_get_ucode [OF zero])
qed

lemma prot_InstallCustomGpfHandler: "prot.keeps (InstallCustomGpfHandler P)"
  unfolding InstallCustomGpfHandler_def read_idt_position_def write_idt_position_def Let_def
  by (intro prot.keeps_bind prot.keeps_if prot.keeps_on_world prot.keeps_pure prot.keeps_respectful [OF respectful_heap_write])

lemma prot_init_handlers:
  assumes "alloc_pages_documented P"
  shows "prot.keeps (init_handlers P N)"
  unfolding init_handlers_def init_smp_def init_ucode_def init_ucode_execute_def Let_def
  by (intro prot.keeps_bind prot.keeps_if prot.keeps_on_world prot.keeps_pure prot.keeps_FormatPrint
      prot_ensure_ucode_slot_0 [OF assms] prot_InstallCustomGpfHandler prot_init_cores [OF assms])

lemma prot_server:
  assumes P: "platform_documented P"
  shows "prot.keeps (serve_connection P N)" "prot.keeps (run_server P N child)"
proof -
  have clean: "prot.keeps (clean_up N b c)" for b c
    unfolding clean_up_def by (intro prot.keeps_bind prot.keeps_if prot.keeps_on_world prot.keeps_pure)
  have messages: "prot.keeps (receive_messages P)"
    unfolding receive_messages_def by (rule prot_loop) (rule prot_receive_message [OF P])
  show one: "prot.keeps (serve_connection P N)"
    unfolding serve_connection_def
    by (intro prot.keeps_bind prot.keeps_if prot.keeps_on_world prot.keeps_pure prot.keeps_FormatPrint prot.keeps_wait_token
        messages)
  have wait: "prot.keeps (wait_configured N)"
    unfolding wait_configured_def
    by (rule prot_loop) (intro prot.keeps_bind prot.keeps_if prot.keeps_on_world prot.keeps_pure)
  have configure: "prot.keeps (configure_tcp P N)"
    unfolding configure_tcp_def
    by (intro prot.keeps_bind prot.keeps_if prot.keeps_on_world prot.keeps_pure prot.keeps_FormatPrint wait)
  show "prot.keeps (run_server P N child)"
    unfolding run_server_def serve_connections_def CreateEvent_def
    by (intro prot.keeps_bind prot.keeps_if prot.keeps_option prot.keeps_prod prot.keeps_on_world prot.keeps_pure
        prot.keeps_FormatPrint prot.keeps_log configure clean prot_loop [OF one])
qed

lemma prot_AngryUEFI:
  assumes P: "platform_documented P"
  shows "prot.keeps (AngryUEFI P N)"
proof -
  have clean: "prot.keeps (clean_up N b c)" for b c
    unfolding clean_up_def by (intro prot.keeps_bind prot.keeps_if prot.keeps_on_world prot.keeps_pure)
  have pages: "alloc_pages_documented P" using P by (simp add: platform_documented_def)
  show ?thesis
    unfolding AngryUEFI_def
    by (intro prot.keeps_bind prot.keeps_if prot.keeps_prod prot.keeps_on_world prot.keeps_pure prot.keeps_FormatPrint
        clean prot_init_handlers [OF pages] prot_server [OF P])
qed


text \<open>The globals as the image is loaded, and no application processor started.\<close>

definition initial :: "'w state \<Rightarrow> bool" where
  "initial s \<longleftrightarrow>
     payload_buffer s = replicate RESPONSE_PAYLOAD_SIZE 0 \<and> response_buffer s = replicate RESPONSE_BUFFER_SIZE 0 \<and>
     receive_buffer s = replicate RECEIVE_BUFFER_SIZE 0 \<and> format_buffer s = replicate FORMAT_BUFFER_SIZE 0 \<and>
     ucodes s = replicate UCODE_SLOTS \<lparr>ucode = 0, ucode_length = 0\<rparr> \<and>
     machine_codes s = replicate MACHINE_CODE_SLOTS \<lparr>machine_code = 0, machine_code_length = 0\<rparr> \<and>
     core_contexts s = replicate 128 zero_context \<and> ap_phases s = replicate 128 ApOff"

lemma initial_protocol: "initial s \<Longrightarrow> protocol s"
  by (simp add: initial_def protocol_def buffers_ok_def arrays_ok_def slots_ok_def slot_block_def core_protocol_def
      zero_context_def)

text \<open>
  C1. The globals of the loaded image satisfy the protocol between the cores; the initialisation establishes it for
  the first connection, every connection keeps it for the next one, and it holds when the program ends.
\<close>

theorem UefiMain_keeps_protocol:
  assumes P: "platform_documented P" and s: "initial s" and u: "protocol u"
  shows "protocol s \<and> wp (init_handlers P N) (\<lambda>_. protocol) (\<lambda>_ _. True) s \<and>
    wp (serve_connection P N) (\<lambda>_. protocol) (\<lambda>_ _. True) u \<and> wp (UefiMain P N) (\<lambda>_. protocol) (\<lambda>_ _. True) s"
proof (intro conjI)
  show first: "protocol s" by (rule initial_protocol [OF s])
  have "alloc_pages_documented P" using P by (simp add: platform_documented_def)
  from prot.keepsD [OF prot_init_handlers [OF this] first]
  show "wp (init_handlers P N) (\<lambda>_. protocol) (\<lambda>_ _. True) s" .
  show "wp (serve_connection P N) (\<lambda>_. protocol) (\<lambda>_ _. True) u" by (rule prot.keepsD [OF prot_server(1) [OF P] u])
  show "wp (UefiMain P N) (\<lambda>_. protocol) (\<lambda>_ _. True) s"
    unfolding UefiMain_def by (rule prot.keepsD [OF prot_AngryUEFI [OF P] first])
qed


section \<open>Connections\<close>

text \<open>The world in which an accepted connection is served.\<close>

definition accept_connection :: "'w network \<Rightarrow> 'w \<Rightarrow> 'w option" where
  "accept_connection N w =
     (case accept_fw N w of (st, w) \<Rightarrow> if EFI_ERROR st then None else
      case token_loop (accept_poll_fw N) w of None \<Rightarrow> None | Some (st, w) \<Rightarrow> if EFI_ERROR st then None else
      case open_incoming_fw N w of (st, w) \<Rightarrow> if EFI_ERROR st then None else Some w)"

lemma serve_connection_run:
  assumes "accept_connection N (world s) = Some w" "receive_messages P (s\<lparr>world := w\<rparr>) = Done st u"
  shows "EFI_ERROR st \<Longrightarrow> \<exists>f. serve_connection P N s = Done (Inr ()) (u\<lparr>format_buffer := f\<rparr>)"
    and "\<not> EFI_ERROR st \<Longrightarrow> \<exists>w. serve_connection P N s = Done (Inl ()) (u\<lparr>world := w\<rparr>)"
  using assms
  by (auto simp: accept_connection_def serve_connection_def wait_token_def run_simps intro: exI [of _ "world u"]
      split: prod.splits if_splits option.splits)

text \<open>
  C38. What a connection means for the program: when the client closes it, the next one is accepted in a state that differs in
  the world alone; but when any of its messages is refused, the program cleans up and ends, and reports a success.
\<close>

theorem connection_outcome:
  assumes conn: "accept_connection N (world s) = Some w" and run: "receive_messages P (s\<lparr>world := w\<rparr>) = Done st u"
  shows "if EFI_ERROR st
    then \<exists>t. bind (serve_connections P N) (\<lambda>_. clean_up N True child) s = Done EFI_SUCCESS t \<and> sent t = sent u \<and> heap t = heap u
    else \<exists>w'. serve_connection P N s = Done (Inl ()) (u\<lparr>world := w'\<rparr>)"
proof (cases "EFI_ERROR st")
  case True
  then obtain f where "serve_connection P N s = Done (Inr ()) (u\<lparr>format_buffer := f\<rparr>)"
    using serve_connection_run(1) [OF conn run] by blast
  then have "serve_connections P N s = Done () (u\<lparr>format_buffer := f\<rparr>)"
    unfolding serve_connections_def by (rule loop_exit)
  then show ?thesis using True by (simp add: clean_up_def run_simps)
qed (use serve_connection_run(2) [OF conn run] in simp)

text \<open>Without a console, the message that says so is printed through the null pointer.\<close>

lemma UefiMain_no_console:
  assumes "EFI_ERROR (fst (locate_text_fw N (world s)))"
  shows "\<exists>t. UefiMain P N s = Stop NullDeref t"
  using assms by (simp add: UefiMain_def AngryUEFI_def run_simps)

text \<open>Without multiprocessor services, the program does not get past the initialisation.\<close>

lemma init_handlers_no_services:
  assumes "EFI_ERROR (fst (locate_mp_fw N (world s)))"
  shows "\<exists>e t. init_handlers P N s = Stop e t"
  using assms
  by (auto simp: init_handlers_def init_smp_def test_stub_def run_simps Let_def split: outcome.splits)

text \<open>The documented behaviour of a waiting server: the services are there.\<close>

definition demo_network :: "'w network" where
  "demo_network =
     \<lparr>locate_text_fw = (\<lambda>w. (EFI_SUCCESS, w)),
      open_image_fw = (\<lambda>w. ((EFI_SUCCESS, 0x1E00000), w)),
      locate_mp_fw = (\<lambda>w. (EFI_SUCCESS, w)),
      locate_handles_fw = (\<lambda>w. ((EFI_SUCCESS, 1), w)),
      open_binding_fw = (\<lambda>w. (EFI_SUCCESS, w)),
      create_child_fw = (\<lambda>w. ((EFI_SUCCESS, 1), w)),
      open_tcp_fw = (\<lambda>w. (EFI_SUCCESS, w)),
      configure_fw = (\<lambda>w. (EFI_SUCCESS, w)),
      mode_data_fw = (\<lambda>w. (\<lparr>IsStarted = True, IsConfigured = True, StationAddress = (10, 0, 0, 2)\<rparr>, w)),
      stack_mode_data = \<lparr>IsStarted = False, IsConfigured = False, StationAddress = (0, 0, 0, 0)\<rparr>,
      accept_fw = (\<lambda>w. (EFI_SUCCESS, w)),
      accept_poll_fw = (\<lambda>w. (EFI_SUCCESS, w)),
      new_child_fw = (\<lambda>w. 2),
      open_incoming_fw = (\<lambda>w. (EFI_SUCCESS, w)),
      close_protocol_fw = (\<lambda>w. w),
      tcp_close_fw = (\<lambda>w. w),
      destroy_child_fw = (\<lambda>c w. w),
      free_handles_fw = (\<lambda>w. w)\<rparr>"

lemma UefiMain_keeps_protocol_witness:
  "initial demo_state \<and> wp (UefiMain demo_platform demo_network) (\<lambda>_. protocol) (\<lambda>_ _. True) demo_state"
proof
  show i: "initial demo_state" by (simp add: initial_def demo_state_def)
  have "startup_documented demo_platform" by (simp add: startup_documented_def demo_platform_def)
  then have "platform_documented demo_platform" by (simp add: platform_documented_def demo_code_respects)
  from UefiMain_keeps_protocol [OF this i demo_job_protocol]
  show "wp (UefiMain demo_platform demo_network) (\<lambda>_. protocol) (\<lambda>_ _. True) demo_state" by blast
qed

lemma connection_outcome_witness:
  "\<exists>t. bind (serve_connections (peer_platform 2) demo_network) (\<lambda>_. clean_up demo_network True 1) (peer_state [16, 0, 0, 0]) =
     Done EFI_SUCCESS t \<and> sent t = []"
proof -
  have poll: "token_loop (accept_poll_fw demo_network) w = Some (EFI_SUCCESS, w)" for w
    by (simp add: token_loop_def demo_network_def while_option_unfold)
  have conn: "accept_connection demo_network w = Some w" for w
    unfolding accept_connection_def poll by (simp add: demo_network_def)
  let ?s = "peer_state [16, 0, 0, 0]"
  have d: "delivery (peer_platform 2) 4 (world ?s) = Some ([16, 0], ([0, 0], [16, 0]))" by (simp add: peer_delivery)
  have same: "?s\<lparr>world := world ?s\<rparr> = ?s" by (simp add: peer_state_def)
  let ?u = "?s\<lparr>world := ([0, 0], [16, 0]), receive_buffer := overwrite 0 [16, 0] (receive_buffer ?s)\<rparr>"
  have "receive_message (peer_platform 2) ?s = Done (Inr EFI_ABORTED) ?u"
    using receive_chunk_delivers [OF d, of 0] by (simp add: receive_message_def bind_run [of "receive_chunk _ _ _"] run_simps)
  then have "receive_messages (peer_platform 2) (?s\<lparr>world := world ?s\<rparr>) = Done EFI_ABORTED ?u"
    unfolding receive_messages_def same by (rule loop_exit)
  from connection_outcome [OF conn this, of 1] show ?thesis by auto
qed

end
