(* ===== verification/Lock_Protocol.thy ===== *)
theory Lock_Protocol
  imports Core_Protocol
begin

text \<open>
  The lock of a core context when the boot core and the application processor use it at the same time
  (\<^verbatim>\<open>try_lock_context\<close> and \<^verbatim>\<open>unlock_context\<close> of \<^verbatim>\<open>handlers/cores.c\<close>). The steps are the accesses to the shared
  word, and the processors take them in any order: the exchange of \<^verbatim>\<open>try_lock_context\<close> is one step, but
  \<^verbatim>\<open>unlock_context\<close> is two, a store and an exchange.
\<close>

section \<open>Steps\<close>

datatype processor = BootCore | ApCore

datatype lock_position = Outside | Inside | Releasing

type_synonym 'w lock_config = "'w state \<times> (processor \<Rightarrow> lock_position)"

text \<open>\<open>lock_step True\<close> are the steps with an unlocking that nobody interrupts, \<open>lock_step False\<close> those of the code.\<close>

inductive lock_step :: "bool \<Rightarrow> u64 \<Rightarrow> 'w lock_config \<Rightarrow> 'w lock_config \<Rightarrow> bool" for atomic core where
  taken: "pos p = Outside \<Longrightarrow> try_lock_context core s = Done True t \<Longrightarrow>
    lock_step atomic core (s, pos) (t, pos(p := Inside))"
| busy: "pos p = Outside \<Longrightarrow> try_lock_context core s = Done False t \<Longrightarrow> lock_step atomic core (s, pos) (t, pos)"
| unlocked: "atomic \<Longrightarrow> pos p = Inside \<Longrightarrow> unlock_context core s = Done () t \<Longrightarrow>
    lock_step atomic core (s, pos) (t, pos(p := Outside))"
| stored: "\<not> atomic \<Longrightarrow> pos p = Inside \<Longrightarrow> update_context core (\<lambda>c. c\<lparr>lock := 0\<rparr>) s = Done () t \<Longrightarrow>
    lock_step atomic core (s, pos) (t, pos(p := Releasing))"
| exchanged: "\<not> atomic \<Longrightarrow> pos p = Releasing \<Longrightarrow> interlocked_compare_exchange_64 core 1 0 s = Done v t \<Longrightarrow>
    lock_step atomic core (s, pos) (t, pos(p := Outside))"

inductive_cases lock_stepE: "lock_step atomic core (s, pos) (t, pos')"

lemmas lock_step_cases = lock_stepE [consumes 1, case_names taken busy unlocked stored exchanged]

abbreviation lock_steps :: "bool \<Rightarrow> u64 \<Rightarrow> 'w lock_config \<Rightarrow> 'w lock_config \<Rightarrow> bool" where
  "lock_steps atomic core \<equiv> (lock_step atomic core)\<^sup>*\<^sup>*"

text \<open>The two steps of an unlocking, one after the other, are \<^verbatim>\<open>unlock_context\<close>.\<close>

lemma unlock_is_two_steps:
  "unlock_context core s = Done () u \<longleftrightarrow> (\<exists>t v. update_context core (\<lambda>c. c\<lparr>lock := 0\<rparr>) s = Done () t \<and>
     interlocked_compare_exchange_64 core 1 0 t = Done v u)"
  by (auto simp: unlock_context_def bind_Done_iff ret_run)


section \<open>The operations on the word\<close>

lemma try_lock_Done:
  "try_lock_context core s = Done ok t \<longleftrightarrow> has_context core s \<and>
     (if lock (context_of core s) = 0 then ok \<and> t = with_context core (\<lambda>c. c\<lparr>lock := 1\<rparr>) s else \<not> ok \<and> t = s)"
  by (auto simp: try_lock_context_def interlocked_compare_exchange_64_def run_simps with_context_def)

lemma store_Done:
  "update_context core (\<lambda>c. c\<lparr>lock := 0\<rparr>) s = Done () t \<longleftrightarrow>
     has_context core s \<and> t = with_context core (\<lambda>c. c\<lparr>lock := 0\<rparr>) s"
  by (auto simp: run_simps with_context_def)

lemma exchange_Done:
  "interlocked_compare_exchange_64 core 1 0 s = Done v t \<longleftrightarrow> has_context core s \<and> v = lock (context_of core s) \<and>
     t = (if lock (context_of core s) = 1 then with_context core (\<lambda>c. c\<lparr>lock := 0\<rparr>) s else s)"
  by (auto simp: interlocked_compare_exchange_64_def run_simps with_context_def)

lemma unlock_Done:
  "unlock_context core s = Done () t \<longleftrightarrow> has_context core s \<and> t = with_context core (\<lambda>c. c\<lparr>lock := 0\<rparr>) s"
  unfolding unlock_is_two_steps store_Done exchange_Done by auto

lemmas lock_word_simps = try_lock_Done store_Done exchange_Done unlock_Done


section \<open>Mutual exclusion\<close>

text \<open>The word says whether somebody holds the lock, and at most one processor does.\<close>

definition excluded :: "u64 \<Rightarrow> 'w lock_config \<Rightarrow> bool" where
  "excluded core c \<longleftrightarrow> (case c of (s, pos) \<Rightarrow>
     has_context core s \<and> pos BootCore \<noteq> Releasing \<and> pos ApCore \<noteq> Releasing \<and>
     \<not> (pos BootCore = Inside \<and> pos ApCore = Inside) \<and>
     lock (context_of core s) = (if pos BootCore = Inside \<or> pos ApCore = Inside then 1 else 0))"

lemma excluded_iff:
  "excluded core (s, pos) \<longleftrightarrow> has_context core s \<and> pos BootCore \<noteq> Releasing \<and> pos ApCore \<noteq> Releasing \<and>
     \<not> (pos BootCore = Inside \<and> pos ApCore = Inside) \<and>
     lock (context_of core s) = (if pos BootCore = Inside \<or> pos ApCore = Inside then 1 else 0)"
  by (simp add: excluded_def)

lemma excluded_step:
  assumes "lock_step True core (s, pos) (t, pos')" and ex: "excluded core (s, pos)"
  shows "excluded core (t, pos')"
  using assms(1)
proof (cases rule: lock_step_cases)
  case (taken p)
  then have "has_context core s" "lock (context_of core s) = 0" "t = with_context core (\<lambda>c. c\<lparr>lock := 1\<rparr>) s"
    by (simp_all add: try_lock_Done split: if_splits)
  then show ?thesis using ex taken(1,2) by (cases p) (simp_all add: excluded_iff split: if_splits)
next
  case (busy p)
  then have "t = s" by (simp add: try_lock_Done split: if_splits)
  then show ?thesis using ex busy(1) by simp
next
  case (unlocked p)
  then have "has_context core s" "t = with_context core (\<lambda>c. c\<lparr>lock := 0\<rparr>) s" by (simp_all add: unlock_Done)
  then show ?thesis using ex unlocked(1,3) by (cases p) (simp_all add: excluded_iff split: if_splits)
qed simp_all

text \<open>
  If the store and the exchange of \<^verbatim>\<open>unlock_context\<close> were one step, the two processors would never hold the lock of
  a context at the same time, and the word would say whether one of them does, whatever the order of their steps.
\<close>

theorem atomic_unlock_excludes:
  assumes "lock_steps True core (s, \<lambda>_. Outside) (t, pos)" "has_context core s" "lock (context_of core s) = 0"
  shows "\<not> (pos BootCore = Inside \<and> pos ApCore = Inside) \<and>
    (lock (context_of core t) = 1 \<longleftrightarrow> pos BootCore = Inside \<or> pos ApCore = Inside)"
proof -
  have "excluded core (s, \<lambda>_. Outside)" using assms(2,3) by (simp add: excluded_iff)
  with assms(1) have "excluded core (t, pos)"
    by (induction "(t, pos)" arbitrary: t pos rule: rtranclp_induct) (auto intro: excluded_step)
  then show ?thesis by (auto simp: excluded_iff split: if_splits)
qed

text \<open>
  C8. The lock of the code does not exclude: from any state in which a context is unlocked, both processors can come to hold
  its lock at the same time. One stores the zero; the other takes the lock; the exchange of the first clears it, and
  the first can take it again.
\<close>

theorem unlock_context_races:
  assumes ctx: "has_context core s" and free: "lock (context_of core s) = 0"
  shows "\<exists>t pos. lock_steps False core (s, \<lambda>_. Outside) (t, pos) \<and> pos BootCore = Inside \<and> pos ApCore = Inside"
proof -
  let ?set = "\<lambda>v. with_context core (\<lambda>c. c\<lparr>lock := v\<rparr>) s"
  let ?o = "\<lambda>_ :: processor. Outside"
  have 1: "lock_step False core (s, ?o) (?set 1, ?o(BootCore := Inside))"
    by (rule lock_step.taken) (simp_all add: lock_word_simps ctx free)
  have 2: "lock_step False core (?set 1, ?o(BootCore := Inside)) (?set 0, ?o(BootCore := Inside, BootCore := Releasing))"
    by (rule lock_step.stored) (simp_all add: lock_word_simps ctx)
  have 3: "lock_step False core (?set 0, ?o(BootCore := Releasing)) (?set 1, ?o(BootCore := Releasing, ApCore := Inside))"
    by (rule lock_step.taken) (simp_all add: lock_word_simps ctx)
  have 4: "lock_step False core (?set 1, ?o(BootCore := Releasing, ApCore := Inside))
      (?set 0, ?o(BootCore := Releasing, ApCore := Inside, BootCore := Outside))"
    by (rule lock_step.exchanged [where v = 1]) (simp_all add: lock_word_simps ctx)
  have 5: "lock_step False core (?set 0, ?o(BootCore := Releasing, ApCore := Inside, BootCore := Outside))
      (?set 1, ?o(BootCore := Releasing, ApCore := Inside, BootCore := Outside, BootCore := Inside))"
    by (rule lock_step.taken) (simp_all add: lock_word_simps ctx)
  have "lock_steps False core (s, ?o)
      (?set 1, ?o(BootCore := Releasing, ApCore := Inside, BootCore := Outside, BootCore := Inside))"
    using 1 2 3 4 5 by (auto intro: converse_rtranclp_into_rtranclp)
  then show ?thesis by (intro exI conjI) (assumption, simp_all)
qed

lemma atomic_unlock_excludes_witness:
  "lock_steps True 1 (demo_state, \<lambda>_. Outside) (with_context 1 (\<lambda>c. c\<lparr>lock := 1\<rparr>) demo_state, (\<lambda>_. Outside)(ApCore := Inside)) \<and>
   \<not> (((\<lambda>_. Outside)(ApCore := Inside)) BootCore = Inside \<and> ((\<lambda>_. Outside)(ApCore := Inside)) ApCore = Inside) \<and>
   lock (context_of 1 (with_context 1 (\<lambda>c. c\<lparr>lock := 1\<rparr>) demo_state)) = 1"
proof -
  have ctx: "has_context 1 demo_state" "lock (context_of 1 demo_state) = 0"
    by (simp_all add: demo_state_def zero_context_def)
  have "lock_step True 1 (demo_state, \<lambda>_. Outside) (with_context 1 (\<lambda>c. c\<lparr>lock := 1\<rparr>) demo_state, (\<lambda>_. Outside)(ApCore := Inside))"
    by (rule lock_step.taken) (simp_all only: lock_word_simps ctx simp_thms if_True)
  then have steps: "lock_steps True 1 (demo_state, \<lambda>_. Outside)
      (with_context 1 (\<lambda>c. c\<lparr>lock := 1\<rparr>) demo_state, (\<lambda>_. Outside)(ApCore := Inside))" by (rule r_into_rtranclp)
  from atomic_unlock_excludes [OF this ctx] steps show ?thesis by (simp del: fun_upd_apply) simp
qed

lemma unlock_context_races_witness:
  "\<exists>t pos. lock_steps False 1 (demo_state, \<lambda>_. Outside) (t, pos) \<and> pos BootCore = Inside \<and> pos ApCore = Inside"
  by (rule unlock_context_races) (simp_all add: demo_state_def zero_context_def)

end
