(* ===== verification/Async_Jobs.thy ===== *)
theory Async_Jobs
  imports Invariant
begin

text \<open>
  The asynchronous jobs that the README describes: a job that does not end within its timeout is answered with a flag
  that says so; the core goes on with it, and its results can be asked for later.
\<close>

section \<open>Steps of other cores\<close>

text \<open>What a core sees of its own context and phase; a computation that leaves both alone, even if it stops.\<close>

definition apart :: "u64 \<Rightarrow> 'w state \<Rightarrow> 'w state \<Rightarrow> bool" where
  "apart i s t \<longleftrightarrow> context_of i t = context_of i s \<and> ap_phase_of i t = ap_phase_of i s"

definition leaves_core :: "u64 \<Rightarrow> ('w, 'a) prog \<Rightarrow> bool" where
  "leaves_core i m \<longleftrightarrow> (\<forall>s. wp m (\<lambda>_. apart i s) (\<lambda>_. apart i s) s)"

named_theorems leaves_rules "computations that leave the context and the phase of a core alone"

lemma apart_refl [simp]: "apart i s s"
  by (simp add: apart_def)

lemma apart_trans: "apart i s t \<Longrightarrow> apart i t u \<Longrightarrow> apart i s u"
  by (simp add: apart_def)

lemma apart_job_effect: "job_effect c s t \<Longrightarrow> c \<noteq> i \<Longrightarrow> apart i s t"
  by (auto simp: apart_def job_effect_def others_kept_def ap_phase_of_def word_unat_eq_iff)

lemma leaves_respectful:
  assumes "respectful c m" "c \<noteq> i"
  shows "leaves_core i m"
  unfolding leaves_core_def
  by (intro allI, rule wp_mono [OF assms(1) [unfolded respectful_def, rule_format]])
    (use assms(2) in \<open>auto intro: apart_job_effect\<close>)

lemma leaves_basic [leaves_rules]:
  "leaves_core i (ret v)" "leaves_core i (gets f)" "leaves_core i (on_world h)" "leaves_core i (from_option e x)"
  "leaves_core i (get_context c)"
  "c \<noteq> i \<Longrightarrow> leaves_core i (update_context c g)" "c \<noteq> i \<Longrightarrow> leaves_core i (set_phase c ph)"
  by (auto simp: leaves_core_def apart_def ap_phase_of_def wp_simps wp_set_phase with_phase_def word_unat_eq_iff
      split: option.splits)

lemma leaves_bind [leaves_rules]:
  "leaves_core i m \<Longrightarrow> (\<And>a. leaves_core i (f a)) \<Longrightarrow> leaves_core i (bind m f)"
  unfolding leaves_core_def wp_def bind_def
  by (auto split: outcome.splits) (metis apart_trans outcome.case)+

lemma leaves_if [leaves_rules]: "leaves_core i m \<Longrightarrow> leaves_core i n \<Longrightarrow> leaves_core i (if b then m else n)"
  by simp

lemma leaves_lock [leaves_rules]:
  "c \<noteq> i \<Longrightarrow> leaves_core i (try_lock_context c)" "c \<noteq> i \<Longrightarrow> leaves_core i (unlock_context c)"
  by (simp_all add: try_lock_context_def unlock_context_def interlocked_compare_exchange_64_def leaves_rules)

lemma leaves_init [leaves_rules]: "c \<noteq> i \<Longrightarrow> leaves_core i (core_main_loop_init P c)"
  unfolding core_main_loop_init_split by (intro leaves_rules leaves_respectful [OF core_init_prefix]) simp_all

lemma leaves_job [leaves_rules]:
  assumes P: "code_respects P" and c: "c \<noteq> i"
  shows "leaves_core i (job_step P c)"
proof -
  have job: "leaves_core i (bind (run_job P c) (\<lambda>_. set_phase c ApLoop))"
    unfolding run_job_def by (intro leaves_rules leaves_respectful [OF respectful_job [OF P] c] c)
  have fault: "leaves_core i (core_fault P c f)" for f
    unfolding core_fault_def by (intro leaves_rules c)
  have hung: "leaves_core i (set_phase c ApHung)" by (intro leaves_rules c)
  have step: "wp m (\<lambda>_. apart i s) (\<lambda>_. apart i s) t" if "leaves_core i m" "apart i s t" for m :: "('w, unit) prog" and s t
    by (rule wp_mono [OF that(1) [unfolded leaves_core_def, rule_format]]) (use that(2) in \<open>auto intro: apart_trans\<close>)
  show ?thesis
    unfolding leaves_core_def
  proof
    fix s
    have "wp (bind (run_job P c) (\<lambda>_. set_phase c ApLoop)) (\<lambda>_. apart i s) (\<lambda>_. apart i s) s"
      using job by (simp add: leaves_core_def)
    then show "wp (job_step P c) (\<lambda>_. apart i s) (\<lambda>_. apart i s) s"
    proof (cases "bind (run_job P c) (\<lambda>_. set_phase c ApLoop) s")
      case (Stop e t)
      then have t: "apart i s t" using \<open>wp (bind (run_job P c) _) _ _ s\<close> by (simp add: wp_def)
      show ?thesis
        using step [OF fault t] step [OF hung t] t by (cases e) (simp_all add: wp_def job_step_def Stop)
    qed (simp add: wp_def job_step_def)
  qed
qed

lemma other_step:
  assumes P: "code_respects P" and c: "c \<noteq> i" and run: "ap_step P c s = Done x t"
  shows "apart i s t"
proof -
  have "leaves_core i (case ph of ApOff \<Rightarrow> ret () | ApEntry \<Rightarrow> core_main_loop_entry_point P c
     | ApLoop \<Rightarrow> core_main_loop_iteration P c | ApJob \<Rightarrow> job_step P c | ApHung \<Rightarrow> ret ())" for ph
    using P c by (cases ph) (simp_all add: core_main_loop_entry_point_def set_cr3_def core_main_loop_iteration_def
        accept_job_def get_tsc_def leaves_rules)
  then have "leaves_core i (ap_step P c)" unfolding ap_step_def by (intro leaves_bind leaves_basic)
  then show ?thesis using run wp_DoneD unfolding leaves_core_def by metis
qed


section \<open>A job that does not end in time\<close>

text \<open>
  The steps that the cores take during the stalls of a wait: one list of cores for each stall of the boot core.
\<close>

fun steps_taken :: "'w platform \<Rightarrow> u64 list list \<Rightarrow> 'w state \<Rightarrow> 'w state \<Rightarrow> bool" where
  "steps_taken P [] s t \<longleftrightarrow> t = s"
| "steps_taken P (cs # css) s t \<longleftrightarrow>
     (\<exists>w u. ap_steps_fw P (world s) = (cs, w) \<and> for_each cs (ap_step P) (s\<lparr>world := w\<rparr>) = Done () u \<and> steps_taken P css u t)"

text \<open>
  How far a core has come with the job in the context \<open>c\<close> after \<open>k\<close> steps of it: the job is queued, or the core has accepted it.
\<close>

definition job_stage :: "'w platform \<Rightarrow> u64 \<Rightarrow> CoreContext \<Rightarrow> nat \<Rightarrow> 'w state \<Rightarrow> bool" where
  "job_stage P i c k s \<longleftrightarrow> protocol s \<and>
     (if k = 0 then ap_phase_of i s = ApLoop \<and> context_of i s = c
      else ap_phase_of i s = ApJob \<and> (\<exists>h. context_of i s = accepted (c\<lparr>heartbeat := h\<rparr>)))"

lemma job_stage_apart:
  "job_stage P i c k s \<Longrightarrow> apart i s t \<Longrightarrow> protocol t \<Longrightarrow> job_stage P i c k t"
  by (auto simp: job_stage_def apart_def)

lemma job_stage_protocol: "job_stage P i c k s \<Longrightarrow> protocol s"
  by (simp add: job_stage_def)

lemma job_stage_world: "job_stage P i c k s \<Longrightarrow> job_stage P i c k (s\<lparr>world := w\<rparr>)"
  by (rule job_stage_apart) (auto simp: job_stage_def apart_def ap_phase_of_def intro: protocol_job_effect)

lemma job_stage_step:
  assumes P: "code_respects P" and i: "i \<noteq> 0" "unat i < 128" and c: "lock c = 0" "job_queued c \<noteq> 0" "fault_info c \<noteq> None"
    and s: "job_stage P i c 0 s" and run: "ap_step P i s = Done x t"
  shows "job_stage P i c 1 t"
proof -
  have p: "protocol s" "ap_phase_of i s = ApLoop" "context_of i s = c" using s by (simp_all add: job_stage_def)
  note facts = protocol_core [OF p(1) i]
  have t: "t = job_started P i s"
    using queued_job_accepted [OF facts(2) p(2), of P] c p(3) run by (simp add: job_started_def)
  have "protocol t" using wp_DoneD [OF wp_ap_step [OF P p(1)] run] .
  moreover have "ap_phase_of i t = ApJob" using facts(3) unfolding t by (simp add: job_started_def with_phase_def ap_phase_of_def)
  moreover have "context_of i t = accepted (c\<lparr>heartbeat := fst (rdtsc_hw P (world s))\<rparr>)"
    unfolding t job_started_context [OF facts(2)] p(3) ..
  ultimately show ?thesis by (auto simp: job_stage_def)
qed

lemma job_stage_steps:
  assumes P: "code_respects P" and i: "i \<noteq> 0" "unat i < 128" and c: "lock c = 0" "job_queued c \<noteq> 0" "fault_info c \<noteq> None"
  shows "job_stage P i c k s \<Longrightarrow> for_each cs (ap_step P) s = Done () t \<Longrightarrow> k + count_list cs i \<le> 1 \<Longrightarrow>
    job_stage P i c (k + count_list cs i) t"
proof (induction cs arbitrary: k s)
  case Nil
  then show ?case by (simp add: ret_run)
next
  case (Cons d cs)
  obtain u where u: "ap_step P d s = Done () u" "for_each cs (ap_step P) u = Done () t"
    using Cons.prems(2) by (auto simp: bind_run split: outcome.splits)
  show ?case
  proof (cases "d = i")
    case True
    then have "k = 0" "count_list cs i = 0" using Cons.prems(3) by simp_all
    then show ?thesis
      using Cons.IH [of 1 u] job_stage_step [OF P i c, of s] Cons.prems(1) u True by simp
  next
    case False
    have "protocol u" using wp_DoneD [OF wp_ap_step [OF P] u(1)] Cons.prems(1) by (simp add: job_stage_def)
    then have "job_stage P i c k u"
      by (rule job_stage_apart [OF Cons.prems(1) other_step [OF P False u(1)]])
    then show ?thesis using Cons.IH [of k u] u(2) Cons.prems(3) False by simp
  qed
qed

text \<open>A wait during whose stalls the core takes at most one step runs into its timeout, with the job as the core has left it.\<close>

lemma wait_times_out:
  assumes P: "code_respects P" and i: "i \<noteq> 0" "unat i < 128" and c: "lock c = 0" "job_queued c \<noteq> 0" "fault_info c \<noteq> None"
  shows "job_stage P i c k s \<Longrightarrow> steps_taken P css s t \<Longrightarrow> k + count_list (concat css) i \<le> 1 \<Longrightarrow>
    wait_with_timeout P i (length css) s = Done True t \<and> job_stage P i c (k + count_list (concat css) i) t"
proof (induction css arbitrary: k s)
  case Nil
  then show ?case by (simp add: ret_run)
next
  case (Cons cs css)
  obtain w u where u: "ap_steps_fw P (world s) = (cs, w)" "for_each cs (ap_step P) (s\<lparr>world := w\<rparr>) = Done () u"
      "steps_taken P css u t" using Cons.prems(2) by auto
  have count: "k + count_list cs i \<le> 1" using Cons.prems(3) by simp
  have "job_stage P i c (k + count_list cs i) u"
    by (rule job_stage_steps [OF P i c job_stage_world [OF Cons.prems(1)] u(2) count])
  then have rest: "wait_with_timeout P i (length css) u = Done True t \<and>
      job_stage P i c (k + count_list cs i + count_list (concat css) i) t"
    using Cons.IH [OF _ u(3)] Cons.prems(3) by simp
  have "has_context i s" by (rule protocol_core(2) [OF job_stage_protocol [OF Cons.prems(1)] i])
  moreover have "\<not> idle (context_of i s)"
    using Cons.prems(1) c(2) by (auto simp: job_stage_def idle_def accepted_def split: if_splits)
  ultimately show ?case
    using job_finished_run [of i s] u rest by (simp add: bind_run ret_run run_aps_def on_world_run add.assoc)
qed

lemma execute_job_times_out:
  assumes P: "code_respects P" and s: "protocol s" and core: "core \<noteq> 0" "unat core < 128"
    and loop: "ap_phase_of core s = ApLoop" "fault_info (context_of core s) \<noteq> None"
    and steps: "steps_taken P css (with_context core queued s) t" "length css = unat timeout" "timeout \<noteq> 0"
      "count_list (concat css) core \<le> 1"
  shows "execute_job P core timeout s = Done (0x1 OR fault_flag (context_of core t)) t \<and>
    job_stage P core (queued (context_of core s)) (count_list (concat css) core) t"
proof -
  let ?q = "with_context core queued s"
  note facts = protocol_core [OF s core]
  have ctx: "has_context core ?q" using facts(2) by simp
  have "protocol ?q"
    by (rule protocol_loop [OF s core loop(1)]) (use loop in \<open>simp_all add: queued_def\<close>)
  moreover have "ap_phase_of core ?q = ApLoop" using loop(1) by simp
  ultimately have "job_stage P core (queued (context_of core s)) 0 ?q"
    using facts(2) by (simp add: job_stage_def)
  from wait_times_out [OF P core _ _ _ this steps(1)]
  have wait: "wait_on_ap_exec P core timeout ?q = Done True t"
    and stage: "job_stage P core (queued (context_of core s)) (count_list (concat css) core) t"
    using steps(2-4) loop(2) by (simp_all add: wait_on_ap_exec_def queued_def)
  have t: "has_context core t" by (rule protocol_core(2) [OF job_stage_protocol [OF stage] core])
  have q: "with_context core (\<lambda>c. c\<lparr>job_queued := 1, lock := 0\<rparr>) s = ?q" by (simp add: queued_def [abs_def])
  have "wp (execute_job P core timeout) (\<lambda>v u. v = 0x1 OR fault_flag (context_of core t) \<and> u = t) (\<lambda>_ _. False) s"
    using facts(2) core(1) q t
    by (simp add: execute_job_def context_rules wp_Done [where m = "wait_on_ap_exec P core timeout", OF wait])
      (simp add: fault_flag_def)
  then show ?thesis using stage by (auto dest: wp_total_returns)
qed

text \<open>A request that passes the checks comes down to the job.\<close>

lemma wp_execute_request:
  fixes slot core timeout :: u32 and s :: "'w state"
  defines "i \<equiv> (ucast core :: u64)"
  assumes s: "protocol s" and pl: "12 \<le> payload_length" and slot: "slot < 10"
    and used: "machine_code (machine_codes s ! unat slot) \<noteq> 0" "machine_code_length (machine_codes s ! unat slot) \<noteq> 0"
    and core: "i \<noteq> 0" "job_check i s = None" "results_ok (context_of i s)"
  shows "wp (handle_execute_machine_code P (le_bytes 4 slot @ le_bytes 4 core @ le_bytes 4 timeout @ rest) payload_length) Q E s =
    wp (bind (execute_job P i (ucast timeout)) (\<lambda>flags. send_result_message P i flags True)) Q E
      (with_context i (code_job (machine_code (machine_codes s ! unat slot))) s)"
proof -
  have m: "unat slot < length (machine_codes s)" "\<not> 10 \<le> slot"
    using slot arrays_ok_lengths(2) [OF protocol_ok(2) [OF s]] by (simp_all add: word_less_nat_alt word_le_nat_alt)
  have ctx: "has_context i s" using protocol_core(2) [OF s core(1) job_check_loop(1) [OF s core(1,2)]] .
  have slices: "take 4 (le_bytes 4 slot) = le_bytes 4 slot" "slice 4 4 (le_bytes 4 slot @ le_bytes 4 core @ le_bytes 4 timeout @ rest) = le_bytes 4 core"
    "slice 8 4 (le_bytes 4 slot @ le_bytes 4 core @ le_bytes 4 timeout @ rest) = le_bytes 4 timeout"
    by (simp_all add: slice_def)
  show ?thesis
    using leD [OF pl] m used ctx core(3) slices
    by (simp add: handle_execute_machine_code_def wp_bind wp_load_u32 u32c.dec_enc wp_get_machine_code
        i_def [symmetric] wp_acquire_ok [OF core(2) protocol_ok(2) [OF s]] clear_core_functions_def wp_update_with
        wp_zero_results null_slots code_job_def [symmetric] Let_def)
qed

lemma results_ok_code_job:
  assumes "results_ok c"
  shows "results_ok (queued (code_job addr c))"
  using assms by (auto simp: results_ok_def queued_def code_job_def zeroed_def)

text \<open>The first step of a core with a queued job accepts it; the step of a core with an accepted one executes it. Then its results can be asked for.\<close>

lemma job_reported:
  fixes n :: nat and u :: "'w state" and i :: u64 and P :: "'w platform"
  defines "v \<equiv> if n = 0 then job_started P i u else u"
  assumes net: "network_reliable P" and P: "code_respects P" and core: "i \<noteq> 0" "unat i < 128"
    and c: "lock c = 0" "job_queued c \<noteq> 0" "fault_info c \<noteq> None"
    and stage: "job_stage P i c n u" and n: "n \<le> 1"
    and fns: "call_core_functions P i v = Done () t" and res: "results_ok (context_of i t)"
  shows "\<exists>x y. for_each (replicate (2 - n) i) (ap_step P) u = Done () x \<and> idle (context_of i x) \<and>
    handle_get_last_test_result P (le_bytes 8 i) 8 x = Done EFI_SUCCESS y \<and>
    sent y = sent t @ [frame MSG_CORESTATUSRESPONSE (status_report (context_of i x) (fst (rdtsc_hw P (world x)))) False,
      frame MSG_UCODEEXECUTETESTRESPONSE (result_report (context_of i t) 0) True]"
proof -
  have u: "protocol u" using stage by (simp add: job_stage_def)
  have first: "ap_step P i u = Done () v \<and> job_stage P i c 1 v" if "n = 0"
  proof -
    have p: "ap_phase_of i u = ApLoop" "context_of i u = c" using stage that by (simp_all add: job_stage_def)
    have "ap_step P i u = Done () v"
      using queued_job_accepted [OF protocol_core(2) [OF u core] p(1), of P] c p(2) that by (simp add: v_def job_started_def)
    then show ?thesis using job_stage_step [OF P core c] stage that by simp
  qed
  have "job_stage P i c 1 v" using first stage n unfolding v_def by (cases "n = 0") (auto simp: le_Suc_eq)
  then have v: "protocol v" "ap_phase_of i v = ApJob" "job_queued (context_of i v) = 0"
    by (auto simp: job_stage_def accepted_def)
  note ctx = protocol_core(2) [OF v(1) core]
  let ?x = "with_phase i ApLoop (with_context i job_done t)"
  have last: "ap_step P i v = Done () ?x" and idle: "idle (context_of i ?x)"
    using accepted_job_completes [OF P ctx v(2,3) fns] by simp_all
  have "for_each (replicate (2 - n) i) (ap_step P) u = Done () ?x"
  proof (cases "n = 0")
    case True
    then show ?thesis using first last by (simp add: bind_run ret_run numeral_2_eq_2)
  next
    case False
    then have "2 - n = Suc 0" "v = u" using n by (simp_all add: v_def)
    then show ?thesis using last by (simp add: bind_run ret_run)
  qed
  moreover have eff: "job_effect i v t" by (rule job_functions_effect(1) [OF P fns])
  then have tc: "has_context i t" using job_effect_length [OF eff] ctx by simp
  have "arrays_ok t" "buffers_ok t" using eff protocol_ok [OF v(1)] by (simp_all add: job_effect_def)
  then have x: "arrays_ok ?x" "buffers_ok ?x" "context_of i ?x = job_done (context_of i t)" "sent ?x = sent t"
    using tc by (simp add: with_phase_def arrays_ok_def, simp_all)
  have "i < 128" using core(2) by (simp add: word_less_nat_alt)
  moreover have "i < 128 \<Longrightarrow> results_ok (context_of i ?x)" unfolding x(3) results_ok_fields(2) by (rule res)
  ultimately obtain y where "handle_get_last_test_result P (le_bytes 8 i @ []) 8 ?x = Done EFI_SUCCESS y"
      "sent y = sent ?x @ [frame MSG_CORESTATUSRESPONSE (status_report (context_of i ?x) (fst (rdtsc_hw P (world ?x)))) False,
        frame MSG_UCODEEXECUTETESTRESPONSE (result_report (context_of i ?x) 0) True]"
    using handle_get_last_test_result_answers [OF net x(2,1) order_refl, of i "[]"] by auto
  then show ?thesis using \<open>for_each _ _ u = _\<close> idle x(3,4) by (auto simp: results_ok_fields)
qed

text \<open>
  C3. The asynchronous flow of the README, for any timeout other than 0 and any steps of the cores in the milliseconds of the
  wait, as long as the core of the job takes at most one of them, so that its job has not ended: the request is answered with the flag of the
  timeout (and with that of a recorded fault). The job is not lost: after no step, it is still queued; after
  one, the core has accepted it and is executing it. When the core then takes the steps that are missing, and its functions return, it is ready again,
  and a request for its last results is answered with its status and with the results of the job.
\<close>

theorem asynchronous_job:
  fixes slot core timeout :: u32 and s :: "'w state"
  defines "i \<equiv> (ucast core :: u64)"
  defines "q \<equiv> with_context i (\<lambda>c. queued (code_job (machine_code (machine_codes s ! unat slot)) c)) s"
  assumes net: "network_reliable P" and P: "code_respects P" and s: "protocol s" and slot: "slot < 10"
    and used: "machine_code (machine_codes s ! unat slot) \<noteq> 0" "machine_code_length (machine_codes s ! unat slot) \<noteq> 0"
    and core: "i \<noteq> 0" "job_check i s = None" "fault_info (context_of i s) \<noteq> None" "results_ok (context_of i s)"
    and timeout: "timeout \<noteq> 0" "length css = unat timeout"
    and steps: "steps_taken P css q w" and few: "n = count_list (concat css) i" "n \<le> 1"
  shows "\<exists>u h. handle_execute_machine_code P (le_bytes 4 slot @ le_bytes 4 core @ le_bytes 4 timeout) 12 s = Done EFI_SUCCESS u \<and>
    io_only w u \<and> protocol u \<and>
    sent u = sent w @ [frame MSG_UCODEEXECUTETESTRESPONSE (result_report (context_of i w) (0x1 OR fault_flag (context_of i w))) True] \<and>
    context_of i u = (if n = 0 then context_of i q else accepted ((context_of i q)\<lparr>heartbeat := h\<rparr>)) \<and>
    ap_phase_of i u = (if n = 0 then ApLoop else ApJob) \<and>
    (\<forall>t. call_core_functions P i (if n = 0 then job_started P i u else u) = Done () t \<longrightarrow> results_ok (context_of i t) \<longrightarrow>
      (\<exists>x y. for_each (replicate (2 - n) i) (ap_step P) u = Done () x \<and> idle (context_of i x) \<and>
        handle_get_last_test_result P (le_bytes 8 i) 8 x = Done EFI_SUCCESS y \<and>
        sent y = sent t @ [frame MSG_CORESTATUSRESPONSE (status_report (context_of i x) (fst (rdtsc_hw P (world x)))) False,
          frame MSG_UCODEEXECUTETESTRESPONSE (result_report (context_of i t) 0) True]))"
proof -
  let ?j = "with_context i (code_job (machine_code (machine_codes s ! unat slot))) s"
  note lt = job_check_loop [OF s core(1,2)]
  have ctx: "has_context i s" "has_context i ?j" using protocol_core(2) [OF s core(1) lt(1)] by simp_all
  have q: "q = with_context i queued ?j" by (simp add: q_def)
  have j: "protocol ?j" by (rule protocol_loop [OF s core(1) lt]) (simp_all add: code_job_def zeroed_def)
  have qc: "context_of i q = queued (context_of i ?j)" using ctx by (simp add: q)
  have jc: "fault_info (context_of i ?j) \<noteq> None" "ap_phase_of i ?j = ApLoop"
    using ctx(1) core(3) lt(2) by (simp_all add: code_job_def zeroed_def)
  have time: "length css = unat (ucast timeout :: u64)" "(ucast timeout :: u64) \<noteq> 0"
    using timeout by (simp_all add: word_unat_eq_iff)
  from execute_job_times_out [OF P j core(1) lt(1) jc(2,1) steps [unfolded q] time] few
  have ex: "execute_job P i (ucast timeout) ?j = Done (0x1 OR fault_flag (context_of i w)) w"
    and stage: "job_stage P i (context_of i q) n w" unfolding qc by simp_all
  have c: "lock (context_of i q) = 0" "job_queued (context_of i q) \<noteq> 0" "fault_info (context_of i q) \<noteq> None"
    unfolding qc using jc(1) by (simp_all add: queued_def)
  have w: "protocol w" using stage by (simp add: job_stage_def)
  have wc: "has_context i w" by (rule protocol_core(2) [OF w core(1) lt(1)])
  have "results_ok (context_of i q)"
    using results_ok_code_job [OF core(4)] ctx(1) by (simp add: q_def)
  then have rw: "results_ok (context_of i w)"
    using stage by (auto simp: job_stage_def results_ok_def accepted_def split: if_splits)
  have "wp (handle_execute_machine_code P (le_bytes 4 slot @ le_bytes 4 core @ le_bytes 4 timeout @ []) 12)
      (\<lambda>st u. st = EFI_SUCCESS \<and> io_only w u \<and> buffers_ok u \<and> sent u = sent w @ [frame MSG_UCODEEXECUTETESTRESPONSE
        (result_report (context_of i w) (0x1 OR fault_flag (context_of i w))) True]) (\<lambda>_ _. False) s"
    unfolding wp_execute_request [OF s order_refl slot used core(1,2,4) [unfolded i_def]] i_def [symmetric]
    using wp_send_result_message [OF net protocol_ok(1) [OF w] wc rw]
    by (simp add: wp_bind wp_Done [where m = "execute_job P i (ucast timeout)", OF ex])
  from wp_total_returns [OF this] obtain u where
    u: "handle_execute_machine_code P (le_bytes 4 slot @ le_bytes 4 core @ le_bytes 4 timeout) 12 s = Done EFI_SUCCESS u"
      "io_only w u" "buffers_ok u" "sent u = sent w @ [frame MSG_UCODEEXECUTETESTRESPONSE
        (result_report (context_of i w) (0x1 OR fault_flag (context_of i w))) True]" by auto
  have "apart i w u" using u(2) io_phase [OF u(2), of i] by (simp add: apart_def io_only_def)
  then have stage_u: "job_stage P i (context_of i q) n u"
    by (rule job_stage_apart [OF stage _ protocol_io [OF w u(2,3)]])
  then obtain h where "context_of i u = (if n = 0 then context_of i q else accepted ((context_of i q)\<lparr>heartbeat := h\<rparr>))"
      "ap_phase_of i u = (if n = 0 then ApLoop else ApJob)"
    unfolding job_stage_def by (cases "n = 0") auto
  then show ?thesis
    using u job_stage_protocol [OF stage_u] job_reported [OF net P core(1) lt(1) c stage_u few(2)] by blast
qed


text \<open>The example platform with the steps of its cores as a function of the world.\<close>

definition late_platform :: "(nat \<Rightarrow> u64 list \<times> nat) \<Rightarrow> nat platform" where
  "late_platform g = demo_platform\<lparr>ap_steps_fw := g\<rparr>"

lemma late_platform_documented: "network_reliable (late_platform g)" "code_respects (late_platform g)"
  using demo_network_reliable demo_code_respects
  by (simp_all add: late_platform_def network_reliable_def code_respects_def)

lemma late_code_function:
  assumes "has_context core s"
    and "core_functions (context_of core s) = [\<lparr>func = Execute_machine_code, arg = None\<rparr>, null_call, null_call]"
  shows "call_core_functions (late_platform g) core s = Done () s"
proof -
  have "run_code (late_platform g) core a s = (Returned, s)" for a by (simp add: run_code_def late_platform_def demo_platform_def)
  then have code: "call_machine_code (late_platform g) core a s = Done () s" for a
    by (simp add: call_machine_code_def while_option_unfold)
  have "wp (call_core_functions (late_platform g) core) (\<lambda>_ t. t = s) (\<lambda>_ _. False) s"
    using assms unfolding call_core_functions_def function_slots
    by (simp add: wp_bind wp_get_with wp_require wp_ret null_call_def run_function.simps execute_machine_code_def
        wp_Done [where m = "call_machine_code (late_platform g) core _", OF code])
  then show ?thesis by (auto dest: wp_total_returns)
qed

definition late_queued :: "nat state" where
  "late_queued = with_context 1 (\<lambda>c. queued (code_job 0x9000 c)) demo_job_state"

lemma late_context:
  "has_context 1 late_queued" "context_of 1 late_queued = queued (code_job 0x9000 demo_core)" "world late_queued = 0"
  "ap_phase_of 1 (late_queued\<lparr>world := k\<rparr>) = ApLoop"
proof -
  have ctx: "has_context 1 demo_job_state" "context_of 1 demo_job_state = demo_core" by simp_all
  from with_context_simps(2) [OF ctx(1)] ctx
  show "has_context 1 late_queued" "context_of 1 late_queued = queued (code_job 0x9000 demo_core)"
    by (simp_all only: late_queued_def with_context_simps)
  show "world late_queued = 0" by (simp add: late_queued_def)
  have "ap_phases (late_queued\<lparr>world := k\<rparr>) = (replicate 128 ApOff)[1 := ApLoop, 2 := ApLoop]"
    by (simp add: late_queued_def demo_job_state_def demo_core_state_def demo_state_def with_context_def)
  then show "ap_phase_of 1 (late_queued\<lparr>world := k\<rparr>) = ApLoop" by (simp only: ap_phase_of_def) simp
qed

text \<open>No step in one stall; one step of the core in the first of two.\<close>

lemma late_no_step: "steps_taken (late_platform (\<lambda>w. ([], w))) [[]] late_queued late_queued"
  by (simp add: late_platform_def ret_run)

lemma late_one_step:
  "\<exists>w. steps_taken (late_platform (\<lambda>w. (if w = 0 then [1] else [], Suc w))) [[1], []] late_queued w"
proof -
  let ?P = "late_platform (\<lambda>w. (if w = 0 then [1] else [], Suc w))" and ?q = "late_queued\<lparr>world := 1\<rparr>"
  have "ap_step ?P 1 ?q = Done () (job_started ?P 1 ?q)"
    unfolding job_started_def
    by (rule queued_job_accepted [OF _ late_context(4)])
      (use late_context in \<open>simp_all add: queued_def code_job_def zeroed_def demo_core_def zero_context_def\<close>)
  moreover have "world (job_started ?P 1 ?q) = 2"
    by (simp add: job_started_def with_phase_def late_platform_def demo_platform_def)
  ultimately show ?thesis
    using late_context(3) by (simp add: late_platform_def ret_run bind_run)
qed

lemma asynchronous_job_witness:
  "(\<exists>u x y. handle_execute_machine_code (late_platform (\<lambda>w. ([], w))) (le_bytes 4 (2 :: u32) @ le_bytes 4 (1 :: u32) @ le_bytes 4 (1 :: u32)) 12
      demo_job_state = Done EFI_SUCCESS u \<and> for_each [1, 1] (ap_step (late_platform (\<lambda>w. ([], w)))) u = Done () x \<and>
    idle (context_of 1 x) \<and>
    handle_get_last_test_result (late_platform (\<lambda>w. ([], w))) (le_bytes 8 (1 :: u64)) 8 x = Done EFI_SUCCESS y) \<and>
   (\<exists>u x y. handle_execute_machine_code (late_platform (\<lambda>w. (if w = 0 then [1] else [], Suc w)))
      (le_bytes 4 (2 :: u32) @ le_bytes 4 (1 :: u32) @ le_bytes 4 (2 :: u32)) 12 demo_job_state = Done EFI_SUCCESS u \<and>
    for_each [1] (ap_step (late_platform (\<lambda>w. (if w = 0 then [1] else [], Suc w)))) u = Done () x \<and> idle (context_of 1 x) \<and>
    handle_get_last_test_result (late_platform (\<lambda>w. (if w = 0 then [1] else [], Suc w))) (le_bytes 8 (1 :: u64)) 8 x = Done EFI_SUCCESS y)"
proof -
  let ?i = "ucast (1 :: u32) :: u64"
  have q: "with_context ?i (\<lambda>c. queued (code_job (machine_code (machine_codes demo_job_state ! unat (2 :: u32))) c)) demo_job_state = late_queued"
    by (simp add: late_queued_def demo_machine_code_def)
  have core: "?i \<noteq> 0" "job_check ?i demo_job_state = None" "fault_info (context_of ?i demo_job_state) \<noteq> None"
      "results_ok (context_of ?i demo_job_state)"
    by (simp_all add: job_check_def core_check_def word_le_nat_alt results_ok_def demo_core_def zero_context_def)
  have slot: "(2 :: u32) < 10" "machine_code (machine_codes demo_job_state ! unat (2 :: u32)) \<noteq> 0"
      "machine_code_length (machine_codes demo_job_state ! unat (2 :: u32)) \<noteq> 0"
    by (simp_all add: word_less_nat_alt demo_machine_code_def)
  have flow: "\<exists>u x y. handle_execute_machine_code (late_platform g) (le_bytes 4 (2 :: u32) @ le_bytes 4 (1 :: u32) @ le_bytes 4 timeout) 12
        demo_job_state = Done EFI_SUCCESS u \<and> for_each (replicate (2 - n) 1) (ap_step (late_platform g)) u = Done () x \<and>
      idle (context_of 1 x) \<and> handle_get_last_test_result (late_platform g) (le_bytes 8 (1 :: u64)) 8 x = Done EFI_SUCCESS y"
    if "steps_taken (late_platform g) css late_queued w" "length css = unat timeout" "timeout \<noteq> 0" "n = count_list (concat css) 1" "n \<le> 1"
    for g css w and timeout :: u32 and n
  proof -
    note few = that
    let ?P = "late_platform g"
    have i: "?i = 1" by simp
    note flow = asynchronous_job [OF late_platform_documented demo_job_protocol slot core few(3,2), unfolded q, OF few(1) few(4) [folded i] few(5),
        unfolded i]
    from flow obtain u h where u: "handle_execute_machine_code ?P (le_bytes 4 (2 :: u32) @ le_bytes 4 (1 :: u32) @ le_bytes 4 timeout) 12
          demo_job_state = Done EFI_SUCCESS u" "protocol u"
        and uc: "context_of 1 u = (if n = 0 then context_of 1 late_queued else accepted ((context_of 1 late_queued)\<lparr>heartbeat := h\<rparr>))"
        and later: "\<forall>t. call_core_functions ?P 1 (if n = 0 then job_started ?P 1 u else u) = Done () t \<longrightarrow> results_ok (context_of 1 t) \<longrightarrow>
          (\<exists>x y. for_each (replicate (2 - n) 1) (ap_step ?P) u = Done () x \<and> idle (context_of 1 x) \<and>
            handle_get_last_test_result ?P (le_bytes 8 (1 :: u64)) 8 x = Done EFI_SUCCESS y \<and>
            sent y = sent t @ [frame MSG_CORESTATUSRESPONSE (status_report (context_of 1 x) (fst (rdtsc_hw ?P (world x)))) False,
              frame MSG_UCODEEXECUTETESTRESPONSE (result_report (context_of 1 t) 0) True])"
      by (elim exE conjE)
    have len: "has_context 1 u" by (rule protocol_core(2) [OF u(2)]) simp_all
    let ?v = "if n = 0 then job_started ?P 1 u else u"
    have "\<exists>h. context_of 1 ?v = accepted ((context_of 1 late_queued)\<lparr>heartbeat := h\<rparr>)"
      using uc job_started_context [OF len, of ?P] by (cases "n = 0") auto
    then obtain h where vc: "context_of 1 ?v = accepted ((queued (code_job 0x9000 demo_core))\<lparr>heartbeat := h\<rparr>)"
      unfolding late_context(2) by blast
    have "call_core_functions ?P 1 ?v = Done () ?v"
      by (rule late_code_function) (use len in \<open>simp add: job_started_facts\<close>, unfold vc, simp add: accepted_def queued_def code_job_def zeroed_def)
    moreover have "results_ok (context_of 1 ?v)"
      unfolding vc by (simp add: results_ok_def accepted_def queued_def code_job_def zeroed_def demo_core_def zero_context_def)
    ultimately show ?thesis using later u(1) by blast
  qed
  obtain w where one: "steps_taken (late_platform (\<lambda>w. (if w = 0 then [1] else [], Suc w))) [[1], []] late_queued w"
    using late_one_step by (elim exE)
  have steps: "replicate (2 - 0) (1 :: u64) = [1, 1]" "replicate (2 - 1) (1 :: u64) = [1]" by (simp_all add: numeral_2_eq_2)
  show ?thesis
    by (rule conjI, rule flow [OF late_no_step, where n = 0, unfolded steps], simp, simp, simp, simp,
        rule flow [OF one, where n = 1, unfolded steps]) simp_all
qed

end
