(* ===== verification/Answers.thy ===== *)
theory Answers
  imports Sessions
begin

text \<open>
  What a client can rely on to find the end of an answer: the messages that one request gives are frames of which exactly
  the last is marked as last, whatever the request is and whatever it leads to. The one exception are pings whose size
  does not fit their length: they are not answered at all.
\<close>

section \<open>Answers\<close>

text \<open>Whether a received frame is the last one of an answer, if it is a frame at all.\<close>

definition frame_end :: "u8 list \<Rightarrow> bool option" where
  "frame_end f = map_option (\<lambda>(ty, final, p). final) (parse_frame f)"

definition answer :: "u8 list list \<Rightarrow> bool" where
  "answer fs \<longleftrightarrow> fs \<noteq> [] \<and> list_all (\<lambda>f. frame_end f = Some False) (butlast fs) \<and> frame_end (last fs) = Some True"

definition parts :: "u8 list list \<Rightarrow> bool" where
  "parts fs \<longleftrightarrow> list_all (\<lambda>f. frame_end f = Some False) fs"

text \<open>What may have been sent of an answer when the program stops.\<close>

definition so_far :: "u8 list list \<Rightarrow> bool" where
  "so_far fs \<longleftrightarrow> parts fs \<or> answer fs"

lemma frame_end_frame: "length p \<le> RESPONSE_PAYLOAD_SIZE \<Longrightarrow> frame_end (frame ty p l) = Some l"
  by (simp add: frame_end_def parse_frame_frame)

lemma answer_single [simp]: "answer [f] \<longleftrightarrow> frame_end f = Some True"
  by (simp add: answer_def)

lemma not_answer_Nil [simp]: "\<not> answer []"
  by (simp add: answer_def)

lemma parts_simps [simp]:
  "parts []" "parts (f # fs) \<longleftrightarrow> frame_end f = Some False \<and> parts fs" "parts (fs @ gs) \<longleftrightarrow> parts fs \<and> parts gs"
  by (simp_all add: parts_def)

lemma answer_parts: "parts gs \<Longrightarrow> answer fs \<Longrightarrow> answer (gs @ fs)"
  by (auto simp: answer_def parts_def butlast_append)

lemma so_far_simps [simp]: "so_far []" "parts fs \<Longrightarrow> so_far fs" "answer fs \<Longrightarrow> so_far fs"
  by (auto simp: so_far_def)

lemma so_far_parts: "parts gs \<Longrightarrow> so_far fs \<Longrightarrow> so_far (gs @ fs)"
  by (auto simp: so_far_def intro: answer_parts)

lemma answer_Cons: "frame_end f = Some False \<Longrightarrow> answer fs \<Longrightarrow> answer (f # fs)"
  using answer_parts [of "[f]" fs] by simp


section \<open>Computations that send nothing\<close>

text \<open>Neither when they return nor when they stop; the buffers keep their sizes.\<close>

named_theorems silent_rules "computations that send nothing"

definition silent :: "('w, 'a) prog \<Rightarrow> bool" where
  "silent m \<longleftrightarrow> (\<forall>s. buffers_ok s \<longrightarrow>
     wp m (\<lambda>_ t. sent t = sent s \<and> buffers_ok t) (\<lambda>_ t. sent t = sent s \<and> buffers_ok t) s)"

lemma silentD: "silent m \<Longrightarrow> buffers_ok s \<Longrightarrow>
    wp m (\<lambda>_ t. sent t = sent s \<and> buffers_ok t) (\<lambda>_ t. sent t = sent s \<and> buffers_ok t) s"
  by (simp add: silent_def)

lemma silent_basic [silent_rules]:
  "silent (ret v)" "silent (stop e)" "silent (gets f)" "silent (require e c)" "silent (from_option e x)"
  "silent (get_context core)" "silent (get_ucode i)" "silent (get_machine_code i)" "silent (load_bytes b off n)"
  "silent (load_u32 b off)" "silent (load_u64 b off)" "silent (heap_read a off n)"
  by (simp_all add: silent_def wp_simps get_ucode_def get_machine_code_def split: option.splits)

declare silent_basic(1,2) [simp]

lemma silent_modify:
  "(\<And>s. buffers_ok s \<Longrightarrow> sent (g s) = sent s \<and> buffers_ok (g s)) \<Longrightarrow> silent (modify g)"
  by (simp add: silent_def wp_modify)

lemma silent_updates [silent_rules]:
  "silent (modify (\<lambda>s. s\<lparr>open_events := h1 s\<rparr>))" "silent (modify (\<lambda>s. s\<lparr>ap_phases := h2 s\<rparr>))"
  "silent (modify (\<lambda>s. s\<lparr>frames := h3 s\<rparr>))" "silent (modify (\<lambda>s. s\<lparr>frames := h3 s, next_frame := h4 s\<rparr>))"
  "silent (modify (\<lambda>s. s\<lparr>ucodes := h5 s\<rparr>))" "silent (modify (\<lambda>s. s\<lparr>machine_codes := h6 s\<rparr>))"
  "silent (modify (\<lambda>s. s\<lparr>heap := h7 s\<rparr>))" "silent (modify (\<lambda>s. s\<lparr>core_contexts := h8 s\<rparr>))"
  by (rule silent_modify, simp add: buffers_ok_def)+

lemma silent_on_world [silent_rules]: "silent (on_world g)"
  by (simp add: silent_def wp_on_world buffers_ok_def)

lemma silent_bind [silent_rules]:
  fixes m :: "('w, 'a) prog"
  assumes "silent m" "\<And>a. silent (f a)"
  shows "silent (bind m f)"
  unfolding silent_def wp_bind
proof (intro allI impI)
  fix s :: "'w state" assume "buffers_ok s"
  then show "wp m (\<lambda>a. wp (f a) (\<lambda>_ t. sent t = sent s \<and> buffers_ok t) (\<lambda>_ t. sent t = sent s \<and> buffers_ok t))
      (\<lambda>_ t. sent t = sent s \<and> buffers_ok t) s"
    by (rule wp_mono [OF silentD [OF assms(1)]]) (use silentD [OF assms(2)] in fastforce)+
qed

lemma silent_if [silent_rules]: "(b \<Longrightarrow> silent m) \<Longrightarrow> (\<not> b \<Longrightarrow> silent n) \<Longrightarrow> silent (if b then m else n)"
  by simp

lemma silent_option [silent_rules]:
  "(x = None \<Longrightarrow> silent m) \<Longrightarrow> (\<And>a. x = Some a \<Longrightarrow> silent (f a)) \<Longrightarrow> silent (case x of None \<Rightarrow> m | Some a \<Rightarrow> f a)"
  by (cases x) simp_all

lemma silent_prod [silent_rules]: "(\<And>a b. x = (a, b) \<Longrightarrow> silent (f a b)) \<Longrightarrow> silent (case x of (a, b) \<Rightarrow> f a b)"
  by (cases x) simp

lemma silent_for_each [silent_rules]: "(\<And>i. silent (body i)) \<Longrightarrow> silent (for_each is body)"
  by (induction "is") (simp_all add: silent_rules)

lemma silent_buffers [silent_rules]:
  "silent (write_payload off bs)" "silent (write_response off bs)" "silent (FormatPrint P fmt args)"
  by (simp_all add: silent_def wp_write_payload wp_write_response wp_FormatPrint buffers_ok_format, simp_all add: buffers_ok_def)

lemma silent_memory [silent_rules]:
  "silent (heap_write a off bs)" "silent (update_context core f)" "silent (put_ucode i c)" "silent (put_machine_code i m)"
  "silent (copy_block a b n)" "silent (set_phase core ph)"
  by (simp_all add: heap_write_def block_def update_context_def put_ucode_def put_machine_code_def copy_block_def
      set_phase_def silent_rules)

lemma silent_AllocatePages [silent_rules]: "silent (AllocatePages P n)"
  by (auto simp: silent_def wp_def AllocatePages_def buffers_ok_def split: prod.splits)

lemma silent_AllocatePool [silent_rules]: "silent (AllocatePool P n)"
  by (auto simp: silent_def wp_def AllocatePool_def buffers_ok_def split: prod.splits)

lemma silent_registers [silent_rules]:
  "silent (get_tsc P)" "silent (gp_handled P core)" "silent (read_msr_stub P core r)" "silent (write_msr_stub P core r v)"
  "silent (m_apply_ucode P core regs)" "silent (interlocked_compare_exchange_64 core x y)"
  by (simp_all add: get_tsc_def gp_handled_def read_msr_stub_def write_msr_stub_def m_apply_ucode_def
      interlocked_compare_exchange_64_def Let_def silent_rules)

lemma silent_locks [silent_rules]:
  "silent (try_lock_context core)" "silent (unlock_context core)" "silent (clear_core_functions core)" "silent (zero_results core)"
  by (simp_all add: try_lock_context_def unlock_context_def clear_core_functions_def zero_results_def silent_rules)

lemma silent_tables [silent_rules]:
  "silent (get_cr3 P c)" "silent (set_cr3 P c v)" "silent (load_entry a i)" "silent (update_entry a i f)" "silent (CopyPages a b n)"
  "silent (get_pdpt_at cr3 x)" "silent (get_pd_at cr3 x y)" "silent (get_pt_at cr3 x y z)"
  "silent (write_entry off e pos level)"
  by (simp_all add: get_cr3_def set_cr3_def load_entry_def update_entry_def store_entry_def CopyPages_def get_pdpt_at_def
      get_pd_at_def get_pt_at_def write_entry_def Let_def silent_rules)

lemma silent_minimal_paging [silent_rules]: "silent (create_minimal_paging P cr3)"
  unfolding create_minimal_paging_def by (intro silent_rules)

lemma silent_cores [silent_rules]:
  "silent (init_fault_handlers_on_core P core)" "silent (write_idt_on_core P core)" "silent (get_available_cores P)"
  "silent (start_on_core P core)"
  by (simp_all add: init_fault_handlers_on_core_def write_idt_entry_def write_idt_on_core_def get_available_cores_def
      start_on_core_def CreateEvent_def Let_def silent_rules)


text \<open>The one thing asked of the machine code of clients: it does not use the network and leaves the buffers alone.\<close>

definition code_silent :: "'w platform \<Rightarrow> bool" where
  "code_silent P \<longleftrightarrow>
     (\<forall>core addr s r t. code_hw P core addr s = (r, t) \<longrightarrow> sent t = sent s \<and> (buffers_ok s \<longrightarrow> buffers_ok t))"

lemma silent_resume:
  assumes "code_silent P" "buffers_ok s"
  shows "sent (snd (resume_code P core (r, s))) = sent s \<and> buffers_ok (snd (resume_code P core (r, s)))"
proof -
  have code: "sent (snd (code_hw P c addr u)) = sent u \<and> (buffers_ok u \<longrightarrow> buffers_ok (snd (code_hw P c addr u)))" for c addr u
    using assms(1) unfolding code_silent_def by (metis prod.collapse)
  then show ?thesis
    using assms(2) by (cases r) (auto simp: Let_def buffers_ok_def split: option.splits)
qed

lemma silent_call_machine_code [silent_rules]:
  assumes P: "code_silent P"
  shows "silent (call_machine_code P core addr)"
  unfolding silent_def
proof (intro allI impI)
  fix s :: "'a state" assume ok: "buffers_ok s"
  let ?I = "\<lambda>t. sent t = sent s \<and> buffers_ok t"
  let ?loop = "while_option (\<lambda>(r, _). general_protection r) (resume_code P core) (run_code P core addr s)"
  have start: "?I (snd (run_code P core addr s))"
    using P ok unfolding snd_run_code code_silent_def by (metis prod.collapse)
  have inv: "?I (snd y)" if "?loop = Some y" for y
  proof (rule while_option_rule [where P = "\<lambda>y. ?I (snd y)", OF _ that start])
    fix y :: "code_end \<times> 'a state" assume "?I (snd y)"
    then show "?I (snd (resume_code P core y))" using silent_resume [OF P, of "snd y" core "fst y"] by simp
  qed
  show "wp (call_machine_code P core addr) (\<lambda>_. ?I) (\<lambda>_. ?I) s"
  proof (cases ?loop)
    case None
    then show ?thesis using ok by (simp add: wp_def call_machine_code_def)
  next
    case (Some y)
    then show ?thesis using inv [OF Some]
      by (cases y; cases "fst y") (auto simp: wp_def call_machine_code_def)
  qed
qed

lemma silent_iterate_words [silent_rules]: "silent (iterate_words a n i d)"
  by (induction n arbitrary: i d) (simp_all add: silent_rules)

lemma silent_frames [silent_rules]:
  "silent (new_frame ws)" "silent (drop_frame n)" "silent (read_frame p i)" "silent (write_frame p i v)"
  "silent (read_msr P core p)"
  by (simp_all add: new_frame_def drop_frame_def read_frame_def write_frame_def read_msr_def silent_rules)

lemma silent_functions [silent_rules]: "code_silent P \<Longrightarrow> silent (run_function P core call)"
  by (cases "func call")
    (simp_all add: run_function.simps prepare_ucode_update_def
      iterate_ucode_def apply_ucode_execute_machine_code_simple_def apply_ucode_execute_machine_code_restore_def
      apply_ucode_execute_machine_code_def execute_machine_code_def Let_def silent_rules)

lemma silent_job [silent_rules]: "code_silent P \<Longrightarrow> silent (call_core_functions P core)"
  by (simp add: call_core_functions_def silent_rules)


section \<open>Steps of the other cores\<close>

lemma silent_main_loop [silent_rules]:
  "silent (core_main_loop_init P core)" "silent (core_main_loop_entry_point P core)" "silent (accept_job core)"
  "silent (core_main_loop_iteration P core)" "silent (core_fault P core f)"
  by (simp_all add: core_main_loop_init_def core_main_loop_entry_point_def accept_job_def core_main_loop_iteration_def
      core_fault_def init_ibs_on_core_def init_dsm_on_core_def lvt_store_def update_ibs_control_def get_ibs_control_def
      Let_def silent_rules)

lemma silent_job_step [silent_rules]:
  assumes "code_silent P"
  shows "silent (job_step P core)"
  unfolding silent_def
proof (intro allI impI)
  fix s :: "'a state" assume ok: "buffers_ok s"
  let ?I = "\<lambda>t. sent t = sent s \<and> buffers_ok t"
  let ?run = "bind (run_job P core) (\<lambda>_. set_phase core ApLoop) s"
  have "silent (bind (run_job P core) (\<lambda>_. set_phase core ApLoop))"
    using assms by (simp add: run_job_def silent_rules)
  note run = silentD [OF this ok]
  have next_step: "wp m (\<lambda>_. ?I) (\<lambda>_. ?I) t" if "silent m" "?I t" for t and m :: "('a, unit) prog"
    using silentD [OF that(1), of t] that(2) by simp
  show "wp (job_step P core) (\<lambda>_. ?I) (\<lambda>_. ?I) s"
  proof (cases ?run)
    case (Done a t)
    then show ?thesis using run by (simp add: wp_def job_step_def)
  next
    case (Stop e t)
    then have t: "?I t" using run by (simp add: wp_def)
    show ?thesis
      using Stop t next_step [OF silent_main_loop(5) t, of P core] next_step [OF silent_memory(6) t, of core ApHung]
      by (cases e) (simp_all add: wp_def job_step_def)
  qed
qed

lemma silent_run_aps [silent_rules]: "code_silent P \<Longrightarrow> silent (run_aps P)"
  unfolding run_aps_def ap_step_def
  by (intro silent_rules) (auto split: ap_phase.split simp: silent_rules)

lemma silent_job_finished [silent_rules]: "silent (job_finished core)"
  by (simp add: job_finished_def silent_rules)

lemma silent_wait_with_timeout [silent_rules]: "code_silent P \<Longrightarrow> silent (wait_with_timeout P core n)"
  by (induction n) (simp_all add: silent_rules)

lemma silent_wait_forever [silent_rules]:
  assumes "code_silent P"
  shows "silent (wait_forever P core)"
  unfolding silent_def
proof (intro allI impI)
  fix s :: "'a state" assume s: "buffers_ok s"
  let ?I = "\<lambda>t. sent t = sent s \<and> buffers_ok t"
  let ?J = "\<lambda>r. case r of Done _ t \<Rightarrow> ?I t | Stop _ t \<Rightarrow> ?I t"
  have step: "silent (wait_iteration P core)"
    using assms by (simp add: wait_iteration_def silent_rules)
  have inv: "?J r" if "while_option going_on (next_iteration P core) (Done False s) = Some r" for r
  proof (rule while_option_rule [OF _ that])
    fix r :: "(stop_reason, bool, 'a state) outcome" assume r: "?J r" "going_on r"
    then show "?J (next_iteration P core r)"
      using silentD [OF step, unfolded wp_def] by (auto simp: next_iteration_def split: outcome.splits) fastforce+
  qed (simp add: s)
  show "wp (wait_forever P core) (\<lambda>_. ?I) (\<lambda>_. ?I) s"
    using inv s by (auto simp: wp_def wait_forever_def split: option.splits outcome.splits)
qed

lemma silent_wait_on_ap_exec [silent_rules]: "code_silent P \<Longrightarrow> silent (wait_on_ap_exec P core timeout)"
  by (simp add: wait_on_ap_exec_def silent_rules)

lemma silent_execute_job [silent_rules]: "code_silent P \<Longrightarrow> silent (execute_job P core timeout)"
  by (simp add: execute_job_def silent_rules)



section \<open>What a computation sends\<close>

text \<open>
  \<open>says K m\<close>: when \<open>m\<close> returns, \<open>K\<close> holds of its result and the frames it has sent; and
  whether it returns or stops, these frames are the start of one answer.
\<close>

definition says :: "('a \<Rightarrow> u8 list list \<Rightarrow> bool) \<Rightarrow> ('w, 'a) prog \<Rightarrow> bool" where
  "says K m \<longleftrightarrow> (\<forall>s. buffers_ok s \<longrightarrow>
     wp m (\<lambda>a t. buffers_ok t \<and> (\<exists>fs. sent t = sent s @ fs \<and> so_far fs \<and> K a fs))
       (\<lambda>_ t. \<exists>fs. sent t = sent s @ fs \<and> so_far fs) s)"

lemma saysD: "says K m \<Longrightarrow> buffers_ok s \<Longrightarrow>
    wp m (\<lambda>a t. buffers_ok t \<and> (\<exists>fs. sent t = sent s @ fs \<and> so_far fs \<and> K a fs))
      (\<lambda>_ t. \<exists>fs. sent t = sent s @ fs \<and> so_far fs) s"
  by (simp add: says_def)

lemma says_mono: "says K m \<Longrightarrow> (\<And>a fs. K a fs \<Longrightarrow> K' a fs) \<Longrightarrow> says K' m"
  unfolding says_def by (blast intro: wp_mono)

text \<open>Once the last frame of an answer has been sent, what follows must be silent.\<close>

lemma says_bind:
  fixes m :: "('w, 'a) prog"
  assumes m: "says K m" and f: "\<And>a fs. K a fs \<Longrightarrow> says (\<lambda>b gs. K' b (fs @ gs)) (f a)"
    and more: "\<And>a fs. K a fs \<Longrightarrow> parts fs \<or> silent (f a)"
  shows "says K' (bind m f)"
  unfolding says_def wp_bind
proof (intro allI impI)
  fix s :: "'w state" assume s: "buffers_ok s"
  let ?Q = "\<lambda>b t. buffers_ok t \<and> (\<exists>fs. sent t = sent s @ fs \<and> so_far fs \<and> K' b fs)"
    and ?R = "\<lambda>_ t. \<exists>fs. sent t = sent s @ fs \<and> so_far fs"
  show "wp m (\<lambda>a. wp (f a) ?Q ?R) ?R s"
  proof (rule wp_mono [OF saysD [OF m s]], goal_cases)
    case (1 a t)
    then obtain fs where t: "buffers_ok t" "sent t = sent s @ fs" "so_far fs" "K a fs" by blast
    note after = saysD [OF f [OF t(4)] t(1)]
    show ?case
    proof (cases "parts fs")
      case True
      show ?thesis
        by (rule wp_mono [OF after]) (use t(2) True in \<open>auto intro: so_far_parts\<close>)
    next
      case False
      then have "silent (f a)" using more [OF t(4)] by blast
      then have "wp (f a) (\<lambda>_ u. sent u = sent t) (\<lambda>_ u. sent u = sent t) t"
        by (intro wp_mono [OF silentD [OF _ t(1)]]) simp_all
      then show ?thesis using after t(2,3) by (auto simp: wp_def split: outcome.splits)
    qed
  qed simp
qed

lemma says_ret: "K v [] \<Longrightarrow> says K (ret v)"
  by (simp add: says_def wp_ret)

lemma says_stop: "says K (stop e)"
  by (simp add: says_def wp_stop)

lemma says_silent:
  assumes "silent m" "\<And>a. K a []"
  shows "says K m"
  unfolding says_def by (intro allI impI, rule wp_mono [OF silentD [OF assms(1)]]) (simp_all add: assms(2))

text \<open>Silent steps whose result matters.\<close>

lemma says_write_payload: "says (\<lambda>_ fs. fs = [] \<and> off + length bs \<le> RESPONSE_PAYLOAD_SIZE) (write_payload off bs)"
  by (simp add: says_def wp_write_payload) (simp add: buffers_ok_def)

lemma says_load_bytes: "says (\<lambda>bs fs. fs = [] \<and> length bs = n) (load_bytes b off n)"
  by (simp add: says_def wp_load_bytes)

lemma says_load_u32: "says (\<lambda>v fs. fs = [] \<and> v = le_word (slice off 4 b)) (load_u32 b off)"
  by (simp add: says_def wp_load_u32)

lemma says_silent_then:
  assumes "silent m" "\<And>a. says K (f a)"
  shows "says K (bind m f)"
  by (rule says_bind [where K = "\<lambda>_ fs. fs = []"]) (use assms in \<open>auto intro: says_silent\<close>)

lemma says_written:
  assumes "off + length bs \<le> RESPONSE_PAYLOAD_SIZE \<Longrightarrow> says K m"
  shows "says K (bind (write_payload off bs) (\<lambda>_. m))"
  by (rule says_bind [OF says_write_payload]) (use assms in auto)

text \<open>One message.\<close>

lemma says_respond:
  assumes net: "network_reliable P" and n: "unat n \<le> RESPONSE_PAYLOAD_SIZE" "sz = n + 12"
    and payload: "\<And>s. buffers_ok s \<Longrightarrow> unat n \<le> length (payload s)"
  shows "says (\<lambda>st fs. st = EFI_SUCCESS \<and> (\<exists>f. fs = [f] \<and> frame_end f = Some l)) (respond P report ty payload n sz l)"
  unfolding says_def
proof (intro allI impI, rule wp_respond [where m = "unat n" and payload = payload, OF net])
  fix s :: "'a state" assume s: "buffers_ok s"
  show "buffers_ok s" "unat n \<le> length (payload s)" "unat n \<le> RESPONSE_PAYLOAD_SIZE" by (fact s, rule payload [OF s], fact n(1))
  show "n = of_nat (unat n)" "sz = of_nat (unat n + 12)" using n(2) by simp_all
  fix t assume "buffers_ok t" "sent t = sent s @ [frame ty (take (unat n) (payload s)) l]"
  moreover have "frame_end (frame ty (take (unat n) (payload s)) l) = Some l" using n(1) by (intro frame_end_frame) simp
  ultimately show "buffers_ok t \<and> (\<exists>fs. sent t = sent s @ fs \<and> so_far fs \<and> EFI_SUCCESS = EFI_SUCCESS \<and>
      (\<exists>f. fs = [f] \<and> frame_end f = Some l))" by (cases l) simp_all
qed

lemma says_respond_payload:
  "network_reliable P \<Longrightarrow> unat n \<le> RESPONSE_PAYLOAD_SIZE \<Longrightarrow> sz = n + 12 \<Longrightarrow>
   says (\<lambda>st fs. st = EFI_SUCCESS \<and> (\<exists>f. fs = [f] \<and> frame_end f = Some l)) (respond P report ty payload_buffer n sz l)"
  by (rule says_respond) (simp_all add: buffers_ok_def)

lemma frame_end_status: "short_string msg \<Longrightarrow> frame_end (status_frame code msg) = Some True"
  unfolding status_frame_def
  by (rule frame_end_frame) (use length_status_payload [of msg code] in simp)


section \<open>Answered requests\<close>

text \<open>
  \<open>answers m\<close>: the frames are an answer, with whatever result \<open>m\<close> returns; \<open>checks m\<close>: a failed check is answered, a
  successful one sends nothing.
\<close>

named_theorems answer_rules "requests that are answered"

definition answers :: "('w, 'a) prog \<Rightarrow> bool" where
  "answers m \<longleftrightarrow> says (\<lambda>_. answer) m"

definition checks :: "('w, efi_status) prog \<Rightarrow> bool" where
  "checks m \<longleftrightarrow> says (\<lambda>st fs. if st = EFI_SUCCESS then fs = [] else answer fs) m"

lemma answers_silent_then [answer_rules]: "silent m \<Longrightarrow> (\<And>a. answers (f a)) \<Longrightarrow> answers (bind m f)"
  unfolding answers_def by (rule says_silent_then)

lemma checks_silent_then [answer_rules]: "silent m \<Longrightarrow> (\<And>a. checks (f a)) \<Longrightarrow> checks (bind m f)"
  unfolding checks_def by (rule says_silent_then)

lemma answers_then_silent: "answers m \<Longrightarrow> (\<And>a. silent (f a)) \<Longrightarrow> answers (bind m f)"
  unfolding answers_def by (erule says_bind) (simp_all add: says_silent)

lemma answers_check [answer_rules]:
  "checks m \<Longrightarrow> (\<And>st. answers (f st)) \<Longrightarrow> answers (bind m (\<lambda>st. if st \<noteq> EFI_SUCCESS then ret st else f st))"
  unfolding answers_def checks_def
  by (erule says_bind) (auto intro: says_ret split: if_splits)

lemma answers_if [answer_rules]:
  "(b \<Longrightarrow> answers m) \<Longrightarrow> (\<not> b \<Longrightarrow> answers n) \<Longrightarrow> answers (if b then m else n)"
  "(b \<Longrightarrow> checks m') \<Longrightarrow> (\<not> b \<Longrightarrow> checks n') \<Longrightarrow> checks (if b then m' else n')"
  by simp_all

lemma checks_ret [answer_rules]: "checks (ret EFI_SUCCESS)"
  by (simp add: checks_def says_ret)

lemma answers_stop [answer_rules]: "answers (stop e)"
  by (simp add: answers_def says_stop)

lemma answers_send_status [answer_rules]:
  assumes "network_reliable P"
  shows "answers (send_status P code None)" "answers (send_status_fmt P code)"
proof -
  show "answers (send_status P code None)"
    unfolding answers_def says_def
    by (intro allI impI, rule wp_send_status [OF assms]) (auto simp: frame_end_status)
  show "answers (send_status_fmt P code)"
    unfolding answers_def says_def send_status_fmt_def wp_bind wp_gets
    by (intro allI impI, rule wp_send_status [OF assms]) (auto simp: frame_end_status)
qed

lemma answers_reject [answer_rules]:
  assumes "network_reliable P"
  shows "answers (reject P fmt args code st)" "st' \<noteq> EFI_SUCCESS \<Longrightarrow> checks (reject P fmt args code st')"
proof -
  show a: "answers (reject P fmt args code st)" for st
    unfolding reject_def
    by (intro answers_silent_then answers_then_silent answers_send_status assms) (simp_all add: silent_rules)
  show "checks (reject P fmt args code st')" if "st' \<noteq> EFI_SUCCESS"
  proof -
    have "says (\<lambda>st fs. st = st' \<and> answer fs) (reject P fmt args code st')"
      unfolding reject_def
      by (intro says_silent_then [OF silent_buffers(3)] says_bind [OF answers_send_status(2) [OF assms, unfolded answers_def]] says_ret) simp_all
    then show ?thesis unfolding checks_def by (rule says_mono) (use that in auto)
  qed
qed

lemma answers_respond [answer_rules]:
  "network_reliable P \<Longrightarrow> unat n \<le> RESPONSE_PAYLOAD_SIZE \<Longrightarrow> sz = n + 12 \<Longrightarrow> answers (respond P report ty payload_buffer n sz True)"
  unfolding answers_def by (rule says_mono [OF says_respond_payload]) auto

lemma answers_written [answer_rules]:
  "(off + length bs \<le> RESPONSE_PAYLOAD_SIZE \<Longrightarrow> answers m) \<Longrightarrow> answers (bind (write_payload off bs) (\<lambda>_. m))"
  unfolding answers_def by (rule says_written)



section \<open>The handlers\<close>

lemma checks_core_id [answer_rules]:
  "network_reliable P \<Longrightarrow> checks (check_core_id P core)" "network_reliable P \<Longrightarrow> checks (check_core_id_dsm P core)"
  by (simp_all add: check_core_id_def check_core_id_dsm_same answer_rules silent_rules)

lemma checks_acquire [answer_rules]: "network_reliable P \<Longrightarrow> checks (acquire_core_lock_for_job P core)"
  by (simp add: acquire_core_lock_for_job_def answer_rules silent_rules)

lemma checks_job_parameters [answer_rules]: "network_reliable P \<Longrightarrow> checks (check_job_parameters P jp)"
  by (simp add: check_job_parameters_def answer_rules silent_rules)

lemma checks_start_core [answer_rules]: "network_reliable P \<Longrightarrow> checks (start_core P core)"
  unfolding start_core_def by (intro answer_rules silent_rules) simp_all

lemma checks_check:
  assumes "checks m" "\<And>st. checks (f st)"
  shows "checks (bind m (\<lambda>st. if st \<noteq> EFI_SUCCESS then ret st else f st))"
  unfolding checks_def
proof (rule says_bind [OF assms(1) [unfolded checks_def]])
  fix st fs assume st: "if st = EFI_SUCCESS then fs = [] else answer fs"
  show "says (\<lambda>st' gs. if st' = EFI_SUCCESS then fs @ gs = [] else answer (fs @ gs)) (if st \<noteq> EFI_SUCCESS then ret st else f st)"
    using st assms(2) [of EFI_SUCCESS] by (cases "st = EFI_SUCCESS") (simp_all add: says_ret checks_def split del: if_split cong: if_cong)
qed (auto split: if_splits)

lemma checks_start_cores [answer_rules]: "network_reliable P \<Longrightarrow> checks (start_cores P is)"
  by (induction "is") (simp_all add: answer_rules checks_check silent_rules del: if_True)

lemma answers_status_then [answer_rules]:
  "network_reliable P \<Longrightarrow> (\<And>a. silent (f a)) \<Longrightarrow> answers (bind (send_status P code None) f)"
  "network_reliable P \<Longrightarrow> (\<And>a. silent (f a)) \<Longrightarrow> answers (bind (send_status_fmt P code) f)"
  by (simp_all add: answers_then_silent answers_send_status)

text \<open>The handlers that answer with one message.\<close>

lemma answers_one [answer_rules]:
  assumes net: "network_reliable P"
  shows "answers (handle_get_msg_size P payload n)" "answers (handle_reboot P payload n)"
    "answers (handle_get_core_count P payload n)" "answers (send_msr_response P k)"
proof -
  show "answers (handle_get_msg_size P payload n)" "answers (handle_get_core_count P payload n)"
    by (simp_all add: handle_get_msg_size_def handle_get_core_count_def answer_rules silent_rules net)
  show "answers (handle_reboot P payload n)"
    by (simp add: handle_reboot_def answer_rules silent_rules net)
  have "answers (respond P (report_print P) MSG_MSRRESPONSE (\<lambda>_. le_bytes 4 eax @ le_bytes 4 edx) 8 (8 + HEADER_SIZE) True)"
    for eax edx :: u32
    unfolding answers_def by (rule says_mono [OF says_respond [OF net]]) auto
  then show "answers (send_msr_response P k)"
    by (simp add: send_msr_response_def answer_rules silent_rules)
qed

lemma answers_with_frame [answer_rules]: "(\<And>k. answers (body k)) \<Longrightarrow> answers (with_frame ws body)"
  unfolding with_frame_def by (intro answers_silent_then answers_then_silent silent_rules)

lemma answers_msr [answer_rules]:
  assumes "network_reliable P" "code_silent P"
  shows "answers (handle_read_msr P payload n)" "answers (handle_read_msr_on_core P payload n)"
proof -
  show "answers (handle_read_msr P payload n)" for payload n
    by (simp add: handle_read_msr_def answer_rules silent_rules assms)
  then show "answers (handle_read_msr_on_core P payload n)"
    by (simp add: handle_read_msr_on_core_def answer_rules silent_rules assms)
qed


lemma answers_uploads [answer_rules]:
  assumes "network_reliable P"
  shows "answers (handle_send_ucode P payload n)" "answers (handle_send_machine_code P payload n)"
  by (simp_all add: handle_send_ucode_def handle_send_machine_code_def answer_rules silent_rules assms)

lemma answers_ucode [answer_rules]:
  assumes "network_reliable P"
  shows "answers (handle_flip_bits P payload n)" "answers (handle_apply_ucode P payload n)"
  by (simp_all add: handle_flip_bits_def handle_apply_ucode_def flip_bit_def apply_ucode_simple_def apply_ucode_restore_def
      iterate_ucode_def Let_def split_def answer_rules silent_rules assms)

lemma answers_start_core [answer_rules]:
  assumes "network_reliable P"
  shows "answers (handle_start_core P payload n)"
  unfolding handle_start_core_def by (intro answer_rules silent_rules assms)

text \<open>Reports of cores: one message, marked as the caller says.\<close>

lemma says_send_core_status:
  assumes "network_reliable P"
  shows "says (\<lambda>st fs. st = EFI_SUCCESS \<and> (\<exists>f. fs = [f] \<and> frame_end f = Some l)) (send_core_status P core l)"
proof -
  let ?K = "\<lambda>st fs. st = EFI_SUCCESS \<and> (\<exists>f. fs = [f] \<and> frame_end f = Some l)"
  have size: "says (\<lambda>n fs. fs = [] \<and> unat n \<le> 248) (case dump of None \<Rightarrow> ret (4 * 8)
     | Some info \<Rightarrow>
         bind (write_payload 24 (le_bytes 8 (of_nat CoreFaultInfo_size :: u64))) (\<lambda>_.
         bind (write_payload 32 (fault_info_bytes info)) (\<lambda>_. ret (4 * 8 + of_nat CoreFaultInfo_size :: u64))))" for dump
    by (cases dump) (auto intro!: says_ret says_silent_then simp: silent_rules)
  have "says ?K (bind (case dump of None \<Rightarrow> ret (4 * 8)
     | Some info \<Rightarrow>
         bind (write_payload 24 (le_bytes 8 (of_nat CoreFaultInfo_size :: u64))) (\<lambda>_.
         bind (write_payload 32 (fault_info_bytes info)) (\<lambda>_. ret (4 * 8 + of_nat CoreFaultInfo_size)))) (\<lambda>n.
     respond P (report_print P) MSG_CORESTATUSRESPONSE payload_buffer n (n + HEADER_SIZE) l))" for dump
    by (rule says_bind [OF size]) (auto intro!: says_mono [OF says_respond_payload [OF assms]])
  then show ?thesis
    unfolding send_core_status_def Let_def
    by (intro says_silent_then [OF silent_basic(6)] says_silent_then [OF silent_buffers(1)]
        says_silent_then [OF silent_registers(1)])
qed

lemma says_send_result_message:
  assumes "network_reliable P"
  shows "says (\<lambda>st fs. st = EFI_SUCCESS \<and> (\<exists>f. fs = [f] \<and> frame_end f = Some l)) (send_result_message P core flags l)"
proof -
  let ?K = "\<lambda>st fs. st = EFI_SUCCESS \<and> (\<exists>f. fs = [f] \<and> frame_end f = Some l)"
  have size: "says (\<lambda>_ fs. fs = [] \<and> unat (4 * 8 + n) \<le> RESPONSE_PAYLOAD_SIZE) (if n = 0 then ret () else
       bind (from_option NullDeref b) (\<lambda>b. bind (load_bytes b 0 (unat n)) (write_payload 32)))" for b and n :: u64
  proof (cases "n = 0")
    case False
    have "says (\<lambda>_ fs. fs = [] \<and> unat (4 * 8 + n) \<le> RESPONSE_PAYLOAD_SIZE) (write_payload 32 bs)"
      if "length bs = unat n" for bs
      by (rule says_mono [OF says_write_payload]) (use that in \<open>simp add: unat_word_ariths\<close>)
    then show ?thesis
      using False by (simp add: says_silent_then silent_rules)
        (intro says_silent_then [OF silent_basic(5)], rule says_bind [OF says_load_bytes], simp_all)
  qed (simp add: says_ret)
  have "says ?K (bind (if n = 0 then ret () else
       bind (from_option NullDeref b) (\<lambda>b. bind (load_bytes b 0 (unat n)) (write_payload 32))) (\<lambda>_.
     respond P (report_print P) MSG_UCODEEXECUTETESTRESPONSE payload_buffer (4 * 8 + n) (4 * 8 + n + HEADER_SIZE) l))"
    for b and n :: u64
    by (rule says_bind [OF size]) (auto intro!: says_mono [OF says_respond_payload [OF assms]])
  then show ?thesis
    unfolding send_result_message_def
    by (intro says_silent_then [OF silent_basic(6)] says_silent_then [OF silent_buffers(1)])
qed


lemma answers_core_reports [answer_rules]:
  assumes "network_reliable P"
  shows "answers (send_core_status P core True)" "answers (send_result_message P core flags True)"
    "answers (handle_get_core_status P payload n)" "answers (handle_get_last_test_result P payload n)"
proof -
  show a: "answers (send_core_status P core True)" "answers (send_result_message P core flags True)" for core flags
    unfolding answers_def
    by (rule says_mono [OF says_send_core_status [OF assms]], auto)
      (rule says_mono [OF says_send_result_message [OF assms]], auto)
  show "answers (handle_get_core_status P payload n)"
    by (simp add: handle_get_core_status_def a answer_rules silent_rules assms)
  have result: "says (\<lambda>_ gs. answer ([f] @ gs)) (bind (send_result_message P core 0 True)
      (\<lambda>status. if EFI_ERROR status then ret status else ret EFI_SUCCESS))" if "frame_end f = Some False" for f core
    by (rule says_bind [OF says_send_result_message [OF assms]])
      (use that in \<open>auto intro!: says_ret answer_Cons\<close>)
  have "answers (bind (send_core_status P core False) (\<lambda>status. if EFI_ERROR status then ret status else
      bind (send_result_message P core 0 True)
        (\<lambda>status. if EFI_ERROR status then ret status else ret EFI_SUCCESS)))" for core
    unfolding answers_def
    by (rule says_bind [OF says_send_core_status [OF assms]]) (use result in auto)
  then show "answers (handle_get_last_test_result P payload n)"
    by (simp add: handle_get_last_test_result_def answer_rules silent_rules assms)
qed

lemma answers_jobs [answer_rules]:
  assumes "network_reliable P" "code_silent P"
  shows "answers (handle_execute_machine_code P payload n)" "answers (handle_apply_ucode_execute_test P payload n)"
proof -
  have "answers (bind (send_result_message P core flags True) (\<lambda>st. if EFI_ERROR st then ret st else ret EFI_SUCCESS))" for core flags
    by (rule answers_then_silent) (simp_all add: answer_rules silent_rules assms)
  then show "answers (handle_execute_machine_code P payload n)" "answers (handle_apply_ucode_execute_test P payload n)"
    by (simp_all add: handle_execute_machine_code_def handle_apply_ucode_execute_test_def job_parameters_from_payload_def
        write_job_infos_def Let_def answer_rules silent_rules assms)
qed


lemma says_after_parts: "parts fs \<Longrightarrow> answers m \<Longrightarrow> says (\<lambda>_ gs. answer (fs @ gs)) m"
  unfolding answers_def by (erule says_mono) (simp add: answer_parts)

text \<open>Page tables: a position in the payload stays within it, so every message fits.\<close>

lemma says_pageinfo:
  assumes "network_reliable P" "24 + 16 * k \<le> RESPONSE_PAYLOAD_SIZE"
  shows "says (\<lambda>st fs. st = EFI_SUCCESS \<and> (\<exists>f. fs = [f] \<and> frame_end f = Some l)) (send_pageinfo_message P (of_nat k) l)"
proof -
  have "unat (of_nat k * 16 + 24 :: u64) \<le> RESPONSE_PAYLOAD_SIZE"
    using assms(2) by (simp add: unat_word_ariths unat_of_nat)
  then show ?thesis
    unfolding send_pageinfo_message_def Let_def
    by (intro says_silent_then [OF silent_buffers(1)] says_respond_payload [OF assms(1)]) simp_all
qed

lemma answers_pageinfo_end:
  assumes "network_reliable P" "24 + 16 * k \<le> RESPONSE_PAYLOAD_SIZE"
  shows "answers (bind (send_pageinfo_message P (of_nat k) True) (\<lambda>status.
     if status \<noteq> EFI_SUCCESS then pageinfo_failed P status else ret EFI_SUCCESS))"
  unfolding answers_def by (rule says_bind [OF says_pageinfo [OF assms]]) (auto intro: says_ret)

lemma answers_send_rest:
  "network_reliable P \<Longrightarrow> pos \<le> RESPONSE_PAYLOAD_SIZE \<Longrightarrow> answers (send_rest P pos)"
  unfolding send_rest_def by (rule answers_pageinfo_end) simp_all

lemma says_write_entry:
  "says (\<lambda>_ fs. fs = [] \<and> off + 16 \<le> RESPONSE_PAYLOAD_SIZE) (write_entry off e pos level)"
  unfolding write_entry_def
  by (intro says_silent_then [OF silent_buffers(1)], rule says_mono [OF says_write_payload]) simp

lemma says_send_entries:
  assumes net: "network_reliable P"
  shows "pos \<le> RESPONSE_PAYLOAD_SIZE \<Longrightarrow>
    says (\<lambda>(st, pos) fs. st = EFI_SUCCESS \<and> pos \<le> RESPONSE_PAYLOAD_SIZE \<and> parts fs) (send_entries P base level n i pos)"
proof (induction n arbitrary: i pos)
  case 0
  then show ?case by (simp add: says_ret)
next
  case (Suc n)
  let ?K = "\<lambda>(st, pos) fs. st = EFI_SUCCESS \<and> pos \<le> RESPONSE_PAYLOAD_SIZE \<and> parts fs"
  have flush: "says ?K (if i mod MAX_ENTRIES_PER_PACKET = 0 \<and> i \<noteq> 0 then
      bind (send_pageinfo_message P (of_nat MAX_ENTRIES_PER_PACKET) False) (\<lambda>status.
        if status \<noteq> EFI_SUCCESS then bind (pageinfo_failed P status) (\<lambda>_. ret (status, 24)) else ret (EFI_SUCCESS, 24))
      else ret (EFI_SUCCESS, pos))"
  proof (cases "i mod MAX_ENTRIES_PER_PACKET = 0 \<and> i \<noteq> 0")
    case True
    then show ?thesis
      by (simp only: if_True simp_thms) (rule says_bind [OF says_pageinfo [OF net]], auto intro: says_ret)
  next
    case False
    then show ?thesis using Suc.prems by (simp only: if_False) (simp add: says_ret)
  qed
  have entry: "says ?K (bind (load_entry base i) (\<lambda>e. bind (write_entry pos e (of_nat i) level) (\<lambda>_.
      send_entries P base level n (Suc i) (pos + 16))))" for pos
    by (rule says_silent_then [OF silent_tables(3)], rule says_bind [OF says_write_entry]) (use Suc.IH in auto)
  show ?case
    unfolding send_entries.simps
  proof (rule says_bind [OF flush])
    fix r fs assume r: "?K r fs"
    then obtain pos' where "r = (EFI_SUCCESS, pos')" "parts fs" by auto
    then show "says (\<lambda>b gs. ?K b (fs @ gs)) (case r of (status, pos) \<Rightarrow> if status \<noteq> EFI_SUCCESS then ret (status, pos) else
        bind (load_entry base i) (\<lambda>e. bind (write_entry pos e (of_nat i) level) (\<lambda>_.
        send_entries P base level n (Suc i) (pos + 16))))"
      by simp (rule says_mono [OF entry], auto)
  qed auto
qed

lemma answers_paging [answer_rules]:
  assumes net: "network_reliable P"
  shows "answers (send_table P base n level flags cr3)" "answers (send_entry P table i position level flags cr3)"
    "answers (handle_get_paging_info P payload len)"
proof -
  have "answers (bind (send_entries P base level n 0 24) (\<lambda>(status, pos).
     if status \<noteq> EFI_SUCCESS then ret status else send_rest P pos))" for base level n
    unfolding answers_def
    by (rule says_bind [OF says_send_entries [OF net]])
      (auto, rule says_after_parts, assumption, rule answers_send_rest [OF net])
  then show table: "answers (send_table P base n level flags cr3)" for base n level flags cr3
    by (simp add: send_table_def answer_rules silent_rules)
  have "answers (bind (send_pageinfo_message P 1 True) (\<lambda>status.
     if status \<noteq> EFI_SUCCESS then pageinfo_failed P status else ret EFI_SUCCESS))"
    using answers_pageinfo_end [OF net, of 1] by simp
  then show entry: "answers (send_entry P table i position level flags cr3)" for table i position level flags cr3
    by (simp add: send_entry_def answer_rules silent_rules)
  show "answers (handle_get_paging_info P payload len)"
    by (simp add: handle_get_paging_info_def answer_paging_request_def Let_def table entry answer_rules silent_rules net)
qed

text \<open>Recorded events: a round copies as many as it was asked for, at most, so its message fits.\<close>

lemma copied_count:
  fixes start count n :: u64
  assumes "unat start + unat count < 2 ^ 64" "\<not> n \<le> start"
  shows "min (start + count) n - start \<le> count"
proof -
  have "unat (start + count) = unat start + unat count" using assms(1) by (simp add: unat_word_ariths)
  then have "start \<le> min (start + count) n" "unat (min (start + count) n) \<le> unat start + unat count"
    using assms(2) by (auto simp: min_def word_le_nat_alt)
  then show ?thesis by (simp add: word_le_nat_alt unat_sub)
qed

lemma says_copy_loop:
  fixes start count p :: u64
  assumes "unat start + unat count < 2 ^ 64" "\<And>i. silent (body i)"
  shows "says (\<lambda>n fs. fs = [] \<and> n \<le> count) (if p \<le> start then ret 0 else
    bind (for_each is body) (\<lambda>_. ret (min (start + count) p - start)))"
proof (cases "p \<le> start")
  case False
  then show ?thesis
    using copied_count [OF assms(1)] assms(2)
    by (simp only: if_False) (rule says_silent_then, simp add: silent_rules, rule says_ret, simp)
qed (simp add: says_ret)

lemma says_copy:
  assumes "\<And>off bs. silent (target off bs)" "unat start + unat count < 2 ^ 64"
  shows "says (\<lambda>n fs. fs = [] \<and> n \<le> count) (copy_ibs_entries target core start count)"
    "says (\<lambda>n fs. fs = [] \<and> n \<le> count) (copy_dsm_entries target core start count)"
  unfolding copy_ibs_entries_def copy_dsm_entries_def get_ibs_control_def get_dsm_control_def Let_def
  by (rule says_silent_then, simp add: silent_rules,
      rule says_copy_loop [OF assms(2)], simp add: silent_rules assms(1))+

lemma says_stream_round:
  assumes net: "network_reliable P" and hdr: "hdr + 1024 \<le> RESPONSE_PAYLOAD_SIZE"
    and n: "n \<le> 64" "n \<le> k"
    and rest: "says (\<lambda>_ fs. if k - n = 0 then fs = [] else answer fs) (stream_loop P ty hdr coff copy core fuel (start + n) (k - n))"
  shows "says (\<lambda>_ fs. answer fs) (bind (write_payload coff (le_bytes 8 n)) (\<lambda>_.
    bind (respond P report_debug ty payload_buffer (of_nat hdr + n * 16) (of_nat hdr + n * 16 + HEADER_SIZE) (k - n = 0)) (\<lambda>status.
    if EFI_ERROR status then ret status else stream_loop P ty hdr coff copy core fuel (start + n) (k - n))))"
proof -
  have "unat n \<le> 64" using n(1) by (simp add: word_le_nat_alt)
  then have "unat (of_nat hdr + n * 16 :: u64) \<le> RESPONSE_PAYLOAD_SIZE"
    using hdr by (simp add: unat_word_ariths unat_of_nat)
  note message = says_respond_payload [OF net this refl]
  have silent: "silent (stream_loop P ty hdr coff copy core fuel (start + n) 0)" by (cases fuel) simp_all
  show ?thesis
  proof (rule says_written, rule says_bind [OF message])
    fix st fs assume st: "st = EFI_SUCCESS \<and> (\<exists>f. fs = [f] \<and> frame_end f = Some (k - n = 0))"
    have "says (\<lambda>_ gs. answer (fs @ gs)) (stream_loop P ty hdr coff copy core fuel (start + n) (k - n))"
      by (rule says_mono [OF rest]) (use st in \<open>auto intro: answer_Cons split: if_splits\<close>)
    then show "says (\<lambda>_ gs. answer (fs @ gs))
        (if EFI_ERROR st then ret st else stream_loop P ty hdr coff copy core fuel (start + n) (k - n))"
      using st by simp
    show "parts fs \<or> silent (if EFI_ERROR st then ret st else stream_loop P ty hdr coff copy core fuel (start + n) (k - n))"
      using st silent by (cases "k - n = 0") auto
  qed
qed

lemma says_stream_loop:
  assumes net: "network_reliable P" and hdr: "hdr + 1024 \<le> RESPONSE_PAYLOAD_SIZE"
    and copy: "\<And>target start count. (\<And>off bs. silent (target off bs)) \<Longrightarrow> unat start + unat count < 2 ^ 64 \<Longrightarrow>
      says (\<lambda>n fs. fs = [] \<and> n \<le> count) (copy target core start count)"
  shows "unat start + unat k < 2 ^ 64 \<Longrightarrow>
    says (\<lambda>_ fs. if k = 0 then fs = [] else answer fs) (stream_loop P ty hdr coff copy core fuel start k)"
proof (induction fuel arbitrary: start k)
  case 0
  then show ?case by (simp add: says_stop)
next
  case (Suc fuel)
  show ?case
  proof (cases "k = 0")
    case False
    let ?m = "min MAX_EVENTS_PER_PACKET k"
    have m: "?m \<le> 64" "?m \<le> k" "unat ?m \<le> unat k" by (auto simp: min_def word_le_nat_alt)
    have round: "says (\<lambda>_ fs. answer fs) (bind (write_payload coff (le_bytes 8 n)) (\<lambda>_.
        bind (respond P report_debug ty payload_buffer (of_nat hdr + n * 16) (of_nat hdr + n * 16 + HEADER_SIZE) (k - n = 0)) (\<lambda>status.
        if EFI_ERROR status then ret status else stream_loop P ty hdr coff copy core fuel (start + n) (k - n))))"
      if n: "n \<le> ?m" for n
    proof -
      have nk: "n \<le> k" "unat n \<le> unat k" using n m(2) by (simp_all add: word_le_nat_alt)
      then have "unat (start + n) + unat (k - n) < 2 ^ 64"
        using Suc.prems by (simp add: unat_sub [OF nk(1)] unat_word_ariths)
      then show ?thesis by (intro says_stream_round [OF net hdr order_trans [OF n m(1)] nk(1)] Suc.IH)
    qed
    have "unat start + unat ?m < 2 ^ 64" using Suc.prems m(3) by linarith
    then have "says (\<lambda>n fs. fs = [] \<and> n \<le> ?m) (copy (\<lambda>off bs. write_payload (hdr + off) bs) core start ?m)"
      by (intro copy) (simp_all add: silent_rules)
    then have "says (\<lambda>_ fs. answer fs) (stream_loop P ty hdr coff copy core (Suc fuel) start k)"
      unfolding stream_loop.simps Let_def if_not_P [OF False]
      by (rule says_bind) (use round in auto)
    then show ?thesis using False by simp
  qed (simp add: says_ret)
qed


lemma answers_stream_loop:
  assumes "network_reliable P" "hdr + 1024 \<le> RESPONSE_PAYLOAD_SIZE" "unat start + unat k < 2 ^ 64" "k \<noteq> 0"
  shows "answers (stream_loop P ty hdr coff copy_ibs_entries core fuel start k)"
    "answers (stream_loop P ty hdr coff copy_dsm_entries core fuel start k)"
  unfolding answers_def
  using says_stream_loop [OF assms(1,2) says_copy(1) assms(3)] says_stream_loop [OF assms(1,2) says_copy(2) assms(3)] assms(4)
  by (simp_all only: if_False)

lemma selection_fits:
  fixes p start want :: u64
  assumes "\<not> p \<le> start"
  shows "unat start + unat (min want (p - start)) < 2 ^ 64"
proof -
  have "unat (min want (p - start)) \<le> unat p - unat start"
    using assms by (auto simp: min_def word_le_nat_alt unat_sub)
  moreover have "unat start < unat p" using assms by (simp add: word_le_nat_alt)
  ultimately have "unat start + unat (min want (p - start)) < 18446744073709551616" using u64_bound [of p] by linarith
  then show ?thesis by simp
qed

lemma silent_counts [silent_rules]:
  "silent (get_current_ibs_event_count core)" "silent (get_max_ibs_event_count core)"
  by (simp_all add: get_current_ibs_event_count_def get_max_ibs_event_count_def get_ibs_control_def silent_rules)

lemma answers_option [answer_rules]:
  "(x = None \<Longrightarrow> answers m) \<Longrightarrow> (\<And>a. x = Some a \<Longrightarrow> answers (f a)) \<Longrightarrow>
   answers (case x of None \<Rightarrow> m | Some a \<Rightarrow> f a)"
  by (cases x) simp_all

lemma answers_events [answer_rules]:
  assumes net: "network_reliable P"
  shows "answers (handle_get_ibs_buffer P payload n)" "answers (handle_get_dsm_buffer P payload n)"
proof -
  note load = answers_silent_then [OF silent_basic(11)] and ctx = answers_silent_then [OF silent_basic(6)]
  show "answers (handle_get_ibs_buffer P payload n)"
    unfolding handle_get_ibs_buffer_def Let_def
    by (intro answers_if(1) answers_reject(1) load ctx answers_check answers_written checks_core_id answers_respond
        answers_silent_then [OF silent_counts(1)] answers_silent_then [OF silent_counts(2)]
        answers_stream_loop selection_fits net) simp_all
  show "answers (handle_get_dsm_buffer P payload n)"
    unfolding handle_get_dsm_buffer_def Let_def
    by (intro answers_if(1) answers_reject(1) load ctx answers_check answers_written checks_core_id answers_respond
        answers_option answers_stream_loop net) simp_all
qed


section \<open>Pings\<close>

text \<open>The data of a ping that is answered fits, and so do its answers.\<close>

lemma ping_fits:
  fixes d :: u32
  assumes "4 + unat d \<le> RESPONSE_PAYLOAD_SIZE"
  shows "unat (ucast (d + 4) :: u64) \<le> RESPONSE_PAYLOAD_SIZE" "(ucast (d + 4 + 12) :: u64) = ucast (d + 4) + 12"
  using ping_sizes [of "unat d"] assms by (simp_all add: unat_word_ariths)

lemma says_pong:
  fixes d :: u32
  assumes "network_reliable P" "4 + unat d \<le> RESPONSE_PAYLOAD_SIZE"
  shows "says (\<lambda>st fs. st = EFI_SUCCESS \<and> (\<exists>f. fs = [f] \<and> frame_end f = Some l))
    (respond P report_debug MSG_PONG payload_buffer (ucast (d + 4)) (ucast (d + 4 + 12)) l)"
  by (rule says_respond_payload [OF assms(1) ping_fits [OF assms(2)]])

lemma says_ping_loop:
  assumes "network_reliable P" "4 + unat d \<le> RESPONSE_PAYLOAD_SIZE"
  shows "says (\<lambda>st fs. st = EFI_SUCCESS \<and> parts fs) (multi_ping_loop P d i c)"
  using assms
proof (induction P d i c rule: multi_ping_loop.induct)
  case (1 P d i c)
  let ?K = "\<lambda>st fs. st = EFI_SUCCESS \<and> parts fs"
  have rest: "says ?K (multi_ping_loop P d (Suc i) c)" if "i < c" "i \<noteq> 2147483647"
    by (rule 1(1) [where x = EFI_SUCCESS]) (use that 1(2,3) in simp_all)
  have "says ?K (bind (respond P report_debug MSG_PONG payload_buffer (ucast (d + 4)) (ucast (d + 4 + 12)) False) (\<lambda>Status.
      if EFI_ERROR Status then ret Status else if i = 2147483647 then stop SignedOverflow else
      multi_ping_loop P d (Suc i) c))" if "i < c"
    by (rule says_bind [OF says_pong [OF 1(2,3)]]) (use rest that in \<open>auto intro: says_stop\<close>)
  then show ?case by (subst multi_ping_loop.simps) (simp add: says_ret)
qed

text \<open>A ping whose size does not fit the length of the message is not answered at all.\<close>

definition malformed_ping :: "u32 \<Rightarrow> u8 list \<Rightarrow> u64 \<Rightarrow> bool" where
  "malformed_ping ty payload n \<longleftrightarrow>
     ty = MSG_PING \<and> (n < 4 \<or> ucast (le_word (slice 0 4 payload) :: u32) \<noteq> n - 4) \<or>
     ty = MSG_MULTIPING \<and> (n < 8 \<or> ucast (le_word (slice 4 4 payload) :: u32) \<noteq> n - 8)"

lemma says_ping:
  assumes net: "network_reliable P"
  shows "says (\<lambda>_ fs. if malformed_ping MSG_PING payload n then fs = [] else answer fs) (handle_ping P payload n)"
    (is "says ?K _")
proof (cases "n < 4")
  case False
  have well: "answers (bind (write_payload 0 (le_bytes 4 d)) (\<lambda>_. bind (load_bytes payload 4 (unat d)) (\<lambda>bs.
      bind (write_payload 4 bs) (\<lambda>_.
      respond P report_debug MSG_PONG payload_buffer (ucast (d + 4)) (ucast (d + 4 + 12)) True))))" for d :: u32
    unfolding answers_def
    by (rule says_silent_then [OF silent_buffers(1)], rule says_bind [OF says_load_bytes], clarify,
        simp only: append_Nil, rule says_written, rule says_mono [OF says_pong [OF net]]) auto
  have "says ?K (bind (load_u32 payload 0) (\<lambda>ping_size. if ucast ping_size \<noteq> n - 4 then ret EFI_INVALID_PARAMETER else
      bind (write_payload 0 (le_bytes 4 ping_size)) (\<lambda>_. bind (load_bytes payload 4 (unat ping_size)) (\<lambda>bs.
      bind (write_payload 4 bs) (\<lambda>_. respond P report_debug MSG_PONG payload_buffer
        (ucast (ping_size + 4)) (ucast (ping_size + 4 + 12)) True)))))"
    by (rule says_bind [OF says_load_u32])
      (use False well in \<open>auto simp: malformed_ping_def answers_def intro: says_ret\<close>)
  then show ?thesis using False by (simp add: handle_ping_def)
qed (simp add: handle_ping_def malformed_ping_def says_ret)

lemma says_multi_ping:
  assumes net: "network_reliable P"
  shows "says (\<lambda>_ fs. if malformed_ping MSG_MULTIPING payload n then fs = [] else answer fs) (handle_multi_ping P payload n)"
    (is "says ?K _")
proof (cases "n < 8")
  case False
  have last: "says (\<lambda>_ gs. answer (fs @ gs)) (respond P report_debug MSG_PONG payload_buffer (ucast (d + 4)) (ucast (d + 4 + 12)) True)"
    if "parts fs" "4 + unat d \<le> RESPONSE_PAYLOAD_SIZE" for fs and d :: u32
    by (rule says_mono [OF says_pong [OF net that(2)]]) (use that(1) in \<open>auto intro: answer_parts\<close>)
  have well: "answers (bind (write_payload 0 (le_bytes 4 d)) (\<lambda>_. bind (load_bytes payload 8 (unat d)) (\<lambda>bs.
      bind (write_payload 4 bs) (\<lambda>_.
      bind (multi_ping_loop P d 1 c) (\<lambda>Status. if EFI_ERROR Status then ret Status else
      respond P report_debug MSG_PONG payload_buffer (ucast (d + 4)) (ucast (d + 4 + 12)) True)))))" for d :: u32 and c
    unfolding answers_def
    by (rule says_silent_then [OF silent_buffers(1)], rule says_bind [OF says_load_bytes], simp, rule says_written,
        rule says_bind [OF says_ping_loop [OF net]]) (use last in auto)
  have "says ?K (bind (load_u32 payload 4) (\<lambda>ping_size. if ucast ping_size \<noteq> n - 8 then ret EFI_INVALID_PARAMETER else
      bind (write_payload 0 (le_bytes 4 ping_size)) (\<lambda>_. bind (load_bytes payload 8 (unat ping_size)) (\<lambda>bs.
      bind (write_payload 4 bs) (\<lambda>_.
      bind (multi_ping_loop P ping_size 1 c) (\<lambda>Status. if EFI_ERROR Status then ret Status else
      respond P report_debug MSG_PONG payload_buffer
        (ucast (ping_size + 4)) (ucast (ping_size + 4 + 12)) True))))))" for c
    by (rule says_bind [OF says_load_u32])
      (use False well in \<open>auto simp: malformed_ping_def answers_def intro: says_ret\<close>)
  then show ?thesis
    using False by (simp only: handle_multi_ping_def if_False) (rule says_silent_then [OF silent_basic(10)])
qed (simp add: handle_multi_ping_def malformed_ping_def says_ret)


section \<open>Messages and connections\<close>

lemma answers_unknown:
  "network_reliable P \<Longrightarrow> answers (bind (FormatPrint P fmt args) (\<lambda>_. send_status_fmt P code))"
  by (simp add: answer_rules silent_rules)

lemma says_dispatch:
  assumes net: "network_reliable P" and code: "code_silent P"
  shows "says (\<lambda>_ fs. if malformed_ping ty payload n then fs = [] else answer fs) (dispatch P ty payload n)"
proof (cases "ty = MSG_PING \<or> ty = MSG_MULTIPING")
  case True
  then show ?thesis
    using says_ping [OF net] says_multi_ping [OF net] by (auto simp: dispatch_def)
next
  case False
  then have "answers (dispatch P ty payload n)"
    unfolding dispatch_def
    by (simp only: de_Morgan_disj if_False)
      (intro answers_if(1) answers_one answers_uploads answers_ucode answers_jobs answers_core_reports answers_msr
        answers_start_core answers_paging answers_events answers_unknown net code)
  moreover have "\<not> malformed_ping ty payload n" using False by (simp add: malformed_ping_def)
  ultimately show ?thesis by (simp add: answers_def)
qed


lemma says_if: "(b \<Longrightarrow> says K m) \<Longrightarrow> (\<not> b \<Longrightarrow> says K n) \<Longrightarrow> says K (if b then m else n)"
  by simp

text \<open>A message that is handled is answered; one that is refused is not.\<close>

definition answered :: "u8 list \<Rightarrow> u64 \<Rightarrow> efi_status \<Rightarrow> u8 list list \<Rightarrow> bool" where
  "answered message n st fs \<longleftrightarrow>
     (if st \<noteq> EFI_SUCCESS \<or> malformed_ping (le_word (slice 4 4 message)) (drop 8 message) (n - 8) then fs = [] else answer fs)"

lemma says_handle_message:
  assumes net: "network_reliable P" and code: "code_silent P"
  shows "says (answered message n) (handle_message P message n)"
proof -
  have "says (answered message n) (bind (load_u32 message 4) (\<lambda>ty.
      bind (dispatch P ty (drop 8 message) (n - 8)) (\<lambda>_. ret EFI_SUCCESS)))"
    by (rule says_bind [OF says_load_u32], clarify, rule says_bind [OF says_dispatch [OF net code]], rule says_ret)
      (auto simp: answered_def split: if_splits)
  then show ?thesis
    unfolding handle_message_def Let_def
    by (intro says_if says_silent_then [OF silent_basic(9)] says_ret) (simp_all add: answered_def)
qed

lemma silent_wait_token [silent_rules]: "silent (wait_token poll)"
  by (auto simp: silent_def wait_token_def wp_def buffers_ok_def split: option.splits)

lemma silent_receive_chunk [silent_rules]: "silent (receive_chunk P off n)"
proof -
  have "silent (modify (\<lambda>s. s\<lparr>receive_buffer := h s\<rparr>))" for h :: "'a state \<Rightarrow> u8 list"
    by (rule silent_modify) (simp add: buffers_ok_def)
  then show ?thesis
    by (simp add: receive_chunk_def CreateEvent_def CloseEvent_def write_receive_def silent_rules)
qed

lemma silent_receive_body [silent_rules]: "silent (receive_body P n)"
  unfolding silent_def receive_body_def
proof (intro allI impI)
  fix s :: "'a state" assume s: "buffers_ok s"
  let ?I = "\<lambda>t. sent t = sent s \<and> buffers_ok t"
  have step: "silent (receive_body_step P n a)" for a
    by (simp add: receive_body_step_def silent_rules)
  show "wp (loop (receive_body_step P n) 0) (\<lambda>_. ?I) (\<lambda>_. ?I) s"
  proof (rule wp_loop [where I = "\<lambda>_. ?I"])
    fix a and t :: "'a state" assume "?I t"
    then show "wp (receive_body_step P n a) (\<lambda>r u. case r of Inl a' \<Rightarrow> ?I u | Inr b \<Rightarrow> ?I u) (\<lambda>_. ?I) t"
      using silentD [OF step, of t] by (auto elim!: wp_mono split: sum.splits)
  qed (use s in simp_all)
qed

lemma says_receive_message:
  assumes net: "network_reliable P" and code: "code_silent P"
  shows "says (\<lambda>_ fs. fs = [] \<or> answer fs) (receive_message P)"
proof -
  have handled: "says (\<lambda>_ fs. fs = [] \<or> answer fs) (bind (handle_message P b n) (\<lambda>Status.
      if EFI_ERROR Status then ret (Inr Status) else ret (Inl ())))" for b n
    by (rule says_bind [OF says_handle_message [OF net code]]) (auto simp: answered_def intro!: says_ret split: if_splits)
  then show ?thesis
    unfolding receive_message_def Let_def split_def
    by (intro says_if says_ret says_silent_then [OF silent_receive_chunk] says_silent_then [OF silent_receive_body]
        says_silent_then [OF silent_basic(3)] says_silent_then [OF silent_basic(10)] handled) simp_all
qed

lemma wp_receive_messages_answers:
  fixes s :: "'w state"
  assumes net: "network_reliable P" and code: "code_silent P" and ok: "buffers_ok s"
  defines "J \<equiv> \<lambda>t. \<exists>as. sent t = sent s @ concat as \<and> list_all answer as"
    and "R \<equiv> \<lambda>t :: 'w state. \<exists>as fs. sent t = sent s @ concat as @ fs \<and> list_all answer as \<and> parts fs"
  shows "wp (receive_messages P) (\<lambda>_ t. buffers_ok t \<and> J t) (\<lambda>_. R) s"
proof -
  have "wp (loop (\<lambda>_. receive_message P) ()) (\<lambda>_ t. buffers_ok t \<and> J t) (\<lambda>_. R) s"
  proof (rule wp_loop [where I = "\<lambda>_ t. buffers_ok t \<and> J t"])
    show "buffers_ok s \<and> J s" using ok by (auto simp: J_def intro: exI [of _ "[]"])
    show "R s" unfolding R_def by (rule exI [of _ "[]"], rule exI [of _ "[]"]) simp
    fix a and t :: "'w state" assume t: "buffers_ok t \<and> J t"
    then obtain as where as: "sent t = sent s @ concat as" "list_all answer as" unfolding J_def by blast
    have more: "J u" if "sent u = sent t @ fs" "fs = [] \<or> answer fs" for u fs
      unfolding J_def by (rule exI [of _ "if fs = [] then as else as @ [fs]"]) (use that as in auto)
    have "R u" if u: "sent u = sent t @ fs" "so_far fs" for u fs
      unfolding R_def
      by (rule exI [of _ "if parts fs then as else as @ [fs]"], rule exI [of _ "if parts fs then fs else []"])
        (use u as in \<open>auto simp: so_far_def\<close>)
    with more show "wp (receive_message P) (\<lambda>r u. case r of Inl a' \<Rightarrow> buffers_ok u \<and> J u | Inr b \<Rightarrow> buffers_ok u \<and> J u) (\<lambda>_. R) t"
      by (intro wp_mono [OF saysD [OF says_receive_message [OF net code] conjunct1 [OF t]]]) (auto split: sum.splits)
  qed
  then show ?thesis unfolding receive_messages_def .
qed

text \<open>
  C4. Every message that the program handles is answered by a sequence of frames of which exactly the last is marked as last, in
  whatever way the request fails or succeeds; only a ping whose size does not fit its length is not answered, nor is a
  message that is refused. So all that a client gets over a connection is one complete answer after the other; if the
  program stops, an answer may be incomplete, and then none of its frames is marked as last.
\<close>

theorem requests_answered:
  assumes net: "network_reliable P" and code: "code_silent P" and ok: "buffers_ok s"
  shows "wp (handle_message P message n)
      (\<lambda>st t. \<exists>fs. sent t = sent s @ fs \<and>
         (if st \<noteq> EFI_SUCCESS \<or> malformed_ping (le_word (slice 4 4 message)) (drop 8 message) (n - 8) then fs = []
          else answer fs))
      (\<lambda>_ t. \<exists>fs. sent t = sent s @ fs \<and> so_far fs) s \<and>
    wp (receive_messages P)
      (\<lambda>_ t. \<exists>as. sent t = sent s @ concat as \<and> list_all answer as)
      (\<lambda>_ t. \<exists>as fs. sent t = sent s @ concat as @ fs \<and> list_all answer as \<and> parts fs) s"
proof
  show "wp (handle_message P message n)
      (\<lambda>st t. \<exists>fs. sent t = sent s @ fs \<and>
         (if st \<noteq> EFI_SUCCESS \<or> malformed_ping (le_word (slice 4 4 message)) (drop 8 message) (n - 8) then fs = []
          else answer fs))
      (\<lambda>_ t. \<exists>fs. sent t = sent s @ fs \<and> so_far fs) s"
    by (rule wp_mono [OF saysD [OF says_handle_message [OF net code] ok]]) (auto simp: answered_def)
  show "wp (receive_messages P)
      (\<lambda>_ t. \<exists>as. sent t = sent s @ concat as \<and> list_all answer as)
      (\<lambda>_ t. \<exists>as fs. sent t = sent s @ concat as @ fs \<and> list_all answer as \<and> parts fs) s"
    by (rule wp_mono [OF wp_receive_messages_answers [OF net code ok]]) auto
qed

lemma requests_answered_witness:
  "code_silent demo_platform \<and>
   wp (handle_message demo_platform (message_bytes MSG_PING [2, 0, 0, 0, 0xAB, 0xCD]) 14)
     (\<lambda>st t. \<exists>fs. sent t = sent demo_state @ fs \<and> (if st \<noteq> EFI_SUCCESS then fs = [] else answer fs))
     (\<lambda>_ t. \<exists>fs. sent t = sent demo_state @ fs \<and> so_far fs) demo_state \<and>
   wp (handle_message demo_platform (message_bytes MSG_PING [3, 0, 0, 0, 0xAB, 0xCD]) 14)
     (\<lambda>_ t. sent t = sent demo_state) (\<lambda>_ t. \<exists>fs. sent t = sent demo_state @ fs \<and> so_far fs) demo_state \<and>
   wp (receive_messages demo_platform)
     (\<lambda>_ t. \<exists>as. sent t = sent demo_state @ concat as \<and> list_all answer as)
     (\<lambda>_ t. \<exists>as fs. sent t = sent demo_state @ concat as @ fs \<and> list_all answer as \<and> parts fs) demo_state"
proof -
  have code: "code_silent demo_platform" by (simp add: code_silent_def demo_platform_def)
  note request = requests_answered [OF demo_network_reliable code demo_buffers_ok]
  have "\<not> malformed_ping (le_word (slice 4 4 (message_bytes MSG_PING [2, 0, 0, 0, 0xAB, 0xCD])))
      (drop 8 (message_bytes MSG_PING [2, 0, 0, 0, 0xAB, 0xCD])) (14 - 8)"
    "malformed_ping (le_word (slice 4 4 (message_bytes MSG_PING [3, 0, 0, 0, 0xAB, 0xCD])))
      (drop 8 (message_bytes MSG_PING [3, 0, 0, 0, 0xAB, 0xCD])) (14 - 8)"
    by code_simp+
  then show ?thesis
    using code request [of "message_bytes MSG_PING [2, 0, 0, 0, 0xAB, 0xCD]" 14]
      request [of "message_bytes MSG_PING [3, 0, 0, 0, 0xAB, 0xCD]" 14]
    by (simp add: if_P if_not_P cong: if_cong)
qed

end
