(* ===== verification/Spec2Isabelle.thy ===== *)
theory Spec2Isabelle
  imports Handle_Ibs Asr Startup Lock_Protocol Async_Jobs Answers
begin

text \<open>
  \<^bold>\<open>AngryUEFI\<close>: a UEFI application that applies microcode updates and runs machine code on chosen cores, as a client on the
  network asks for it. This is a model of all its C and assembly code, with the theorems that say what it does.

  \<^bold>\<open>The program.\<close> \<^verbatim>\<open>AngryUEFI.c\<close> starts the application, accepts one connection after the other and puts messages
  together from what the network delivers; \<^verbatim>\<open>Protocol.c\<close> dispatches a message to its handler and packs responses
  into frames. The handlers (\<^verbatim>\<open>handlers/\<close>) upload microcode and machine code to slots, flip bits in them, apply them, read
  model-specific registers, start cores, report on cores and results, and send recorded events and page tables. The
  boot core runs the handlers. Every other core runs a main loop (\<^verbatim>\<open>handlers/cores.c\<close>) that waits for a job in its context, a
  structure that both sides read and write under a lock; machine code that runs there can call supervisor routines
  (\<^verbatim>\<open>asr/\<close>) that record events. \<^verbatim>\<open>system/\<close> has the fault handlers of the cores, their page tables and the multiprocessor
  services; \<^verbatim>\<open>data/ucode/\<close> the known good updates.

  \<^bold>\<open>How it is modelled.\<close> A function of the program is a computation over the record \<open>state\<close> (theory \<open>Machine\<close>): the globals,
  the heap, the contexts, the arrays on the stack whose address leaves their function, the frames sent so far, and
  where every core is. It returns a value and a new state, or stops: at an access out of bounds, a
  null or wild pointer, a dead stack array, a signed overflow (undefined behaviour of the C code), at a reset or a trap of
  the processor, or in a loop without an end. Integers are words of their width. An early return is a branch, an
  error code a value. Everything that is not under \<^verbatim>\<open>src/\<close> is a parameter: the record \<open>platform\<close> holds the firmware services,
  the instructions of the processor and the machine code that clients send, as functions of an unknown
  world; the record \<open>network\<close> (theory \<open>Startup\<close>) those that only the entry point calls. What is documented of them is a
  named hypothesis of the theorems that need it: \<open>network_reliable\<close>, \<open>stream_documented\<close>, \<open>alloc_pages_documented\<close> and
  \<open>alloc_pool_documented\<close> (an allocation gives the null pointer or a new block), \<open>memory_left\<close> (a number of allocations more will succeed), \<open>startup_documented\<close>, \<open>code_respects\<close> (machine code leaves alone what it is not given). \<open>demo_platform\<close> (theory
  \<open>Example_Platform\<close>), \<open>peer_platform\<close> (\<open>Sessions\<close>) and \<open>demo_network\<close> (\<open>Startup\<close>) satisfy them, and are where the witnesses
  evaluate the theorems.

  \<^bold>\<open>Theories.\<close>
  \<^item> \<open>Prelude\<close>: computations, their weakest preconditions, little-endian codecs (the locale \<open>codec\<close>), buffers. \<open>Bitfields\<close>: the fields
    of C unions. \<open>Machine\<close>: structures, state, platform, memory.
  \<^item> \<open>Protocol\<close>, \<open>Responses\<close>: \<^verbatim>\<open>construct_message\<close>, \<^verbatim>\<open>send_message\<close>, \<^verbatim>\<open>send_status\<close>, the idioms that end a handler. \<open>Debug\<close>:
    \<^verbatim>\<open>handlers/debug.c\<close>.
  \<^item> \<open>Stubs\<close>: \<^verbatim>\<open>stubs.s\<close>. \<open>Faults\<close>: \<^verbatim>\<open>system/fault_handling.c\<close> and its assembly. \<open>Paging\<close>: \<^verbatim>\<open>system/paging.c\<close>; the reduced page
    tables of the other cores map what the given ones map below 4 GiB and nothing else.
  \<^item> \<open>Events\<close>, \<open>Ibs\<close>, \<open>Dsm\<close>, \<open>Handle_Ibs\<close>, \<open>Handle_Dsm\<close>, \<open>Asr\<close>: the recorders of \<^verbatim>\<open>asr/\<close>, their registry, and how recorded events
    are sent: the locale in \<open>Events\<close> is the contract of a recorder, interpreted for both.
  \<^item> \<open>Ucode_Templates\<close>, \<open>Ucode_DB\<close>: the updates byte for byte, and the search for the one of a processor.
  \<^item> \<open>Slots\<close>: the slots of microcode and of machine code, two instances of one locale. \<open>Jobs\<close>, \<open>Cores\<close>, \<open>Core_Protocol\<close>:
    \<^verbatim>\<open>handlers/cores.c\<close> and \<^verbatim>\<open>system/smp.c\<close>; jobs, the main loop with its recovery from faults, the wait for a job.
  \<^item> \<open>Ucode_Execute\<close>: \<^verbatim>\<open>handlers/ucode_execute.c\<close>; \<open>Async_Jobs\<close>: the flow of a job that outlives its
    timeout, queued or under way, as the README has it. \<open>Ucode\<close>, \<open>Msr\<close>, \<open>Ucode_Init\<close>: \<^verbatim>\<open>handlers/ucode.c\<close>.
  \<^item> \<open>Invariant\<close>: a calculus, as locales, of the computations that keep an invariant of the state. \<open>Dispatch\<close>: \<^verbatim>\<open>handle_message\<close>
    and the receiving functions of \<^verbatim>\<open>AngryUEFI.c\<close>. \<open>Sessions\<close>: what a client sees of a connection. \<open>Answers\<close>: a calculus of
    what a computation sends, by which every request gets one complete answer.
  \<^item> \<open>Startup\<close>: \<^verbatim>\<open>UefiMain\<close>, \<^verbatim>\<open>AngryUEFI\<close> and \<^verbatim>\<open>init_smp\<close>. \<open>Lock_Protocol\<close>: the lock of a context at the grain of its accesses.

  \<^bold>\<open>What the theorems show.\<close>
  \<^item> The whole program: \<open>protocol\<close> is the invariant that the arrays have their sizes, the slots are empty or blocks of
    their size, and the phase of each core agrees with the flags and the lock of its context. The loaded image satisfies
    it, and the start, every message and every connection keep it, whatever a client sends.
  \<^item> Connections: a message is handled alike however the network splits its body, and a header that the network splits ends the connection;
    pings are answered in order, all of them or those before the first split header; which messages are refused, and what that means for the
    program.
  \<^item> Answers: whatever a request is and however it ends, its answer is a sequence of frames of which exactly the last is marked
    as last; the answers follow each other on the connection. Only pings with a wrong size are not answered.
  \<^item> Handlers: for each, what it sends and what it changes, on every branch: checks that fail give the status of the first
    one that does, uploads are stored, bits flipped an odd number of times are flipped, jobs run and their
    results are sent, tables and events are sent completely and in order.
  \<^item> Cores: jobs are accepted under the lock, a wait with a timeout ends, queued jobs are executed, whether their client still waits or not, every core
    gets fault handlers of its own, and cores that fault recover.
  \<^item> Where the code fails: overflows of the payload and the receive buffer, reads behind the contexts and slots, page tables of
    4 KiB read as 8 KiB, a stack array that outlives its function, a lock that does not exclude because it is released in two writes, an interrupt
    table whose limit covers 16 vectors, and a double fault that does not lock up the core because its error code stays on the stack.

  \<^bold>\<open>Bounds and fuel.\<close> Loops of the code that may not end (tokens, connections, chunks, \<open>wait_configured\<close>) are
  \<open>while_option\<close>; not ending is the stop \<open>Hang\<close>. The loop that streams events has fuel: the number of its iterations is at
  most the number of events, which the fuel exceeds, and running out of it is proved not to happen. A wait with a timeout
  recurs on the iterations that are left; one without a timeout follows the schedule of the platform and is the stop \<open>Hang\<close>
  when that never finishes the job. Other cores make their steps while the boot core waits, and a step is an
  iteration of the main loop, a job, or the start; the finer interleavings of the lock are in \<open>Lock_Protocol\<close>.

  \<^bold>\<open>Not modelled.\<close> Output to the console and the text that \<^verbatim>\<open>%r\<close>, \<^verbatim>\<open>%u\<close> and the like produce (a parameter). \<^verbatim>\<open>PrintDebug\<close>
  and \<^verbatim>\<open>FormatPrintDebug\<close>, which expand to nothing as \<^verbatim>\<open>ANGRYUEFI_DEBUG\<close> is not defined, and \<^verbatim>\<open>ASSERT_EFI_ERROR\<close>, which
  does in a release build. \<^verbatim>\<open>check_func_status\<close> and \<^verbatim>\<open>close_event\<close> of \<^verbatim>\<open>smp.c\<close>, which nothing calls. What machine code computes,
  and what the processor does with an update. Weak memory ordering between cores. Headers with nothing but prototypes.
\<close>

end
